(* ===== verification/Prelude.thy ===== *)
theory Prelude
  imports Complex_Main
begin

text \<open>
  Shared vocabulary of the development: JSON values, the JavaScript \<open>Map\<close>
  (insertion-ordered, so an association list with distinct keys), the string
  operations the server uses, and a small state-and-exception monad with a
  weakest-precondition calculus for the asynchronous handlers.  JavaScript
  strings are Isabelle \<open>string\<close>s, except in the framing layer where UTF-16
  code units matter.
\<close>

named_theorems js_simps \<open>equations of the JavaScript containers and string helpers\<close>
named_theorems wp_simps \<open>weakest preconditions of the program combinators\<close>

section \<open>JSON values\<close>

datatype json =
    JNull
  | JBool bool
  | JNum rat
  | JStr string
  | JArr "json list"
  | JObj "(string \<times> json) list"

section \<open>The JavaScript Map\<close>

type_synonym ('k, 'v) jsmap = "('k \<times> 'v) list"

definition map_get :: "('k, 'v) jsmap \<Rightarrow> 'k \<Rightarrow> 'v option" where
  "map_get m k = map_of m k"

definition map_has :: "('k, 'v) jsmap \<Rightarrow> 'k \<Rightarrow> bool" where
  "map_has m k = (map_get m k \<noteq> None)"

text \<open>\<open>Map.set\<close> overwrites in place when the key is present, and appends otherwise.\<close>

fun map_set :: "'k \<Rightarrow> 'v \<Rightarrow> ('k, 'v) jsmap \<Rightarrow> ('k, 'v) jsmap" where
  "map_set k v [] = [(k, v)]"
| "map_set k v ((k', v') # m) = (if k' = k then (k, v) # m else (k', v') # map_set k v m)"

definition map_delete :: "'k \<Rightarrow> ('k, 'v) jsmap \<Rightarrow> ('k, 'v) jsmap" where
  "map_delete k m = filter (\<lambda>e. fst e \<noteq> k) m"

text \<open>The loop \<open>for (const [k, v] of m) if (dead v) m.delete(k)\<close>.\<close>

definition map_prune :: "('v \<Rightarrow> bool) \<Rightarrow> ('k, 'v) jsmap \<Rightarrow> ('k, 'v) jsmap" where
  "map_prune dead m = filter (\<lambda>e. \<not> dead (snd e)) m"

definition map_ok :: "('k, 'v) jsmap \<Rightarrow> bool" where
  "map_ok m = distinct (map fst m)"

lemma map_get_empty [simp, js_simps]: "map_get [] k = None"
  by (simp add: map_get_def)

lemma map_get_Cons [js_simps]: "map_get ((k', v) # m) k = (if k' = k then Some v else map_get m k)"
  by (simp add: map_get_def)

lemma map_get_set [simp, js_simps]: "map_get (map_set k v m) = (map_get m)(k \<mapsto> v)"
  by (induction m) (auto simp: map_get_def fun_eq_iff)

lemma map_get_delete [simp, js_simps]: "map_get (map_delete k m) = (map_get m)(k := None)"
  by (induction m) (auto simp: map_get_def map_delete_def fun_eq_iff)

lemma set_keys_map_set: "fst ` set (map_set k v m) = insert k (fst ` set m)"
proof (induction m)
  case Nil
  then show ?case by simp
next
  case (Cons e m)
  then show ?case by (cases e) (simp add: insert_commute)
qed

lemma map_ok_empty [simp]: "map_ok []"
  by (simp add: map_ok_def)

lemma map_ok_set [simp]: "map_ok m \<Longrightarrow> map_ok (map_set k v m)"
proof (induction m)
  case Nil
  then show ?case by (simp add: map_ok_def)
next
  case (Cons e m)
  then show ?case
    by (cases e) (auto simp: map_ok_def set_keys_map_set image_iff split: if_splits)
qed

lemma map_ok_filter [simp]: "map_ok m \<Longrightarrow> map_ok (filter P m)"
  by (simp add: map_ok_def distinct_map_filter)

lemma map_ok_delete [simp]: "map_ok m \<Longrightarrow> map_ok (map_delete k m)"
  by (simp add: map_delete_def)

lemma map_ok_prune [simp]: "map_ok m \<Longrightarrow> map_ok (map_prune d m)"
  by (simp add: map_prune_def)

lemma map_get_in_set: "map_get m k = Some v \<Longrightarrow> (k, v) \<in> set m"
  by (simp add: map_get_def map_of_SomeD)

lemma map_get_prune:
  "map_ok m \<Longrightarrow> map_get (map_prune dead m) k =
     (case map_get m k of None \<Rightarrow> None | Some v \<Rightarrow> if dead v then None else Some v)"
proof (induction m)
  case Nil
  then show ?case by (simp add: map_prune_def)
next
  case (Cons e m)
  obtain k' v' where e: "e = (k', v')" by (cases e)
  have none: "k \<notin> fst ` set m \<Longrightarrow> map_get (map_prune dead m) k = None"
    by (auto simp: map_get_def map_prune_def map_of_eq_None_iff)
  from Cons e none show ?case
    by (auto simp: map_prune_def map_get_Cons map_ok_def split: option.splits)
qed

text \<open>
  The interface the stateful components rely on: a keyed store, and a store whose
  entries carry an expiry and are pruned against the clock.
\<close>

locale keyed_store =
  fixes empty :: 'm
    and get :: "'m \<Rightarrow> 'k \<Rightarrow> 'v option"
    and put :: "'k \<Rightarrow> 'v \<Rightarrow> 'm \<Rightarrow> 'm"
    and del :: "'k \<Rightarrow> 'm \<Rightarrow> 'm"
  assumes get_empty: "get empty k = None"
    and get_put: "get (put k v m) = (get m)(k \<mapsto> v)"
    and get_del: "get (del k m) = (get m)(k := None)"
begin

lemma put_then_get: "get (put k v m) k = Some v"
  by (simp add: get_put)

lemma single_use: "get (del k m) k = None"
  by (simp add: get_del)

lemma del_frame: "k' \<noteq> k \<Longrightarrow> get (del k m) k' = get m k'"
  by (simp add: get_del)

lemma put_frame: "k' \<noteq> k \<Longrightarrow> get (put k v m) k' = get m k'"
  by (simp add: get_put)

lemma del_put_fresh: "get m k = None \<Longrightarrow> get (del k (put k v m)) = get m"
  by (auto simp: get_put get_del)

end

locale expiring_store = keyed_store empty get put del
  for empty :: 'm
    and get :: "'m \<Rightarrow> 'k \<Rightarrow> 'v option"
    and put :: "'k \<Rightarrow> 'v \<Rightarrow> 'm \<Rightarrow> 'm"
    and del :: "'k \<Rightarrow> 'm \<Rightarrow> 'm" +
  fixes wf :: "'m \<Rightarrow> bool"
    and expiry :: "'v \<Rightarrow> int"
    and prune :: "int \<Rightarrow> 'm \<Rightarrow> 'm"
  assumes wf_empty: "wf empty"
    and wf_put: "wf m \<Longrightarrow> wf (put k v m)"
    and wf_del: "wf m \<Longrightarrow> wf (del k m)"
    and wf_prune: "wf m \<Longrightarrow> wf (prune t m)"
    and get_prune: "wf m \<Longrightarrow> get (prune t m) k =
      (case get m k of None \<Rightarrow> None | Some v \<Rightarrow> if expiry v < t then None else Some v)"
begin

lemma prune_live: "wf m \<Longrightarrow> get (prune t m) k = Some v \<Longrightarrow> t \<le> expiry v"
  by (auto simp: get_prune split: option.splits if_splits)

lemma prune_sub: "wf m \<Longrightarrow> get (prune t m) k = Some v \<Longrightarrow> get m k = Some v"
  by (auto simp: get_prune split: option.splits if_splits)

lemma prune_keeps: "wf m \<Longrightarrow> get m k = Some v \<Longrightarrow> t \<le> expiry v \<Longrightarrow> get (prune t m) k = Some v"
  by (simp add: get_prune)

lemma prune_mono:
  "wf m \<Longrightarrow> t \<le> u \<Longrightarrow> get (prune u (prune t m)) k = get (prune u m) k"
  by (auto simp: get_prune wf_prune split: option.splits)

end

section \<open>Strings\<close>

text \<open>\<open>String(n)\<close> for an integer.\<close>

fun nat_str :: "nat \<Rightarrow> string" where
  "nat_str n = (if n < 10 then [char_of (48 + n)] else nat_str (n div 10) @ [char_of (48 + n mod 10)])"

declare nat_str.simps [simp del]

definition int_str :: "int \<Rightarrow> string" where
  "int_str i = (if i < 0 then CHR ''-'' # nat_str (nat (- i)) else nat_str (nat i))"

definition ends_with :: "string \<Rightarrow> string \<Rightarrow> bool" where
  "ends_with s suf = (length suf \<le> length s \<and> drop (length s - length suf) s = suf)"

definition starts_with :: "string \<Rightarrow> string \<Rightarrow> bool" where
  "starts_with s pre = (take (length pre) s = pre)"

text \<open>\<open>toLowerCase\<close> on the ASCII range.\<close>

definition char_lower :: "char \<Rightarrow> char" where
  "char_lower c = (if 65 \<le> (of_char c :: nat) \<and> (of_char c :: nat) \<le> 90
     then char_of ((of_char c :: nat) + 32) else c)"

definition to_lower :: "string \<Rightarrow> string" where
  "to_lower s = map char_lower s"

definition digit :: "char \<Rightarrow> bool" where
  "digit c = (48 \<le> (of_char c :: nat) \<and> (of_char c :: nat) \<le> 57)"

text \<open>Splitting at the first occurrence of a character (\<open>indexOf\<close> and two \<open>slice\<close>s).\<close>

fun split_first :: "char \<Rightarrow> string \<Rightarrow> (string \<times> string) option" where
  "split_first c [] = None"
| "split_first c (x # xs) = (if x = c then Some ([], xs)
     else map_option (\<lambda>(a, b). (x # a, b)) (split_first c xs))"

lemma split_first_append [simp, js_simps]:
  "c \<notin> set a \<Longrightarrow> split_first c (a @ c # b) = Some (a, b)"
  by (induction a) auto

lemma split_first_Some:
  "split_first c s = Some (a, b) \<Longrightarrow> s = a @ c # b \<and> c \<notin> set a"
  by (induction s arbitrary: a b) (auto split: if_splits)

lemma ends_with_append [simp, js_simps]: "ends_with (s @ suf) suf"
  by (simp add: ends_with_def)

lemma ends_with_iff: "ends_with s suf \<longleftrightarrow> (\<exists>p. s = p @ suf)"
  by (auto simp: ends_with_def) (metis append_take_drop_id)

lemma starts_with_iff: "starts_with s pre \<longleftrightarrow> (\<exists>r. s = pre @ r)"
  by (auto simp: starts_with_def) (metis append_take_drop_id)

lemma length_to_lower [simp]: "length (to_lower s) = length s"
  by (simp add: to_lower_def)

lemma nat_str_nonempty: "nat_str n \<noteq> []"
  by (subst nat_str.simps) simp

section \<open>Programs with state and exceptions\<close>

type_synonym ('e, 's, 'a) prog = "'s \<Rightarrow> ('e + 'a) \<times> 's"

definition ret :: "'a \<Rightarrow> ('e, 's, 'a) prog" where
  "ret x = (\<lambda>s. (Inr x, s))"

definition throw :: "'e \<Rightarrow> ('e, 's, 'a) prog" where
  "throw e = (\<lambda>s. (Inl e, s))"

definition bind :: "('e, 's, 'a) prog \<Rightarrow> ('a \<Rightarrow> ('e, 's, 'b) prog) \<Rightarrow> ('e, 's, 'b) prog" where
  "bind m f = (\<lambda>s. case m s of (Inl e, s') \<Rightarrow> (Inl e, s') | (Inr a, s') \<Rightarrow> f a s')"

definition andthen :: "('e, 's, 'a) prog \<Rightarrow> ('e, 's, 'b) prog \<Rightarrow> ('e, 's, 'b) prog" where
  "andthen m n = bind m (\<lambda>_. n)"

definition catching :: "('e, 's, 'a) prog \<Rightarrow> ('e \<Rightarrow> ('e, 's, 'a) prog) \<Rightarrow> ('e, 's, 'a) prog" where
  "catching m h = (\<lambda>s. case m s of (Inl e, s') \<Rightarrow> h e s' | (Inr a, s') \<Rightarrow> (Inr a, s'))"

definition guard :: "bool \<Rightarrow> 'e \<Rightarrow> ('e, 's, unit) prog" where
  "guard b e = (if b then ret () else throw e)"

definition gets :: "('s \<Rightarrow> 'a) \<Rightarrow> ('e, 's, 'a) prog" where
  "gets f = (\<lambda>s. (Inr (f s), s))"

definition modify :: "('s \<Rightarrow> 's) \<Rightarrow> ('e, 's, unit) prog" where
  "modify f = (\<lambda>s. (Inr (), f s))"

text \<open>\<open>wp m Q E s\<close>: run from \<open>s\<close>, a normal result satisfies \<open>Q\<close> and a throw satisfies \<open>E\<close>.\<close>

definition wp ::
  "('e, 's, 'a) prog \<Rightarrow> ('a \<Rightarrow> 's \<Rightarrow> bool) \<Rightarrow> ('e \<Rightarrow> 's \<Rightarrow> bool) \<Rightarrow> 's \<Rightarrow> bool" where
  "wp m Q E s = (case m s of (Inl e, s') \<Rightarrow> E e s' | (Inr a, s') \<Rightarrow> Q a s')"

lemma wp_ret [wp_simps]: "wp (ret x) Q E s = Q x s"
  by (simp add: wp_def ret_def)

lemma wp_throw [wp_simps]: "wp (throw e) Q E s = E e s"
  by (simp add: wp_def throw_def)

lemma wp_bind [wp_simps]: "wp (bind m f) Q E s = wp m (\<lambda>a s'. wp (f a) Q E s') E s"
  by (simp add: wp_def bind_def split: prod.splits sum.splits)

lemma wp_andthen [wp_simps]: "wp (andthen m n) Q E s = wp m (\<lambda>_ s'. wp n Q E s') E s"
  by (simp add: andthen_def wp_bind)

lemma wp_catching [wp_simps]: "wp (catching m h) Q E s = wp m Q (\<lambda>e s'. wp (h e) Q E s') s"
  by (simp add: wp_def catching_def split: prod.splits sum.splits)

lemma wp_guard [wp_simps]: "wp (guard b e) Q E s = (if b then Q () s else E e s)"
  by (simp add: guard_def wp_ret wp_throw)

lemma wp_gets [wp_simps]: "wp (gets f) Q E s = Q (f s) s"
  by (simp add: wp_def gets_def)

lemma wp_modify [wp_simps]: "wp (modify f) Q E s = Q () (f s)"
  by (simp add: wp_def modify_def)

lemma wp_if [wp_simps]: "wp (if b then m else n) Q E s = (if b then wp m Q E s else wp n Q E s)"
  by simp

lemma wp_mono:
  "wp m Q E s \<Longrightarrow> (\<And>a s'. Q a s' \<Longrightarrow> Q' a s') \<Longrightarrow> (\<And>e s'. E e s' \<Longrightarrow> E' e s') \<Longrightarrow> wp m Q' E' s"
  by (auto simp: wp_def split: prod.splits sum.splits)

lemma wpI:
  "(\<And>a s'. m s = (Inr a, s') \<Longrightarrow> Q a s') \<Longrightarrow> (\<And>e s'. m s = (Inl e, s') \<Longrightarrow> E e s') \<Longrightarrow> wp m Q E s"
  by (auto simp: wp_def split: prod.splits sum.splits)

lemma wpD_ok: "wp m Q E s \<Longrightarrow> m s = (Inr a, s') \<Longrightarrow> Q a s'"
  by (simp add: wp_def)

lemma wpD_err: "wp m Q E s \<Longrightarrow> m s = (Inl e, s') \<Longrightarrow> E e s'"
  by (simp add: wp_def)

end
