(* ===== verification/Errors.thy ===== *)
theory Errors
  imports Prelude
begin

text \<open>
  The stable error codes (\<open>packages/schemas/src/errors.ts\<close>), the published limits
  (\<open>packages/schemas/src/limits.ts\<close>) and the normalisation of every thrown value
  into an error payload (\<open>apps/mcp-server/src/errors.ts\<close>).
\<close>

section \<open>Limits\<close>

record limits =
  bridgeFrameBytes :: nat
  mcpResultBytes :: nat
  txnMaxOperations :: nat
  txnMaxAddedModules :: nat
  maxActiveProbes :: nat
  probeMaxHz :: nat
  paramChangesPerSecond :: int
  confirmationLifetimeMs :: int
  commandTimeoutMs :: int
  patchIoTimeoutMs :: int
  txnCommitTimeoutMs :: int
  idempotencyCacheMs :: int
  jsonMaxDepth :: nat
  jsonMaxStringBytes :: nat
  jsonMaxTotalNodes :: nat
  bridgeHeartbeatIntervalMs :: int
  instanceStaleAfterMs :: int
  pumpCommandsPerFrame :: nat
  pumpFrameBudgetMs :: int
  probeWindowMs :: nat
  probeInputsPerModule :: nat

definition PROBE_WINDOW_MS :: nat where
  "PROBE_WINDOW_MS = 50"

definition LIMITS :: limits where
  "LIMITS = \<lparr>
     bridgeFrameBytes = 1 * 1024 * 1024,
     mcpResultBytes = 4 * 1024 * 1024,
     txnMaxOperations = 128,
     txnMaxAddedModules = 32,
     maxActiveProbes = 16,
     probeMaxHz = 1000 div PROBE_WINDOW_MS,
     paramChangesPerSecond = 30,
     confirmationLifetimeMs = 5 * 60 * 1000,
     commandTimeoutMs = 5 * 1000,
     patchIoTimeoutMs = 60 * 1000,
     txnCommitTimeoutMs = 30 * 1000,
     idempotencyCacheMs = 10 * 60 * 1000,
     jsonMaxDepth = 64,
     jsonMaxStringBytes = 256 * 1024,
     jsonMaxTotalNodes = 250000,
     bridgeHeartbeatIntervalMs = 2000,
     instanceStaleAfterMs = 10000,
     pumpCommandsPerFrame = 4,
     pumpFrameBudgetMs = 4,
     probeWindowMs = PROBE_WINDOW_MS,
     probeInputsPerModule = 8\<rparr>"

section \<open>Error codes\<close>

datatype error_code =
    RACK_NOT_FOUND
  | RACK_DISCONNECTED
  | BRIDGE_NOT_READY
  | WRITER_LEASE_REQUIRED
  | AUTHENTICATION_FAILED
  | PROTOCOL_VERSION_MISMATCH
  | STALE_SESSION
  | STALE_PATCH_EPOCH
  | PATCH_CONFLICT
  | MODEL_NOT_INSTALLED
  | MODULE_NOT_FOUND
  | CABLE_NOT_FOUND
  | PARAMETER_NOT_FOUND
  | PORT_NOT_FOUND
  | VALIDATION_FAILED
  | CONFIRMATION_REQUIRED
  | CONFIRMATION_EXPIRED
  | PATH_NOT_ALLOWED
  | TRANSACTION_TOO_LARGE
  | ROLLBACK_FAILED
  | TIMEOUT
  | UNSUPPORTED_OPERATION
  | OPAQUE_STATE_UNSUPPORTED
  | TELEMETRY_UNAVAILABLE
  | BAD_REQUEST
  | RATE_LIMITED
  | LEASE_HELD
  | INSTANCE_NOT_SELECTED
  | RESULT_TOO_LARGE
  | INTERNAL

definition ERROR_CODES :: "error_code list" where
  "ERROR_CODES = [
     RACK_NOT_FOUND, RACK_DISCONNECTED, BRIDGE_NOT_READY,
     WRITER_LEASE_REQUIRED, AUTHENTICATION_FAILED, PROTOCOL_VERSION_MISMATCH,
     STALE_SESSION, STALE_PATCH_EPOCH, PATCH_CONFLICT,
     MODEL_NOT_INSTALLED, MODULE_NOT_FOUND, CABLE_NOT_FOUND,
     PARAMETER_NOT_FOUND, PORT_NOT_FOUND, VALIDATION_FAILED,
     CONFIRMATION_REQUIRED, CONFIRMATION_EXPIRED, PATH_NOT_ALLOWED,
     TRANSACTION_TOO_LARGE, ROLLBACK_FAILED, TIMEOUT,
     UNSUPPORTED_OPERATION, OPAQUE_STATE_UNSUPPORTED, TELEMETRY_UNAVAILABLE,
     BAD_REQUEST, RATE_LIMITED, LEASE_HELD,
     INSTANCE_NOT_SELECTED, RESULT_TOO_LARGE, INTERNAL]"

text \<open>The wire spelling of a code.\<close>

fun code_str :: "error_code \<Rightarrow> string" where
  "code_str RACK_NOT_FOUND = ''RACK_NOT_FOUND''"
| "code_str RACK_DISCONNECTED = ''RACK_DISCONNECTED''"
| "code_str BRIDGE_NOT_READY = ''BRIDGE_NOT_READY''"
| "code_str WRITER_LEASE_REQUIRED = ''WRITER_LEASE_REQUIRED''"
| "code_str AUTHENTICATION_FAILED = ''AUTHENTICATION_FAILED''"
| "code_str PROTOCOL_VERSION_MISMATCH = ''PROTOCOL_VERSION_MISMATCH''"
| "code_str STALE_SESSION = ''STALE_SESSION''"
| "code_str STALE_PATCH_EPOCH = ''STALE_PATCH_EPOCH''"
| "code_str PATCH_CONFLICT = ''PATCH_CONFLICT''"
| "code_str MODEL_NOT_INSTALLED = ''MODEL_NOT_INSTALLED''"
| "code_str MODULE_NOT_FOUND = ''MODULE_NOT_FOUND''"
| "code_str CABLE_NOT_FOUND = ''CABLE_NOT_FOUND''"
| "code_str PARAMETER_NOT_FOUND = ''PARAMETER_NOT_FOUND''"
| "code_str PORT_NOT_FOUND = ''PORT_NOT_FOUND''"
| "code_str VALIDATION_FAILED = ''VALIDATION_FAILED''"
| "code_str CONFIRMATION_REQUIRED = ''CONFIRMATION_REQUIRED''"
| "code_str CONFIRMATION_EXPIRED = ''CONFIRMATION_EXPIRED''"
| "code_str PATH_NOT_ALLOWED = ''PATH_NOT_ALLOWED''"
| "code_str TRANSACTION_TOO_LARGE = ''TRANSACTION_TOO_LARGE''"
| "code_str ROLLBACK_FAILED = ''ROLLBACK_FAILED''"
| "code_str TIMEOUT = ''TIMEOUT''"
| "code_str UNSUPPORTED_OPERATION = ''UNSUPPORTED_OPERATION''"
| "code_str OPAQUE_STATE_UNSUPPORTED = ''OPAQUE_STATE_UNSUPPORTED''"
| "code_str TELEMETRY_UNAVAILABLE = ''TELEMETRY_UNAVAILABLE''"
| "code_str BAD_REQUEST = ''BAD_REQUEST''"
| "code_str RATE_LIMITED = ''RATE_LIMITED''"
| "code_str LEASE_HELD = ''LEASE_HELD''"
| "code_str INSTANCE_NOT_SELECTED = ''INSTANCE_NOT_SELECTED''"
| "code_str RESULT_TOO_LARGE = ''RESULT_TOO_LARGE''"
| "code_str INTERNAL = ''INTERNAL''"

text \<open>\<open>ERROR_CODE_SET.has(code) ? code : "INTERNAL"\<close>\<close>

definition normalizeErrorCode :: "string \<Rightarrow> error_code" where
  "normalizeErrorCode s = (case find (\<lambda>c. code_str c = s) ERROR_CODES of
     Some c \<Rightarrow> c | None \<Rightarrow> INTERNAL)"

record retry_semantics =
  rs_retrySafe :: bool
  rs_mutationMayHaveOccurred :: bool

fun ERROR_DEFAULTS :: "error_code \<Rightarrow> retry_semantics" where
  "ERROR_DEFAULTS RACK_NOT_FOUND = \<lparr>rs_retrySafe = True, rs_mutationMayHaveOccurred = False\<rparr>"
| "ERROR_DEFAULTS RACK_DISCONNECTED = \<lparr>rs_retrySafe = True, rs_mutationMayHaveOccurred = True\<rparr>"
| "ERROR_DEFAULTS BRIDGE_NOT_READY = \<lparr>rs_retrySafe = True, rs_mutationMayHaveOccurred = False\<rparr>"
| "ERROR_DEFAULTS WRITER_LEASE_REQUIRED = \<lparr>rs_retrySafe = True, rs_mutationMayHaveOccurred = False\<rparr>"
| "ERROR_DEFAULTS AUTHENTICATION_FAILED = \<lparr>rs_retrySafe = False, rs_mutationMayHaveOccurred = False\<rparr>"
| "ERROR_DEFAULTS PROTOCOL_VERSION_MISMATCH = \<lparr>rs_retrySafe = False, rs_mutationMayHaveOccurred = False\<rparr>"
| "ERROR_DEFAULTS STALE_SESSION = \<lparr>rs_retrySafe = False, rs_mutationMayHaveOccurred = False\<rparr>"
| "ERROR_DEFAULTS STALE_PATCH_EPOCH = \<lparr>rs_retrySafe = False, rs_mutationMayHaveOccurred = False\<rparr>"
| "ERROR_DEFAULTS PATCH_CONFLICT = \<lparr>rs_retrySafe = False, rs_mutationMayHaveOccurred = False\<rparr>"
| "ERROR_DEFAULTS MODEL_NOT_INSTALLED = \<lparr>rs_retrySafe = False, rs_mutationMayHaveOccurred = False\<rparr>"
| "ERROR_DEFAULTS MODULE_NOT_FOUND = \<lparr>rs_retrySafe = False, rs_mutationMayHaveOccurred = False\<rparr>"
| "ERROR_DEFAULTS CABLE_NOT_FOUND = \<lparr>rs_retrySafe = False, rs_mutationMayHaveOccurred = False\<rparr>"
| "ERROR_DEFAULTS PARAMETER_NOT_FOUND = \<lparr>rs_retrySafe = False, rs_mutationMayHaveOccurred = False\<rparr>"
| "ERROR_DEFAULTS PORT_NOT_FOUND = \<lparr>rs_retrySafe = False, rs_mutationMayHaveOccurred = False\<rparr>"
| "ERROR_DEFAULTS VALIDATION_FAILED = \<lparr>rs_retrySafe = False, rs_mutationMayHaveOccurred = False\<rparr>"
| "ERROR_DEFAULTS CONFIRMATION_REQUIRED = \<lparr>rs_retrySafe = False, rs_mutationMayHaveOccurred = False\<rparr>"
| "ERROR_DEFAULTS CONFIRMATION_EXPIRED = \<lparr>rs_retrySafe = False, rs_mutationMayHaveOccurred = False\<rparr>"
| "ERROR_DEFAULTS PATH_NOT_ALLOWED = \<lparr>rs_retrySafe = False, rs_mutationMayHaveOccurred = False\<rparr>"
| "ERROR_DEFAULTS TRANSACTION_TOO_LARGE = \<lparr>rs_retrySafe = False, rs_mutationMayHaveOccurred = False\<rparr>"
| "ERROR_DEFAULTS ROLLBACK_FAILED = \<lparr>rs_retrySafe = False, rs_mutationMayHaveOccurred = True\<rparr>"
| "ERROR_DEFAULTS TIMEOUT = \<lparr>rs_retrySafe = False, rs_mutationMayHaveOccurred = True\<rparr>"
| "ERROR_DEFAULTS UNSUPPORTED_OPERATION = \<lparr>rs_retrySafe = False, rs_mutationMayHaveOccurred = False\<rparr>"
| "ERROR_DEFAULTS OPAQUE_STATE_UNSUPPORTED = \<lparr>rs_retrySafe = False, rs_mutationMayHaveOccurred = False\<rparr>"
| "ERROR_DEFAULTS TELEMETRY_UNAVAILABLE = \<lparr>rs_retrySafe = True, rs_mutationMayHaveOccurred = False\<rparr>"
| "ERROR_DEFAULTS BAD_REQUEST = \<lparr>rs_retrySafe = False, rs_mutationMayHaveOccurred = False\<rparr>"
| "ERROR_DEFAULTS RATE_LIMITED = \<lparr>rs_retrySafe = True, rs_mutationMayHaveOccurred = False\<rparr>"
| "ERROR_DEFAULTS LEASE_HELD = \<lparr>rs_retrySafe = True, rs_mutationMayHaveOccurred = False\<rparr>"
| "ERROR_DEFAULTS INSTANCE_NOT_SELECTED = \<lparr>rs_retrySafe = True, rs_mutationMayHaveOccurred = False\<rparr>"
| "ERROR_DEFAULTS RESULT_TOO_LARGE = \<lparr>rs_retrySafe = False, rs_mutationMayHaveOccurred = False\<rparr>"
| "ERROR_DEFAULTS INTERNAL = \<lparr>rs_retrySafe = False, rs_mutationMayHaveOccurred = True\<rparr>"

lemma ERROR_CODES_complete: "c \<in> set ERROR_CODES"
  by (cases c) (simp_all add: ERROR_CODES_def)

lemma distinct_code_str: "distinct (map code_str ERROR_CODES)"
  by (simp add: ERROR_CODES_def)

lemma code_str_inj: "code_str c = code_str d \<Longrightarrow> c = d"
  by (metis ERROR_CODES_complete distinct_code_str distinct_map inj_onD)

text \<open>Codes are ordered by their position in the published list, which is append-only.\<close>

fun code_index :: "error_code \<Rightarrow> nat" where
  "code_index RACK_NOT_FOUND = 0"
| "code_index RACK_DISCONNECTED = 1"
| "code_index BRIDGE_NOT_READY = 2"
| "code_index WRITER_LEASE_REQUIRED = 3"
| "code_index AUTHENTICATION_FAILED = 4"
| "code_index PROTOCOL_VERSION_MISMATCH = 5"
| "code_index STALE_SESSION = 6"
| "code_index STALE_PATCH_EPOCH = 7"
| "code_index PATCH_CONFLICT = 8"
| "code_index MODEL_NOT_INSTALLED = 9"
| "code_index MODULE_NOT_FOUND = 10"
| "code_index CABLE_NOT_FOUND = 11"
| "code_index PARAMETER_NOT_FOUND = 12"
| "code_index PORT_NOT_FOUND = 13"
| "code_index VALIDATION_FAILED = 14"
| "code_index CONFIRMATION_REQUIRED = 15"
| "code_index CONFIRMATION_EXPIRED = 16"
| "code_index PATH_NOT_ALLOWED = 17"
| "code_index TRANSACTION_TOO_LARGE = 18"
| "code_index ROLLBACK_FAILED = 19"
| "code_index TIMEOUT = 20"
| "code_index UNSUPPORTED_OPERATION = 21"
| "code_index OPAQUE_STATE_UNSUPPORTED = 22"
| "code_index TELEMETRY_UNAVAILABLE = 23"
| "code_index BAD_REQUEST = 24"
| "code_index RATE_LIMITED = 25"
| "code_index LEASE_HELD = 26"
| "code_index INSTANCE_NOT_SELECTED = 27"
| "code_index RESULT_TOO_LARGE = 28"
| "code_index INTERNAL = 29"

lemma code_index_nth: "code_index c < length ERROR_CODES \<and> ERROR_CODES ! code_index c = c"
  by (cases c) (simp_all add: ERROR_CODES_def)

lemma code_index_inj: "code_index c = code_index d \<Longrightarrow> c = d"
  by (metis code_index_nth)

instantiation error_code :: linorder
begin
definition less_eq_error_code :: "error_code \<Rightarrow> error_code \<Rightarrow> bool" where
  "less_eq_error_code c d = (code_index c \<le> code_index d)"
definition less_error_code :: "error_code \<Rightarrow> error_code \<Rightarrow> bool" where
  "less_error_code c d = (code_index c < code_index d)"
instance
  by standard (auto simp: less_eq_error_code_def less_error_code_def dest: code_index_inj)
end

section \<open>Thrown values\<close>

datatype rolled_back = Complete | Indeterminate

record rollback_report =
  rb_rolledBack :: rolled_back
  rb_failedOperationIndex :: nat
  rb_inversesExecuted :: nat
  rb_detail :: string

type_synonym details = "(string \<times> json) list"

text \<open>\<open>ToolError\<close>: raised by this server.\<close>

record toolError =
  te_code :: error_code
  te_message :: string
  te_retrySafe :: bool
  te_mutationMayHaveOccurred :: bool
  te_details :: "details option"

text \<open>
  \<open>BridgeRequestError.rpcError\<close>: what the plugin (or the bridge client) reported.  It
  crosses the wire unvalidated, so its code is any string.
\<close>

record rpc_error =
  rpc_code :: string
  rpc_message :: string
  rpc_retrySafe :: bool
  rpc_mutationMayHaveOccurred :: bool
  rpc_details :: "details option"
  rpc_rollback :: "rollback_report option"

datatype exn =
    ToolErr toolError
  | BridgeErr rpc_error
  | PlainErr string

text \<open>\<open>new ToolError(code, message)\<close> with the constructor's defaults.\<close>

definition tool_error :: "error_code \<Rightarrow> string \<Rightarrow> exn" where
  "tool_error c m = ToolErr \<lparr>te_code = c, te_message = m, te_retrySafe = False,
     te_mutationMayHaveOccurred = False, te_details = None\<rparr>"

definition tool_error_retry :: "error_code \<Rightarrow> string \<Rightarrow> bool \<Rightarrow> exn" where
  "tool_error_retry c m r = ToolErr \<lparr>te_code = c, te_message = m, te_retrySafe = r,
     te_mutationMayHaveOccurred = False, te_details = None\<rparr>"

record error_payload =
  ep_code :: error_code
  ep_message :: string
  ep_retrySafe :: bool
  ep_mutationMayHaveOccurred :: bool
  ep_details :: "details option"
  ep_rollback :: "rollback_report option"

definition MAX_MESSAGE :: nat where
  "MAX_MESSAGE = 4096"

definition TRUNCATION_MARK :: string where
  "TRUNCATION_MARK = ''... [truncated]''"

definition clampMessage :: "string \<Rightarrow> string" where
  "clampMessage m = (if length m \<le> MAX_MESSAGE then m
     else take (MAX_MESSAGE - length TRUNCATION_MARK) m @ TRUNCATION_MARK)"

fun toErrorPayload :: "exn \<Rightarrow> error_payload" where
  "toErrorPayload (ToolErr e) = \<lparr>ep_code = te_code e, ep_message = clampMessage (te_message e),
     ep_retrySafe = te_retrySafe e,
     ep_mutationMayHaveOccurred = te_mutationMayHaveOccurred e,
     ep_details = te_details e, ep_rollback = None\<rparr>"
| "toErrorPayload (BridgeErr e) = \<lparr>ep_code = normalizeErrorCode (rpc_code e),
     ep_message = clampMessage (rpc_message e),
     ep_retrySafe = rpc_retrySafe e,
     ep_mutationMayHaveOccurred = rpc_mutationMayHaveOccurred e,
     ep_details = rpc_details e, ep_rollback = rpc_rollback e\<rparr>"
| "toErrorPayload (PlainErr m) = \<lparr>ep_code = INTERNAL, ep_message = clampMessage m,
     ep_retrySafe = False, ep_mutationMayHaveOccurred = False,
     ep_details = None, ep_rollback = None\<rparr>"

text \<open>The published schema of an error payload: \<open>RackMcpError\<close> and \<open>RollbackReport\<close>.\<close>

definition rollback_ok :: "rollback_report \<Rightarrow> bool" where
  "rollback_ok r = (length (rb_detail r) \<le> 4096)"

definition payload_ok :: "error_payload \<Rightarrow> bool" where
  "payload_ok p = (ep_code p \<in> set ERROR_CODES \<and> length (ep_message p) \<le> 4096 \<and>
     (case ep_rollback p of None \<Rightarrow> True | Some r \<Rightarrow> rollback_ok r))"

lemma find_code: "find (\<lambda>d. code_str d = code_str c) ERROR_CODES = Some c"
proof -
  have "find (\<lambda>d. code_str d = code_str c) ERROR_CODES \<noteq> None"
    using ERROR_CODES_complete [of c] by (auto simp: find_None_iff)
  then obtain d where d: "find (\<lambda>d. code_str d = code_str c) ERROR_CODES = Some d"
    by auto
  then have "code_str d = code_str c" by (auto simp: find_Some_iff)
  with d show ?thesis by (auto dest: code_str_inj)
qed

lemma normalize_known [simp]: "normalizeErrorCode (code_str c) = c"
  by (simp add: normalizeErrorCode_def find_code)

lemma normalize_unknown: "(\<And>c. s \<noteq> code_str c) \<Longrightarrow> normalizeErrorCode s = INTERNAL"
  by (auto simp: normalizeErrorCode_def find_Some_iff split: option.split)

lemma clamp_length: "length (clampMessage m) \<le> 4096"
  by (simp add: clampMessage_def MAX_MESSAGE_def TRUNCATION_MARK_def)

lemma clamp_id: "length m \<le> 4096 \<Longrightarrow> clampMessage m = m"
  by (simp add: clampMessage_def MAX_MESSAGE_def)

lemma clamp_prefix: "take 4081 (clampMessage m) = take 4081 m"
  by (simp add: clampMessage_def MAX_MESSAGE_def TRUNCATION_MARK_def)

lemma toErrorPayload_code_tool [simp]: "ep_code (toErrorPayload (tool_error c m)) = c"
  by (simp add: tool_error_def)

lemma toErrorPayload_code_retry [simp]: "ep_code (toErrorPayload (tool_error_retry c m r)) = c"
  by (simp add: tool_error_retry_def)

section \<open>Properties\<close>

text \<open>Whatever is thrown, the error payload handed to the client satisfies the
  published error schema (a code of the closed list, a message of at most 4096
  characters), provided a rollback report that came over the bridge satisfies its own
  schema; and a message already within the bound is passed on unchanged.\<close>

theorem error_payload_schema:
  assumes "\<And>r. e = BridgeErr r \<Longrightarrow> case rpc_rollback r of None \<Rightarrow> True | Some b \<Rightarrow> rollback_ok b"
  shows "payload_ok (toErrorPayload e)"
proof (cases e)
  case (ToolErr t)
  then show ?thesis by (simp add: payload_ok_def clamp_length ERROR_CODES_complete)
next
  case (BridgeErr r)
  with assms show ?thesis by (simp add: payload_ok_def clamp_length ERROR_CODES_complete)
next
  case (PlainErr m)
  then show ?thesis by (simp add: payload_ok_def clamp_length ERROR_CODES_complete)
qed

theorem error_payload_schema_witness:
  "payload_ok (toErrorPayload (BridgeErr \<lparr>rpc_code = ''NEW_CODE'', rpc_message = ''m'',
     rpc_retrySafe = False, rpc_mutationMayHaveOccurred = True, rpc_details = None,
     rpc_rollback = Some \<lparr>rb_rolledBack = Complete, rb_failedOperationIndex = 2,
       rb_inversesExecuted = 3, rb_detail = ''d''\<rparr>\<rparr>))"
  by (rule error_payload_schema) (auto simp: rollback_ok_def)

text \<open>The bridge hop loses nothing a client steers by: a known code survives with its
  spelling, an unknown one becomes INTERNAL, and the retry flag, the mutation flag, the
  details and the rollback report are passed through unchanged.\<close>

theorem bridge_error_passthrough:
  "let p = toErrorPayload (BridgeErr r) in
     ep_rollback p = rpc_rollback r \<and> ep_details p = rpc_details r \<and>
     ep_retrySafe p = rpc_retrySafe r \<and>
     ep_mutationMayHaveOccurred p = rpc_mutationMayHaveOccurred r \<and>
     (if rpc_code r \<in> code_str ` UNIV then code_str (ep_code p) = rpc_code r
      else ep_code p = INTERNAL)"
proof (cases "rpc_code r \<in> code_str ` UNIV")
  case True
  then obtain c where "rpc_code r = code_str c" by auto
  with True show ?thesis by (simp add: Let_def)
next
  case False
  then have "normalizeErrorCode (rpc_code r) = INTERNAL"
    by (intro normalize_unknown) auto
  with False show ?thesis by (simp add: Let_def)
qed

end
