(* ===== verification/RateLimit.thy ===== *)
theory RateLimit
  imports Errors
begin

text \<open>
  The sliding-window limiter on parameter changes
  (\<open>apps/mcp-server/src/ratelimit.ts\<close>).  The state is the list of admission
  timestamps still held.  \<open>admit\<close> reads the clock up to three times (for the cutoff,
  for the retry hint, and for the recorded timestamp), so the model takes three
  readings.
\<close>

record limiter =
  rlimit :: int
  windowMs :: int
  hits :: "int list"

definition new_limiter :: limiter where
  "new_limiter = \<lparr>rlimit = paramChangesPerSecond LIMITS, windowMs = 1000, hits = []\<rparr>"

definition retry_hint :: "int \<Rightarrow> int list \<Rightarrow> int \<Rightarrow> int" where
  "retry_hint w hs now = (case hs of [] \<Rightarrow> 1 | h # _ \<Rightarrow> max 1 (h + w - now))"

definition rate_limited :: "limiter \<Rightarrow> int \<Rightarrow> int \<Rightarrow> exn" where
  "rate_limited l count retryInMs = ToolErr \<lparr>te_code = RATE_LIMITED,
     te_message = ''parameter changes are limited to '' @ int_str (rlimit l) @
       '' per second; this request would make '' @ int_str (int (length (hits l)) + count) @
       ''. Retry in about '' @ int_str retryInMs @ '' ms.'',
     te_retrySafe = True, te_mutationMayHaveOccurred = False,
     te_details = Some [(''limit'', JNum (of_int (rlimit l))),
       (''windowMs'', JNum (of_int (windowMs l))), (''retryInMs'', JNum (of_int retryInMs))]\<rparr>"

definition admit :: "int \<Rightarrow> int \<Rightarrow> int \<Rightarrow> int \<Rightarrow> limiter \<Rightarrow> (exn + unit) \<times> limiter" where
  "admit t1 t2 t3 count l =
     (if count \<le> 0 \<or> rlimit l \<le> 0 then (Inr (), l)
      else
        let cutoff = t1 - windowMs l;
            l' = l\<lparr>hits := dropWhile (\<lambda>h. h \<le> cutoff) (hits l)\<rparr>
        in if int (length (hits l')) + count > rlimit l'
           then (Inl (rate_limited l' count (retry_hint (windowMs l') (hits l') t2)), l')
           else (Inr (), l'\<lparr>hits := hits l' @ replicate (nat count) t3\<rparr>))"

section \<open>Runs and the history of admitted changes\<close>

text \<open>
  A request to the limiter is its three clock readings and its count.  A run feeds
  requests in order and collects the timestamps of every change ever admitted, the
  ones already shifted out of the window included.
\<close>

record request =
  rq_t1 :: int
  rq_t2 :: int
  rq_t3 :: int
  rq_count :: int

definition admit_rq :: "request \<Rightarrow> limiter \<Rightarrow> (exn + unit) \<times> limiter" where
  "admit_rq r l = admit (rq_t1 r) (rq_t2 r) (rq_t3 r) (rq_count r) l"

definition admitted :: "limiter \<Rightarrow> request \<Rightarrow> int list" where
  "admitted l r = (case fst (admit_rq r l) of
     Inl _ \<Rightarrow> [] | Inr _ \<Rightarrow> if rlimit l \<le> 0 then [] else replicate (nat (rq_count r)) (rq_t3 r))"

fun run_limiter :: "request list \<Rightarrow> limiter \<Rightarrow> int list \<times> limiter" where
  "run_limiter [] l = ([], l)"
| "run_limiter (r # rs) l = (let (H, l') = run_limiter rs (snd (admit_rq r l))
     in (admitted l r @ H, l'))"

text \<open>The clock never runs backwards along a run.\<close>

fun clock_ok :: "int \<Rightarrow> request list \<Rightarrow> bool" where
  "clock_ok t [] = True"
| "clock_ok t (r # rs) = (t \<le> rq_t1 r \<and> rq_t1 r \<le> rq_t3 r \<and> clock_ok (rq_t3 r) rs)"

section \<open>The window invariant\<close>

text \<open>
  \<open>spaced n w H\<close>: any element and the one \<open>n\<close> places later are at least \<open>w\<close> apart,
  which bounds the number of elements in every half-open window of length \<open>w\<close>.
\<close>

definition spaced :: "nat \<Rightarrow> int \<Rightarrow> int list \<Rightarrow> bool" where
  "spaced n w H = (\<forall>i. i + n < length H \<longrightarrow> H ! i + w \<le> H ! (i + n))"

definition window_count :: "int \<Rightarrow> int \<Rightarrow> int list \<Rightarrow> nat" where
  "window_count x w H = length (filter (\<lambda>h. x \<le> h \<and> h < x + w) H)"

lemma sorted_window_block:
  assumes "sorted H"
  shows "\<exists>a b c. H = a @ b @ c \<and> filter (\<lambda>h. x \<le> h \<and> h < (y::int)) H = b"
proof -
  let ?a = "takeWhile (\<lambda>h. h < x) H" and ?r = "dropWhile (\<lambda>h. h < x) H"
  let ?b = "takeWhile (\<lambda>h. h < y) ?r" and ?c = "dropWhile (\<lambda>h. h < y) ?r"
  have sr: "sorted ?r" using assms by (simp add: sorted_dropWhile)
  have ge: "\<forall>h \<in> set ?r. x \<le> h"
  proof (cases ?r)
    case (Cons h t)
    then have "\<not> h < x" by (metis hd_dropWhile list.distinct(1) list.sel(1))
    with sr Cons show ?thesis by auto
  next
    case Nil
    show ?thesis by (simp only: Nil) simp
  qed
  have gec: "\<forall>h \<in> set ?c. y \<le> h"
  proof (cases ?c)
    case (Cons h t)
    then have "\<not> h < y" by (metis hd_dropWhile list.distinct(1) list.sel(1))
    moreover have "sorted ?c" using sr by (simp add: sorted_dropWhile)
    ultimately show ?thesis using Cons by auto
  next
    case Nil
    show ?thesis by (simp only: Nil) simp
  qed
  have fa: "filter (\<lambda>h. x \<le> h \<and> h < y) ?a = []"
    by (auto simp: filter_empty_conv dest: set_takeWhileD)
  have fc: "filter (\<lambda>h. x \<le> h \<and> h < y) ?c = []"
    using gec by (fastforce simp: filter_empty_conv)
  have fb: "filter (\<lambda>h. x \<le> h \<and> h < y) ?b = ?b"
    using ge by (auto simp: filter_id_conv dest: set_takeWhileD)
  have H: "H = ?a @ ?b @ ?c" by simp
  have "filter (\<lambda>h. x \<le> h \<and> h < y) (?a @ ?b @ ?c) = ?b"
    by (simp only: filter_append fa fb fc append_Nil append_Nil2)
  with H show ?thesis by metis
qed

lemma spaced_window:
  assumes "sorted H" and "spaced n w H"
  shows "window_count x w H \<le> n"
proof (rule ccontr)
  assume "\<not> window_count x w H \<le> n"
  moreover obtain a b c where H: "H = a @ b @ c"
    and f: "filter (\<lambda>h. x \<le> h \<and> h < x + w) H = b"
    using sorted_window_block [OF assms(1)] by blast
  ultimately have n: "n < length b" by (simp only: window_count_def f not_le)
  have in_b: "x \<le> h \<and> h < x + w" if "h \<in> set b" for h
    using that f by (metis (mono_tags, lifting) mem_Collect_eq set_filter)
  have "length a + n < length H" using H n by simp
  then have "H ! length a + w \<le> H ! (length a + n)"
    using assms(2) by (simp add: spaced_def)
  moreover have "H ! length a = b ! 0" and "H ! (length a + n) = b ! n"
    using H n nth_append [of b c 0] nth_append [of b c n] by (auto simp: nth_append [of a])
  ultimately have "b ! 0 + w \<le> b ! n" by simp
  moreover have "b ! 0 \<in> set b" and "b ! n \<in> set b"
    using n by (auto intro!: nth_mem)
  ultimately show False using in_b [of "b ! 0"] in_b [of "b ! n"] by simp
qed

text \<open>
  The relation between the whole history \<open>H\<close> and the held timestamps: the history is
  the shifted-out part followed by what is held; it is sorted, spaced and not in the
  future, and everything shifted out is at least a window old.
\<close>

definition lim_inv :: "int \<Rightarrow> int list \<Rightarrow> limiter \<Rightarrow> bool" where
  "lim_inv t H l = (sorted H \<and> (\<forall>h \<in> set H. h \<le> t) \<and> 0 < rlimit l \<and> 0 \<le> windowMs l \<and>
     spaced (nat (rlimit l)) (windowMs l) H \<and>
     (\<exists>D. H = D @ hits l \<and> (\<forall>d \<in> set D. d + windowMs l \<le> t)))"

lemma spaced_append:
  assumes old: "spaced n w (D @ K)" and aged: "\<forall>d \<in> set D. d + w \<le> t"
    and room: "length K + c \<le> n"
  shows "spaced n w (D @ K @ replicate c t)"
  unfolding spaced_def
proof (intro allI impI)
  let ?H = "D @ K @ replicate c t"
  fix i assume i: "i + n < length ?H"
  show "?H ! i + w \<le> ?H ! (i + n)"
  proof (cases "i + n < length (D @ K)")
    case True
    then have "(D @ K) ! i + w \<le> (D @ K) ! (i + n)" using old by (simp add: spaced_def)
    moreover have "?H ! i = (D @ K) ! i" "?H ! (i + n) = (D @ K) ! (i + n)"
      using True nth_append [of "D @ K" "replicate c t"] by auto
    ultimately show ?thesis by simp
  next
    case False
    then have "?H ! (i + n) = t"
      using i nth_append [of "D @ K" "replicate c t" "i + n"] by simp
    moreover have iD: "i < length D" using i room by simp
    then have "?H ! i \<in> set D" by (simp add: nth_append)
    ultimately show ?thesis using aged by simp
  qed
qed

lemma sorted_append_replicate:
  "sorted H \<Longrightarrow> \<forall>h \<in> set H. h \<le> t \<Longrightarrow> sorted (H @ replicate c (t::int))"
  by (auto simp: sorted_append)

lemma lim_inv_shift:
  assumes inv: "lim_inv t H l" and le: "t \<le> t1"
  shows "lim_inv t1 H (l\<lparr>hits := dropWhile (\<lambda>h. h \<le> t1 - windowMs l) (hits l)\<rparr>)"
proof -
  from inv obtain D where D: "H = D @ hits l" "\<forall>d \<in> set D. d + windowMs l \<le> t"
    by (auto simp: lim_inv_def)
  let ?T = "takeWhile (\<lambda>h. h \<le> t1 - windowMs l) (hits l)"
  have "H = (D @ ?T) @ dropWhile (\<lambda>h. h \<le> t1 - windowMs l) (hits l)"
    using D(1) by simp
  moreover have "\<forall>d \<in> set (D @ ?T). d + windowMs l \<le> t1"
    using D(2) le by (auto dest!: set_takeWhileD)
  ultimately show ?thesis
    using inv le unfolding lim_inv_def by fastforce
qed

lemma lim_inv_push:
  assumes inv: "lim_inv t1 H l" and le: "t1 \<le> t3" and room: "int (length (hits l)) + count \<le> rlimit l"
    and pos: "0 \<le> count"
  shows "lim_inv t3 (H @ replicate (nat count) t3) (l\<lparr>hits := hits l @ replicate (nat count) t3\<rparr>)"
proof -
  from inv obtain D where D: "H = D @ hits l" "\<forall>d \<in> set D. d + windowMs l \<le> t1"
    by (auto simp: lim_inv_def)
  have "spaced (nat (rlimit l)) (windowMs l) (D @ hits l @ replicate (nat count) t3)"
    using inv D le room pos by (intro spaced_append) (auto simp: lim_inv_def)
  moreover have "sorted (H @ replicate (nat count) t3)"
    using inv le by (intro sorted_append_replicate) (auto simp: lim_inv_def)
  moreover have "\<forall>h \<in> set (H @ replicate (nat count) t3). h \<le> t3"
    using inv le by (fastforce simp: lim_inv_def)
  moreover have "\<forall>d \<in> set D. d + windowMs l \<le> t3"
    using D(2) le by fastforce
  ultimately show ?thesis
    using inv D(1) unfolding lim_inv_def by simp
qed

lemma admit_rq_inv:
  assumes inv: "lim_inv t H l" and le: "t \<le> rq_t1 r" "rq_t1 r \<le> rq_t3 r"
  shows "lim_inv (rq_t3 r) (H @ admitted l r) (snd (admit_rq r l))"
proof -
  define l' where "l' = l\<lparr>hits := dropWhile (\<lambda>h. h \<le> rq_t1 r - windowMs l) (hits l)\<rparr>"
  have l': "lim_inv (rq_t1 r) H l'"
    unfolding l'_def using inv le(1) by (rule lim_inv_shift)
  have lift: "lim_inv u H k \<Longrightarrow> u \<le> v \<Longrightarrow> lim_inv v H k" for u v k
    unfolding lim_inv_def by fastforce
  have pos: "0 < rlimit l" using inv by (simp add: lim_inv_def)
  show ?thesis
  proof (cases "rq_count r \<le> 0")
    case True
    then show ?thesis
      using lift [OF inv] le by (simp add: admitted_def admit_rq_def admit_def)
  next
    case False
    show ?thesis
    proof (cases "int (length (hits l')) + rq_count r > rlimit l'")
      case True
      then show ?thesis
        using False pos lift [OF l' le(2)]
        by (simp add: admitted_def admit_rq_def admit_def Let_def l'_def)
    next
      case room: False
      then have "lim_inv (rq_t3 r) (H @ replicate (nat (rq_count r)) (rq_t3 r))
          (l'\<lparr>hits := hits l' @ replicate (nat (rq_count r)) (rq_t3 r)\<rparr>)"
        using False le(2) l' by (intro lim_inv_push [of "rq_t1 r"]) auto
      then show ?thesis
        using False room pos
        by (simp add: admitted_def admit_rq_def admit_def Let_def l'_def)
    qed
  qed
qed

lemma run_limiter_inv:
  "lim_inv t H l \<Longrightarrow> clock_ok t rs \<Longrightarrow>
     \<exists>u. lim_inv u (H @ fst (run_limiter rs l)) (snd (run_limiter rs l))"
proof (induction rs arbitrary: t H l)
  case Nil
  then show ?case by auto
next
  case (Cons r rs)
  then have "lim_inv (rq_t3 r) (H @ admitted l r) (snd (admit_rq r l))"
    by (intro admit_rq_inv) auto
  from Cons.IH [OF this] Cons.prems show ?case
    by (auto simp: split_beta Let_def)
qed

lemma lim_inv_new:
  "0 < n \<Longrightarrow> 0 \<le> w \<Longrightarrow> lim_inv t [] \<lparr>rlimit = n, windowMs = w, hits = []\<rparr>"
  by (simp add: lim_inv_def spaced_def)

text \<open>The held timestamps never outnumber the limit.\<close>

lemma admit_bounded:
  assumes "int (length (hits l)) \<le> max 0 (rlimit l)"
  shows "int (length (hits (snd (admit t1 t2 t3 c l)))) \<le> max 0 (rlimit l)"
proof -
  have "length (dropWhile (\<lambda>h. h \<le> t1 - windowMs l) (hits l)) \<le> length (hits l)"
    by (rule length_dropWhile_le)
  then show ?thesis using assms by (auto simp: admit_def Let_def)
qed

section \<open>Properties\<close>

text \<open>Over any run of requests under a clock that does not go backwards, starting from
  an empty limiter, every half-open window of length \<open>windowMs\<close> contains at most
  \<open>limit\<close> admitted parameter changes (no burst of twice the limit across a boundary).\<close>

theorem limiter_window_bound:
  assumes "0 < n" and "0 \<le> w" and "clock_ok t rs"
  shows "int (window_count x w (fst (run_limiter rs \<lparr>rlimit = n, windowMs = w, hits = []\<rparr>))) \<le> n"
proof -
  let ?l = "\<lparr>rlimit = n, windowMs = w, hits = []\<rparr>"
  have lims: "rlimit (snd (admit_rq r l)) = rlimit l \<and> windowMs (snd (admit_rq r l)) = windowMs l" for r l
    by (simp add: admit_rq_def admit_def Let_def)
  have keep: "rlimit (snd (run_limiter rs l)) = rlimit l \<and> windowMs (snd (run_limiter rs l)) = windowMs l" for l
    by (induction rs arbitrary: l) (auto simp: split_beta Let_def lims)
  obtain u where u: "lim_inv u ([] @ fst (run_limiter rs ?l)) (snd (run_limiter rs ?l))"
    using run_limiter_inv [OF lim_inv_new [OF assms(1,2)] assms(3)] by blast
  then have "window_count x w (fst (run_limiter rs ?l)) \<le> nat n"
    using keep [of ?l] by (intro spaced_window) (auto simp: lim_inv_def)
  then show ?thesis using assms(1) by simp
qed

theorem limiter_window_bound_witness:
  "int (window_count 0 1000 (fst (run_limiter
     [\<lparr>rq_t1 = 0, rq_t2 = 0, rq_t3 = 0, rq_count = 20\<rparr>,
      \<lparr>rq_t1 = 5, rq_t2 = 5, rq_t3 = 6, rq_count = 10\<rparr>,
      \<lparr>rq_t1 = 9, rq_t2 = 9, rq_t3 = 9, rq_count = 1\<rparr>]
     \<lparr>rlimit = 30, windowMs = 1000, hits = []\<rparr>))) \<le> 30"
  by (rule limiter_window_bound [where t = 0]) simp_all

text \<open>Admission is all-or-nothing and total: a rejected request records nothing (the
  held timestamps are exactly the ones still inside the window), reports RATE_LIMITED as
  retry-safe with no mutation, and is rejected only when the changes still inside the
  window together with the new ones exceed the limit; an accepted one records all of
  its changes at one timestamp.\<close>

theorem admit_all_or_nothing:
  assumes "0 < count" and "0 < rlimit l"
  shows "let live = dropWhile (\<lambda>h. h \<le> t1 - windowMs l) (hits l) in
     case admit t1 t2 t3 count l of
       (Inr (), l') \<Rightarrow> int (length live) + count \<le> rlimit l \<and> hits l' = live @ replicate (nat count) t3
     | (Inl e, l') \<Rightarrow> int (length live) + count > rlimit l \<and> hits l' = live \<and>
         ep_code (toErrorPayload e) = RATE_LIMITED \<and> ep_retrySafe (toErrorPayload e) \<and>
         \<not> ep_mutationMayHaveOccurred (toErrorPayload e)"
proof (cases "rlimit l < int (length (dropWhile (\<lambda>h. h \<le> t1 - windowMs l) (hits l))) + count")
  case True
  with assms show ?thesis by (simp add: admit_def Let_def rate_limited_def)
next
  case False
  with assms show ?thesis by (simp add: admit_def Let_def split: unit.split)
qed

definition sample_limiter :: limiter where
  "sample_limiter = \<lparr>rlimit = 2, windowMs = 1000, hits = [0, 500]\<rparr>"

theorem admit_all_or_nothing_witness:
  "let live = dropWhile (\<lambda>h. h \<le> 1200 - windowMs sample_limiter) (hits sample_limiter) in
     case admit 1200 1200 1200 2 sample_limiter of
       (Inr (), l') \<Rightarrow> int (length live) + 2 \<le> rlimit sample_limiter \<and>
         hits l' = live @ replicate (nat 2) 1200
     | (Inl e, l') \<Rightarrow> int (length live) + 2 > rlimit sample_limiter \<and> hits l' = live \<and>
         ep_code (toErrorPayload e) = RATE_LIMITED \<and> ep_retrySafe (toErrorPayload e) \<and>
         \<not> ep_mutationMayHaveOccurred (toErrorPayload e)"
  by (rule admit_all_or_nothing) (simp_all add: sample_limiter_def)

text \<open>A plan with more parameter changes than the limit is refused by every limiter
  state at every time, although the refusal is marked retry-safe and suggests a waiting
  time: with the shipped limit of 30, a plan of 31 to 128 \<open>set_parameter\<close> operations can
  be previewed but never committed.\<close>

theorem oversized_plan_never_admitted:
  assumes "rlimit l < count" and "0 < rlimit l"
  shows "\<exists>e. fst (admit t1 t2 t3 count l) = Inl e \<and> ep_retrySafe (toErrorPayload e)"
  using assms by (simp add: admit_def Let_def rate_limited_def)

theorem oversized_plan_never_admitted_witness:
  "rlimit new_limiter = 30 \<and> (\<exists>e. fst (admit 99999999 99999999 99999999 31 new_limiter) = Inl e \<and>
     ep_retrySafe (toErrorPayload e))"
  using oversized_plan_never_admitted [of new_limiter 31]
  by (simp add: new_limiter_def LIMITS_def)

end
