(* ===== verification/Utf8.thy ===== *)
theory Utf8
  imports Prelude "HOL-Library.Word"
begin

text \<open>
  What the framing layer uses of the JavaScript and Node string library:
  \<open>Buffer.from(s, "utf8")\<close> and \<open>buf.toString("utf8")\<close>.  A JavaScript string is a
  list of 16-bit code units; encoding replaces a lone surrogate by U+FFFD, and decoding
  replaces each maximal ill-formed prefix by U+FFFD, as the WHATWG decoder does.
\<close>

type_synonym byte = "8 word"
type_synonym code_unit = "16 word"

definition is_high :: "nat \<Rightarrow> bool" where
  "is_high u = (0xD800 \<le> u \<and> u \<le> 0xDBFF)"

definition is_low :: "nat \<Rightarrow> bool" where
  "is_low u = (0xDC00 \<le> u \<and> u \<le> 0xDFFF)"

definition replacement :: nat where
  "replacement = 0xFFFD"

fun scalars :: "nat list \<Rightarrow> nat list" where
  "scalars [] = []"
| "scalars [u] = [if is_high u \<or> is_low u then replacement else u]"
| "scalars (u # v # r) =
     (if is_high u \<and> is_low v
      then (0x10000 + (u - 0xD800) * 1024 + (v - 0xDC00)) # scalars r
      else (if is_high u \<or> is_low u then replacement else u) # scalars (v # r))"

definition units_of :: "nat \<Rightarrow> nat list" where
  "units_of c = (if c < 0x10000 then [c]
     else [0xD800 + (c - 0x10000) div 1024, 0xDC00 + (c - 0x10000) mod 1024])"

definition enc_scalar :: "nat \<Rightarrow> nat list" where
  "enc_scalar c =
     (if c < 0x80 then [c]
      else if c < 0x800 then [0xC0 + c div 64, 0x80 + c mod 64]
      else if c < 0x10000 then [0xE0 + c div 4096, 0x80 + c div 64 mod 64, 0x80 + c mod 64]
      else [0xF0 + c div 262144, 0x80 + c div 4096 mod 64, 0x80 + c div 64 mod 64, 0x80 + c mod 64])"

definition cont :: "nat \<Rightarrow> bool" where
  "cont b = (0x80 \<le> b \<and> b \<le> 0xBF)"

text \<open>The range the second byte must lie in, given the first (WHATWG lower and upper boundary).\<close>

definition second_ok :: "nat \<Rightarrow> nat \<Rightarrow> bool" where
  "second_ok b c = (cont c \<and> (b = 0xE0 \<longrightarrow> 0xA0 \<le> c) \<and> (b = 0xED \<longrightarrow> c \<le> 0x9F) \<and>
     (b = 0xF0 \<longrightarrow> 0x90 \<le> c) \<and> (b = 0xF4 \<longrightarrow> c \<le> 0x8F))"

fun dec_scalars :: "nat list \<Rightarrow> nat list" where
  "dec_scalars [] = []"
| "dec_scalars (b # bs) =
     (if b < 0x80 then b # dec_scalars bs
      else if 0xC2 \<le> b \<and> b \<le> 0xDF then
        (case bs of
           c # r1 \<Rightarrow> if cont c then ((b - 0xC0) * 64 + (c - 0x80)) # dec_scalars r1
                   else replacement # dec_scalars bs
         | [] \<Rightarrow> [replacement])
      else if 0xE0 \<le> b \<and> b \<le> 0xEF then
        (case bs of
           c # r1 \<Rightarrow> if second_ok b c then
             (case r1 of
                d # r2 \<Rightarrow> if cont d
                  then ((b - 0xE0) * 4096 + (c - 0x80) * 64 + (d - 0x80)) # dec_scalars r2
                  else replacement # dec_scalars r1
              | [] \<Rightarrow> [replacement])
             else replacement # dec_scalars bs
         | [] \<Rightarrow> [replacement])
      else if 0xF0 \<le> b \<and> b \<le> 0xF4 then
        (case bs of
           c # r1 \<Rightarrow> if second_ok b c then
             (case r1 of
                d # r2 \<Rightarrow> if cont d then
                  (case r2 of
                     e # r3 \<Rightarrow> if cont e
                       then ((b - 0xF0) * 262144 + (c - 0x80) * 4096 + (d - 0x80) * 64 + (e - 0x80))
                            # dec_scalars r3
                       else replacement # dec_scalars r2
                   | [] \<Rightarrow> [replacement])
                  else replacement # dec_scalars r1
              | [] \<Rightarrow> [replacement])
             else replacement # dec_scalars bs
         | [] \<Rightarrow> [replacement])
      else replacement # dec_scalars bs)"

definition utf8_encode :: "code_unit list \<Rightarrow> byte list" where
  "utf8_encode s = map of_nat (concat (map enc_scalar (scalars (map unat s))))"

definition utf8_decode :: "byte list \<Rightarrow> code_unit list" where
  "utf8_decode bs = map of_nat (concat (map units_of (dec_scalars (map unat bs))))"

text \<open>\<open>String.prototype.toWellFormed\<close>: every lone surrogate becomes U+FFFD.\<close>

definition to_well_formed :: "code_unit list \<Rightarrow> code_unit list" where
  "to_well_formed s = map of_nat (concat (map units_of (scalars (map unat s))))"

fun well_formed :: "nat list \<Rightarrow> bool" where
  "well_formed [] = True"
| "well_formed [u] = (\<not> is_high u \<and> \<not> is_low u)"
| "well_formed (u # v # r) = (if is_high u then is_low v \<and> well_formed r
     else \<not> is_low u \<and> well_formed (v # r))"

section \<open>The round trip\<close>

definition scalar_ok :: "nat \<Rightarrow> bool" where
  "scalar_ok c = (c < 0x110000 \<and> \<not> is_high c \<and> \<not> is_low c)"

lemma pair_ok:
  assumes "is_high u" "is_low v"
  shows "scalar_ok (0x10000 + (u - 0xD800) * 1024 + (v - 0xDC00))"
proof -
  obtain h where h: "h = u - 0xD800" "h < 1024"
    using assms(1) by (auto simp: is_high_def)
  obtain l where l: "l = v - 0xDC00" "l < 1024"
    using assms(2) by (auto simp: is_low_def)
  have "scalar_ok (0x10000 + h * 1024 + l)"
    using h(2) l(2) by (simp add: scalar_ok_def is_high_def is_low_def)
  then show ?thesis by (simp only: h l)
qed

lemma single_ok: "u < 0x10000 \<Longrightarrow> scalar_ok (if is_high u \<or> is_low u then replacement else u)"
  by (simp add: scalar_ok_def is_high_def is_low_def replacement_def)

lemma scalars_ok: "\<forall>u \<in> set us. u < 0x10000 \<Longrightarrow> \<forall>c \<in> set (scalars us). scalar_ok c"
proof (induction us rule: scalars.induct)
  case 1
  then show ?case by simp
next
  case (2 u)
  then show ?case using single_ok [of u] by (simp del: if_split)
next
  case (3 u v r)
  show ?case
  proof (cases "is_high u \<and> is_low v")
    case True
    then have "scalars (u # v # r) = (0x10000 + (u - 0xD800) * 1024 + (v - 0xDC00)) # scalars r"
      by (simp only: scalars.simps simp_thms if_True)
    moreover have "\<forall>c \<in> set (scalars r). scalar_ok c"
      using "3.IH"(1) [OF True] "3.prems" by simp
    ultimately show ?thesis using pair_ok [of u v] True by (simp only: list.set ball_simps)
  next
    case False
    then have "scalars (u # v # r) =
        (if is_high u \<or> is_low u then replacement else u) # scalars (v # r)"
      by (simp only: scalars.simps) simp
    moreover have "\<forall>c \<in> set (scalars (v # r)). scalar_ok c"
      using "3.IH"(2) [OF False] "3.prems" by simp
    ultimately show ?thesis using single_ok [of u] "3.prems" by (simp only: list.set ball_simps)
  qed
qed

lemma div_lt: "c < k * n \<Longrightarrow> c div n < (k::nat)"
  by (simp add: less_mult_imp_div_less)

lemma enc_scalar_bytes:
  assumes "scalar_ok c"
  shows "\<forall>b \<in> set (enc_scalar c). b < 256"
proof -
  have m: "n mod 64 < 64" for n :: nat by simp
  have "c < 0x800 \<Longrightarrow> c div 64 < 32" by (rule div_lt) simp
  moreover have "c < 0x10000 \<Longrightarrow> c div 4096 < 16" by (rule div_lt) simp
  moreover have "c div 262144 < 5"
    by (rule div_lt) (use assms in \<open>simp add: scalar_ok_def\<close>)
  ultimately show ?thesis
    using m [of c] m [of "c div 64"] m [of "c div 4096"]
    unfolding enc_scalar_def by (auto split: if_splits)
qed

lemma units_of_bound: "scalar_ok c \<Longrightarrow> \<forall>u \<in> set (units_of c). u < 65536"
  by (auto simp: units_of_def scalar_ok_def)

declare dec_scalars.simps [simp del]

lemma dec_Nil [simp]: "dec_scalars [] = []"
  by (simp add: dec_scalars.simps)

lemma dec_one: "b < 0x80 \<Longrightarrow> dec_scalars (b # r) = b # dec_scalars r"
  by (simp add: dec_scalars.simps)

lemma dec_two:
  "x < 32 \<Longrightarrow> 2 \<le> x \<Longrightarrow> y < 64 \<Longrightarrow>
   dec_scalars ((0xC0 + x) # (0x80 + y) # r) = (x * 64 + y) # dec_scalars r"
  by (subst dec_scalars.simps) (simp add: cont_def)

lemma dec_three:
  "x < 16 \<Longrightarrow> second_ok (0xE0 + x) (0x80 + y) \<Longrightarrow> z < 64 \<Longrightarrow>
   dec_scalars ((0xE0 + x) # (0x80 + y) # (0x80 + z) # r) = (x * 4096 + y * 64 + z) # dec_scalars r"
  by (subst dec_scalars.simps) (simp add: cont_def)

lemma dec_four:
  "w < 5 \<Longrightarrow> second_ok (0xF0 + w) (0x80 + x) \<Longrightarrow> y < 64 \<Longrightarrow> z < 64 \<Longrightarrow>
   dec_scalars ((0xF0 + w) # (0x80 + x) # (0x80 + y) # (0x80 + z) # r) =
     (w * 262144 + x * 4096 + y * 64 + z) # dec_scalars r"
  by (subst dec_scalars.simps) (simp add: cont_def)

lemma base64_digits3: "c div 4096 * 4096 + c div 64 mod 64 * 64 + c mod 64 = (c::nat)"
proof -
  have e: "c div 4096 = c div 64 div 64" by (simp add: div_mult2_eq [symmetric])
  have "c div 4096 * 4096 + c div 64 mod 64 * 64 + c mod 64 =
      (c div 64 div 64 * 64 + c div 64 mod 64) * 64 + c mod 64"
    unfolding e distrib_right mult.assoc by (simp only: numeral_times_numeral mult_num_simps add_num_simps)
  also have "\<dots> = c" by (simp only: div_mult_mod_eq)
  finally show ?thesis .
qed

lemma base64_digits4:
  "c div 262144 * 262144 + c div 4096 mod 64 * 4096 + c div 64 mod 64 * 64 + c mod 64 = (c::nat)"
proof -
  have e: "c div 262144 = c div 4096 div 64" by (simp add: div_mult2_eq [symmetric])
  have "c div 262144 * 262144 + c div 4096 mod 64 * 4096 =
      (c div 4096 div 64 * 64 + c div 4096 mod 64) * 4096"
    unfolding e distrib_right mult.assoc by (simp only: numeral_times_numeral mult_num_simps add_num_simps)
  also have "\<dots> = c div 4096 * 4096" by (simp only: div_mult_mod_eq)
  finally show ?thesis using base64_digits3 [of c] by simp
qed

lemma dec_enc2:
  assumes "0x80 \<le> c" "c < 0x800"
  shows "dec_scalars (enc_scalar c @ r) = c # dec_scalars r"
proof -
  have "c div 64 < 32" by (rule div_lt) (use assms in simp)
  moreover have "2 \<le> c div 64" using div_le_mono [OF assms(1), of 64] by simp
  ultimately show ?thesis using assms dec_two [of "c div 64" "c mod 64" r] by (simp add: enc_scalar_def)
qed

lemma dec_enc3:
  assumes "0x800 \<le> c" "c < 0x10000" "\<not> is_high c" "\<not> is_low c"
  shows "dec_scalars (enc_scalar c @ r) = c # dec_scalars r"
proof -
  define x y z where xyz: "x = c div 4096" "y = c div 64 mod 64" "z = c mod 64"
  have c: "c = x * 4096 + y * 64 + z" unfolding xyz by (simp only: base64_digits3)
  have b: "x < 16" "y < 64" "z < 64" unfolding xyz using assms by (auto intro: div_lt)
  have s: "second_ok (0xE0 + x) (0x80 + y)"
    unfolding second_ok_def cont_def
  proof (intro conjI impI)
    assume "0xE0 + x = (0xE0::nat)"
    then show "0xA0 \<le> 0x80 + y" using assms(1) c b by simp
  next
    assume "0xE0 + x = (0xED::nat)"
    then have "x = 13" by simp
    then show "0x80 + y \<le> 0x9F" using assms(3,4) c b by (simp add: is_high_def is_low_def)
  qed (use b in simp_all)
  have "enc_scalar c = [0xE0 + x, 0x80 + y, 0x80 + z]"
    using assms by (simp add: enc_scalar_def xyz)
  then show ?thesis using dec_three [OF b(1) s b(3), of r] c by simp
qed

lemma dec_enc4:
  assumes "0x10000 \<le> c" "c < 0x110000"
  shows "dec_scalars (enc_scalar c @ r) = c # dec_scalars r"
proof -
  define w x y z where wxyz: "w = c div 262144" "x = c div 4096 mod 64" "y = c div 64 mod 64" "z = c mod 64"
  have c: "c = w * 262144 + x * 4096 + y * 64 + z" unfolding wxyz by (simp only: base64_digits4)
  have b: "w < 5" "x < 64" "y < 64" "z < 64" unfolding wxyz using assms by (auto intro: div_lt)
  have s: "second_ok (0xF0 + w) (0x80 + x)"
    unfolding second_ok_def cont_def
  proof (intro conjI impI)
    assume "0xF0 + w = (0xF0::nat)"
    then show "0x90 \<le> 0x80 + x" using assms(1) c b by simp
  next
    assume "0xF0 + w = (0xF4::nat)"
    then have "w = 4" by simp
    then show "0x80 + x \<le> 0x8F" using assms(2) c b by simp
  qed (use b in simp_all)
  have "enc_scalar c = [0xF0 + w, 0x80 + x, 0x80 + y, 0x80 + z]"
    using assms by (simp add: enc_scalar_def wxyz)
  then show ?thesis using dec_four [OF b(1) s b(3,4), of r] c by simp
qed

lemma dec_enc:
  assumes "scalar_ok c"
  shows "dec_scalars (enc_scalar c @ r) = c # dec_scalars r"
proof -
  consider "c < 0x80" | "0x80 \<le> c" "c < 0x800" | "0x800 \<le> c" "c < 0x10000" | "0x10000 \<le> c"
    by linarith
  then show ?thesis
  proof cases
    case 1
    then show ?thesis by (simp add: enc_scalar_def dec_one)
  next
    case 2
    then show ?thesis by (rule dec_enc2)
  next
    case 3
    then show ?thesis using assms by (intro dec_enc3) (auto simp: scalar_ok_def)
  next
    case 4
    then show ?thesis using assms by (intro dec_enc4) (auto simp: scalar_ok_def)
  qed
qed

lemma dec_enc_all: "\<forall>c \<in> set cs. scalar_ok c \<Longrightarrow> dec_scalars (concat (map enc_scalar cs)) = cs"
  by (induction cs) (auto simp: dec_enc)

lemma unat_of_nat_bytes:
  "\<forall>b \<in> set bs. b < 256 \<Longrightarrow> map (unat \<circ> (of_nat :: nat \<Rightarrow> byte)) bs = bs"
  by (induction bs) (auto simp: unat_of_nat)

lemma map_unat_units: "\<forall>u \<in> set (map unat (s :: code_unit list)). u < 0x10000"
proof -
  have "unat (u :: code_unit) < 0x10000" for u
    using unsigned_less [of u] by simp
  then show ?thesis by auto
qed

lemma utf8_decode_encode: "utf8_decode (utf8_encode s) = to_well_formed s"
proof -
  let ?cs = "scalars (map unat s)"
  have ok: "\<forall>c \<in> set ?cs. scalar_ok c" by (rule scalars_ok [OF map_unat_units])
  then have "\<forall>b \<in> set (concat (map enc_scalar ?cs)). b < 256"
    using enc_scalar_bytes by auto
  then have "map unat (utf8_encode s) = concat (map enc_scalar ?cs)"
    by (simp add: utf8_encode_def unat_of_nat_bytes)
  then show ?thesis
    by (simp add: utf8_decode_def to_well_formed_def dec_enc_all [OF ok])
qed

lemma units_scalars:
  "well_formed us \<Longrightarrow> concat (map units_of (scalars us)) = us \<or> \<not> (\<forall>u \<in> set us. u < 0x10000)"
proof (induction us rule: scalars.induct)
  case 1
  then show ?case by simp
next
  case (2 u)
  then show ?case by (auto simp: units_of_def)
next
  case (3 u v r)
  show ?case
  proof (cases "is_high u")
    case True
    then have low: "is_low v" and wf: "well_formed r" using 3 by auto
    let ?c = "0x10000 + (u - 0xD800) * 1024 + (v - 0xDC00)"
    have v: "v - 0xDC00 < 1024" using low by (auto simp: is_low_def)
    have "?c - 0x10000 = (u - 0xD800) * 1024 + (v - 0xDC00)" by simp
    then have "units_of ?c = [0xD800 + (u - 0xD800), 0xDC00 + (v - 0xDC00)]"
      using v by (simp only: units_of_def) (simp add: div_add1_eq)
    moreover have "0xD800 + (u - 0xD800) = u" "0xDC00 + (v - 0xDC00) = v"
      using low True by (simp_all add: is_low_def is_high_def)
    ultimately have "units_of ?c = [u, v]" by simp
    then show ?thesis using 3 True low wf by auto
  next
    case False
    then show ?thesis using 3 by (auto simp: units_of_def)
  qed
qed

lemma to_well_formed_id: "well_formed (map unat s) \<Longrightarrow> to_well_formed s = s"
proof -
  assume "well_formed (map unat s)"
  then have "concat (map units_of (scalars (map unat s))) = map unat s"
    using units_scalars map_unat_units by blast
  then show ?thesis by (simp add: to_well_formed_def comp_def map_idI)
qed

lemma utf8_roundtrip: "well_formed (map unat s) \<Longrightarrow> utf8_decode (utf8_encode s) = s"
  by (simp add: utf8_decode_encode to_well_formed_id)

section \<open>Strings held as bytes\<close>

text \<open>Where a string of the model stands for a JavaScript string, its characters are the bytes of
  the UTF-8 encoding; \<open>text_units\<close> are its code units.\<close>

definition text_units :: "string \<Rightarrow> code_unit list" where
  "text_units s = utf8_decode (map of_char s)"

lemma text_units_Nil [simp]: "text_units [] = []"
  by (simp add: text_units_def utf8_decode_def)

lemma text_units_Cons [simp]:
  "(of_char c :: nat) < 128 \<Longrightarrow> text_units (c # s) = of_nat (of_char c) # text_units s"
proof -
  assume c: "(of_char c :: nat) < 128"
  have "unat (of_char c :: byte) = unat (of_nat (of_char c) :: byte)" by (simp only: of_nat_of_char)
  also have "\<dots> = of_char c" using c by (simp add: unat_of_nat take_bit_eq_mod)
  finally have "unat (of_char c :: byte) = of_char c" .
  then show ?thesis using c by (simp add: text_units_def utf8_decode_def dec_one units_of_def)
qed

text \<open>One step of the decoder: the scalar it emits and the number of further bytes it takes.  A byte
  below 0x80 is never taken by a sequence before it.\<close>

definition dec_takes :: "nat \<Rightarrow> nat list \<Rightarrow> nat \<Rightarrow> nat \<Rightarrow> bool" where
  "dec_takes b bs c k \<longleftrightarrow> k \<le> length bs \<and> dec_scalars (b # bs) = c # dec_scalars (drop k bs) \<and>
     (\<forall>n r. n < 0x80 \<longrightarrow> dec_scalars (b # bs @ n # r) = c # dec_scalars (drop k bs @ n # r)) \<and>
     length (units_of c) \<le> Suc k \<and> (c = b \<or> 0x80 \<le> c \<and> c < 0x110000)"

lemma dec_takes_replacement:
  "dec_scalars (b # bs) = replacement # dec_scalars (drop k bs) \<Longrightarrow> k \<le> length bs \<Longrightarrow>
   (\<And>n r. n < 0x80 \<Longrightarrow> dec_scalars (b # bs @ n # r) = replacement # dec_scalars (drop k bs @ n # r)) \<Longrightarrow>
   dec_takes b bs replacement k"
  by (simp add: dec_takes_def units_of_def replacement_def)

lemma low_not_cont: "n < 0x80 \<Longrightarrow> \<not> cont n" "n < 0x80 \<Longrightarrow> \<not> second_ok b n"
  by (simp_all add: cont_def second_ok_def)

lemma dec_takes_two:
  assumes b: "0xC2 \<le> b" "b \<le> 0xDF"
  shows "\<exists>c k. dec_takes b bs c k"
proof (cases bs)
  case Nil
  then have "dec_takes b bs replacement 0" using b
    by (intro dec_takes_replacement) (auto simp: dec_scalars.simps(2) [of b] low_not_cont)
  then show ?thesis by blast
next
  case (Cons x r1)
  show ?thesis
  proof (cases "cont x")
    case True
    then have "dec_takes b bs ((b - 0xC0) * 64 + (x - 0x80)) 1" using b Cons
      by (auto simp: dec_takes_def dec_scalars.simps(2) [of b] units_of_def) (auto simp: cont_def)
    then show ?thesis by blast
  next
    case False
    then have "dec_takes b bs replacement 0" using b Cons
      by (intro dec_takes_replacement) (auto simp: dec_scalars.simps(2) [of b])
    then show ?thesis by blast
  qed
qed

lemma dec_takes_three:
  assumes b: "0xE0 \<le> b" "b \<le> 0xEF"
  shows "\<exists>c k. dec_takes b bs c k"
proof -
  note eq = dec_scalars.simps(2) [of b]
  consider "bs = []" | x r where "bs = x # r" "\<not> second_ok b x" | x where "bs = [x]" "second_ok b x"
    | x y r where "bs = x # y # r" "second_ok b x" "\<not> cont y"
    | x y r where "bs = x # y # r" "second_ok b x" "cont y"
    by (metis list.exhaust)
  then show ?thesis
  proof cases
    case 1
    then have "dec_takes b bs replacement 0" using b by (intro dec_takes_replacement) (auto simp: eq low_not_cont)
    then show ?thesis by blast
  next
    case (2 x r)
    then have "dec_takes b bs replacement 0" using b by (intro dec_takes_replacement) (auto simp: eq)
    then show ?thesis by blast
  next
    case (3 x)
    then have "dec_takes b bs replacement 1" using b by (intro dec_takes_replacement) (auto simp: eq low_not_cont)
    then show ?thesis by blast
  next
    case (4 x y r)
    then have "dec_takes b bs replacement 1" using b by (intro dec_takes_replacement) (auto simp: eq)
    then show ?thesis by blast
  next
    case (5 x y r)
    let ?c = "(b - 0xE0) * 4096 + (x - 0x80) * 64 + (y - 0x80)"
    have "dec_scalars (b # x # y # q) = ?c # dec_scalars q" for q using 5 b by (simp add: eq)
    moreover have "0x80 \<le> ?c \<and> ?c < 0x10000" using 5 b by (auto simp: second_ok_def cont_def)
    ultimately have "dec_takes b bs ?c 2" using 5(1) by (simp add: dec_takes_def units_of_def)
    then show ?thesis by blast
  qed
qed

lemma dec_takes_four:
  assumes b: "0xF0 \<le> b" "b \<le> 0xF4"
  shows "\<exists>c k. dec_takes b bs c k"
proof -
  note eq = dec_scalars.simps(2) [of b]
  consider "bs = []" | x r where "bs = x # r" "\<not> second_ok b x" | x where "bs = [x]" "second_ok b x"
    | x y r where "bs = x # y # r" "second_ok b x" "\<not> cont y"
    | x y where "bs = [x, y]" "second_ok b x" "cont y"
    | x y z r where "bs = x # y # z # r" "second_ok b x" "cont y" "\<not> cont z"
    | x y z r where "bs = x # y # z # r" "second_ok b x" "cont y" "cont z"
    by (metis list.exhaust)
  then show ?thesis
  proof cases
    case 1
    then have "dec_takes b bs replacement 0" using b by (intro dec_takes_replacement) (auto simp: eq low_not_cont)
    then show ?thesis by blast
  next
    case (2 x r)
    then have "dec_takes b bs replacement 0" using b by (intro dec_takes_replacement) (auto simp: eq)
    then show ?thesis by blast
  next
    case (3 x)
    then have "dec_takes b bs replacement 1" using b by (intro dec_takes_replacement) (auto simp: eq low_not_cont)
    then show ?thesis by blast
  next
    case (4 x y r)
    then have "dec_takes b bs replacement 1" using b by (intro dec_takes_replacement) (auto simp: eq)
    then show ?thesis by blast
  next
    case (5 x y)
    then have "dec_takes b bs replacement 2" using b by (intro dec_takes_replacement) (auto simp: eq low_not_cont)
    then show ?thesis by blast
  next
    case (6 x y z r)
    then have "dec_takes b bs replacement 2" using b by (intro dec_takes_replacement) (auto simp: eq)
    then show ?thesis by blast
  next
    case (7 x y z r)
    let ?c = "(b - 0xF0) * 262144 + (x - 0x80) * 4096 + (y - 0x80) * 64 + (z - 0x80)"
    have "dec_scalars (b # x # y # z # q) = ?c # dec_scalars q" for q using 7 b by (simp add: eq)
    moreover have "0x80 \<le> ?c \<and> ?c < 0x110000" using 7 b by (auto simp: second_ok_def cont_def)
    ultimately have "dec_takes b bs ?c 3" using 7(1) by (simp add: dec_takes_def units_of_def)
    then show ?thesis by blast
  qed
qed

lemma dec_takes: "\<exists>c k. dec_takes b bs c k"
proof -
  consider "b < 0x80" | "0xC2 \<le> b" "b \<le> 0xDF" | "0xE0 \<le> b" "b \<le> 0xEF" | "0xF0 \<le> b" "b \<le> 0xF4"
    | "\<not> b < 0x80" "\<not> (0xC2 \<le> b \<and> b \<le> 0xDF)" "\<not> (0xE0 \<le> b \<and> b \<le> 0xEF)" "\<not> (0xF0 \<le> b \<and> b \<le> 0xF4)"
    by blast
  then show ?thesis
  proof cases
    case 1
    then have "dec_takes b bs b 0" by (simp add: dec_takes_def dec_one units_of_def)
    then show ?thesis by blast
  next
    case 5
    then have "dec_takes b bs replacement 0" by (intro dec_takes_replacement) (auto simp: dec_scalars.simps(2) [of b])
    then show ?thesis by blast
  qed (use dec_takes_two dec_takes_three dec_takes_four in blast)+
qed

text \<open>Induction over the steps of the decoder.\<close>

lemma dec_induct [case_names Nil step]:
  assumes "P []" and "\<And>b bs c k. dec_takes b bs c k \<Longrightarrow> P (drop k bs) \<Longrightarrow> P (b # bs)"
  shows "P bs"
proof (induction bs rule: length_induct)
  case (1 bs)
  show ?case
  proof (cases bs)
    case (Cons b r)
    obtain c k where "dec_takes b r c k" using dec_takes by blast
    then show ?thesis using assms(2) 1 Cons by simp
  qed (simp add: assms(1))
qed

lemma length_dec_scalars: "length (concat (map units_of (dec_scalars bs))) \<le> length bs"
  by (induction bs rule: dec_induct) (auto simp: dec_takes_def)

lemma length_text_units: "length (text_units s) \<le> length s"
  using length_dec_scalars [of "map unat (map of_char s :: byte list)"] by (simp add: text_units_def utf8_decode_def)

section \<open>Lines of a byte stream\<close>

lemma dec_scalars_split: "n < 0x80 \<Longrightarrow> dec_scalars (a @ n # b) = dec_scalars a @ n # dec_scalars b"
  by (induction a rule: dec_induct) (simp_all add: dec_one dec_takes_def)

lemma utf8_decode_line: "utf8_decode (a @ 10 # b) = utf8_decode a @ 10 # utf8_decode b"
  by (simp add: utf8_decode_def dec_scalars_split units_of_def)

text \<open>No other sequence decodes to a line feed.\<close>

lemma dec_scalars_set: "x \<in> set (dec_scalars bs) \<Longrightarrow> x \<in> set bs \<or> 0x80 \<le> x \<and> x < 0x110000"
proof (induction bs rule: dec_induct)
  case (step b bs c k)
  then show ?case using set_drop_subset [of k bs] by (auto simp: dec_takes_def)
qed simp

lemma units_of_line:
  assumes c: "c < 0x110000" and m: "u \<in> set (units_of c)" and e: "(of_nat u :: code_unit) = 10"
  shows "c = 10"
proof -
  have "u < 0x10000" using c m by (auto simp: units_of_def split: if_splits)
  then have "u = unat (of_nat u :: code_unit)" by (simp add: unat_of_nat take_bit_eq_mod)
  then have "u = 10" by (simp add: e)
  then show ?thesis using m by (auto simp: units_of_def split: if_splits)
qed

lemma utf8_decode_no_line: "10 \<notin> set bs \<Longrightarrow> 10 \<notin> set (utf8_decode bs)"
proof
  assume n: "10 \<notin> set bs" and "10 \<in> set (utf8_decode bs)"
  then obtain c u where c: "c \<in> set (dec_scalars (map unat bs))" "u \<in> set (units_of c)" "(of_nat u :: code_unit) = 10"
    by (fastforce simp: utf8_decode_def)
  have byte: "unat b < 256" for b :: byte using unsigned_less [of b, where ?'a = nat] by simp
  from dec_scalars_set [OF c(1)] have "c < 0x110000 \<and> (c \<in> unat ` set bs \<or> 0x80 \<le> c)"
  proof
    assume "c \<in> set (map unat bs)"
    then obtain b where "c = unat b" "b \<in> set bs" by auto
    then show ?thesis using byte [of b] by simp
  qed simp
  then have "c \<in> unat ` set bs" and "c = 10" using units_of_line [OF _ c(2,3)] by auto
  then obtain b where "b \<in> set bs" "unat b = unat (10 :: byte)" by auto
  then show False using n by (metis word_eq_iff_unsigned [where ?'a = nat])
qed

end
