(* ===== verification/Framing.thy ===== *)
theory Framing
  imports Errors Utf8
begin

text \<open>
  Bridge framing (\<open>packages/protocol/src/framing.ts\<close>): a frame is a 4-byte big-endian
  length followed by UTF-8 JSON.  \<open>FrameDecoder\<close> is incremental; the loop that drains it
  is the one of \<open>BridgeClient.onData\<close>.  The decoder is refined to a parser over the flat
  byte stream, and the parser is shown to be independent of how TCP cuts the stream.
\<close>

section \<open>Encoding\<close>

text \<open>\<open>writeUInt32BE\<close>: each byte keeps the low eight bits of the shifted value.\<close>

definition be32 :: "nat \<Rightarrow> byte list" where
  "be32 n = [of_nat (n div 16777216), of_nat (n div 65536), of_nat (n div 256), of_nat n]"

fun read_be32 :: "byte list \<Rightarrow> nat" where
  "read_be32 (a # b # c # d # _) = ((unat a * 256 + unat b) * 256 + unat c) * 256 + unat d"
| "read_be32 _ = 0"

definition encodeFrame :: "code_unit list \<Rightarrow> nat \<Rightarrow> exn + byte list" where
  "encodeFrame payload maxFrameBytes =
     (let body = utf8_encode payload in
      if length body > maxFrameBytes
      then Inl (PlainErr (''frame exceeds '' @ nat_str maxFrameBytes @ '' bytes''))
      else if length body \<ge> 4294967296 then Inl (PlainErr ''ERR_OUT_OF_RANGE'')
      else Inr (be32 (length body) @ body))"

section \<open>The incremental decoder\<close>

record decoder =
  maxFrameBytes :: nat
  chunks :: "byte list list"
  buffered :: nat
  failed :: bool

definition new_decoder :: "nat \<Rightarrow> decoder" where
  "new_decoder m = \<lparr>maxFrameBytes = m, chunks = [], buffered = 0, failed = False\<rparr>"

definition push :: "byte list \<Rightarrow> decoder \<Rightarrow> bool \<times> decoder" where
  "push chunk d =
     (if failed d then (False, d)
      else if buffered d + length chunk > 2 * (maxFrameBytes d + 4)
      then (False, d\<lparr>failed := True\<rparr>)
      else (True, d\<lparr>chunks := chunks d @ [chunk], buffered := buffered d + length chunk\<rparr>))"

definition all_bytes :: "decoder \<Rightarrow> byte list" where
  "all_bytes d = (case chunks d of [c] \<Rightarrow> c | cs \<Rightarrow> concat cs)"

definition next_frame :: "decoder \<Rightarrow> code_unit list option \<times> decoder" where
  "next_frame d =
     (if failed d \<or> buffered d < 4 then (None, d)
      else
        let bs = all_bytes d;
            d1 = d\<lparr>chunks := [bs]\<rparr>;
            len = read_be32 bs
        in if len > maxFrameBytes d1 then (None, d1\<lparr>failed := True\<rparr>)
           else if length bs < 4 + len then (None, d1)
           else
             let frame = utf8_decode (take len (drop 4 bs));
                 rest = drop (4 + len) bs
             in (Some frame, d1\<lparr>chunks := (if rest \<noteq> [] then [rest] else []), buffered := length rest\<rparr>))"

lemma all_bytes_concat: "all_bytes d = concat (chunks d)"
  by (simp add: all_bytes_def split: list.split)

lemma next_frame_shrinks:
  "next_frame d = (Some f, d') \<Longrightarrow> length (concat (chunks d')) < length (concat (chunks d))"
  by (auto simp: next_frame_def Let_def all_bytes_concat split: if_splits)

text \<open>\<open>while ((frame = this.decoder.next()) !== null) ...\<close>\<close>

function drain :: "decoder \<Rightarrow> code_unit list list \<times> decoder" where
  "drain d = (case next_frame d of
     (None, d') \<Rightarrow> ([], d')
   | (Some f, d') \<Rightarrow> (let (fs, d'') = drain d' in (f # fs, d'')))"
  by pat_completeness auto
termination
  by (relation "measure (\<lambda>d. length (concat (chunks d)))") (auto dest: next_frame_shrinks [OF sym])

declare drain.simps [simp del]

text \<open>One \<open>data\<close> event: push the chunk, then drain.\<close>

definition feed_decoder :: "decoder \<Rightarrow> byte list \<Rightarrow> code_unit list list \<times> decoder" where
  "feed_decoder d chunk = (let (ok, d1) = push chunk d in if ok then drain d1 else ([], d1))"

fun feed_chunks :: "('s \<Rightarrow> 'b list \<Rightarrow> 'o list \<times> 's) \<Rightarrow> 's \<Rightarrow> 'b list list \<Rightarrow> 'o list \<times> 's" where
  "feed_chunks feed s [] = ([], s)"
| "feed_chunks feed s (c # cs) =
     (let (os, s') = feed s c; (os', s'') = feed_chunks feed s' cs in (os @ os', s''))"

section \<open>The flat specification\<close>

text \<open>
  What the decoder promises: cut complete frames off the front of the byte stream; a
  declared length beyond the limit is a permanent error, after which nothing is kept.
\<close>

function parse_frames :: "nat \<Rightarrow> byte list \<Rightarrow> byte list list \<times> byte list \<times> bool" where
  "parse_frames m bs =
     (if length bs < 4 then ([], bs, False)
      else if read_be32 bs > m then ([], [], True)
      else if length bs < 4 + read_be32 bs then ([], bs, False)
      else (let (fs, r, e) = parse_frames m (drop (4 + read_be32 bs) bs)
            in (take (read_be32 bs) (drop 4 bs) # fs, r, e)))"
  by pat_completeness auto
termination
  by (relation "measure (\<lambda>(m, bs). length bs)") auto

declare parse_frames.simps [simp del]

definition spec_feed ::
  "nat \<Rightarrow> byte list \<times> bool \<Rightarrow> byte list \<Rightarrow> byte list list \<times> (byte list \<times> bool)" where
  "spec_feed m s bs = (if snd s then ([], s)
     else (let (fs, r, e) = parse_frames m (fst s @ bs) in (fs, (r, e))))"

lemma read_be32_append: "4 \<le> length x \<Longrightarrow> read_be32 (x @ y) = read_be32 x"
  by (cases x rule: read_be32.cases) auto

lemma parse_append:
  "parse_frames m (x @ y) = (let (f1, r1, e1) = parse_frames m x in
     if e1 then (f1, [], True)
     else (let (f2, r2, e2) = parse_frames m (r1 @ y) in (f1 @ f2, r2, e2)))"
proof (induction m x rule: parse_frames.induct)
  case (1 m x)
  show ?case
  proof (cases "length x < 4 \<or> (read_be32 x \<le> m \<and> length x < 4 + read_be32 x)")
    case True
    then have "parse_frames m x = ([], x, False)"
      by (auto simp: parse_frames.simps [of m x])
    then show ?thesis by (simp add: split_beta)
  next
    case False
    then have len: "4 \<le> length x" and rd: "read_be32 (x @ y) = read_be32 x"
      by (auto simp: read_be32_append)
    show ?thesis
    proof (cases "read_be32 x > m")
      case True
      with len rd show ?thesis
        by (simp add: parse_frames.simps [of m x] parse_frames.simps [of m "x @ y"])
    next
      case ok: False
      with False have full: "4 + read_be32 x \<le> length x" by auto
      let ?t = "drop (4 + read_be32 x) x"
      have "parse_frames m (x @ y) =
          (let (fs, r, e) = parse_frames m (?t @ y) in (take (read_be32 x) (drop 4 x) # fs, r, e))"
        using len rd ok full by (simp add: parse_frames.simps [of m "x @ y"])
      moreover have "parse_frames m x =
          (let (fs, r, e) = parse_frames m ?t in (take (read_be32 x) (drop 4 x) # fs, r, e))"
        using len ok full by (simp add: parse_frames.simps [of m x])
      ultimately show ?thesis
        using "1.IH" len ok full by (simp add: split_beta Let_def)
    qed
  qed
qed

lemma parse_settled:
  "parse_frames m bs = (fs, r, e) \<Longrightarrow> parse_frames m r = ([], r, False)"
proof (induction m bs arbitrary: fs r e rule: parse_frames.induct)
  case (1 m bs)
  show ?case
  proof (cases "\<not> length bs < 4 \<and> read_be32 bs \<le> m \<and> 4 + read_be32 bs \<le> length bs")
    case True
    obtain fs' r' e' where rec: "parse_frames m (drop (4 + read_be32 bs) bs) = (fs', r', e')"
      by (cases "parse_frames m (drop (4 + read_be32 bs) bs)") auto
    have "r' = r" using True "1.prems" by (simp add: parse_frames.simps [of m bs] rec)
    moreover have "parse_frames m r' = ([], r', False)"
      using True by (intro "1.IH" [OF _ _ _ rec]) auto
    ultimately show ?thesis by simp
  next
    case False
    show ?thesis
    proof (cases "length bs < 4 \<or> read_be32 bs \<le> m")
      case True
      with False "1.prems" have "r = bs" and "parse_frames m bs = ([], bs, False)"
        by (simp_all add: parse_frames.simps [of m bs] split: if_splits)
      then show ?thesis by simp
    next
      case big: False
      with "1.prems" have "r = []" by (simp add: parse_frames.simps [of m bs])
      then show ?thesis by (simp add: parse_frames.simps)
    qed
  qed
qed

lemma parse_rest_bound:
  assumes "parse_frames m bs = (fs, r, e)"
  shows "length r < 4 + m"
proof (rule ccontr)
  assume big: "\<not> length r < 4 + m"
  have "parse_frames m r = ([], r, False)" using assms by (rule parse_settled)
  moreover have "read_be32 r \<le> m \<Longrightarrow> fst (parse_frames m r) \<noteq> []"
    using big by (simp add: parse_frames.simps [of m r] split_beta Let_def)
  moreover have "\<not> read_be32 r \<le> m \<Longrightarrow> snd (snd (parse_frames m r))"
    using big by (simp add: parse_frames.simps [of m r])
  ultimately show False by auto
qed

lemma parse_err_rest: "parse_frames m bs = (fs, r, True) \<Longrightarrow> r = []"
proof (induction m bs arbitrary: fs r rule: parse_frames.induct)
  case (1 m bs)
  show ?case
  proof (cases "\<not> length bs < 4 \<and> read_be32 bs \<le> m \<and> 4 + read_be32 bs \<le> length bs")
    case True
    obtain fs' r' e' where rec: "parse_frames m (drop (4 + read_be32 bs) bs) = (fs', r', e')"
      by (cases "parse_frames m (drop (4 + read_be32 bs) bs)") auto
    then have "r' = r" "e'" using True "1.prems" by (simp_all add: parse_frames.simps [of m bs])
    then show ?thesis using True rec "1.IH" by auto
  next
    case False
    with "1.prems" show ?thesis
      by (auto simp: parse_frames.simps [of m bs] split: if_splits)
  qed
qed

section \<open>The stream interface\<close>

text \<open>
  A consumer of a byte stream: feeding two pieces one after the other is feeding their
  concatenation.  The client of such a consumer never sees where the pieces were cut.
\<close>

locale byte_stream =
  fixes feed :: "'s \<Rightarrow> 'b list \<Rightarrow> 'o list \<times> 's"
    and settled :: "'s \<Rightarrow> bool"
  assumes feed_settled: "settled (snd (feed s bs))"
    and feed_nil: "settled s \<Longrightarrow> feed s [] = ([], s)"
    and feed_append: "feed s (a @ b) =
      (let (o1, s1) = feed s a; (o2, s2) = feed s1 b in (o1 @ o2, s2))"
begin

lemma chunks_flat: "settled s \<Longrightarrow> feed_chunks feed s cs = feed s (concat cs)"
proof (induction cs arbitrary: s)
  case Nil
  then show ?case by (simp add: feed_nil)
next
  case (Cons c cs)
  have "settled (snd (feed s c))" by (rule feed_settled)
  then have "feed_chunks feed (snd (feed s c)) cs = feed (snd (feed s c)) (concat cs)"
    by (rule Cons.IH)
  then show ?case by (simp add: feed_append split_beta Let_def)
qed

lemma chunking_irrelevant:
  "settled s \<Longrightarrow> concat cs = concat ds \<Longrightarrow> feed_chunks feed s cs = feed_chunks feed s ds"
  by (simp add: chunks_flat)

end

definition spec_settled :: "nat \<Rightarrow> byte list \<times> bool \<Rightarrow> bool" where
  "spec_settled m s = (snd s \<or> parse_frames m (fst s) = ([], fst s, False))"

interpretation frame_stream: byte_stream "spec_feed m" "spec_settled m" for m
proof
  fix s :: "byte list \<times> bool" and bs a b :: "byte list"
  show "spec_settled m (snd (spec_feed m s bs))"
    using parse_settled [of m "fst s @ bs"]
    by (cases "parse_frames m (fst s @ bs)") (auto simp: spec_settled_def spec_feed_def)
  show "spec_settled m s \<Longrightarrow> spec_feed m s [] = ([], s)"
    by (cases s) (auto simp: spec_settled_def spec_feed_def)
  show "spec_feed m s (a @ b) =
      (let (o1, s1) = spec_feed m s a; (o2, s2) = spec_feed m s1 b in (o1 @ o2, s2))"
  proof (cases "snd s")
    case True
    then show ?thesis by (simp add: spec_feed_def)
  next
    case False
    obtain f1 r1 e1 where 1: "parse_frames m (fst s @ a) = (f1, r1, e1)"
      by (cases "parse_frames m (fst s @ a)") auto
    have "parse_frames m (fst s @ a @ b) = (if e1 then (f1, [], True)
        else (let (f2, r2, e2) = parse_frames m (r1 @ b) in (f1 @ f2, r2, e2)))"
      using parse_append [of m "fst s @ a" b] by (simp add: 1)
    with False 1 show ?thesis
      by (auto simp: spec_feed_def split_beta Let_def dest: parse_err_rest)
  qed
qed

section \<open>The decoder refines the parser\<close>

definition dec_inv :: "decoder \<Rightarrow> bool" where
  "dec_inv d = (\<not> failed d \<longrightarrow> buffered d = length (concat (chunks d)))"

definition abs_dec :: "decoder \<Rightarrow> byte list \<times> bool" where
  "abs_dec d = (if failed d then ([], True) else (concat (chunks d), False))"

lemma drain_refines:
  assumes "dec_inv d" and "\<not> failed d"
  shows "let (fs, d') = drain d; (rs, r, e) = parse_frames (maxFrameBytes d) (concat (chunks d)) in
     fs = map utf8_decode rs \<and> abs_dec d' = (r, e) \<and> dec_inv d' \<and>
     maxFrameBytes d' = maxFrameBytes d"
  using assms
proof (induction d rule: drain.induct)
  case (1 d)
  let ?m = "maxFrameBytes d" and ?bs = "concat (chunks d)"
  have buf: "buffered d = length ?bs" using "1.prems" by (simp add: dec_inv_def)
  show ?case
  proof (cases "\<not> length ?bs < 4 \<and> read_be32 ?bs \<le> ?m \<and> 4 + read_be32 ?bs \<le> length ?bs")
    case True
    define rest where "rest = drop (4 + read_be32 ?bs) ?bs"
    define d1 where "d1 = d\<lparr>chunks := (if rest \<noteq> [] then [rest] else []), buffered := length rest\<rparr>"
    define f where "f = take (read_be32 ?bs) (drop 4 ?bs)"
    have nf: "next_frame d = (Some (utf8_decode f), d1)"
      using True "1.prems" buf
      by (simp add: next_frame_def Let_def all_bytes_concat d1_def rest_def f_def)
    have d1: "dec_inv d1" "\<not> failed d1" "maxFrameBytes d1 = ?m" "concat (chunks d1) = rest"
      using "1.prems" by (auto simp: d1_def dec_inv_def)
    obtain rs r e where p: "parse_frames ?m rest = (rs, r, e)"
      by (cases "parse_frames ?m rest") auto
    obtain fs d2 where dr: "drain d1 = (fs, d2)" by (cases "drain d1") auto
    have "fs = map utf8_decode rs \<and> abs_dec d2 = (r, e) \<and> dec_inv d2 \<and> maxFrameBytes d2 = ?m"
      using "1.IH" [OF nf [symmetric] refl d1(1,2)] d1 p dr by simp
    moreover have "drain d = (utf8_decode f # fs, d2)"
      by (simp add: drain.simps [of d] nf dr)
    moreover have "parse_frames ?m ?bs = (f # rs, r, e)"
      using True p by (simp add: parse_frames.simps [of ?m ?bs] f_def rest_def)
    ultimately show ?thesis by simp
  next
    case False
    have "fst (next_frame d) = None"
      using False "1.prems" buf by (auto simp: next_frame_def Let_def all_bytes_concat)
    then obtain d1 where nf: "next_frame d = (None, d1)" by (cases "next_frame d") auto
    have "drain d = ([], d1)" by (simp add: drain.simps [of d] nf)
    moreover have "dec_inv d1 \<and> maxFrameBytes d1 = ?m \<and>
        (fst (parse_frames ?m ?bs) = [] \<and> abs_dec d1 = snd (parse_frames ?m ?bs))"
      using nf False "1.prems" buf
      by (auto simp: next_frame_def Let_def all_bytes_concat dec_inv_def abs_dec_def
          parse_frames.simps [of ?m ?bs] split: if_splits)
    ultimately show ?thesis by (simp add: split_beta Let_def prod_eq_iff)
  qed
qed

lemma feed_refines:
  assumes "dec_inv d" and "spec_settled (maxFrameBytes d) (abs_dec d)"
    and "length c \<le> maxFrameBytes d + 4"
  shows "let (fs, d') = feed_decoder d c; (rs, s') = spec_feed (maxFrameBytes d) (abs_dec d) c in
     fs = map utf8_decode rs \<and> abs_dec d' = s' \<and> dec_inv d' \<and>
     maxFrameBytes d' = maxFrameBytes d"
proof (cases "failed d")
  case True
  then show ?thesis using assms(1)
    by (simp add: feed_decoder_def push_def spec_feed_def abs_dec_def)
next
  case False
  let ?m = "maxFrameBytes d"
  have buf: "buffered d = length (concat (chunks d))" using assms(1) False by (simp add: dec_inv_def)
  have "length (concat (chunks d)) < 4 + ?m"
    using assms(2) False parse_rest_bound [of ?m "concat (chunks d)" "[]" "concat (chunks d)" False]
    by (simp add: spec_settled_def abs_dec_def)
  then have fits: "\<not> buffered d + length c > 2 * (?m + 4)" using assms(3) buf by simp
  define d1 where "d1 = d\<lparr>chunks := chunks d @ [c], buffered := buffered d + length c\<rparr>"
  have "push c d = (True, d1)" using False fits by (simp add: push_def d1_def)
  then have f: "feed_decoder d c = drain d1" by (simp add: feed_decoder_def)
  have "dec_inv d1" "\<not> failed d1" "maxFrameBytes d1 = ?m" "concat (chunks d1) = concat (chunks d) @ c"
    using False buf by (auto simp: d1_def dec_inv_def)
  then show ?thesis
    using drain_refines [of d1] False f
    by (auto simp: spec_feed_def abs_dec_def split_beta Let_def)
qed

lemma feed_chunks_refines:
  assumes "dec_inv d" and "spec_settled (maxFrameBytes d) (abs_dec d)"
    and "\<forall>c \<in> set cs. length c \<le> maxFrameBytes d + 4"
  shows "let (fs, d') = feed_chunks feed_decoder d cs;
             (rs, s') = feed_chunks (spec_feed (maxFrameBytes d)) (abs_dec d) cs in
     fs = map utf8_decode rs \<and> abs_dec d' = s' \<and> dec_inv d'"
  using assms
proof (induction cs arbitrary: d)
  case Nil
  then show ?case by simp
next
  case (Cons c cs)
  let ?m = "maxFrameBytes d"
  obtain fs d1 where f: "feed_decoder d c = (fs, d1)" by (cases "feed_decoder d c")
  obtain rs s1 where sp: "spec_feed ?m (abs_dec d) c = (rs, s1)" by (cases "spec_feed ?m (abs_dec d) c")
  have step: "fs = map utf8_decode rs" "abs_dec d1 = s1" "dec_inv d1" "maxFrameBytes d1 = ?m"
    using feed_refines [of d c] Cons.prems f sp by auto
  have "spec_settled ?m s1" using frame_stream.feed_settled [of ?m "abs_dec d" c] sp by simp
  then show ?case
    using Cons.IH [of d1] step Cons.prems f sp by (auto simp: split_beta Let_def)
qed

section \<open>Encoded streams\<close>

lemma unat_of_nat_byte [simp]: "unat (of_nat n :: byte) = n mod 256"
  by (simp add: unat_of_nat)

lemma read_be32_be32: "n < 4294967296 \<Longrightarrow> read_be32 (be32 n @ r) = n"
proof -
  assume n: "n < 4294967296"
  have e2: "n div 65536 = n div 256 div 256" and e3: "n div 16777216 = n div 256 div 256 div 256"
    by (simp_all add: div_mult2_eq [symmetric])
  have "n div 16777216 < 256" by (rule less_mult_imp_div_less) (use n in simp)
  then have e3': "n div 16777216 mod 256 = n div 256 div 256 div 256" by (simp add: e3)
  have "read_be32 (be32 n @ r) =
      ((n div 256 div 256 div 256 * 256 + n div 256 div 256 mod 256) * 256 + n div 256 mod 256) * 256 + n mod 256"
    by (simp add: be32_def e3' e2)
  also have "\<dots> = n" by (simp only: div_mult_mod_eq)
  finally show ?thesis .
qed

lemma parse_encoded:
  assumes "encodeFrame p m = Inr b"
  shows "parse_frames m (b @ y) = (let (fs, r, e) = parse_frames m y in (utf8_encode p # fs, r, e))"
proof -
  let ?u = "utf8_encode p"
  from assms have b: "b = be32 (length ?u) @ ?u" and fit: "length ?u \<le> m" "length ?u < 4294967296"
    by (auto simp: encodeFrame_def Let_def split: if_splits)
  have rd: "read_be32 (b @ y) = length ?u"
    using read_be32_be32 [OF fit(2), of "?u @ y"] by (simp add: b)
  have lb: "length b = 4 + length ?u" by (simp add: b be32_def)
  then have "length (b @ y) = 4 + length ?u + length y" by simp
  moreover have "drop (4 + length ?u) (b @ y) = y"
    using append_eq_conv_conj [of b y "b @ y"] lb by simp
  moreover have "take (length ?u) (drop 4 (b @ y)) = ?u" by (simp add: b be32_def)
  ultimately show ?thesis using fit rd by (simp add: parse_frames.simps [of m "b @ y"])
qed

lemma parse_encoded_all:
  "list_all2 (\<lambda>p b. encodeFrame p m = Inr b) ps bs \<Longrightarrow>
     parse_frames m (concat bs) = (map utf8_encode ps, [], False)"
proof (induction rule: list_all2_induct)
  case Nil
  then show ?case by (simp add: parse_frames.simps)
next
  case (Cons p ps b bs)
  then show ?case by (simp add: parse_encoded)
qed

lemma new_decoder_inv: "dec_inv (new_decoder m) \<and> spec_settled m (abs_dec (new_decoder m))"
  by (simp add: dec_inv_def spec_settled_def abs_dec_def new_decoder_def parse_frames.simps)

section \<open>Properties\<close>

text \<open>C12: the incremental decoder refines the flat parser: for every way TCP cuts a byte
  stream into pieces (none longer than a maximal frame with its header, so the overflow
  guard stays silent), the frames delivered are exactly the complete frames at the front
  of the stream, decoded, and the decoder is in its error state exactly when a declared
  length exceeded the limit.  In particular the cut does not matter.\<close>

theorem decoder_refines_parser:
  assumes "\<forall>c \<in> set cs. length c \<le> m + 4"
  shows "let (fs, d) = feed_chunks feed_decoder (new_decoder m) cs;
             (rs, r, e) = parse_frames m (concat cs) in
     fs = map utf8_decode rs \<and> failed d = e \<and>
     (\<not> e \<longrightarrow> concat (chunks d) = r \<and> buffered d = length r)"
proof -
  let ?d = "new_decoder m"
  have m: "maxFrameBytes ?d = m" and a: "abs_dec ?d = ([], False)"
    by (simp_all add: new_decoder_def abs_dec_def)
  obtain fs d where f: "feed_chunks feed_decoder ?d cs = (fs, d)"
    by (cases "feed_chunks feed_decoder ?d cs")
  obtain rs r e where p: "parse_frames m (concat cs) = (rs, r, e)"
    by (cases "parse_frames m (concat cs)") auto
  have "feed_chunks (spec_feed m) ([], False) cs = spec_feed m ([], False) (concat cs)"
    using new_decoder_inv [of m] a by (intro frame_stream.chunks_flat) simp
  also have "\<dots> = (rs, (r, e))" by (simp add: spec_feed_def p)
  finally have sp: "feed_chunks (spec_feed m) ([], False) cs = (rs, (r, e))" .
  have "fs = map utf8_decode rs \<and> abs_dec d = (r, e) \<and> dec_inv d"
    using feed_chunks_refines [of ?d cs] new_decoder_inv [of m] assms f sp by (simp add: m a)
  then show ?thesis using f p by (auto simp: abs_dec_def dec_inv_def split: if_splits)
qed

theorem decoder_refines_parser_witness:
  "let (fs, d) = feed_chunks feed_decoder (new_decoder 8) [[0, 0], [0, 1, 0x41, 0], [0, 0, 9]];
       (rs, r, e) = parse_frames 8 (concat [[0, 0], [0, 1, 0x41, 0], [0, 0, 9]]) in
     fs = map utf8_decode rs \<and> failed d = e \<and>
     (\<not> e \<longrightarrow> concat (chunks d) = r \<and> buffered d = length r)"
  by (rule decoder_refines_parser) simp

text \<open>C13: framing round trip: payloads encoded by \<open>encodeFrame\<close>, concatenated and cut at
  arbitrary points, come out of the decoder in order and complete, each equal to the
  payload sent up to the replacement of lone surrogates; nothing stays buffered and the
  decoder has not failed.\<close>

theorem frame_roundtrip:
  assumes "list_all2 (\<lambda>p b. encodeFrame p m = Inr b) ps bs"
    and "concat cs = concat bs" and "\<forall>c \<in> set cs. length c \<le> m + 4"
  shows "fst (feed_chunks feed_decoder (new_decoder m) cs) = map to_well_formed ps \<and>
     \<not> failed (snd (feed_chunks feed_decoder (new_decoder m) cs)) \<and>
     buffered (snd (feed_chunks feed_decoder (new_decoder m) cs)) = 0"
proof -
  have p: "parse_frames m (concat cs) = (map utf8_encode ps, [], False)"
    using parse_encoded_all [OF assms(1)] assms(2) by simp
  show ?thesis
    using decoder_refines_parser [OF assms(3)] p
    by (auto simp: split_beta Let_def utf8_decode_encode)
qed

theorem frame_roundtrip_witness:
  "fst (feed_chunks feed_decoder (new_decoder 16)
     [[0, 0, 0], [2, 0x7B], [0x7D, 0, 0, 0, 3, 0xE2, 0x86], [0x92]]) =
     map to_well_formed [[0x7B, 0x7D], [0x2192]] \<and>
   \<not> failed (snd (feed_chunks feed_decoder (new_decoder 16)
     [[0, 0, 0], [2, 0x7B], [0x7D, 0, 0, 0, 3, 0xE2, 0x86], [0x92]])) \<and>
   buffered (snd (feed_chunks feed_decoder (new_decoder 16)
     [[0, 0, 0], [2, 0x7B], [0x7D, 0, 0, 0, 3, 0xE2, 0x86], [0x92]])) = 0"
  by (rule frame_roundtrip [where bs = "[[0, 0, 0, 2, 0x7B, 0x7D], [0, 0, 0, 3, 0xE2, 0x86, 0x92]]"])
    (simp_all add: encodeFrame_def be32_def utf8_encode_def enc_scalar_def is_high_def is_low_def Let_def)

lemma drain_buffered:
  "dec_inv d \<Longrightarrow> buffered (snd (drain d)) \<le> buffered d \<and> dec_inv (snd (drain d)) \<and>
     maxFrameBytes (snd (drain d)) = maxFrameBytes d"
proof (induction d rule: drain.induct)
  case (1 d)
  obtain o1 d1 where nf: "next_frame d = (o1, d1)" by (cases "next_frame d")
  then have d1: "buffered d1 \<le> buffered d" "dec_inv d1" "maxFrameBytes d1 = maxFrameBytes d"
    using "1.prems" by (auto simp: next_frame_def Let_def dec_inv_def all_bytes_concat split: if_splits)
  show ?case
  proof (cases o1)
    case None
    then show ?thesis using d1 nf by (simp add: drain.simps [of d])
  next
    case (Some f)
    then show ?thesis
      using "1.IH" [OF nf [symmetric] Some d1(2)] d1 nf by (simp add: drain.simps [of d] split_beta Let_def)
  qed
qed

lemma feed_bounded:
  assumes "dec_inv d" and "buffered d \<le> 2 * (maxFrameBytes d + 4)"
  shows "dec_inv (snd (feed_decoder d c)) \<and> maxFrameBytes (snd (feed_decoder d c)) = maxFrameBytes d \<and>
     buffered (snd (feed_decoder d c)) \<le> 2 * (maxFrameBytes d + 4)"
proof (cases "fst (push c d)")
  case True
  then have "dec_inv (snd (push c d))" "buffered (snd (push c d)) \<le> 2 * (maxFrameBytes d + 4)"
    "maxFrameBytes (snd (push c d)) = maxFrameBytes d"
    using assms by (auto simp: push_def dec_inv_def split: if_splits)
  then show ?thesis
    using True drain_buffered [of "snd (push c d)"] by (simp add: feed_decoder_def split_beta)
next
  case False
  then show ?thesis
    using assms by (auto simp: feed_decoder_def push_def dec_inv_def split: if_splits)
qed

lemma feed_failed: "failed d \<Longrightarrow> feed_decoder d c = ([], d)"
  by (simp add: feed_decoder_def push_def)

text \<open>The decoder's memory is bounded and its failure permanent: whatever is pushed, at
  most twice a maximal frame with its header is ever buffered, and once failed the
  decoder accepts no chunk and delivers no frame.\<close>

theorem decoder_bounded_and_sticky:
  "buffered (snd (feed_chunks feed_decoder (new_decoder m) cs)) \<le> 2 * (m + 4) \<and>
   (let d = snd (feed_chunks feed_decoder (new_decoder m) cs) in
      \<not> failed d \<or> feed_chunks feed_decoder d later = ([], d))"
proof -
  have b: "dec_inv d \<Longrightarrow> buffered d \<le> 2 * (maxFrameBytes d + 4) \<Longrightarrow>
      buffered (snd (feed_chunks feed_decoder d cs)) \<le> 2 * (maxFrameBytes d + 4)" for d
  proof (induction cs arbitrary: d)
    case (Cons c cs)
    then show ?case
      using feed_bounded [of d c] Cons.IH [of "snd (feed_decoder d c)"] by (simp add: split_beta Let_def)
  qed simp
  have s: "failed d \<Longrightarrow> feed_chunks feed_decoder d later = ([], d)" for d
    by (induction later) (simp_all add: feed_failed)
  have "buffered (snd (feed_chunks feed_decoder (new_decoder m) cs)) \<le> 2 * (m + 4)"
    using b [of "new_decoder m"] by (simp add: new_decoder_def dec_inv_def)
  then show ?thesis using s by (simp add: Let_def)
qed

lemma oversized_header_fails: "failed (snd (feed_chunks feed_decoder (new_decoder 1) [[0, 0, 0, 2]]))"
  by (simp add: feed_decoder_def push_def new_decoder_def drain.simps next_frame_def all_bytes_def Let_def)

theorem decoder_bounded_and_sticky_witness:
  "buffered (snd (feed_chunks feed_decoder (new_decoder 1) [[0, 0, 0, 2]])) \<le> 10 \<and>
   failed (snd (feed_chunks feed_decoder (new_decoder 1) [[0, 0, 0, 2]])) \<and>
   feed_chunks feed_decoder (snd (feed_chunks feed_decoder (new_decoder 1) [[0, 0, 0, 2]]))
     [[0, 0, 0, 1, 0x41]] = ([], snd (feed_chunks feed_decoder (new_decoder 1) [[0, 0, 0, 2]]))"
  using decoder_bounded_and_sticky [of 1 "[[0, 0, 0, 2]]" "[[0, 0, 0, 1, 0x41]]"] oversized_header_fails
  by (simp add: Let_def)

end
