(* ===== verification/Adapters.thy ===== *)
theory Adapters
  imports Prelude
begin

text \<open>
  Module adapter documents (\<open>packages/schemas/src/adapters.ts\<close>): the data types and the
  schema every document is parsed against when the registry module is loaded.  Numbers
  are the exact rational values of the source's literals; \<open>AdapterDocs\<close> holds the shipped
  documents and \<open>Registry\<close> the lookup functions.
\<close>

datatype signal_role =
    Audio | CvUnipolar | CvBipolar | PitchVoct | Gate | Trigger | Clock | UnknownRole

datatype polyphony = Monophonic | Polyphonic | PolyFromInput | UnknownPolyphony

record param_semantics =
  ps_paramId :: nat
  ps_role :: string
  ps_description :: "string option"
  ps_safeInitial :: "rat option"
  ps_safeRange :: "(rat \<times> rat) option"

record port_semantics =
  pt_portId :: nat
  pt_role :: signal_role
  pt_key :: string
  pt_description :: "string option"
  pt_polyphony :: polyphony

record connection_recipe =
  cr_name :: string
  cr_description :: string
  cr_fromOutputKey :: string
  cr_toRole :: signal_role

record module_adapter =
  ad_adapterVersion :: nat
  ad_pluginSlug :: string
  ad_modelSlug :: string
  ad_pluginVersionRange :: string
  ad_displayName :: string
  ad_summary :: string
  ad_params :: "param_semantics list"
  ad_inputs :: "port_semantics list"
  ad_outputs :: "port_semantics list"
  ad_polyphony :: polyphony
  ad_connectionRecipes :: "connection_recipe list"
  ad_provenance :: "string list"

section \<open>The schema\<close>

definition SmallIndex_ok :: "nat \<Rightarrow> bool" where
  "SmallIndex_ok n = (n \<le> 65535)"

definition Slug_ok :: "string \<Rightarrow> bool" where
  "Slug_ok s = (1 \<le> length s \<and> length s \<le> 255)"

definition max_opt :: "nat \<Rightarrow> string option \<Rightarrow> bool" where
  "max_opt n s = (case s of None \<Rightarrow> True | Some t \<Rightarrow> length t \<le> n)"

definition param_semantics_ok :: "param_semantics \<Rightarrow> bool" where
  "param_semantics_ok p = (SmallIndex_ok (ps_paramId p) \<and> length (ps_role p) \<le> 64 \<and>
     max_opt 1024 (ps_description p))"

definition port_semantics_ok :: "port_semantics \<Rightarrow> bool" where
  "port_semantics_ok p = (SmallIndex_ok (pt_portId p) \<and> length (pt_key p) \<le> 64 \<and>
     max_opt 1024 (pt_description p))"

definition connection_recipe_ok :: "connection_recipe \<Rightarrow> bool" where
  "connection_recipe_ok c = (length (cr_name c) \<le> 128 \<and> length (cr_description c) \<le> 2048 \<and>
     length (cr_fromOutputKey c) \<le> 64)"

definition module_adapter_ok :: "module_adapter \<Rightarrow> bool" where
  "module_adapter_ok a =
     (ad_adapterVersion a = 1 \<and> Slug_ok (ad_pluginSlug a) \<and> Slug_ok (ad_modelSlug a) \<and>
      length (ad_pluginVersionRange a) \<le> 128 \<and> length (ad_displayName a) \<le> 256 \<and>
      length (ad_summary a) \<le> 2048 \<and>
      length (ad_params a) \<le> 1024 \<and> list_all param_semantics_ok (ad_params a) \<and>
      length (ad_inputs a) \<le> 256 \<and> list_all port_semantics_ok (ad_inputs a) \<and>
      length (ad_outputs a) \<le> 256 \<and> list_all port_semantics_ok (ad_outputs a) \<and>
      length (ad_connectionRecipes a) \<le> 64 \<and>
      list_all connection_recipe_ok (ad_connectionRecipes a) \<and>
      1 \<le> length (ad_provenance a) \<and> list_all (\<lambda>s. length s \<le> 1024) (ad_provenance a))"

end
