(* ===== verification/AdapterDocsCore.thy ===== *)
theory AdapterDocsCore
  imports Adapters
begin

text \<open>
  The shipped adapter documents (\<open>packages/adapters/src/data.ts\<close>) of the Core and RackMCP modules, field by
  field.  A character outside ASCII is written as its UTF-8 bytes.
\<close>

definition AudioInterface2_params :: "param_semantics list" where
  "AudioInterface2_params = [
    \<lparr>ps_paramId = 0, ps_role = ''level'',
      ps_description = Some ''Master output gain applied to both device-output channels. 0 mutes, 1 is unity gain, and 2 is roughly a +6 dB boost that can clip the interface.'',
      ps_safeInitial = Some (1), ps_safeRange = Some (0, 1)\<rparr>]"

definition AudioInterface2_inputs :: "port_semantics list" where
  "AudioInterface2_inputs = [
    \<lparr>pt_portId = 0, pt_role = Audio, pt_key = ''audio_in_1'',
      pt_description = Some (''Audio sent to hardware device output channel 1 (e.g. left speaker / DAW input 1). Patch the final mix or VCA output here. Named '' @ [CHR 0x22] @ ''To device output 1'' @ [CHR 0x22] @ ''.''),
      pt_polyphony = Monophonic\<rparr>,
    \<lparr>pt_portId = 1, pt_role = Audio, pt_key = ''audio_in_2'',
      pt_description = Some (''Audio sent to hardware device output channel 2 (e.g. right speaker / DAW input 2). Named '' @ [CHR 0x22] @ ''To device output 2'' @ [CHR 0x22] @ ''.''),
      pt_polyphony = Monophonic\<rparr>]"

definition AudioInterface2_outputs :: "port_semantics list" where
  "AudioInterface2_outputs = [
    \<lparr>pt_portId = 0, pt_role = Audio, pt_key = ''audio_out_1'',
      pt_description = Some (''Audio received from hardware device input channel 1 (e.g. microphone or line-in left). Named '' @ [CHR 0x22] @ ''From device input 1'' @ [CHR 0x22] @ ''.''),
      pt_polyphony = Monophonic\<rparr>,
    \<lparr>pt_portId = 1, pt_role = Audio, pt_key = ''audio_out_2'',
      pt_description = Some (''Audio received from hardware device input channel 2 (e.g. line-in right). Named '' @ [CHR 0x22] @ ''From device input 2'' @ [CHR 0x22] @ ''.''),
      pt_polyphony = Monophonic\<rparr>]"

definition AudioInterface2_connectionRecipes :: "connection_recipe list" where
  "AudioInterface2_connectionRecipes = [
    \<lparr>cr_name = ''Live input into processing'',
      cr_description = ''Route the hardware device input (channel 1) into a filter, VCA, or effect audio input to process an external source inside the patch.'',
      cr_fromOutputKey = ''audio_out_1'', cr_toRole = Audio\<rparr>,
    \<lparr>cr_name = ''Second live input channel'',
      cr_description = ''Route the hardware device input (channel 2) into another audio input for stereo or dual-source external processing.'',
      cr_fromOutputKey = ''audio_out_2'', cr_toRole = Audio\<rparr>]"

definition AudioInterface2_adapter :: module_adapter where
  "AudioInterface2_adapter = \<lparr>
    ad_adapterVersion = 1, ad_pluginSlug = ''Core'', ad_modelSlug = ''AudioInterface2'',
    ad_pluginVersionRange = ''>=2.6.0 <3.0.0'', ad_displayName = ''Audio 2'',
    ad_summary = (''Core Audio 2 is VCV Rack'' @ [CHR 0x27] @ ''s two-channel audio interface bridge to the host sound device. Its two inputs send patch audio to the device'' @ [CHR 0x27] @ ''s outputs (speakers or DAW), scaled by a master Level knob, while its two outputs bring the device'' @ [CHR 0x27] @ ''s inputs (microphone or line-in) back into the patch. In a subtractive synth patch it is normally the final output sink: the mix/VCA bus is patched into its inputs so the sound can be heard.''),
    ad_params = AudioInterface2_params, ad_inputs = AudioInterface2_inputs, ad_outputs = AudioInterface2_outputs,
    ad_polyphony = Monophonic, ad_connectionRecipes = AudioInterface2_connectionRecipes,
    ad_provenance = [
    ''inspect_model on VCV Rack 2.6.6 (Core) / Fundamental 2.6.4; port and parameter ids/names verified'',
    ''Semantics derived from verified Core Audio 2 param/port names and standard VCV Core AudioInterface behavior (inputs feed device outputs, outputs carry device inputs).'']\<rparr>"

definition AudioInterface_params :: "param_semantics list" where
  "AudioInterface_params = []"

definition AudioInterface_inputs :: "port_semantics list" where
  "AudioInterface_inputs = [
    \<lparr>pt_portId = 0, pt_role = Audio, pt_key = ''audio_in_1'',
      pt_description = Some ''Signal sent to device output channel 1 (to sound card / DAW).'',
      pt_polyphony = Monophonic\<rparr>,
    \<lparr>pt_portId = 1, pt_role = Audio, pt_key = ''audio_in_2'',
      pt_description = Some ''Signal sent to device output channel 2 (to sound card / DAW).'',
      pt_polyphony = Monophonic\<rparr>,
    \<lparr>pt_portId = 2, pt_role = Audio, pt_key = ''audio_in_3'',
      pt_description = Some ''Signal sent to device output channel 3.'',
      pt_polyphony = Monophonic\<rparr>,
    \<lparr>pt_portId = 3, pt_role = Audio, pt_key = ''audio_in_4'',
      pt_description = Some ''Signal sent to device output channel 4.'',
      pt_polyphony = Monophonic\<rparr>,
    \<lparr>pt_portId = 4, pt_role = Audio, pt_key = ''audio_in_5'',
      pt_description = Some ''Signal sent to device output channel 5.'',
      pt_polyphony = Monophonic\<rparr>,
    \<lparr>pt_portId = 5, pt_role = Audio, pt_key = ''audio_in_6'',
      pt_description = Some ''Signal sent to device output channel 6.'',
      pt_polyphony = Monophonic\<rparr>,
    \<lparr>pt_portId = 6, pt_role = Audio, pt_key = ''audio_in_7'',
      pt_description = Some ''Signal sent to device output channel 7.'',
      pt_polyphony = Monophonic\<rparr>,
    \<lparr>pt_portId = 7, pt_role = Audio, pt_key = ''audio_in_8'',
      pt_description = Some ''Signal sent to device output channel 8.'',
      pt_polyphony = Monophonic\<rparr>]"

definition AudioInterface_outputs :: "port_semantics list" where
  "AudioInterface_outputs = [
    \<lparr>pt_portId = 0, pt_role = Audio, pt_key = ''audio_out_1'',
      pt_description = Some ''Signal received from device input channel 1 (from sound card / DAW).'',
      pt_polyphony = Monophonic\<rparr>,
    \<lparr>pt_portId = 1, pt_role = Audio, pt_key = ''audio_out_2'',
      pt_description = Some ''Signal received from device input channel 2 (from sound card / DAW).'',
      pt_polyphony = Monophonic\<rparr>,
    \<lparr>pt_portId = 2, pt_role = Audio, pt_key = ''audio_out_3'',
      pt_description = Some ''Signal received from device input channel 3.'',
      pt_polyphony = Monophonic\<rparr>,
    \<lparr>pt_portId = 3, pt_role = Audio, pt_key = ''audio_out_4'',
      pt_description = Some ''Signal received from device input channel 4.'',
      pt_polyphony = Monophonic\<rparr>,
    \<lparr>pt_portId = 4, pt_role = Audio, pt_key = ''audio_out_5'',
      pt_description = Some ''Signal received from device input channel 5.'',
      pt_polyphony = Monophonic\<rparr>,
    \<lparr>pt_portId = 5, pt_role = Audio, pt_key = ''audio_out_6'',
      pt_description = Some ''Signal received from device input channel 6.'',
      pt_polyphony = Monophonic\<rparr>,
    \<lparr>pt_portId = 6, pt_role = Audio, pt_key = ''audio_out_7'',
      pt_description = Some ''Signal received from device input channel 7.'',
      pt_polyphony = Monophonic\<rparr>,
    \<lparr>pt_portId = 7, pt_role = Audio, pt_key = ''audio_out_8'',
      pt_description = Some ''Signal received from device input channel 8.'',
      pt_polyphony = Monophonic\<rparr>]"

definition AudioInterface_connectionRecipes :: "connection_recipe list" where
  "AudioInterface_connectionRecipes = [
    \<lparr>cr_name = ''Device input into mixer/processing'',
      cr_description = ''Route external audio arriving from a device input channel into a mixer, VCA, or effect for processing inside the rack.'',
      cr_fromOutputKey = ''audio_out_1'', cr_toRole = Audio\<rparr>,
    \<lparr>cr_name = ''Stereo device input to processing'',
      cr_description = ''Bring in the second external input channel (e.g. right of a stereo pair) for processing or monitoring.'',
      cr_fromOutputKey = ''audio_out_2'', cr_toRole = Audio\<rparr>]"

definition AudioInterface_adapter :: module_adapter where
  "AudioInterface_adapter = \<lparr>
    ad_adapterVersion = 1, ad_pluginSlug = ''Core'', ad_modelSlug = ''AudioInterface'',
    ad_pluginVersionRange = ''>=2.6.0 <3.0.0'', ad_displayName = ''Audio 8'',
    ad_summary = ''Core audio interface bridging VCV Rack to the host sound card, exposing up to 8 device output channels and 8 device input channels. In a subtractive patch it is the final destination: the summed/processed synth signal is patched into its device-output inputs to reach speakers or a DAW, while its device-input outputs bring external audio (mic, line-in) into the rack for processing.'',
    ad_params = AudioInterface_params, ad_inputs = AudioInterface_inputs, ad_outputs = AudioInterface_outputs,
    ad_polyphony = Monophonic, ad_connectionRecipes = AudioInterface_connectionRecipes,
    ad_provenance = [
    ''inspect_model on VCV Rack 2.6.6 (Core) / Fundamental 2.6.4; port and parameter ids/names verified'',
    (''Core AudioInterface (Audio 8) exposes no parameters; 8 inputs named '' @ [CHR 0x27] @ ''To device output N'' @ [CHR 0x27] @ '' and 8 outputs named '' @ [CHR 0x27] @ ''From device input N'' @ [CHR 0x27] @ '', all audio-rate, verified from ground-truth metadata'')]\<rparr>"

definition MIDIToCVInterface_params :: "param_semantics list" where
  "MIDIToCVInterface_params = []"

definition MIDIToCVInterface_inputs :: "port_semantics list" where
  "MIDIToCVInterface_inputs = []"

definition MIDIToCVInterface_outputs :: "port_semantics list" where
  "MIDIToCVInterface_outputs = [
    \<lparr>pt_portId = 0, pt_role = PitchVoct, pt_key = ''pitch_out'',
      pt_description = Some ''1V/octave pitch CV derived from the played MIDI note number; patch to a VCO 1V/oct input to set oscillator pitch.'',
      pt_polyphony = Polyphonic\<rparr>,
    \<lparr>pt_portId = 1, pt_role = Gate, pt_key = ''gate_out'',
      pt_description = Some ''High (~10V) while a note is held, low on release; drives envelope generator gate inputs.'',
      pt_polyphony = Polyphonic\<rparr>,
    \<lparr>pt_portId = 2, pt_role = CvUnipolar, pt_key = ''velocity_out'',
      pt_description = Some ''Unipolar note-on velocity CV (0-10V); commonly routed to a VCA or filter CV for velocity-sensitive dynamics.'',
      pt_polyphony = Polyphonic\<rparr>,
    \<lparr>pt_portId = 3, pt_role = CvUnipolar, pt_key = ''aftertouch_out'',
      pt_description = Some ''Unipolar channel/poly aftertouch (pressure) CV (0-10V) for expressive modulation while a note is held.'',
      pt_polyphony = Polyphonic\<rparr>,
    \<lparr>pt_portId = 4, pt_role = CvBipolar, pt_key = ''pitch_wheel_out'',
      pt_description = Some ''Bipolar pitch-bend wheel CV (centered at 0V); typically summed into a VCO FM/pitch input for bend.'',
      pt_polyphony = Monophonic\<rparr>,
    \<lparr>pt_portId = 5, pt_role = CvUnipolar, pt_key = ''mod_wheel_out'',
      pt_description = Some ''Unipolar mod-wheel (CC1) CV (0-10V); a general-purpose modulation source for cutoff, LFO depth, etc.'',
      pt_polyphony = Monophonic\<rparr>,
    \<lparr>pt_portId = 6, pt_role = Trigger, pt_key = ''retrigger_out'',
      pt_description = Some ''Emits a trigger pulse on each new note-on, including legato repeats, so envelopes can re-fire without the gate dropping.'',
      pt_polyphony = Polyphonic\<rparr>,
    \<lparr>pt_portId = 7, pt_role = Clock, pt_key = ''clock_out'',
      pt_description = Some ''MIDI clock pulses (24 PPQN) forwarded as a clock signal to drive sequencers, clock dividers, or synced LFOs.'',
      pt_polyphony = Monophonic\<rparr>,
    \<lparr>pt_portId = 8, pt_role = Clock, pt_key = ''clock_div_out'',
      pt_description = Some ''A divided version of the MIDI clock (division set in the context menu) for slower clock rates.'',
      pt_polyphony = Monophonic\<rparr>,
    \<lparr>pt_portId = 9, pt_role = Trigger, pt_key = ''start_out'',
      pt_description = Some ''Trigger pulse emitted when a MIDI Start transport message is received.'',
      pt_polyphony = Monophonic\<rparr>,
    \<lparr>pt_portId = 10, pt_role = Trigger, pt_key = ''stop_out'',
      pt_description = Some ''Trigger pulse emitted when a MIDI Stop transport message is received.'',
      pt_polyphony = Monophonic\<rparr>,
    \<lparr>pt_portId = 11, pt_role = Trigger, pt_key = ''continue_out'',
      pt_description = Some ''Trigger pulse emitted when a MIDI Continue transport message is received.'',
      pt_polyphony = Monophonic\<rparr>]"

definition MIDIToCVInterface_connectionRecipes :: "connection_recipe list" where
  "MIDIToCVInterface_connectionRecipes = [
    \<lparr>cr_name = ''Pitch to VCO'',
      cr_description = (''Patch the 1V/octave pitch output to a VCO'' @ [CHR 0x27] @ ''s 1V/oct input so played MIDI notes set oscillator pitch.''),
      cr_fromOutputKey = ''pitch_out'', cr_toRole = PitchVoct\<rparr>,
    \<lparr>cr_name = ''Gate to envelope'',
      cr_description = ''Patch the gate output to an ADSR/envelope generator gate input to open the voice while a key is held.'',
      cr_fromOutputKey = ''gate_out'', cr_toRole = Gate\<rparr>,
    \<lparr>cr_name = ''Velocity to VCA'',
      cr_description = ''Route the velocity output to a VCA (or filter) CV input for velocity-sensitive amplitude/timbre.'',
      cr_fromOutputKey = ''velocity_out'', cr_toRole = CvUnipolar\<rparr>,
    \<lparr>cr_name = ''Clock to sequencer'',
      cr_description = (''Send the clock output to a sequencer or clocked module'' @ [CHR 0x27] @ ''s clock input to sync it to MIDI tempo.''),
      cr_fromOutputKey = ''clock_out'', cr_toRole = Clock\<rparr>]"

definition MIDIToCVInterface_adapter :: module_adapter where
  "MIDIToCVInterface_adapter = \<lparr>
    ad_adapterVersion = 1, ad_pluginSlug = ''Core'', ad_modelSlug = ''MIDIToCVInterface'',
    ad_pluginVersionRange = ''>=2.6.0 <3.0.0'', ad_displayName = ''MIDI to CV'',
    ad_summary = (''Core MIDI-to-CV interface: converts incoming MIDI note, controller, and transport messages into control voltages, gates, and triggers. In a subtractive-synth patch it is the voice'' @ [CHR 0x27] @ ''s front end, supplying 1V/octave pitch to a VCO, a gate to envelope generators, and velocity/aftertouch/wheel modulation plus clock and transport triggers for sequencing. It has no parameters or signal inputs; all configuration (MIDI device, channel, polyphony) lives in its context menu.''),
    ad_params = MIDIToCVInterface_params, ad_inputs = MIDIToCVInterface_inputs, ad_outputs = MIDIToCVInterface_outputs,
    ad_polyphony = Polyphonic, ad_connectionRecipes = MIDIToCVInterface_connectionRecipes,
    ad_provenance = [
    ''inspect_model on VCV Rack 2.6.6 (Core) MIDIToCVInterface; port ids/names verified against live metadata (12 outputs, no params, no inputs). Signal roles and semantics interpreted from output names and documented VCV Core MIDI-to-CV behavior.'',
    (''Adversarial verification against ground-truth metadata: all 12 output portIds (0-11) and names confirmed present; roles confirmed consistent with port names (portId 0 '' @ [CHR 0x27] @ ''1V/octave pitch'' @ [CHR 0x27] @ '' = pitch_voct, portId 4 '' @ [CHR 0x27] @ ''Pitch wheel'' @ [CHR 0x27] @ '' = cv_bipolar); no ports dropped; draft confirmed correct with no corrections needed.'')]\<rparr>"

definition Bridge_params :: "param_semantics list" where
  "Bridge_params = [
    \<lparr>ps_paramId = 0, ps_role = ''reset'',
      ps_description = Some (''Momentary button (configButton, min 0 / max 1 / default 0) that rotates the bridge pairing secret; a value crossing to 1 fires a one-shot pairing reset that invalidates existing client pairings. Not an audio or CV parameter '' @ [CHR 0xE2] @ [CHR 0x80] @ [CHR 0x94] @ '' its safe resting value is 0.''),
      ps_safeInitial = Some (0), ps_safeRange = Some (0, 1)\<rparr>]"

definition Bridge_inputs :: "port_semantics list" where
  "Bridge_inputs = []"

definition Bridge_outputs :: "port_semantics list" where
  "Bridge_outputs = []"

definition Bridge_connectionRecipes :: "connection_recipe list" where
  "Bridge_connectionRecipes = []"

definition Bridge_adapter :: module_adapter where
  "Bridge_adapter = \<lparr>
    ad_adapterVersion = 1, ad_pluginSlug = ''RackMCP'', ad_modelSlug = ''Bridge'',
    ad_pluginVersionRange = ''>=2.0.0 <3.0.0'', ad_displayName = ''RackMCP-Bridge'',
    ad_summary = (''Control and status utility for the RackMCP local bridge. Its panel surfaces connection, writer-lease, and unsaved-patch state, and it exposes a single momentary button that rotates the pairing secret and invalidates existing client pairings. It carries no audio, CV, gate, or clock signals and plays no part in a subtractive-synth signal chain '' @ [CHR 0xE2] @ [CHR 0x80] @ [CHR 0x94] @ '' it is infrastructure for the MCP link rather than a sound source or processor.''),
    ad_params = Bridge_params, ad_inputs = Bridge_inputs, ad_outputs = Bridge_outputs,
    ad_polyphony = Monophonic, ad_connectionRecipes = Bridge_connectionRecipes,
    ad_provenance = [
    ''inspect_model on VCV Rack 2.6.6 (Core) / Fundamental 2.6.4; single param id/name verified.'',
    (''Ground truth cross-checked against configButton(RESET_PARAM, '' @ [CHR 0x22] @ ''Reset pairing secret'' @ [CHR 0x22] @ '') with INPUTS_LEN==0 and OUTPUTS_LEN==0 in plugins/RackMCP/src/rackside/BridgeModule.cpp; module has no inputs or outputs and no signal-path outputs, so no connection recipes are asserted.''),
    (''Verification correction: pluginVersionRange changed from '' @ [CHR 0x22] @ ''>=0.1.0 <1.0.0'' @ [CHR 0x22] @ '' to '' @ [CHR 0x22] @ ''>=2.0.0 <3.0.0'' @ [CHR 0x22] @ '' to include the actual plugin version 2.0.0 declared in plugins/RackMCP/plugin.json (the draft range excluded the shipped version).'')]\<rparr>"

definition Probe_params :: "param_semantics list" where
  "Probe_params = []"

definition Probe_inputs :: "port_semantics list" where
  "Probe_inputs = [
    \<lparr>pt_portId = 0, pt_role = UnknownRole, pt_key = ''probe_1_in'',
      pt_description = Some ''Probe 1: generic measurement tap. Accepts any signal (audio, CV, pitch, gate, clock); voltage statistics are accumulated per polyphony channel of the patched cable. Signal is measured only, never modified or passed through.'',
      pt_polyphony = PolyFromInput\<rparr>,
    \<lparr>pt_portId = 1, pt_role = UnknownRole, pt_key = ''probe_2_in'',
      pt_description = Some ''Probe 2: generic measurement tap. Accepts any signal; channel count follows the patched cable.'',
      pt_polyphony = PolyFromInput\<rparr>,
    \<lparr>pt_portId = 2, pt_role = UnknownRole, pt_key = ''probe_3_in'',
      pt_description = Some ''Probe 3: generic measurement tap. Accepts any signal; channel count follows the patched cable.'',
      pt_polyphony = PolyFromInput\<rparr>,
    \<lparr>pt_portId = 3, pt_role = UnknownRole, pt_key = ''probe_4_in'',
      pt_description = Some ''Probe 4: generic measurement tap. Accepts any signal; channel count follows the patched cable.'',
      pt_polyphony = PolyFromInput\<rparr>,
    \<lparr>pt_portId = 4, pt_role = UnknownRole, pt_key = ''probe_5_in'',
      pt_description = Some ''Probe 5: generic measurement tap. Accepts any signal; channel count follows the patched cable.'',
      pt_polyphony = PolyFromInput\<rparr>,
    \<lparr>pt_portId = 5, pt_role = UnknownRole, pt_key = ''probe_6_in'',
      pt_description = Some ''Probe 6: generic measurement tap. Accepts any signal; channel count follows the patched cable.'',
      pt_polyphony = PolyFromInput\<rparr>,
    \<lparr>pt_portId = 6, pt_role = UnknownRole, pt_key = ''probe_7_in'',
      pt_description = Some ''Probe 7: generic measurement tap. Accepts any signal; channel count follows the patched cable.'',
      pt_polyphony = PolyFromInput\<rparr>,
    \<lparr>pt_portId = 7, pt_role = UnknownRole, pt_key = ''probe_8_in'',
      pt_description = Some ''Probe 8: generic measurement tap. Accepts any signal; channel count follows the patched cable.'',
      pt_polyphony = PolyFromInput\<rparr>]"

definition Probe_outputs :: "port_semantics list" where
  "Probe_outputs = []"

definition Probe_connectionRecipes :: "connection_recipe list" where
  "Probe_connectionRecipes = []"

definition Probe_adapter :: module_adapter where
  "Probe_adapter = \<lparr>
    ad_adapterVersion = 1, ad_pluginSlug = ''RackMCP'', ad_modelSlug = ''Probe'',
    ad_pluginVersionRange = ''>=2.0.0 <3.0.0'', ad_displayName = ''RackMCP-Probe'',
    ad_summary = ''Signal-analysis instrument with eight generic probe inputs. Any cable branched into a probe input is measured non-invasively -- the module accumulates per-channel voltage statistics over a rolling window and publishes them as telemetry to the RackMCP knowledge layer, without altering or passing through the signal. In a subtractive-synth patch it is used as a measurement tap: mult a VCO, filter, envelope, LFO, or gate signal into a probe input to observe it, since the module exposes no audio path of its own (no parameters, no outputs).'',
    ad_params = Probe_params, ad_inputs = Probe_inputs, ad_outputs = Probe_outputs,
    ad_polyphony = PolyFromInput, ad_connectionRecipes = Probe_connectionRecipes,
    ad_provenance = [
    (''inspect_model on VCV Rack 2.6.6 (Core) / Fundamental 2.6.4; port and parameter ids/names verified: 8 inputs '' @ [CHR 0x27] @ ''Probe 1'' @ [CHR 0x27] @ ''..'' @ [CHR 0x27] @ ''Probe 8'' @ [CHR 0x27] @ '' (portId 0-7), zero params, zero outputs.''),
    (''Semantics cross-checked against plugins/RackMCP/src/rackside/ProbeModule.cpp: ProbeModule::process() reads input.getChannels()/getVoltage() and accumulates per-channel window statistics (poly_from_input); configInput registers each port as a bare '' @ [CHR 0x27] @ ''Probe N'' @ [CHR 0x27] @ '' with no committed signal role, so role=unknown; no outputs and no parameters exist, so no connection recipes originate from this module.''),
    (''pluginVersionRange corrected from '' @ [CHR 0x27] @ ''>=0.1.0 <1.0.0'' @ [CHR 0x27] @ '' to '' @ [CHR 0x27] @ ''>=2.0.0 <3.0.0'' @ [CHR 0x27] @ '' to include the plugin'' @ [CHR 0x27] @ ''s actual version: plugins/RackMCP/plugin.json declares version '' @ [CHR 0x27] @ ''2.0.0'' @ [CHR 0x27] @ '' (VCV Rack plugin version reported by inspect_model). The prior 0.1.0 came from the monorepo/protocol package, not the VCV plugin.'')]\<rparr>"

end
