(* ===== verification/AdapterDocsVoice.thy ===== *)
theory AdapterDocsVoice
  imports Adapters
begin

text \<open>
  The shipped adapter documents (\<open>packages/adapters/src/data.ts\<close>) of the Fundamental voice modules, field by
  field.  A character outside ASCII is written as its UTF-8 bytes.
\<close>

definition VCO_params :: "param_semantics list" where
  "VCO_params = [
    \<lparr>ps_paramId = 0, ps_role = ''unknown'',
      ps_description = Some ''Unnamed internal toggle (binary, range 0..1, default 0). Not surfaced with a label by the module; mapped only so validation can range-check it.'',
      ps_safeInitial = Some (0), ps_safeRange = None\<rparr>,
    \<lparr>ps_paramId = 1, ps_role = ''sync_mode'',
      ps_description = Some (''Sync behavior selector for the Sync input. Snapped two-position switch: 0 = '' @ [CHR 0x22] @ ''Soft'' @ [CHR 0x22] @ '' sync, 1 = '' @ [CHR 0x22] @ ''Hard'' @ [CHR 0x22] @ '' sync. Ground-truth default is 1.''),
      ps_safeInitial = Some (1), ps_safeRange = None\<rparr>,
    \<lparr>ps_paramId = 2, ps_role = ''frequency'',
      ps_description = Some ''Coarse pitch knob in semitones, summed with the 1V/oct pitch input. Range +/-54 semitones (+/-4.5 octaves); 0 = center pitch.'',
      ps_safeInitial = Some (0), ps_safeRange = None\<rparr>,
    \<lparr>ps_paramId = 3, ps_role = ''unknown'',
      ps_description = Some ''Unnamed internal toggle (binary, range 0..1, default 0). Not surfaced with a label by the module; mapped only so validation can range-check it.'',
      ps_safeInitial = Some (0), ps_safeRange = None\<rparr>,
    \<lparr>ps_paramId = 4, ps_role = ''fm_amount'',
      ps_description = Some ''Attenuverter for the Frequency modulation (FM) input. Bipolar (-1..1); negative values invert the modulation, 0 = no FM.'',
      ps_safeInitial = Some (0), ps_safeRange = None\<rparr>,
    \<lparr>ps_paramId = 5, ps_role = ''pulse_width'',
      ps_description = Some ''Duty cycle of the square/pulse output. 0.5 = symmetric square; approaching the 0.01/0.99 extremes thins the pulse toward silence.'',
      ps_safeInitial = Some (1 / 2), ps_safeRange = Some (1 / 10, 9 / 10)\<rparr>,
    \<lparr>ps_paramId = 6, ps_role = ''cv_attenuverter'',
      ps_description = Some ''Attenuverter for the Pulse width modulation (PWM) input. Bipolar (-1..1); 0 = no PWM.'',
      ps_safeInitial = Some (0), ps_safeRange = None\<rparr>,
    \<lparr>ps_paramId = 7, ps_role = ''fm_mode'',
      ps_description = Some (''Frequency-modulation mode for the Frequency modulation CV input. Snapped two-position switch: 0 = '' @ [CHR 0x22] @ ''1V/octave'' @ [CHR 0x22] @ '', the CV is exponential and tracks pitch; 1 = '' @ [CHR 0x22] @ ''Linear'' @ [CHR 0x22] @ '', the CV modulates frequency linearly. Ground-truth default is 0. (Fundamental'' @ [CHR 0x27] @ ''s Wavetable VCO -- modelSlug VCO2 -- names its own FM mode position 1 '' @ [CHR 0x22] @ ''Through-zero linear'' @ [CHR 0x22] @ ''; this VCO does not, so do not carry through-zero behaviour across from it.)''),
      ps_safeInitial = Some (0), ps_safeRange = None\<rparr>]"

definition VCO_inputs :: "port_semantics list" where
  "VCO_inputs = [
    \<lparr>pt_portId = 0, pt_role = PitchVoct, pt_key = ''pitch_in'',
      pt_description = Some ''1V/octave pitch input; summed with the Frequency knob to set oscillator pitch.'',
      pt_polyphony = PolyFromInput\<rparr>,
    \<lparr>pt_portId = 1, pt_role = CvBipolar, pt_key = ''fm_in'',
      pt_description = Some ''Frequency modulation CV input, scaled by the Frequency modulation attenuverter (param 4). Bipolar audio/CV-rate modulation.'',
      pt_polyphony = PolyFromInput\<rparr>,
    \<lparr>pt_portId = 2, pt_role = Audio, pt_key = ''sync_in'',
      pt_description = Some ''Sync (phase-reset) input; typically driven by an audio-rate oscillator output for hard/soft sync per the Sync mode switch (param 1).'',
      pt_polyphony = PolyFromInput\<rparr>,
    \<lparr>pt_portId = 3, pt_role = CvBipolar, pt_key = ''pwm_in'',
      pt_description = Some ''Pulse width modulation CV input, scaled by the Pulse width modulation attenuverter (param 6). Modulates the square/pulse duty cycle.'',
      pt_polyphony = PolyFromInput\<rparr>]"

definition VCO_outputs :: "port_semantics list" where
  "VCO_outputs = [
    \<lparr>pt_portId = 0, pt_role = Audio, pt_key = ''sine_out'',
      pt_description = Some ''Sine wave audio output.'',
      pt_polyphony = PolyFromInput\<rparr>,
    \<lparr>pt_portId = 1, pt_role = Audio, pt_key = ''tri_out'',
      pt_description = Some ''Triangle wave audio output.'',
      pt_polyphony = PolyFromInput\<rparr>,
    \<lparr>pt_portId = 2, pt_role = Audio, pt_key = ''saw_out'',
      pt_description = Some ''Sawtooth wave audio output; harmonically rich, common source for subtractive patches.'',
      pt_polyphony = PolyFromInput\<rparr>,
    \<lparr>pt_portId = 3, pt_role = Audio, pt_key = ''square_out'',
      pt_description = Some ''Square/pulse wave audio output; duty cycle set by Pulse width (param 5) and PWM input.'',
      pt_polyphony = PolyFromInput\<rparr>]"

definition VCO_connectionRecipes :: "connection_recipe list" where
  "VCO_connectionRecipes = [
    \<lparr>cr_name = ''Sawtooth into filter'',
      cr_description = ''Patch the sawtooth output into a low-pass filter (VCF) audio input for classic subtractive synthesis.'',
      cr_fromOutputKey = ''saw_out'', cr_toRole = Audio\<rparr>,
    \<lparr>cr_name = ''Square with PWM into filter'',
      cr_description = ''Patch the square/pulse output (modulated via Pulse width / PWM) into a filter audio input for animated, hollow timbres.'',
      cr_fromOutputKey = ''square_out'', cr_toRole = Audio\<rparr>,
    \<lparr>cr_name = ''Sine to output or FM source'',
      cr_description = (''Route the pure sine output to an amplifier/audio output, or use it as a linear-FM modulator into another VCO'' @ [CHR 0x27] @ ''s FM input.''),
      cr_fromOutputKey = ''sine_out'', cr_toRole = Audio\<rparr>,
    \<lparr>cr_name = ''Hard sync source'',
      cr_description = (''Patch this VCO'' @ [CHR 0x27] @ ''s sawtooth into another VCO'' @ [CHR 0x27] @ ''s Sync input to create hard-sync sweeping timbres.''),
      cr_fromOutputKey = ''saw_out'', cr_toRole = Audio\<rparr>]"

definition VCO_adapter :: module_adapter where
  "VCO_adapter = \<lparr>
    ad_adapterVersion = 1, ad_pluginSlug = ''Fundamental'', ad_modelSlug = ''VCO'',
    ad_pluginVersionRange = ''>=2.6.0 <3.0.0'', ad_displayName = ''VCO'',
    ad_summary = ''Fundamental voltage-controlled oscillator. Tracks 1V/octave pitch and emits four simultaneous waveforms (sine, triangle, sawtooth, square/pulse), with FM, pulse-width control plus PWM, and a sync input. In a subtractive patch it is the primary tone source feeding a filter (VCF) and amplifier (VCA).'',
    ad_params = VCO_params, ad_inputs = VCO_inputs, ad_outputs = VCO_outputs,
    ad_polyphony = PolyFromInput, ad_connectionRecipes = VCO_connectionRecipes,
    ad_provenance = [
    ''inspect_model on VCV Rack 2.6.6 (Core) / Fundamental 2.6.4; parameter and port ids/names verified against live metadata'',
    (''Semantics defended from ground-truth param/port names and well-known VCV Fundamental VCO behavior; unnamed params 0 and 3 left as role '' @ [CHR 0x27] @ ''unknown'' @ [CHR 0x27]),
    ''Adversarial verification pass: all 8 paramIds and 4+4 portIds confirmed present in ground truth with matching ids; roles reconciled to port names; safeInitial/safeRange confirmed within ground-truth bounds'']\<rparr>"

definition VCF_params :: "param_semantics list" where
  "VCF_params = [
    \<lparr>ps_paramId = 0, ps_role = ''cutoff'',
      ps_description = Some ''Cutoff frequency knob (normalized 0..1 mapping to filter frequency). Center (default 0.5) sits in the audible mid-range; lower values darken the tone, higher values open it.'',
      ps_safeInitial = Some (1 / 2), ps_safeRange = None\<rparr>,
    \<lparr>ps_paramId = 1, ps_role = ''unknown'',
      ps_description = Some ''Unnamed parameter exposed by the module with no verified semantics; likely internal/vestigial. Included so validation can range-check it against [0,1].'',
      ps_safeInitial = Some (0), ps_safeRange = None\<rparr>,
    \<lparr>ps_paramId = 2, ps_role = ''resonance'',
      ps_description = Some ''Resonance (emphasis at the cutoff). Increasing this emphasizes frequencies near cutoff; very high settings approach self-oscillation.'',
      ps_safeInitial = Some (0), ps_safeRange = Some (0, 9 / 10)\<rparr>,
    \<lparr>ps_paramId = 3, ps_role = ''cv_attenuverter'',
      ps_description = Some ''Attenuverter for the Frequency (cutoff) CV input. Scales and inverts the amount of external modulation applied to cutoff; 0 = no external cutoff modulation.'',
      ps_safeInitial = Some (0), ps_safeRange = None\<rparr>,
    \<lparr>ps_paramId = 4, ps_role = ''drive'',
      ps_description = Some ''Drive amount, adding gain/saturation into the filter core. 0 = clean; positive values increase saturation and perceived loudness, negative values reduce drive.'',
      ps_safeInitial = Some (0), ps_safeRange = None\<rparr>,
    \<lparr>ps_paramId = 5, ps_role = ''cv_attenuverter'',
      ps_description = Some ''Attenuverter for the Resonance CV input. Scales and inverts external modulation of resonance; 0 = no external resonance modulation.'',
      ps_safeInitial = Some (0), ps_safeRange = None\<rparr>,
    \<lparr>ps_paramId = 6, ps_role = ''cv_attenuverter'',
      ps_description = Some ''Attenuverter for the Drive CV input. Scales and inverts external modulation of drive; 0 = no external drive modulation.'',
      ps_safeInitial = Some (0), ps_safeRange = None\<rparr>]"

definition VCF_inputs :: "port_semantics list" where
  "VCF_inputs = [
    \<lparr>pt_portId = 0, pt_role = CvBipolar, pt_key = ''cutoff_cv'',
      pt_description = Some ''Cutoff frequency modulation input, summed with the Cutoff knob after scaling by the Cutoff frequency CV attenuverter (param 3). Accepts bipolar CV such as an envelope or LFO.'',
      pt_polyphony = PolyFromInput\<rparr>,
    \<lparr>pt_portId = 1, pt_role = CvBipolar, pt_key = ''resonance_cv'',
      pt_description = Some ''Resonance modulation input, scaled by the Resonance CV attenuverter (param 5). Accepts bipolar CV.'',
      pt_polyphony = PolyFromInput\<rparr>,
    \<lparr>pt_portId = 2, pt_role = CvBipolar, pt_key = ''drive_cv'',
      pt_description = Some ''Drive modulation input, scaled by the Drive CV attenuverter (param 6). Accepts bipolar CV.'',
      pt_polyphony = PolyFromInput\<rparr>,
    \<lparr>pt_portId = 3, pt_role = Audio, pt_key = ''audio_in'',
      pt_description = Some (''Audio signal input to be filtered (e.g. an oscillator'' @ [CHR 0x27] @ ''s output in a subtractive-synth voice).''),
      pt_polyphony = PolyFromInput\<rparr>]"

definition VCF_outputs :: "port_semantics list" where
  "VCF_outputs = [
    \<lparr>pt_portId = 0, pt_role = Audio, pt_key = ''lowpass_out'',
      pt_description = Some ''Low-pass filtered audio output: passes frequencies below cutoff, attenuates those above. The primary output for classic subtractive tones.'',
      pt_polyphony = PolyFromInput\<rparr>,
    \<lparr>pt_portId = 1, pt_role = Audio, pt_key = ''highpass_out'',
      pt_description = Some ''High-pass filtered audio output: passes frequencies above cutoff, attenuates those below.'',
      pt_polyphony = PolyFromInput\<rparr>]"

definition VCF_connectionRecipes :: "connection_recipe list" where
  "VCF_connectionRecipes = [
    \<lparr>cr_name = ''Low-pass output into a VCA'',
      cr_description = ''Patch the low-pass output into a VCA (or Audio module) audio input to hear the filtered voice; the classic subtractive-synth signal path.'',
      cr_fromOutputKey = ''lowpass_out'', cr_toRole = Audio\<rparr>,
    \<lparr>cr_name = ''High-pass output into audio path'',
      cr_description = ''Route the high-pass output into a downstream audio input (VCA, mixer, or Audio module) when you want to remove low-frequency content.'',
      cr_fromOutputKey = ''highpass_out'', cr_toRole = Audio\<rparr>,
    \<lparr>cr_name = ''Low-pass output into another filter/effect'',
      cr_description = (''Feed the low-pass output into another module'' @ [CHR 0x27] @ ''s audio input for series filtering or effects processing.''),
      cr_fromOutputKey = ''lowpass_out'', cr_toRole = Audio\<rparr>]"

definition VCF_adapter :: module_adapter where
  "VCF_adapter = \<lparr>
    ad_adapterVersion = 1, ad_pluginSlug = ''Fundamental'', ad_modelSlug = ''VCF'',
    ad_pluginVersionRange = ''>=2.6.0 <3.0.0'', ad_displayName = ''VCF'',
    ad_summary = (''VCF is Fundamental'' @ [CHR 0x27] @ ''s voltage-controlled filter. It offers a resonant cutoff with a drive (saturation) stage and provides simultaneous low-pass and high-pass outputs from the same audio input. In a subtractive-synth voice it is the tone-shaping core: patch an oscillator into the Audio input and sweep cutoff and resonance (typically from an envelope or LFO) to carve the harmonic content.''),
    ad_params = VCF_params, ad_inputs = VCF_inputs, ad_outputs = VCF_outputs,
    ad_polyphony = PolyFromInput, ad_connectionRecipes = VCF_connectionRecipes,
    ad_provenance = [
    ''inspect_model on VCV Rack 2.6.6 (Core) / Fundamental 2.6.4; param and port ids/names verified from live metadata'',
    ''Semantics derived from parameter/port names and standard VCV Fundamental VCF behavior (resonant multi-output filter with drive stage and CV attenuverters)'',
    ''Adversarial verification against ground-truth model metadata: all 7 paramIds (0-6), 4 inputs (0-3), 2 outputs (0-1) confirmed present with matching ids; roles, safeInitial and safeRange values confirmed within [min,max]'']\<rparr>"

definition VCA_1_params :: "param_semantics list" where
  "VCA_1_params = [
    \<lparr>ps_paramId = 0, ps_role = ''level'',
      ps_description = Some (''Manual gain/attenuation of the channel. Acts as the base amplitude and scales the CV input'' @ [CHR 0x27] @ ''s effect; at 1 the VCA passes unity gain, at 0 it fully mutes.''),
      ps_safeInitial = Some (1), ps_safeRange = None\<rparr>,
    \<lparr>ps_paramId = 1, ps_role = ''response_mode'',
      ps_description = Some (''Selects the VCA'' @ [CHR 0x27] @ ''s amplitude response curve for the CV/Level. Snapped two-position switch: 0 = '' @ [CHR 0x22] @ ''Exponential'' @ [CHR 0x22] @ '', a natural, perceptually smooth taper; 1 = '' @ [CHR 0x22] @ ''Linear'' @ [CHR 0x22] @ '', direct proportional gain. Ground-truth default is 1, so set this to 0 if an envelope should taper exponentially.''),
      ps_safeInitial = Some (1), ps_safeRange = None\<rparr>]"

definition VCA_1_inputs :: "port_semantics list" where
  "VCA_1_inputs = [
    \<lparr>pt_portId = 0, pt_role = CvUnipolar, pt_key = ''gain_cv'',
      pt_description = Some ''Gain control voltage. Expected unipolar (0-10V); multiplies the signal amplitude together with the Level knob. Typically driven by an envelope or LFO.'',
      pt_polyphony = PolyFromInput\<rparr>,
    \<lparr>pt_portId = 1, pt_role = Audio, pt_key = ''audio_in'',
      pt_description = Some ''Signal/audio input to be amplified or attenuated. Also usable to scale CV/modulation signals.'',
      pt_polyphony = PolyFromInput\<rparr>]"

definition VCA_1_outputs :: "port_semantics list" where
  "VCA_1_outputs = [
    \<lparr>pt_portId = 0, pt_role = Audio, pt_key = ''audio_out'',
      pt_description = Some ''Amplitude-scaled output of the input signal after the Level knob and gain CV are applied.'',
      pt_polyphony = PolyFromInput\<rparr>]"

definition VCA_1_connectionRecipes :: "connection_recipe list" where
  "VCA_1_connectionRecipes = [
    \<lparr>cr_name = ''VCA to output or mixer'',
      cr_description = ''Send the amplitude-shaped signal to an audio output module, mixer channel, or the next stage of the voice.'',
      cr_fromOutputKey = ''audio_out'', cr_toRole = Audio\<rparr>,
    \<lparr>cr_name = ''VCA into filter'',
      cr_description = (''Feed the VCA output into a filter'' @ [CHR 0x27] @ ''s audio input when placing amplitude control ahead of tone shaping in a subtractive voice.''),
      cr_fromOutputKey = ''audio_out'', cr_toRole = Audio\<rparr>]"

definition VCA_1_adapter :: module_adapter where
  "VCA_1_adapter = \<lparr>
    ad_adapterVersion = 1, ad_pluginSlug = ''Fundamental'', ad_modelSlug = ''VCA-1'',
    ad_pluginVersionRange = ''>=2.6.0 <3.0.0'', ad_displayName = ''VCA'',
    ad_summary = (''A single-channel voltage-controlled amplifier that scales the amplitude of its audio/signal input by the Level knob multiplied by the CV input. In a subtractive-synth voice it is the dynamics stage: patch an envelope (e.g. an ADSR) into its CV input to shape a note'' @ [CHR 0x27] @ ''s loudness contour, or use it to attenuate/gate any signal or modulation source.''),
    ad_params = VCA_1_params, ad_inputs = VCA_1_inputs, ad_outputs = VCA_1_outputs,
    ad_polyphony = PolyFromInput, ad_connectionRecipes = VCA_1_connectionRecipes,
    ad_provenance = [
    ''inspect_model on VCV Rack 2.6.6 (Core) / Fundamental 2.6.4; port and parameter ids/names verified'',
    ''Semantics derived from Fundamental VCA-1 param/port names (Level, Response mode, CV, Channel) and documented Fundamental VCA-1 behavior'',
    ''Adversarial verification against ground truth: all paramIds (0,1), input portIds (0,1), output portId (0) confirmed present with matching names; signal roles confirmed consistent with port semantics'']\<rparr>"

definition VCA_params :: "param_semantics list" where
  "VCA_params = [
    \<lparr>ps_paramId = 0, ps_role = ''level'',
      ps_description = Some (''Channel 1 manual level (gain). 0 = silent, 1 = unity gain. Multiplies with the channel'' @ [CHR 0x27] @ ''s CV inputs.''),
      ps_safeInitial = Some (1), ps_safeRange = Some (0, 1)\<rparr>,
    \<lparr>ps_paramId = 1, ps_role = ''level'',
      ps_description = Some (''Channel 2 manual level (gain). 0 = silent, 1 = unity gain. Multiplies with the channel'' @ [CHR 0x27] @ ''s CV inputs.''),
      ps_safeInitial = Some (1), ps_safeRange = Some (0, 1)\<rparr>]"

definition VCA_inputs :: "port_semantics list" where
  "VCA_inputs = [
    \<lparr>pt_portId = 0, pt_role = CvUnipolar, pt_key = ''ch1_exp_cv'',
      pt_description = Some ''Channel 1 exponential CV: unipolar control input that scales channel 1 gain with an exponential response.'',
      pt_polyphony = PolyFromInput\<rparr>,
    \<lparr>pt_portId = 1, pt_role = CvUnipolar, pt_key = ''ch1_lin_cv'',
      pt_description = Some ''Channel 1 linear CV: unipolar control input that scales channel 1 gain linearly.'',
      pt_polyphony = PolyFromInput\<rparr>,
    \<lparr>pt_portId = 2, pt_role = Audio, pt_key = ''ch1_audio_in'',
      pt_description = Some ''Channel 1 signal input. Typically audio, but any signal to be amplitude-controlled.'',
      pt_polyphony = PolyFromInput\<rparr>,
    \<lparr>pt_portId = 3, pt_role = CvUnipolar, pt_key = ''ch2_exp_cv'',
      pt_description = Some ''Channel 2 exponential CV: unipolar control input that scales channel 2 gain with an exponential response.'',
      pt_polyphony = PolyFromInput\<rparr>,
    \<lparr>pt_portId = 4, pt_role = CvUnipolar, pt_key = ''ch2_lin_cv'',
      pt_description = Some ''Channel 2 linear CV: unipolar control input that scales channel 2 gain linearly.'',
      pt_polyphony = PolyFromInput\<rparr>,
    \<lparr>pt_portId = 5, pt_role = Audio, pt_key = ''ch2_audio_in'',
      pt_description = Some ''Channel 2 signal input. Typically audio, but any signal to be amplitude-controlled.'',
      pt_polyphony = PolyFromInput\<rparr>]"

definition VCA_outputs :: "port_semantics list" where
  "VCA_outputs = [
    \<lparr>pt_portId = 0, pt_role = Audio, pt_key = ''ch1_audio_out'',
      pt_description = Some ''Channel 1 amplified output (input scaled by level knob and CV inputs).'',
      pt_polyphony = PolyFromInput\<rparr>,
    \<lparr>pt_portId = 1, pt_role = Audio, pt_key = ''ch2_audio_out'',
      pt_description = Some ''Channel 2 amplified output (input scaled by level knob and CV inputs).'',
      pt_polyphony = PolyFromInput\<rparr>]"

definition VCA_connectionRecipes :: "connection_recipe list" where
  "VCA_connectionRecipes = [
    \<lparr>cr_name = ''VCA channel 1 to mixer/output'',
      cr_description = (''Patch channel 1'' @ [CHR 0x27] @ ''s amplified output into a mixer channel or the audio interface as the final gain stage of a voice.''),
      cr_fromOutputKey = ''ch1_audio_out'', cr_toRole = Audio\<rparr>,
    \<lparr>cr_name = ''VCA channel 2 to mixer/output'',
      cr_description = (''Patch channel 2'' @ [CHR 0x27] @ ''s amplified output into a mixer channel or the audio interface as the final gain stage of a second voice.''),
      cr_fromOutputKey = ''ch2_audio_out'', cr_toRole = Audio\<rparr>,
    \<lparr>cr_name = ''VCA output as CV VCA'',
      cr_description = (''Use an amplified channel output as an attenuated/enveloped control signal feeding another module'' @ [CHR 0x27] @ ''s CV input (e.g. gating an LFO or modulation source).''),
      cr_fromOutputKey = ''ch1_audio_out'', cr_toRole = CvBipolar\<rparr>]"

definition VCA_adapter :: module_adapter where
  "VCA_adapter = \<lparr>
    ad_adapterVersion = 1, ad_pluginSlug = ''Fundamental'', ad_modelSlug = ''VCA'',
    ad_pluginVersionRange = ''>=2.6.0 <3.0.0'', ad_displayName = ''VCA-2'',
    ad_summary = ''VCA-2 is a dual voltage-controlled amplifier. Each of its two independent channels multiplies an incoming audio (or CV) signal by a manual level knob combined with an exponential and a linear CV gain input. In a subtractive synth it is the classic amplitude/gain stage where an envelope (patched into a CV input) shapes the loudness of an oscillator or filter output; each channel can also serve as a general-purpose signal attenuator or CV VCA.'',
    ad_params = VCA_params, ad_inputs = VCA_inputs, ad_outputs = VCA_outputs,
    ad_polyphony = PolyFromInput, ad_connectionRecipes = VCA_connectionRecipes,
    ad_provenance = [
    ''inspect_model on VCV Rack 2.6.6 (Core) / Fundamental 2.6.4; port and parameter ids/names verified'',
    ''Semantics inferred from verified VCV Fundamental VCA-2 parameter/port names and well-known dual-VCA behavior'',
    ''Adversarial verification against ground-truth Fundamental/VCA schema: all paramIds (0-1), inputs (0-5), outputs (0-1) confirmed present with matching ids; roles confirmed against port names; safeInitial/safeRange within [0,1]'']\<rparr>"

definition ADSR_params :: "param_semantics list" where
  "ADSR_params = [
    \<lparr>ps_paramId = 0, ps_role = ''attack'',
      ps_description = Some ''Attack time knob: how long the envelope takes to rise from 0 to full after the gate opens. 0 = near-instant, 1 = longest attack.'',
      ps_safeInitial = Some (1 / 2), ps_safeRange = Some (0, 1)\<rparr>,
    \<lparr>ps_paramId = 1, ps_role = ''decay'',
      ps_description = Some ''Decay time knob: how long the envelope takes to fall from the peak down to the sustain level. 0 = near-instant, 1 = longest decay.'',
      ps_safeInitial = Some (1 / 2), ps_safeRange = Some (0, 1)\<rparr>,
    \<lparr>ps_paramId = 2, ps_role = ''sustain'',
      ps_description = Some ''Sustain level knob: the held level while the gate remains high, as a fraction of full scale. 0 = silent hold, 1 = full level.'',
      ps_safeInitial = Some (1 / 2), ps_safeRange = Some (0, 1)\<rparr>,
    \<lparr>ps_paramId = 3, ps_role = ''release'',
      ps_description = Some ''Release time knob: how long the envelope takes to fall to 0 after the gate closes. 0 = near-instant, 1 = longest release.'',
      ps_safeInitial = Some (1 / 2), ps_safeRange = Some (0, 1)\<rparr>,
    \<lparr>ps_paramId = 4, ps_role = ''cv_attenuverter'',
      ps_description = Some ''Attenuverter for the Attack CV input: scales and can invert the voltage at the Attack input (-1 fully inverts, 0 no modulation, +1 full positive).'',
      ps_safeInitial = Some (0), ps_safeRange = Some ((- 1), 1)\<rparr>,
    \<lparr>ps_paramId = 5, ps_role = ''cv_attenuverter'',
      ps_description = Some ''Attenuverter for the Decay CV input: scales and can invert the voltage at the Decay input (-1 fully inverts, 0 no modulation, +1 full positive).'',
      ps_safeInitial = Some (0), ps_safeRange = Some ((- 1), 1)\<rparr>,
    \<lparr>ps_paramId = 6, ps_role = ''cv_attenuverter'',
      ps_description = Some ''Attenuverter for the Sustain CV input: scales and can invert the voltage at the Sustain input (-1 fully inverts, 0 no modulation, +1 full positive).'',
      ps_safeInitial = Some (0), ps_safeRange = Some ((- 1), 1)\<rparr>,
    \<lparr>ps_paramId = 7, ps_role = ''cv_attenuverter'',
      ps_description = Some ''Attenuverter for the Release CV input: scales and can invert the voltage at the Release input (-1 fully inverts, 0 no modulation, +1 full positive).'',
      ps_safeInitial = Some (0), ps_safeRange = Some ((- 1), 1)\<rparr>,
    \<lparr>ps_paramId = 8, ps_role = ''manual_gate'',
      ps_description = Some (''Momentary Push button that manually opens the envelope'' @ [CHR 0x27] @ ''s gate, letting the envelope be triggered by hand with no cable patched into the Gate input. 0 = released, 1 = pressed.''),
      ps_safeInitial = Some (0), ps_safeRange = Some (0, 1)\<rparr>]"

definition ADSR_inputs :: "port_semantics list" where
  "ADSR_inputs = [
    \<lparr>pt_portId = 0, pt_role = CvBipolar, pt_key = ''attack_cv'',
      pt_description = Some ''Attack-time modulation CV, summed with the Attack knob after passing through the Attack CV attenuverter.'',
      pt_polyphony = PolyFromInput\<rparr>,
    \<lparr>pt_portId = 1, pt_role = CvBipolar, pt_key = ''decay_cv'',
      pt_description = Some ''Decay-time modulation CV, summed with the Decay knob after passing through the Decay CV attenuverter.'',
      pt_polyphony = PolyFromInput\<rparr>,
    \<lparr>pt_portId = 2, pt_role = CvBipolar, pt_key = ''sustain_cv'',
      pt_description = Some ''Sustain-level modulation CV, summed with the Sustain knob after passing through the Sustain CV attenuverter.'',
      pt_polyphony = PolyFromInput\<rparr>,
    \<lparr>pt_portId = 3, pt_role = CvBipolar, pt_key = ''release_cv'',
      pt_description = Some ''Release-time modulation CV, summed with the Release knob after passing through the Release CV attenuverter.'',
      pt_polyphony = PolyFromInput\<rparr>,
    \<lparr>pt_portId = 4, pt_role = Gate, pt_key = ''gate_in'',
      pt_description = Some (''Gate input. A high gate opens the envelope (Attack -> Decay -> Sustain); gate-off starts the Release stage. Its channel count sets the module'' @ [CHR 0x27] @ ''s polyphony.''),
      pt_polyphony = PolyFromInput\<rparr>,
    \<lparr>pt_portId = 5, pt_role = Trigger, pt_key = ''retrig_in'',
      pt_description = Some ''Retrigger input. A trigger restarts the envelope from the Attack stage while the gate is still held.'',
      pt_polyphony = PolyFromInput\<rparr>]"

definition ADSR_outputs :: "port_semantics list" where
  "ADSR_outputs = [
    \<lparr>pt_portId = 0, pt_role = CvUnipolar, pt_key = ''env_out'',
      pt_description = Some ''Envelope output: a 0-10V unipolar control voltage following the ADSR contour, used to modulate VCA amplitude, VCF cutoff or any other CV-controllable parameter.'',
      pt_polyphony = PolyFromInput\<rparr>]"

definition ADSR_connectionRecipes :: "connection_recipe list" where
  "ADSR_connectionRecipes = [
    \<lparr>cr_name = ''Amplitude envelope into VCA'',
      cr_description = (''Patch the Envelope output into a VCA'' @ [CHR 0x27] @ ''s level/CV input so the envelope shapes note amplitude over time. This is the canonical last stage of a subtractive synth voice.''),
      cr_fromOutputKey = ''env_out'', cr_toRole = CvUnipolar\<rparr>,
    \<lparr>cr_name = ''Filter envelope into VCF cutoff'',
      cr_description = (''Patch the Envelope output into a filter'' @ [CHR 0x27] @ ''s cutoff CV input to sweep the cutoff frequency with the envelope for classic filter-envelope movement.''),
      cr_fromOutputKey = ''env_out'', cr_toRole = CvUnipolar\<rparr>,
    \<lparr>cr_name = ''General-purpose modulation source'',
      cr_description = ''Use the 0-10V envelope as a modulation source into any bipolar-accepting CV input (e.g. VCO FM, wavefolder, or an attenuverter) to add a per-note contour.'',
      cr_fromOutputKey = ''env_out'', cr_toRole = CvBipolar\<rparr>]"

definition ADSR_adapter :: module_adapter where
  "ADSR_adapter = \<lparr>
    ad_adapterVersion = 1, ad_pluginSlug = ''Fundamental'', ad_modelSlug = ''ADSR'',
    ad_pluginVersionRange = ''>=2.6.0 <3.0.0'', ad_displayName = ''ADSR EG'',
    ad_summary = ''Four-stage ADSR envelope generator producing a 0-10V unipolar envelope from a gate input; primary contour source for VCA amplitude and VCF cutoff in a subtractive voice.'',
    ad_params = ADSR_params, ad_inputs = ADSR_inputs, ad_outputs = ADSR_outputs,
    ad_polyphony = PolyFromInput, ad_connectionRecipes = ADSR_connectionRecipes,
    ad_provenance = [
    ''inspect_model on VCV Rack 2.6.6 (Core) / Fundamental 2.6.4; all param and port ids/names verified against live module metadata'',
    ''Semantics defended from parameter/port names and well-known VCV Fundamental ADSR EG behavior (poly_from_input; per-stage CV inputs routed through bipolar attenuverters; 0-10V unipolar envelope output)'',
    ''Adversarial verification against ground-truth metadata: all 9 paramIds (0-8), 6 input portIds (0-5), and 1 output portId (0) confirmed present with matching ids/names; roles, safeInitials, and safeRanges validated against declared [min,max]'']\<rparr>"

definition LFO_params :: "param_semantics list" where
  "LFO_params = [
    \<lparr>ps_paramId = 0, ps_role = ''offset'',
      ps_description = Some (''Offset toggle. Snapped two-position switch: 0 = '' @ [CHR 0x22] @ ''Bipolar'' @ [CHR 0x22] @ '', waveform outputs swing approx. +/-5 V; 1 = '' @ [CHR 0x22] @ ''Unipolar'' @ [CHR 0x22] @ '', approx. 0..10 V. Ground-truth default is 1, so a freshly added LFO modulates positive-only unless this is switched to 0.''),
      ps_safeInitial = Some (1), ps_safeRange = None\<rparr>,
    \<lparr>ps_paramId = 1, ps_role = ''invert'',
      ps_description = Some ''Invert toggle. Snapped two-position switch flipping the polarity of the waveform outputs; Rack renders no name for either position. Ground-truth default is 0.'',
      ps_safeInitial = Some (0), ps_safeRange = None\<rparr>,
    \<lparr>ps_paramId = 2, ps_role = ''frequency'',
      ps_description = Some ''Main LFO rate knob in exponential (octave-like) units, range -8..10. Sets the oscillation frequency; lower values are slow modulation, high values push toward audio rate. Ground-truth default 1.'',
      ps_safeInitial = Some (1), ps_safeRange = Some ((- 4), 6)\<rparr>,
    \<lparr>ps_paramId = 3, ps_role = ''fm_amount'',
      ps_description = Some ''Frequency-modulation attenuverter (bipolar, -1..1) scaling the signal at the Frequency modulation CV input. 0 = no FM; negative values invert the modulation. Ground-truth default 0.'',
      ps_safeInitial = Some (0), ps_safeRange = None\<rparr>,
    \<lparr>ps_paramId = 4, ps_role = ''unknown'',
      ps_description = Some ''Unnamed parameter reported by inspect_model (range 0..1, default 0). No panel name was returned; semantics not verified, so left unknown but included for range validation.'',
      ps_safeInitial = Some (0), ps_safeRange = None\<rparr>,
    \<lparr>ps_paramId = 5, ps_role = ''pulse_width'',
      ps_description = Some ''Pulse width of the square output, range 0.01..0.99 (fraction of the cycle). 0.5 = symmetric square. Ground-truth default 0.5.'',
      ps_safeInitial = Some (1 / 2), ps_safeRange = Some (1 / 10, 9 / 10)\<rparr>,
    \<lparr>ps_paramId = 6, ps_role = ''pwm_amount'',
      ps_description = Some ''Pulse-width-modulation attenuverter (bipolar, -1..1) scaling the signal at the Pulse width modulation CV input. 0 = no PWM; negative values invert the modulation. Ground-truth default 0.'',
      ps_safeInitial = Some (0), ps_safeRange = None\<rparr>]"

definition LFO_inputs :: "port_semantics list" where
  "LFO_inputs = [
    \<lparr>pt_portId = 0, pt_role = CvBipolar, pt_key = ''fm_cv'',
      pt_description = Some ''Frequency modulation CV input. Bipolar CV summed into the LFO rate, scaled by the FM attenuverter (paramId 3).'',
      pt_polyphony = PolyFromInput\<rparr>,
    \<lparr>pt_portId = 1, pt_role = UnknownRole, pt_key = ''input_2'',
      pt_description = Some (''Input reported by inspect_model with placeholder name '' @ [CHR 0x27] @ ''#2'' @ [CHR 0x27] @ ''. No descriptive name was returned; role not verified, so left unknown but included for validation.''),
      pt_polyphony = PolyFromInput\<rparr>,
    \<lparr>pt_portId = 2, pt_role = Trigger, pt_key = ''reset_in'',
      pt_description = Some ''Reset input. A rising edge restarts the oscillator phase, allowing the LFO to be synced/retriggered.'',
      pt_polyphony = PolyFromInput\<rparr>,
    \<lparr>pt_portId = 3, pt_role = CvBipolar, pt_key = ''pwm_cv'',
      pt_description = Some ''Pulse width modulation CV input. Bipolar CV added to the pulse width, scaled by the PWM attenuverter (paramId 6).'',
      pt_polyphony = PolyFromInput\<rparr>,
    \<lparr>pt_portId = 4, pt_role = Clock, pt_key = ''clock_in'',
      pt_description = Some ''Clock input. External clock used to lock/sync the LFO rate.'',
      pt_polyphony = PolyFromInput\<rparr>]"

definition LFO_outputs :: "port_semantics list" where
  "LFO_outputs = [
    \<lparr>pt_portId = 0, pt_role = CvUnipolar, pt_key = ''sine_out'',
      pt_description = Some (''Sine waveform output. Unipolar (approx. 0..10 V) at the default Offset position (paramId 0 = 1, '' @ [CHR 0x22] @ ''Unipolar'' @ [CHR 0x22] @ ''); set Offset to 0 for bipolar approx. +/-5 V.''),
      pt_polyphony = PolyFromInput\<rparr>,
    \<lparr>pt_portId = 1, pt_role = CvUnipolar, pt_key = ''triangle_out'',
      pt_description = Some ''Triangle waveform output. Unipolar (approx. 0..10 V) at the default Offset position; set Offset (paramId 0) to 0 for bipolar approx. +/-5 V.'',
      pt_polyphony = PolyFromInput\<rparr>,
    \<lparr>pt_portId = 2, pt_role = CvUnipolar, pt_key = ''sawtooth_out'',
      pt_description = Some ''Sawtooth (ramp) waveform output. Unipolar (approx. 0..10 V) at the default Offset position; set Offset (paramId 0) to 0 for bipolar approx. +/-5 V.'',
      pt_polyphony = PolyFromInput\<rparr>,
    \<lparr>pt_portId = 3, pt_role = CvUnipolar, pt_key = ''square_out'',
      pt_description = Some ''Square/pulse waveform output whose duty cycle is set by Pulse width (paramId 5). Unipolar (approx. 0..10 V) at the default Offset position, which is also what makes it usable directly as a gate/clock-like source; set Offset (paramId 0) to 0 for bipolar.'',
      pt_polyphony = PolyFromInput\<rparr>]"

definition LFO_connectionRecipes :: "connection_recipe list" where
  "LFO_connectionRecipes = [
    \<lparr>cr_name = ''LFO to filter cutoff (wah/sweep)'',
      cr_description = (''Patch the sine output into a filter'' @ [CHR 0x27] @ ''s cutoff CV input to slowly sweep the cutoff frequency for a wah or auto-sweep effect.''),
      cr_fromOutputKey = ''sine_out'', cr_toRole = CvBipolar\<rparr>,
    \<lparr>cr_name = ''LFO to VCA level (tremolo)'',
      cr_description = (''Patch the triangle output into a VCA'' @ [CHR 0x27] @ ''s level/CV input to modulate amplitude for tremolo.''),
      cr_fromOutputKey = ''triangle_out'', cr_toRole = CvBipolar\<rparr>,
    \<lparr>cr_name = ''LFO to oscillator pitch (vibrato)'',
      cr_description = (''Patch the sawtooth or sine output (with a small attenuation) into a VCO'' @ [CHR 0x27] @ ''s FM/pitch CV input for vibrato or ramp-style pitch modulation.''),
      cr_fromOutputKey = ''sawtooth_out'', cr_toRole = CvBipolar\<rparr>,
    \<lparr>cr_name = ''Square LFO as gate/clock'',
      cr_description = ''Patch the square output into a gate or clock input to drive rhythmic on/off events or trigger clocked modules.'',
      cr_fromOutputKey = ''square_out'', cr_toRole = Gate\<rparr>]"

definition LFO_adapter :: module_adapter where
  "LFO_adapter = \<lparr>
    ad_adapterVersion = 1, ad_pluginSlug = ''Fundamental'', ad_modelSlug = ''LFO'',
    ad_pluginVersionRange = ''>=2.6.0 <3.0.0'', ad_displayName = ''LFO'',
    ad_summary = (''Low-frequency oscillator from VCV Fundamental. Simultaneously outputs sine, triangle, sawtooth, and square waveforms intended as modulation sources in a subtractive-synth patch '' @ [CHR 0xE2] @ [CHR 0x80] @ [CHR 0x94] @ '' sweeping filter cutoff, adding pitch vibrato, or driving VCA level for tremolo. Frequency and pulse width each have a dedicated CV input and a bipolar attenuverter, plus Clock and Reset inputs for sync and Offset/Invert switches that shape output polarity. The Offset switch defaults to Unipolar, so the four waveform outputs swing approx. 0..10 V until it is switched.''),
    ad_params = LFO_params, ad_inputs = LFO_inputs, ad_outputs = LFO_outputs,
    ad_polyphony = PolyFromInput, ad_connectionRecipes = LFO_connectionRecipes,
    ad_provenance = [
    ''inspect_model on VCV Rack 2.6.6 (Core) / Fundamental 2.6.4; parameter and port ids, names, and ranges verified against live metadata.'',
    (''Signal roles and semantics inferred from Fundamental LFO parameter/port names and standard VCV Fundamental LFO behavior. Unnamed paramId 4 and placeholder-named input portId 1 ('' @ [CHR 0x27] @ ''#2'' @ [CHR 0x27] @ '') are left as role '' @ [CHR 0x27] @ ''unknown'' @ [CHR 0x27] @ '' pending source verification. Waveform outputs were originally classified cv_bipolar on the assumption that an LFO modulation source is bipolar by default; captured ground truth contradicts that (paramId 0 '' @ [CHR 0x27] @ ''Offset'' @ [CHR 0x27] @ '' has defaultValue 1, displayValue '' @ [CHR 0x27] @ ''Unipolar'' @ [CHR 0x27] @ ''), so they are classified cv_unipolar, matching the module as it arrives in a patch. Both roles are in the same coarse signal family, so this changes advice, not validation outcomes.''),
    ''Adversarial verification pass: every paramId (0-6), input portId (0-4), and output portId (0-3) confirmed present in ground truth with matching ids; all safeInitial values equal ground-truth defaults and lie within [min,max]; safeRange for Frequency [-4,6] and Pulse width [0.1,0.9] confirmed within bounds and musically sensible. Reset->trigger and Clock->clock role assignments match port names. No real ports dropped. Draft found correct; returned unchanged.'']\<rparr>"

end
