(* ===== verification/Registry.thy ===== *)
theory Registry
  imports AdapterDocsCore AdapterDocsVoice AdapterDocsUtil
begin

text \<open>
  The adapter registry (\<open>packages/adapters/src/index.ts\<close>): every document is parsed
  against the schema when the module is loaded, the documents are indexed by plugin and
  model slug, and the lookups return the semantics of a model, a port or a parameter.
\<close>

section \<open>Registry construction\<close>

text \<open>The key joins the two slugs with a NUL character.\<close>

definition adapter_key :: "string \<Rightarrow> string \<Rightarrow> string" where
  "adapter_key pluginSlug modelSlug = pluginSlug @ [CHR 0x00] @ modelSlug"

definition ADAPTER_DOCS :: "module_adapter list" where
  "ADAPTER_DOCS = [
    AudioInterface2_adapter, AudioInterface_adapter, MIDIToCVInterface_adapter, VCO_adapter,
    VCF_adapter, VCA_1_adapter, VCA_adapter, ADSR_adapter,
    LFO_adapter, VCMixer_adapter, Mixer_adapter, Sum_adapter,
    Merge_adapter, Split_adapter, Octave_adapter, Eight_vert_adapter,
    Scope_adapter, Noise_adapter, Delay_adapter, SEQ3_adapter,
    Bridge_adapter, Probe_adapter]"

definition index_adapters :: "module_adapter list \<Rightarrow> (string, module_adapter) jsmap" where
  "index_adapters as = foldl (\<lambda>m a. map_set (adapter_key (ad_pluginSlug a) (ad_modelSlug a)) a m) [] as"

text \<open>
  Loading the module: the first document that fails the schema throws, and so does a map
  smaller than the list (a duplicate key).
\<close>

definition load_adapters :: "module_adapter list \<Rightarrow> string + (string, module_adapter) jsmap" where
  "load_adapters docs =
     (case find (\<lambda>i. \<not> module_adapter_ok (docs ! i)) [0..<length docs] of
        Some i \<Rightarrow> Inl (''Invalid module adapter at index '' @ nat_str i)
      | None \<Rightarrow> (let m = index_adapters docs in
          if length m \<noteq> length docs
          then Inl ''Duplicate (pluginSlug, modelSlug) in adapter registry'' else Inr m))"

definition BY_MODEL :: "(string, module_adapter) jsmap" where
  "BY_MODEL = index_adapters ADAPTER_DOCS"

definition listAdapters :: "module_adapter list" where
  "listAdapters = ADAPTER_DOCS"

definition getAdapter :: "string \<Rightarrow> string \<Rightarrow> module_adapter option" where
  "getAdapter pluginSlug modelSlug = map_get BY_MODEL (adapter_key pluginSlug modelSlug)"

definition hasAdapter :: "string \<Rightarrow> string \<Rightarrow> bool" where
  "hasAdapter pluginSlug modelSlug = map_has BY_MODEL (adapter_key pluginSlug modelSlug)"

definition outputRole :: "string \<Rightarrow> string \<Rightarrow> nat \<Rightarrow> signal_role option" where
  "outputRole p m portId = (case getAdapter p m of None \<Rightarrow> None
     | Some a \<Rightarrow> map_option pt_role (find (\<lambda>q. pt_portId q = portId) (ad_outputs a)))"

definition inputRole :: "string \<Rightarrow> string \<Rightarrow> nat \<Rightarrow> signal_role option" where
  "inputRole p m portId = (case getAdapter p m of None \<Rightarrow> None
     | Some a \<Rightarrow> map_option pt_role (find (\<lambda>q. pt_portId q = portId) (ad_inputs a)))"

definition paramSemantics :: "string \<Rightarrow> string \<Rightarrow> nat \<Rightarrow> param_semantics option" where
  "paramSemantics p m paramId = (case getAdapter p m of None \<Rightarrow> None
     | Some a \<Rightarrow> find (\<lambda>q. ps_paramId q = paramId) (ad_params a))"

section \<open>Consistency of a document\<close>

text \<open>
  What the lookups rely on: port ids are the positions in their list, so the first match
  is the only one; port keys are distinct; every connection recipe starts at an output of
  the module; safe ranges are ordered and contain the safe initial value.
\<close>

definition ports_dense :: "port_semantics list \<Rightarrow> bool" where
  "ports_dense ps = (map pt_portId ps = [0..<length ps] \<and> distinct (map pt_key ps))"

definition safe_ok :: "param_semantics \<Rightarrow> bool" where
  "safe_ok p = (case ps_safeRange p of None \<Rightarrow> True | Some (lo, hi) \<Rightarrow> lo \<le> hi \<and>
     (case ps_safeInitial p of None \<Rightarrow> True | Some v \<Rightarrow> lo \<le> v \<and> v \<le> hi))"

definition adapter_consistent :: "module_adapter \<Rightarrow> bool" where
  "adapter_consistent a = (ports_dense (ad_inputs a) \<and> ports_dense (ad_outputs a) \<and>
     map ps_paramId (ad_params a) = [0..<length (ad_params a)] \<and> list_all safe_ok (ad_params a) \<and>
     list_all (\<lambda>c. cr_fromOutputKey c \<in> set (map pt_key (ad_outputs a))) (ad_connectionRecipes a))"

lemmas AudioInterface2_defs = AudioInterface2_adapter_def AudioInterface2_params_def AudioInterface2_inputs_def AudioInterface2_outputs_def AudioInterface2_connectionRecipes_def
lemmas AudioInterface_defs = AudioInterface_adapter_def AudioInterface_params_def AudioInterface_inputs_def AudioInterface_outputs_def AudioInterface_connectionRecipes_def
lemmas MIDIToCVInterface_defs = MIDIToCVInterface_adapter_def MIDIToCVInterface_params_def MIDIToCVInterface_inputs_def MIDIToCVInterface_outputs_def MIDIToCVInterface_connectionRecipes_def
lemmas VCO_defs = VCO_adapter_def VCO_params_def VCO_inputs_def VCO_outputs_def VCO_connectionRecipes_def
lemmas VCF_defs = VCF_adapter_def VCF_params_def VCF_inputs_def VCF_outputs_def VCF_connectionRecipes_def
lemmas VCA_1_defs = VCA_1_adapter_def VCA_1_params_def VCA_1_inputs_def VCA_1_outputs_def VCA_1_connectionRecipes_def
lemmas VCA_defs = VCA_adapter_def VCA_params_def VCA_inputs_def VCA_outputs_def VCA_connectionRecipes_def
lemmas ADSR_defs = ADSR_adapter_def ADSR_params_def ADSR_inputs_def ADSR_outputs_def ADSR_connectionRecipes_def
lemmas LFO_defs = LFO_adapter_def LFO_params_def LFO_inputs_def LFO_outputs_def LFO_connectionRecipes_def
lemmas VCMixer_defs = VCMixer_adapter_def VCMixer_params_def VCMixer_inputs_def VCMixer_outputs_def VCMixer_connectionRecipes_def
lemmas Mixer_defs = Mixer_adapter_def Mixer_params_def Mixer_inputs_def Mixer_outputs_def Mixer_connectionRecipes_def
lemmas Sum_defs = Sum_adapter_def Sum_params_def Sum_inputs_def Sum_outputs_def Sum_connectionRecipes_def
lemmas Merge_defs = Merge_adapter_def Merge_params_def Merge_inputs_def Merge_outputs_def Merge_connectionRecipes_def
lemmas Split_defs = Split_adapter_def Split_params_def Split_inputs_def Split_outputs_def Split_connectionRecipes_def
lemmas Octave_defs = Octave_adapter_def Octave_params_def Octave_inputs_def Octave_outputs_def Octave_connectionRecipes_def
lemmas Eight_vert_defs = Eight_vert_adapter_def Eight_vert_params_def Eight_vert_inputs_def Eight_vert_outputs_def Eight_vert_connectionRecipes_def
lemmas Scope_defs = Scope_adapter_def Scope_params_def Scope_inputs_def Scope_outputs_def Scope_connectionRecipes_def
lemmas Noise_defs = Noise_adapter_def Noise_params_def Noise_inputs_def Noise_outputs_def Noise_connectionRecipes_def
lemmas Delay_defs = Delay_adapter_def Delay_params_def Delay_inputs_def Delay_outputs_def Delay_connectionRecipes_def
lemmas SEQ3_defs = SEQ3_adapter_def SEQ3_params_def SEQ3_inputs_def SEQ3_outputs_def SEQ3_connectionRecipes_def
lemmas Bridge_defs = Bridge_adapter_def Bridge_params_def Bridge_inputs_def Bridge_outputs_def Bridge_connectionRecipes_def
lemmas Probe_defs = Probe_adapter_def Probe_params_def Probe_inputs_def Probe_outputs_def Probe_connectionRecipes_def

lemmas adapter_schema_defs = module_adapter_ok_def param_semantics_ok_def port_semantics_ok_def
  connection_recipe_ok_def Slug_ok_def SmallIndex_ok_def max_opt_def

lemmas adapter_consistent_defs = adapter_consistent_def ports_dense_def safe_ok_def upt_rec

lemma AudioInterface2_ok: "module_adapter_ok AudioInterface2_adapter"
  by (simp add: adapter_schema_defs AudioInterface2_defs)

lemma AudioInterface2_consistent: "adapter_consistent AudioInterface2_adapter"
  by (simp add: adapter_consistent_defs AudioInterface2_defs)

lemma AudioInterface_ok: "module_adapter_ok AudioInterface_adapter"
  by (simp add: adapter_schema_defs AudioInterface_defs)

lemma AudioInterface_consistent: "adapter_consistent AudioInterface_adapter"
  by (simp add: adapter_consistent_defs AudioInterface_defs)

lemma MIDIToCVInterface_ok: "module_adapter_ok MIDIToCVInterface_adapter"
  by (simp add: adapter_schema_defs MIDIToCVInterface_defs)

lemma MIDIToCVInterface_consistent: "adapter_consistent MIDIToCVInterface_adapter"
  by (simp add: adapter_consistent_defs MIDIToCVInterface_defs)

lemma VCO_ok: "module_adapter_ok VCO_adapter"
  by (simp add: adapter_schema_defs VCO_defs)

lemma VCO_consistent: "adapter_consistent VCO_adapter"
  by (simp add: adapter_consistent_defs VCO_defs)

lemma VCF_ok: "module_adapter_ok VCF_adapter"
  by (simp add: adapter_schema_defs VCF_defs)

lemma VCF_consistent: "adapter_consistent VCF_adapter"
  by (simp add: adapter_consistent_defs VCF_defs)

lemma VCA_1_ok: "module_adapter_ok VCA_1_adapter"
  by (simp add: adapter_schema_defs VCA_1_defs)

lemma VCA_1_consistent: "adapter_consistent VCA_1_adapter"
  by (simp add: adapter_consistent_defs VCA_1_defs)

lemma VCA_ok: "module_adapter_ok VCA_adapter"
  by (simp add: adapter_schema_defs VCA_defs)

lemma VCA_consistent: "adapter_consistent VCA_adapter"
  by (simp add: adapter_consistent_defs VCA_defs)

lemma ADSR_ok: "module_adapter_ok ADSR_adapter"
  by (simp add: adapter_schema_defs ADSR_defs)

lemma ADSR_consistent: "adapter_consistent ADSR_adapter"
  by (simp add: adapter_consistent_defs ADSR_defs)

lemma LFO_ok: "module_adapter_ok LFO_adapter"
  by (simp add: adapter_schema_defs LFO_defs)

lemma LFO_consistent: "adapter_consistent LFO_adapter"
  by (simp add: adapter_consistent_defs LFO_defs)

lemma VCMixer_ok: "module_adapter_ok VCMixer_adapter"
  by (simp add: adapter_schema_defs VCMixer_defs)

lemma VCMixer_consistent: "adapter_consistent VCMixer_adapter"
  by (simp add: adapter_consistent_defs VCMixer_defs)

lemma Mixer_ok: "module_adapter_ok Mixer_adapter"
  by (simp add: adapter_schema_defs Mixer_defs)

lemma Mixer_consistent: "adapter_consistent Mixer_adapter"
  by (simp add: adapter_consistent_defs Mixer_defs)

lemma Sum_ok: "module_adapter_ok Sum_adapter"
  by (simp add: adapter_schema_defs Sum_defs)

lemma Sum_consistent: "adapter_consistent Sum_adapter"
  by (simp add: adapter_consistent_defs Sum_defs)

lemma Merge_ok: "module_adapter_ok Merge_adapter"
  by (simp add: adapter_schema_defs Merge_defs)

lemma Merge_consistent: "adapter_consistent Merge_adapter"
  by (simp add: adapter_consistent_defs Merge_defs)

lemma Split_ok: "module_adapter_ok Split_adapter"
  by (simp add: adapter_schema_defs Split_defs)

lemma Split_consistent: "adapter_consistent Split_adapter"
  by (simp add: adapter_consistent_defs Split_defs)

lemma Octave_ok: "module_adapter_ok Octave_adapter"
  by (simp add: adapter_schema_defs Octave_defs)

lemma Octave_consistent: "adapter_consistent Octave_adapter"
  by (simp add: adapter_consistent_defs Octave_defs)

lemma Eight_vert_ok: "module_adapter_ok Eight_vert_adapter"
  by (simp add: adapter_schema_defs Eight_vert_defs)

lemma Eight_vert_consistent: "adapter_consistent Eight_vert_adapter"
  by (simp add: adapter_consistent_defs Eight_vert_defs)

lemma Scope_ok: "module_adapter_ok Scope_adapter"
  by (simp add: adapter_schema_defs Scope_defs)

lemma Scope_consistent: "adapter_consistent Scope_adapter"
  by (simp add: adapter_consistent_defs Scope_defs)

lemma Noise_ok: "module_adapter_ok Noise_adapter"
  by (simp add: adapter_schema_defs Noise_defs)

lemma Noise_consistent: "adapter_consistent Noise_adapter"
  by (simp add: adapter_consistent_defs Noise_defs)

lemma Delay_ok: "module_adapter_ok Delay_adapter"
  by (simp add: adapter_schema_defs Delay_defs)

lemma Delay_consistent: "adapter_consistent Delay_adapter"
  by (simp add: adapter_consistent_defs Delay_defs)

lemma SEQ3_ok: "module_adapter_ok SEQ3_adapter"
  by (simp add: adapter_schema_defs SEQ3_defs)

lemma SEQ3_consistent: "adapter_consistent SEQ3_adapter"
  by (simp add: adapter_consistent_defs SEQ3_defs)

lemma Bridge_ok: "module_adapter_ok Bridge_adapter"
  by (simp add: adapter_schema_defs Bridge_defs)

lemma Bridge_consistent: "adapter_consistent Bridge_adapter"
  by (simp add: adapter_consistent_defs Bridge_defs)

lemma Probe_ok: "module_adapter_ok Probe_adapter"
  by (simp add: adapter_schema_defs Probe_defs)

lemma Probe_consistent: "adapter_consistent Probe_adapter"
  by (simp add: adapter_consistent_defs Probe_defs)

section \<open>Lookup correctness\<close>

definition slugs_of :: "module_adapter \<Rightarrow> string \<times> string" where
  "slugs_of a = (ad_pluginSlug a, ad_modelSlug a)"

lemma AudioInterface2_slug [simp]: "ad_pluginSlug AudioInterface2_adapter = ''Core''" "ad_modelSlug AudioInterface2_adapter = ''AudioInterface2''"
  by (simp_all add: AudioInterface2_adapter_def)

lemma AudioInterface_slug [simp]: "ad_pluginSlug AudioInterface_adapter = ''Core''" "ad_modelSlug AudioInterface_adapter = ''AudioInterface''"
  by (simp_all add: AudioInterface_adapter_def)

lemma MIDIToCVInterface_slug [simp]: "ad_pluginSlug MIDIToCVInterface_adapter = ''Core''" "ad_modelSlug MIDIToCVInterface_adapter = ''MIDIToCVInterface''"
  by (simp_all add: MIDIToCVInterface_adapter_def)

lemma VCO_slug [simp]: "ad_pluginSlug VCO_adapter = ''Fundamental''" "ad_modelSlug VCO_adapter = ''VCO''"
  by (simp_all add: VCO_adapter_def)

lemma VCF_slug [simp]: "ad_pluginSlug VCF_adapter = ''Fundamental''" "ad_modelSlug VCF_adapter = ''VCF''"
  by (simp_all add: VCF_adapter_def)

lemma VCA_1_slug [simp]: "ad_pluginSlug VCA_1_adapter = ''Fundamental''" "ad_modelSlug VCA_1_adapter = ''VCA-1''"
  by (simp_all add: VCA_1_adapter_def)

lemma VCA_slug [simp]: "ad_pluginSlug VCA_adapter = ''Fundamental''" "ad_modelSlug VCA_adapter = ''VCA''"
  by (simp_all add: VCA_adapter_def)

lemma ADSR_slug [simp]: "ad_pluginSlug ADSR_adapter = ''Fundamental''" "ad_modelSlug ADSR_adapter = ''ADSR''"
  by (simp_all add: ADSR_adapter_def)

lemma LFO_slug [simp]: "ad_pluginSlug LFO_adapter = ''Fundamental''" "ad_modelSlug LFO_adapter = ''LFO''"
  by (simp_all add: LFO_adapter_def)

lemma VCMixer_slug [simp]: "ad_pluginSlug VCMixer_adapter = ''Fundamental''" "ad_modelSlug VCMixer_adapter = ''VCMixer''"
  by (simp_all add: VCMixer_adapter_def)

lemma Mixer_slug [simp]: "ad_pluginSlug Mixer_adapter = ''Fundamental''" "ad_modelSlug Mixer_adapter = ''Mixer''"
  by (simp_all add: Mixer_adapter_def)

lemma Sum_slug [simp]: "ad_pluginSlug Sum_adapter = ''Fundamental''" "ad_modelSlug Sum_adapter = ''Sum''"
  by (simp_all add: Sum_adapter_def)

lemma Merge_slug [simp]: "ad_pluginSlug Merge_adapter = ''Fundamental''" "ad_modelSlug Merge_adapter = ''Merge''"
  by (simp_all add: Merge_adapter_def)

lemma Split_slug [simp]: "ad_pluginSlug Split_adapter = ''Fundamental''" "ad_modelSlug Split_adapter = ''Split''"
  by (simp_all add: Split_adapter_def)

lemma Octave_slug [simp]: "ad_pluginSlug Octave_adapter = ''Fundamental''" "ad_modelSlug Octave_adapter = ''Octave''"
  by (simp_all add: Octave_adapter_def)

lemma Eight_vert_slug [simp]: "ad_pluginSlug Eight_vert_adapter = ''Fundamental''" "ad_modelSlug Eight_vert_adapter = ''8vert''"
  by (simp_all add: Eight_vert_adapter_def)

lemma Scope_slug [simp]: "ad_pluginSlug Scope_adapter = ''Fundamental''" "ad_modelSlug Scope_adapter = ''Scope''"
  by (simp_all add: Scope_adapter_def)

lemma Noise_slug [simp]: "ad_pluginSlug Noise_adapter = ''Fundamental''" "ad_modelSlug Noise_adapter = ''Noise''"
  by (simp_all add: Noise_adapter_def)

lemma Delay_slug [simp]: "ad_pluginSlug Delay_adapter = ''Fundamental''" "ad_modelSlug Delay_adapter = ''Delay''"
  by (simp_all add: Delay_adapter_def)

lemma SEQ3_slug [simp]: "ad_pluginSlug SEQ3_adapter = ''Fundamental''" "ad_modelSlug SEQ3_adapter = ''SEQ3''"
  by (simp_all add: SEQ3_adapter_def)

lemma Bridge_slug [simp]: "ad_pluginSlug Bridge_adapter = ''RackMCP''" "ad_modelSlug Bridge_adapter = ''Bridge''"
  by (simp_all add: Bridge_adapter_def)

lemma Probe_slug [simp]: "ad_pluginSlug Probe_adapter = ''RackMCP''" "ad_modelSlug Probe_adapter = ''Probe''"
  by (simp_all add: Probe_adapter_def)

lemma adapter_slugs:
  "map slugs_of ADAPTER_DOCS = [
      (''Core'', ''AudioInterface2''), (''Core'', ''AudioInterface''), (''Core'', ''MIDIToCVInterface''),
      (''Fundamental'', ''VCO''), (''Fundamental'', ''VCF''), (''Fundamental'', ''VCA-1''),
      (''Fundamental'', ''VCA''), (''Fundamental'', ''ADSR''), (''Fundamental'', ''LFO''),
      (''Fundamental'', ''VCMixer''), (''Fundamental'', ''Mixer''), (''Fundamental'', ''Sum''),
      (''Fundamental'', ''Merge''), (''Fundamental'', ''Split''), (''Fundamental'', ''Octave''),
      (''Fundamental'', ''8vert''), (''Fundamental'', ''Scope''), (''Fundamental'', ''Noise''),
      (''Fundamental'', ''Delay''), (''Fundamental'', ''SEQ3''), (''RackMCP'', ''Bridge''),
      (''RackMCP'', ''Probe'')]"
  by (simp add: slugs_of_def ADAPTER_DOCS_def)

lemma adapter_slugs_distinct: "distinct (map slugs_of ADAPTER_DOCS)"
  unfolding adapter_slugs by simp

lemma adapter_slugs_no_nul:
  assumes "a \<in> set ADAPTER_DOCS"
  shows "CHR 0x00 \<notin> set (ad_pluginSlug a) \<and> CHR 0x00 \<notin> set (ad_modelSlug a)"
proof -
  have "list_all (\<lambda>(p, m). CHR 0x00 \<notin> set p \<and> CHR 0x00 \<notin> set m) (map slugs_of ADAPTER_DOCS)"
    unfolding adapter_slugs by simp
  then show ?thesis using assms by (auto simp: list_all_iff slugs_of_def)
qed

lemma adapter_docs_ok: "list_all module_adapter_ok ADAPTER_DOCS"
  by (simp add: ADAPTER_DOCS_def
      AudioInterface2_ok AudioInterface_ok MIDIToCVInterface_ok VCO_ok VCF_ok VCA_1_ok
      VCA_ok ADSR_ok LFO_ok VCMixer_ok Mixer_ok Sum_ok
      Merge_ok Split_ok Octave_ok Eight_vert_ok Scope_ok Noise_ok
      Delay_ok SEQ3_ok Bridge_ok Probe_ok)

lemma adapter_docs_consistent: "list_all adapter_consistent ADAPTER_DOCS"
  by (simp add: ADAPTER_DOCS_def
      AudioInterface2_consistent AudioInterface_consistent MIDIToCVInterface_consistent VCO_consistent
      VCF_consistent VCA_1_consistent VCA_consistent ADSR_consistent
      LFO_consistent VCMixer_consistent Mixer_consistent Sum_consistent
      Merge_consistent Split_consistent Octave_consistent Eight_vert_consistent
      Scope_consistent Noise_consistent Delay_consistent SEQ3_consistent
      Bridge_consistent Probe_consistent)

lemma separated_inj:
  assumes "p @ z # m = p' @ z # m'" and "z \<notin> set p'" and "z \<notin> set m'"
  shows "p = p' \<and> m = m'"
proof -
  from assms(1) obtain us where "p = p' @ us \<and> us @ z # m = z # m' \<or> p @ us = p' \<and> z # m = us @ z # m'"
    unfolding append_eq_append_conv2 by blast
  then show ?thesis
    using assms(2,3) by (cases us) auto
qed

lemma adapter_key_inj:
  "adapter_key p m = adapter_key p' m' \<Longrightarrow> CHR 0x00 \<notin> set p' \<Longrightarrow> CHR 0x00 \<notin> set m' \<Longrightarrow>
     p = p' \<and> m = m'"
  unfolding adapter_key_def append_Cons append_Nil by (rule separated_inj)

lemma map_set_fresh: "k \<notin> fst ` set m \<Longrightarrow> map_set k v m = m @ [(k, v)]"
  by (induction m) auto

lemma index_fresh:
  "distinct (map fst m @ map f as) \<Longrightarrow>
     foldl (\<lambda>m a. map_set (f a) a m) m as = m @ map (\<lambda>a. (f a, a)) as"
proof (induction as arbitrary: m)
  case Nil
  then show ?case by simp
next
  case (Cons a as)
  then have "f a \<notin> fst ` set m" by auto
  then show ?case using Cons by (simp add: map_set_fresh)
qed

lemma adapter_keys_distinct:
  "distinct (map (\<lambda>a. adapter_key (ad_pluginSlug a) (ad_modelSlug a)) ADAPTER_DOCS)"
proof -
  have inj: "inj_on slugs_of (set ADAPTER_DOCS)" and dist: "distinct ADAPTER_DOCS"
    using adapter_slugs_distinct by (simp_all add: distinct_map)
  have "inj_on (\<lambda>a. adapter_key (ad_pluginSlug a) (ad_modelSlug a)) (set ADAPTER_DOCS)"
  proof (rule inj_onI)
    fix a b assume ab: "a \<in> set ADAPTER_DOCS" "b \<in> set ADAPTER_DOCS"
      and eq: "adapter_key (ad_pluginSlug a) (ad_modelSlug a) = adapter_key (ad_pluginSlug b) (ad_modelSlug b)"
    from adapter_key_inj [OF eq] adapter_slugs_no_nul [OF ab(2)] have "slugs_of a = slugs_of b"
      by (simp add: slugs_of_def)
    with inj ab show "a = b" by (simp add: inj_on_def)
  qed
  with dist show ?thesis by (simp add: distinct_map)
qed

lemma BY_MODEL_eq:
  "BY_MODEL = map (\<lambda>a. (adapter_key (ad_pluginSlug a) (ad_modelSlug a), a)) ADAPTER_DOCS"
  unfolding BY_MODEL_def index_adapters_def
  using index_fresh [of "[]" "\<lambda>a. adapter_key (ad_pluginSlug a) (ad_modelSlug a)" ADAPTER_DOCS]
    adapter_keys_distinct by simp

lemma map_of_map_find: "map_of (map (\<lambda>a. (f a, a)) as) k = find (\<lambda>a. f a = k) as"
  by (induction as) auto

lemma getAdapter_find:
  "getAdapter p m = find (\<lambda>a. ad_pluginSlug a = p \<and> ad_modelSlug a = m) ADAPTER_DOCS"
proof -
  have "getAdapter p m =
      find (\<lambda>a. adapter_key (ad_pluginSlug a) (ad_modelSlug a) = adapter_key p m) ADAPTER_DOCS"
    by (simp add: getAdapter_def BY_MODEL_eq map_get_def map_of_map_find)
  also have "\<dots> = find (\<lambda>a. ad_pluginSlug a = p \<and> ad_modelSlug a = m) ADAPTER_DOCS"
    using adapter_slugs_no_nul by (intro find_cong) (auto dest!: adapter_key_inj [OF sym])
  finally show ?thesis .
qed

lemma getAdapter_known:
  assumes "a \<in> set ADAPTER_DOCS"
  shows "getAdapter (ad_pluginSlug a) (ad_modelSlug a) = Some a"
proof -
  let ?P = "\<lambda>b. ad_pluginSlug b = ad_pluginSlug a \<and> ad_modelSlug b = ad_modelSlug a"
  have "find ?P ADAPTER_DOCS \<noteq> None" using assms by (auto simp: find_None_iff)
  then obtain b where b: "find ?P ADAPTER_DOCS = Some b" by auto
  then have "b \<in> set ADAPTER_DOCS" "slugs_of b = slugs_of a"
    by (auto simp: find_Some_iff slugs_of_def)
  then have "b = a"
    using assms adapter_slugs_distinct by (auto simp: distinct_map inj_on_def)
  with b show ?thesis by (simp add: getAdapter_find)
qed

lemma getAdapter_in: "getAdapter p m = Some a \<Longrightarrow> a \<in> set ADAPTER_DOCS"
  by (auto simp: getAdapter_find find_Some_iff)

lemma load_ok: "load_adapters ADAPTER_DOCS = Inr BY_MODEL"
proof -
  have "find (\<lambda>i. \<not> module_adapter_ok (ADAPTER_DOCS ! i)) [0..<length ADAPTER_DOCS] = None"
    using adapter_docs_ok by (auto simp: find_None_iff list_all_length)
  then show ?thesis
    by (simp add: load_adapters_def BY_MODEL_def [symmetric]) (simp add: BY_MODEL_eq)
qed

lemma find_dense:
  assumes "map f ps = [0..<length ps]"
  shows "find (\<lambda>q. f q = i) ps = (if i < length ps then Some (ps ! i) else None)"
proof -
  have id: "j < length ps \<Longrightarrow> f (ps ! j) = j" for j
    using arg_cong [OF assms, of "\<lambda>xs. xs ! j"] by simp
  show ?thesis
  proof (cases "i < length ps")
    case True
    moreover have "\<forall>j < i. f (ps ! j) \<noteq> i" using True id by auto
    ultimately show ?thesis using id [OF True] by (auto simp: find_Some_iff intro!: exI [of _ i])
  next
    case False
    then have "\<not> (\<exists>q \<in> set ps. f q = i)" using id by (auto simp: in_set_conv_nth)
    then show ?thesis using False by (auto simp: find_None_iff)
  qed
qed

section \<open>Properties\<close>

text \<open>C14: loading the registry never throws: all 22 shipped documents satisfy the adapter
  schema and no two share a model, and the NUL-joined key is exact: for any two slugs
  whatever (they come from untrusted plugin metadata) the lookup returns the one document
  with exactly these slugs, and nothing if there is none.\<close>

theorem registry_exact:
  "load_adapters ADAPTER_DOCS = Inr BY_MODEL \<and> length BY_MODEL = 22 \<and>
   getAdapter p m = find (\<lambda>a. ad_pluginSlug a = p \<and> ad_modelSlug a = m) ADAPTER_DOCS \<and>
   (hasAdapter p m \<longleftrightarrow> (p, m) \<in> set (map slugs_of ADAPTER_DOCS))"
proof -
  have "length BY_MODEL = 22" by (simp add: BY_MODEL_eq ADAPTER_DOCS_def)
  moreover have "hasAdapter p m \<longleftrightarrow> getAdapter p m \<noteq> None"
    by (simp add: hasAdapter_def map_has_def getAdapter_def)
  moreover have "getAdapter p m \<noteq> None \<longleftrightarrow> (p, m) \<in> set (map slugs_of ADAPTER_DOCS)"
    by (auto simp: getAdapter_find find_None_iff slugs_of_def image_iff)
  ultimately show ?thesis using load_ok getAdapter_find by simp
qed

text \<open>The port lookups agree with the documents: for a model with an adapter the role
  of input (output) \<open>i\<close> is that of the \<open>i\<close>-th documented port and undefined exactly beyond
  the documented ports; and every adapter parameter range is ordered, with its safe
  initial value inside.\<close>

theorem port_roles_dense:
  assumes "getAdapter p m = Some a"
  shows "outputRole p m i =
      (if i < length (ad_outputs a) then Some (pt_role (ad_outputs a ! i)) else None) \<and>
    inputRole p m i =
      (if i < length (ad_inputs a) then Some (pt_role (ad_inputs a ! i)) else None) \<and>
    list_all safe_ok (ad_params a)"
proof -
  have "adapter_consistent a"
    using getAdapter_in [OF assms] adapter_docs_consistent by (simp add: list_all_iff)
  then show ?thesis
    using assms
    by (simp add: adapter_consistent_def ports_dense_def outputRole_def inputRole_def find_dense)
qed

lemma getAdapter_VCF: "getAdapter ''Fundamental'' ''VCF'' = Some VCF_adapter"
  using getAdapter_known [of VCF_adapter] by (simp add: ADAPTER_DOCS_def)

theorem port_roles_dense_witness:
  "outputRole ''Fundamental'' ''VCF'' 1 =
      (if 1 < length (ad_outputs VCF_adapter) then Some (pt_role (ad_outputs VCF_adapter ! 1)) else None) \<and>
    inputRole ''Fundamental'' ''VCF'' 1 =
      (if 1 < length (ad_inputs VCF_adapter) then Some (pt_role (ad_inputs VCF_adapter ! 1)) else None) \<and>
    list_all safe_ok (ad_params VCF_adapter)"
  by (rule port_roles_dense) (rule getAdapter_VCF)

end
