(* ===== verification/Operations.thy ===== *)
theory Operations
  imports Adapters
begin

text \<open>
  The patch operations a transaction is made of (\<open>packages/schemas/src/operations.ts\<close> and
  \<open>refs.ts\<close>): one record per operation, the discriminated union, and the schema as a
  predicate.
\<close>

section \<open>References\<close>

datatype module_ref = ModuleId string | Alias string

datatype port_type = InputPort | OutputPort

record port_ref =
  pr_module :: module_ref
  pr_portType :: port_type
  pr_portId :: nat

record grid_position =
  gp_x :: int
  gp_y :: int

text \<open>\<open>/^(0|[1-9][0-9]{0,18})$/\<close>\<close>

definition DecimalId_ok :: "string \<Rightarrow> bool" where
  "DecimalId_ok s = (s = ''0'' \<or>
     (s \<noteq> [] \<and> hd s \<noteq> CHR ''0'' \<and> list_all digit s \<and> length s \<le> 19))"

definition alias_ok :: "string \<Rightarrow> bool" where
  "alias_ok s = (1 \<le> length s \<and> length s \<le> 64)"

fun ModuleRef_ok :: "module_ref \<Rightarrow> bool" where
  "ModuleRef_ok (ModuleId i) = DecimalId_ok i"
| "ModuleRef_ok (Alias a) = alias_ok a"

definition PortRef_ok :: "port_ref \<Rightarrow> bool" where
  "PortRef_ok p = (ModuleRef_ok (pr_module p) \<and> SmallIndex_ok (pr_portId p))"

definition GridPosition_ok :: "grid_position \<Rightarrow> bool" where
  "GridPosition_ok g = (-4096 \<le> gp_x g \<and> gp_x g \<le> 4096 \<and> -256 \<le> gp_y g \<and> gp_y g \<le> 256)"

definition hex_digit :: "char \<Rightarrow> bool" where
  "hex_digit c = (digit c \<or> (65 \<le> (of_char c :: nat) \<and> (of_char c :: nat) \<le> 70) \<or>
     (97 \<le> (of_char c :: nat) \<and> (of_char c :: nat) \<le> 102))"

definition CableColor_ok :: "string \<Rightarrow> bool" where
  "CableColor_ok s = (length s = 7 \<and> hd s = CHR ''#'' \<and> list_all hex_digit (tl s))"

section \<open>Operations\<close>

record param_target =
  tg_value :: "rat option"
  tg_normalized :: "rat option"
  tg_display :: "string option"

record initial_param =
  ip_paramId :: nat
  ip_target :: param_target

datatype placement = PlaceAuto | PlaceAt

record add_module_op =
  am_pluginSlug :: string
  am_modelSlug :: string
  am_alias :: string
  am_placement :: placement
  am_position :: "grid_position option"
  am_initialParams :: "initial_param list option"
  am_bypassed :: "bool option"

datatype cable_removal = RemoveAttached | FailIfAttached

record remove_module_op =
  rm_module :: module_ref
  rm_cablePolicy :: cable_removal
  rm_allowLastBridge :: bool

datatype collision = CollisionFail | CollisionNearest | CollisionForce | CollisionSqueeze

record move_module_op =
  mv_module :: module_ref
  mv_position :: grid_position
  mv_collision :: collision

record duplicate_module_op =
  dm_module :: module_ref
  dm_alias :: string
  dm_copyCables :: bool
  dm_placement :: placement
  dm_position :: "grid_position option"

record set_parameter_op =
  sp_module :: module_ref
  sp_paramId :: nat
  sp_target :: param_target
  sp_smoothMs :: "rat option"

record set_bypass_op =
  sb_module :: module_ref
  sb_bypassed :: bool

datatype input_policy = FailIfConnected | Stack | ReplaceAll

record connect_op =
  cn_output :: port_ref
  cn_input :: port_ref
  cn_color :: "string option"
  cn_inputPolicy :: input_policy

datatype disconnect_policy = DisconnectTop | DisconnectAll

record disconnect_port_op =
  dp_port :: port_ref
  dp_policy :: disconnect_policy

datatype patch_operation =
    AddModule add_module_op
  | RemoveModule remove_module_op
  | MoveModule move_module_op
  | DuplicateModule duplicate_module_op
  | SetParameter set_parameter_op
  | SetBypass set_bypass_op
  | Connect connect_op
  | Disconnect string
  | DisconnectPort disconnect_port_op
  | ResetModule module_ref
  | RandomizeModule module_ref

fun op_name :: "patch_operation \<Rightarrow> string" where
  "op_name (AddModule _) = ''add_module''"
| "op_name (RemoveModule _) = ''remove_module''"
| "op_name (MoveModule _) = ''move_module''"
| "op_name (DuplicateModule _) = ''duplicate_module''"
| "op_name (SetParameter _) = ''set_parameter''"
| "op_name (SetBypass _) = ''set_bypass''"
| "op_name (Connect _) = ''connect''"
| "op_name (Disconnect _) = ''disconnect''"
| "op_name (DisconnectPort _) = ''disconnect_port''"
| "op_name (ResetModule _) = ''reset_module''"
| "op_name (RandomizeModule _) = ''randomize_module''"

definition OPERATION_TYPES :: "string list" where
  "OPERATION_TYPES = [''add_module'', ''remove_module'', ''move_module'', ''duplicate_module'',
     ''set_parameter'', ''set_bypass'', ''connect'', ''disconnect'', ''disconnect_port'',
     ''reset_module'', ''randomize_module'']"

section \<open>The schema\<close>

definition exactlyOneTarget :: "param_target \<Rightarrow> bool" where
  "exactlyOneTarget t =
     (length (filter id [tg_value t \<noteq> None, tg_normalized t \<noteq> None, tg_display t \<noteq> None]) = 1)"

definition param_target_ok :: "param_target \<Rightarrow> bool" where
  "param_target_ok t =
     ((case tg_normalized t of None \<Rightarrow> True | Some n \<Rightarrow> 0 \<le> n \<and> n \<le> 1) \<and>
      max_opt 256 (tg_display t) \<and> exactlyOneTarget t)"

definition InitialParamValue_ok :: "initial_param \<Rightarrow> bool" where
  "InitialParamValue_ok p = (SmallIndex_ok (ip_paramId p) \<and> param_target_ok (ip_target p))"

definition position_ok :: "placement \<Rightarrow> grid_position option \<Rightarrow> bool" where
  "position_ok pl pos = ((pl = PlaceAt \<longrightarrow> pos \<noteq> None) \<and>
     (case pos of None \<Rightarrow> True | Some g \<Rightarrow> GridPosition_ok g))"

fun PatchOperation_ok :: "patch_operation \<Rightarrow> bool" where
  "PatchOperation_ok (AddModule o1) =
     (Slug_ok (am_pluginSlug o1) \<and> Slug_ok (am_modelSlug o1) \<and> alias_ok (am_alias o1) \<and>
      position_ok (am_placement o1) (am_position o1) \<and>
      (case am_initialParams o1 of None \<Rightarrow> True
       | Some ps \<Rightarrow> length ps \<le> 256 \<and> list_all InitialParamValue_ok ps))"
| "PatchOperation_ok (RemoveModule o1) = ModuleRef_ok (rm_module o1)"
| "PatchOperation_ok (MoveModule o1) = (ModuleRef_ok (mv_module o1) \<and> GridPosition_ok (mv_position o1))"
| "PatchOperation_ok (DuplicateModule o1) = (ModuleRef_ok (dm_module o1) \<and> alias_ok (dm_alias o1) \<and>
     position_ok (dm_placement o1) (dm_position o1))"
| "PatchOperation_ok (SetParameter o1) = (ModuleRef_ok (sp_module o1) \<and> SmallIndex_ok (sp_paramId o1) \<and>
     param_target_ok (sp_target o1) \<and>
     (case sp_smoothMs o1 of None \<Rightarrow> True | Some t \<Rightarrow> 0 \<le> t \<and> t \<le> 10000))"
| "PatchOperation_ok (SetBypass o1) = ModuleRef_ok (sb_module o1)"
| "PatchOperation_ok (Connect o1) = (PortRef_ok (cn_output o1) \<and> PortRef_ok (cn_input o1) \<and>
     (case cn_color o1 of None \<Rightarrow> True | Some c \<Rightarrow> CableColor_ok c))"
| "PatchOperation_ok (Disconnect c) = DecimalId_ok c"
| "PatchOperation_ok (DisconnectPort o1) = PortRef_ok (dp_port o1)"
| "PatchOperation_ok (ResetModule m) = ModuleRef_ok m"
| "PatchOperation_ok (RandomizeModule m) = ModuleRef_ok m"

section \<open>Counting operations\<close>

text \<open>\<open>RateLimiter.countParamChanges\<close> and the added-module count of \<open>TransactionManager.preview\<close>.\<close>

definition countParamChanges :: "patch_operation list \<Rightarrow> nat" where
  "countParamChanges ops = length (filter (\<lambda>p. op_name p = ''set_parameter'') ops)"

definition count_added :: "patch_operation list \<Rightarrow> nat" where
  "count_added ops = length (filter (\<lambda>p. op_name p = ''add_module'') ops)"

lemma op_name_type: "op_name p \<in> set OPERATION_TYPES"
  by (cases p) (simp_all add: OPERATION_TYPES_def)

lemma op_name_set_parameter: "op_name p = ''set_parameter'' \<longleftrightarrow> (\<exists>q. p = SetParameter q)"
  by (cases p) simp_all

lemma op_name_add_module: "op_name p = ''add_module'' \<longleftrightarrow> (\<exists>q. p = AddModule q)"
  by (cases p) simp_all

lemma counts_bounded: "countParamChanges ops + count_added ops \<le> length ops"
  by (induction ops) (auto simp: countParamChanges_def count_added_def op_name_set_parameter op_name_add_module)

end
