(* ===== verification/Recipes.thy ===== *)
theory Recipes
  imports Operations
begin

text \<open>
  High-level recipes (\<open>packages/recipes/src/index.ts\<close>, types from
  \<open>packages/schemas/src/recipes.ts\<close>): a recipe binds functional roles to preferred
  models; resolution checks them against the installed models and expansion substitutes
  the role placeholders.  \<open>RecipeResolution.parse\<close> is the identity on the objects built
  here.  Assignments are own keys of an object; inherited properties such as
  \<open>constructor\<close> are not modelled.
\<close>

record installed_model =
  im_pluginSlug :: string
  im_modelSlug :: string

record role_requirement =
  rr_role :: string
  rr_description :: string
  rr_preferred :: installed_model
  rr_signalRoles :: "signal_role list"

record recipe =
  rc_recipeVersion :: nat
  rc_id :: string
  rc_name :: string
  rc_description :: string
  rc_roles :: "role_requirement list"
  rc_operations :: "patch_operation list"
  rc_notes :: "string list"

record unresolved_role =
  ur_role :: string
  ur_description :: string
  ur_preferred :: installed_model

record recipe_resolution =
  rr_recipeId :: string
  rr_resolved :: bool
  rr_unresolvedRoles :: "unresolved_role list"
  rr_assignments :: "(string, installed_model) jsmap"

section \<open>The schema\<close>

definition recipe_id_char :: "char \<Rightarrow> bool" where
  "recipe_id_char c = (digit c \<or> c = CHR ''_'' \<or> (97 \<le> (of_char c :: nat) \<and> (of_char c :: nat) \<le> 122))"

definition role_requirement_ok :: "role_requirement \<Rightarrow> bool" where
  "role_requirement_ok r = (length (rr_role r) \<le> 64 \<and> length (rr_description r) \<le> 1024 \<and>
     Slug_ok (im_pluginSlug (rr_preferred r)) \<and> Slug_ok (im_modelSlug (rr_preferred r)))"

definition recipe_ok :: "recipe \<Rightarrow> bool" where
  "recipe_ok r = (rc_recipeVersion r = 1 \<and>
     rc_id r \<noteq> [] \<and> list_all recipe_id_char (rc_id r) \<and> length (rc_id r) \<le> 64 \<and>
     length (rc_name r) \<le> 256 \<and> length (rc_description r) \<le> 4096 \<and>
     length (rc_roles r) \<le> 64 \<and> list_all role_requirement_ok (rc_roles r) \<and>
     length (rc_operations r) \<le> 128 \<and> list_all PatchOperation_ok (rc_operations r) \<and>
     list_all (\<lambda>n. length n \<le> 1024) (rc_notes r))"

section \<open>Resolution\<close>

definition ROLE_PLUGIN :: string where
  "ROLE_PLUGIN = ''$role''"

definition installedHas :: "installed_model list \<Rightarrow> installed_model \<Rightarrow> bool" where
  "installedHas installed m = list_ex (\<lambda>x. im_pluginSlug x = im_pluginSlug m \<and>
     im_modelSlug x = im_modelSlug m) installed"

fun resolve_roles ::
  "installed_model list \<Rightarrow> role_requirement list \<Rightarrow> (string, installed_model) jsmap \<Rightarrow>
   unresolved_role list \<Rightarrow> (string, installed_model) jsmap \<times> unresolved_role list" where
  "resolve_roles inst [] asg un = (asg, un)"
| "resolve_roles inst (r # rs) asg un =
     (if installedHas inst (rr_preferred r)
      then resolve_roles inst rs (map_set (rr_role r) (rr_preferred r) asg) un
      else resolve_roles inst rs asg
        (un @ [\<lparr>ur_role = rr_role r, ur_description = rr_description r, ur_preferred = rr_preferred r\<rparr>]))"

definition resolveRecipe :: "recipe \<Rightarrow> installed_model list \<Rightarrow> recipe_resolution" where
  "resolveRecipe r inst =
     (let (asg, un) = resolve_roles inst (rc_roles r) [] [] in
      \<lparr>rr_recipeId = rc_id r, rr_resolved = (length un = 0), rr_unresolvedRoles = un,
       rr_assignments = asg\<rparr>)"

section \<open>Expansion\<close>

definition subst_role ::
  "recipe \<Rightarrow> recipe_resolution \<Rightarrow> string \<Rightarrow> string \<Rightarrow> string + string \<times> string" where
  "subst_role r res pluginSlug modelSlug =
     (if pluginSlug \<noteq> ROLE_PLUGIN then Inr (pluginSlug, modelSlug)
      else case map_get (rr_assignments res) modelSlug of
        None \<Rightarrow> Inl (''Recipe '' @ rc_id r @ '' references unassigned role '' @ [CHR 0x22] @ modelSlug @ [CHR 0x22])
      | Some m \<Rightarrow> Inr (im_pluginSlug m, im_modelSlug m))"

fun expand_op :: "recipe \<Rightarrow> recipe_resolution \<Rightarrow> patch_operation \<Rightarrow> string + patch_operation" where
  "expand_op r res (AddModule a) =
     (case subst_role r res (am_pluginSlug a) (am_modelSlug a) of
        Inl e \<Rightarrow> Inl e
      | Inr (p, m) \<Rightarrow> Inr (AddModule (a\<lparr>am_pluginSlug := p, am_modelSlug := m\<rparr>)))"
| "expand_op r res p = Inr p"

fun expand_ops :: "recipe \<Rightarrow> recipe_resolution \<Rightarrow> patch_operation list \<Rightarrow> string + patch_operation list" where
  "expand_ops r res [] = Inr []"
| "expand_ops r res (p # ps) =
     (case expand_op r res p of
        Inl e \<Rightarrow> Inl e
      | Inr q \<Rightarrow> (case expand_ops r res ps of Inl e \<Rightarrow> Inl e | Inr qs \<Rightarrow> Inr (q # qs)))"

definition expandRecipeOperations :: "recipe \<Rightarrow> recipe_resolution \<Rightarrow> string + patch_operation list" where
  "expandRecipeOperations r res =
     (if \<not> rr_resolved res
      then Inl (''Recipe '' @ rc_id r @ '' is not fully resolved; cannot expand operations'')
      else expand_ops r res (rc_operations r))"

section \<open>Facts about resolution\<close>

lemma resolve_roles_un:
  "snd (resolve_roles inst rs asg un) = un @
     map (\<lambda>r. \<lparr>ur_role = rr_role r, ur_description = rr_description r, ur_preferred = rr_preferred r\<rparr>)
       (filter (\<lambda>r. \<not> installedHas inst (rr_preferred r)) rs)"
  by (induction inst rs asg un rule: resolve_roles.induct) auto

lemma resolve_roles_sound:
  "map_get (fst (resolve_roles inst rs asg un)) k = Some m \<Longrightarrow>
     (\<exists>r \<in> set rs. rr_role r = k \<and> rr_preferred r = m \<and> installedHas inst m) \<or> map_get asg k = Some m"
  by (induction inst rs asg un rule: resolve_roles.induct) (force split: if_splits)+

lemma resolve_roles_mono: "map_get asg k \<noteq> None \<Longrightarrow> map_get (fst (resolve_roles inst rs asg un)) k \<noteq> None"
  by (induction inst rs asg un rule: resolve_roles.induct) auto

lemma resolve_roles_complete:
  "r \<in> set rs \<Longrightarrow> installedHas inst (rr_preferred r) \<Longrightarrow>
     map_get (fst (resolve_roles inst rs asg un)) (rr_role r) \<noteq> None"
proof (induction rs arbitrary: asg un)
  case (Cons q rs)
  show ?case
  proof (cases "r = q")
    case True
    then show ?thesis
      using Cons.prems resolve_roles_mono [of "map_set (rr_role r) (rr_preferred r) asg" "rr_role r"] by simp
  next
    case False
    then show ?thesis using Cons by simp
  qed
qed simp

lemma resolved_iff:
  "rr_resolved (resolveRecipe r inst) \<longleftrightarrow> (\<forall>q \<in> set (rc_roles r). installedHas inst (rr_preferred q))"
  using resolve_roles_un [of inst "rc_roles r" "[]" "[]"]
  by (auto simp: resolveRecipe_def split_beta Let_def filter_empty_conv)

lemma assignment_sound:
  "map_get (rr_assignments (resolveRecipe r inst)) k = Some m \<Longrightarrow>
     \<exists>q \<in> set (rc_roles r). rr_role q = k \<and> rr_preferred q = m \<and> installedHas inst m"
  using resolve_roles_sound [of inst "rc_roles r" "[]" "[]" k m]
  by (auto simp: resolveRecipe_def split_beta Let_def)

lemma assignment_complete:
  "q \<in> set (rc_roles r) \<Longrightarrow> installedHas inst (rr_preferred q) \<Longrightarrow>
     map_get (rr_assignments (resolveRecipe r inst)) (rr_role q) \<noteq> None"
  using resolve_roles_complete [of q "rc_roles r" inst "[]" "[]"]
  by (auto simp: resolveRecipe_def split_beta Let_def)

text \<open>One expanded operation against its template: an added module is either unchanged or
  the assigned model in place of its role; everything else is untouched.\<close>

definition expands_to :: "recipe \<Rightarrow> installed_model list \<Rightarrow> patch_operation \<Rightarrow> patch_operation \<Rightarrow> bool" where
  "expands_to r inst p q = (case p of
     AddModule a \<Rightarrow> if am_pluginSlug a = ROLE_PLUGIN
       then (\<exists>u \<in> set (rc_roles r). rr_role u = am_modelSlug a \<and> installedHas inst (rr_preferred u) \<and>
         q = AddModule (a\<lparr>am_pluginSlug := im_pluginSlug (rr_preferred u),
           am_modelSlug := im_modelSlug (rr_preferred u)\<rparr>))
       else q = p
   | _ \<Rightarrow> q = p)"

lemma expand_op_to:
  "expand_op r (resolveRecipe r inst) p = Inr q \<Longrightarrow> expands_to r inst p q"
  by (cases p) (auto simp: expands_to_def subst_role_def dest!: assignment_sound
      split: if_splits option.splits sum.splits)

lemma expand_ops_to:
  "expand_ops r (resolveRecipe r inst) ps = Inr qs \<Longrightarrow> list_all2 (expands_to r inst) ps qs"
  by (induction ps arbitrary: qs) (auto dest: expand_op_to split: sum.splits)

definition roles_declared :: "recipe \<Rightarrow> bool" where
  "roles_declared r = (\<forall>a. AddModule a \<in> set (rc_operations r) \<longrightarrow> am_pluginSlug a = ROLE_PLUGIN \<longrightarrow>
     am_modelSlug a \<in> rr_role ` set (rc_roles r))"

lemma expand_op_total:
  assumes "rr_resolved (resolveRecipe r inst)"
    and "\<And>a. p = AddModule a \<Longrightarrow> am_pluginSlug a = ROLE_PLUGIN \<Longrightarrow> am_modelSlug a \<in> rr_role ` set (rc_roles r)"
  shows "\<exists>q. expand_op r (resolveRecipe r inst) p = Inr q"
proof (cases p)
  case (AddModule a)
  show ?thesis
  proof (cases "am_pluginSlug a = ROLE_PLUGIN")
    case True
    then obtain u where u: "u \<in> set (rc_roles r)" "rr_role u = am_modelSlug a"
      using assms(2) AddModule by force
    then have "map_get (rr_assignments (resolveRecipe r inst)) (am_modelSlug a) \<noteq> None"
      using assignment_complete [of u r inst] assms(1) by (simp add: resolved_iff)
    then show ?thesis using AddModule True by (auto simp: subst_role_def)
  next
    case False
    then show ?thesis using AddModule by (simp add: subst_role_def)
  qed
qed simp_all

lemma expand_ops_total:
  "rr_resolved (resolveRecipe r inst) \<Longrightarrow>
   (\<forall>a. AddModule a \<in> set ps \<longrightarrow> am_pluginSlug a = ROLE_PLUGIN \<longrightarrow> am_modelSlug a \<in> rr_role ` set (rc_roles r)) \<Longrightarrow>
   \<exists>qs. expand_ops r (resolveRecipe r inst) ps = Inr qs"
proof (induction ps)
  case (Cons p ps)
  then obtain qs where "expand_ops r (resolveRecipe r inst) ps = Inr qs" by auto
  moreover obtain q where "expand_op r (resolveRecipe r inst) p = Inr q"
    using expand_op_total [of r inst p] Cons.prems by auto
  ultimately show ?case by simp
qed simp

lemma expand_undeclared:
  assumes "\<not> roles_declared r"
  shows "\<not> list_all2 (expands_to r inst) (rc_operations r) qs"
proof
  assume l: "list_all2 (expands_to r inst) (rc_operations r) qs"
  from assms obtain a where a: "AddModule a \<in> set (rc_operations r)" "am_pluginSlug a = ROLE_PLUGIN"
    "am_modelSlug a \<notin> rr_role ` set (rc_roles r)" by (auto simp: roles_declared_def)
  from a(1) l obtain q where "expands_to r inst (AddModule a) q"
    by (auto simp: list_all2_conv_all_nth in_set_conv_nth)
  with a(2) obtain u where "u \<in> set (rc_roles r)" "am_modelSlug a = rr_role u"
    by (auto simp: expands_to_def)
  with a(3) show False by simp
qed

section \<open>Properties\<close>

text \<open>C15: a recipe is never silently adapted: it resolves exactly when the preferred model of
  every role is installed, the unresolved roles are exactly the other ones, in order;
  expansion succeeds exactly on resolved recipes whose templates name declared roles, and
  then every operation is its template with the role replaced by that role's own
  preferred, installed model and nothing else changed.\<close>

theorem resolution_never_substitutes:
  "rr_resolved (resolveRecipe r inst) =
     list_all (\<lambda>q. installedHas inst (rr_preferred q)) (rc_roles r) \<and>
   map ur_role (rr_unresolvedRoles (resolveRecipe r inst)) =
     map rr_role (filter (\<lambda>q. \<not> installedHas inst (rr_preferred q)) (rc_roles r)) \<and>
   (case expandRecipeOperations r (resolveRecipe r inst) of
      Inl _ \<Rightarrow> \<not> (rr_resolved (resolveRecipe r inst) \<and> roles_declared r)
    | Inr qs \<Rightarrow> rr_resolved (resolveRecipe r inst) \<and> roles_declared r \<and>
        list_all2 (expands_to r inst) (rc_operations r) qs)"
proof -
  let ?res = "resolveRecipe r inst"
  have un: "map ur_role (rr_unresolvedRoles ?res) =
      map rr_role (filter (\<lambda>q. \<not> installedHas inst (rr_preferred q)) (rc_roles r))"
    using resolve_roles_un [of inst "rc_roles r" "[]" "[]"]
    by (simp add: resolveRecipe_def split_beta Let_def)
  have expand: "case expandRecipeOperations r ?res of
      Inl _ \<Rightarrow> \<not> (rr_resolved ?res \<and> roles_declared r)
    | Inr qs \<Rightarrow> rr_resolved ?res \<and> roles_declared r \<and> list_all2 (expands_to r inst) (rc_operations r) qs"
  proof (cases "rr_resolved ?res")
    case True
    show ?thesis
    proof (cases "expand_ops r ?res (rc_operations r)")
      case (Inl e)
      then have "\<not> roles_declared r"
        using expand_ops_total [OF True, of "rc_operations r"] by (auto simp: roles_declared_def)
      then show ?thesis using Inl True by (simp add: expandRecipeOperations_def)
    next
      case (Inr qs)
      then have "list_all2 (expands_to r inst) (rc_operations r) qs" by (rule expand_ops_to)
      moreover from this have "roles_declared r" using expand_undeclared by blast
      ultimately show ?thesis using Inr True by (simp add: expandRecipeOperations_def)
    qed
  qed (simp add: expandRecipeOperations_def)
  show ?thesis using un expand by (simp add: resolved_iff list_all_iff)
qed

end
