(* ===== verification/RecipeDocs.thy ===== *)
theory RecipeDocs
  imports Recipes Registry Errors
begin

text \<open>
  The eight shipped recipes (\<open>packages/recipes/src/data.ts\<close>), the registry that parses and
  indexes them (\<open>packages/recipes/src/index.ts\<close>), and the proof that every recipe, once
  resolved, expands into a patch that is wired only to documented ports and parameters.
  A character outside ASCII is written as its UTF-8 bytes.
\<close>

section \<open>Authoring helpers\<close>

definition addRole :: "string \<Rightarrow> string \<Rightarrow> patch_operation" where
  "addRole roleKey alias = AddModule \<lparr>am_pluginSlug = ''$role'', am_modelSlug = roleKey,
     am_alias = alias, am_placement = PlaceAuto, am_position = None, am_initialParams = None,
     am_bypassed = None\<rparr>"

definition setNorm :: "string \<Rightarrow> nat \<Rightarrow> rat \<Rightarrow> patch_operation" where
  "setNorm alias paramId normalized = SetParameter \<lparr>sp_module = Alias alias, sp_paramId = paramId,
     sp_target = \<lparr>tg_value = None, tg_normalized = Some normalized, tg_display = None\<rparr>,
     sp_smoothMs = None\<rparr>"

definition connect :: "string \<Rightarrow> nat \<Rightarrow> string \<Rightarrow> nat \<Rightarrow> patch_operation" where
  "connect outAlias outPort inAlias inPort = Connect \<lparr>
     cn_output = \<lparr>pr_module = Alias outAlias, pr_portType = OutputPort, pr_portId = outPort\<rparr>,
     cn_input = \<lparr>pr_module = Alias inAlias, pr_portType = InputPort, pr_portId = inPort\<rparr>,
     cn_color = None, cn_inputPolicy = FailIfConnected\<rparr>"

definition need :: "string \<Rightarrow> string \<Rightarrow> string \<Rightarrow> string \<Rightarrow> signal_role list \<Rightarrow> role_requirement" where
  "need role description pluginSlug modelSlug signalRoles = \<lparr>rr_role = role,
     rr_description = description,
     rr_preferred = \<lparr>im_pluginSlug = pluginSlug, im_modelSlug = modelSlug\<rparr>,
     rr_signalRoles = signalRoles\<rparr>"

text \<open>Port and parameter ids, \<open>MIDI.pitch\<close> written \<open>MIDI_pitch\<close>.\<close>

abbreviation MIDI_pitch :: nat where "MIDI_pitch \<equiv> 0"
abbreviation MIDI_gate :: nat where "MIDI_gate \<equiv> 1"

abbreviation VCO_pitchIn :: nat where "VCO_pitchIn \<equiv> 0"
abbreviation VCO_sawOut :: nat where "VCO_sawOut \<equiv> 2"

abbreviation VCF_cutoffCv :: nat where "VCF_cutoffCv \<equiv> 0"
abbreviation VCF_audioIn :: nat where "VCF_audioIn \<equiv> 3"
abbreviation VCF_lpOut :: nat where "VCF_lpOut \<equiv> 0"
abbreviation VCF_cutoffParam :: nat where "VCF_cutoffParam \<equiv> 0"
abbreviation VCF_cutoffDepth :: nat where "VCF_cutoffDepth \<equiv> 3"

abbreviation VCA_gainCv :: nat where "VCA_gainCv \<equiv> 0"
abbreviation VCA_audioIn :: nat where "VCA_audioIn \<equiv> 1"
abbreviation VCA_audioOut :: nat where "VCA_audioOut \<equiv> 0"
abbreviation VCA_level :: nat where "VCA_level \<equiv> 0"

abbreviation ADSR_gateIn :: nat where "ADSR_gateIn \<equiv> 4"
abbreviation ADSR_envOut :: nat where "ADSR_envOut \<equiv> 0"
abbreviation ADSR_attack :: nat where "ADSR_attack \<equiv> 0"
abbreviation ADSR_decay :: nat where "ADSR_decay \<equiv> 1"
abbreviation ADSR_sustain :: nat where "ADSR_sustain \<equiv> 2"
abbreviation ADSR_release :: nat where "ADSR_release \<equiv> 3"

abbreviation LFO_freq :: nat where "LFO_freq \<equiv> 2"
abbreviation LFO_sineOut :: nat where "LFO_sineOut \<equiv> 0"
abbreviation LFO_squareOut :: nat where "LFO_squareOut \<equiv> 3"

abbreviation AUDIO_in1 :: nat where "AUDIO_in1 \<equiv> 0"
abbreviation AUDIO_in2 :: nat where "AUDIO_in2 \<equiv> 1"

abbreviation SEQ_clockIn :: nat where "SEQ_clockIn \<equiv> 1"
abbreviation SEQ_trigOut :: nat where "SEQ_trigOut \<equiv> 0"
abbreviation SEQ_cv1Out :: nat where "SEQ_cv1Out \<equiv> 1"
abbreviation SEQ_stepsParam :: nat where "SEQ_stepsParam \<equiv> 3"
abbreviation SEQ_tempoParam :: nat where "SEQ_tempoParam \<equiv> 0"

abbreviation DELAY_audioIn :: nat where "DELAY_audioIn \<equiv> 4"
abbreviation DELAY_mixOut :: nat where "DELAY_mixOut \<equiv> 0"
abbreviation DELAY_wetOut :: nat where "DELAY_wetOut \<equiv> 1"
abbreviation DELAY_timeParam :: nat where "DELAY_timeParam \<equiv> 0"
abbreviation DELAY_feedbackParam :: nat where "DELAY_feedbackParam \<equiv> 1"
abbreviation DELAY_mixParam :: nat where "DELAY_mixParam \<equiv> 3"

abbreviation PROBE_p1 :: nat where "PROBE_p1 \<equiv> 0"
abbreviation PROBE_p2 :: nat where "PROBE_p2 \<equiv> 1"
abbreviation PROBE_p3 :: nat where "PROBE_p3 \<equiv> 2"

section \<open>The recipes\<close>

definition R1_basicMono :: recipe where
  "R1_basicMono = \<lparr>
    rc_recipeVersion = 1, rc_id = ''basic_mono_subtractive'', rc_name = ''Basic monophonic subtractive voice'',
    rc_description = ''A classic single-voice subtractive synthesizer: a MIDI keyboard drives one oscillator through a low-pass filter and an amplifier, with an ADSR envelope shaping the amplitude. The final signal is routed to the audio output. This is the canonical starting point for building and learning synth patches.'',
    rc_roles = [
    need ''midi_input'' ''Note/gate source for the voice.'' ''Core'' ''MIDIToCVInterface'' [PitchVoct, Gate],
    need ''oscillator'' ''Primary tone generator (pitched by the MIDI CV).'' ''Fundamental'' ''VCO'' [Audio],
    need ''filter'' ''Low-pass filter that shapes timbre.'' ''Fundamental'' ''VCF'' [Audio],
    need ''envelope'' ''ADSR envelope controlling amplitude over time.'' ''Fundamental'' ''ADSR'' [CvUnipolar],
    need ''amplifier'' ''Voltage-controlled amplifier gating the voice by the envelope.'' ''Fundamental'' ''VCA-1'' [Audio],
    need ''audio_output'' ''Final audio sink to the sound device.'' ''Core'' ''AudioInterface2'' [Audio]],
    rc_operations = [
    addRole ''midi_input'' ''midi'',
    addRole ''oscillator'' ''vco'',
    addRole ''filter'' ''vcf'',
    addRole ''envelope'' ''env'',
    addRole ''amplifier'' ''vca'',
    addRole ''audio_output'' ''audio'',
    setNorm ''vcf'' VCF_cutoffParam (11 / 20),
    setNorm ''env'' ADSR_attack (1 / 20),
    setNorm ''env'' ADSR_decay (2 / 5),
    setNorm ''env'' ADSR_sustain (7 / 10),
    setNorm ''env'' ADSR_release (7 / 20),
    setNorm ''vca'' VCA_level (1),
    connect ''midi'' MIDI_pitch ''vco'' VCO_pitchIn,
    connect ''midi'' MIDI_gate ''env'' ADSR_gateIn,
    connect ''vco'' VCO_sawOut ''vcf'' VCF_audioIn,
    connect ''env'' ADSR_envOut ''vca'' VCA_gainCv,
    connect ''vcf'' VCF_lpOut ''vca'' VCA_audioIn,
    connect ''vca'' VCA_audioOut ''audio'' AUDIO_in1,
    connect ''vca'' VCA_audioOut ''audio'' AUDIO_in2],
    rc_notes = [
    (''The VCA level starts at unity so the envelope'' @ [CHR 0x27] @ ''s CV fully controls the amplitude.''),
    ''Play a note on the configured MIDI device to hear the voice; adjust the VCF cutoff to taste.'']\<rparr>"

definition R2_polyMono :: recipe where
  "R2_polyMono = \<lparr>
    rc_recipeVersion = 1, rc_id = ''poly_midi_subtractive'', rc_name = ''Polyphonic MIDI subtractive voice'',
    rc_description = ''The subtractive voice built for polyphony: the same MIDI to CV, oscillator, filter, envelope and amplifier chain, driven by a polyphonic MIDI to CV interface so several notes sound at once. VCV cables carry all voice channels, so the single chain becomes N independent voices; the audio output sums the polyphonic signal automatically.'',
    rc_roles = [
    need ''midi_input'' ''Polyphonic note/gate source (set channel count in its context menu).'' ''Core'' ''MIDIToCVInterface'' [PitchVoct, Gate],
    need ''oscillator'' ''Oscillator; runs one instance per polyphony channel.'' ''Fundamental'' ''VCO'' [Audio],
    need ''filter'' ''Low-pass filter (polyphonic).'' ''Fundamental'' ''VCF'' [Audio],
    need ''envelope'' ''Per-voice ADSR envelope (polyphonic from the gate).'' ''Fundamental'' ''ADSR'' [CvUnipolar],
    need ''amplifier'' ''Per-voice VCA gated by the envelope.'' ''Fundamental'' ''VCA-1'' [Audio],
    need ''audio_output'' ''Audio sink; sums polyphony channels to the device.'' ''Core'' ''AudioInterface2'' [Audio]],
    rc_operations = [
    addRole ''midi_input'' ''midi'',
    addRole ''oscillator'' ''vco'',
    addRole ''filter'' ''vcf'',
    addRole ''envelope'' ''env'',
    addRole ''amplifier'' ''vca'',
    addRole ''audio_output'' ''audio'',
    setNorm ''vcf'' VCF_cutoffParam (11 / 20),
    setNorm ''env'' ADSR_attack (1 / 20),
    setNorm ''env'' ADSR_decay (2 / 5),
    setNorm ''env'' ADSR_sustain (7 / 10),
    setNorm ''env'' ADSR_release (7 / 20),
    setNorm ''vca'' VCA_level (1),
    connect ''midi'' MIDI_pitch ''vco'' VCO_pitchIn,
    connect ''midi'' MIDI_gate ''env'' ADSR_gateIn,
    connect ''vco'' VCO_sawOut ''vcf'' VCF_audioIn,
    connect ''env'' ADSR_envOut ''vca'' VCA_gainCv,
    connect ''vcf'' VCF_lpOut ''vca'' VCA_audioIn,
    connect ''vca'' VCA_audioOut ''audio'' AUDIO_in1,
    connect ''vca'' VCA_audioOut ''audio'' AUDIO_in2],
    rc_notes = [
    ''Set the MIDI to CV polyphony channel count in its right-click context menu; that field is opaque module state and is not adjusted by this recipe.'',
    ''All downstream modules inherit polyphony from the cables automatically; no per-voice duplication is needed.'']\<rparr>"

definition R3_clockedSeq :: recipe where
  "R3_clockedSeq = \<lparr>
    rc_recipeVersion = 1, rc_id = ''clocked_8_step_sequence'', rc_name = ''Clocked 8-step sequence'',
    rc_description = ''An LFO clocks an 8-step sequencer whose CV row sets the oscillator pitch and whose trigger fires the envelope each step. The voice runs through a filter and amplifier to the audio output, producing an evolving looped melody without a keyboard.'',
    rc_roles = [
    need ''clock'' ''Clock source (LFO square wave) advancing the sequencer.'' ''Fundamental'' ''LFO'' [Clock],
    need ''sequencer'' ''8-step CV/gate sequencer.'' ''Fundamental'' ''SEQ3'' [CvBipolar, Trigger],
    need ''oscillator'' ''Oscillator pitched by the sequencer CV.'' ''Fundamental'' ''VCO'' [Audio],
    need ''envelope'' ''ADSR fired by each step trigger.'' ''Fundamental'' ''ADSR'' [CvUnipolar],
    need ''filter'' ''Low-pass filter.'' ''Fundamental'' ''VCF'' [Audio],
    need ''amplifier'' ''VCA gated by the envelope.'' ''Fundamental'' ''VCA-1'' [Audio],
    need ''audio_output'' ''Audio sink.'' ''Core'' ''AudioInterface2'' [Audio]],
    rc_operations = [
    addRole ''clock'' ''clk'',
    addRole ''sequencer'' ''seq'',
    addRole ''oscillator'' ''vco'',
    addRole ''envelope'' ''env'',
    addRole ''filter'' ''vcf'',
    addRole ''amplifier'' ''vca'',
    addRole ''audio_output'' ''audio'',
    setNorm ''clk'' LFO_freq (2 / 5),
    setNorm ''seq'' SEQ_stepsParam (1),
    setNorm ''vcf'' VCF_cutoffParam (1 / 2),
    setNorm ''env'' ADSR_attack (1 / 50),
    setNorm ''env'' ADSR_decay (3 / 10),
    setNorm ''env'' ADSR_sustain (1 / 2),
    setNorm ''env'' ADSR_release (1 / 5),
    setNorm ''vca'' VCA_level (1),
    connect ''clk'' LFO_squareOut ''seq'' SEQ_clockIn,
    connect ''seq'' SEQ_cv1Out ''vco'' VCO_pitchIn,
    connect ''seq'' SEQ_trigOut ''env'' ADSR_gateIn,
    connect ''vco'' VCO_sawOut ''vcf'' VCF_audioIn,
    connect ''env'' ADSR_envOut ''vca'' VCA_gainCv,
    connect ''vcf'' VCF_lpOut ''vca'' VCA_audioIn,
    connect ''vca'' VCA_audioOut ''audio'' AUDIO_in1,
    connect ''vca'' VCA_audioOut ''audio'' AUDIO_in2],
    rc_notes = [
    (''Tune each step with the sequencer'' @ [CHR 0x27] @ ''s CV1 row knobs; the CV is 1V/octave into the oscillator.''),
    ''The step trigger produces short plucks; patch a per-step gate output instead for sustained notes.'',
    ''Raise the LFO frequency for a faster tempo; the sequencer is set to 8 active steps.'']\<rparr>"

definition R4_stereoDelay :: recipe where
  "R4_stereoDelay = \<lparr>
    rc_recipeVersion = 1, rc_id = ''stereo_delay_send_return'', rc_name = ''Stereo send/return delay'',
    rc_description = (''A source is sent to two delay lines set to slightly different times, one panned to each output channel, creating a wide stereo echo. Each delay'' @ [CHR 0x27] @ ''s mix and feedback act as the return level, so the dry/wet balance is controlled per side. Fundamental Delay is mono, so genuine stereo width uses one delay instance per channel.''),
    rc_roles = [
    need ''source'' ''Sound source feeding the stereo delay bus.'' ''Fundamental'' ''VCO'' [Audio],
    need ''delay_left'' ''Left-channel delay line.'' ''Fundamental'' ''Delay'' [Audio],
    need ''delay_right'' ''Right-channel delay line (different time for width).'' ''Fundamental'' ''Delay'' [Audio],
    need ''audio_output'' ''Stereo audio sink.'' ''Core'' ''AudioInterface2'' [Audio]],
    rc_operations = [
    addRole ''source'' ''src'',
    addRole ''delay_left'' ''delL'',
    addRole ''delay_right'' ''delR'',
    addRole ''audio_output'' ''audio'',
    setNorm ''delL'' DELAY_timeParam (1 / 4),
    setNorm ''delR'' DELAY_timeParam (9 / 20),
    setNorm ''delL'' DELAY_feedbackParam (2 / 5),
    setNorm ''delR'' DELAY_feedbackParam (2 / 5),
    setNorm ''delL'' DELAY_mixParam (1 / 2),
    setNorm ''delR'' DELAY_mixParam (1 / 2),
    connect ''src'' VCO_sawOut ''delL'' DELAY_audioIn,
    connect ''src'' VCO_sawOut ''delR'' DELAY_audioIn,
    connect ''delL'' DELAY_mixOut ''audio'' AUDIO_in1,
    connect ''delR'' DELAY_mixOut ''audio'' AUDIO_in2],
    rc_notes = [
    ''The two delay times differ to spread the echoes across the stereo field; nudge them for more or less width.'',
    (''Raise each delay'' @ [CHR 0x27] @ ''s feedback for longer tails and the mix knob for a wetter return.'')]\<rparr>"

definition R5_safeMaster :: recipe where
  "R5_safeMaster = \<lparr>
    rc_recipeVersion = 1, rc_id = ''safe_master_output'', rc_name = ''Safe master output'',
    rc_description = (''A protective master stage placed before the audio device: your final mix passes through a VCA acting as a master fader set to leave headroom, then to the audio output at unity. This guards against accidental clipping at the interface. Patch your mix bus into the master VCA'' @ [CHR 0x27] @ ''s audio input.''),
    rc_roles = [
    need ''master_vca'' ''Master fader VCA before the audio device.'' ''Fundamental'' ''VCA-1'' [Audio],
    need ''audio_output'' ''Audio sink to the sound device.'' ''Core'' ''AudioInterface2'' [Audio]],
    rc_operations = [
    addRole ''master_vca'' ''master'',
    addRole ''audio_output'' ''audio'',
    setNorm ''master'' VCA_level (7 / 10),
    connect ''master'' VCA_audioOut ''audio'' AUDIO_in1,
    connect ''master'' VCA_audioOut ''audio'' AUDIO_in2],
    rc_notes = [
    (''Patch your final mix into the master VCA'' @ [CHR 0x27] @ ''s audio input (input port 1).''),
    ''The master level starts at 0.7 for headroom; raise it carefully while watching the interface for clipping.'',
    ''The audio interface level stays at unity so the VCA is the single master control.'']\<rparr>"

definition R6_lfoMod :: recipe where
  "R6_lfoMod = \<lparr>
    rc_recipeVersion = 1, rc_id = ''lfo_filter_modulation'', rc_name = ''LFO filter modulation'',
    rc_description = (''A slow LFO sweeps the filter cutoff of a running voice, producing an evolving, breathing timbre. The oscillator feeds the filter, the LFO modulates cutoff through the filter'' @ [CHR 0x27] @ ''s CV input, and the amplifier passes the result to the output. The modulation depth is set by the filter'' @ [CHR 0x27] @ ''s cutoff CV attenuverter.''),
    rc_roles = [
    need ''source'' ''Oscillator tone source.'' ''Fundamental'' ''VCO'' [Audio],
    need ''lfo'' ''Low-frequency modulation source.'' ''Fundamental'' ''LFO'' [CvUnipolar],
    need ''filter'' ''Low-pass filter whose cutoff is modulated.'' ''Fundamental'' ''VCF'' [Audio],
    need ''amplifier'' ''Output VCA.'' ''Fundamental'' ''VCA-1'' [Audio],
    need ''audio_output'' ''Audio sink.'' ''Core'' ''AudioInterface2'' [Audio]],
    rc_operations = [
    addRole ''source'' ''vco'',
    addRole ''lfo'' ''lfo'',
    addRole ''filter'' ''vcf'',
    addRole ''amplifier'' ''vca'',
    addRole ''audio_output'' ''audio'',
    setNorm ''lfo'' LFO_freq (1 / 4),
    setNorm ''vcf'' VCF_cutoffParam (1 / 2),
    setNorm ''vcf'' VCF_cutoffDepth (3 / 4),
    setNorm ''vca'' VCA_level (4 / 5),
    connect ''vco'' VCO_sawOut ''vcf'' VCF_audioIn,
    connect ''lfo'' LFO_sineOut ''vcf'' VCF_cutoffCv,
    connect ''vcf'' VCF_lpOut ''vca'' VCA_audioIn,
    connect ''vca'' VCA_audioOut ''audio'' AUDIO_in1,
    connect ''vca'' VCA_audioOut ''audio'' AUDIO_in2],
    rc_notes = [
    ''The LFO sine wave sweeps the cutoff; set the sweep depth with the VCF cutoff CV attenuverter (parameter 3).'',
    ''Lower the LFO frequency for slow filter sweeps, raise it for tremolo-like motion.'']\<rparr>"

definition R7_sidechain :: recipe where
  "R7_sidechain = \<lparr>
    rc_recipeVersion = 1, rc_id = ''sidechain_envelope_follow'', rc_name = ''Sidechain envelope amplitude control'',
    rc_description = (''A trigger source drives an ADSR envelope that controls the amplitude of a separate signal through a VCA '' @ [CHR 0xE2] @ [CHR 0x80] @ [CHR 0x94] @ '' the building block of sidechain dynamics. Each trigger raises the gain in a rhythmic swell synced to the sidechain source. True inverse ducking (gain dips on the trigger) needs an inverting offset stage that Fundamental does not provide directly.''),
    rc_roles = [
    need ''main_source'' ''Main signal whose amplitude is modulated.'' ''Fundamental'' ''VCO'' [Audio],
    need ''trigger_source'' ''Sidechain trigger/gate source.'' ''Core'' ''MIDIToCVInterface'' [Gate],
    need ''envelope'' ''Envelope generating the gain contour.'' ''Fundamental'' ''ADSR'' [CvUnipolar],
    need ''duck_vca'' ''VCA whose gain follows the envelope.'' ''Fundamental'' ''VCA-1'' [Audio],
    need ''audio_output'' ''Audio sink.'' ''Core'' ''AudioInterface2'' [Audio]],
    rc_operations = [
    addRole ''main_source'' ''src'',
    addRole ''trigger_source'' ''trig'',
    addRole ''envelope'' ''env'',
    addRole ''duck_vca'' ''vca'',
    addRole ''audio_output'' ''audio'',
    setNorm ''env'' ADSR_attack (1 / 50),
    setNorm ''env'' ADSR_decay (1 / 4),
    setNorm ''env'' ADSR_sustain (0),
    setNorm ''env'' ADSR_release (3 / 10),
    setNorm ''vca'' VCA_level (1),
    connect ''src'' VCO_sawOut ''vca'' VCA_audioIn,
    connect ''trig'' MIDI_gate ''env'' ADSR_gateIn,
    connect ''env'' ADSR_envOut ''vca'' VCA_gainCv,
    connect ''vca'' VCA_audioOut ''audio'' AUDIO_in1,
    connect ''vca'' VCA_audioOut ''audio'' AUDIO_in2],
    rc_notes = [
    ''Each trigger produces a plucked amplitude envelope (sustain is 0) synced to the sidechain source.'',
    ''For classic inverse ducking, invert the envelope with an 8vert channel plus a DC offset, or use a dedicated ducking module, then patch that into the VCA gain instead.'']\<rparr>"

definition R8_probeDiag :: recipe where
  "R8_probeDiag = \<lparr>
    rc_recipeVersion = 1, rc_id = ''probe_silence_diagnosis'', rc_name = ''Probe-assisted silence diagnosis'',
    rc_description = ''The basic subtractive voice with a RackMCP Probe tapping the oscillator, filter and amplifier outputs. When a patch is unexpectedly silent, read the probe telemetry: the first tap reading roughly zero peak voltage marks where the signal stops, isolating the broken stage.'',
    rc_roles = [
    need ''midi_input'' ''Note/gate source.'' ''Core'' ''MIDIToCVInterface'' [PitchVoct, Gate],
    need ''oscillator'' ''Oscillator (tap 1).'' ''Fundamental'' ''VCO'' [Audio],
    need ''filter'' ''Filter (tap 2).'' ''Fundamental'' ''VCF'' [Audio],
    need ''envelope'' ''ADSR envelope.'' ''Fundamental'' ''ADSR'' [CvUnipolar],
    need ''amplifier'' ''VCA (tap 3).'' ''Fundamental'' ''VCA-1'' [Audio],
    need ''audio_output'' ''Audio sink.'' ''Core'' ''AudioInterface2'' [Audio],
    need ''probe'' ''RackMCP Probe telemetry tap for diagnosis.'' ''RackMCP'' ''Probe'' [UnknownRole]],
    rc_operations = [
    addRole ''midi_input'' ''midi'',
    addRole ''oscillator'' ''vco'',
    addRole ''filter'' ''vcf'',
    addRole ''envelope'' ''env'',
    addRole ''amplifier'' ''vca'',
    addRole ''audio_output'' ''audio'',
    addRole ''probe'' ''probe'',
    setNorm ''vcf'' VCF_cutoffParam (11 / 20),
    setNorm ''env'' ADSR_attack (1 / 20),
    setNorm ''env'' ADSR_decay (2 / 5),
    setNorm ''env'' ADSR_sustain (7 / 10),
    setNorm ''env'' ADSR_release (7 / 20),
    setNorm ''vca'' VCA_level (1),
    connect ''midi'' MIDI_pitch ''vco'' VCO_pitchIn,
    connect ''midi'' MIDI_gate ''env'' ADSR_gateIn,
    connect ''vco'' VCO_sawOut ''vcf'' VCF_audioIn,
    connect ''env'' ADSR_envOut ''vca'' VCA_gainCv,
    connect ''vcf'' VCF_lpOut ''vca'' VCA_audioIn,
    connect ''vca'' VCA_audioOut ''audio'' AUDIO_in1,
    connect ''vca'' VCA_audioOut ''audio'' AUDIO_in2,
    connect ''vco'' VCO_sawOut ''probe'' PROBE_p1,
    connect ''vcf'' VCF_lpOut ''probe'' PROBE_p2,
    connect ''vca'' VCA_audioOut ''probe'' PROBE_p3],
    rc_notes = [
    ''After building, attach and read the probe: probe 1 = oscillator out, probe 2 = filter out, probe 3 = amplifier out.'',
    ''The first probe channel with a near-zero peak voltage marks the stage where the signal disappears.'',
    ''Telemetry requires the engine to be running (a note held); an idle engine reports zero on every tap.'']\<rparr>"

definition RECIPE_DOCS :: "recipe list" where
  "RECIPE_DOCS = [R1_basicMono, R2_polyMono, R3_clockedSeq, R4_stereoDelay,
     R5_safeMaster, R6_lfoMod, R7_sidechain, R8_probeDiag]"

section \<open>The registry\<close>

definition index_recipes :: "recipe list \<Rightarrow> (string, recipe) jsmap" where
  "index_recipes rs = foldl (\<lambda>m r. map_set (rc_id r) r m) [] rs"

definition load_recipes :: "recipe list \<Rightarrow> string + (string, recipe) jsmap" where
  "load_recipes docs =
     (case find (\<lambda>i. \<not> recipe_ok (docs ! i)) [0..<length docs] of
        Some i \<Rightarrow> Inl (''Invalid recipe at index '' @ nat_str i)
      | None \<Rightarrow> (let m = index_recipes docs in
          if length m \<noteq> length docs then Inl ''Duplicate recipe id in registry'' else Inr m))"

definition BY_ID :: "(string, recipe) jsmap" where
  "BY_ID = index_recipes RECIPE_DOCS"

definition listRecipes :: "recipe list" where
  "listRecipes = RECIPE_DOCS"

definition RECIPE_COUNT :: nat where
  "RECIPE_COUNT = length RECIPE_DOCS"

definition getRecipe :: "string \<Rightarrow> recipe option" where
  "getRecipe i = map_get BY_ID i"

section \<open>Well-wired plans\<close>

text \<open>
  What a plan must satisfy to build: every alias is added once, before it is used; every
  model has an adapter; parameters and ports are documented ones of the aliased model; and
  no input is connected twice (each connection asks for \<open>fail_if_connected\<close>).
\<close>

record wire_env =
  we_models :: "(string, string \<times> string) jsmap"
  we_inputs :: "(string \<times> nat) list"

definition alias_has :: "wire_env \<Rightarrow> module_ref \<Rightarrow> (string \<Rightarrow> string \<Rightarrow> bool) \<Rightarrow> bool" where
  "alias_has e r P = (case r of ModuleId _ \<Rightarrow> False
     | Alias a \<Rightarrow> (case map_get (we_models e) a of None \<Rightarrow> False | Some (p, m) \<Rightarrow> P p m))"

fun wire_step :: "wire_env \<Rightarrow> patch_operation \<Rightarrow> wire_env option" where
  "wire_step e (AddModule a) =
     (if map_has (we_models e) (am_alias a) \<or> getAdapter (am_pluginSlug a) (am_modelSlug a) = None
      then None
      else Some (e\<lparr>we_models := (am_alias a, am_pluginSlug a, am_modelSlug a) # we_models e\<rparr>))"
| "wire_step e (SetParameter s) =
     (if alias_has e (sp_module s) (\<lambda>p m. paramSemantics p m (sp_paramId s) \<noteq> None) then Some e else None)"
| "wire_step e (Connect c) =
     (case pr_module (cn_input c) of ModuleId _ \<Rightarrow> None
      | Alias i \<Rightarrow>
        if pr_portType (cn_output c) = OutputPort \<and> pr_portType (cn_input c) = InputPort \<and>
          alias_has e (pr_module (cn_output c)) (\<lambda>p m. outputRole p m (pr_portId (cn_output c)) \<noteq> None) \<and>
          alias_has e (Alias i) (\<lambda>p m. inputRole p m (pr_portId (cn_input c)) \<noteq> None) \<and>
          (i, pr_portId (cn_input c)) \<notin> set (we_inputs e)
        then Some (e\<lparr>we_inputs := (i, pr_portId (cn_input c)) # we_inputs e\<rparr>) else None)"
| "wire_step e _ = None"

fun wire_run :: "wire_env \<Rightarrow> patch_operation list \<Rightarrow> wire_env option" where
  "wire_run e [] = Some e"
| "wire_run e (p # ps) = (case wire_step e p of None \<Rightarrow> None | Some e' \<Rightarrow> wire_run e' ps)"

definition well_wired :: "patch_operation list \<Rightarrow> bool" where
  "well_wired ps = (wire_run \<lparr>we_models = [], we_inputs = []\<rparr> ps \<noteq> None)"

definition within_limits :: "patch_operation list \<Rightarrow> bool" where
  "within_limits ps = (length ps \<le> txnMaxOperations LIMITS \<and>
     count_added ps \<le> txnMaxAddedModules LIMITS \<and>
     int (countParamChanges ps) \<le> paramChangesPerSecond LIMITS)"

section \<open>The closed form of an expansion\<close>

definition instantiate :: "recipe \<Rightarrow> patch_operation \<Rightarrow> patch_operation" where
  "instantiate r p = (case p of
     AddModule a \<Rightarrow> if am_pluginSlug a = ROLE_PLUGIN then
         (case find (\<lambda>u. rr_role u = am_modelSlug a) (rc_roles r) of None \<Rightarrow> p
          | Some u \<Rightarrow> AddModule (a\<lparr>am_pluginSlug := im_pluginSlug (rr_preferred u),
              am_modelSlug := im_modelSlug (rr_preferred u)\<rparr>))
       else p
   | _ \<Rightarrow> p)"

lemma find_distinct:
  "distinct (map f xs) \<Longrightarrow> x \<in> set xs \<Longrightarrow> find (\<lambda>y. f y = f x) xs = Some x"
  by (induction xs) (auto simp: rev_image_eqI)

lemma expands_to_instantiate:
  assumes "distinct (map rr_role (rc_roles r))" and "expands_to r inst p q"
  shows "q = instantiate r p"
proof (cases p)
  case (AddModule a)
  show ?thesis
  proof (cases "am_pluginSlug a = ROLE_PLUGIN")
    case True
    then obtain u where "u \<in> set (rc_roles r)" "rr_role u = am_modelSlug a"
      "q = AddModule (a\<lparr>am_pluginSlug := im_pluginSlug (rr_preferred u),
         am_modelSlug := im_modelSlug (rr_preferred u)\<rparr>)"
      using assms(2) AddModule by (auto simp: expands_to_def)
    moreover from this have "find (\<lambda>y. rr_role y = am_modelSlug a) (rc_roles r) = Some u"
      using find_distinct [OF assms(1), of u] by simp
    ultimately show ?thesis using AddModule True by (simp add: instantiate_def)
  qed (use assms AddModule in \<open>simp add: expands_to_def instantiate_def\<close>)
qed (use assms in \<open>simp_all add: expands_to_def instantiate_def\<close>)

lemma expand_resolved:
  assumes "rr_resolved (resolveRecipe r inst)" and "roles_declared r"
    and "distinct (map rr_role (rc_roles r))"
  shows "expandRecipeOperations r (resolveRecipe r inst) = Inr (map (instantiate r) (rc_operations r))"
proof -
  obtain qs where qs: "expand_ops r (resolveRecipe r inst) (rc_operations r) = Inr qs"
    using expand_ops_total [OF assms(1)] assms(2) by (auto simp: roles_declared_def)
  then have "list_all2 (expands_to r inst) (rc_operations r) qs" by (rule expand_ops_to)
  then have "list_all2 (\<lambda>p q. q = instantiate r p) (rc_operations r) qs"
    by (rule list_all2_mono) (rule expands_to_instantiate [OF assms(3)])
  then have "qs = map (instantiate r) (rc_operations r)"
    by (induction rule: list_all2_induct) auto
  then show ?thesis using assms(1) qs by (simp add: expandRecipeOperations_def)
qed

section \<open>The adapters the recipes use\<close>

lemma roles_of_adapter:
  assumes "a \<in> set ADAPTER_DOCS"
  shows "getAdapter (ad_pluginSlug a) (ad_modelSlug a) \<noteq> None"
    and "(\<exists>s. paramSemantics (ad_pluginSlug a) (ad_modelSlug a) i = Some s) = (i < length (ad_params a))"
    and "(\<exists>s. inputRole (ad_pluginSlug a) (ad_modelSlug a) i = Some s) = (i < length (ad_inputs a))"
    and "(\<exists>s. outputRole (ad_pluginSlug a) (ad_modelSlug a) i = Some s) = (i < length (ad_outputs a))"
proof -
  have "adapter_consistent a" using assms adapter_docs_consistent by (simp add: list_all_iff)
  then show "getAdapter (ad_pluginSlug a) (ad_modelSlug a) \<noteq> None"
    and "(\<exists>s. paramSemantics (ad_pluginSlug a) (ad_modelSlug a) i = Some s) = (i < length (ad_params a))"
    and "(\<exists>s. inputRole (ad_pluginSlug a) (ad_modelSlug a) i = Some s) = (i < length (ad_inputs a))"
    and "(\<exists>s. outputRole (ad_pluginSlug a) (ad_modelSlug a) i = Some s) = (i < length (ad_outputs a))"
    using getAdapter_known [OF assms]
    by (simp_all add: adapter_consistent_def ports_dense_def paramSemantics_def inputRole_def
        outputRole_def find_dense)
qed

lemma AudioInterface2_dims:
  "length (ad_params AudioInterface2_adapter) = 1" "length (ad_inputs AudioInterface2_adapter) = 2" "length (ad_outputs AudioInterface2_adapter) = 2"
  by (simp_all add: AudioInterface2_defs)

lemma AudioInterface2_ports [simp]:
  "\<exists>a. getAdapter ''Core'' ''AudioInterface2'' = Some a"
  "(\<exists>s. paramSemantics ''Core'' ''AudioInterface2'' i = Some s) = (i < 1)"
  "(\<exists>s. inputRole ''Core'' ''AudioInterface2'' i = Some s) = (i < 2)"
  "(\<exists>s. outputRole ''Core'' ''AudioInterface2'' i = Some s) = (i < 2)"
  using roles_of_adapter(1) [of AudioInterface2_adapter] roles_of_adapter(2-4) [of AudioInterface2_adapter i] by (simp_all add: ADAPTER_DOCS_def AudioInterface2_dims)

lemma MIDIToCVInterface_dims:
  "length (ad_params MIDIToCVInterface_adapter) = 0" "length (ad_inputs MIDIToCVInterface_adapter) = 0" "length (ad_outputs MIDIToCVInterface_adapter) = 12"
  by (simp_all add: MIDIToCVInterface_defs)

lemma MIDIToCVInterface_ports [simp]:
  "\<exists>a. getAdapter ''Core'' ''MIDIToCVInterface'' = Some a"
  "(\<exists>s. paramSemantics ''Core'' ''MIDIToCVInterface'' i = Some s) = (i < 0)"
  "(\<exists>s. inputRole ''Core'' ''MIDIToCVInterface'' i = Some s) = (i < 0)"
  "(\<exists>s. outputRole ''Core'' ''MIDIToCVInterface'' i = Some s) = (i < 12)"
  using roles_of_adapter(1) [of MIDIToCVInterface_adapter] roles_of_adapter(2-4) [of MIDIToCVInterface_adapter i] by (simp_all add: ADAPTER_DOCS_def MIDIToCVInterface_dims)

lemma VCO_dims:
  "length (ad_params VCO_adapter) = 8" "length (ad_inputs VCO_adapter) = 4" "length (ad_outputs VCO_adapter) = 4"
  by (simp_all add: VCO_defs)

lemma VCO_ports [simp]:
  "\<exists>a. getAdapter ''Fundamental'' ''VCO'' = Some a"
  "(\<exists>s. paramSemantics ''Fundamental'' ''VCO'' i = Some s) = (i < 8)"
  "(\<exists>s. inputRole ''Fundamental'' ''VCO'' i = Some s) = (i < 4)"
  "(\<exists>s. outputRole ''Fundamental'' ''VCO'' i = Some s) = (i < 4)"
  using roles_of_adapter(1) [of VCO_adapter] roles_of_adapter(2-4) [of VCO_adapter i] by (simp_all add: ADAPTER_DOCS_def VCO_dims)

lemma VCF_dims:
  "length (ad_params VCF_adapter) = 7" "length (ad_inputs VCF_adapter) = 4" "length (ad_outputs VCF_adapter) = 2"
  by (simp_all add: VCF_defs)

lemma VCF_ports [simp]:
  "\<exists>a. getAdapter ''Fundamental'' ''VCF'' = Some a"
  "(\<exists>s. paramSemantics ''Fundamental'' ''VCF'' i = Some s) = (i < 7)"
  "(\<exists>s. inputRole ''Fundamental'' ''VCF'' i = Some s) = (i < 4)"
  "(\<exists>s. outputRole ''Fundamental'' ''VCF'' i = Some s) = (i < 2)"
  using roles_of_adapter(1) [of VCF_adapter] roles_of_adapter(2-4) [of VCF_adapter i] by (simp_all add: ADAPTER_DOCS_def VCF_dims)

lemma VCA_1_dims:
  "length (ad_params VCA_1_adapter) = 2" "length (ad_inputs VCA_1_adapter) = 2" "length (ad_outputs VCA_1_adapter) = 1"
  by (simp_all add: VCA_1_defs)

lemma VCA_1_ports [simp]:
  "\<exists>a. getAdapter ''Fundamental'' ''VCA-1'' = Some a"
  "(\<exists>s. paramSemantics ''Fundamental'' ''VCA-1'' i = Some s) = (i < 2)"
  "(\<exists>s. inputRole ''Fundamental'' ''VCA-1'' i = Some s) = (i < 2)"
  "(\<exists>s. outputRole ''Fundamental'' ''VCA-1'' i = Some s) = (i < 1)"
  using roles_of_adapter(1) [of VCA_1_adapter] roles_of_adapter(2-4) [of VCA_1_adapter i] by (simp_all add: ADAPTER_DOCS_def VCA_1_dims)

lemma ADSR_dims:
  "length (ad_params ADSR_adapter) = 9" "length (ad_inputs ADSR_adapter) = 6" "length (ad_outputs ADSR_adapter) = 1"
  by (simp_all add: ADSR_defs)

lemma ADSR_ports [simp]:
  "\<exists>a. getAdapter ''Fundamental'' ''ADSR'' = Some a"
  "(\<exists>s. paramSemantics ''Fundamental'' ''ADSR'' i = Some s) = (i < 9)"
  "(\<exists>s. inputRole ''Fundamental'' ''ADSR'' i = Some s) = (i < 6)"
  "(\<exists>s. outputRole ''Fundamental'' ''ADSR'' i = Some s) = (i < 1)"
  using roles_of_adapter(1) [of ADSR_adapter] roles_of_adapter(2-4) [of ADSR_adapter i] by (simp_all add: ADAPTER_DOCS_def ADSR_dims)

lemma LFO_dims:
  "length (ad_params LFO_adapter) = 7" "length (ad_inputs LFO_adapter) = 5" "length (ad_outputs LFO_adapter) = 4"
  by (simp_all add: LFO_defs)

lemma LFO_ports [simp]:
  "\<exists>a. getAdapter ''Fundamental'' ''LFO'' = Some a"
  "(\<exists>s. paramSemantics ''Fundamental'' ''LFO'' i = Some s) = (i < 7)"
  "(\<exists>s. inputRole ''Fundamental'' ''LFO'' i = Some s) = (i < 5)"
  "(\<exists>s. outputRole ''Fundamental'' ''LFO'' i = Some s) = (i < 4)"
  using roles_of_adapter(1) [of LFO_adapter] roles_of_adapter(2-4) [of LFO_adapter i] by (simp_all add: ADAPTER_DOCS_def LFO_dims)

lemma Delay_dims:
  "length (ad_params Delay_adapter) = 8" "length (ad_inputs Delay_adapter) = 6" "length (ad_outputs Delay_adapter) = 2"
  by (simp_all add: Delay_defs)

lemma Delay_ports [simp]:
  "\<exists>a. getAdapter ''Fundamental'' ''Delay'' = Some a"
  "(\<exists>s. paramSemantics ''Fundamental'' ''Delay'' i = Some s) = (i < 8)"
  "(\<exists>s. inputRole ''Fundamental'' ''Delay'' i = Some s) = (i < 6)"
  "(\<exists>s. outputRole ''Fundamental'' ''Delay'' i = Some s) = (i < 2)"
  using roles_of_adapter(1) [of Delay_adapter] roles_of_adapter(2-4) [of Delay_adapter i] by (simp_all add: ADAPTER_DOCS_def Delay_dims)

lemma SEQ3_dims:
  "length (ad_params SEQ3_adapter) = 39" "length (ad_inputs SEQ3_adapter) = 5" "length (ad_outputs SEQ3_adapter) = 16"
  by (simp_all add: SEQ3_defs)

lemma SEQ3_ports [simp]:
  "\<exists>a. getAdapter ''Fundamental'' ''SEQ3'' = Some a"
  "(\<exists>s. paramSemantics ''Fundamental'' ''SEQ3'' i = Some s) = (i < 39)"
  "(\<exists>s. inputRole ''Fundamental'' ''SEQ3'' i = Some s) = (i < 5)"
  "(\<exists>s. outputRole ''Fundamental'' ''SEQ3'' i = Some s) = (i < 16)"
  using roles_of_adapter(1) [of SEQ3_adapter] roles_of_adapter(2-4) [of SEQ3_adapter i] by (simp_all add: ADAPTER_DOCS_def SEQ3_dims)

lemma Probe_dims:
  "length (ad_params Probe_adapter) = 0" "length (ad_inputs Probe_adapter) = 8" "length (ad_outputs Probe_adapter) = 0"
  by (simp_all add: Probe_defs)

lemma Probe_ports [simp]:
  "\<exists>a. getAdapter ''RackMCP'' ''Probe'' = Some a"
  "(\<exists>s. paramSemantics ''RackMCP'' ''Probe'' i = Some s) = (i < 0)"
  "(\<exists>s. inputRole ''RackMCP'' ''Probe'' i = Some s) = (i < 8)"
  "(\<exists>s. outputRole ''RackMCP'' ''Probe'' i = Some s) = (i < 0)"
  using roles_of_adapter(1) [of Probe_adapter] roles_of_adapter(2-4) [of Probe_adapter i] by (simp_all add: ADAPTER_DOCS_def Probe_dims)

section \<open>The shipped recipes\<close>

definition recipe_sound :: "recipe \<Rightarrow> bool" where
  "recipe_sound r = (distinct (map rr_role (rc_roles r)) \<and>
     list_all (\<lambda>p. case p of AddModule a \<Rightarrow> am_pluginSlug a = ROLE_PLUGIN \<longrightarrow>
       am_modelSlug a \<in> set (map rr_role (rc_roles r)) | _ \<Rightarrow> True) (rc_operations r) \<and>
     list_all PatchOperation_ok (map (instantiate r) (rc_operations r)) \<and>
     well_wired (map (instantiate r) (rc_operations r)) \<and>
     within_limits (map (instantiate r) (rc_operations r)))"

lemmas recipe_ok_defs = recipe_ok_def recipe_id_char_def digit_def role_requirement_ok_def
  Slug_ok_def need_def

lemmas authoring_defs = addRole_def setNorm_def connect_def need_def ROLE_PLUGIN_def

lemmas operation_ok_defs = alias_ok_def position_ok_def SmallIndex_ok_def PortRef_ok_def
  param_target_ok_def exactlyOneTarget_def max_opt_def Slug_ok_def

lemmas wiring_defs = well_wired_def alias_has_def map_has_def map_get_Cons within_limits_def
  LIMITS_def count_added_def countParamChanges_def

lemma R1_basicMono_ok: "recipe_ok R1_basicMono" "recipe_sound R1_basicMono"
  by (simp_all add: R1_basicMono_def recipe_ok_defs recipe_sound_def instantiate_def authoring_defs
      operation_ok_defs wiring_defs)

lemma R2_polyMono_ok: "recipe_ok R2_polyMono" "recipe_sound R2_polyMono"
  by (simp_all add: R2_polyMono_def recipe_ok_defs recipe_sound_def instantiate_def authoring_defs
      operation_ok_defs wiring_defs)

lemma R3_clockedSeq_ok: "recipe_ok R3_clockedSeq" "recipe_sound R3_clockedSeq"
  by (simp_all add: R3_clockedSeq_def recipe_ok_defs recipe_sound_def instantiate_def authoring_defs
      operation_ok_defs wiring_defs)

lemma R4_stereoDelay_ok: "recipe_ok R4_stereoDelay" "recipe_sound R4_stereoDelay"
  by (simp_all add: R4_stereoDelay_def recipe_ok_defs recipe_sound_def instantiate_def authoring_defs
      operation_ok_defs wiring_defs)

lemma R5_safeMaster_ok: "recipe_ok R5_safeMaster" "recipe_sound R5_safeMaster"
  by (simp_all add: R5_safeMaster_def recipe_ok_defs recipe_sound_def instantiate_def authoring_defs
      operation_ok_defs wiring_defs)

lemma R6_lfoMod_ok: "recipe_ok R6_lfoMod" "recipe_sound R6_lfoMod"
  by (simp_all add: R6_lfoMod_def recipe_ok_defs recipe_sound_def instantiate_def authoring_defs
      operation_ok_defs wiring_defs)

lemma R7_sidechain_ok: "recipe_ok R7_sidechain" "recipe_sound R7_sidechain"
  by (simp_all add: R7_sidechain_def recipe_ok_defs recipe_sound_def instantiate_def authoring_defs
      operation_ok_defs wiring_defs)

lemma R8_probeDiag_ok: "recipe_ok R8_probeDiag" "recipe_sound R8_probeDiag"
  by (simp_all add: R8_probeDiag_def recipe_ok_defs recipe_sound_def instantiate_def authoring_defs
      operation_ok_defs wiring_defs)

lemma recipe_docs_ok: "list_all recipe_ok RECIPE_DOCS" "list_all recipe_sound RECIPE_DOCS"
  by (simp_all add: RECIPE_DOCS_def R1_basicMono_ok R2_polyMono_ok R3_clockedSeq_ok R4_stereoDelay_ok
      R5_safeMaster_ok R6_lfoMod_ok R7_sidechain_ok R8_probeDiag_ok)

lemma recipe_ids:
  "map rc_id RECIPE_DOCS = [''basic_mono_subtractive'', ''poly_midi_subtractive'',
     ''clocked_8_step_sequence'', ''stereo_delay_send_return'', ''safe_master_output'',
     ''lfo_filter_modulation'', ''sidechain_envelope_follow'', ''probe_silence_diagnosis'']"
  by (simp add: RECIPE_DOCS_def R1_basicMono_def R2_polyMono_def R3_clockedSeq_def R4_stereoDelay_def
      R5_safeMaster_def R6_lfoMod_def R7_sidechain_def R8_probeDiag_def)

lemma recipe_ids_distinct: "distinct (map rc_id RECIPE_DOCS)"
  unfolding recipe_ids by simp

lemma BY_ID_eq: "BY_ID = map (\<lambda>r. (rc_id r, r)) RECIPE_DOCS"
  using index_fresh [of "[]" rc_id RECIPE_DOCS] recipe_ids_distinct
  by (simp add: BY_ID_def index_recipes_def)

lemma load_recipes_ok: "load_recipes RECIPE_DOCS = Inr BY_ID"
proof -
  have "find (\<lambda>i. \<not> recipe_ok (RECIPE_DOCS ! i)) [0..<length RECIPE_DOCS] = None"
    using recipe_docs_ok(1) by (auto simp: find_None_iff list_all_length)
  then show ?thesis
    by (simp add: load_recipes_def BY_ID_def [symmetric]) (simp add: BY_ID_eq)
qed

lemma getRecipe_find: "getRecipe i = find (\<lambda>r. rc_id r = i) RECIPE_DOCS"
  by (simp add: getRecipe_def BY_ID_eq map_get_def map_of_map_find)

lemma sound_expansion:
  assumes "recipe_sound r" and "rr_resolved (resolveRecipe r inst)"
  shows "expandRecipeOperations r (resolveRecipe r inst) = Inr (map (instantiate r) (rc_operations r))"
proof (rule expand_resolved [OF assms(2)])
  show "roles_declared r" and "distinct (map rr_role (rc_roles r))"
    using assms(1) by (fastforce simp: recipe_sound_def roles_declared_def list_all_iff)+
qed

section \<open>Properties\<close>

text \<open>C16: the recipe registry loads, and every shipped recipe found by its id builds
  whenever its preferred models are installed: expansion succeeds, every expanded
  operation satisfies the operation schema, aliases are added once and before use, every
  parameter and port is documented by the adapter of the model it lands on, no input is
  connected twice, and the plan is within the operation, module and parameter limits.\<close>

theorem shipped_recipes_build:
  assumes "getRecipe i = Some r" and "list_all (\<lambda>q. installedHas inst (rr_preferred q)) (rc_roles r)"
  shows "load_recipes RECIPE_DOCS = Inr BY_ID \<and> rc_id r = i \<and>
    (\<exists>ops. expandRecipeOperations r (resolveRecipe r inst) = Inr ops \<and>
      length ops = length (rc_operations r) \<and>
      list_all PatchOperation_ok ops \<and> well_wired ops \<and> within_limits ops)"
proof -
  have r: "r \<in> set RECIPE_DOCS" "rc_id r = i" using assms(1) by (auto simp: getRecipe_find find_Some_iff)
  then have s: "recipe_sound r" using recipe_docs_ok(2) by (simp add: list_all_iff)
  have "rr_resolved (resolveRecipe r inst)" using assms(2) by (simp add: resolved_iff list_all_iff)
  from sound_expansion [OF s this] s r load_recipes_ok show ?thesis by (simp add: recipe_sound_def)
qed

lemma getRecipe_master: "getRecipe ''safe_master_output'' = Some R5_safeMaster"
proof -
  have "find (\<lambda>r. rc_id r = rc_id R5_safeMaster) RECIPE_DOCS = Some R5_safeMaster"
    by (rule find_distinct [OF recipe_ids_distinct]) (simp add: RECIPE_DOCS_def)
  then show ?thesis by (simp add: getRecipe_find R5_safeMaster_def)
qed

theorem shipped_recipes_build_witness:
  "load_recipes RECIPE_DOCS = Inr BY_ID \<and> rc_id R5_safeMaster = ''safe_master_output'' \<and>
    (\<exists>ops. expandRecipeOperations R5_safeMaster (resolveRecipe R5_safeMaster
        (map rr_preferred (rc_roles R5_safeMaster))) = Inr ops \<and>
      length ops = length (rc_operations R5_safeMaster) \<and>
      list_all PatchOperation_ok ops \<and> well_wired ops \<and> within_limits ops)"
  by (rule shipped_recipes_build [OF getRecipe_master])
    (simp add: R5_safeMaster_def need_def installedHas_def)

end
