(* ===== verification/Json.thy ===== *)
theory Json
  imports Prelude
begin

text \<open>
  The parts of the JavaScript standard library that the confirmation tokens pass through:
  \<open>JSON.stringify\<close>, \<open>JSON.parse\<close> and the base64url codec of Node's \<open>Buffer\<close>.  A string is
  the list of its UTF-8 bytes; numbers are exact rationals (rounding to doubles and the
  exponent notation of very large numbers are not modelled).  Each codec comes with the
  round trip the tokens rely on.
\<close>

section \<open>base64url\<close>

fun b64_enc :: "nat list \<Rightarrow> nat list" where
  "b64_enc (a # b # c # r) = (a div 4) # ((a mod 4) * 16 + b div 16) # ((b mod 16) * 4 + c div 64) #
     (c mod 64) # b64_enc r"
| "b64_enc [a, b] = [a div 4, (a mod 4) * 16 + b div 16, (b mod 16) * 4]"
| "b64_enc [a] = [a div 4, (a mod 4) * 16]"
| "b64_enc [] = []"

fun b64_dec :: "nat list \<Rightarrow> nat list" where
  "b64_dec (s # t # u # v # r) = (s * 4 + t div 16) # ((t mod 16) * 16 + u div 4) # ((u mod 4) * 64 + v) #
     b64_dec r"
| "b64_dec [s, t, u] = [s * 4 + t div 16, (t mod 16) * 16 + u div 4]"
| "b64_dec [s, t] = [s * 4 + t div 16]"
| "b64_dec [s] = []"
| "b64_dec [] = []"

definition b64_alphabet :: string where
  "b64_alphabet = ''ABCDEFGHIJKLMNOPQRSTUVWXYZabcdefghijklmnopqrstuvwxyz0123456789-_''"

definition sextet_char :: "nat \<Rightarrow> char" where
  "sextet_char n = b64_alphabet ! n"

text \<open>Decoding accepts both alphabets.\<close>

definition char_sextet :: "char \<Rightarrow> nat option" where
  "char_sextet c = (if c = CHR ''+'' then Some 62 else if c = CHR 0x2F then Some 63
     else find (\<lambda>i. b64_alphabet ! i = c) [0..<64])"

definition base64url :: "string \<Rightarrow> string" where
  "base64url s = map sextet_char (b64_enc (map of_char s))"

text \<open>Decoding stops at padding and skips characters outside the alphabet.\<close>

definition base64url_decode :: "string \<Rightarrow> string" where
  "base64url_decode s =
     map char_of (b64_dec (List.map_filter char_sextet (takeWhile (\<lambda>c. c \<noteq> CHR 0x3D) s)))"

lemma b64_enc_sextets: "list_all (\<lambda>n. n < 256) bs \<Longrightarrow> list_all (\<lambda>n. n < 64) (b64_enc bs)"
  by (induction bs rule: b64_enc.induct) auto

lemma b64_roundtrip: "list_all (\<lambda>n. n < 256) bs \<Longrightarrow> b64_dec (b64_enc bs) = bs"
  by (induction bs rule: b64_enc.induct) auto

lemma char_sextet_char_all:
  "list_all (\<lambda>n. char_sextet (sextet_char n) = Some n \<and> sextet_char n \<notin> {CHR ''.'', CHR 0x3D}) [0..<64]"
  by code_simp

lemma char_sextet_char:
  "n < 64 \<Longrightarrow> char_sextet (sextet_char n) = Some n \<and> sextet_char n \<notin> {CHR ''.'', CHR 0x3D}"
  using char_sextet_char_all by (auto simp: list_all_iff)

lemma map_filter_sextets:
  "list_all (\<lambda>n. n < 64) ns \<Longrightarrow> List.map_filter char_sextet (map sextet_char ns) = ns"
  by (induction ns) (simp_all add: List.map_filter_simps char_sextet_char)

lemma takeWhile_sextets:
  "list_all (\<lambda>n. n < 64) ns \<Longrightarrow> takeWhile (\<lambda>c. c \<noteq> CHR 0x3D) (map sextet_char ns) = map sextet_char ns"
  by (induction ns) (use char_sextet_char in auto)

lemma bytes_of_string: "list_all (\<lambda>n. n < (256 :: nat)) (map of_char (s :: string))"
  by (simp add: list_all_iff nat_of_char_less_256)

lemma base64url_roundtrip: "base64url_decode (base64url s) = s"
  using b64_enc_sextets [OF bytes_of_string [of s]]
  by (simp add: base64url_def base64url_decode_def takeWhile_sextets map_filter_sextets b64_roundtrip
      bytes_of_string comp_def)

lemma base64url_no_dot: "CHR ''.'' \<notin> set (base64url s)"
proof
  assume "CHR ''.'' \<in> set (base64url s)"
  then obtain n where "n \<in> set (b64_enc (map of_char s))" "sextet_char n = CHR ''.''"
    by (auto simp: base64url_def)
  then show False
    using b64_enc_sextets [OF bytes_of_string [of s]] char_sextet_char [of n] by (simp add: list_all_iff)
qed

section \<open>JSON.stringify\<close>

definition hex_char :: "nat \<Rightarrow> char" where
  "hex_char n = ''0123456789abcdef'' ! n"

definition esc_char :: "char \<Rightarrow> string" where
  "esc_char c = (if c = CHR 0x22 then [CHR 0x5C, CHR 0x22] else if c = CHR 0x5C then [CHR 0x5C, CHR 0x5C]
     else if c = CHR 0x08 then [CHR 0x5C, CHR ''b''] else if c = CHR 0x0C then [CHR 0x5C, CHR ''f'']
     else if c = CHR 0x0A then [CHR 0x5C, CHR ''n''] else if c = CHR 0x0D then [CHR 0x5C, CHR ''r'']
     else if c = CHR 0x09 then [CHR 0x5C, CHR ''t'']
     else if (of_char c :: nat) < 32
     then [CHR 0x5C, CHR ''u'', CHR ''0'', CHR ''0'', hex_char (of_char c div 16), hex_char (of_char c mod 16)]
     else [c])"

definition str_json :: "string \<Rightarrow> string" where
  "str_json s = CHR 0x22 # concat (map esc_char s) @ [CHR 0x22]"

text \<open>The digits of \<open>n / d\<close> after the point, at most \<open>fuel\<close> of them.\<close>

fun frac_digits :: "nat \<Rightarrow> nat \<Rightarrow> nat \<Rightarrow> string" where
  "frac_digits 0 n d = []"
| "frac_digits (Suc f) n d = (if n = 0 then [] else
     char_of (48 + n * 10 div d) # frac_digits f (n * 10 mod d) d)"

definition num_json :: "rat \<Rightarrow> string" where
  "num_json r = (case quotient_of r of (n, d) \<Rightarrow>
     if d = 1 then int_str n
     else (if n < 0 then ''-'' else []) @ nat_str (nat (\<bar>n\<bar> div d)) @ ''.'' @
       frac_digits 1100 (nat (\<bar>n\<bar> mod d)) (nat d))"

fun commas :: "string list \<Rightarrow> string" where
  "commas [] = []"
| "commas [x] = x"
| "commas (x # y # r) = x @ CHR '','' # commas (y # r)"

fun stringify :: "json \<Rightarrow> string" where
  "stringify JNull = ''null''"
| "stringify (JBool b) = (if b then ''true'' else ''false'')"
| "stringify (JNum r) = num_json r"
| "stringify (JStr s) = str_json s"
| "stringify (JArr vs) = CHR ''['' # commas (map stringify vs) @ '']''"
| "stringify (JObj kvs) = CHR ''{'' # commas (map (\<lambda>(k, v). str_json k @ CHR '':'' # stringify v) kvs) @ ''}''"

section \<open>JSON.parse\<close>

definition ws :: "char \<Rightarrow> bool" where
  "ws c = (c \<in> {CHR '' '', CHR 0x09, CHR 0x0A, CHR 0x0D})"

definition skip_ws :: "string \<Rightarrow> string" where
  "skip_ws s = dropWhile ws s"

definition expect :: "char \<Rightarrow> string \<Rightarrow> string option" where
  "expect c s = (case skip_ws s of [] \<Rightarrow> None | x # r \<Rightarrow> if x = c then Some r else None)"

definition digits_val :: "string \<Rightarrow> nat" where
  "digits_val ds = foldl (\<lambda>a c. 10 * a + (of_char c - 48)) 0 ds"

definition all_digits :: "string \<Rightarrow> bool" where
  "all_digits ds = (ds \<noteq> [] \<and> list_all digit ds)"

definition int_digits :: "string \<Rightarrow> bool" where
  "int_digits ds = (all_digits ds \<and> (ds = ''0'' \<or> hd ds \<noteq> CHR ''0''))"

definition mantissa :: "string \<Rightarrow> rat option" where
  "mantissa s = (case split_first (CHR ''.'') s of
     None \<Rightarrow> if int_digits s then Some (of_nat (digits_val s)) else None
   | Some (a, b) \<Rightarrow> if int_digits a \<and> all_digits b
       then Some (of_nat (digits_val a) + of_nat (digits_val b) / 10 ^ length b) else None)"

definition exponent :: "string \<Rightarrow> int option" where
  "exponent s = (let (sg, ds) = (if s \<noteq> [] \<and> hd s \<in> set ''+-'' then (hd s = CHR ''-'', tl s) else (False, s))
     in if all_digits ds then Some (if sg then - int (digits_val ds) else int (digits_val ds)) else None)"

definition is_exp :: "char \<Rightarrow> bool" where
  "is_exp c = (c = CHR ''e'' \<or> c = CHR ''E'')"

definition num_of :: "string \<Rightarrow> rat option" where
  "num_of t =
     (let (neg, u) = (if t \<noteq> [] \<and> hd t = CHR ''-'' then (True, tl t) else (False, t));
          m = takeWhile (\<lambda>c. \<not> is_exp c) u;
          x = dropWhile (\<lambda>c. \<not> is_exp c) u
      in case (mantissa m, if x = [] then Some 0 else exponent (tl x)) of
           (Some r, Some e) \<Rightarrow>
             let v = (if e < 0 then r / 10 ^ nat (- e) else r * 10 ^ nat e)
             in Some (if neg then - v else v)
         | _ \<Rightarrow> None)"

definition numch :: "char \<Rightarrow> bool" where
  "numch c = (digit c \<or> c \<in> {CHR ''+'', CHR ''-'', CHR ''.'', CHR ''e'', CHR ''E''})"

definition p_num :: "string \<Rightarrow> (json \<times> string) option" where
  "p_num s = map_option (\<lambda>r. (JNum r, dropWhile numch s)) (num_of (takeWhile numch s))"

definition hex_val :: "char \<Rightarrow> nat option" where
  "hex_val c = (let n = (of_char c :: nat) in
     if 48 \<le> n \<and> n \<le> 57 then Some (n - 48) else if 97 \<le> n \<and> n \<le> 102 then Some (n - 87)
     else if 65 \<le> n \<and> n \<le> 70 then Some (n - 55) else None)"

fun hex4 :: "string \<Rightarrow> nat option" where
  "hex4 [a, b, c, d] = (case (hex_val a, hex_val b, hex_val c, hex_val d) of
     (Some p, Some q, Some r, Some s) \<Rightarrow> Some (p * 4096 + q * 256 + r * 16 + s) | _ \<Rightarrow> None)"
| "hex4 _ = None"

text \<open>A single \<open>\u\<close> escape as UTF-8 bytes (escaped surrogates are not paired).\<close>

definition unit_bytes :: "nat \<Rightarrow> string" where
  "unit_bytes u = map char_of (if u < 0x80 then [u] else if u < 0x800 then [0xC0 + u div 64, 0x80 + u mod 64]
     else [0xE0 + u div 4096, 0x80 + u div 64 mod 64, 0x80 + u mod 64])"

definition unesc :: "char \<Rightarrow> char option" where
  "unesc c = (if c \<in> {CHR 0x22, CHR 0x5C, CHR 0x2F} then Some c
     else if c = CHR ''b'' then Some (CHR 0x08) else if c = CHR ''f'' then Some (CHR 0x0C)
     else if c = CHR ''n'' then Some (CHR 0x0A) else if c = CHR ''r'' then Some (CHR 0x0D)
     else if c = CHR ''t'' then Some (CHR 0x09) else None)"

function p_str :: "string \<Rightarrow> (string \<times> string) option" where
  "p_str [] = None"
| "p_str (c # r) = (if c = CHR 0x22 then Some ([], r)
     else if c = CHR 0x5C then (case r of [] \<Rightarrow> None
       | e # q \<Rightarrow> if e = CHR ''u''
           then (case hex4 (take 4 q) of None \<Rightarrow> None
                 | Some u \<Rightarrow> map_option (\<lambda>(t, x). (unit_bytes u @ t, x)) (p_str (drop 4 q)))
           else (case unesc e of None \<Rightarrow> None
                 | Some x \<Rightarrow> map_option (\<lambda>(t, y). (x # t, y)) (p_str q)))
     else if (of_char c :: nat) < 32 then None
     else map_option (\<lambda>(t, x). (c # t, x)) (p_str r))"
  by pat_completeness auto
termination by (relation "measure length") auto

fun p_val :: "nat \<Rightarrow> string \<Rightarrow> (json \<times> string) option"
  and p_elems :: "nat \<Rightarrow> string \<Rightarrow> (json list \<times> string) option"
  and p_members :: "nat \<Rightarrow> string \<Rightarrow> ((string \<times> json) list \<times> string) option" where
  "p_val 0 s = None"
| "p_val (Suc n) s = (case skip_ws s of [] \<Rightarrow> None
     | c # r \<Rightarrow>
       if c = CHR ''{'' then (case expect (CHR ''}'') r of Some q \<Rightarrow> Some (JObj [], q)
         | None \<Rightarrow> map_option (\<lambda>(m, q). (JObj (foldl (\<lambda>o1 (k, v). map_set k v o1) [] m), q)) (p_members n r))
       else if c = CHR ''['' then (case expect (CHR '']'') r of Some q \<Rightarrow> Some (JArr [], q)
         | None \<Rightarrow> map_option (\<lambda>(vs, q). (JArr vs, q)) (p_elems n r))
       else if c = CHR 0x22 then map_option (\<lambda>(t, q). (JStr t, q)) (p_str r)
       else if starts_with (c # r) ''true'' then Some (JBool True, drop 3 r)
       else if starts_with (c # r) ''false'' then Some (JBool False, drop 4 r)
       else if starts_with (c # r) ''null'' then Some (JNull, drop 3 r)
       else p_num (c # r))"
| "p_elems 0 s = None"
| "p_elems (Suc n) s = (case p_val n s of None \<Rightarrow> None
     | Some (v, r) \<Rightarrow> (case expect (CHR '','') r of
         Some q \<Rightarrow> map_option (\<lambda>(vs, x). (v # vs, x)) (p_elems n q)
       | None \<Rightarrow> map_option (\<lambda>q. ([v], q)) (expect (CHR '']'') r)))"
| "p_members 0 s = None"
| "p_members (Suc n) s = (case expect (CHR 0x22) s of None \<Rightarrow> None
     | Some r \<Rightarrow> (case p_str r of None \<Rightarrow> None
       | Some (k, r2) \<Rightarrow> (case expect (CHR '':'') r2 of None \<Rightarrow> None
         | Some r3 \<Rightarrow> (case p_val n r3 of None \<Rightarrow> None
           | Some (v, r4) \<Rightarrow> (case expect (CHR '','') r4 of
               Some q \<Rightarrow> map_option (\<lambda>(m, x). ((k, v) # m, x)) (p_members n q)
             | None \<Rightarrow> map_option (\<lambda>q. ([(k, v)], q)) (expect (CHR ''}'') r4))))))"

definition json_parse :: "string \<Rightarrow> json option" where
  "json_parse s = (case p_val (Suc (length s)) s of None \<Rightarrow> None
     | Some (j, r) \<Rightarrow> if skip_ws r = [] then Some j else None)"

section \<open>Round trip\<close>

lemma hex_val_char: "list_all (\<lambda>n. hex_val (hex_char n) = Some n) [0..<16]"
  by (simp add: upt_rec hex_char_def hex_val_def)

lemma hex_escape:
  assumes "n < 32"
  shows "hex4 [CHR ''0'', CHR ''0'', hex_char (n div 16), hex_char (n mod 16)] = Some n"
proof -
  have "hex_val (hex_char (n div 16)) = Some (n div 16)" "hex_val (hex_char (n mod 16)) = Some (n mod 16)"
    using assms hex_val_char unfolding list_all_iff by auto
  moreover have "hex_val (CHR ''0'') = Some 0" by (simp add: hex_val_def)
  ultimately show ?thesis by simp
qed

lemma p_str_esc:
  "p_str (esc_char c @ x) = map_option (\<lambda>(t, y). (c # t, y)) (p_str x)"
proof -
  have h: "(of_char c :: nat) < 32 \<Longrightarrow>
      hex4 [CHR ''0'', CHR ''0'', hex_char (of_char c div 16), hex_char (of_char c mod 16)] = Some (of_char c)"
    by (rule hex_escape)
  have u: "(of_char c :: nat) < 32 \<Longrightarrow> unit_bytes (of_char c) = [c]"
    by (simp add: unit_bytes_def)
  show ?thesis
  proof (cases "c \<in> {CHR 0x22, CHR 0x5C, CHR 0x08, CHR 0x0C, CHR 0x0A, CHR 0x0D, CHR 0x09}")
    case True
    then show ?thesis by (auto simp: esc_char_def unesc_def)
  next
    case False
    show ?thesis
    proof (cases "(of_char c :: nat) < 32")
      case True
      then have e: "esc_char c = [CHR 0x5C, CHR ''u'', CHR ''0'', CHR ''0'', hex_char (of_char c div 16), hex_char (of_char c mod 16)]"
        using False by (simp add: esc_char_def)
      show ?thesis using h [OF True] u [OF True] unfolding e by simp
    next
      case nc: False
      then have e: "esc_char c = [c]" using False by (simp add: esc_char_def)
      show ?thesis using False nc unfolding e by simp
    qed
  qed
qed

lemma p_str_json: "p_str (concat (map esc_char s) @ CHR 0x22 # r) = Some (s, r)"
  by (induction s) (simp_all add: p_str_esc)

lemma nat_str_digits: "all_digits (nat_str n)"
proof (induction n rule: nat_str.induct)
  case (1 n)
  show ?case
  proof (cases "n < 10")
    case True
    then show ?thesis by (subst nat_str.simps) (simp add: all_digits_def digit_def)
  next
    case False
    then show ?thesis using 1 by (subst nat_str.simps) (auto simp: all_digits_def digit_def)
  qed
qed

lemma digits_val_nat_str: "digits_val (nat_str n) = n"
proof (induction n rule: nat_str.induct)
  case (1 n)
  then show ?case by (subst nat_str.simps) (simp add: digits_val_def)
qed

lemma hd_nat_str: "n \<noteq> 0 \<Longrightarrow> hd (nat_str n) \<noteq> CHR ''0''"
proof (induction n rule: nat_str.induct)
  case (1 n)
  show ?case
  proof (cases "n < 10")
    case True
    then have "hd (nat_str n) = char_of (48 + n)" by (subst nat_str.simps) simp
    moreover have "of_char (char_of (48 + n) :: char) \<noteq> (of_char (CHR ''0'') :: nat)"
      using True 1 by simp
    ultimately show ?thesis by metis
  next
    case False
    then have "nat_str n = nat_str (n div 10) @ [char_of (48 + n mod 10)]" by (subst nat_str.simps) simp
    then show ?thesis using 1 False nat_str_nonempty [of "n div 10"] by simp
  qed
qed

lemma int_digits_nat_str: "int_digits (nat_str n)"
proof (cases "n = 0")
  case True
  have "char_of (of_char (CHR ''0'') :: nat) = CHR ''0''" by (rule char_of_char)
  then have "nat_str 0 = ''0''" by (subst nat_str.simps) simp
  then show ?thesis using nat_str_digits [of n] True by (simp add: int_digits_def)
next
  case False
  then show ?thesis using nat_str_digits hd_nat_str by (simp add: int_digits_def)
qed

lemma digit_facts: "digit c \<Longrightarrow> c \<noteq> CHR ''.'' \<and> \<not> is_exp c \<and> numch c \<and> c \<noteq> CHR ''-''"
  by (auto simp: digit_def is_exp_def numch_def)

lemma split_first_none: "c \<notin> set s \<Longrightarrow> split_first c s = None"
  by (induction s) auto

lemma num_of_digits:
  assumes "int_digits ds"
  shows "num_of ds = Some (of_nat (digits_val ds))" "num_of (CHR ''-'' # ds) = Some (- of_nat (digits_val ds))"
proof -
  have d: "\<forall>c \<in> set ds. digit c" and ne: "ds \<noteq> []"
    using assms by (auto simp: int_digits_def all_digits_def list_all_iff)
  have "CHR ''.'' \<notin> set ds" using d digit_facts by blast
  then have m: "mantissa ds = Some (of_nat (digits_val ds))"
    using assms by (simp add: mantissa_def split_first_none)
  have t: "takeWhile (\<lambda>c. \<not> is_exp c) ds = ds" "dropWhile (\<lambda>c. \<not> is_exp c) ds = []"
    using d digit_facts by (auto simp: takeWhile_eq_all_conv dropWhile_eq_Nil_conv)
  have "hd ds \<noteq> CHR ''-''" using d ne digit_facts hd_in_set by blast
  then show "num_of ds = Some (of_nat (digits_val ds))" "num_of (CHR ''-'' # ds) = Some (- of_nat (digits_val ds))"
    by (simp_all add: num_of_def Let_def t m)
qed

lemma num_of_int_str: "num_of (int_str i) = Some (of_int i)"
  by (simp add: int_str_def num_of_digits int_digits_nat_str digits_val_nat_str)

lemma int_str_numch: "list_all numch (int_str i)"
  using nat_str_digits by (auto simp: int_str_def all_digits_def list_all_iff digit_facts numch_def)

lemma num_json_int: "num_json (of_int i) = int_str i"
  by (simp add: num_json_def)

lemma int_str_cases: "\<exists>c r. int_str i = c # r \<and> (digit c \<or> c = CHR ''-'')"
proof (cases "i < 0")
  case False
  then show ?thesis
    using nat_str_digits [of "nat i"] by (cases "nat_str (nat i)") (auto simp: int_str_def all_digits_def)
qed (simp add: int_str_def)

fun int_json :: "json \<Rightarrow> bool" where
  "int_json JNull = True"
| "int_json (JBool b) = True"
| "int_json (JNum r) = (of_int \<lfloor>r\<rfloor> = r)"
| "int_json (JStr s) = True"
| "int_json (JArr vs) = list_all int_json vs"
| "int_json (JObj kvs) = (distinct (map fst kvs) \<and> list_all (\<lambda>p. int_json (snd p)) kvs)"

lemma commas_Cons: "commas (x # xs) = x @ (if xs = [] then [] else CHR '','' # commas xs)"
  by (cases xs) simp_all

lemma stringify_hd:
  "int_json j \<Longrightarrow> \<exists>c q. stringify j = c # q \<and> \<not> ws c \<and> c \<noteq> CHR '']''"
proof (cases j)
  case (JNum r)
  assume "int_json j"
  then have r: "r = of_int \<lfloor>r\<rfloor>" using JNum by auto
  have "stringify j = int_str \<lfloor>r\<rfloor>"
    unfolding JNum stringify.simps by (subst r) (rule num_json_int)
  moreover have "digit c \<or> c = CHR ''-'' \<Longrightarrow> \<not> ws c \<and> c \<noteq> CHR '']''" for c
    by (auto simp: ws_def digit_def)
  ultimately show ?thesis using int_str_cases [of "\<lfloor>r\<rfloor>"] by metis
qed (simp_all add: str_json_def ws_def)

lemma skip_ws_Cons [simp]: "skip_ws (c # r) = (if ws c then skip_ws r else c # r)"
  by (simp add: skip_ws_def)

lemma expect_Cons [simp]: "\<not> ws x \<Longrightarrow> expect c (x # r) = (if x = c then Some r else None)"
  by (simp add: expect_def)

lemma ws_punct [simp]: "\<not> ws (CHR '','')" "\<not> ws (CHR '']'')" "\<not> ws (CHR ''}'')" "\<not> ws (CHR '':'')"
  "\<not> ws (CHR ''['')" "\<not> ws (CHR ''{'')" "\<not> ws (CHR 0x22)" "\<not> ws (CHR ''t'')" "\<not> ws (CHR ''f'')" "\<not> ws (CHR ''n'')"
  by (simp_all add: ws_def)

lemma numch_punct [simp]: "\<not> numch (CHR '','')" "\<not> numch (CHR '']'')" "\<not> numch (CHR ''}'')"
  by (simp_all add: numch_def digit_def)

definition stop :: "string \<Rightarrow> bool" where
  "stop r = (r = [] \<or> \<not> numch (hd r))"

lemma stop_simps [simp]: "stop []" "stop (c # r) = (\<not> numch c)"
  by (simp_all add: stop_def)

lemma p_num_int:
  assumes "stop r"
  shows "p_num (int_str i @ r) = Some (JNum (of_int i), r)"
proof -
  have n: "\<forall>c \<in> set (int_str i). numch c" using int_str_numch by (simp add: list_all_iff)
  have "takeWhile numch r = []" "dropWhile numch r = r" using assms by (cases r; simp)+
  then have "takeWhile numch (int_str i @ r) = int_str i" "dropWhile numch (int_str i @ r) = r"
    using n by (simp_all add: takeWhile_append dropWhile_append)
  then show ?thesis by (simp add: p_num_def num_of_int_str)
qed

definition reads :: "json \<Rightarrow> bool" where
  "reads j = (\<forall>n r. length (stringify j) \<le> n \<longrightarrow> stop r \<longrightarrow> p_val n (stringify j @ r) = Some (j, r))"

lemma p_elems_reads:
  assumes "list_all reads vs" and "vs \<noteq> []" and "length (commas (map stringify vs)) + 1 \<le> n"
  shows "p_elems n (commas (map stringify vs) @ CHR '']'' # r) = Some (vs, r)"
  using assms
proof (induction vs arbitrary: n)
  case (Cons v vs)
  then obtain m where m: "n = Suc m" by (cases n) auto
  have rv: "length (stringify v) \<le> m \<Longrightarrow> stop x \<Longrightarrow> p_val m (stringify v @ x) = Some (v, x)" for x
    using Cons.prems(1) by (simp add: reads_def)
  show ?case
    using Cons rv m by (auto simp: commas_Cons)
qed simp

definition member_text :: "string \<times> json \<Rightarrow> string" where
  "member_text p = str_json (fst p) @ CHR '':'' # stringify (snd p)"

lemma p_members_reads:
  assumes "list_all (\<lambda>p. reads (snd p)) kvs" and "kvs \<noteq> []"
    and "length (commas (map member_text kvs)) + 1 \<le> n"
  shows "p_members n (commas (map member_text kvs) @ CHR ''}'' # r) = Some (kvs, r)"
  using assms
proof (induction kvs arbitrary: n)
  case (Cons p kvs)
  obtain k v where p: "p = (k, v)" by (cases p)
  obtain m where m: "n = Suc m" using Cons.prems by (cases n) auto
  have rv: "length (stringify v) \<le> m \<Longrightarrow> stop x \<Longrightarrow> p_val m (stringify v @ x) = Some (v, x)" for x
    using Cons.prems(1) p by (simp add: reads_def)
  show ?case
    using Cons rv m p by (auto simp: commas_Cons member_text_def str_json_def p_str_json)
qed simp

lemma foldl_map_set_distinct:
  "distinct (map fst (m @ kvs)) \<Longrightarrow> foldl (\<lambda>o1 (k, v). map_set k v o1) m kvs = m @ kvs"
proof (induction kvs arbitrary: m)
  case (Cons p kvs)
  obtain k v where p: "p = (k, v)" by (cases p)
  have "map_set k v m = m @ [(k, v)]" if "k \<notin> fst ` set m" for m :: "('a \<times> 'b) list"
    using that by (induction m) auto
  then have "map_set k v m = m @ [p]" using Cons.prems p by auto
  then show ?case using Cons.IH [of "m @ [p]"] Cons.prems p by simp
qed simp

lemma stringify_JObj: "stringify (JObj kvs) = CHR ''{'' # commas (map member_text kvs) @ ''}''"
proof -
  have "(\<lambda>(k, v). str_json k @ CHR '':'' # stringify v) = member_text"
    by (auto simp: member_text_def fun_eq_iff)
  then show ?thesis by simp
qed

lemma commas_hd: "xs \<noteq> [] \<Longrightarrow> hd xs = c # q \<Longrightarrow> \<exists>t. commas xs = c # t"
  by (cases xs) (auto simp: commas_Cons)

lemma expect_commas_none:
  assumes "xs \<noteq> []" and "hd xs = c # q" and "\<not> ws c" and "c \<noteq> x"
  shows "expect x (commas xs @ r) = None"
  using commas_hd [OF assms(1,2)] assms(3,4) by auto

lemma punct_head: "\<not> ws c \<Longrightarrow> p_val (Suc n) (c # r) =
   (if c = CHR ''{'' then (case expect (CHR ''}'') r of Some q \<Rightarrow> Some (JObj [], q)
         | None \<Rightarrow> map_option (\<lambda>(m, q). (JObj (foldl (\<lambda>o1 (k, v). map_set k v o1) [] m), q)) (p_members n r))
       else if c = CHR ''['' then (case expect (CHR '']'') r of Some q \<Rightarrow> Some (JArr [], q)
         | None \<Rightarrow> map_option (\<lambda>(vs, q). (JArr vs, q)) (p_elems n r))
       else if c = CHR 0x22 then map_option (\<lambda>(t, q). (JStr t, q)) (p_str r)
       else if starts_with (c # r) ''true'' then Some (JBool True, drop 3 r)
       else if starts_with (c # r) ''false'' then Some (JBool False, drop 4 r)
       else if starts_with (c # r) ''null'' then Some (JNull, drop 3 r)
       else p_num (c # r))"
  by simp

lemma reads_stringify: "int_json j \<Longrightarrow> reads j"
proof (induction j)
  case (JNum x)
  then have r: "x = of_int \<lfloor>x\<rfloor>" by auto
  obtain c q where c: "int_str \<lfloor>x\<rfloor> = c # q" "digit c \<or> c = CHR ''-''" using int_str_cases by blast
  have nc: "\<not> ws c" "c \<notin> {CHR ''{'', CHR ''['', CHR 0x22, CHR ''t'', CHR ''f'', CHR ''n''}"
    using c(2) by (auto simp: ws_def digit_def)
  have s: "stringify (JNum x) = int_str \<lfloor>x\<rfloor>"
    unfolding stringify.simps by (subst r) (rule num_json_int)
  show ?case unfolding reads_def s
  proof (intro allI impI)
    fix n r assume n: "length (int_str \<lfloor>x\<rfloor>) \<le> n" and st: "stop r"
    obtain m where m: "n = Suc m" using n c(1) by (cases n) auto
    have "p_val n (int_str \<lfloor>x\<rfloor> @ r) = p_num (int_str \<lfloor>x\<rfloor> @ r)"
      unfolding m c(1) append_Cons punct_head [OF nc(1)] using nc(2) by (simp add: starts_with_def)
    also have "\<dots> = Some (JNum (of_int \<lfloor>x\<rfloor>), r)" by (rule p_num_int [OF st])
    finally show "p_val n (int_str \<lfloor>x\<rfloor> @ r) = Some (JNum x, r)" using r by simp
  qed
next
  case (JArr vs)
  show ?case unfolding reads_def
  proof (intro allI impI)
    fix n r assume n: "length (stringify (JArr vs)) \<le> n" and "stop r"
    obtain m where m: "n = Suc m" using n by (cases n) auto
    have all: "list_all reads vs" using JArr by (simp add: list_all_iff)
    show "p_val n (stringify (JArr vs) @ r) = Some (JArr vs, r)"
    proof (cases "vs = []")
      case False
      then have ij: "int_json (hd vs)" using JArr.prems by (simp add: list_all_iff)
      then obtain c q where "hd (map stringify vs) = c # q" "\<not> ws c" "c \<noteq> CHR '']''"
        using stringify_hd [OF ij] False by (auto simp: hd_map)
      then have "expect (CHR '']'') (commas (map stringify vs) @ CHR '']'' # r) = None"
        using expect_commas_none [of "map stringify vs"] False by simp
      then show ?thesis using p_elems_reads [OF all False, of m r] n m by simp
    qed (simp add: m)
  qed
next
  case (JObj kvs)
  show ?case unfolding reads_def
  proof (intro allI impI)
    fix n r assume n: "length (stringify (JObj kvs)) \<le> n" and "stop r"
    obtain m where m: "n = Suc m" using n by (cases n) auto
    have all: "list_all (\<lambda>p. reads (snd p)) kvs"
      using JObj by (fastforce simp: list_all_iff)
    show "p_val n (stringify (JObj kvs) @ r) = Some (JObj kvs, r)"
    proof (cases "kvs = []")
      case False
      then obtain q where "hd (map member_text kvs) = CHR 0x22 # q"
        by (cases kvs) (auto simp: member_text_def str_json_def)
      then have "expect (CHR ''}'') (commas (map member_text kvs) @ CHR ''}'' # r) = None"
        using expect_commas_none [of "map member_text kvs"] False by simp
      then show ?thesis
        using p_members_reads [OF all False, of m r] n m foldl_map_set_distinct [of "[]" kvs] JObj.prems
        unfolding stringify_JObj by simp
    qed (simp add: m)
  qed
qed (auto simp: reads_def str_json_def p_str_json starts_with_def gr0_conv_Suc dest!: Suc_le_D)

theorem json_roundtrip:
  assumes "int_json j"
  shows "json_parse (stringify j) = Some j"
proof -
  have "p_val (Suc (length (stringify j))) (stringify j @ []) = Some (j, [])"
    using reads_stringify [OF assms, unfolded reads_def, rule_format, of "Suc (length (stringify j))" "[]"]
    by (simp del: p_val.simps)
  then show ?thesis by (simp add: json_parse_def skip_ws_def)
qed

end
