(* ===== verification/Transactions.thy ===== *)
theory Transactions
  imports Json RateLimit Operations
begin

text \<open>
  The transaction manager (\<open>apps/mcp-server/src/transactions.ts\<close>): the plan cache, the
  confirmation tokens of transactions, and the single-use tokens of load, clear and
  restore.  Each handler is cut at its \<open>await\<close>s into synchronous segments
  (\<open>preview_start\<close>, \<open>preview_finish\<close>, \<open>commit_start\<close>, \<open>commit_finish\<close>), functions of the
  manager's state; the handlers \<open>preview\<close> and \<open>commit\<close> compose them with the injected
  connection, and \<open>TxnSystem\<close> interleaves them.

  \<open>mac\<close> is the HMAC-SHA256 under the process key, base64url encoded: a parameter no proof
  assumes anything of.  A synchronous segment reads the clock through \<open>clk\<close>, its n-th call
  of \<open>Date.now()\<close> being \<open>clk n\<close>.  Comparing the UTF-8 bytes of two MACs is comparing the
  strings, since the expected one is ASCII.
\<close>

section \<open>State\<close>

record selected_instance =
  si_instanceId :: string
  si_sessionId :: string

record cached_plan =
  cp_plan :: json
  cp_baseFingerprint :: string
  cp_paramChanges :: int
  cp_patchEpoch :: int
  cp_riskLevel :: string
  cp_confirmationRequired :: bool
  cp_instanceId :: string
  cp_sessionId :: string
  cp_expiresAt :: int

record token_binding =
  tb_instanceId :: string
  tb_sessionId :: string
  tb_patchEpoch :: int
  tb_baseFingerprint :: string
  tb_planHash :: string
  tb_riskLevel :: string
  tb_expiresAt :: int

datatype load_kind = LoadPatch | ClearPatch | RestorePatch

record load_token_binding =
  lt_instanceId :: string
  lt_sessionId :: string
  lt_kind :: load_kind
  lt_path :: "string option"
  lt_patchEpoch :: int
  lt_fingerprint :: string

record load_binding =
  lb_binding :: load_token_binding
  lb_expiresAt :: int

record txm =
  plans :: "(string, cached_plan) jsmap"
  loadBindings :: "(string, load_binding) jsmap"
  tlimiter :: limiter

definition new_txm :: txm where
  "new_txm = \<lparr>plans = [], loadBindings = [], tlimiter = new_limiter\<rparr>"

definition prune_plans :: "int \<Rightarrow> (string, cached_plan) jsmap \<Rightarrow> (string, cached_plan) jsmap" where
  "prune_plans now m = map_prune (\<lambda>v. cp_expiresAt v < now) m"

definition prune_loads :: "int \<Rightarrow> (string, load_binding) jsmap \<Rightarrow> (string, load_binding) jsmap" where
  "prune_loads now m = map_prune (\<lambda>v. lb_expiresAt v < now) m"

definition pruneExpired :: "int \<Rightarrow> txm \<Rightarrow> txm" where
  "pruneExpired now s = s\<lparr>plans := prune_plans now (plans s)\<rparr>"

text \<open>Both maps are expiring stores.\<close>

interpretation plan_store: expiring_store "[] :: (string, cached_plan) jsmap" map_get map_set map_delete
  map_ok cp_expiresAt prune_plans
  by unfold_locales (simp_all add: prune_plans_def map_get_prune split: option.split)

interpretation load_store: expiring_store "[] :: (string, load_binding) jsmap" map_get map_set map_delete
  map_ok lb_expiresAt prune_loads
  by unfold_locales (simp_all add: prune_loads_def map_get_prune split: option.split)

section \<open>Transaction tokens\<close>

definition binding_json :: "token_binding \<Rightarrow> json" where
  "binding_json b = JObj [
     (''instanceId'', JStr (tb_instanceId b)), (''sessionId'', JStr (tb_sessionId b)),
     (''patchEpoch'', JNum (of_int (tb_patchEpoch b))), (''baseFingerprint'', JStr (tb_baseFingerprint b)),
     (''planHash'', JStr (tb_planHash b)), (''riskLevel'', JStr (tb_riskLevel b)),
     (''expiresAt'', JNum (of_int (tb_expiresAt b)))]"

definition mintToken :: "(string \<Rightarrow> string) \<Rightarrow> token_binding \<Rightarrow> string" where
  "mintToken mac b = (let body = base64url (stringify (binding_json b)) in body @ CHR ''.'' # mac body)"

text \<open>Property access: \<open>undefined\<close> is \<open>None\<close>, and \<open>null\<close> has no properties.\<close>

fun js_prop :: "json \<Rightarrow> string \<Rightarrow> exn + json option" where
  "js_prop JNull k = Inl (PlainErr ''TypeError'')"
| "js_prop (JObj kvs) k = Inr (map_get kvs k)"
| "js_prop _ k = Inr None"

text \<open>\<open>now > v\<close>; a string, array or object is taken to be NaN (minted tokens carry a number).\<close>

fun js_after :: "int \<Rightarrow> json option \<Rightarrow> bool" where
  "js_after now (Some (JNum r)) = (r < of_int now)"
| "js_after now (Some JNull) = (0 < now)"
| "js_after now (Some (JBool b)) = ((if b then 1 else 0) < now)"
| "js_after now _ = False"

definition verifyToken :: "(string \<Rightarrow> string) \<Rightarrow> int \<Rightarrow> string \<Rightarrow> exn + json" where
  "verifyToken mac now token =
     (case split_first (CHR ''.'') token of
        None \<Rightarrow> Inl (tool_error CONFIRMATION_REQUIRED ''malformed confirmation token'')
      | Some (body, m) \<Rightarrow>
          if m \<noteq> mac body then Inl (tool_error CONFIRMATION_REQUIRED ''invalid confirmation token'')
          else case json_parse (base64url_decode body) of
            None \<Rightarrow> Inl (PlainErr ''SyntaxError'')
          | Some j \<Rightarrow> (case js_prop j ''expiresAt'' of Inl e \<Rightarrow> Inl e
              | Inr x \<Rightarrow> if js_after now x
                  then Inl (tool_error CONFIRMATION_EXPIRED ''confirmation token has expired'') else Inr j))"

section \<open>Preview\<close>

record preview_reply =
  pv_plan :: json
  pv_planHash :: string
  pv_baseFingerprint :: string
  pv_patchEpoch :: int
  pv_diff :: json
  pv_riskLevel :: string
  pv_riskFlags :: "string list"
  pv_riskReasons :: "string list"
  pv_confirmationRequired :: bool
  pv_undoable :: bool
  pv_warnings :: "string list"

record expectation =
  ex_fingerprint :: "string option"
  ex_patchEpoch :: "int option"

record confirmation =
  cf_confirmationToken :: string
  cf_confirmationExpiresAt :: int
  cf_confirmationRequired :: bool

record wire_scope =
  ws_instanceId :: string
  ws_sessionId :: string
  ws_patchEpoch :: int

record preview_request =
  pq_scope :: wire_scope
  pq_label :: string
  pq_operations :: "patch_operation list"

definition preview_start :: "(nat \<Rightarrow> int) \<Rightarrow> string \<Rightarrow> patch_operation list \<Rightarrow> selected_instance \<Rightarrow> txm \<Rightarrow>
  (exn + preview_request) \<times> txm" where
  "preview_start clk label ops inst s =
     (let s' = pruneExpired (clk 0) s; added = count_added ops in
      if added > txnMaxAddedModules LIMITS
      then (Inl (tool_error TRANSACTION_TOO_LARGE
          (''this plan adds '' @ nat_str added @ '' modules; the limit is '' @
           nat_str (txnMaxAddedModules LIMITS) @
           '' per transaction. Split it into smaller transactions.'')), s')
      else (Inr \<lparr>pq_scope = \<lparr>ws_instanceId = si_instanceId inst, ws_sessionId = si_sessionId inst,
                ws_patchEpoch = 0\<rparr>, pq_label = label, pq_operations = ops\<rparr>, s'))"

definition plan_entry :: "patch_operation list \<Rightarrow> selected_instance \<Rightarrow> preview_reply \<Rightarrow> int \<Rightarrow> cached_plan" where
  "plan_entry ops inst r expiresAt = \<lparr>cp_plan = pv_plan r, cp_baseFingerprint = pv_baseFingerprint r,
     cp_paramChanges = int (countParamChanges ops), cp_patchEpoch = pv_patchEpoch r,
     cp_riskLevel = pv_riskLevel r, cp_confirmationRequired = pv_confirmationRequired r,
     cp_instanceId = si_instanceId inst, cp_sessionId = si_sessionId inst, cp_expiresAt = expiresAt\<rparr>"

definition plan_binding :: "selected_instance \<Rightarrow> preview_reply \<Rightarrow> int \<Rightarrow> token_binding" where
  "plan_binding inst r expiresAt = \<lparr>tb_instanceId = si_instanceId inst, tb_sessionId = si_sessionId inst,
     tb_patchEpoch = pv_patchEpoch r, tb_baseFingerprint = pv_baseFingerprint r,
     tb_planHash = pv_planHash r, tb_riskLevel = pv_riskLevel r, tb_expiresAt = expiresAt\<rparr>"

definition mismatch :: "'a \<Rightarrow> 'a option \<Rightarrow> bool" where
  "mismatch x e = (case e of None \<Rightarrow> False | Some y \<Rightarrow> x \<noteq> y)"

definition preview_finish :: "(string \<Rightarrow> string) \<Rightarrow> (nat \<Rightarrow> int) \<Rightarrow> patch_operation list \<Rightarrow>
  selected_instance \<Rightarrow> expectation \<Rightarrow> preview_reply \<Rightarrow> txm \<Rightarrow>
  (exn + preview_reply \<times> confirmation) \<times> txm" where
  "preview_finish mac clk ops inst ex r s =
     (if mismatch (pv_patchEpoch r) (ex_patchEpoch ex)
      then (Inl (tool_error STALE_PATCH_EPOCH (''patch epoch is '' @ int_str (pv_patchEpoch r) @
          '', not the expected '' @ int_str (the (ex_patchEpoch ex)) @ ''; re-read the snapshot'')), s)
      else if mismatch (pv_baseFingerprint r) (ex_fingerprint ex)
      then (Inl (tool_error PATCH_CONFLICT
          ''the patch changed since the fingerprint you supplied; re-read the snapshot''), s)
      else
        let expiresAt = clk 0 + confirmationLifetimeMs LIMITS;
            s' = s\<lparr>plans := map_set (pv_planHash r) (plan_entry ops inst r expiresAt) (plans s)\<rparr>
        in (Inr (r, \<lparr>cf_confirmationToken = mintToken mac (plan_binding inst r expiresAt),
              cf_confirmationExpiresAt = expiresAt,
              cf_confirmationRequired = pv_confirmationRequired r\<rparr>), s'))"

section \<open>Commit\<close>

record commit_args =
  ca_operationId :: string
  ca_planHash :: string
  ca_expectedFingerprint :: string
  ca_confirmationToken :: "string option"
  ca_instance :: selected_instance

definition binds :: "commit_args \<Rightarrow> json \<Rightarrow> bool" where
  "binds a j = (js_prop j ''planHash'' = Inr (Some (JStr (ca_planHash a))) \<and>
     js_prop j ''baseFingerprint'' = Inr (Some (JStr (ca_expectedFingerprint a))) \<and>
     js_prop j ''instanceId'' = Inr (Some (JStr (si_instanceId (ca_instance a)))) \<and>
     js_prop j ''sessionId'' = Inr (Some (JStr (si_sessionId (ca_instance a)))))"

definition check_token :: "(string \<Rightarrow> string) \<Rightarrow> int \<Rightarrow> commit_args \<Rightarrow> exn + unit" where
  "check_token mac now a =
     (case ca_confirmationToken a of
        None \<Rightarrow> Inl (tool_error CONFIRMATION_REQUIRED ''this plan requires a confirmation token'')
      | Some t \<Rightarrow>
          if t = [] then Inl (tool_error CONFIRMATION_REQUIRED ''this plan requires a confirmation token'')
          else case verifyToken mac now t of Inl e \<Rightarrow> Inl e
            | Inr j \<Rightarrow> if binds a j then Inr ()
                else Inl (tool_error CONFIRMATION_REQUIRED ''confirmation token does not bind this commit''))"

definition commit_start :: "(string \<Rightarrow> string) \<Rightarrow> (nat \<Rightarrow> int) \<Rightarrow> commit_args \<Rightarrow> txm \<Rightarrow>
  (exn + cached_plan) \<times> txm" where
  "commit_start mac clk a s0 =
     (let s = pruneExpired (clk 0) s0 in
      case map_get (plans s) (ca_planHash a) of
        None \<Rightarrow> (Inl (tool_error_retry CONFIRMATION_EXPIRED
            ''no cached plan for this plan hash; re-run preview'' True), s)
      | Some c \<Rightarrow>
          if cp_instanceId c \<noteq> si_instanceId (ca_instance a) \<or> cp_sessionId c \<noteq> si_sessionId (ca_instance a)
          then (Inl (tool_error STALE_SESSION ''plan was previewed against a different session''), s)
          else if ca_expectedFingerprint a \<noteq> cp_baseFingerprint c
          then (Inl (tool_error PATCH_CONFLICT (''expectedFingerprint is not the fingerprint this plan was previewed against; '' @
              ''the patch changed since the preview, so re-run preview'')), s)
          else case (if cp_confirmationRequired c then check_token mac (clk 1) a else Inr ()) of
            Inl e \<Rightarrow> (Inl e, s)
          | Inr _ \<Rightarrow> (case admit (clk 2) (clk 3) (clk 4) (cp_paramChanges c) (tlimiter s) of
                (Inl e, l) \<Rightarrow> (Inl e, s\<lparr>tlimiter := l\<rparr>)
              | (Inr _, l) \<Rightarrow> (Inr c, s\<lparr>tlimiter := l\<rparr>)))"

record commit_request =
  cq_scope :: wire_scope
  cq_operationId :: string
  cq_plan :: json
  cq_planHash :: string
  cq_expectedFingerprint :: string

definition commit_request_of :: "commit_args \<Rightarrow> cached_plan \<Rightarrow> commit_request" where
  "commit_request_of a c = \<lparr>cq_scope = \<lparr>ws_instanceId = si_instanceId (ca_instance a),
       ws_sessionId = si_sessionId (ca_instance a), ws_patchEpoch = cp_patchEpoch c\<rparr>,
     cq_operationId = ca_operationId a, cq_plan = cp_plan c, cq_planHash = ca_planHash a,
     cq_expectedFingerprint = ca_expectedFingerprint a\<rparr>"

definition commit_finish :: "string \<Rightarrow> txm \<Rightarrow> txm" where
  "commit_finish planHash s = s\<lparr>plans := map_delete planHash (plans s)\<rparr>"

definition cachedPlan :: "string \<Rightarrow> txm \<Rightarrow> (string \<times> bool) option" where
  "cachedPlan planHash s = map_option (\<lambda>c. (cp_baseFingerprint c, cp_confirmationRequired c))
     (map_get (plans s) planHash)"

section \<open>Load tokens\<close>

definition mintLoadToken :: "(string \<Rightarrow> string) \<Rightarrow> int \<Rightarrow> string \<Rightarrow> load_token_binding \<Rightarrow> txm \<Rightarrow> string \<times> txm" where
  "mintLoadToken mac now rnd b s =
     (let i = base64url rnd in
      (i @ CHR ''.'' # mac i,
       s\<lparr>loadBindings := map_set i \<lparr>lb_binding = b, lb_expiresAt = now + confirmationLifetimeMs LIMITS\<rparr>
           (prune_loads now (loadBindings s))\<rparr>))"

definition lookupLoadToken :: "(string \<Rightarrow> string) \<Rightarrow> int \<Rightarrow> string \<Rightarrow> txm \<Rightarrow>
  (exn + string \<times> load_binding) \<times> txm" where
  "lookupLoadToken mac now token s =
     (case split_first (CHR ''.'') token of
        None \<Rightarrow> (Inl (tool_error CONFIRMATION_REQUIRED ''malformed confirmation token''), s)
      | Some (i, m) \<Rightarrow>
          if m \<noteq> mac i then (Inl (tool_error CONFIRMATION_REQUIRED ''invalid confirmation token''), s)
          else case map_get (loadBindings s) i of
            None \<Rightarrow> (Inl (tool_error CONFIRMATION_EXPIRED
                ''confirmation token is unknown, already used, or expired; re-run the preview''), s)
          | Some b \<Rightarrow>
              if now > lb_expiresAt b
              then (Inl (tool_error CONFIRMATION_EXPIRED ''confirmation token has expired''),
                s\<lparr>loadBindings := map_delete i (loadBindings s)\<rparr>)
              else (Inr (i, b), s))"

definition verifyLoadToken :: "(string \<Rightarrow> string) \<Rightarrow> int \<Rightarrow> string \<Rightarrow> txm \<Rightarrow> (exn + load_token_binding) \<times> txm" where
  "verifyLoadToken mac now token s = (case lookupLoadToken mac now token s of
     (Inl e, s') \<Rightarrow> (Inl e, s') | (Inr (i, b), s') \<Rightarrow> (Inr (lb_binding b), s'))"

definition consumeLoadToken :: "(string \<Rightarrow> string) \<Rightarrow> int \<Rightarrow> string \<Rightarrow> txm \<Rightarrow> (exn + load_token_binding) \<times> txm" where
  "consumeLoadToken mac now token s = (case lookupLoadToken mac now token s of
     (Inl e, s') \<Rightarrow> (Inl e, s')
   | (Inr (i, b), s') \<Rightarrow> (Inr (lb_binding b), s'\<lparr>loadBindings := map_delete i (loadBindings s')\<rparr>))"

section \<open>The handlers over an injected connection\<close>

text \<open>
  \<open>'w\<close> is everything outside the manager: the clock, the plugin and the connection manager
  (its operations are the fields of \<open>txn_deps\<close>, as the constructor injects them).  One call runs
  alone here: during its awaits the manager's maps are not changed by another one.  The
  interleavings of several calls are the subject of TxnSystem, which runs the same segments.
  \<open>tw_sent\<close> is a ghost log of the requests handed to the connection.
\<close>

datatype wire =
    PreviewSent preview_request
  | CommitSent commit_request int

record 'w txn_deps =
  d_clk :: "'w \<Rightarrow> (nat \<Rightarrow> int) \<times> 'w"
  d_preview :: "preview_request \<Rightarrow> 'w \<Rightarrow> (exn + preview_reply) \<times> 'w"
  d_ensureLease :: "'w \<Rightarrow> (exn + unit) \<times> 'w"
  d_commit :: "commit_request \<Rightarrow> int \<Rightarrow> 'w \<Rightarrow> (exn + json) \<times> 'w"
  d_commitTimeoutMs :: int

record 'w txn_world =
  tw_tm :: txm
  tw_world :: 'w
  tw_sent :: "wire list"

definition segment :: "'w txn_deps \<Rightarrow> ((nat \<Rightarrow> int) \<Rightarrow> txm \<Rightarrow> (exn + 'a) \<times> txm) \<Rightarrow> (exn, 'w txn_world, 'a) prog" where
  "segment d f = (\<lambda>s. let (clk, w) = d_clk d (tw_world s); (r, t) = f clk (tw_tm s)
     in (r, s\<lparr>tw_tm := t, tw_world := w\<rparr>))"

definition external :: "('w \<Rightarrow> (exn + 'a) \<times> 'w) \<Rightarrow> (exn, 'w txn_world, 'a) prog" where
  "external f = (\<lambda>s. let (r, w) = f (tw_world s) in (r, s\<lparr>tw_world := w\<rparr>))"

definition send :: "wire \<Rightarrow> (exn, 'w txn_world, unit) prog" where
  "send x = modify (\<lambda>s. s\<lparr>tw_sent := tw_sent s @ [x]\<rparr>)"

definition preview :: "'w txn_deps \<Rightarrow> (string \<Rightarrow> string) \<Rightarrow> string \<Rightarrow> patch_operation list \<Rightarrow>
  selected_instance \<Rightarrow> expectation \<Rightarrow> (exn, 'w txn_world, preview_reply \<times> confirmation) prog" where
  "preview d mac label ops inst ex =
     bind (segment d (\<lambda>clk. preview_start clk label ops inst)) (\<lambda>q.
     andthen (send (PreviewSent q)) (
     bind (external (d_preview d q)) (\<lambda>r.
     segment d (\<lambda>clk. preview_finish mac clk ops inst ex r))))"

definition commit :: "'w txn_deps \<Rightarrow> (string \<Rightarrow> string) \<Rightarrow> commit_args \<Rightarrow> (exn, 'w txn_world, json) prog" where
  "commit d mac a =
     bind (segment d (\<lambda>clk. commit_start mac clk a)) (\<lambda>c.
     andthen (external (d_ensureLease d)) (
     andthen (send (CommitSent (commit_request_of a c) (d_commitTimeoutMs d))) (
     bind (external (d_commit d (commit_request_of a c) (d_commitTimeoutMs d))) (\<lambda>r.
     andthen (modify (\<lambda>s. s\<lparr>tw_tm := commit_finish (ca_planHash a) (tw_tm s)\<rparr>)) (
     ret r)))))"

text \<open>\<open>previewAndMaybeCommit\<close> of \<open>tools.ts\<close>, shared by \<open>build_patch\<close> and \<open>build_recipe\<close>.\<close>

record build_result =
  br_preview :: preview_reply
  br_confirmation :: confirmation
  br_commit :: "json option"

definition previewAndMaybeCommit :: "'w txn_deps \<Rightarrow> (string \<Rightarrow> string) \<Rightarrow> selected_instance \<Rightarrow> string \<Rightarrow>
  patch_operation list \<Rightarrow> bool \<Rightarrow> string \<Rightarrow> int option \<Rightarrow> (exn, 'w txn_world, build_result) prog" where
  "previewAndMaybeCommit d mac inst label ops autoCommit operationId expectedPatchEpoch =
     bind (preview d mac label ops inst \<lparr>ex_fingerprint = None, ex_patchEpoch = expectedPatchEpoch\<rparr>) (\<lambda>(r, cf).
     if \<not> autoCommit \<or> cf_confirmationRequired cf
     then ret \<lparr>br_preview = r, br_confirmation = cf, br_commit = None\<rparr>
     else bind (commit d mac \<lparr>ca_operationId = operationId, ca_planHash = pv_planHash r,
            ca_expectedFingerprint = pv_baseFingerprint r, ca_confirmationToken = None, ca_instance = inst\<rparr>)
          (\<lambda>c. ret \<lparr>br_preview = r, br_confirmation = cf, br_commit = Some c\<rparr>))"

lemma wp_segment [wp_simps]:
  "wp (segment d f) Q E s = (case f (fst (d_clk d (tw_world s))) (tw_tm s) of
     (Inl e, t) \<Rightarrow> E e (s\<lparr>tw_tm := t, tw_world := snd (d_clk d (tw_world s))\<rparr>)
   | (Inr a, t) \<Rightarrow> Q a (s\<lparr>tw_tm := t, tw_world := snd (d_clk d (tw_world s))\<rparr>))"
  by (simp add: wp_def segment_def split_beta Let_def split: sum.split)

lemma wp_external [wp_simps]:
  "wp (external f) Q E s = (case f (tw_world s) of
     (Inl e, w) \<Rightarrow> E e (s\<lparr>tw_world := w\<rparr>) | (Inr a, w) \<Rightarrow> Q a (s\<lparr>tw_world := w\<rparr>))"
  by (simp add: wp_def external_def split_beta Let_def split: sum.split)

lemma wp_send [wp_simps]: "wp (send x) Q E s = Q () (s\<lparr>tw_sent := tw_sent s @ [x]\<rparr>)"
  by (simp add: send_def wp_modify)

section \<open>Token lemmas\<close>

lemma binding_json_int: "int_json (binding_json b)"
  by (simp add: binding_json_def)

lemma verify_minted:
  "verifyToken mac now (mintToken mac b) =
     (if now > tb_expiresAt b then Inl (tool_error CONFIRMATION_EXPIRED ''confirmation token has expired'')
      else Inr (binding_json b))"
  by (simp add: verifyToken_def mintToken_def Let_def base64url_no_dot base64url_roundtrip
      json_roundtrip [OF binding_json_int])
    (simp add: binding_json_def map_get_Cons)

lemma binds_binding:
  "binds a (binding_json b) \<longleftrightarrow> tb_planHash b = ca_planHash a \<and> tb_baseFingerprint b = ca_expectedFingerprint a \<and>
     tb_instanceId b = si_instanceId (ca_instance a) \<and> tb_sessionId b = si_sessionId (ca_instance a)"
  by (simp add: binds_def binding_json_def map_get_Cons)

lemma verify_accepts:
  "verifyToken mac now t = Inr j \<Longrightarrow> \<exists>body. t = body @ CHR ''.'' # mac body \<and> CHR ''.'' \<notin> set body \<and>
     json_parse (base64url_decode body) = Some j"
  by (auto simp: verifyToken_def dest!: split_first_Some split: option.splits if_splits sum.splits)

section \<open>The commit gate\<close>

definition authorised :: "(string \<Rightarrow> string) \<Rightarrow> int \<Rightarrow> commit_args \<Rightarrow> cached_plan \<Rightarrow> bool" where
  "authorised mac now a c = (cp_instanceId c = si_instanceId (ca_instance a) \<and>
     cp_sessionId c = si_sessionId (ca_instance a) \<and> cp_baseFingerprint c = ca_expectedFingerprint a \<and>
     (if cp_confirmationRequired c then
        (\<exists>t j. ca_confirmationToken a = Some t \<and> t \<noteq> [] \<and> verifyToken mac now t = Inr j \<and> binds a j) else True))"

lemma check_token_iff:
  "check_token mac now a = Inr () \<longleftrightarrow>
     (\<exists>t j. ca_confirmationToken a = Some t \<and> t \<noteq> [] \<and> verifyToken mac now t = Inr j \<and> binds a j)"
  by (auto simp: check_token_def split: option.splits sum.splits)

lemma authorised_iff:
  "authorised mac now a c \<longleftrightarrow>
     \<not> (cp_instanceId c \<noteq> si_instanceId (ca_instance a) \<or> cp_sessionId c \<noteq> si_sessionId (ca_instance a)) \<and>
     \<not> ca_expectedFingerprint a \<noteq> cp_baseFingerprint c \<and>
     (if cp_confirmationRequired c then check_token mac now a else Inr ()) = Inr ()"
  by (auto simp: authorised_def check_token_iff)

lemma commit_start_raw:
  "(\<exists>s'. commit_start mac clk a s = (Inr c, s')) \<longleftrightarrow>
     map_get (plans (pruneExpired (clk 0) s)) (ca_planHash a) = Some c \<and> authorised mac (clk 1) a c \<and>
     fst (admit (clk 2) (clk 3) (clk 4) (cp_paramChanges c) (tlimiter s)) = Inr ()"
proof (cases "map_get (plans (pruneExpired (clk 0) s)) (ca_planHash a)")
  case None
  then show ?thesis by (simp add: commit_start_def Let_def)
next
  case (Some x)
  have l: "tlimiter (pruneExpired t s) = tlimiter s" for t by (simp add: pruneExpired_def)
  show ?thesis
  proof (cases "authorised mac (clk 1) a x")
    case True
    then have "(if cp_confirmationRequired x then check_token mac (clk 1) a else Inr ()) = Inr ()"
      "cp_instanceId x = si_instanceId (ca_instance a)" "cp_sessionId x = si_sessionId (ca_instance a)"
      "ca_expectedFingerprint a = cp_baseFingerprint x"
      unfolding authorised_iff by blast+
    then show ?thesis using Some True
      by (auto simp: commit_start_def Let_def l split: prod.splits sum.splits)
  next
    case False
    then show ?thesis using Some
      by (auto simp: commit_start_def Let_def authorised_iff split: prod.splits sum.splits if_splits)
  qed
qed

lemma commit_start_ok:
  assumes "map_ok (plans s)"
  shows "(\<exists>s'. commit_start mac clk a s = (Inr c, s')) \<longleftrightarrow>
     map_get (plans s) (ca_planHash a) = Some c \<and> clk 0 \<le> cp_expiresAt c \<and> authorised mac (clk 1) a c \<and>
     fst (admit (clk 2) (clk 3) (clk 4) (cp_paramChanges c) (tlimiter s)) = Inr ()"
proof -
  have "map_get (plans (pruneExpired (clk 0) s)) (ca_planHash a) = Some c \<longleftrightarrow>
      map_get (plans s) (ca_planHash a) = Some c \<and> clk 0 \<le> cp_expiresAt c"
    using plan_store.get_prune [OF assms] by (auto simp: pruneExpired_def split: option.splits if_splits)
  then show ?thesis by (simp add: commit_start_raw)
qed

text \<open>Whatever it decides, the commit gate leaves the plans (the pruning apart) and the load
  tokens as they were, and touches the limiter only through \<open>admit\<close>.\<close>

lemma commit_start_frame:
  "commit_start mac clk a s = (r, s') \<Longrightarrow>
     plans s' = prune_plans (clk 0) (plans s) \<and> loadBindings s' = loadBindings s \<and>
     (tlimiter s' = tlimiter s \<or> (\<exists>c. tlimiter s' = snd (admit (clk 2) (clk 3) (clk 4) c (tlimiter s))))"
proof -
  have key: "admit (clk 2) (clk 3) (clk 4) c l = (x, l') \<Longrightarrow>
      \<exists>c. l' = snd (admit (clk 2) (clk 3) (clk 4) c l)" for c l x l'
    by (rule exI [of _ c]) simp
  assume "commit_start mac clk a s = (r, s')"
  then show ?thesis
    by (auto simp: commit_start_def Let_def pruneExpired_def intro: key
        split: option.splits if_splits sum.splits prod.splits)
qed

lemma preview_finish_ok:
  "preview_finish mac clk ops inst ex r s = (Inr x, s') \<longleftrightarrow>
     \<not> mismatch (pv_patchEpoch r) (ex_patchEpoch ex) \<and> \<not> mismatch (pv_baseFingerprint r) (ex_fingerprint ex) \<and>
     x = (r, \<lparr>cf_confirmationToken = mintToken mac (plan_binding inst r (clk 0 + confirmationLifetimeMs LIMITS)),
       cf_confirmationExpiresAt = clk 0 + confirmationLifetimeMs LIMITS,
       cf_confirmationRequired = pv_confirmationRequired r\<rparr>) \<and>
     s' = s\<lparr>plans := map_set (pv_planHash r)
       (plan_entry ops inst r (clk 0 + confirmationLifetimeMs LIMITS)) (plans s)\<rparr>"
  by (auto simp: preview_finish_def Let_def)

lemma preview_finish_err:
  "preview_finish mac clk ops inst ex r s = (Inl e, s') \<Longrightarrow> s' = s"
  by (auto simp: preview_finish_def Let_def split: if_splits)

lemma preview_start_ok:
  "preview_start clk label ops inst s = (Inr q, s') \<longleftrightarrow> count_added ops \<le> txnMaxAddedModules LIMITS \<and>
     q = \<lparr>pq_scope = \<lparr>ws_instanceId = si_instanceId inst, ws_sessionId = si_sessionId inst,
       ws_patchEpoch = 0\<rparr>, pq_label = label, pq_operations = ops\<rparr> \<and> s' = pruneExpired (clk 0) s"
  by (auto simp: preview_start_def Let_def)

lemma plan_entry_authorised:
  assumes "now \<le> e" and "ca_planHash a = pv_planHash r" and "ca_expectedFingerprint a = pv_baseFingerprint r"
    and "ca_confirmationToken a = Some (mintToken mac (plan_binding inst r e))" and "ca_instance a = inst"
  shows "authorised mac now a (plan_entry ops inst r e)"
proof -
  have "binds a (binding_json (plan_binding inst r e))"
    using assms by (simp add: binds_binding plan_binding_def)
  moreover have "verifyToken mac now (mintToken mac (plan_binding inst r e)) = Inr (binding_json (plan_binding inst r e))"
    using assms(1) by (simp add: verify_minted plan_binding_def)
  moreover have "mintToken mac (plan_binding inst r e) \<noteq> []" by (simp add: mintToken_def Let_def)
  ultimately show ?thesis
    using assms by (simp add: authorised_def plan_entry_def)
qed

text \<open>The requests an auto-committing build may hand to the connection.\<close>

definition build_safe :: "'w txn_deps \<Rightarrow> bool \<Rightarrow> selected_instance \<Rightarrow> string \<Rightarrow> patch_operation list \<Rightarrow>
  int option \<Rightarrow> wire \<Rightarrow> bool" where
  "build_safe d auto inst label ops epoch x = (case x of
     PreviewSent q \<Rightarrow> pq_operations q = ops \<and> count_added ops \<le> txnMaxAddedModules LIMITS
   | CommitSent q t \<Rightarrow> auto \<and> t = d_commitTimeoutMs d \<and>
       (\<exists>p w r. pq_operations p = ops \<and> fst (d_preview d p w) = Inr r \<and> \<not> pv_confirmationRequired r \<and>
         \<not> mismatch (pv_patchEpoch r) epoch \<and> cq_plan q = pv_plan r \<and> cq_planHash q = pv_planHash r \<and>
         cq_expectedFingerprint q = pv_baseFingerprint r \<and>
         cq_scope q = \<lparr>ws_instanceId = si_instanceId inst, ws_sessionId = si_sessionId inst,
           ws_patchEpoch = pv_patchEpoch r\<rparr>))"

definition sent_safe :: "(wire \<Rightarrow> bool) \<Rightarrow> 'w txn_world \<Rightarrow> 'w txn_world \<Rightarrow> bool" where
  "sent_safe P s s' = (\<exists>xs. tw_sent s' = tw_sent s @ xs \<and> list_all P xs \<and> length xs \<le> 2)"

lemma wp_commit_sent:
  assumes "\<And>s' c. fst (commit_start mac (fst (d_clk d (tw_world s))) a (tw_tm s)) = Inr c \<Longrightarrow>
       tw_sent s' = tw_sent s @ [CommitSent (commit_request_of a c) (d_commitTimeoutMs d)] \<Longrightarrow>
       (\<forall>r. Q r s') \<and> (\<forall>e. E e s')"
    and "\<And>s' e. tw_sent s' = tw_sent s \<Longrightarrow> E e s'"
  shows "wp (commit d mac a) Q E s"
  using assms unfolding commit_def by (auto simp: wp_simps split: sum.split prod.split)

lemma commit_start_plan:
  assumes "fst (commit_start mac clk a s) = Inr c"
  shows "map_get (plans (pruneExpired (clk 0) s)) (ca_planHash a) = Some c"
  using commit_start_raw [of mac clk a s c] assms by (metis prod.collapse)

section \<open>Load token lemmas\<close>

lemma lookup_ok:
  "lookupLoadToken mac now token s = (Inr (i, b), s') \<longleftrightarrow>
     s' = s \<and> split_first (CHR ''.'') token = Some (i, mac i) \<and> map_get (loadBindings s) i = Some b \<and>
     now \<le> lb_expiresAt b"
  by (auto simp: lookupLoadToken_def split: option.splits if_splits prod.splits)

lemma lookup_frame:
  "lookupLoadToken mac now token s = (r, s') \<Longrightarrow> plans s' = plans s \<and> tlimiter s' = tlimiter s \<and>
     (loadBindings s' = loadBindings s \<or> (\<exists>i. loadBindings s' = map_delete i (loadBindings s)))"
  by (auto simp: lookupLoadToken_def split: option.splits if_splits prod.splits)

lemma consume_ok:
  "consumeLoadToken mac now token s = (Inr x, s') \<longleftrightarrow>
     (\<exists>i b. split_first (CHR ''.'') token = Some (i, mac i) \<and> map_get (loadBindings s) i = Some b \<and>
        now \<le> lb_expiresAt b \<and> x = lb_binding b \<and> s' = s\<lparr>loadBindings := map_delete i (loadBindings s)\<rparr>)"
proof -
  have "consumeLoadToken mac now token s = (Inr x, s') \<longleftrightarrow>
      (\<exists>i b s1. lookupLoadToken mac now token s = (Inr (i, b), s1) \<and> x = lb_binding b \<and>
         s' = s1\<lparr>loadBindings := map_delete i (loadBindings s1)\<rparr>)"
    by (auto simp: consumeLoadToken_def split: sum.splits prod.splits)
  then show ?thesis unfolding lookup_ok by auto
qed

lemma consume_err:
  "consumeLoadToken mac now token s = (Inl e, s') \<Longrightarrow> lookupLoadToken mac now token s = (Inl e, s')"
  by (auto simp: consumeLoadToken_def split: sum.splits prod.splits)

lemma verify_load_frame:
  "verifyLoadToken mac now token s = (r, s') \<Longrightarrow> plans s' = plans s \<and> tlimiter s' = tlimiter s \<and>
     (loadBindings s' = loadBindings s \<or> (\<exists>i. loadBindings s' = map_delete i (loadBindings s)))"
  by (auto simp: verifyLoadToken_def dest: lookup_frame split: sum.splits prod.splits)

lemma minted_token_split:
  "split_first (CHR ''.'') (base64url rnd @ CHR ''.'' # m) = Some (base64url rnd, m)"
  by (simp add: base64url_no_dot)

section \<open>Properties\<close>

text \<open>C4: transaction tokens: a minted token is accepted with exactly its binding until its
  expiry and refused as expired afterwards, whatever the MAC function; a decoded binding
  passes the commit check exactly when it names the plan hash, fingerprint, instance and
  session of the commit; and a token is only ever accepted if its second part is the MAC
  of its first and that part decodes to the binding returned.\<close>

theorem transaction_token_sound:
  "verifyToken mac now (mintToken mac b) =
     (if now > tb_expiresAt b then Inl (tool_error CONFIRMATION_EXPIRED ''confirmation token has expired'')
      else Inr (binding_json b)) \<and>
   (binds a (binding_json b) = (tb_planHash b = ca_planHash a \<and>
     tb_baseFingerprint b = ca_expectedFingerprint a \<and>
     tb_instanceId b = si_instanceId (ca_instance a) \<and> tb_sessionId b = si_sessionId (ca_instance a))) \<and>
   (case verifyToken mac now t of Inl _ \<Rightarrow> True
    | Inr j \<Rightarrow> (\<exists>body. t = body @ CHR ''.'' # mac body \<and> json_parse (base64url_decode body) = Some j))"
proof (intro conjI)
  show "case verifyToken mac now t of Inl _ \<Rightarrow> True
    | Inr j \<Rightarrow> (\<exists>body. t = body @ CHR ''.'' # mac body \<and> json_parse (base64url_decode body) = Some j)"
    using verify_accepts [of mac now t] by (cases "verifyToken mac now t") auto
qed (rule verify_minted, rule binds_binding)

text \<open>The gate as a condition: what a plan must be for the commit to pass every check.\<close>

definition passes_gate :: "(string \<Rightarrow> string) \<Rightarrow> (nat \<Rightarrow> int) \<Rightarrow> commit_args \<Rightarrow> txm \<Rightarrow> cached_plan \<Rightarrow> bool" where
  "passes_gate mac clk a s c \<longleftrightarrow>
     map_get (plans s) (ca_planHash a) = Some c \<and> clk 0 \<le> cp_expiresAt c \<and>
     cp_instanceId c = si_instanceId (ca_instance a) \<and> cp_sessionId c = si_sessionId (ca_instance a) \<and>
     cp_baseFingerprint c = ca_expectedFingerprint a \<and>
     (if cp_confirmationRequired c then
       (\<exists>t j. ca_confirmationToken a = Some t \<and> t \<noteq> [] \<and> verifyToken mac (clk 1) t = Inr j \<and> binds a j)
      else True) \<and>
     fst (admit (clk 2) (clk 3) (clk 4) (cp_paramChanges c) (tlimiter s)) = Inr ()"

lemma commit_start_gate:
  assumes "map_ok (plans s)"
  shows "(case fst (commit_start mac clk a s) of Inr c \<Rightarrow> passes_gate mac clk a s c | Inl e \<Rightarrow> \<forall>c. \<not> passes_gate mac clk a s c) \<and>
     plans (snd (commit_start mac clk a s)) = prune_plans (clk 0) (plans s) \<and>
     loadBindings (snd (commit_start mac clk a s)) = loadBindings s"
proof -
  obtain r s' where cs: "commit_start mac clk a s = (r, s')" by fastforce
  have "(\<exists>s'. commit_start mac clk a s = (Inr c, s')) \<longleftrightarrow> passes_gate mac clk a s c" for c
    unfolding commit_start_ok [OF assms] by (auto simp: passes_gate_def authorised_def)
  then show ?thesis using commit_start_frame [OF cs] by (auto simp: cs split: sum.split)
qed

text \<open>C3: the commit request reaches the wire if and only if its plan hash is cached and unexpired,
  the plan was previewed for the same instance and session, the expected fingerprint is the one
  it was previewed against, a plan that requires confirmation comes with a non-empty, valid,
  unexpired token that binds this very commit, the limiter admits its parameter changes, and
  then the writer lease is granted.  It is sent once, carries the cached plan, and the plan is
  forgotten iff the plugin answers it; otherwise the call fails, nothing is sent, and of the
  plans only the expired ones are gone.  The load tokens are never touched.  (One call, with no
  other between its segments; for interleaved calls see TxnSystem.)\<close>

theorem commit_gate_exact:
  assumes "map_ok (plans (tw_tm s))" and "d_clk d (tw_world s) = (clk, w)" and "commit d mac a s = (r, s')"
  shows "((\<exists>c. passes_gate mac clk a (tw_tm s) c \<and> fst (d_ensureLease d w) = Inr () \<and>
        tw_sent s' = tw_sent s @ [CommitSent (commit_request_of a c) (d_commitTimeoutMs d)] \<and>
        plans (tw_tm s') = (case r of Inr j \<Rightarrow> map_delete (ca_planHash a) (prune_plans (clk 0) (plans (tw_tm s)))
          | Inl e \<Rightarrow> prune_plans (clk 0) (plans (tw_tm s))) \<and>
        r = fst (d_commit d (commit_request_of a c) (d_commitTimeoutMs d) (snd (d_ensureLease d w)))) \<or>
      \<not> (\<exists>c. passes_gate mac clk a (tw_tm s) c \<and> fst (d_ensureLease d w) = Inr ()) \<and>
        tw_sent s' = tw_sent s \<and> (\<exists>e. r = Inl e) \<and> plans (tw_tm s') = prune_plans (clk 0) (plans (tw_tm s))) \<and>
    loadBindings (tw_tm s') = loadBindings (tw_tm s)"
proof -
  obtain g tm where g: "commit_start mac clk a (tw_tm s) = (g, tm)" by fastforce
  note gate = commit_start_gate [OF assms(1), of mac clk a, unfolded g fst_conv snd_conv]
  obtain l w1 where l: "d_ensureLease d w = (l, w1)" by fastforce
  show ?thesis
  proof (cases g)
    case (Inl e)
    then show ?thesis using assms(2,3) g gate
      by (auto simp: commit_def bind_def andthen_def segment_def Let_def)
  next
    case (Inr c)
    show ?thesis
    proof (cases l)
      case (Inl e)
      then show ?thesis using assms(2,3) g gate Inr l
        by (auto simp: commit_def bind_def andthen_def segment_def external_def Let_def)
    next
      case lease: (Inr u)
      obtain q w2 where q: "d_commit d (commit_request_of a c) (d_commitTimeoutMs d) w1 = (q, w2)" by fastforce
      have c: "passes_gate mac clk a (tw_tm s) c" using gate Inr by simp
      show ?thesis using assms(2,3) g gate c Inr l lease q
        by (intro conjI disjI1 exI [of _ c]; cases q)
          (auto simp: commit_def bind_def andthen_def segment_def external_def send_def modify_def ret_def
            commit_finish_def Let_def)
    qed
  qed
qed

definition sample_instance :: selected_instance where
  "sample_instance = \<lparr>si_instanceId = ''i'', si_sessionId = ''s''\<rparr>"

definition sample_reply :: preview_reply where
  "sample_reply = \<lparr>pv_plan = JNull, pv_planHash = ''h'', pv_baseFingerprint = ''f'', pv_patchEpoch = 3,
     pv_diff = JNull, pv_riskLevel = ''high'', pv_riskFlags = [], pv_riskReasons = [],
     pv_confirmationRequired = True, pv_undoable = True, pv_warnings = []\<rparr>"

definition sample_args :: commit_args where
  "sample_args = \<lparr>ca_operationId = ''op'', ca_planHash = ''h'', ca_expectedFingerprint = ''f'',
     ca_confirmationToken = Some (mintToken rev (plan_binding sample_instance sample_reply 1000)),
     ca_instance = sample_instance\<rparr>"

definition sample_plan :: cached_plan where
  "sample_plan = plan_entry [] sample_instance sample_reply 1000"

definition sample_txm :: txm where
  "sample_txm = new_txm\<lparr>plans := [(''h'', sample_plan)]\<rparr>"

text \<open>A plugin that accepts a preview and a commit.\<close>

definition sample_deps :: "unit txn_deps" where
  "sample_deps = \<lparr>d_clk = (\<lambda>w. (\<lambda>_. 7, w)),
     d_preview = (\<lambda>q w. (Inr (sample_reply\<lparr>pv_confirmationRequired := False\<rparr>), w)),
     d_ensureLease = (\<lambda>w. (Inr (), w)), d_commit = (\<lambda>q t w. (Inr JNull, w)), d_commitTimeoutMs = 30000\<rparr>"

lemma sample_passes: "passes_gate rev (\<lambda>_. 7) sample_args sample_txm sample_plan"
proof -
  have "map_get (plans sample_txm) (ca_planHash sample_args) = Some sample_plan" "7 \<le> cp_expiresAt sample_plan"
    "cp_confirmationRequired sample_plan"
    "fst (admit 7 7 7 (cp_paramChanges sample_plan) (tlimiter sample_txm)) = Inr ()"
    by (simp_all add: sample_txm_def sample_args_def map_get_Cons sample_plan_def plan_entry_def
        sample_reply_def admit_def countParamChanges_def)
  moreover have "authorised rev 7 sample_args sample_plan"
    unfolding sample_plan_def by (rule plan_entry_authorised) (simp_all add: sample_args_def sample_reply_def)
  ultimately show ?thesis by (simp add: passes_gate_def authorised_def)
qed

theorem commit_gate_exact_witness:
  "\<exists>c. tw_sent (snd (commit sample_deps rev sample_args \<lparr>tw_tm = sample_txm, tw_world = (), tw_sent = []\<rparr>)) =
     [CommitSent (commit_request_of sample_args c) 30000]"
proof -
  let ?s = "\<lparr>tw_tm = sample_txm, tw_world = (), tw_sent = []\<rparr> :: unit txn_world"
  obtain r s' where c: "commit sample_deps rev sample_args ?s = (r, s')" by fastforce
  have m: "map_ok (plans (tw_tm ?s))" by (simp add: sample_txm_def map_ok_def)
  have k: "d_clk sample_deps (tw_world ?s) = (\<lambda>_. 7, ())" by (simp add: sample_deps_def)
  have l: "fst (d_ensureLease sample_deps ()) = Inr ()" "d_commitTimeoutMs sample_deps = 30000" by (simp_all add: sample_deps_def)
  from commit_gate_exact [OF m k c] sample_passes l show ?thesis by (auto simp: c)
qed

text \<open>C7: preview then commit: after a successful preview the commit that presents its plan
  hash, fingerprint and token, for the same instance, passes every check up to the rate
  limit until the confirmation lifetime is over, with exactly the plan the plugin replied
  with; and a preview whose expectation fails caches nothing.\<close>

theorem preview_enables_commit:
  assumes "preview_finish mac clk ops inst ex r s = (Inr (r', cf), s')" and "map_ok (plans s)"
    and "ca_planHash a = pv_planHash r'" and "ca_expectedFingerprint a = pv_baseFingerprint r'"
    and "ca_confirmationToken a = Some (cf_confirmationToken cf)" and "ca_instance a = inst"
    and "clk' 0 \<le> clk 0 + confirmationLifetimeMs LIMITS" and "clk' 1 \<le> clk 0 + confirmationLifetimeMs LIMITS"
    and "fst (admit (clk' 2) (clk' 3) (clk' 4) (int (countParamChanges ops)) (tlimiter s)) = Inr ()"
  shows "(\<exists>c s''. commit_start mac clk' a s' = (Inr c, s'') \<and> cp_plan c = pv_plan r \<and>
      cp_paramChanges c = int (countParamChanges ops)) \<and> r' = r \<and>
    \<not> mismatch (pv_patchEpoch r) (ex_patchEpoch ex) \<and> \<not> mismatch (pv_baseFingerprint r) (ex_fingerprint ex)"
proof -
  let ?e = "clk 0 + confirmationLifetimeMs LIMITS"
  note f = assms(1) [unfolded preview_finish_ok]
  let ?c = "plan_entry ops inst r ?e"
  have s': "s' = s\<lparr>plans := map_set (pv_planHash r) ?c (plans s)\<rparr>" and "r' = r"
    and cf: "cf_confirmationToken cf = mintToken mac (plan_binding inst r ?e)"
    using f by auto
  have "authorised mac (clk' 1) a ?c"
    by (rule plan_entry_authorised) (use assms cf \<open>r' = r\<close> in auto)
  moreover have "map_get (plans s') (ca_planHash a) = Some ?c" and "map_ok (plans s')"
    using s' assms(2,3) \<open>r' = r\<close> by simp_all
  ultimately have "\<exists>s''. commit_start mac clk' a s' = (Inr ?c, s'')"
    using assms(7,9) s' by (subst commit_start_ok) (simp_all add: plan_entry_def)
  moreover have "cp_plan ?c = pv_plan r" "cp_paramChanges ?c = int (countParamChanges ops)"
    by (simp_all add: plan_entry_def)
  ultimately show ?thesis using f by blast
qed

theorem preview_enables_commit_witness:
  "\<exists>c s''. commit_start rev (\<lambda>_. 5) (sample_args\<lparr>ca_confirmationToken := Some (mintToken rev
       (plan_binding sample_instance sample_reply (4 + confirmationLifetimeMs LIMITS)))\<rparr>)
     (new_txm\<lparr>plans := [(''h'', plan_entry [] sample_instance sample_reply (4 + confirmationLifetimeMs LIMITS))]\<rparr>)
     = (Inr c, s'') \<and> cp_plan c = JNull"
proof -
  have "preview_finish rev (\<lambda>_. 4) [] sample_instance \<lparr>ex_fingerprint = None, ex_patchEpoch = Some 3\<rparr>
      sample_reply new_txm = (Inr (sample_reply, \<lparr>cf_confirmationToken = mintToken rev
        (plan_binding sample_instance sample_reply (4 + confirmationLifetimeMs LIMITS)),
        cf_confirmationExpiresAt = 4 + confirmationLifetimeMs LIMITS, cf_confirmationRequired = True\<rparr>),
      new_txm\<lparr>plans := [(''h'', plan_entry [] sample_instance sample_reply (4 + confirmationLifetimeMs LIMITS))]\<rparr>)"
    unfolding preview_finish_ok by (simp add: mismatch_def sample_reply_def new_txm_def)
  from preview_enables_commit [OF this, of "sample_args\<lparr>ca_confirmationToken := Some (mintToken rev
       (plan_binding sample_instance sample_reply (4 + confirmationLifetimeMs LIMITS)))\<rparr>" "\<lambda>_. 5"]
  show ?thesis
    by (auto simp: new_txm_def sample_args_def sample_reply_def LIMITS_def admit_def countParamChanges_def)
qed

text \<open>C6: auto-commit never bypasses confirmation: whatever the plugin, the clock and the
  connection do, a build (\<open>build_patch\<close>, \<open>build_recipe\<close>) hands at most its preview and one
  commit to the connection; a plan that adds more than 32 modules is not even previewed;
  and the commit is sent only if auto-commit was asked for, the plugin's reply did not
  require confirmation and met the expected epoch, and it carries exactly the plan, hash,
  fingerprint and epoch of that reply.\<close>

theorem autocommit_never_bypasses:
  assumes "map_ok (plans (tw_tm s))"
  shows "wp (previewAndMaybeCommit d mac inst label ops auto opId epoch)
     (\<lambda>_. sent_safe (build_safe d auto inst label ops epoch) s)
     (\<lambda>_. sent_safe (build_safe d auto inst label ops epoch) s) s"
proof -
  let ?safe = "build_safe d auto inst label ops epoch"
  let ?ex = "\<lparr>ex_fingerprint = None, ex_patchEpoch = epoch\<rparr>"
  have reply: "d_preview d q w = (Inr r, w') \<Longrightarrow> \<exists>w. fst (d_preview d q w) = Inr r" for q w r w'
    by (rule exI [of _ w]) simp
  have pv: "wp (preview d mac label ops inst ?ex)
      (\<lambda>(r, cf) s1. (\<exists>q w. tw_sent s1 = tw_sent s @ [PreviewSent q] \<and> ?safe (PreviewSent q) \<and>
          pq_operations q = ops \<and> fst (d_preview d q w) = Inr r) \<and>
        \<not> mismatch (pv_patchEpoch r) epoch \<and> cf_confirmationRequired cf = pv_confirmationRequired r \<and>
        map_ok (plans (tw_tm s1)) \<and>
        (\<exists>e. map_get (plans (tw_tm s1)) (pv_planHash r) = Some (plan_entry ops inst r e)))
      (\<lambda>_ s1. sent_safe ?safe s s1) s"
    using assms
    by (auto simp: preview_def wp_simps preview_start_ok preview_finish_ok sent_safe_def build_safe_def
        pruneExpired_def prune_plans_def intro: reply dest!: preview_finish_err split: sum.split prod.split)
  show ?thesis
    unfolding previewAndMaybeCommit_def wp_bind
  proof (rule wp_mono [OF pv], goal_cases)
    case (1 x s1)
    obtain r cf where x: "x = (r, cf)" by (cases x)
    from 1 x obtain q w e where s1: "tw_sent s1 = tw_sent s @ [PreviewSent q]" "?safe (PreviewSent q)"
      "pq_operations q = ops" "fst (d_preview d q w) = Inr r" "\<not> mismatch (pv_patchEpoch r) epoch"
      "cf_confirmationRequired cf = pv_confirmationRequired r" "map_ok (plans (tw_tm s1))"
      "map_get (plans (tw_tm s1)) (pv_planHash r) = Some (plan_entry ops inst r e)" by auto
    have stop: "tw_sent s2 = tw_sent s1 \<Longrightarrow> sent_safe ?safe s s2" for s2
      using s1 by (simp add: sent_safe_def)
    let ?a = "\<lparr>ca_operationId = opId, ca_planHash = pv_planHash r,
      ca_expectedFingerprint = pv_baseFingerprint r, ca_confirmationToken = None, ca_instance = inst\<rparr>"
    have go: "sent_safe ?safe s s2"
      if "fst (commit_start mac (fst (d_clk d (tw_world s1))) ?a (tw_tm s1)) = Inr c"
        and "tw_sent s2 = tw_sent s1 @ [CommitSent (commit_request_of ?a c) (d_commitTimeoutMs d)]"
        and "auto" and "\<not> cf_confirmationRequired cf" for c s2
    proof -
      have "map_get (plans (tw_tm s1)) (pv_planHash r) = Some c"
        using commit_start_plan [OF that(1)] plan_store.prune_sub [OF s1(7)] by (simp add: pruneExpired_def)
      then have c: "c = plan_entry ops inst r e" using s1(8) by simp
      have "?safe (CommitSent (commit_request_of ?a c) (d_commitTimeoutMs d))"
        using that(3,4) s1 unfolding c build_safe_def
        by (auto simp: commit_request_of_def plan_entry_def)
      then show ?thesis using that(2) s1 by (simp add: sent_safe_def)
    qed
    show ?case
    proof (cases "\<not> auto \<or> cf_confirmationRequired cf")
      case True
      then show ?thesis using x stop [of s1] by (simp add: wp_ret)
    next
      case False
      have "wp (commit d mac ?a) (\<lambda>_. sent_safe ?safe s) (\<lambda>_. sent_safe ?safe s) s1"
        by (rule wp_commit_sent) (use go stop False in auto)
      then show ?thesis using False x by (simp add: wp_bind wp_ret)
    qed
  qed
qed

theorem autocommit_never_bypasses_witness:
  "wp (previewAndMaybeCommit sample_deps rev sample_instance ''l'' [] True ''op'' None)
     (\<lambda>_. sent_safe (build_safe sample_deps True sample_instance ''l'' [] None)
        \<lparr>tw_tm = new_txm, tw_world = (), tw_sent = []\<rparr>)
     (\<lambda>_. sent_safe (build_safe sample_deps True sample_instance ''l'' [] None)
        \<lparr>tw_tm = new_txm, tw_world = (), tw_sent = []\<rparr>)
     \<lparr>tw_tm = new_txm, tw_world = (), tw_sent = []\<rparr>"
  by (rule autocommit_never_bypasses) (simp add: new_txm_def)

text \<open>A load token works once: until its expiry it verifies to exactly the binding it was
  minted with, any number of times and without changing the manager; consuming it returns
  the same binding; after that, and equally after its expiry, every use fails with
  CONFIRMATION_EXPIRED; and no other binding is disturbed by any of this.\<close>

theorem load_token_lifecycle:
  assumes "mintLoadToken mac now rnd b s = (token, s1)" and "map_ok (loadBindings s)"
    and "t \<le> now + confirmationLifetimeMs LIMITS"
  shows "verifyLoadToken mac t token s1 = (Inr b, s1) \<and>
    fst (consumeLoadToken mac t token s1) = Inr b \<and>
    (case fst (verifyLoadToken mac u token (snd (consumeLoadToken mac t token s1))) of
       Inl e \<Rightarrow> ep_code (toErrorPayload e) = CONFIRMATION_EXPIRED | Inr _ \<Rightarrow> False) \<and>
    (case fst (verifyLoadToken mac (now + confirmationLifetimeMs LIMITS + 1) token s1) of
       Inl e \<Rightarrow> ep_code (toErrorPayload e) = CONFIRMATION_EXPIRED | Inr _ \<Rightarrow> False) \<and>
    (i = base64url rnd \<or> map_get (loadBindings (snd (consumeLoadToken mac t token s1))) i =
       map_get (prune_loads now (loadBindings s)) i)"
proof -
  let ?i = "base64url rnd" and ?b = "\<lparr>lb_binding = b, lb_expiresAt = now + confirmationLifetimeMs LIMITS\<rparr>"
  have token: "split_first (CHR ''.'') token = Some (?i, mac ?i)"
    and s1: "s1 = s\<lparr>loadBindings := map_set ?i ?b (prune_loads now (loadBindings s))\<rparr>"
    using assms(1) by (auto simp: mintLoadToken_def Let_def minted_token_split)
  have get: "map_get (loadBindings s1) ?i = Some ?b" by (simp add: s1)
  have look: "lookupLoadToken mac t token s1 = (Inr (?i, ?b), s1)"
    using token get assms(3) by (simp add: lookup_ok)
  then have con: "consumeLoadToken mac t token s1 =
      (Inr b, s1\<lparr>loadBindings := map_delete ?i (loadBindings s1)\<rparr>)"
    by (simp add: consumeLoadToken_def)
  have "verifyLoadToken mac t token s1 = (Inr b, s1)" using look by (simp add: verifyLoadToken_def)
  moreover have "ep_code (toErrorPayload e) = CONFIRMATION_EXPIRED"
    if "fst (verifyLoadToken mac u token (snd (consumeLoadToken mac t token s1))) = Inl e" for e
    using that con token load_store.single_use
    by (auto simp: verifyLoadToken_def lookupLoadToken_def)
  moreover have "\<exists>e. fst (verifyLoadToken mac u token (snd (consumeLoadToken mac t token s1))) = Inl e"
    using con token by (simp add: verifyLoadToken_def lookupLoadToken_def)
  moreover have "\<exists>e. fst (verifyLoadToken mac (now + confirmationLifetimeMs LIMITS + 1) token s1) = Inl e \<and>
      ep_code (toErrorPayload e) = CONFIRMATION_EXPIRED"
    using get token by (simp add: verifyLoadToken_def lookupLoadToken_def)
  moreover have "i = ?i \<or> map_get (loadBindings (snd (consumeLoadToken mac t token s1))) i =
      map_get (prune_loads now (loadBindings s)) i"
    using con by (simp add: s1)
  ultimately show ?thesis using con by (auto split: sum.split)
qed

definition sample_load :: load_token_binding where
  "sample_load = \<lparr>lt_instanceId = ''i'', lt_sessionId = ''s'', lt_kind = ClearPatch, lt_path = None,
     lt_patchEpoch = 1, lt_fingerprint = ''f''\<rparr>"

theorem load_token_lifecycle_witness:
  "verifyLoadToken rev 9 (fst (mintLoadToken rev 5 ''abc'' sample_load new_txm))
     (snd (mintLoadToken rev 5 ''abc'' sample_load new_txm)) =
   (Inr sample_load, snd (mintLoadToken rev 5 ''abc'' sample_load new_txm))"
  using load_token_lifecycle [of rev 5 "''abc''" sample_load new_txm _ _ 9 _ "[]"]
  by (simp add: new_txm_def LIMITS_def)

end
