(* ===== verification/TxnSystem.thy ===== *)
theory TxnSystem
  imports Transactions
begin

text \<open>
  The transaction manager under concurrent tool calls.  Node runs the handlers of
  \<open>apps/mcp-server/src/transactions.ts\<close> one synchronous segment at a time, but a handler
  that awaits the lease or the plugin lets others run: a state is the manager, the clock
  and the calls in flight, and a step runs one segment or delivers one answer, in any
  order.  The remaining fields are ghosts that record what has happened.
\<close>

datatype flight =
    Previewing "patch_operation list" selected_instance expectation
  | Leasing commit_args cached_plan
  | Committing commit_args cached_plan

record previewed =
  gp_operations :: "patch_operation list"
  gp_instance :: selected_instance
  gp_reply :: preview_reply
  gp_expiresAt :: int

record sent_commit =
  gs_request :: commit_request
  gs_args :: commit_args
  gs_plan :: cached_plan

record sys =
  y_tm :: txm
  y_now :: int
  y_calls :: "flight list"
  y_previewed :: "previewed list"
  y_sent :: "sent_commit list"
  y_admitted :: "int list"
  y_minted :: "(string \<times> load_token_binding) list"
  y_consumed :: "(string \<times> load_token_binding) list"

definition init_sys :: sys where
  "init_sys = \<lparr>y_tm = new_txm, y_now = 0, y_calls = [], y_previewed = [], y_sent = [], y_admitted = [],
     y_minted = [], y_consumed = []\<rparr>"

text \<open>The clock readings of one segment do not go backwards and end at the new time.\<close>

definition clk_ok :: "int \<Rightarrow> (nat \<Rightarrow> int) \<Rightarrow> int \<Rightarrow> bool" where
  "clk_ok now clk now' = (now \<le> clk 0 \<and> clk 0 \<le> clk 1 \<and> clk 1 \<le> clk 2 \<and> clk 2 \<le> clk 3 \<and> clk 3 \<le> clk 4 \<and>
     clk 4 \<le> now')"

inductive step :: "(string \<Rightarrow> string) \<Rightarrow> sys \<Rightarrow> sys \<Rightarrow> bool" for mac where
  tick: "y_now y \<le> t \<Longrightarrow> step mac y (y\<lparr>y_now := t\<rparr>)"
| preview_call: "clk_ok (y_now y) clk t \<Longrightarrow> preview_start clk label ops inst (y_tm y) = (Inr q, tm) \<Longrightarrow>
    step mac y (y\<lparr>y_tm := tm, y_now := t, y_calls := Previewing ops inst ex # y_calls y\<rparr>)"
| preview_refused: "clk_ok (y_now y) clk t \<Longrightarrow> preview_start clk label ops inst (y_tm y) = (Inl e, tm) \<Longrightarrow>
    step mac y (y\<lparr>y_tm := tm, y_now := t\<rparr>)"
| preview_reply: "Previewing ops inst ex \<in> set (y_calls y) \<Longrightarrow> clk_ok (y_now y) clk t \<Longrightarrow>
    preview_finish mac clk ops inst ex r (y_tm y) = (Inr x, tm) \<Longrightarrow>
    step mac y (y\<lparr>y_tm := tm, y_now := t, y_calls := remove1 (Previewing ops inst ex) (y_calls y),
      y_previewed := \<lparr>gp_operations = ops, gp_instance = inst, gp_reply = r,
        gp_expiresAt = clk 0 + confirmationLifetimeMs LIMITS\<rparr> # y_previewed y\<rparr>)"
| preview_stale: "Previewing ops inst ex \<in> set (y_calls y) \<Longrightarrow>
    preview_finish mac clk ops inst ex r (y_tm y) = (Inl e, tm) \<Longrightarrow>
    step mac y (y\<lparr>y_tm := tm, y_calls := remove1 (Previewing ops inst ex) (y_calls y)\<rparr>)"
| commit_call: "clk_ok (y_now y) clk t \<Longrightarrow> commit_start mac clk a (y_tm y) = (Inr c, tm) \<Longrightarrow>
    step mac y (y\<lparr>y_tm := tm, y_now := t, y_calls := Leasing a c # y_calls y,
      y_admitted := y_admitted y @ replicate (nat (cp_paramChanges c)) (clk 4)\<rparr>)"
| commit_refused: "clk_ok (y_now y) clk t \<Longrightarrow> commit_start mac clk a (y_tm y) = (Inl e, tm) \<Longrightarrow>
    step mac y (y\<lparr>y_tm := tm, y_now := t\<rparr>)"
| lease_held: "Leasing a c \<in> set (y_calls y) \<Longrightarrow>
    step mac y (y\<lparr>y_calls := Committing a c # remove1 (Leasing a c) (y_calls y),
      y_sent := \<lparr>gs_request = commit_request_of a c, gs_args = a, gs_plan = c\<rparr> # y_sent y\<rparr>)"
| commit_done: "Committing a c \<in> set (y_calls y) \<Longrightarrow>
    step mac y (y\<lparr>y_tm := commit_finish (ca_planHash a) (y_tm y),
      y_calls := remove1 (Committing a c) (y_calls y)\<rparr>)"
| rejected: "f \<in> set (y_calls y) \<Longrightarrow> step mac y (y\<lparr>y_calls := remove1 f (y_calls y)\<rparr>)"
| mint: "y_now y \<le> t \<Longrightarrow> base64url rnd \<notin> fst ` set (y_minted y) \<Longrightarrow>
    mintLoadToken mac t rnd b (y_tm y) = (token, tm) \<Longrightarrow>
    step mac y (y\<lparr>y_tm := tm, y_now := t, y_minted := (base64url rnd, b) # y_minted y\<rparr>)"
| verify: "y_now y \<le> t \<Longrightarrow> verifyLoadToken mac t token (y_tm y) = (r, tm) \<Longrightarrow>
    step mac y (y\<lparr>y_tm := tm, y_now := t\<rparr>)"
| consume: "y_now y \<le> t \<Longrightarrow> consumeLoadToken mac t token (y_tm y) = (Inr b, tm) \<Longrightarrow>
    split_first (CHR ''.'') token = Some (i, m) \<Longrightarrow>
    step mac y (y\<lparr>y_tm := tm, y_now := t, y_consumed := (i, b) # y_consumed y\<rparr>)"
| consume_refused: "y_now y \<le> t \<Longrightarrow> consumeLoadToken mac t token (y_tm y) = (Inl e, tm) \<Longrightarrow>
    step mac y (y\<lparr>y_tm := tm, y_now := t\<rparr>)"

inductive_cases stepE: "step mac y y'"

inductive reachable :: "(string \<Rightarrow> string) \<Rightarrow> sys \<Rightarrow> bool" for mac where
  start: "reachable mac init_sys"
| more_steps: "reachable mac y \<Longrightarrow> step mac y y' \<Longrightarrow> reachable mac y'"

section \<open>What a plan in the system rests on\<close>

text \<open>The plan was put together from a completed preview of at most 32 added modules.\<close>

definition from_preview :: "previewed list \<Rightarrow> string \<Rightarrow> cached_plan \<Rightarrow> bool" where
  "from_preview gs h c = (\<exists>g \<in> set gs. pv_planHash (gp_reply g) = h \<and>
     count_added (gp_operations g) \<le> txnMaxAddedModules LIMITS \<and>
     c = plan_entry (gp_operations g) (gp_instance g) (gp_reply g) (gp_expiresAt g))"

text \<open>A commit in flight passed the gate at some time in its plan's life.\<close>

definition gated :: "(string \<Rightarrow> string) \<Rightarrow> previewed list \<Rightarrow> commit_args \<Rightarrow> cached_plan \<Rightarrow> bool" where
  "gated mac gs a c = (from_preview gs (ca_planHash a) c \<and>
     (\<exists>t0 t1. t0 \<le> t1 \<and> t0 \<le> cp_expiresAt c \<and> authorised mac t1 a c))"

definition plans_inv :: "sys \<Rightarrow> bool" where
  "plans_inv y = (map_ok (plans (y_tm y)) \<and>
     (\<forall>h c. map_get (plans (y_tm y)) h = Some c \<longrightarrow> from_preview (y_previewed y) h c))"

fun flight_ok :: "(string \<Rightarrow> string) \<Rightarrow> previewed list \<Rightarrow> flight \<Rightarrow> bool" where
  "flight_ok mac gs (Previewing ops inst ex) = (count_added ops \<le> txnMaxAddedModules LIMITS)"
| "flight_ok mac gs (Leasing a c) = gated mac gs a c"
| "flight_ok mac gs (Committing a c) = gated mac gs a c"

definition calls_inv :: "(string \<Rightarrow> string) \<Rightarrow> sys \<Rightarrow> bool" where
  "calls_inv mac y = (\<forall>f \<in> set (y_calls y). flight_ok mac (y_previewed y) f)"

definition sent_inv :: "(string \<Rightarrow> string) \<Rightarrow> sys \<Rightarrow> bool" where
  "sent_inv mac y = (\<forall>g \<in> set (y_sent y). gs_request g = commit_request_of (gs_args g) (gs_plan g) \<and>
     gated mac (y_previewed y) (gs_args g) (gs_plan g))"

definition loads_inv :: "sys \<Rightarrow> bool" where
  "loads_inv y = (map_ok (loadBindings (y_tm y)) \<and>
     (\<forall>i b. map_get (loadBindings (y_tm y)) i = Some b \<longrightarrow>
        (i, lb_binding b) \<in> set (y_minted y) \<and> i \<notin> fst ` set (y_consumed y)) \<and>
     distinct (map fst (y_minted y)) \<and> distinct (map fst (y_consumed y)) \<and>
     set (y_consumed y) \<subseteq> set (y_minted y))"

definition limit_inv :: "sys \<Rightarrow> bool" where
  "limit_inv y = (rlimit (tlimiter (y_tm y)) = paramChangesPerSecond LIMITS \<and>
     windowMs (tlimiter (y_tm y)) = 1000 \<and>
     (\<exists>t \<le> y_now y. lim_inv t (y_admitted y) (tlimiter (y_tm y))))"

section \<open>Frames of the segments\<close>

lemma preview_start_frame:
  "preview_start clk label ops inst s = (r, s') \<Longrightarrow> s' = pruneExpired (clk 0) s"
  by (auto simp: preview_start_def Let_def split: if_splits)

lemma pruneExpired_frame [simp]:
  "loadBindings (pruneExpired t s) = loadBindings s" "tlimiter (pruneExpired t s) = tlimiter s"
  "plans (pruneExpired t s) = prune_plans t (plans s)"
  by (simp_all add: pruneExpired_def)

lemma preview_finish_frame:
  "preview_finish mac clk ops inst ex r s = (x, s') \<Longrightarrow>
     loadBindings s' = loadBindings s \<and> tlimiter s' = tlimiter s"
  by (auto simp: preview_finish_def Let_def split: if_splits)

lemma mint_frame:
  "mintLoadToken mac t rnd b s = (tok, s') \<Longrightarrow> plans s' = plans s \<and> tlimiter s' = tlimiter s \<and>
     loadBindings s' = map_set (base64url rnd) \<lparr>lb_binding = b, lb_expiresAt = t + confirmationLifetimeMs LIMITS\<rparr>
       (prune_loads t (loadBindings s))"
  by (auto simp: mintLoadToken_def Let_def)

lemma consume_frame:
  "consumeLoadToken mac now token s = (r, s') \<Longrightarrow> plans s' = plans s \<and> tlimiter s' = tlimiter s \<and>
     (loadBindings s' = loadBindings s \<or> (\<exists>i. loadBindings s' = map_delete i (loadBindings s)))"
  by (cases r) (auto simp: consume_ok dest!: consume_err lookup_frame)

lemma commit_finish_frame [simp]:
  "loadBindings (commit_finish h s) = loadBindings s" "tlimiter (commit_finish h s) = tlimiter s"
  "plans (commit_finish h s) = map_delete h (plans s)"
  by (simp_all add: commit_finish_def)

text \<open>What the gate does to the limiter, exactly.\<close>

definition gate_request :: "(nat \<Rightarrow> int) \<Rightarrow> int \<Rightarrow> request" where
  "gate_request clk n = \<lparr>rq_t1 = clk 2, rq_t2 = clk 3, rq_t3 = clk 4, rq_count = n\<rparr>"

lemma commit_start_limiter_ok:
  assumes "commit_start mac clk a s = (Inr c, s')" and "0 < rlimit (tlimiter s)"
  shows "tlimiter s' = snd (admit_rq (gate_request clk (cp_paramChanges c)) (tlimiter s)) \<and>
    admitted (tlimiter s) (gate_request clk (cp_paramChanges c)) = replicate (nat (cp_paramChanges c)) (clk 4)"
  using assms
  by (auto simp: commit_start_def Let_def gate_request_def admit_rq_def admitted_def
      split: option.splits if_splits sum.splits prod.splits)

lemma commit_start_limiter_err:
  assumes "commit_start mac clk a s = (Inl e, s')" and "0 < rlimit (tlimiter s)"
  shows "tlimiter s' = tlimiter s \<or> (\<exists>n. tlimiter s' = snd (admit_rq (gate_request clk n) (tlimiter s)) \<and>
    admitted (tlimiter s) (gate_request clk n) = [])"
proof -
  have key: "admit (clk 2) (clk 3) (clk 4) n l = (Inl x, l') \<Longrightarrow>
      \<exists>n. l' = snd (admit_rq (gate_request clk n) l) \<and> admitted l (gate_request clk n) = []" for n l x l'
    by (rule exI [of _ n]) (simp add: gate_request_def admit_rq_def admitted_def)
  show ?thesis using assms(1)
    by (auto simp: commit_start_def Let_def dest: key split: option.splits if_splits sum.splits prod.splits)
qed

section \<open>The invariants are preserved\<close>

lemma from_preview_mono: "from_preview gs h c \<Longrightarrow> set gs \<subseteq> set gs' \<Longrightarrow> from_preview gs' h c"
  by (auto simp: from_preview_def)

lemma gated_mono: "gated mac gs a c \<Longrightarrow> set gs \<subseteq> set gs' \<Longrightarrow> gated mac gs' a c"
  by (auto simp: gated_def intro: from_preview_mono)

lemma flight_ok_mono: "flight_ok mac gs f \<Longrightarrow> set gs \<subseteq> set gs' \<Longrightarrow> flight_ok mac gs' f"
  by (cases f) (auto intro: gated_mono)

lemma previewed_grows: "step mac y y' \<Longrightarrow> set (y_previewed y) \<subseteq> set (y_previewed y')"
  by (erule stepE) auto

lemma plans_inv_prune:
  assumes "plans_inv y" and "plans (y_tm y') = prune_plans t (plans (y_tm y))"
    and "y_previewed y' = y_previewed y"
  shows "plans_inv y'"
  using assms plan_store.prune_sub [of "plans (y_tm y)" t] plan_store.wf_prune
  by (auto simp: plans_inv_def)

lemma plans_inv_same:
  assumes "plans_inv y" and "plans (y_tm y') = plans (y_tm y)" and "y_previewed y' = y_previewed y"
  shows "plans_inv y'"
  using assms by (simp add: plans_inv_def)

lemma plans_inv_step:
  assumes "step mac y y'" and "plans_inv y" and "calls_inv mac y"
  shows "plans_inv y'"
  using assms(1)
proof cases
  case (preview_reply ops inst ex clk t r x tm)
  then have "count_added ops \<le> txnMaxAddedModules LIMITS"
    using assms(3) by (force simp: calls_inv_def)
  then show ?thesis
    using assms(2) preview_reply
    by (auto simp: plans_inv_def preview_finish_ok from_preview_def)
next
  case (commit_done a c)
  then show ?thesis using assms(2) by (auto simp: plans_inv_def)
next
  case (preview_call clk t label ops inst q tm ex)
  then show ?thesis using assms(2) by (intro plans_inv_prune [OF assms(2)]) (auto dest: preview_start_frame)
next
  case (preview_refused clk t label ops inst e tm)
  then show ?thesis by (intro plans_inv_prune [OF assms(2)]) (auto dest: preview_start_frame)
next
  case (commit_call clk t a c tm)
  then show ?thesis by (intro plans_inv_prune [OF assms(2)]) (auto dest: commit_start_frame)
next
  case (commit_refused clk t a e tm)
  then show ?thesis by (intro plans_inv_prune [OF assms(2)]) (auto dest: commit_start_frame)
qed (rule plans_inv_same [OF assms(2)]; auto dest: preview_finish_err mint_frame verify_load_frame consume_frame)+

lemma calls_inv_step:
  assumes "step mac y y'" and "plans_inv y" and "calls_inv mac y"
  shows "calls_inv mac y'"
proof -
  have sub: "set (remove1 f (y_calls y)) \<subseteq> set (y_calls y)" for f by (rule set_remove1_subset)
  have old: "calls_inv mac y'" if "set (y_calls y') \<subseteq> set (y_calls y)"
    using that assms(3) flight_ok_mono [OF _ previewed_grows [OF assms(1)]] by (auto simp: calls_inv_def)
  show ?thesis using assms(1)
  proof cases
    case (preview_call clk t label ops inst q tm ex)
    then show ?thesis using assms(3) by (auto simp: calls_inv_def preview_start_ok)
  next
    case (commit_call clk t a c tm)
    have "map_get (plans (y_tm y)) (ca_planHash a) = Some c" "clk 0 \<le> cp_expiresAt c" "authorised mac (clk 1) a c"
      using commit_call commit_start_ok [of "y_tm y" mac clk a c] assms(2) by (auto simp: plans_inv_def)
    then have "gated mac (y_previewed y) a c"
      using assms(2) commit_call by (auto simp: gated_def plans_inv_def clk_ok_def)
    then show ?thesis using assms(3) commit_call by (auto simp: calls_inv_def)
  next
    case (lease_held a c)
    then show ?thesis using assms(3) sub [of "Leasing a c"] by (auto simp: calls_inv_def)
  qed (rule old; use sub in auto)+
qed

lemma sent_inv_step:
  assumes "step mac y y'" and "calls_inv mac y" and "sent_inv mac y"
  shows "sent_inv mac y'"
proof -
  have old: "sent_inv mac y'" if "y_sent y' = y_sent y"
    using that assms(3) gated_mono [OF _ previewed_grows [OF assms(1)]] by (auto simp: sent_inv_def)
  show ?thesis using assms(1)
  proof cases
    case (lease_held a c)
    then have "gated mac (y_previewed y) a c" using assms(2) by (force simp: calls_inv_def)
    then show ?thesis using lease_held assms(3) by (auto simp: sent_inv_def)
  qed (rule old; simp)+
qed

lemma loads_inv_same:
  assumes "loads_inv y" and "loadBindings (y_tm y') = loadBindings (y_tm y) \<or>
      (\<exists>i. loadBindings (y_tm y') = map_delete i (loadBindings (y_tm y)))"
    and "y_minted y' = y_minted y" and "y_consumed y' = y_consumed y"
  shows "loads_inv y'"
proof -
  have "map_get (loadBindings (y_tm y')) i = Some b \<Longrightarrow> map_get (loadBindings (y_tm y)) i = Some b" for i b
    using assms(2) by (auto split: if_splits)
  moreover have "map_ok (loadBindings (y_tm y'))" using assms(1,2) by (auto simp: loads_inv_def)
  ultimately show ?thesis using assms(1) unfolding loads_inv_def assms(3,4) by blast
qed

lemma loads_inv_step:
  assumes "step mac y y'" and "loads_inv y"
  shows "loads_inv y'"
  using assms(1)
proof cases
  case (mint t rnd b token tm)
  let ?i = "base64url rnd"
  from mint_frame [OF mint(4)] have tm: "loadBindings tm = map_set ?i
      \<lparr>lb_binding = b, lb_expiresAt = t + confirmationLifetimeMs LIMITS\<rparr> (prune_loads t (loadBindings (y_tm y)))"
    by simp
  have sub: "map_get (prune_loads t (loadBindings (y_tm y))) i = Some x \<Longrightarrow>
      map_get (loadBindings (y_tm y)) i = Some x" for i x
    using load_store.prune_sub assms(2) by (auto simp: loads_inv_def)
  have "?i \<notin> fst ` set (y_consumed y)" using assms(2) mint(3) by (force simp: loads_inv_def)
  then show ?thesis
    using assms(2) mint sub load_store.wf_prune
    by (auto simp: loads_inv_def tm split: if_splits)
next
  case (consume t token b tm i m)
  then obtain x where x: "map_get (loadBindings (y_tm y)) i = Some x" "b = lb_binding x"
    "tm = y_tm y\<lparr>loadBindings := map_delete i (loadBindings (y_tm y))\<rparr>"
    by (auto simp: consume_ok)
  then show ?thesis
    using assms(2) consume by (auto simp: loads_inv_def split: if_splits)
qed (rule loads_inv_same [OF assms(2)];
     auto dest: preview_start_frame preview_finish_frame commit_start_frame verify_load_frame consume_frame)+

lemma lim_inv_later: "lim_inv t H l \<Longrightarrow> t \<le> u \<Longrightarrow> lim_inv u H l"
  unfolding lim_inv_def by fastforce

lemma limit_inv_same:
  assumes "limit_inv y" and "tlimiter (y_tm y') = tlimiter (y_tm y)" and "y_admitted y' = y_admitted y"
    and "y_now y \<le> y_now y'"
  shows "limit_inv y'"
  using assms by (auto simp: limit_inv_def intro: order_trans)

lemma admit_rq_params: "rlimit (snd (admit_rq r l)) = rlimit l" "windowMs (snd (admit_rq r l)) = windowMs l"
  by (simp_all add: admit_rq_def admit_def Let_def)

lemma limit_inv_gate:
  assumes "limit_inv y" and "clk_ok (y_now y) clk t"
    and "tlimiter (y_tm y') = snd (admit_rq (gate_request clk n) (tlimiter (y_tm y)))"
    and "y_admitted y' = y_admitted y @ admitted (tlimiter (y_tm y)) (gate_request clk n)"
    and "y_now y' = t"
  shows "limit_inv y'"
proof -
  from assms(1) obtain u where u: "u \<le> y_now y" "lim_inv u (y_admitted y) (tlimiter (y_tm y))"
    by (auto simp: limit_inv_def)
  have "lim_inv (rq_t3 (gate_request clk n))
      (y_admitted y @ admitted (tlimiter (y_tm y)) (gate_request clk n))
      (snd (admit_rq (gate_request clk n) (tlimiter (y_tm y))))"
    by (rule admit_rq_inv [OF u(2)]) (use u(1) assms(2) in \<open>auto simp: gate_request_def clk_ok_def\<close>)
  then show ?thesis
    using assms by (auto simp: limit_inv_def admit_rq_params gate_request_def clk_ok_def)
qed

lemma limit_inv_step:
  assumes "step mac y y'" and "limit_inv y"
  shows "limit_inv y'"
proof -
  have pos: "0 < rlimit (tlimiter (y_tm y))" using assms(2) by (simp add: limit_inv_def LIMITS_def)
  show ?thesis using assms(1)
  proof cases
    case (commit_call clk t a c tm)
    show ?thesis
      by (rule limit_inv_gate [OF assms(2) commit_call(2), of _ "cp_paramChanges c"])
        (use commit_start_limiter_ok [OF commit_call(3) pos] commit_call(1) in simp_all)
  next
    case (commit_refused clk t a e tm)
    from commit_start_limiter_err [OF commit_refused(3) pos] show ?thesis
    proof (elim disjE exE)
      assume "tlimiter tm = tlimiter (y_tm y)"
      then show ?thesis using commit_refused
        by (intro limit_inv_same [OF assms(2)]) (auto simp: clk_ok_def)
    next
      fix n
      assume "tlimiter tm = snd (admit_rq (gate_request clk n) (tlimiter (y_tm y))) \<and>
        admitted (tlimiter (y_tm y)) (gate_request clk n) = []"
      then show ?thesis using commit_refused
        by (intro limit_inv_gate [OF assms(2) commit_refused(2), of _ n]) auto
    qed
  qed (rule limit_inv_same [OF assms(2)];
       auto simp: clk_ok_def dest: preview_start_frame preview_finish_frame mint_frame verify_load_frame consume_frame)+
qed

lemma reachable_inv:
  "reachable mac y \<Longrightarrow> plans_inv y \<and> calls_inv mac y \<and> sent_inv mac y \<and> loads_inv y \<and> limit_inv y"
proof (induction rule: reachable.induct)
  case start
  have "lim_inv 0 [] new_limiter"
    unfolding new_limiter_def by (rule lim_inv_new) (simp_all add: LIMITS_def)
  then show ?case
    by (auto simp: init_sys_def new_txm_def plans_inv_def calls_inv_def sent_inv_def loads_inv_def limit_inv_def
        new_limiter_def)
next
  case (more_steps y y')
  then show ?case
    using plans_inv_step calls_inv_step sent_inv_step loads_inv_step limit_inv_step by blast
qed

section \<open>A concrete run\<close>

text \<open>One preview of a plan that requires confirmation, then two overlapping commits with the
  same token, for any MAC.\<close>

definition run_plan :: cached_plan where
  "run_plan = plan_entry [] sample_instance sample_reply (confirmationLifetimeMs LIMITS)"

definition run_args :: "(string \<Rightarrow> string) \<Rightarrow> commit_args" where
  "run_args mac = \<lparr>ca_operationId = ''op'', ca_planHash = ''h'', ca_expectedFingerprint = ''f'',
     ca_confirmationToken = Some (mintToken mac (plan_binding sample_instance sample_reply (confirmationLifetimeMs LIMITS))),
     ca_instance = sample_instance\<rparr>"

definition run_sent :: "(string \<Rightarrow> string) \<Rightarrow> sent_commit" where
  "run_sent mac = \<lparr>gs_request = commit_request_of (run_args mac) run_plan, gs_args = run_args mac, gs_plan = run_plan\<rparr>"

lemma run_commit:
  assumes "plans s = [(''h'', run_plan)]"
  shows "\<exists>s'. commit_start mac (\<lambda>_. 0) (run_args mac) s = (Inr run_plan, s') \<and> plans s' = [(''h'', run_plan)]"
proof -
  have ok: "map_ok (plans s)" using assms by (simp add: map_ok_def)
  have "authorised mac 0 (run_args mac) run_plan"
    unfolding run_plan_def by (rule plan_entry_authorised) (simp_all add: run_args_def sample_reply_def LIMITS_def)
  then have "\<exists>s'. commit_start mac (\<lambda>_. 0) (run_args mac) s = (Inr run_plan, s')"
    unfolding commit_start_ok [OF ok] using assms
    by (simp add: run_args_def map_get_Cons run_plan_def plan_entry_def LIMITS_def admit_def countParamChanges_def)
  then obtain s' where s': "commit_start mac (\<lambda>_. 0) (run_args mac) s = (Inr run_plan, s')" by blast
  have "plans s' = prune_plans 0 (plans s)" using commit_start_frame [OF s'] by simp
  then show ?thesis
    using s' assms by (simp add: prune_plans_def map_prune_def run_plan_def plan_entry_def LIMITS_def)
qed

lemma run_previewed:
  "\<exists>y. reachable mac y \<and> y_now y = 0 \<and> plans (y_tm y) = [(''h'', run_plan)] \<and> y_calls y = [] \<and> y_sent y = []"
proof -
  let ?ex = "\<lparr>ex_fingerprint = None, ex_patchEpoch = Some 3\<rparr>" and ?call = "Previewing [] sample_instance"
  let ?tm1 = "pruneExpired 0 new_txm"
  let ?y1 = "init_sys\<lparr>y_tm := ?tm1, y_now := 0, y_calls := ?call ?ex # y_calls init_sys\<rparr>"
  let ?y2 = "?y1\<lparr>y_tm := ?tm1\<lparr>plans := map_set ''h'' run_plan (plans ?tm1)\<rparr>, y_now := 0,
    y_calls := remove1 (?call ?ex) (y_calls ?y1),
    y_previewed := \<lparr>gp_operations = [], gp_instance = sample_instance, gp_reply = sample_reply,
      gp_expiresAt = 0 + confirmationLifetimeMs LIMITS\<rparr> # y_previewed ?y1\<rparr>"
  have "step mac init_sys ?y1"
    by (rule step.preview_call [where label = "''l''" and clk = "\<lambda>_. 0"])
      (simp_all add: preview_start_ok count_added_def init_sys_def clk_ok_def)
  then have r1: "reachable mac ?y1" by (rule reachable.more_steps [OF reachable.start])
  have "step mac ?y1 ?y2"
    by (rule step.preview_reply [where clk = "\<lambda>_. 0"])
      (auto simp: preview_finish_ok clk_ok_def mismatch_def sample_reply_def run_plan_def)
  then have "reachable mac ?y2" by (rule reachable.more_steps [OF r1])
  then show ?thesis
    by (intro exI [of _ ?y2]) (simp add: init_sys_def new_txm_def prune_plans_def map_prune_def)
qed

lemma run_two_commits:
  "\<exists>y. reachable mac y \<and> y_sent y = [run_sent mac, run_sent mac]"
proof -
  let ?a = "run_args mac" and ?c = run_plan
  obtain y where y: "reachable mac y" "y_now y = 0" "plans (y_tm y) = [(''h'', run_plan)]" "y_calls y = []"
    "y_sent y = []" using run_previewed by blast
  obtain s1 where s1: "commit_start mac (\<lambda>_. 0) ?a (y_tm y) = (Inr ?c, s1)" "plans s1 = [(''h'', run_plan)]"
    using run_commit [OF y(3)] by blast
  obtain s2 where s2: "commit_start mac (\<lambda>_. 0) ?a s1 = (Inr ?c, s2)"
    using run_commit [OF s1(2)] by blast
  let ?y1 = "y\<lparr>y_tm := s1, y_now := 0, y_calls := Leasing ?a ?c # y_calls y,
    y_admitted := y_admitted y @ replicate (nat (cp_paramChanges ?c)) 0\<rparr>"
  let ?y2 = "?y1\<lparr>y_tm := s2, y_now := 0, y_calls := Leasing ?a ?c # y_calls ?y1,
    y_admitted := y_admitted ?y1 @ replicate (nat (cp_paramChanges ?c)) 0\<rparr>"
  let ?next = "\<lambda>y. y\<lparr>y_calls := Committing ?a ?c # remove1 (Leasing ?a ?c) (y_calls y),
      y_sent := \<lparr>gs_request = commit_request_of ?a ?c, gs_args = ?a, gs_plan = ?c\<rparr> # y_sent y\<rparr>"
  have "step mac y ?y1" by (rule step.commit_call [where clk = "\<lambda>_. 0"]) (use y s1 in \<open>simp_all add: clk_ok_def\<close>)
  moreover have "step mac ?y1 ?y2"
    by (rule step.commit_call [where clk = "\<lambda>_. 0"]) (use s2 in \<open>simp_all add: clk_ok_def\<close>)
  moreover have "step mac ?y2 (?next ?y2)" by (rule step.lease_held) simp
  moreover have "step mac (?next ?y2) (?next (?next ?y2))" by (rule step.lease_held) simp
  ultimately have "reachable mac (?next (?next ?y2))" using y(1) by (meson reachable.more_steps)
  then show ?thesis using y(5) by (intro exI [of _ "?next (?next ?y2)"]) (simp add: run_sent_def)
qed

section \<open>Properties\<close>

text \<open>C1: in every interleaving of previews, commits, lease refusals and load tokens, each
  commit request handed to the plugin is the plan of a completed preview, unaltered: its
  plan, hash, fingerprint, epoch, instance and session are those of one reply of the
  plugin, to a preview of at most 32 added modules; and if that reply required
  confirmation, the caller presented a token that was valid at a time no earlier than when
  the plan was still cached, for exactly this commit.\<close>

theorem sent_commits_are_previewed:
  assumes "reachable mac y" and "g \<in> set (y_sent y)"
  shows "\<exists>p \<in> set (y_previewed y). let r = gp_reply p; q = gs_request g in
    count_added (gp_operations p) \<le> 32 \<and>
    cq_plan q = pv_plan r \<and> cq_planHash q = pv_planHash r \<and> cq_expectedFingerprint q = pv_baseFingerprint r \<and>
    cq_scope q = \<lparr>ws_instanceId = si_instanceId (gp_instance p), ws_sessionId = si_sessionId (gp_instance p),
      ws_patchEpoch = pv_patchEpoch r\<rparr> \<and>
    (\<exists>t0 t1. t0 \<le> gp_expiresAt p \<and> t0 \<le> t1 \<and>
      (if pv_confirmationRequired r then
        (\<exists>token j. ca_confirmationToken (gs_args g) = Some token \<and> verifyToken mac t1 token = Inr j \<and>
           binds (gs_args g) j) else True))"
proof -
  from reachable_inv [OF assms(1)] assms(2)
  have q: "gs_request g = commit_request_of (gs_args g) (gs_plan g)"
    and "gated mac (y_previewed y) (gs_args g) (gs_plan g)" by (auto simp: sent_inv_def)
  then obtain p t0 t1 where p: "p \<in> set (y_previewed y)" "pv_planHash (gp_reply p) = ca_planHash (gs_args g)"
    "count_added (gp_operations p) \<le> txnMaxAddedModules LIMITS"
    "gs_plan g = plan_entry (gp_operations p) (gp_instance p) (gp_reply p) (gp_expiresAt p)"
    and t: "t0 \<le> t1" "t0 \<le> cp_expiresAt (gs_plan g)" "authorised mac t1 (gs_args g) (gs_plan g)"
    by (auto simp: gated_def from_preview_def)
  have a: "si_instanceId (ca_instance (gs_args g)) = si_instanceId (gp_instance p)"
    "si_sessionId (ca_instance (gs_args g)) = si_sessionId (gp_instance p)"
    "ca_expectedFingerprint (gs_args g) = pv_baseFingerprint (gp_reply p)"
    "pv_confirmationRequired (gp_reply p) \<Longrightarrow> \<exists>token j. ca_confirmationToken (gs_args g) = Some token \<and>
       verifyToken mac t1 token = Inr j \<and> binds (gs_args g) j"
    using t(3) unfolding p(4) authorised_def by (auto simp: plan_entry_def)
  have "t0 \<le> gp_expiresAt p" using t(2) unfolding p(4) by (simp add: plan_entry_def)
  then show ?thesis
    using p(1,2,3) t(1) a
    by (intro bexI [of _ p]) (auto simp: Let_def q p(4) commit_request_of_def plan_entry_def LIMITS_def)
qed

theorem sent_commits_are_previewed_witness:
  "\<exists>y :: sys. \<exists>p \<in> set (y_previewed y). cq_plan (gs_request (run_sent rev)) = pv_plan (gp_reply p) \<and>
     count_added (gp_operations p) \<le> 32"
proof -
  obtain y where y: "reachable rev y" "run_sent rev \<in> set (y_sent y)"
    using run_two_commits [of rev] by force
  from sent_commits_are_previewed [OF y] show ?thesis by (intro exI [of _ y]) (auto simp: Let_def)
qed

text \<open>C17: deleting the cached plan does not make a confirmation single-use for overlapping calls:
  the entry is deleted only when the plugin has answered, so one confirmed plan and one
  token can put two identical commit requests on the wire (which the plugin must then tell
  apart by fingerprint or operation id).\<close>

theorem overlapping_commits_send_twice:
  "\<exists>y a c. reachable mac y \<and> cp_confirmationRequired c \<and> ca_confirmationToken a \<noteq> None \<and>
     map gs_request (y_sent y) = [commit_request_of a c, commit_request_of a c]"
proof -
  obtain y where "reachable mac y" "y_sent y = [run_sent mac, run_sent mac]"
    using run_two_commits by blast
  then show ?thesis
    by (intro exI [of _ y] exI [of _ "run_args mac"] exI [of _ run_plan])
      (simp add: run_sent_def run_plan_def plan_entry_def sample_reply_def run_args_def)
qed

text \<open>C2: load tokens are single-use in every interleaving: no token id is ever consumed
  twice, and what a consumption returns is exactly the binding the id was minted with,
  provided the 144-bit random ids do not repeat (the guard of the mint step).\<close>

theorem load_tokens_single_use:
  assumes "reachable mac y"
  shows "distinct (map fst (y_consumed y)) \<and> set (y_consumed y) \<subseteq> set (y_minted y) \<and>
    distinct (map fst (y_minted y))"
  using reachable_inv [OF assms] by (simp add: loads_inv_def)

theorem load_tokens_single_use_witness:
  "\<exists>y :: sys. y_consumed y = [(base64url ''abc'', sample_load)] \<and> y_minted y = [(base64url ''abc'', sample_load)] \<and>
     distinct (map fst (y_consumed y)) \<and> set (y_consumed y) \<subseteq> set (y_minted y)"
proof -
  let ?m = "mintLoadToken rev 0 ''abc'' sample_load (y_tm init_sys)"
  let ?y1 = "init_sys\<lparr>y_tm := snd ?m, y_now := 0, y_minted := (base64url ''abc'', sample_load) # y_minted init_sys\<rparr>"
  let ?u = "consumeLoadToken rev 0 (fst ?m) (y_tm ?y1)"
  let ?y2 = "?y1\<lparr>y_tm := snd ?u, y_now := 0, y_consumed := (base64url ''abc'', sample_load) # y_consumed ?y1\<rparr>"
  have "step rev init_sys ?y1"
    by (rule step.mint [where token = "fst ?m"]) (simp_all add: init_sys_def)
  then have r1: "reachable rev ?y1" by (rule reachable.more_steps [OF reachable.start])
  have u: "?u = (Inr sample_load, snd ?u)" and t: "split_first (CHR ''.'') (fst ?m) = Some (base64url ''abc'', rev (base64url ''abc''))"
    using load_token_lifecycle [of rev 0 "''abc''" sample_load "y_tm init_sys" _ _ 0 0 "[]"]
    by (auto simp: init_sys_def new_txm_def LIMITS_def mintLoadToken_def Let_def minted_token_split
        intro: prod_eqI)
  have "step rev ?y1 ?y2" by (rule step.consume [OF _ u t]) simp
  then have "reachable rev ?y2" by (rule reachable.more_steps [OF r1])
  from load_tokens_single_use [OF this] show ?thesis
    by (intro exI [of _ ?y2]) (simp add: init_sys_def)
qed

text \<open>C5: the blast radius is bounded over every interleaving: the parameter changes of all
  commits that ever pass the gate number at most 30 in any window of one second.\<close>

theorem parameter_changes_bounded:
  assumes "reachable mac y"
  shows "window_count x 1000 (y_admitted y) \<le> 30"
proof -
  from reachable_inv [OF assms] obtain t where
    "lim_inv t (y_admitted y) (tlimiter (y_tm y))" "rlimit (tlimiter (y_tm y)) = 30"
    "windowMs (tlimiter (y_tm y)) = 1000"
    by (auto simp: limit_inv_def LIMITS_def)
  then show ?thesis using spaced_window [of "y_admitted y" 30 1000 x] by (simp add: lim_inv_def)
qed

theorem parameter_changes_bounded_witness:
  "\<exists>y :: sys. y_sent y = [run_sent rev, run_sent rev] \<and> window_count 0 1000 (y_admitted y) \<le> 30"
proof -
  obtain y where "reachable rev y" "y_sent y = [run_sent rev, run_sent rev]"
    using run_two_commits by blast
  then show ?thesis using parameter_changes_bounded [of rev y 0] by blast
qed

end
