(* ===== verification/Flow.thy ===== *)
theory Flow
  imports Prelude "HOL-Library.Sublist"
begin

text \<open>
  The graph algorithms of \<open>apps/mcp-server/src/analysis.ts\<close> over the cables of a snapshot:
  reverse reachability from a set of modules and the longest real cable path into a
  module.  Both are explicit worklist loops in the source; here they are functions of the
  loop's variables, total without any assumption, with the top of a stack at the head of
  its list.  JavaScript sets are lists in insertion order.
\<close>

record cable_s =
  cb_cableId :: string
  cb_outputModuleId :: string
  cb_outputId :: int
  cb_inputModuleId :: string
  cb_inputId :: int

type_synonym incoming = "(string, cable_s list) jsmap"

text \<open>The map from a module to the cables that end at it, in snapshot order.\<close>

definition add_incoming :: "incoming \<Rightarrow> cable_s \<Rightarrow> incoming" where
  "add_incoming m c = (case map_get m (cb_inputModuleId c) of
     Some l \<Rightarrow> map_set (cb_inputModuleId c) (l @ [c]) m
   | None \<Rightarrow> map_set (cb_inputModuleId c) [c] m)"

definition incoming_of :: "cable_s list \<Rightarrow> incoming" where
  "incoming_of cs = foldl add_incoming [] cs"

definition cables_into :: "incoming \<Rightarrow> string \<Rightarrow> cable_s list" where
  "cables_into inc i = (case map_get inc i of None \<Rightarrow> [] | Some l \<Rightarrow> l)"

lemma cables_into_add:
  "cables_into (add_incoming m c) i = cables_into m i @ (if cb_inputModuleId c = i then [c] else [])"
  by (simp add: add_incoming_def cables_into_def split: option.split)

lemma cables_into_foldl:
  "cables_into (foldl add_incoming m cs) i = cables_into m i @ filter (\<lambda>c. cb_inputModuleId c = i) cs"
  by (induction cs arbitrary: m) (simp_all add: cables_into_add)

lemma cables_into_incoming: "cables_into (incoming_of cs) i = filter (\<lambda>c. cb_inputModuleId c = i) cs"
  unfolding incoming_of_def cables_into_foldl by (simp add: cables_into_def)

text \<open>Cables as a relation on modules, from source to destination.\<close>

definition edges :: "incoming \<Rightarrow> (string \<times> string) set" where
  "edges inc = {(s, d). \<exists>c \<in> set (cables_into inc d). cb_outputModuleId c = s}"

definition cable_rel :: "cable_s list \<Rightarrow> (string \<times> string) set" where
  "cable_rel cs = (\<lambda>c. (cb_outputModuleId c, cb_inputModuleId c)) ` set cs"

lemma edges_incoming: "edges (incoming_of cs) = cable_rel cs"
  by (auto simp: edges_def cable_rel_def cables_into_incoming)

definition sources :: "incoming \<Rightarrow> string set" where
  "sources inc = (\<Union>l \<in> snd ` set inc. cb_outputModuleId ` set l)"

lemma finite_sources [simp]: "finite (sources inc)"
  by (simp add: sources_def)

lemma cables_into_sources: "c \<in> set (cables_into inc i) \<Longrightarrow> cb_outputModuleId c \<in> sources inc"
proof -
  assume c: "c \<in> set (cables_into inc i)"
  then obtain l where "map_get inc i = Some l" "c \<in> set l"
    by (cases "map_get inc i") (simp_all add: cables_into_def)
  then have "(i, l) \<in> set inc" "c \<in> set l" by (auto dest: map_get_in_set)
  then show ?thesis by (force simp: sources_def)
qed

section \<open>Reverse reachability\<close>

function reach :: "incoming \<Rightarrow> string list \<Rightarrow> string list \<Rightarrow> string list" where
  "reach inc [] reached = reached"
| "reach inc (i # stack) reached =
     (if i \<in> set reached then reach inc stack reached
      else reach inc (rev (map cb_outputModuleId (cables_into inc i)) @ stack) (reached @ [i]))"
  by pat_completeness auto

definition reach_room :: "incoming \<times> string list \<times> string list \<Rightarrow> nat" where
  "reach_room = (\<lambda>(inc, st, r). card ((set st \<union> sources inc) - set r))"

lemma reach_room_skip: "reach_room (inc, st, r) \<le> reach_room (inc, i # st, r)"
  unfolding reach_room_def by (auto intro!: card_mono)

lemma reach_room_visit:
  assumes "i \<notin> set r"
  shows "reach_room (inc, rev (map cb_outputModuleId (cables_into inc i)) @ st, r @ [i]) < reach_room (inc, i # st, r)"
proof -
  have "set (rev (map cb_outputModuleId (cables_into inc i)) @ st) \<union> sources inc - set (r @ [i])
      \<subset> set (i # st) \<union> sources inc - set r"
    using assms cables_into_sources by fastforce
  then show ?thesis unfolding reach_room_def prod.case by (intro psubset_card_mono) auto
qed

termination reach
  by (relation "measures [reach_room, \<lambda>(inc, st, r). length st]")
    (use reach_room_skip in \<open>auto simp: reach_room_visit order_le_less\<close>)

lemma reach_sound:
  "x \<in> set (reach inc st r) \<Longrightarrow> x \<in> set r \<or> (\<exists>y \<in> set st. (x, y) \<in> (edges inc)\<^sup>*)"
proof (induction inc st r rule: reach.induct)
  case (2 inc i st r)
  show ?case
  proof (cases "i \<in> set r")
    case True
    then show ?thesis using 2 by auto
  next
    case False
    from "2.IH"(2) [OF False] "2.prems" False
    consider "x \<in> set r" | "x = i" | "\<exists>y \<in> set st. (x, y) \<in> (edges inc)\<^sup>*"
      | c where "c \<in> set (cables_into inc i)" "(x, cb_outputModuleId c) \<in> (edges inc)\<^sup>*" by auto
    then show ?thesis
    proof cases
      case 4
      then have "(cb_outputModuleId c, i) \<in> edges inc" by (auto simp: edges_def)
      with 4 have "(x, i) \<in> (edges inc)\<^sup>*" by (rule_tac rtrancl_into_rtrancl)
      then show ?thesis by simp
    qed auto
  qed
qed simp

definition closed_upto :: "incoming \<Rightarrow> string set \<Rightarrow> string set \<Rightarrow> bool" where
  "closed_upto inc r st = (\<forall>x y. y \<in> r \<longrightarrow> (x, y) \<in> edges inc \<longrightarrow> x \<in> r \<union> st)"

lemma reach_closed:
  "closed_upto inc (set r) (set st) \<Longrightarrow>
     set r \<union> set st \<subseteq> set (reach inc st r) \<and> closed_upto inc (set (reach inc st r)) {}"
proof (induction inc st r rule: reach.induct)
  case (2 inc i st r)
  show ?case
  proof (cases "i \<in> set r")
    case True
    then have "closed_upto inc (set r) (set st)" using "2.prems" by (auto simp: closed_upto_def)
    then show ?thesis using "2.IH"(1) True by auto
  next
    case False
    have "closed_upto inc (set (r @ [i])) (set (rev (map cb_outputModuleId (cables_into inc i)) @ st))"
      using "2.prems" by (fastforce simp: closed_upto_def edges_def)
    then show ?thesis using "2.IH"(2) False by auto
  qed
qed simp

lemma reach_exact: "set (reach inc st []) = {x. \<exists>y \<in> set st. (x, y) \<in> (edges inc)\<^sup>*}"
proof
  show "set (reach inc st []) \<subseteq> {x. \<exists>y \<in> set st. (x, y) \<in> (edges inc)\<^sup>*}"
    using reach_sound by fastforce
  have c: "set st \<subseteq> set (reach inc st [])" "closed_upto inc (set (reach inc st [])) {}"
    using reach_closed [of inc "[]" st] by (auto simp: closed_upto_def)
  show "{x. \<exists>y \<in> set st. (x, y) \<in> (edges inc)\<^sup>*} \<subseteq> set (reach inc st [])"
  proof clarify
    fix x y assume "y \<in> set st" "(x, y) \<in> (edges inc)\<^sup>*"
    from this(2) show "x \<in> set (reach inc st [])"
    proof (induction rule: converse_rtrancl_induct)
      case base
      then show ?case using c(1) \<open>y \<in> set st\<close> by blast
    next
      case (step a b)
      then show ?case using c(2) by (auto simp: closed_upto_def)
    qed
  qed
qed

lemma reach_distinct: "distinct r \<Longrightarrow> distinct (reach inc st r)"
  by (induction inc st r rule: reach.induct) auto

section \<open>The longest cable path\<close>

record frame =
  fr_id :: string
  fr_i :: nat
  fr_best :: "string list"

record lp_state =
  lp_memo :: "(string, string list) jsmap"
  lp_onStack :: "string list"
  lp_work :: "frame list"

text \<open>Offering a path to a frame: it replaces a shorter one unless it runs through the frame.\<close>

definition offer :: "string list \<Rightarrow> frame \<Rightarrow> frame" where
  "offer p f = (if length p > length (fr_best f) \<and> fr_id f \<notin> set p then f\<lparr>fr_best := p\<rparr> else f)"

text \<open>One round of the \<open>while\<close> loop.\<close>

definition lp_step :: "incoming \<Rightarrow> lp_state \<Rightarrow> lp_state" where
  "lp_step inc s = (case lp_work s of [] \<Rightarrow> s
     | f # fs \<Rightarrow>
       let cables = cables_into inc (fr_id f) in
       if fr_i f < length cables then
         let src = cb_outputModuleId (cables ! fr_i f); f' = f\<lparr>fr_i := Suc (fr_i f)\<rparr> in
         if src \<in> set (lp_onStack s) then s\<lparr>lp_work := f' # fs\<rparr>
         else (case map_get (lp_memo s) src of
           Some cached \<Rightarrow> s\<lparr>lp_work := offer cached f' # fs\<rparr>
         | None \<Rightarrow> s\<lparr>lp_onStack := lp_onStack s @ [src],
             lp_work := \<lparr>fr_id = src, fr_i = 0, fr_best = []\<rparr> # f' # fs\<rparr>)
       else
         let path = fr_best f @ [fr_id f] in
         \<lparr>lp_memo = map_set (fr_id f) path (lp_memo s),
          lp_onStack = removeAll (fr_id f) (lp_onStack s),
          lp_work = (case fs of [] \<Rightarrow> [] | g # gs \<Rightarrow> offer path g # gs)\<rparr>)"

function lp_loop :: "incoming \<Rightarrow> lp_state \<Rightarrow> lp_state" where
  "lp_loop inc s = (if lp_work s = [] then s else lp_loop inc (lp_step inc s))"
  by pat_completeness auto

definition lp_room :: "incoming \<Rightarrow> lp_state \<Rightarrow> nat" where
  "lp_room inc s = card (sources inc - fst ` set (lp_memo s) - set (lp_onStack s))"

definition lp_rest :: "incoming \<Rightarrow> lp_state \<Rightarrow> nat" where
  "lp_rest inc s = sum_list (map (\<lambda>f. Suc (length (cables_into inc (fr_id f)) - fr_i f)) (lp_work s))"

lemma offer_simps [simp]: "fr_id (offer p f) = fr_id f" "fr_i (offer p f) = fr_i f"
  by (simp_all add: offer_def)

lemma map_get_None_keys: "map_get m k = None \<longleftrightarrow> k \<notin> fst ` set m"
  by (simp add: map_get_def map_of_eq_None_iff)

lemma lp_step_decreases:
  assumes "lp_work s = f # fs"
  shows "lp_room inc (lp_step inc s) < lp_room inc s \<or>
    lp_room inc (lp_step inc s) = lp_room inc s \<and> lp_rest inc (lp_step inc s) < lp_rest inc s \<or>
    lp_room inc (lp_step inc s) \<le> lp_room inc s \<and> lp_rest inc (lp_step inc s) < lp_rest inc s"
proof (cases "fr_i f < length (cables_into inc (fr_id f))")
  case True
  let ?src = "cb_outputModuleId (cables_into inc (fr_id f) ! fr_i f)"
  have src: "?src \<in> sources inc" using True cables_into_sources nth_mem by blast
  show ?thesis
  proof (cases "?src \<in> set (lp_onStack s) \<or> map_get (lp_memo s) ?src \<noteq> None")
    case old: True
    then have "lp_memo (lp_step inc s) = lp_memo s \<and> lp_onStack (lp_step inc s) = lp_onStack s \<and>
        lp_rest inc (lp_step inc s) < lp_rest inc s"
      using True assms by (auto simp: lp_step_def Let_def lp_rest_def)
    then show ?thesis by (simp add: lp_room_def)
  next
    case False
    let ?A = "sources inc - fst ` set (lp_memo s) - set (lp_onStack s)"
    have "?src \<in> ?A" using src False by (auto simp: map_get_None_keys)
    then have "?A - {?src} \<subset> ?A" by blast
    then have "card (?A - {?src}) < card ?A" by (intro psubset_card_mono) auto
    moreover have "lp_memo (lp_step inc s) = lp_memo s" "lp_onStack (lp_step inc s) = lp_onStack s @ [?src]"
      using True assms False by (simp_all add: lp_step_def Let_def)
    moreover have "sources inc - fst ` set (lp_memo s) - set (lp_onStack s @ [?src]) = ?A - {?src}" by auto
    ultimately show ?thesis by (simp only: lp_room_def) blast
  qed
next
  case False
  let ?s = "lp_step inc s"
  have k: "fst ` set (lp_memo ?s) = insert (fr_id f) (fst ` set (lp_memo s))"
    "set (lp_onStack ?s) = set (lp_onStack s) - {fr_id f}"
    using False assms by (simp_all add: lp_step_def Let_def set_keys_map_set)
  have "lp_room inc ?s \<le> lp_room inc s"
    unfolding lp_room_def k by (rule card_mono) auto
  moreover have "lp_rest inc ?s < lp_rest inc s"
    using False assms by (auto simp: lp_step_def Let_def lp_rest_def split: list.split)
  ultimately show ?thesis by blast
qed

termination lp_loop
proof (relation "measures [\<lambda>(inc, s). lp_room inc s, \<lambda>(inc, s). lp_rest inc s]", goal_cases)
  case (2 inc s)
  then obtain f fs where "lp_work s = f # fs" by (cases "lp_work s") auto
  from lp_step_decreases [OF this, of inc] show ?case by auto
qed simp

declare lp_loop.simps [simp del]

definition lp_start :: "string \<Rightarrow> lp_state" where
  "lp_start dest = \<lparr>lp_memo = [], lp_onStack = [dest], lp_work = [\<lparr>fr_id = dest, fr_i = 0, fr_best = []\<rparr>]\<rparr>"

definition longestCablePathTo :: "string \<Rightarrow> incoming \<Rightarrow> string list" where
  "longestCablePathTo dest inc =
     (case map_get (lp_memo (lp_loop inc (lp_start dest))) dest of Some p \<Rightarrow> p | None \<Rightarrow> [dest])"

lemma lp_loop_inv:
  assumes "P s" and "\<And>s. P s \<Longrightarrow> lp_work s \<noteq> [] \<Longrightarrow> P (lp_step inc s)"
  shows "P (lp_loop inc s) \<and> lp_work (lp_loop inc s) = []"
  using assms
proof (induction inc s rule: lp_loop.induct)
  case (1 inc s)
  then show ?case by (cases "lp_work s = []") (simp_all add: lp_loop.simps [of inc s])
qed

section \<open>Every path is made of real cables\<close>

definition linked :: "incoming \<Rightarrow> string \<Rightarrow> string \<Rightarrow> bool" where
  "linked inc a b = ((a, b) \<in> edges inc)"

text \<open>A cable path into \<open>i\<close>: distinct modules, each cabled to the next.\<close>

definition path_to :: "incoming \<Rightarrow> string \<Rightarrow> string list \<Rightarrow> bool" where
  "path_to inc i p = (p \<noteq> [] \<and> last p = i \<and> distinct p \<and> successively (linked inc) p)"

definition best_ok :: "incoming \<Rightarrow> frame \<Rightarrow> bool" where
  "best_ok inc f = (fr_best f = [] \<or>
     (path_to inc (last (fr_best f)) (fr_best f) \<and> linked inc (last (fr_best f)) (fr_id f) \<and>
      fr_id f \<notin> set (fr_best f)))"

definition memo_ok :: "incoming \<Rightarrow> (string, string list) jsmap \<Rightarrow> bool" where
  "memo_ok inc m = (\<forall>k p. map_get m k = Some p \<longrightarrow> path_to inc k p)"

text \<open>Each frame was pushed for a cable into the frame below it.\<close>

definition chain_ok :: "incoming \<Rightarrow> frame list \<Rightarrow> bool" where
  "chain_ok inc fs = successively (\<lambda>f g. linked inc (fr_id f) (fr_id g)) fs"

definition real_inv :: "incoming \<Rightarrow> string \<Rightarrow> lp_state \<Rightarrow> bool" where
  "real_inv inc dest s = (memo_ok inc (lp_memo s) \<and> list_all (best_ok inc) (lp_work s) \<and>
     chain_ok inc (lp_work s) \<and>
     (if lp_work s = [] then map_get (lp_memo s) dest \<noteq> None else fr_id (last (lp_work s)) = dest))"

lemma path_to_snoc:
  "best_ok inc f \<Longrightarrow> path_to inc (fr_id f) (fr_best f @ [fr_id f])"
  by (auto simp: best_ok_def path_to_def successively_append_iff)

lemma offer_ok:
  "best_ok inc f \<Longrightarrow> path_to inc i p \<Longrightarrow> linked inc i (fr_id f) \<Longrightarrow> best_ok inc (offer p f)"
  by (auto simp: offer_def best_ok_def path_to_def)

lemma linked_cable:
  "j < length (cables_into inc i) \<Longrightarrow> linked inc (cb_outputModuleId (cables_into inc i ! j)) i"
  by (auto simp: linked_def edges_def intro!: bexI [of _ "cables_into inc i ! j"])

lemma best_ok_i [simp]: "best_ok inc (f\<lparr>fr_i := n\<rparr>) = best_ok inc f"
  by (simp add: best_ok_def)

lemma chain_ok_Cons:
  "chain_ok inc (f # fs) \<longleftrightarrow> (case fs of [] \<Rightarrow> True | g # gs \<Rightarrow> linked inc (fr_id f) (fr_id g) \<and> chain_ok inc fs)"
  by (cases fs) (simp_all add: chain_ok_def)

lemma chain_ok_id: "fr_id f = fr_id f' \<Longrightarrow> chain_ok inc (f # fs) = chain_ok inc (f' # fs)"
  by (simp add: chain_ok_Cons split: list.split)

lemma real_inv_step:
  assumes "real_inv inc dest s" and "lp_work s \<noteq> []"
  shows "real_inv inc dest (lp_step inc s)"
proof -
  obtain f fs where w: "lp_work s = f # fs" using assms(2) by (cases "lp_work s") auto
  have m: "memo_ok inc (lp_memo s)" and b: "best_ok inc f" "list_all (best_ok inc) fs"
    and c: "chain_ok inc (f # fs)" and l: "fr_id (last (f # fs)) = dest"
    using assms(1) w by (auto simp: real_inv_def)
  show ?thesis
  proof (cases "fr_i f < length (cables_into inc (fr_id f))")
    case True
    let ?src = "cb_outputModuleId (cables_into inc (fr_id f) ! fr_i f)" and ?f = "f\<lparr>fr_i := Suc (fr_i f)\<rparr>"
    have lk: "linked inc ?src (fr_id f)" by (rule linked_cable [OF True])
    have same: "real_inv inc dest (s\<lparr>lp_work := g # fs\<rparr>)" if "fr_id g = fr_id f" "best_ok inc g" for g
      using that m b c l chain_ok_id [of g f] by (auto simp: real_inv_def)
    show ?thesis
    proof (cases "?src \<in> set (lp_onStack s)")
      case on: True
      then show ?thesis using True w same [of ?f] b by (simp add: lp_step_def Let_def)
    next
      case off: False
      show ?thesis
      proof (cases "map_get (lp_memo s) ?src")
        case None
        have "chain_ok inc (\<lparr>fr_id = ?src, fr_i = 0, fr_best = []\<rparr> # ?f # fs)"
          using c lk chain_ok_id [of ?f f] by (subst chain_ok_Cons) simp
        then show ?thesis
          using True w off None m b l
          by (simp add: lp_step_def Let_def real_inv_def best_ok_def split: if_splits)
      next
        case (Some p)
        then have "path_to inc ?src p" using m by (simp add: memo_ok_def)
        then have "best_ok inc (offer p ?f)" using b lk by (intro offer_ok) auto
        then show ?thesis using True w off Some same [of "offer p ?f"] by (simp add: lp_step_def Let_def)
      qed
    qed
  next
    case False
    let ?p = "fr_best f @ [fr_id f]"
    have p: "path_to inc (fr_id f) ?p" by (rule path_to_snoc [OF b(1)])
    have "memo_ok inc (map_set (fr_id f) ?p (lp_memo s))" using m p by (simp add: memo_ok_def)
    then show ?thesis
    proof (cases fs)
      case Nil
      then show ?thesis
        using False w l \<open>memo_ok inc (map_set _ _ _)\<close>
        by (simp add: lp_step_def Let_def real_inv_def chain_ok_def)
    next
      case (Cons g gs)
      then have "linked inc (fr_id f) (fr_id g)" "chain_ok inc (g # gs)"
        using c by (simp_all add: chain_ok_Cons [of inc f])
      moreover from this have "best_ok inc (offer ?p g)" "chain_ok inc (offer ?p g # gs)"
        using b(2) Cons p chain_ok_id [of "offer ?p g" g] by (auto intro: offer_ok)
      ultimately show ?thesis
        using False w l b(2) Cons \<open>memo_ok inc (map_set _ _ _)\<close>
        by (simp add: lp_step_def Let_def real_inv_def split: if_splits)
    qed
  qed
qed

lemma longest_is_real: "path_to inc dest (longestCablePathTo dest inc)"
proof -
  have "real_inv inc dest (lp_start dest)"
    by (simp add: real_inv_def lp_start_def memo_ok_def best_ok_def chain_ok_def)
  from lp_loop_inv [of "real_inv inc dest", OF this real_inv_step]
  show ?thesis by (auto simp: real_inv_def longestCablePathTo_def memo_ok_def split: option.split)
qed

section \<open>On acyclic patches the path is a longest one\<close>

text \<open>A processed cable has offered its memoized path to the frame.\<close>

definition served :: "incoming \<Rightarrow> (string, string list) jsmap \<Rightarrow> frame \<Rightarrow> nat \<Rightarrow> bool" where
  "served inc m f j = (\<exists>p. map_get m (cb_outputModuleId (cables_into inc (fr_id f) ! j)) = Some p \<and>
     length p \<le> length (fr_best f))"

text \<open>Down the stack every processed cable is served, except the one whose source is the frame
  above.\<close>

definition src_of :: "incoming \<Rightarrow> frame \<Rightarrow> nat \<Rightarrow> string" where
  "src_of inc f j = cb_outputModuleId (cables_into inc (fr_id f) ! j)"

fun served_stack :: "incoming \<Rightarrow> (string, string list) jsmap \<Rightarrow> string option \<Rightarrow> frame list \<Rightarrow> bool" where
  "served_stack inc m c [] = True"
| "served_stack inc m c (f # fs) = ((\<forall>j. j < fr_i f \<longrightarrow> served inc m f j \<or> c = Some (src_of inc f j)) \<and>
     served_stack inc m (Some (fr_id f)) fs)"

definition max_memo :: "incoming \<Rightarrow> (string, string list) jsmap \<Rightarrow> bool" where
  "max_memo inc m = (\<forall>k p q. map_get m k = Some p \<longrightarrow> path_to inc k q \<longrightarrow> length q \<le> length p)"

definition dag_inv :: "incoming \<Rightarrow> string \<Rightarrow> lp_state \<Rightarrow> bool" where
  "dag_inv inc dest s = (real_inv inc dest s \<and> max_memo inc (lp_memo s) \<and>
     set (lp_onStack s) = fr_id ` set (lp_work s) \<and>
     (\<forall>f \<in> set (lp_work s). map_get (lp_memo s) (fr_id f) = None) \<and>
     served_stack inc (lp_memo s) None (lp_work s))"

lemma chain_reach:
  "chain_ok inc (f # fs) \<Longrightarrow> g \<in> set fs \<Longrightarrow> (fr_id f, fr_id g) \<in> (edges inc)\<^sup>+"
proof (induction fs arbitrary: f)
  case (Cons h hs)
  then have "(fr_id f, fr_id h) \<in> edges inc" "chain_ok inc (h # hs)"
    by (simp_all add: chain_ok_Cons [of inc f] linked_def)
  then show ?case using Cons.IH [of h] Cons.prems(2) by (auto intro: trancl_into_trancl2)
qed simp

lemma path_reach: "path_to inc i p \<Longrightarrow> x \<in> set p \<Longrightarrow> (x, i) \<in> (edges inc)\<^sup>*"
proof (induction p arbitrary: i rule: rev_induct)
  case (snoc y p)
  then have y: "y = i" by (simp add: path_to_def)
  show ?case
  proof (cases "x = i \<or> p = []")
    case False
    then have "path_to inc (last p) p" "(last p, i) \<in> edges inc" "x \<in> set p"
      using snoc.prems y by (auto simp: path_to_def successively_append_iff linked_def)
    then show ?thesis using snoc.IH by (meson rtrancl.rtrancl_into_rtrancl)
  qed (use snoc.prems y in auto)
qed (simp add: path_to_def)

lemma path_avoids:
  assumes "acyclic (edges inc)" and "path_to inc i p" and "linked inc i x"
  shows "x \<notin> set p"
proof
  assume "x \<in> set p"
  then have "(x, i) \<in> (edges inc)\<^sup>*" using assms(2) by (rule path_reach [rotated])
  then have "(x, x) \<in> (edges inc)\<^sup>+" using assms(3) by (simp add: linked_def rtrancl_into_trancl1)
  then show False using assms(1) by (simp add: acyclic_def)
qed

lemma offer_length:
  "fr_id f \<notin> set p \<Longrightarrow> length p \<le> length (fr_best (offer p f))"
  "length (fr_best f) \<le> length (fr_best (offer p f))"
  by (simp_all add: offer_def)

lemma served_mono:
  "served inc m f j \<Longrightarrow> fr_id g = fr_id f \<Longrightarrow> length (fr_best f) \<le> length (fr_best g) \<Longrightarrow> served inc m g j"
  by (force simp: served_def)

lemma served_extend:
  "served inc m f j \<Longrightarrow> map_get m k = None \<Longrightarrow> served inc (map_set k p m) f j"
  by (auto simp: served_def)

lemma served_stack_extend:
  "served_stack inc m c fs \<Longrightarrow> map_get m k = None \<Longrightarrow> served_stack inc (map_set k p m) c fs"
  by (induction fs arbitrary: c) (auto intro: served_extend)

text \<open>When all cables of a frame are served, its path is a longest one.\<close>

lemma path_to_split:
  assumes "path_to inc i q" and "q \<noteq> [i]"
  shows "\<exists>s p. q = p @ [i] \<and> path_to inc s p \<and> linked inc s i"
proof -
  obtain p where q: "q = p @ [i]" using assms(1) by (metis append_butlast_last_id path_to_def)
  with assms have "p \<noteq> []" by auto
  then have "path_to inc (last p) p \<and> linked inc (last p) i"
    using assms(1) q by (auto simp: path_to_def successively_append_iff)
  with q show ?thesis by blast
qed

lemma frame_max:
  assumes "max_memo inc m" and "\<And>j. j < length (cables_into inc (fr_id f)) \<Longrightarrow> served inc m f j"
    and "path_to inc (fr_id f) q"
  shows "length q \<le> length (fr_best f @ [fr_id f])"
proof (cases "q = [fr_id f]")
  case False
  then obtain s p where q: "q = p @ [fr_id f]" "path_to inc s p" "linked inc s (fr_id f)"
    using path_to_split [OF assms(3)] by blast
  then obtain c where "c \<in> set (cables_into inc (fr_id f))" "cb_outputModuleId c = s"
    by (auto simp: linked_def edges_def)
  then obtain j where "j < length (cables_into inc (fr_id f))" "src_of inc f j = s"
    by (auto simp: in_set_conv_nth src_of_def)
  then obtain r where "map_get m s = Some r" "length r \<le> length (fr_best f)"
    using assms(2) by (auto simp: served_def src_of_def)
  moreover from this have "length p \<le> length r" using assms(1) q(2) by (auto simp: max_memo_def)
  ultimately show ?thesis using q(1) by simp
qed simp

lemma served_stack_advance:
  assumes "served_stack inc m None (f # fs)" and "fr_id g = fr_id f" and "fr_i g = Suc (fr_i f)"
    and "length (fr_best f) \<le> length (fr_best g)"
    and "served inc m g (fr_i f) \<or> c = Some (src_of inc f (fr_i f))"
  shows "served_stack inc m c (g # fs)"
proof -
  have "served inc m g j \<or> c = Some (src_of inc g j)" if "j < Suc (fr_i f)" for j
  proof (cases "j = fr_i f")
    case True
    then show ?thesis using assms(2,5) by (simp add: src_of_def)
  next
    case False
    then have "served inc m f j" using that assms(1) by simp
    then show ?thesis using served_mono [OF _ assms(2,4)] by blast
  qed
  then show ?thesis using assms(1-3) by simp
qed

lemma dag_inv_pop:
  assumes ac: "acyclic (edges inc)" and inv: "dag_inv inc dest s" and w: "lp_work s = f # fs"
    and full: "\<not> fr_i f < length (cables_into inc (fr_id f))"
  shows "dag_inv inc dest (lp_step inc s)"
proof -
  let ?id = "fr_id f" and ?p = "fr_best f @ [fr_id f]" and ?m = "lp_memo s"
  let ?m' = "map_set ?id ?p ?m"
  have real: "real_inv inc dest (lp_step inc s)"
    using inv w by (intro real_inv_step) (simp_all add: dag_inv_def)
  have none: "map_get ?m ?id = None" and mx: "max_memo inc ?m" and sv: "served_stack inc ?m None (f # fs)"
    and ch: "chain_ok inc (f # fs)" and b: "best_ok inc f" and on: "set (lp_onStack s) = fr_id ` set (f # fs)"
    using inv w by (auto simp: dag_inv_def real_inv_def)
  have "length q \<le> length ?p" if "path_to inc ?id q" for q
    by (rule frame_max [OF mx _ that]) (use sv full in auto)
  then have mx': "max_memo inc ?m'" using mx by (auto simp: max_memo_def)
  have dist: "fr_id g \<noteq> ?id" if "g \<in> set fs" for g
  proof
    assume "fr_id g = ?id"
    then show False using chain_reach [OF ch that] ac by (simp add: acyclic_def)
  qed
  have sv': "served_stack inc ?m' (Some ?id) fs"
    using sv none by (auto intro: served_stack_extend)
  show ?thesis
  proof (cases fs)
    case Nil
    then show ?thesis
      using real mx' w full on by (auto simp: dag_inv_def lp_step_def Let_def)
  next
    case (Cons g gs)
    have lk: "linked inc ?id (fr_id g)" using ch Cons by (simp add: chain_ok_Cons [of inc f])
    have "fr_id g \<notin> set ?p" by (rule path_avoids [OF ac path_to_snoc [OF b] lk])
    note off = offer_length(1) [OF this] offer_length(2) [of g ?p]
    have "served inc ?m' (offer ?p g) j" if "j < fr_i g" for j
    proof (cases "src_of inc g j = ?id")
      case True
      then show ?thesis using off by (simp add: served_def src_of_def)
    next
      case False
      then have "served inc ?m' g j" using sv' that Cons by auto
      then show ?thesis by (rule served_mono) (use off in auto)
    qed
    then have "served_stack inc ?m' None (offer ?p g # gs)" using sv' Cons by simp
    moreover have "\<forall>h \<in> set (offer ?p g # gs). map_get ?m' (fr_id h) = None"
      using inv w Cons dist by (auto simp: dag_inv_def)
    moreover have "set (removeAll ?id (lp_onStack s)) = fr_id ` set (offer ?p g # gs)"
      using on dist Cons by auto
    ultimately show ?thesis
      using real mx' w full Cons by (simp add: dag_inv_def lp_step_def Let_def)
  qed
qed

lemma dag_inv_step:
  assumes ac: "acyclic (edges inc)" and inv: "dag_inv inc dest s" and ne: "lp_work s \<noteq> []"
  shows "dag_inv inc dest (lp_step inc s)"
proof -
  obtain f fs where w: "lp_work s = f # fs" using ne by (cases "lp_work s") auto
  show ?thesis
  proof (cases "fr_i f < length (cables_into inc (fr_id f))")
    case True
    let ?src = "src_of inc f (fr_i f)" and ?f = "f\<lparr>fr_i := Suc (fr_i f)\<rparr>"
    have src: "cb_outputModuleId (cables_into inc (fr_id f) ! fr_i f) = ?src" by (simp add: src_of_def)
    have real: "real_inv inc dest (lp_step inc s)"
      using inv w by (intro real_inv_step) (simp_all add: dag_inv_def)
    have ch: "chain_ok inc (f # fs)" and sv: "served_stack inc (lp_memo s) None (f # fs)"
      and on: "set (lp_onStack s) = fr_id ` set (f # fs)" and mo: "memo_ok inc (lp_memo s)"
      using inv w by (auto simp: dag_inv_def real_inv_def)
    have lk: "linked inc ?src (fr_id f)" unfolding src [symmetric] by (rule linked_cable [OF True])
    have off: "?src \<notin> set (lp_onStack s)"
    proof
      assume "?src \<in> set (lp_onStack s)"
      then have "(fr_id f, ?src) \<in> (edges inc)\<^sup>*"
        using on chain_reach [OF ch] by (auto simp: trancl_into_rtrancl)
      then have "(?src, ?src) \<in> (edges inc)\<^sup>+" using lk by (auto simp: linked_def intro: rtrancl_into_trancl2)
      then show False using ac by (simp add: acyclic_def)
    qed
    show ?thesis
    proof (cases "map_get (lp_memo s) ?src")
      case None
      then have st: "lp_step inc s = s\<lparr>lp_onStack := lp_onStack s @ [?src],
          lp_work := \<lparr>fr_id = ?src, fr_i = 0, fr_best = []\<rparr> # ?f # fs\<rparr>"
        using True w off by (simp add: lp_step_def Let_def src)
      have "served_stack inc (lp_memo s) (Some ?src) (?f # fs)"
        by (rule served_stack_advance [OF sv]) simp_all
      then show ?thesis
        using real inv w None on unfolding st by (auto simp: dag_inv_def)
    next
      case (Some p)
      then have st: "lp_step inc s = s\<lparr>lp_work := offer p ?f # fs\<rparr>"
        using True w off by (simp add: lp_step_def Let_def src)
      have "fr_id f \<notin> set p"
        by (rule path_avoids [OF ac _ lk]) (use mo Some in \<open>simp add: memo_ok_def\<close>)
      then have "length p \<le> length (fr_best (offer p ?f))" by (intro offer_length(1)) simp
      then have "served inc (lp_memo s) (offer p ?f) (fr_i f)"
        using Some by (auto simp: served_def src_of_def)
      then have "served_stack inc (lp_memo s) None (offer p ?f # fs)"
        using offer_length(2) [of ?f p] by (intro served_stack_advance [OF sv]) simp_all
      then show ?thesis
        using real inv w on unfolding st by (auto simp: dag_inv_def)
    qed
  qed (rule dag_inv_pop [OF ac inv w])
qed

lemma longest_is_longest:
  assumes "acyclic (edges inc)" and "path_to inc dest q"
  shows "length q \<le> length (longestCablePathTo dest inc)"
proof -
  have "dag_inv inc dest (lp_start dest)"
    by (simp add: dag_inv_def real_inv_def lp_start_def memo_ok_def best_ok_def chain_ok_def max_memo_def)
  from lp_loop_inv [of "dag_inv inc dest", OF this dag_inv_step [OF assms(1)]]
  have "max_memo inc (lp_memo (lp_loop inc (lp_start dest)))"
    "map_get (lp_memo (lp_loop inc (lp_start dest))) dest \<noteq> None"
    by (auto simp: dag_inv_def real_inv_def)
  then show ?thesis using assms(2) by (auto simp: longestCablePathTo_def max_memo_def)
qed

end
