(* ===== verification/Cycles.thy ===== *)
theory Cycles
  imports Flow
begin

text \<open>
  \<open>modulesInCycles\<close> of \<open>apps/mcp-server/src/analysis.ts\<close>: Tarjan's algorithm for strongly
  connected components with an explicit frame stack.  The first part is the program: one
  function per round of its inner loop, the loop, the outer loop over the modules; a loop that
  might not return is a partial function whose value \<open>None\<close> says so.  The
  second part is its proof: an invariant over the index, the component stack and the
  frames, preserved by every kind of round, that makes the result exactly the modules on
  a directed cycle of cables.
\<close>

section \<open>The program\<close>

type_synonym adjacency = "(string, string list) jsmap"

definition add_edge :: "adjacency \<Rightarrow> cable_s \<Rightarrow> adjacency" where
  "add_edge adj c = (case map_get adj (cb_outputModuleId c) of None \<Rightarrow> adj
     | Some l \<Rightarrow> map_set (cb_outputModuleId c) (l @ [cb_inputModuleId c]) adj)"

definition adjacency_of :: "string list \<Rightarrow> cable_s list \<Rightarrow> adjacency" where
  "adjacency_of ids cs = foldl add_edge (foldl (\<lambda>m i. map_set i [] m) [] ids) cs"

definition succs :: "adjacency \<Rightarrow> string \<Rightarrow> string list" where
  "succs adj v = (case map_get adj v of None \<Rightarrow> [] | Some l \<Rightarrow> l)"

record tarjan =
  tj_index :: "(string, nat) jsmap"
  tj_low :: "(string, nat) jsmap"
  tj_onStack :: "string list"
  tj_stack :: "string list"
  tj_inCycle :: "string list"
  tj_counter :: nat
  tj_work :: "(string \<times> nat) list"

definition index_of :: "tarjan \<Rightarrow> string \<Rightarrow> nat" where
  "index_of s v = the (map_get (tj_index s) v)"

definition low_of :: "tarjan \<Rightarrow> string \<Rightarrow> nat" where
  "low_of s v = the (map_get (tj_low s) v)"

text \<open>Numbering a new module and pushing its frame.\<close>

definition discover :: "string \<Rightarrow> tarjan \<Rightarrow> tarjan" where
  "discover w s = s\<lparr>tj_index := map_set w (tj_counter s) (tj_index s),
     tj_low := map_set w (tj_counter s) (tj_low s), tj_counter := Suc (tj_counter s),
     tj_stack := w # tj_stack s, tj_onStack := tj_onStack s @ [w], tj_work := (w, 0) # tj_work s\<rparr>"

definition lower :: "string \<Rightarrow> nat \<Rightarrow> tarjan \<Rightarrow> tarjan" where
  "lower v n s = s\<lparr>tj_low := map_set v (min (low_of s v) n) (tj_low s)\<rparr>"

text \<open>The \<open>do\<close> loop that pops one component.  Popping an empty array yields \<open>undefined\<close>, which is
  never the module looked for, so the loop does not return then: its value is \<open>None\<close>.\<close>

partial_function (option) pop_component :: "string \<Rightarrow> string list \<Rightarrow> string list \<Rightarrow> (string list \<times> string list) option" where
  "pop_component v st scc = (case st of [] \<Rightarrow> pop_component v [] scc
     | w # st' \<Rightarrow> if w = v then Some (scc @ [w], st') else pop_component v st' (scc @ [w]))"

definition set_add_all :: "string list \<Rightarrow> string list \<Rightarrow> string list" where
  "set_add_all xs s = foldl (\<lambda>s x. if x \<in> set s then s else s @ [x]) s xs"

definition finish :: "string \<Rightarrow> tarjan \<Rightarrow> tarjan option" where
  "finish v s =
     (if low_of s v = index_of s v
      then (case pop_component v (tj_stack s) [] of None \<Rightarrow> None
        | Some (scc, st) \<Rightarrow> Some (s\<lparr>tj_stack := st, tj_onStack := filter (\<lambda>x. x \<notin> set scc) (tj_onStack s),
            tj_inCycle := (if length scc > 1 then set_add_all scc (tj_inCycle s) else tj_inCycle s)\<rparr>))
      else Some s)"

text \<open>The frame of \<open>v\<close> is popped and its low link handed to the frame below.\<close>

definition leave :: "string \<Rightarrow> (string \<times> nat) list \<Rightarrow> tarjan \<Rightarrow> tarjan" where
  "leave v fs s = (let s' = s\<lparr>tj_work := fs\<rparr> in
     (case fs of [] \<Rightarrow> s' | (p, j) # gs \<Rightarrow> lower p (low_of s v) s'))"

definition tj_step :: "adjacency \<Rightarrow> tarjan \<Rightarrow> tarjan option" where
  "tj_step adj s = (case tj_work s of [] \<Rightarrow> Some s
     | (v, i) # fs \<Rightarrow>
       if i < length (succs adj v) then
         let w = succs adj v ! i; s' = s\<lparr>tj_work := (v, Suc i) # fs\<rparr> in
         Some (if \<not> map_has (tj_index s) w then discover w s'
           else if w \<in> set (tj_onStack s) then lower v (index_of s w) s'
           else s')
       else map_option (leave v fs) (finish v s))"

partial_function (option) tj_loop :: "adjacency \<Rightarrow> tarjan \<Rightarrow> tarjan option" where
  "tj_loop adj s = (if tj_work s = [] then Some s
     else (case tj_step adj s of None \<Rightarrow> None | Some t \<Rightarrow> tj_loop adj t))"

fun tj_starts :: "adjacency \<Rightarrow> string list \<Rightarrow> tarjan \<Rightarrow> tarjan option" where
  "tj_starts adj [] s = Some s"
| "tj_starts adj (v # vs) s =
     (case (if map_has (tj_index s) v then Some s else tj_loop adj (discover v s)) of
       None \<Rightarrow> None | Some t \<Rightarrow> tj_starts adj vs t)"

definition self_loops :: "cable_s list \<Rightarrow> string list" where
  "self_loops cs = set_add_all (map cb_outputModuleId (filter (\<lambda>c. cb_outputModuleId c = cb_inputModuleId c) cs)) []"

definition modulesInCycles :: "string list \<Rightarrow> cable_s list \<Rightarrow> string list option" where
  "modulesInCycles ids cs =
     (let adj = adjacency_of ids cs in
      map_option tj_inCycle (tj_starts adj (map fst adj)
        \<lparr>tj_index = [], tj_low = [], tj_onStack = [], tj_stack = [], tj_inCycle = self_loops cs,
         tj_counter = 0, tj_work = []\<rparr>))"

section \<open>Termination\<close>

text \<open>The \<open>do\<close> loop returns iff its module is on the component stack.\<close>

lemma pop_component_found:
  "v \<notin> set A \<Longrightarrow> pop_component v (A @ v # B) scc = Some (scc @ A @ [v], B)"
  by (induction A arbitrary: scc) (auto simp: pop_component.simps)

lemma pop_component_on_stack:
  assumes "pop_component v st scc = Some r"
  shows "v \<in> set st"
proof (rule pop_component.raw_induct [where P = "\<lambda>v st scc r. v \<in> set st", OF _ assms])
  fix f v st scc r
  assume IH: "\<And>v st scc r. f v st scc = Some r \<Longrightarrow> v \<in> set st"
    and "(case st of [] \<Rightarrow> f v [] scc | w # st' \<Rightarrow> if w = v then Some (scc @ [w], st') else f v st' (scc @ [w])) = Some r"
  then show "v \<in> set st" using IH [of v "[]"] by (cases st) (fastforce split: if_splits)+
qed

lemma pop_component_returns: "(\<exists>r. pop_component v st scc = Some r) \<longleftrightarrow> v \<in> set st"
proof
  assume "v \<in> set st"
  then obtain A B where "st = A @ v # B" "v \<notin> set A" using split_list_first by metis
  then show "\<exists>r. pop_component v st scc = Some r" by (simp add: pop_component_found)
qed (use pop_component_on_stack in blast)

text \<open>The modules with a frame lie on the component stack, in the order of the frames.\<close>

definition frames_on_stack :: "tarjan \<Rightarrow> bool" where
  "frames_on_stack s = subseq (map fst (tj_work s)) (tj_stack s)"

definition targets :: "adjacency \<Rightarrow> string set" where
  "targets adj = (\<Union>l \<in> snd ` set adj. set l)"

definition tj_room :: "adjacency \<Rightarrow> tarjan \<Rightarrow> nat" where
  "tj_room adj s = card (targets adj - fst ` set (tj_index s))"

definition tj_rest :: "adjacency \<Rightarrow> tarjan \<Rightarrow> nat" where
  "tj_rest adj s = sum_list (map (\<lambda>(v, i). Suc (length (succs adj v) - i)) (tj_work s))"

lemma finite_targets [simp]: "finite (targets adj)"
  by (simp add: targets_def)

lemma succs_targets: "w \<in> set (succs adj v) \<Longrightarrow> w \<in> targets adj"
proof -
  assume w: "w \<in> set (succs adj v)"
  then obtain l where "map_get adj v = Some l" "w \<in> set l"
    by (cases "map_get adj v") (simp_all add: succs_def)
  then have "(v, l) \<in> set adj" "w \<in> set l" by (auto dest: map_get_in_set)
  then show ?thesis by (force simp: targets_def)
qed

lemma frame_simps [simp]:
  "tj_index (lower v n s) = tj_index s" "tj_work (lower v n s) = tj_work s"
  "tj_stack (lower v n s) = tj_stack s" "tj_onStack (lower v n s) = tj_onStack s"
  "tj_inCycle (lower v n s) = tj_inCycle s" "tj_counter (lower v n s) = tj_counter s"
  "tj_index (leave v fs s) = tj_index s" "tj_work (leave v fs s) = fs"
  "tj_stack (leave v fs s) = tj_stack s" "tj_onStack (leave v fs s) = tj_onStack s"
  "tj_inCycle (leave v fs s) = tj_inCycle s" "tj_counter (leave v fs s) = tj_counter s"
  by (simp_all add: lower_def leave_def Let_def split: list.split)

lemma finish_frame:
  "finish v s = Some t \<Longrightarrow> tj_index t = tj_index s \<and> tj_work t = tj_work s \<and> tj_low t = tj_low s \<and> tj_counter t = tj_counter s"
  by (auto simp: finish_def split: if_splits option.splits)

lemma tj_step_decreases:
  assumes "tj_work s \<noteq> []" and step: "tj_step adj s = Some t"
  shows "tj_room adj t < tj_room adj s \<or> tj_room adj t = tj_room adj s \<and> tj_rest adj t < tj_rest adj s"
proof -
  obtain v i fs where w: "tj_work s = (v, i) # fs" using assms(1) by (cases "tj_work s") auto
  show ?thesis
  proof (cases "i < length (succs adj v) \<and> \<not> map_has (tj_index s) (succs adj v ! i)")
    case True
    let ?w = "succs adj v ! i" and ?A = "targets adj - fst ` set (tj_index s)"
    have "?w \<in> ?A"
      using True succs_targets [of ?w adj v] by (auto simp: map_has_def map_get_None_keys)
    then have "card (?A - {?w}) < card ?A" by (intro psubset_card_mono) auto
    moreover have "tj_index t = map_set ?w (tj_counter s) (tj_index s)"
      using True w step by (auto simp: tj_step_def Let_def discover_def)
    then have "fst ` set (tj_index t) = insert ?w (fst ` set (tj_index s))" by (simp add: set_keys_map_set)
    moreover have "targets adj - insert ?w (fst ` set (tj_index s)) = ?A - {?w}" by auto
    ultimately show ?thesis by (simp add: tj_room_def)
  next
    case False
    then have "tj_index t = tj_index s"
      using w step by (auto simp: tj_step_def Let_def dest: finish_frame split: if_splits)
    moreover have "tj_rest adj t < tj_rest adj s"
      using False w step by (auto simp: tj_step_def Let_def tj_rest_def split: if_splits)
    ultimately show ?thesis by (simp add: tj_room_def)
  qed
qed

text \<open>Total correctness of the loop: a property every round can be taken from and keeps.\<close>

lemma tj_loop_rule:
  assumes round: "\<And>s. P s \<Longrightarrow> tj_work s \<noteq> [] \<Longrightarrow> \<exists>t. tj_step adj s = Some t \<and> P t"
    and start: "P s"
  shows "\<exists>t. tj_loop adj s = Some t \<and> P t \<and> tj_work t = []"
  using start
proof (induction s rule: wf_induct_rule [OF wf_measures, of "[tj_room adj, tj_rest adj]"])
  case (1 s)
  show ?case
  proof (cases "tj_work s = []")
    case True
    then show ?thesis using 1(2) by (simp add: tj_loop.simps [of adj s])
  next
    case False
    then obtain t where t: "tj_step adj s = Some t" "P t" using round 1(2) by blast
    then have "(t, s) \<in> measures [tj_room adj, tj_rest adj]" using tj_step_decreases [OF False] by simp
    then show ?thesis using 1(1) t False by (simp add: tj_loop.simps [of adj s])
  qed
qed

lemma subseq_past: "subseq (v # xs) (A @ v # B) \<Longrightarrow> v \<notin> set A \<Longrightarrow> subseq xs B"
  by (induction A) (auto simp: subseq_Cons2_iff)

lemma frames_round:
  assumes inv: "frames_on_stack s" and "tj_work s \<noteq> []"
  shows "\<exists>t. tj_step adj s = Some t \<and> frames_on_stack t"
proof -
  obtain v i fs where w: "tj_work s = (v, i) # fs" using assms(2) by (cases "tj_work s") auto
  have sub: "subseq (v # map fst fs) (tj_stack s)" using inv w by (simp add: frames_on_stack_def)
  show ?thesis
  proof (cases "i < length (succs adj v)")
    case True
    then show ?thesis using sub w
      by (auto simp: tj_step_def Let_def frames_on_stack_def discover_def intro: subseq_Cons2)
  next
    case False
    have "v \<in> set (tj_stack s)" using sub by (auto dest: list_emb_set)
    then obtain A B where st: "tj_stack s = A @ v # B" "v \<notin> set A" using split_list_first by metis
    have rest: "subseq (map fst fs) B" using subseq_past [OF _ st(2)] sub st(1) by simp
    have "subseq (map fst fs) (tj_stack s)" using sub by (rule subseq_Cons')
    then have "\<exists>t. finish v s = Some t \<and> subseq (map fst fs) (tj_stack t)"
      using rest by (simp add: finish_def st(1) pop_component_found [OF st(2)])
    then obtain t where "finish v s = Some t" "subseq (map fst fs) (tj_stack t)" by blast
    then show ?thesis using False w by (simp add: tj_step_def frames_on_stack_def)
  qed
qed

lemma tj_loop_returns: "frames_on_stack s \<Longrightarrow> \<exists>t. tj_loop adj s = Some t \<and> frames_on_stack t \<and> tj_work t = []"
  by (rule tj_loop_rule [where P = frames_on_stack]) (rule frames_round)

section \<open>The invariant\<close>

text \<open>
  \<open>V\<close> are the numbered modules, \<open>ix\<close> and \<open>lw\<close> their numbers and low links, \<open>n\<close> the counter,
  \<open>S\<close> the component stack, \<open>W\<close> the frames and \<open>C\<close> the modules found on a component of more
  than one module.  A numbered module off the stack is done, one with a frame is open.
\<close>

definition arcs :: "adjacency \<Rightarrow> (string \<times> string) set" where
  "arcs adj = {(x, y). y \<in> set (succs adj x)}"

abbreviation ids :: "(string \<times> nat) list \<Rightarrow> string set" where
  "ids W \<equiv> fst ` set W"

text \<open>The edges the algorithm has looked at so far.\<close>

definition looked :: "adjacency \<Rightarrow> (string \<times> nat) list \<Rightarrow> string \<Rightarrow> string \<Rightarrow> bool" where
  "looked adj W x y = (case map_of W x of None \<Rightarrow> y \<in> set (succs adj x)
     | Some i \<Rightarrow> y \<in> set (take i (succs adj x)))"

definition order_ok :: "string set \<Rightarrow> (string \<Rightarrow> nat) \<Rightarrow> nat \<Rightarrow> string list \<Rightarrow> (string \<times> nat) list \<Rightarrow> bool" where
  "order_ok V ix n S W = ((\<forall>x \<in> V. ix x < n) \<and> inj_on ix V \<and> set S \<subseteq> V \<and>
     sorted_wrt (\<lambda>x y. ix y < ix x) S \<and> ids W \<subseteq> set S \<and> sorted_wrt (\<lambda>x y. ix y < ix x) (map fst W))"

definition done_closed :: "adjacency \<Rightarrow> string set \<Rightarrow> string set \<Rightarrow> bool" where
  "done_closed adj V S = (\<forall>x y. x \<in> V - S \<longrightarrow> (x, y) \<in> arcs adj \<longrightarrow> y \<in> V - S)"

definition looked_seen :: "adjacency \<Rightarrow> string set \<Rightarrow> (string \<times> nat) list \<Rightarrow> bool" where
  "looked_seen adj V W = (\<forall>x y. x \<in> V \<longrightarrow> looked adj W x y \<longrightarrow> y \<in> V)"

definition open_reach :: "adjacency \<Rightarrow> (string \<Rightarrow> nat) \<Rightarrow> string set \<Rightarrow> string set \<Rightarrow> bool" where
  "open_reach adj ix S G = (\<forall>g \<in> G. \<forall>x \<in> S. ix g \<le> ix x \<longrightarrow> (g, x) \<in> (arcs adj)\<^sup>*)"

definition descends :: "adjacency \<Rightarrow> (string \<Rightarrow> nat) \<Rightarrow> string set \<Rightarrow> string set \<Rightarrow> bool" where
  "descends adj ix S G = (\<forall>x \<in> S - G. \<exists>y \<in> S. ix y < ix x \<and> (x, y) \<in> (arcs adj)\<^sup>*)"

definition low_sound :: "adjacency \<Rightarrow> (string \<Rightarrow> nat) \<Rightarrow> (string \<Rightarrow> nat) \<Rightarrow> string set \<Rightarrow> string set \<Rightarrow> bool" where
  "low_sound adj ix lw S G = (\<forall>g \<in> G. lw g \<le> ix g \<and> (\<exists>u \<in> S. ix u = lw g \<and> (g, u) \<in> (arcs adj)\<^sup>*))"

text \<open>The low link of a frame bounds every looked-at edge into the stack from its segment,
  the stacked modules from its own number up to the next open one.\<close>

fun low_complete :: "(string \<Rightarrow> string \<Rightarrow> bool) \<Rightarrow> (string \<Rightarrow> nat) \<Rightarrow> (string \<Rightarrow> nat) \<Rightarrow> string set \<Rightarrow>
  nat option \<Rightarrow> (string \<times> nat) list \<Rightarrow> bool" where
  "low_complete L ix lw S b [] = True"
| "low_complete L ix lw S b ((g, i) # fs) =
     ((\<forall>x \<in> S. \<forall>y \<in> S. ix g \<le> ix x \<longrightarrow> (b = None \<or> ix x < the b) \<longrightarrow> L x y \<longrightarrow> lw g \<le> ix y) \<and>
      low_complete L ix lw S (Some (ix g)) fs)"

definition mutual :: "adjacency \<Rightarrow> string \<Rightarrow> bool" where
  "mutual adj x = (\<exists>y. y \<noteq> x \<and> (x, y) \<in> (arcs adj)\<^sup>* \<and> (y, x) \<in> (arcs adj)\<^sup>*)"

definition tj_inv :: "adjacency \<Rightarrow> string set \<Rightarrow> (string \<Rightarrow> nat) \<Rightarrow> (string \<Rightarrow> nat) \<Rightarrow> nat \<Rightarrow> string list \<Rightarrow>
  (string \<times> nat) list \<Rightarrow> string set \<Rightarrow> bool" where
  "tj_inv adj V ix lw n S W C = (order_ok V ix n S W \<and> done_closed adj V (set S) \<and> looked_seen adj V W \<and>
     open_reach adj ix (set S) (ids W) \<and> descends adj ix (set S) (ids W) \<and>
     low_sound adj ix lw (set S) (ids W) \<and> low_complete (looked adj W) ix lw (set S) None W \<and>
     C = {x \<in> V - set S. mutual adj x})"

section \<open>Preservation\<close>

lemma order_distinct:
  "sorted_wrt (\<lambda>x y. (ix y :: nat) < ix x) xs \<Longrightarrow> distinct xs"
  by (induction xs) auto

lemma looked_Cons_other: "x \<noteq> v \<Longrightarrow> looked adj ((v, i) # W) x y = looked adj W x y"
  by (simp add: looked_def)

lemma looked_advance:
  "i < length (succs adj v) \<Longrightarrow>
     looked adj ((v, Suc i) # W) x y \<longleftrightarrow> looked adj ((v, i) # W) x y \<or> x = v \<and> y = succs adj v ! i"
  by (auto simp: looked_def take_Suc_conv_app_nth)

lemma looked_retire:
  assumes "length (succs adj v) \<le> i" and "v \<notin> ids W"
  shows "looked adj W = looked adj ((v, i) # W)"
proof (intro ext)
  fix x y
  have "map_of W v = None" using assms(2) by (simp add: map_of_eq_None_iff)
  then show "looked adj W x y = looked adj ((v, i) # W) x y" using assms(1) by (simp add: looked_def)
qed

lemma low_complete_mono:
  assumes "low_complete L ix lw S (Some b) fs"
    and "\<And>x y. x \<in> S' \<Longrightarrow> y \<in> S' \<Longrightarrow> ix x < b \<Longrightarrow> L' x y \<Longrightarrow> x \<in> S \<and> y \<in> S \<and> L x y"
    and "sorted_wrt (\<lambda>x y. ix y < ix x) (map fst fs)" and "\<And>g. g \<in> ids fs \<Longrightarrow> ix g < b"
  shows "low_complete L' ix lw S' (Some b) fs"
  using assms
proof (induction fs arbitrary: b)
  case (Cons f fs)
  obtain g i where f: "f = (g, i)" by (cases f)
  have gb: "ix g < b" using Cons.prems(4) f by simp
  have "low_complete L' ix lw S' (Some (ix g)) fs"
  proof (rule Cons.IH)
    show "low_complete L ix lw S (Some (ix g)) fs" using Cons.prems(1) f by simp
    show "x \<in> S \<and> y \<in> S \<and> L x y" if "x \<in> S'" "y \<in> S'" "ix x < ix g" "L' x y" for x y
      using Cons.prems(2) that gb by simp
    show "sorted_wrt (\<lambda>x y. ix y < ix x) (map fst fs)" using Cons.prems(3) by simp
    show "ix h < ix g" if "h \<in> ids fs" for h using Cons.prems(3) f that by auto
  qed
  moreover have "lw g \<le> ix y" if "x \<in> S'" "y \<in> S'" "ix g \<le> ix x" "ix x < b" "L' x y" for x y
  proof -
    have *: "\<forall>x \<in> S. \<forall>y \<in> S. ix g \<le> ix x \<longrightarrow> ix x < b \<longrightarrow> L x y \<longrightarrow> lw g \<le> ix y"
      using Cons.prems(1) f by simp
    have "x \<in> S \<and> y \<in> S \<and> L x y" using Cons.prems(2) that by blast
    then show ?thesis using * that by blast
  qed
  ultimately show ?case using f by simp
qed simp

lemma low_complete_cong:
  assumes "\<And>x. x \<in> S \<union> ids fs \<Longrightarrow> ix' x = ix x" and "\<And>g. g \<in> ids fs \<Longrightarrow> lw' g = lw g"
  shows "low_complete L ix' lw' S b fs = low_complete L ix lw S b fs"
  using assms
proof (induction fs arbitrary: b)
  case (Cons f fs)
  obtain g i where f: "f = (g, i)" by (cases f)
  have "low_complete L ix' lw' S (Some (ix' g)) fs = low_complete L ix lw S (Some (ix g)) fs"
    using Cons f by auto
  then show ?case using Cons.prems unfolding f by simp
qed simp

lemma order_top:
  assumes "order_ok V ix n S ((v, i) # fs)" and "g \<in> ids fs"
  shows "ix g < ix v" "g \<in> V" "g \<noteq> v"
  using assms by (auto simp: order_ok_def)

lemma order_ids:
  assumes "order_ok V ix n S W"
  shows "ids W \<subseteq> V" "set S \<subseteq> V"
  using assms by (auto simp: order_ok_def)

lemma order_fs:
  assumes "order_ok V ix n S ((v, i) # fs)"
  shows "sorted_wrt (\<lambda>x y. ix y < ix x) (map fst fs)" "v \<notin> ids fs" "v \<in> set S" "v \<in> V" "ids fs \<subseteq> set S"
  using assms order_top(3) [OF assms] by (auto simp: order_ok_def)

text \<open>Looking at an edge to a numbered module; \<open>lw'\<close> takes it into account if it is stacked.\<close>

lemma low_sound_look:
  assumes "low_sound adj ix lw S G" and "(v, w) \<in> (arcs adj)\<^sup>*" and "w \<in> S"
  shows "low_sound adj ix (lw(v := min (lw v) (ix w))) S G"
proof -
  have "\<exists>u \<in> S. ix u = min (lw v) (ix w) \<and> (v, u) \<in> (arcs adj)\<^sup>*" if "v \<in> G"
  proof (cases "lw v \<le> ix w")
    case True
    then show ?thesis using assms(1) that by (simp add: low_sound_def min_absorb1)
  next
    case False
    then show ?thesis using assms(2,3) by (auto simp: min_def)
  qed
  then show ?thesis using assms(1) by (simp add: low_sound_def min_le_iff_disj)
qed

lemma low_complete_look:
  assumes lc: "low_complete (looked adj ((v, i) # fs)) ix lw S None ((v, i) # fs)"
    and i: "i < length (succs adj v)" and v: "v \<notin> ids fs"
    and sorted: "sorted_wrt (\<lambda>x y. ix y < ix x) (map fst fs)" "\<And>g. g \<in> ids fs \<Longrightarrow> ix g < ix v"
    and low: "lw' v \<le> lw v" "\<And>g. g \<noteq> v \<Longrightarrow> lw' g = lw g"
    and w: "succs adj v ! i \<in> S \<Longrightarrow> lw' v \<le> ix (succs adj v ! i)"
  shows "low_complete (looked adj ((v, Suc i) # fs)) ix lw' S None ((v, Suc i) # fs)"
proof -
  let ?L = "looked adj ((v, i) # fs)" and ?L' = "looked adj ((v, Suc i) # fs)"
  have L: "?L' x y \<longleftrightarrow> ?L x y \<or> x = v \<and> y = succs adj v ! i" for x y by (rule looked_advance [OF i])
  have "low_complete ?L ix lw S (Some (ix v)) fs" using lc by simp
  then have "low_complete ?L' ix lw S (Some (ix v)) fs"
    by (rule low_complete_mono) (use L sorted in auto)
  moreover have "low_complete ?L' ix lw' S (Some (ix v)) fs = low_complete ?L' ix lw S (Some (ix v)) fs"
  proof (rule low_complete_cong)
    fix g assume "g \<in> ids fs"
    with v have "g \<noteq> v" by blast
    then show "lw' g = lw g" by (rule low(2))
  qed simp
  moreover have "lw' v \<le> ix y" if "x \<in> S" "y \<in> S" "ix v \<le> ix x" "?L' x y" for x y
  proof (cases "?L x y")
    case True
    then have "lw v \<le> ix y" using lc that by simp
    then show ?thesis using low by simp
  next
    case False
    then have "y = succs adj v ! i" using that L by blast
    then show ?thesis using that(2) w by simp
  qed
  ultimately show ?thesis by simp
qed

lemma inv_look:
  assumes inv: "tj_inv adj V ix lw n S ((v, i) # fs) C" and i: "i < length (succs adj v)"
    and w: "succs adj v ! i \<in> V"
    and lw': "lw' = (if succs adj v ! i \<in> set S then lw(v := min (lw v) (ix (succs adj v ! i))) else lw)"
  shows "tj_inv adj V ix lw' n S ((v, Suc i) # fs) C"
proof -
  let ?w = "succs adj v ! i" and ?W = "(v, i) # fs" and ?W' = "(v, Suc i) # fs"
  from inv have o: "order_ok V ix n S ?W" and seen: "looked_seen adj V ?W"
    and sound: "low_sound adj ix lw (set S) (ids ?W)"
    and lc: "low_complete (looked adj ?W) ix lw (set S) None ?W"
    by (simp_all add: tj_inv_def)
  have vw: "(v, ?w) \<in> (arcs adj)\<^sup>*" using i by (auto simp: arcs_def)
  have "looked_seen adj V ?W'" using seen w by (auto simp: looked_seen_def looked_advance [OF i])
  moreover have "low_sound adj ix lw' (set S) (ids ?W)"
    unfolding lw' using sound low_sound_look [OF sound vw] by simp
  moreover have "low_complete (looked adj ?W') ix lw' (set S) None ?W'"
    by (rule low_complete_look [OF lc i order_fs(2) [OF o] order_fs(1) [OF o]])
      (use order_top [OF o] in \<open>auto simp: lw'\<close>)
  moreover have "order_ok V ix n S ?W'" using o by (simp add: order_ok_def)
  ultimately show ?thesis using inv by (simp add: tj_inv_def)
qed

text \<open>Numbering a module: the first one of a search, or the target of the edge at the cursor.\<close>

definition advance :: "(string \<times> nat) list \<Rightarrow> (string \<times> nat) list" where
  "advance W = (case W of [] \<Rightarrow> [] | (v, i) # fs \<Rightarrow> (v, Suc i) # fs)"

lemma ids_advance [simp]: "ids (advance W) = ids W" "map fst (advance W) = map fst W"
proof -
  show "ids (advance W) = ids W"
  proof (cases W)
    case (Cons f fs)
    then show ?thesis by (cases f) (simp add: advance_def)
  qed (simp add: advance_def)
  show "map fst (advance W) = map fst W"
  proof (cases W)
    case (Cons f fs)
    then show ?thesis by (cases f) (simp add: advance_def)
  qed (simp add: advance_def)
qed

lemma sorted_upd:
  "sorted_wrt (\<lambda>x y. (ix y :: nat) < ix x) xs \<Longrightarrow> w \<notin> set xs \<Longrightarrow>
     sorted_wrt (\<lambda>x y. (ix(w := n)) y < (ix(w := n)) x) xs"
proof (induction xs)
  case (Cons x xs)
  then have x: "x \<noteq> w" and xs: "w \<notin> set xs" and lt: "\<forall>y \<in> set xs. ix y < ix x" by auto
  have "(ix(w := n)) y < (ix(w := n)) x" if "y \<in> set xs" for y
  proof -
    have "y \<noteq> w" using that xs by blast
    then show ?thesis using lt that x by simp
  qed
  moreover have "sorted_wrt (\<lambda>x y. (ix(w := n)) y < (ix(w := n)) x) xs"
    using Cons.IH Cons.prems by simp
  ultimately show ?case by simp
qed simp

lemma order_discover:
  assumes o: "order_ok V ix n S W" and w: "w \<notin> V"
  shows "order_ok (insert w V) (ix(w := n)) (Suc n) (w # S) ((w, 0) # advance W)"
proof -
  let ?ix = "ix(w := n)"
  have SV: "set S \<subseteq> V" and WS: "ids W \<subseteq> set S" and lt: "\<And>x. x \<in> V \<Longrightarrow> ix x < n" and inj: "inj_on ix V"
    using o by (simp_all add: order_ok_def)
  have same: "?ix x = ix x" if "x \<in> V" for x using that w by auto
  have nS: "w \<notin> set S" "w \<notin> set (map fst W)" using w SV WS by auto
  have "\<forall>x \<in> insert w V. ?ix x < Suc n" using same lt by (auto intro: less_SucI)
  moreover have "inj_on ?ix V" using inj same by (simp add: inj_on_def)
  then have "inj_on ?ix (insert w V)" using w lt same by (auto simp: image_iff dest!: lt)
  moreover have "\<forall>x \<in> set S. ?ix x < ?ix w" using lt SV nS by auto
  then have "sorted_wrt (\<lambda>x y. ?ix y < ?ix x) (w # S)"
    using sorted_upd [of ix S w n] o nS(1) by (simp add: order_ok_def)
  moreover have "\<forall>x \<in> set (map fst W). ?ix x < ?ix w" using lt SV WS nS(2) by auto
  then have "sorted_wrt (\<lambda>x y. ?ix y < ?ix x) (map fst ((w, 0) # advance W))"
    using sorted_upd [of ix "map fst W" w n] o nS(2) by (simp add: order_ok_def)
  ultimately show ?thesis using SV WS unfolding order_ok_def by auto
qed

text \<open>The cursor of the top frame is at an edge to \<open>w\<close>.\<close>

definition cursor_at :: "adjacency \<Rightarrow> (string \<times> nat) list \<Rightarrow> string \<Rightarrow> bool" where
  "cursor_at adj W w = (case W of [] \<Rightarrow> True
     | (v, i) # fs \<Rightarrow> i < length (succs adj v) \<and> succs adj v ! i = w)"

lemma cursor_edge:
  assumes "cursor_at adj ((v, i) # fs) w" shows "(v, w) \<in> arcs adj"
  using assms nth_mem [of i "succs adj v"] by (auto simp: cursor_at_def arcs_def)

lemma looked_discover:
  assumes at: "cursor_at adj W w"
  shows "looked adj ((w, 0) # advance W) x y \<longleftrightarrow>
    x \<noteq> w \<and> (looked adj W x y \<or> (\<exists>i fs. W = (x, i) # fs \<and> y = w))"
proof (cases "x = w")
  case True
  then show ?thesis by (simp add: looked_def)
next
  case False
  show ?thesis
  proof (cases W)
    case Nil
    then show ?thesis using False by (simp add: advance_def looked_def)
  next
    case (Cons f fs)
    obtain v i where W: "W = (v, i) # fs" using Cons by (cases f) simp
    have "i < length (succs adj v)" "succs adj v ! i = w" using at W by (simp_all add: cursor_at_def)
    then have "looked adj ((v, Suc i) # fs) x y \<longleftrightarrow> looked adj ((v, i) # fs) x y \<or> x = v \<and> y = w"
      using looked_advance [of i adj v fs x y] by simp
    then show ?thesis using False W by (auto simp: advance_def looked_Cons_other)
  qed
qed

lemma reach_discover:
  assumes o: "order_ok V ix n S W" and reach: "open_reach adj ix (set S) (ids W)"
    and w: "w \<notin> V" and at: "cursor_at adj W w"
  shows "open_reach adj (ix(w := n)) (set (w # S)) (ids ((w, 0) # advance W))"
  unfolding open_reach_def
proof (intro ballI impI)
  let ?ix = "ix(w := n)"
  fix g x assume g: "g \<in> ids ((w, 0) # advance W)" and x: "x \<in> set (w # S)" and le: "?ix g \<le> ?ix x"
  have lt: "ix y < n \<and> y \<noteq> w" if "y \<in> set S" for y using o w that by (auto simp: order_ok_def)
  consider "g = w" | "g \<noteq> w" "g \<in> ids W" "x = w" | "g \<noteq> w" "g \<in> ids W" "x \<noteq> w" "x \<in> set S"
    using g x by auto
  then show "(g, x) \<in> (arcs adj)\<^sup>*"
  proof cases
    case 1
    have "x = w"
    proof (rule ccontr)
      assume "x \<noteq> w"
      then have "x \<in> set S" using x by simp
      then show False using lt [of x] le 1 by simp
    qed
    then show ?thesis using 1 by simp
  next
    case 2
    then obtain v i fs where W: "W = (v, i) # fs" by (cases W) auto
    have "ix g \<le> ix v"
      using 2(2) order_top(1) [OF o [unfolded W], of g] W by (auto intro: less_imp_le)
    then have "(g, v) \<in> (arcs adj)\<^sup>*"
      using reach 2(2) order_fs(3) [OF o [unfolded W]] unfolding open_reach_def by blast
    then show ?thesis using cursor_edge [OF at [unfolded W]] 2(3) by simp
  next
    case 3
    then have "ix g \<le> ix x" using le by simp
    then show ?thesis using 3 reach unfolding open_reach_def by blast
  qed
qed

lemma low_sound_discover:
  assumes sound: "low_sound adj ix lw (set S) (ids W)" and w: "w \<notin> set S"
  shows "low_sound adj (ix(w := n)) (lw(w := n)) (set (w # S)) (ids ((w, 0) # advance W))"
  unfolding low_sound_def
proof
  let ?ix = "ix(w := n)" and ?lw = "lw(w := n)"
  fix g assume g: "g \<in> ids ((w, 0) # advance W)"
  show "?lw g \<le> ?ix g \<and> (\<exists>u \<in> set (w # S). ?ix u = ?lw g \<and> (g, u) \<in> (arcs adj)\<^sup>*)"
  proof (cases "g = w")
    case False
    then have "g \<in> ids W" using g by auto
    then obtain u where "lw g \<le> ix g" "u \<in> set S" "ix u = lw g" "(g, u) \<in> (arcs adj)\<^sup>*"
      using sound by (auto simp: low_sound_def)
    then show ?thesis using False w by (intro conjI bexI [of _ u]) auto
  qed simp
qed

lemma descends_discover:
  assumes desc: "descends adj ix (set S) (ids W)" and w: "w \<notin> set S"
  shows "descends adj (ix(w := n)) (set (w # S)) (ids ((w, 0) # advance W))"
  unfolding descends_def
proof
  fix x assume "x \<in> set (w # S) - ids ((w, 0) # advance W)"
  then have "x \<in> set S - ids W" "x \<noteq> w" by auto
  then obtain y where "y \<in> set S" "ix y < ix x" "(x, y) \<in> (arcs adj)\<^sup>*"
    using desc by (auto simp: descends_def)
  then show "\<exists>y \<in> set (w # S). (ix(w := n)) y < (ix(w := n)) x \<and> (x, y) \<in> (arcs adj)\<^sup>*"
    using \<open>x \<noteq> w\<close> w by (intro bexI [of _ y]) auto
qed

lemma low_complete_discover_top:
  assumes o: "order_ok V ix n S W" and seen: "looked_seen adj V W"
    and sound: "low_sound adj ix lw (set S) (ids W)"
    and lc: "low_complete (looked adj W) ix lw (set S) None W"
    and w: "w \<notin> V" and at: "cursor_at adj W w"
  shows "low_complete (looked adj ((w, 0) # advance W)) (ix(w := n)) (lw(w := n)) (set (w # S)) (Some n) (advance W)"
proof (cases W)
  case (Cons f fs)
  let ?ix = "ix(w := n)" and ?lw = "lw(w := n)" and ?L = "looked adj ((w, 0) # advance W)"
  obtain v i where W: "W = (v, i) # fs" using Cons by (cases f) simp
  note o' = o [unfolded W]
  have SV: "set S \<subseteq> V" and lt: "\<And>x. x \<in> V \<Longrightarrow> ix x < n" using o by (simp_all add: order_ok_def)
  have nS: "w \<notin> set S" "w \<notin> ids fs" "v \<noteq> w" using w SV order_fs [OF o'] by auto
  have v: "v \<in> set S" "lw v \<le> ix v" "ix v < n"
    using sound W order_fs [OF o'] lt by (simp_all add: low_sound_def)
  have look: "x \<in> set S \<and> y \<in> set S \<and> looked adj W x y"
    if that: "y \<in> set (w # S)" "?L x y" "x \<in> set S" "y \<noteq> w" for x y
  proof -
    have "looked adj W x y" using that(2,4) by (simp add: looked_discover [OF at])
    then show ?thesis using that by simp
  qed
  have look2: "x \<in> set S \<and> y \<in> set S \<and> looked adj W x y"
    if that: "x \<in> set (w # S)" "y \<in> set (w # S)" "?ix x < ix v" "?L x y" for x y
  proof -
    have "x \<noteq> w" using that(3) v(3) by auto
    moreover from this have x: "x \<in> set S" using that(1) by simp
    moreover have "x \<noteq> v" using that(3) nS(3) by auto
    ultimately have l: "looked adj W x y" using that(4) [unfolded looked_discover [OF at]] W by simp
    then have "y \<in> V" using seen x SV by (auto simp: looked_seen_def)
    then have "y \<in> set S" using that(2) w by auto
    then show ?thesis using x l by simp
  qed
  have "low_complete (looked adj W) ix lw (set S) (Some (ix v)) fs" using lc W by simp
  moreover have "low_complete (looked adj W) ?ix ?lw (set S) (Some (ix v)) fs =
      low_complete (looked adj W) ix lw (set S) (Some (ix v)) fs"
    by (rule low_complete_cong) (use nS in auto)
  ultimately have "low_complete (looked adj W) ?ix ?lw (set S) (Some (ix v)) fs" by simp
  then have 1: "low_complete ?L ?ix ?lw (set (w # S)) (Some (ix v)) fs"
  proof (rule low_complete_mono)
    show "x \<in> set S \<and> y \<in> set S \<and> looked adj W x y"
      if "x \<in> set (w # S)" "y \<in> set (w # S)" "?ix x < ix v" "?L x y" for x y
      by (rule look2 [OF that])
    show "sorted_wrt (\<lambda>x y. ?ix y < ?ix x) (map fst fs)"
      by (rule sorted_upd [OF order_fs(1) [OF o']]) (use nS in auto)
    show "?ix g < ix v" if "g \<in> ids fs" for g
    proof -
      have "g \<noteq> w" using that nS(2) by blast
      then show ?thesis using order_top(1) [OF o' that] by simp
    qed
  qed
  have 2: "lw v \<le> ?ix y"
    if that: "x \<in> set (w # S)" "y \<in> set (w # S)" "ix v \<le> ?ix x" "?ix x < n" "?L x y" for x y
  proof (cases "y = w")
    case True
    then show ?thesis using v by simp
  next
    case False
    have xw: "x \<noteq> w" using that(4) by auto
    then have "x \<in> set S" using that(1) by simp
    with look that(2,5) False have "x \<in> set S \<and> y \<in> set S \<and> looked adj W x y" by blast
    moreover have "\<forall>x \<in> set S. \<forall>y \<in> set S. ix v \<le> ix x \<longrightarrow> looked adj W x y \<longrightarrow> lw v \<le> ix y"
      using lc W by simp
    moreover have "ix v \<le> ix x" using that(3) xw by simp
    ultimately have "lw v \<le> ix y" by blast
    then show ?thesis using False by simp
  qed
  from 1 2 show ?thesis using nS(3) by (simp add: W advance_def)
qed (simp add: advance_def)

lemma inv_discover:
  assumes inv: "tj_inv adj V ix lw n S W C" and w: "w \<notin> V" and at: "cursor_at adj W w"
  shows "tj_inv adj (insert w V) (ix(w := n)) (lw(w := n)) (Suc n) (w # S) ((w, 0) # advance W) C"
proof -
  let ?ix = "ix(w := n)" and ?lw = "lw(w := n)" and ?W = "(w, 0) # advance W"
  from inv have o: "order_ok V ix n S W" and dc: "done_closed adj V (set S)" and seen: "looked_seen adj V W"
    and reach: "open_reach adj ix (set S) (ids W)" and desc: "descends adj ix (set S) (ids W)"
    and sound: "low_sound adj ix lw (set S) (ids W)"
    and lc: "low_complete (looked adj W) ix lw (set S) None W" and C: "C = {x \<in> V - set S. mutual adj x}"
    unfolding tj_inv_def by - (elim conjE, assumption)+
  have SV: "set S \<subseteq> V" and lt: "\<And>x. x \<in> V \<Longrightarrow> ix x < n" using o by (simp_all add: order_ok_def)
  have nS: "w \<notin> set S" using w SV by auto
  have 1: "insert w V - set (w # S) = V - set S" using w by auto
  have "done_closed adj (insert w V) (set (w # S))" using dc unfolding done_closed_def 1 .
  moreover have "looked_seen adj (insert w V) ?W"
    unfolding looked_seen_def looked_discover [OF at]
  proof (intro allI impI)
    fix x y assume "x \<in> insert w V" "x \<noteq> w \<and> (looked adj W x y \<or> (\<exists>i fs. W = (x, i) # fs \<and> y = w))"
    then show "y \<in> insert w V" using seen by (auto simp: looked_seen_def)
  qed
  moreover have "low_complete (looked adj ?W) ?ix ?lw (set (w # S)) None ?W"
  proof -
    have "x = w" if "x \<in> set (w # S)" "?ix w \<le> ?ix x" for x
    proof (rule ccontr)
      assume "x \<noteq> w"
      then have "x \<in> V" "?ix x = ix x" using that SV by auto
      then show False using lt [of x] that(2) by simp
    qed
    moreover have "\<not> looked adj ?W w y" for y by (simp add: looked_discover [OF at])
    ultimately have "?lw w \<le> ?ix y" if "x \<in> set (w # S)" "?ix w \<le> ?ix x" "looked adj ?W x y" for x y
      using that by blast
    then have "\<forall>x \<in> set (w # S). \<forall>y \<in> set (w # S). ?ix w \<le> ?ix x \<longrightarrow> (None = None \<or> ?ix x < the None) \<longrightarrow>
        looked adj ?W x y \<longrightarrow> ?lw w \<le> ?ix y" by blast
    moreover have "low_complete (looked adj ?W) ?ix ?lw (set (w # S)) (Some (?ix w)) (advance W)"
      unfolding fun_upd_same by (rule low_complete_discover_top [OF o seen sound lc w at])
    ultimately show ?thesis unfolding low_complete.simps by (rule conjI)
  qed
  moreover have "C = {x \<in> insert w V - set (w # S). mutual adj x}" using C unfolding 1 .
  ultimately show ?thesis
    unfolding tj_inv_def
    by (intro conjI order_discover [OF o w] reach_discover [OF o reach w at] descends_discover [OF desc nS]
      low_sound_discover [OF sound nS])
qed

text \<open>The end of a frame: the module's edges are all looked at.\<close>

lemma descent:
  assumes "descends adj ix S G" and "x \<in> S"
  shows "\<exists>g \<in> S. g \<in> G \<and> ix g \<le> ix x \<and> (x, g) \<in> (arcs adj)\<^sup>*"
  using assms(2)
proof (induction "ix x" arbitrary: x rule: less_induct)
  case less
  show ?case
  proof (cases "x \<in> G")
    case True
    then show ?thesis using less.prems by blast
  next
    case False
    then have "x \<in> S - G" using less.prems by blast
    then obtain y where y: "y \<in> S" "ix y < ix x" "(x, y) \<in> (arcs adj)\<^sup>*"
      using assms(1) unfolding descends_def by blast
    from less.hyps [OF y(2,1)] obtain g where "g \<in> S" "g \<in> G" "ix g \<le> ix y" "(y, g) \<in> (arcs adj)\<^sup>*"
      by blast
    then show ?thesis using y by (intro bexI [of _ g]) auto
  qed
qed

definition hand_up :: "nat \<Rightarrow> (string \<times> nat) list \<Rightarrow> (string \<Rightarrow> nat) \<Rightarrow> string \<Rightarrow> nat" where
  "hand_up l fs lw = (case fs of [] \<Rightarrow> lw | (p, j) # gs \<Rightarrow> lw(p := min (lw p) l))"

lemma order_retire:
  "order_ok V ix n S ((v, i) # fs) \<Longrightarrow> order_ok V ix n S fs"
  by (simp add: order_ok_def)

lemma low_sound_retire:
  assumes o: "order_ok V ix n S ((v, i) # fs)"
    and reach: "open_reach adj ix (set S) (ids ((v, i) # fs))"
    and sound: "low_sound adj ix lw (set S) (ids ((v, i) # fs))"
  shows "low_sound adj ix (hand_up (lw v) fs lw) (set S) (ids fs)"
  unfolding low_sound_def
proof
  fix g assume g: "g \<in> ids fs"
  then obtain p j gs where fs: "fs = (p, j) # gs" by (cases fs) auto
  have p: "lw p \<le> ix p" "p \<in> set S" "ix p \<le> ix v"
    using sound order_fs(5) [OF o] order_top(1) [OF o, of p] unfolding fs low_sound_def by auto
  obtain u where u: "u \<in> set S" "ix u = lw v" "(v, u) \<in> (arcs adj)\<^sup>*"
    using sound unfolding low_sound_def by auto
  obtain u' where u': "lw g \<le> ix g" "u' \<in> set S" "ix u' = lw g" "(g, u') \<in> (arcs adj)\<^sup>*"
    using sound g unfolding low_sound_def by auto
  have pv: "(p, v) \<in> (arcs adj)\<^sup>*"
    using reach p order_fs(3) [OF o] unfolding open_reach_def fs by auto
  show "hand_up (lw v) fs lw g \<le> ix g \<and>
      (\<exists>u \<in> set S. ix u = hand_up (lw v) fs lw g \<and> (g, u) \<in> (arcs adj)\<^sup>*)"
  proof (cases "g = p \<and> lw v < lw p")
    case True
    then have "hand_up (lw v) fs lw g = lw v" by (simp add: hand_up_def fs)
    moreover have "(g, u) \<in> (arcs adj)\<^sup>*" using pv u(3) True by (simp add: rtrancl_trans)
    ultimately show ?thesis using u p True by auto
  next
    case False
    then have "hand_up (lw v) fs lw g = lw g" by (auto simp: hand_up_def fs)
    then show ?thesis using u' by auto
  qed
qed

lemma low_complete_retire:
  assumes o: "order_ok V ix n S ((v, i) # fs)"
    and lc: "low_complete L ix lw (set S) None ((v, i) # fs)"
  shows "low_complete L ix (hand_up (lw v) fs lw) (set S) None fs"
proof (cases fs)
  case (Cons f gs)
  obtain p j where fs: "fs = (p, j) # gs" using Cons by (cases f) simp
  let ?lw = "hand_up (lw v) fs lw"
  have top: "\<forall>x \<in> set S. \<forall>y \<in> set S. ix v \<le> ix x \<longrightarrow> L x y \<longrightarrow> lw v \<le> ix y"
    and snd: "\<forall>x \<in> set S. \<forall>y \<in> set S. ix p \<le> ix x \<longrightarrow> ix x < ix v \<longrightarrow> L x y \<longrightarrow> lw p \<le> ix y"
    and rest: "low_complete L ix lw (set S) (Some (ix p)) gs"
    using lc fs by simp_all
  have "?lw p = min (lw p) (lw v)" by (simp add: hand_up_def fs)
  then have "?lw p \<le> ix y" if "x \<in> set S" "y \<in> set S" "ix p \<le> ix x" "L x y" for x y
    using top snd that by (cases "ix x < ix v") (auto simp: min_le_iff_disj not_less)
  moreover have "low_complete L ix ?lw (set S) (Some (ix p)) gs = low_complete L ix lw (set S) (Some (ix p)) gs"
  proof (rule low_complete_cong)
    fix g assume "g \<in> ids gs"
    moreover have "p \<notin> ids gs" by (rule order_fs(2) [OF order_retire [OF o, unfolded fs]])
    ultimately show "?lw g = lw g" by (auto simp: hand_up_def fs)
  qed simp
  ultimately show ?thesis unfolding fs low_complete.simps using rest fs by blast
qed simp

lemma inv_retire:
  assumes inv: "tj_inv adj V ix lw n S ((v, i) # fs) C" and i: "length (succs adj v) \<le> i"
    and low: "lw v \<noteq> ix v"
  shows "tj_inv adj V ix (hand_up (lw v) fs lw) n S fs C"
proof -
  from inv have o: "order_ok V ix n S ((v, i) # fs)" and dc: "done_closed adj V (set S)"
    and seen: "looked_seen adj V ((v, i) # fs)"
    and reach: "open_reach adj ix (set S) (ids ((v, i) # fs))" and desc: "descends adj ix (set S) (ids ((v, i) # fs))"
    and sound: "low_sound adj ix lw (set S) (ids ((v, i) # fs))"
    and lc: "low_complete (looked adj ((v, i) # fs)) ix lw (set S) None ((v, i) # fs)"
    and C: "C = {x \<in> V - set S. mutual adj x}"
    unfolding tj_inv_def by - (elim conjE, assumption)+
  have L: "looked adj fs = looked adj ((v, i) # fs)" by (rule looked_retire [OF i order_fs(2) [OF o]])
  have "looked_seen adj V fs" using seen by (simp add: looked_seen_def L)
  moreover have "open_reach adj ix (set S) (ids fs)" using reach by (simp add: open_reach_def)
  moreover have "descends adj ix (set S) (ids fs)"
    unfolding descends_def
  proof
    fix x assume x: "x \<in> set S - ids fs"
    show "\<exists>y \<in> set S. ix y < ix x \<and> (x, y) \<in> (arcs adj)\<^sup>*"
    proof (cases "x = v")
      case True
      obtain u where "lw v \<le> ix v" "u \<in> set S" "ix u = lw v" "(v, u) \<in> (arcs adj)\<^sup>*"
        using sound unfolding low_sound_def by auto
      moreover from this have "ix u < ix v" using low by simp
      ultimately show ?thesis using True by blast
    next
      case False
      then have "x \<in> set S - ids ((v, i) # fs)" using x by auto
      then show ?thesis using desc unfolding descends_def by blast
    qed
  qed
  moreover have "low_complete (looked adj fs) ix (hand_up (lw v) fs lw) (set S) None fs"
    unfolding L by (rule low_complete_retire [OF o lc])
  ultimately show ?thesis
    unfolding tj_inv_def by (intro conjI order_retire [OF o] dc low_sound_retire [OF o reach sound] C)
qed

text \<open>The end of a frame whose low link is its own number: its segment of the stack is a
  strongly connected component.\<close>

lemma low_complete_cut:
  assumes "low_complete L ix lw S (Some b) fs" and "\<And>x. x \<in> S' \<Longrightarrow> x \<in> S \<and> ix x < b"
  shows "low_complete L ix lw S' None fs"
proof (cases fs)
  case (Cons f gs)
  obtain g i where fs: "fs = (g, i) # gs" using Cons by (cases f) simp
  have *: "\<forall>x \<in> S. \<forall>y \<in> S. ix g \<le> ix x \<longrightarrow> ix x < b \<longrightarrow> L x y \<longrightarrow> lw g \<le> ix y"
    and rest: "low_complete L ix lw S (Some (ix g)) gs" using assms(1) fs by simp_all
  have sub: "low_complete L ix lw S c hs \<Longrightarrow> S' \<subseteq> S \<Longrightarrow> low_complete L ix lw S' c hs" for c hs
  proof (induction hs arbitrary: c)
    case (Cons h hs)
    obtain k l where h: "h = (k, l)" by (cases h)
    have "low_complete L ix lw S' (Some (ix k)) hs" using Cons h by simp
    moreover have "\<forall>x \<in> S. \<forall>y \<in> S. ix k \<le> ix x \<longrightarrow> (c = None \<or> ix x < the c) \<longrightarrow> L x y \<longrightarrow> lw k \<le> ix y"
      using Cons.prems(1) unfolding h low_complete.simps by blast
    ultimately show ?case unfolding h low_complete.simps using Cons.prems(2) by blast
  qed simp
  have "low_complete L ix lw S' (Some (ix g)) gs" by (rule sub [OF rest]) (use assms(2) in blast)
  moreover have "\<forall>x \<in> S'. \<forall>y \<in> S'. ix g \<le> ix x \<longrightarrow> L x y \<longrightarrow> lw g \<le> ix y"
    using * assms(2) by blast
  ultimately show ?thesis unfolding fs low_complete.simps by blast
qed simp

lemma closed_rtrancl:
  assumes "(x, y) \<in> (arcs adj)\<^sup>*" and "x \<in> D" and "\<And>x y. x \<in> D \<Longrightarrow> (x, y) \<in> arcs adj \<Longrightarrow> y \<in> D"
  shows "y \<in> D"
  using assms(1,2) by (induction rule: rtrancl_induct) (use assms(3) in blast)+

lemma segment_closed:
  assumes inv: "tj_inv adj V ix lw n (A @ v # B) ((v, i) # fs) C" and i: "length (succs adj v) \<le> i"
    and low: "lw v = ix v"
  shows "done_closed adj V (set B)"
proof -
  let ?S = "A @ v # B" and ?W = "(v, i) # fs"
  from inv have o: "order_ok V ix n ?S ?W" and dc: "done_closed adj V (set ?S)"
    and seen: "looked_seen adj V ?W" 
    and lc: "low_complete (looked adj ?W) ix lw (set ?S) None ?W"
    unfolding tj_inv_def by - (elim conjE, assumption)+
  have lt: "\<forall>x \<in> set B. ix x < ix v" "\<forall>x \<in> set A. ix v < ix x" and SV: "set ?S \<subseteq> V"
    using o by (simp_all add: order_ok_def sorted_wrt_append)
  have top: "\<forall>x \<in> set ?S. \<forall>y \<in> set ?S. ix v \<le> ix x \<longrightarrow> looked adj ?W x y \<longrightarrow> ix v \<le> ix y"
    using lc low by simp
  show ?thesis
    unfolding done_closed_def
  proof (intro allI impI)
    fix x y assume x: "x \<in> V - set B" and xy: "(x, y) \<in> arcs adj"
    show "y \<in> V - set B"
    proof (cases "x \<in> set ?S")
      case False
      then have "y \<in> V - set ?S" using dc x xy unfolding done_closed_def by blast
      then show ?thesis by simp
    next
      case True
      then have xv: "x = v \<or> x \<in> set A" using x by auto
      then have le: "ix v \<le> ix x" using lt by auto
      have "x \<notin> ids fs" using order_top(1) [OF o, of x] le by auto
      then have "map_of fs x = None" by (simp add: map_of_eq_None_iff)
      then have l: "looked adj ?W x y" using xy i by (auto simp: looked_def arcs_def)
      then have "y \<in> V" using seen x unfolding looked_seen_def by blast
      moreover have "y \<notin> set B"
      proof
        assume "y \<in> set B"
        then have "ix y < ix v" "y \<in> set ?S" using lt by auto
        moreover from this have "ix v \<le> ix y" using top True le l by blast
        ultimately show False by simp
      qed
      ultimately show ?thesis by simp
    qed
  qed
qed

lemma segment_mutual:
  assumes inv: "tj_inv adj V ix lw n (A @ v # B) ((v, i) # fs) C" and i: "length (succs adj v) \<le> i"
    and low: "lw v = ix v" and x: "x \<in> insert v (set A)"
  shows "mutual adj x \<longleftrightarrow> A \<noteq> []"
proof -
  let ?S = "A @ v # B" and ?W = "(v, i) # fs"
  from inv have o: "order_ok V ix n ?S ?W" and dc: "done_closed adj V (set ?S)"
    and reach: "open_reach adj ix (set ?S) (ids ?W)" and desc: "descends adj ix (set ?S) (ids ?W)"
    unfolding tj_inv_def by - (elim conjE, assumption)+
  have lt: "\<forall>x \<in> set A. ix v < ix x" and SV: "set ?S \<subseteq> V" and vA: "v \<notin> set A" "distinct A" "set A \<inter> set B = {}" "v \<notin> set B"
    using o order_distinct [of ix ?S] by (auto simp: order_ok_def sorted_wrt_append)
  have from_v: "(v, z) \<in> (arcs adj)\<^sup>*" if "z \<in> insert v (set A)" for z
    using reach that lt unfolding open_reach_def by auto
  have to_v: "(z, v) \<in> (arcs adj)\<^sup>*" if z: "z \<in> insert v (set A)" for z
  proof -
    have "z \<in> set ?S" using z by auto
    from descent [OF desc this] obtain g where g: "g \<in> ids ?W" "(z, g) \<in> (arcs adj)\<^sup>*" by blast
    have "g = v \<or> g \<in> ids fs" using g(1) by simp
    then have "ix g \<le> ix v" using order_top(1) [OF o, of g] by (auto intro: less_imp_le simp del: image_iff)
    then have "(g, v) \<in> (arcs adj)\<^sup>*" using reach g(1) unfolding open_reach_def by auto
    then show ?thesis using g(2) by (rule rtrancl_trans [rotated])
  qed
  show ?thesis
  proof
    assume "mutual adj x"
    then obtain y where y: "y \<noteq> x" "(x, y) \<in> (arcs adj)\<^sup>*" "(y, x) \<in> (arcs adj)\<^sup>*"
      unfolding mutual_def by blast
    have xB: "x \<in> V - set B" using x vA SV by auto
    have "y \<in> V - set B"
      by (rule closed_rtrancl [OF y(2) xB])
        (use segment_closed [OF inv i low] in \<open>unfold done_closed_def, blast\<close>)
    moreover have "y \<in> set ?S"
    proof (rule ccontr)
      assume "y \<notin> set ?S"
      then have yd: "y \<in> V - set ?S" using \<open>y \<in> V - set B\<close> by blast
      have "x \<in> V - set ?S"
        by (rule closed_rtrancl [OF y(3) yd]) (use dc in \<open>unfold done_closed_def, blast\<close>)
      then show False using x by auto
    qed
    ultimately have "y \<in> insert v (set A)" by auto
    then show "A \<noteq> []" using x y(1) by auto
  next
    assume "A \<noteq> []"
    then obtain a where "a \<in> set A" by (cases A) auto
    then have "\<exists>y \<in> insert v (set A). y \<noteq> x" using vA(1) by (cases "x = v") auto
    then obtain y where "y \<in> insert v (set A)" "y \<noteq> x" by blast
    then show "mutual adj x"
      unfolding mutual_def using from_v to_v x by (meson rtrancl_trans)
  qed
qed

lemma inv_component:
  assumes inv: "tj_inv adj V ix lw n (A @ v # B) ((v, i) # fs) C" and i: "length (succs adj v) \<le> i"
    and low: "lw v = ix v"
  shows "tj_inv adj V ix (hand_up (lw v) fs lw) n B fs (if A = [] then C else C \<union> insert v (set A))"
proof -
  let ?S = "A @ v # B" and ?W = "(v, i) # fs"
  from inv have o: "order_ok V ix n ?S ?W" and dc: "done_closed adj V (set ?S)"
    and seen: "looked_seen adj V ?W"
    and reach: "open_reach adj ix (set ?S) (ids ?W)" and desc: "descends adj ix (set ?S) (ids ?W)"
    and sound: "low_sound adj ix lw (set ?S) (ids ?W)"
    and lc: "low_complete (looked adj ?W) ix lw (set ?S) None ?W"
    and C: "C = {x \<in> V - set ?S. mutual adj x}"
    unfolding tj_inv_def by - (elim conjE, assumption)+
  have L: "looked adj fs = looked adj ?W" by (rule looked_retire [OF i order_fs(2) [OF o]])
  have lt: "\<forall>x \<in> set B. ix x < ix v" "\<forall>x \<in> set A. ix v < ix x" and SV: "set ?S \<subseteq> V"
    using o by (simp_all add: order_ok_def sorted_wrt_append)
  have below: "x \<in> set B" if "x \<in> set ?S" "ix x < ix v" for x using that lt(2) by auto
  have fsB: "ids fs \<subseteq> set B" using below order_fs(5) [OF o] order_top(1) [OF o] by blast
  have up: "hand_up (lw v) fs lw = lw"
  proof (cases fs)
    case (Cons f gs)
    obtain p j where fs: "fs = (p, j) # gs" using Cons by (cases f) simp
    have "lw p \<le> ix p" "ix p < ix v" using sound order_top(1) [OF o, of p] fs by (auto simp: low_sound_def)
    then show ?thesis using low by (simp add: hand_up_def fs)
  qed (simp add: hand_up_def)
  have "order_ok V ix n B fs" using o fsB by (simp add: order_ok_def sorted_wrt_append)
  moreover have "looked_seen adj V fs" using seen by (simp add: looked_seen_def L)
  moreover have "open_reach adj ix (set B) (ids fs)" using reach unfolding open_reach_def by simp
  moreover have "descends adj ix (set B) (ids fs)"
    unfolding descends_def
  proof
    fix x assume x: "x \<in> set B - ids fs"
    then have "x \<in> set ?S - ids ?W" using lt(1) by auto
    then obtain y where y: "y \<in> set ?S" "ix y < ix x" "(x, y) \<in> (arcs adj)\<^sup>*"
      using desc unfolding descends_def by blast
    moreover have "ix x < ix v" using x lt(1) by blast
    ultimately show "\<exists>y \<in> set B. ix y < ix x \<and> (x, y) \<in> (arcs adj)\<^sup>*" using below by (meson less_trans)
  qed
  moreover have "low_sound adj ix lw (set B) (ids fs)"
    unfolding low_sound_def
  proof
    fix g assume g: "g \<in> ids fs"
    then obtain u where u: "lw g \<le> ix g" "u \<in> set ?S" "ix u = lw g" "(g, u) \<in> (arcs adj)\<^sup>*"
      using sound unfolding low_sound_def by auto
    then have "u \<in> set B" by (intro below) (use order_top(1) [OF o g] in auto)
    then show "lw g \<le> ix g \<and> (\<exists>u \<in> set B. ix u = lw g \<and> (g, u) \<in> (arcs adj)\<^sup>*)" using u by blast
  qed
  moreover have "low_complete (looked adj fs) ix lw (set B) None fs"
    unfolding L
  proof (rule low_complete_cut)
    show "low_complete (looked adj ?W) ix lw (set ?S) (Some (ix v)) fs" using lc by simp
    show "x \<in> set ?S \<and> ix x < ix v" if "x \<in> set B" for x using that lt(1) by simp
  qed
  moreover have "(if A = [] then C else C \<union> insert v (set A)) = {x \<in> V - set B. mutual adj x}"
  proof -
    have "V - set B = (V - set ?S) \<union> insert v (set A)"
      using SV order_distinct [of ix ?S] o by (auto simp: order_ok_def)
    then have "{x \<in> V - set B. mutual adj x} = C \<union> {x \<in> insert v (set A). mutual adj x}" unfolding C by blast
    then show ?thesis using segment_mutual [OF inv i low] by auto
  qed
  ultimately show ?thesis unfolding tj_inv_def up using segment_closed [OF inv i low] by blast
qed

section \<open>The rounds keep the invariant\<close>

definition finished :: "adjacency \<Rightarrow> tarjan \<Rightarrow> string set" where
  "finished adj s = {x \<in> fst ` set (tj_index s) - set (tj_stack s). mutual adj x}"

definition tj_ok :: "adjacency \<Rightarrow> string set \<Rightarrow> tarjan \<Rightarrow> bool" where
  "tj_ok adj L s = (tj_inv adj (fst ` set (tj_index s)) (index_of s) (low_of s) (tj_counter s) (tj_stack s)
      (tj_work s) (finished adj s) \<and>
     set (tj_onStack s) = set (tj_stack s) \<and> set (tj_inCycle s) = L \<union> finished adj s)"

lemma set_set_add_all [simp]: "set (set_add_all xs s) = set s \<union> set xs"
proof -
  have "set (foldl (\<lambda>s x. if x \<in> set s then s else s @ [x]) s xs) = set s \<union> set xs"
    by (induction xs arbitrary: s) auto
  then show ?thesis by (simp add: set_add_all_def)
qed

lemma index_of_discover [simp]:
  "index_of (discover w s) = (index_of s)(w := tj_counter s)"
  "low_of (discover w s) = (low_of s)(w := tj_counter s)"
  by (auto simp: index_of_def low_of_def discover_def fun_eq_iff)

lemma index_of_cong:
  "tj_index s' = tj_index s \<Longrightarrow> index_of s' = index_of s"
  "tj_low s' = tj_low s \<Longrightarrow> low_of s' = low_of s"
  by (simp_all add: index_of_def low_of_def fun_eq_iff)

lemma low_of_lower [simp]: "low_of (lower p l s) = (low_of s)(p := min (low_of s p) l)"
  by (auto simp: low_of_def lower_def fun_eq_iff)

lemma tj_inv_finished:
  "tj_inv adj V ix lw n S W C \<Longrightarrow> C = {x \<in> V - set S. mutual adj x}"
  by (simp add: tj_inv_def)

lemma ok_discover:
  assumes ok: "tj_ok adj L s" and w: "\<not> map_has (tj_index s) w" and at: "cursor_at adj (tj_work s) w"
  shows "tj_ok adj L (discover w (s\<lparr>tj_work := advance (tj_work s)\<rparr>))"
proof -
  let ?t = "discover w (s\<lparr>tj_work := advance (tj_work s)\<rparr>)" and ?V = "fst ` set (tj_index s)"
  have wV: "w \<notin> ?V" using w by (auto simp: map_has_def map_get_None_keys)
  have inv: "tj_inv adj ?V (index_of s) (low_of s) (tj_counter s) (tj_stack s) (tj_work s) (finished adj s)"
    using ok by (simp add: tj_ok_def)
  have eq: "fst ` set (tj_index ?t) = insert w ?V" "index_of ?t = (index_of s)(w := tj_counter s)"
    "low_of ?t = (low_of s)(w := tj_counter s)" "tj_counter ?t = Suc (tj_counter s)"
    "tj_stack ?t = w # tj_stack s" "tj_work ?t = (w, 0) # advance (tj_work s)"
    "set (tj_onStack ?t) = insert w (set (tj_onStack s))" "tj_inCycle ?t = tj_inCycle s"
    by (simp_all add: index_of_cong [of "s\<lparr>tj_work := _\<rparr>" s])
      (simp_all add: discover_def set_keys_map_set)
  have fin: "finished adj ?t = finished adj s" using wV by (auto simp: finished_def eq)
  have "tj_inv adj (fst ` set (tj_index ?t)) (index_of ?t) (low_of ?t) (tj_counter ?t) (tj_stack ?t)
      (tj_work ?t) (finished adj ?t)"
    unfolding eq fin by (rule inv_discover [OF inv wV at])
  then show ?thesis using ok unfolding tj_ok_def fin eq by simp
qed

lemma ok_look:
  assumes ok: "tj_ok adj L s" and W: "tj_work s = (v, i) # fs" and i: "i < length (succs adj v)"
    and w: "w = succs adj v ! i" "map_has (tj_index s) w"
  shows "tj_ok adj L (if w \<in> set (tj_onStack s) then lower v (index_of s w) (s\<lparr>tj_work := (v, Suc i) # fs\<rparr>)
    else s\<lparr>tj_work := (v, Suc i) # fs\<rparr>)"
proof -
  let ?s = "s\<lparr>tj_work := (v, Suc i) # fs\<rparr>"
  let ?t = "if w \<in> set (tj_onStack s) then lower v (index_of s w) ?s else ?s"
  have wV: "succs adj v ! i \<in> fst ` set (tj_index s)"
    using w by (auto simp: map_has_def map_get_None_keys)
  have inv: "tj_inv adj (fst ` set (tj_index s)) (index_of s) (low_of s) (tj_counter s) (tj_stack s)
      ((v, i) # fs) (finished adj s)" and on: "set (tj_onStack s) = set (tj_stack s)"
    using ok W by (simp_all add: tj_ok_def)
  have eq: "tj_index ?t = tj_index s" "index_of ?t = index_of s"
    "low_of ?t = (if succs adj v ! i \<in> set (tj_stack s)
       then (low_of s)(v := min (low_of s v) (index_of s (succs adj v ! i))) else low_of s)"
    "tj_counter ?t = tj_counter s" "tj_stack ?t = tj_stack s" "tj_work ?t = (v, Suc i) # fs"
    "tj_onStack ?t = tj_onStack s" "tj_inCycle ?t = tj_inCycle s"
    using on w(1) index_of_cong [of ?s s] by (simp_all add: index_of_cong [of "lower _ _ _" s])
  have fin: "finished adj ?t = finished adj s" by (simp add: finished_def eq)
  have "tj_inv adj (fst ` set (tj_index ?t)) (index_of ?t) (low_of ?t) (tj_counter ?t) (tj_stack ?t)
      (tj_work ?t) (finished adj ?t)"
    unfolding eq fin by (rule inv_look [OF inv i wV refl])
  then show ?thesis using ok unfolding tj_ok_def fin eq by simp
qed

lemma leave_simps:
  "index_of (leave v fs s) = index_of s" "low_of (leave v fs s) = hand_up (low_of s v) fs (low_of s)"
proof -
  have l: "low_of (s\<lparr>tj_work := fs\<rparr>) = low_of s" by (rule index_of_cong(2)) simp
  show "low_of (leave v fs s) = hand_up (low_of s v) fs (low_of s)"
    using l by (auto simp: leave_def Let_def hand_up_def split: list.split)
  show "index_of (leave v fs s) = index_of s" by (intro index_of_cong) simp
qed

lemma ok_leave:
  assumes ok: "tj_ok adj L s" and W: "tj_work s = (v, i) # fs" and i: "length (succs adj v) \<le> i"
  shows "\<exists>t. finish v s = Some t \<and> tj_ok adj L (leave v fs t)"
proof -
  let ?V = "fst ` set (tj_index s)"
  have inv: "tj_inv adj ?V (index_of s) (low_of s) (tj_counter s) (tj_stack s) ((v, i) # fs) (finished adj s)"
    and on: "set (tj_onStack s) = set (tj_stack s)" and cyc: "set (tj_inCycle s) = L \<union> finished adj s"
    using ok W by (simp_all add: tj_ok_def)
  show ?thesis
  proof (cases "low_of s v = index_of s v")
    case False
    let ?t = "leave v fs s"
    have "finished adj ?t = finished adj s" by (simp add: finished_def)
    then have "tj_ok adj L ?t"
      using inv_retire [OF inv i False] on cyc by (simp add: tj_ok_def leave_simps)
    then show ?thesis using False by (simp add: finish_def)
  next
    case True
    have o: "order_ok ?V (index_of s) (tj_counter s) (tj_stack s) ((v, i) # fs)" using inv by (simp add: tj_inv_def)
    obtain A B where S: "tj_stack s = A @ v # B" "v \<notin> set A"
      using order_fs(3) [OF o] split_list_first by metis
    have "sorted_wrt (\<lambda>x y. index_of s y < index_of s x) (A @ v # B)" using o by (simp add: order_ok_def S(1))
    from order_distinct [OF this] have disj: "distinct (A @ v # B)" .
    obtain u where u: "finish v s = Some u" using True pop_component_found [OF S(2)] S(1) by (simp add: finish_def)
    let ?t = "leave v fs u"
    note f = finish_frame [OF u]
    have st: "tj_stack u = B" "set (tj_onStack u) = set B"
      "set (tj_inCycle u) = set (tj_inCycle s) \<union> (if A = [] then {} else insert v (set A))"
      using True pop_component_found [OF S(2)] u on disj S(1) by (auto simp: finish_def)
    have ix: "index_of u = index_of s" "low_of u = low_of s" using f by (auto intro: index_of_cong)
    note inv' = inv_component [OF inv [unfolded S(1)] i True]
    have fin: "finished adj ?t = (if A = [] then finished adj s else finished adj s \<union> insert v (set A))"
      unfolding tj_inv_finished [OF inv'] using f by (simp add: finished_def st)
    have "tj_ok adj L ?t"
      unfolding tj_ok_def using inv' cyc f by (simp add: fin st leave_simps ix) blast
    then show ?thesis using u by blast
  qed
qed

lemma ok_step:
  assumes ok: "tj_ok adj L s" and ne: "tj_work s \<noteq> []"
  shows "\<exists>t. tj_step adj s = Some t \<and> tj_ok adj L t \<and> fst ` set (tj_index s) \<subseteq> fst ` set (tj_index t)"
proof -
  obtain v i fs where W: "tj_work s = (v, i) # fs" using ne by (cases "tj_work s") auto
  let ?w = "succs adj v ! i"
  consider "i < length (succs adj v)" "\<not> map_has (tj_index s) ?w"
    | "i < length (succs adj v)" "map_has (tj_index s) ?w" | "length (succs adj v) \<le> i" by linarith
  then show ?thesis
  proof cases
    case 1
    have "cursor_at adj (tj_work s) ?w" using 1 W by (simp add: cursor_at_def)
    from ok_discover [OF ok 1(2) this] show ?thesis using 1 W
      by (auto simp: tj_step_def Let_def advance_def discover_def set_keys_map_set)
  next
    case 2
    have "index_of (s\<lparr>tj_work := (v, Suc i) # fs\<rparr>) ?w = index_of s ?w" by (simp add: index_of_def)
    then show ?thesis using ok_look [OF ok W 2(1) refl 2(2)] 2 W by (simp add: tj_step_def Let_def)
  next
    case 3
    then obtain t where "finish v s = Some t" "tj_ok adj L (leave v fs t)" using ok_leave [OF ok W] by blast
    then show ?thesis using finish_frame [of v s t] 3 W by (simp add: tj_step_def)
  qed
qed

lemma ok_loop:
  assumes "tj_ok adj L s"
  shows "\<exists>t. tj_loop adj s = Some t \<and> tj_ok adj L t \<and> tj_work t = [] \<and> fst ` set (tj_index s) \<subseteq> fst ` set (tj_index t)"
proof -
  let ?P = "\<lambda>t. tj_ok adj L t \<and> fst ` set (tj_index s) \<subseteq> fst ` set (tj_index t)"
  have "\<exists>t. tj_loop adj s = Some t \<and> ?P t \<and> tj_work t = []"
  proof (rule tj_loop_rule [where P = ?P])
    fix t assume "?P t" "tj_work t \<noteq> []"
    then obtain u where "tj_step adj t = Some u" "tj_ok adj L u" "fst ` set (tj_index t) \<subseteq> fst ` set (tj_index u)"
      using ok_step [of adj L t] by blast
    moreover have "fst ` set (tj_index s) \<subseteq> fst ` set (tj_index t)" using \<open>?P t\<close> by (rule conjunct2)
    ultimately show "\<exists>u. tj_step adj t = Some u \<and> ?P u" by (intro exI [of _ u] conjI) (auto simp only: intro: subset_trans)
  qed (use assms in simp)
  then show ?thesis by blast
qed

lemma ok_stack_empty:
  assumes "tj_ok adj L s" and "tj_work s = []"
  shows "tj_stack s = []"
proof (rule ccontr)
  assume "tj_stack s \<noteq> []"
  then obtain x where "x \<in> set (tj_stack s)" by (cases "tj_stack s") auto
  moreover have "descends adj (index_of s) (set (tj_stack s)) {}"
    using assms by (simp add: tj_ok_def tj_inv_def)
  ultimately show False using descent by blast
qed

lemma ok_starts:
  "tj_ok adj L s \<Longrightarrow> tj_work s = [] \<Longrightarrow>
     \<exists>t. tj_starts adj vs s = Some t \<and> tj_ok adj L t \<and> tj_work t = [] \<and>
       fst ` set (tj_index s) \<union> set vs \<subseteq> fst ` set (tj_index t)"
proof (induction vs arbitrary: s)
  case (Cons v vs)
  show ?case
  proof (cases "map_has (tj_index s) v")
    case True
    then have v: "v \<in> fst ` set (tj_index s)" by (auto simp: map_has_def map_get_None_keys)
    obtain t where "tj_starts adj vs s = Some t" "tj_ok adj L t" "tj_work t = []"
      "fst ` set (tj_index s) \<union> set vs \<subseteq> fst ` set (tj_index t)" using Cons.IH [OF Cons.prems] by blast
    then show ?thesis using True v by (intro exI [of _ t]) auto
  next
    case False
    let ?d = "discover v s"
    have "s\<lparr>tj_work := advance (tj_work s)\<rparr> = s" using Cons.prems(2) by (simp add: advance_def)
    then have d: "tj_ok adj L ?d"
      using ok_discover [OF Cons.prems(1) False] Cons.prems(2) by (simp add: cursor_at_def)
    have keys: "fst ` set (tj_index ?d) = insert v (fst ` set (tj_index s))" by (simp add: discover_def set_keys_map_set)
    obtain e where e: "tj_loop adj ?d = Some e" "tj_ok adj L e" "tj_work e = []"
      "fst ` set (tj_index ?d) \<subseteq> fst ` set (tj_index e)" using ok_loop [OF d] by blast
    obtain t where t: "tj_starts adj vs e = Some t" "tj_ok adj L t" "tj_work t = []"
      "fst ` set (tj_index e) \<union> set vs \<subseteq> fst ` set (tj_index t)" using Cons.IH [OF e(2,3)] by blast
    have "fst ` set (tj_index s) \<union> set (v # vs) \<subseteq> fst ` set (tj_index t)" 
      using t(4) e(4) unfolding keys list.set(2) by blast
    then show ?thesis using False e(1) t(1-3) by (intro exI [of _ t]) simp
  qed
qed simp

section \<open>The result\<close>

definition cable_steps :: "string list \<Rightarrow> cable_s list \<Rightarrow> (string \<times> string) set" where
  "cable_steps ms cs =
     {(x, y). x \<in> set ms \<and> (\<exists>c. c \<in> set cs \<and> cb_outputModuleId c = x \<and> cb_inputModuleId c = y)}"

lemma get_init: "map_get (foldl (\<lambda>m i. map_set i [] m) m ms) x = (if x \<in> set ms then Some [] else map_get m x)"
  by (induction ms arbitrary: m) auto

lemma get_add_edges:
  "map_get (foldl add_edge m cs) x =
     map_option (\<lambda>l. l @ map cb_inputModuleId (filter (\<lambda>c. cb_outputModuleId c = x) cs)) (map_get m x)"
proof (induction cs arbitrary: m)
  case (Cons c cs)
  have "map_get (add_edge m c) x =
      map_option (\<lambda>l. l @ (if cb_outputModuleId c = x then [cb_inputModuleId c] else [])) (map_get m x)"
    by (cases "map_get m (cb_outputModuleId c)"; cases "map_get m x") (auto simp: add_edge_def)
  then show ?case using Cons by (simp add: option.map_comp o_def)
qed (simp add: option.map_ident)

lemma succs_adjacency_of:
  "succs (adjacency_of ms cs) x =
     (if x \<in> set ms then map cb_inputModuleId (filter (\<lambda>c. cb_outputModuleId c = x) cs) else [])"
  by (simp add: succs_def adjacency_of_def get_add_edges get_init)

lemma arcs_adjacency_of: "arcs (adjacency_of ms cs) = cable_steps ms cs"
  by (auto simp: arcs_def cable_steps_def succs_adjacency_of)

lemma keys_adjacency_of: "set ms \<subseteq> fst ` set (adjacency_of ms cs)"
proof
  fix x assume "x \<in> set ms"
  then have "map_get (adjacency_of ms cs) x \<noteq> None" by (simp add: adjacency_of_def get_add_edges get_init)
  then show "x \<in> fst ` set (adjacency_of ms cs)" by (simp add: map_get_None_keys)
qed

lemma mutual_trancl: "mutual adj x \<or> (x, x) \<in> arcs adj \<longleftrightarrow> (x, x) \<in> (arcs adj)\<^sup>+"
proof
  assume "mutual adj x \<or> (x, x) \<in> arcs adj"
  then show "(x, x) \<in> (arcs adj)\<^sup>+"
    unfolding mutual_def by (metis r_into_trancl rtranclD rtrancl_trancl_trancl)
next
  assume "(x, x) \<in> (arcs adj)\<^sup>+"
  then obtain y where y: "(x, y) \<in> arcs adj" "(y, x) \<in> (arcs adj)\<^sup>*" by (meson tranclD)
  then show "mutual adj x \<or> (x, x) \<in> arcs adj"
    unfolding mutual_def by (cases "y = x") auto
qed

lemma ok_init:
  "tj_ok adj (set L) \<lparr>tj_index = [], tj_low = [], tj_onStack = [], tj_stack = [], tj_inCycle = L,
     tj_counter = 0, tj_work = []\<rparr>"
  by (simp add: tj_ok_def tj_inv_def finished_def order_ok_def done_closed_def looked_seen_def open_reach_def
      descends_def low_sound_def)

lemma modulesInCycles_mutual:
  "\<exists>l. modulesInCycles ms cs = Some l \<and> set l = set (self_loops cs) \<union> {x. mutual (adjacency_of ms cs) x}"
proof -
  let ?adj = "adjacency_of ms cs" and ?L = "self_loops cs"
  let ?s = "\<lparr>tj_index = [], tj_low = [], tj_onStack = [], tj_stack = [], tj_inCycle = ?L,
     tj_counter = 0, tj_work = []\<rparr>"
  obtain t where t: "tj_starts ?adj (map fst ?adj) ?s = Some t" "tj_ok ?adj (set ?L) t" "tj_work t = []"
    "fst ` set ?adj \<subseteq> fst ` set (tj_index t)"
    using ok_starts [OF ok_init [of ?adj ?L], of "map fst ?adj"] by auto
  have "x \<in> finished ?adj t" if "mutual ?adj x" for x
  proof -
    have "(x, x) \<in> (arcs ?adj)\<^sup>+" using that mutual_trancl by blast
    then obtain y where "(x, y) \<in> arcs ?adj" by (meson tranclD)
    then have "x \<in> set ms" unfolding arcs_adjacency_of by (simp add: cable_steps_def)
    then have "x \<in> fst ` set (tj_index t)" using t(4) keys_adjacency_of by blast
    then show ?thesis using that ok_stack_empty [OF t(2,3)] by (simp add: finished_def)
  qed
  then have "finished ?adj t = {x. mutual ?adj x}" by (auto simp: finished_def)
  then show ?thesis using t(1,2) by (simp add: tj_ok_def modulesInCycles_def Let_def)
qed

lemma set_self_loops:
  "set (self_loops cs) = {x. \<exists>c. c \<in> set cs \<and> cb_outputModuleId c = x \<and> cb_inputModuleId c = x}"
  by (force simp: self_loops_def)

lemma modulesInCycles_exact:
  "\<exists>l. modulesInCycles ms cs = Some l \<and> set l =
     {x. (x, x) \<in> (cable_steps ms cs)\<^sup>+} \<union>
     {x. \<exists>c. c \<in> set cs \<and> cb_outputModuleId c = x \<and> cb_inputModuleId c = x}"
proof -
  have "{x. (x, x) \<in> (cable_steps ms cs)\<^sup>+} =
      {x. mutual (adjacency_of ms cs) x} \<union> {x. (x, x) \<in> cable_steps ms cs}"
    using mutual_trancl [of "adjacency_of ms cs"] unfolding arcs_adjacency_of by blast
  moreover obtain l where "modulesInCycles ms cs = Some l" "set l = set (self_loops cs) \<union> {x. mutual (adjacency_of ms cs) x}"
    using modulesInCycles_mutual by blast
  ultimately show ?thesis unfolding set_self_loops by (auto simp: cable_steps_def)
qed

lemma set_modulesInCycles:
  "set (the (modulesInCycles ms cs)) =
     {x. (x, x) \<in> (cable_steps ms cs)\<^sup>+} \<union>
     {x. \<exists>c. c \<in> set cs \<and> cb_outputModuleId c = x \<and> cb_inputModuleId c = x}"
  using modulesInCycles_exact [of ms cs] by auto

text \<open>C18: \<open>modulesInCycles\<close> returns and its set is exact: a module is in it iff a cable runs
  from it to itself, or a directed path of one or more cables leads from it back to it.
  A cable whose output module is not in the snapshot is only counted as a self-loop.
\<close>

theorem cycles_exact:
  "\<exists>l. modulesInCycles ms cs = Some l \<and> set l =
     {x. (x, x) \<in> (cable_steps ms cs)\<^sup>+} \<union>
     {x. \<exists>c. c \<in> set cs \<and> cb_outputModuleId c = x \<and> cb_inputModuleId c = x}"
  by (rule modulesInCycles_exact)

text \<open>C19: the loops of \<open>modulesInCycles\<close> end.  The \<open>do\<close> loop returns iff the module it pops up to
  is on the component stack.  The search returns, with no frame left, from every state in
  which the modules with a frame lie on the component stack in the order of their frames,
  whatever its other variables hold; and on every snapshot the whole function returns.
\<close>

theorem cycle_search_terminates:
  "((\<exists>r. pop_component v st scc = Some r) \<longleftrightarrow> v \<in> set st) \<and>
   (frames_on_stack s \<longrightarrow> (\<exists>t. tj_loop adj s = Some t \<and> tj_work t = [])) \<and>
   (\<exists>l. modulesInCycles ms cs = Some l)"
  using pop_component_returns tj_loop_returns modulesInCycles_exact [of ms cs] by blast

lemma cycle_search_terminates_witness:
  "\<exists>t. tj_loop [(''a'', [''b'']), (''b'', [''a''])] (discover ''a'' \<lparr>tj_index = [], tj_low = [], tj_onStack = [],
     tj_stack = [], tj_inCycle = [], tj_counter = 0, tj_work = []\<rparr>) = Some t \<and> tj_work t = []"
proof -
  have "frames_on_stack (discover ''a'' \<lparr>tj_index = [], tj_low = [], tj_onStack = [], tj_stack = [],
      tj_inCycle = [], tj_counter = 0, tj_work = []\<rparr>)"
    by (simp add: frames_on_stack_def discover_def)
  then show ?thesis using cycle_search_terminates by blast
qed

end
