(* ===== verification/Analysis.thy ===== *)
theory Analysis
  imports Registry Operations Flow Cycles Json Utf8
begin

text \<open>
  Patch analysis (\<open>apps/mcp-server/src/analysis.ts\<close>), first half: the snapshot, the
  classification of modules and port roles, and \<open>describePatch\<close>.  The snapshot is the
  bridge's reply to \<open>patch.snapshot\<close> and an argument of the definitions.  Text shown to
  the user contains arrows, so it is a list of UTF-16 code units; names and slugs are
  held as UTF-8 bytes and read by \<open>units\<close>.  Numbers are exact rationals or one of the three non-finite values.
\<close>

section \<open>The snapshot\<close>

datatype js_number = Fin rat | PosInf | NegInf | NaN

record port_s =
  po_portId :: int
  po_name :: string
  po_connected :: bool
  po_channels :: int

record param_s =
  pv_paramId :: nat
  pv_value :: "js_number option"
  pv_minValue :: "js_number option"
  pv_maxValue :: "js_number option"
  pv_name :: string

record module_s =
  ms_moduleId :: string
  ms_modelName :: string
  ms_modelSlug :: string
  ms_pluginSlug :: string
  ms_bypassed :: bool
  ms_isBridge :: bool
  ms_isProbe :: bool
  ms_params :: "param_s list"
  ms_inputs :: "port_s list"
  ms_outputs :: "port_s list"
  ms_gridPosition :: "grid_position option"
  ms_gridWidth :: "int option"
  ms_expanders :: "(string option \<times> string option) option"

record snapshot =
  sn_modules :: "module_s list"
  sn_cables :: "cable_s list"
  sn_bridgeModuleCount :: nat
  sn_patchEpoch :: nat

section \<open>Classification\<close>

definition str_includes :: "string \<Rightarrow> string \<Rightarrow> bool" where
  "str_includes s p = list_ex (\<lambda>n. starts_with (drop n s) p) [0..<Suc (length s)]"

definition isAudioDestination :: "module_s \<Rightarrow> bool" where
  "isAudioDestination m = (ms_pluginSlug m = ''Core'' \<and> str_includes (to_lower (ms_modelSlug m)) ''audio'')"

datatype family = AudioFamily | ControlFamily

fun familyOf :: "signal_role option \<Rightarrow> family option" where
  "familyOf (Some Audio) = Some AudioFamily"
| "familyOf (Some CvUnipolar) = Some ControlFamily"
| "familyOf (Some CvBipolar) = Some ControlFamily"
| "familyOf (Some PitchVoct) = Some ControlFamily"
| "familyOf (Some Gate) = Some ControlFamily"
| "familyOf (Some Trigger) = Some ControlFamily"
| "familyOf (Some Clock) = Some ControlFamily"
| "familyOf _ = None"

definition port_of :: "port_semantics list \<Rightarrow> int \<Rightarrow> port_semantics option" where
  "port_of ps portId = find (\<lambda>p. int (pt_portId p) = portId) ps"

definition outputRoleOf :: "module_s \<Rightarrow> int \<Rightarrow> signal_role option" where
  "outputRoleOf m portId = (case getAdapter (ms_pluginSlug m) (ms_modelSlug m) of None \<Rightarrow> None
     | Some a \<Rightarrow> map_option pt_role (port_of (ad_outputs a) portId))"

definition inputRoleOf :: "module_s \<Rightarrow> int \<Rightarrow> signal_role option" where
  "inputRoleOf m portId = (case getAdapter (ms_pluginSlug m) (ms_modelSlug m) of None \<Rightarrow> None
     | Some a \<Rightarrow> map_option pt_role (port_of (ad_inputs a) portId))"

definition inputPolyphonyOf :: "module_s \<Rightarrow> int \<Rightarrow> polyphony option" where
  "inputPolyphonyOf m portId = (case getAdapter (ms_pluginSlug m) (ms_modelSlug m) of None \<Rightarrow> None
     | Some a \<Rightarrow> map_option pt_polyphony (port_of (ad_inputs a) portId))"

datatype control_kind = PitchKind | EventKind

fun controlKindOf :: "signal_role option \<Rightarrow> control_kind option" where
  "controlKindOf (Some PitchVoct) = Some PitchKind"
| "controlKindOf (Some Gate) = Some EventKind"
| "controlKindOf (Some Trigger) = Some EventKind"
| "controlKindOf (Some Clock) = Some EventKind"
| "controlKindOf _ = None"

text \<open>Modules from which signal reaches an audio destination.\<close>

definition modulesFeedingDestinations :: "snapshot \<Rightarrow> string list" where
  "modulesFeedingDestinations snap =
     reach (incoming_of (sn_cables snap)) (rev (map ms_moduleId (filter isAudioDestination (sn_modules snap)))) []"

definition module_ids :: "snapshot \<Rightarrow> string list" where
  "module_ids snap = map ms_moduleId (sn_modules snap)"

definition by_id :: "snapshot \<Rightarrow> (string, module_s) jsmap" where
  "by_id snap = foldl (\<lambda>m x. map_set (ms_moduleId x) x m) [] (sn_modules snap)"

section \<open>describePatch\<close>

definition units :: "string \<Rightarrow> code_unit list" where
  "units s = text_units s"

definition arrow :: "code_unit list" where
  "arrow = units '' '' @ [0x2192] @ units '' ''"

definition comma :: "code_unit list" where
  "comma = units '', ''"

fun join_with :: "'a list \<Rightarrow> 'a list list \<Rightarrow> 'a list" where
  "join_with sep [] = []"
| "join_with sep [x] = x"
| "join_with sep (x # y # xs) = x @ sep @ join_with sep (y # xs)"

definition name_of :: "(string, module_s) jsmap \<Rightarrow> string \<Rightarrow> string" where
  "name_of byId i = (case map_get byId i of None \<Rightarrow> i | Some m \<Rightarrow> ms_modelName m)"

definition pair_key :: "string \<Rightarrow> string \<Rightarrow> string" where
  "pair_key a b = a @ ''->'' @ b"

definition consecutive :: "string list \<Rightarrow> (string \<times> string) list" where
  "consecutive path = zip path (tl path)"

definition onPath_keys :: "string list \<Rightarrow> string list" where
  "onPath_keys path = map (\<lambda>(a, b). pair_key a b) (consecutive path)"

text \<open>The remaining edges of the feeding subgraph, one per pair of modules.\<close>

fun extra_edges :: "string list \<Rightarrow> string list \<Rightarrow> cable_s list \<Rightarrow> (string \<times> string) list" where
  "extra_edges ancestors seen [] = []"
| "extra_edges ancestors seen (c # cs) =
     (if cb_outputModuleId c \<notin> set ancestors \<or> cb_inputModuleId c \<notin> set ancestors
      then extra_edges ancestors seen cs
      else let key = pair_key (cb_outputModuleId c) (cb_inputModuleId c) in
        if key \<in> set seen then extra_edges ancestors seen cs
        else (cb_outputModuleId c, cb_inputModuleId c) # extra_edges ancestors (seen @ [key]) cs)"

definition add_missing :: "string \<Rightarrow> string list \<Rightarrow> string list" where
  "add_missing i xs = (if i \<in> set xs then xs else xs @ [i])"

definition clause :: "(string \<Rightarrow> string) \<Rightarrow> string \<times> string \<Rightarrow> code_unit list" where
  "clause nm e = units (nm (fst e)) @ arrow @ units (nm (snd e))"

text \<open>The clauses shown, given the length of the headline and the number of extra edges.\<close>

fun show_extras :: "(string \<Rightarrow> string) \<Rightarrow> nat \<Rightarrow> nat \<Rightarrow> code_unit list list \<Rightarrow> string list \<Rightarrow>
  (string \<times> string) list \<Rightarrow> code_unit list list \<times> string list" where
  "show_extras nm d count shown mids [] = (shown, mids)"
| "show_extras nm d count shown mids (e # es) =
     (if d + length (join_with comma shown) + length (clause nm e) + 24 > 1000
      then (shown @ [units (''and '' @ nat_str (count - length shown) @ '' more'')], mids)
      else show_extras nm d count (shown @ [clause nm e]) (add_missing (snd e) (add_missing (fst e) mids)) es)"

datatype confidence = Certain | AdapterBacked | Heuristic

record chain =
  ch_description :: "code_unit list"
  ch_moduleIds :: "string list"
  ch_confidence :: confidence

definition headline :: "(string \<Rightarrow> string) \<Rightarrow> module_s \<Rightarrow> string list \<Rightarrow> code_unit list" where
  "headline nm dest path =
     units (''Signal path into '' @ ms_modelName dest @ '': '') @ join_with arrow (map (\<lambda>i. units (nm i)) path)"

definition dest_path :: "snapshot \<Rightarrow> module_s \<Rightarrow> string list" where
  "dest_path snap dest = longestCablePathTo (ms_moduleId dest) (incoming_of (sn_cables snap))"

definition dest_ancestors :: "snapshot \<Rightarrow> module_s \<Rightarrow> string list" where
  "dest_ancestors snap dest = reach (incoming_of (sn_cables snap)) [ms_moduleId dest] []"

definition dest_extras :: "snapshot \<Rightarrow> module_s \<Rightarrow> (string \<times> string) list" where
  "dest_extras snap dest =
     extra_edges (dest_ancestors snap dest) (onPath_keys (dest_path snap dest)) (sn_cables snap)"

definition describe_dest :: "snapshot \<Rightarrow> module_s \<Rightarrow> chain" where
  "describe_dest snap dest =
     (let nm = name_of (by_id snap); path = dest_path snap dest; extras = dest_extras snap dest;
        d = headline nm dest path in
      if extras = [] then \<lparr>ch_description = d, ch_moduleIds = take 256 path, ch_confidence = Certain\<rparr>
      else let (shown, mids) = show_extras nm (length d) (length extras) [] path extras in
        \<lparr>ch_description = d @ units ''; also feeding it: '' @ join_with comma shown,
         ch_moduleIds = take 256 mids, ch_confidence = Certain\<rparr>)"

record description =
  de_summary :: string
  de_moduleCount :: nat
  de_cableCount :: nat
  de_chains :: "chain list"
  de_unknownModuleCount :: nat
  de_warnings :: "string list"

definition unadapted :: "snapshot \<Rightarrow> module_s list" where
  "unadapted snap = filter (\<lambda>m. \<not> hasAdapter (ms_pluginSlug m) (ms_modelSlug m)) (sn_modules snap)"

definition describePatch :: "snapshot \<Rightarrow> description" where
  "describePatch snap =
     (let destinations = filter isAudioDestination (sn_modules snap);
        unknown = length (unadapted snap);
        parts = filter (\<lambda>s. s \<noteq> [])
          [nat_str (length (sn_modules snap)) @ '' modules, '' @ nat_str (length (sn_cables snap)) @ '' cables.'',
           if destinations \<noteq> [] then nat_str (length destinations) @ '' audio destination(s).''
           else ''No audio destination.'',
           if unknown > 0
           then nat_str unknown @ '' module(s) without a verified adapter, described heuristically.'' else []]
      in \<lparr>de_summary = join_with '' '' parts,
          de_moduleCount = length (sn_modules snap),
          de_cableCount = length (sn_cables snap),
          de_chains = map (describe_dest snap) destinations,
          de_unknownModuleCount = unknown,
          de_warnings =
            (if destinations = []
             then [''No Core Audio destination module found; the patch produces no audio output.''] else []) @
            (if sn_bridgeModuleCount snap = 0
             then [''No RackMCP-Bridge module: this patch cannot reconnect after a Rack restart.''] else [])\<rparr>)"

section \<open>Facts about the description\<close>

abbreviation flows :: "snapshot \<Rightarrow> (string \<times> string) set" where
  "flows snap \<equiv> (cable_rel (sn_cables snap))\<^sup>*"

lemma feeds_exact:
  "set (modulesFeedingDestinations snap) =
     {x. \<exists>m. m \<in> set (sn_modules snap) \<and> isAudioDestination m \<and> (x, ms_moduleId m) \<in> flows snap}"
  unfolding modulesFeedingDestinations_def reach_exact edges_incoming by auto

lemma ancestors_exact: "set (dest_ancestors snap dest) = {x. (x, ms_moduleId dest) \<in> flows snap}"
  unfolding dest_ancestors_def reach_exact edges_incoming by simp

lemma dest_path_to: "path_to (incoming_of (sn_cables snap)) (ms_moduleId dest) (dest_path snap dest)"
  unfolding dest_path_def by (rule longest_is_real)

lemma consecutive_Cons:
  "consecutive (x # y # xs) = (x, y) # consecutive (y # xs)"
  by (simp add: consecutive_def)

lemma linked_consecutive:
  "successively (linked inc) p \<Longrightarrow> (a, b) \<in> set (consecutive p) \<Longrightarrow> linked inc a b"
proof (induction p)
  case (Cons x p)
  then show ?case by (cases p) (auto simp: consecutive_Cons, simp add: consecutive_def)
qed (simp add: consecutive_def)

lemma linked_cable_rel: "linked (incoming_of cs) a b \<Longrightarrow> (a, b) \<in> cable_rel cs"
  by (simp add: linked_def edges_incoming)

lemma pair_key_inj:
  assumes "CHR ''-'' \<notin> set a" "CHR ''-'' \<notin> set a'" "pair_key a b = pair_key a' b'"
  shows "a = a' \<and> b = b'"
proof -
  have "split_first (CHR ''-'') (x @ CHR ''-'' # CHR ''>'' # y) = Some (x, CHR ''>'' # y)"
    if "CHR ''-'' \<notin> set x" for x y by (rule split_first_append [OF that])
  from this [OF assms(1), of b] this [OF assms(2), of b'] assms(3) show ?thesis
    unfolding pair_key_def append_Cons append_Nil by (metis Pair_inject list.inject option.inject)
qed

lemma set_extra_edges:
  assumes "list_all (\<lambda>c. CHR ''-'' \<notin> set (cb_outputModuleId c)) cs"
  shows "set (extra_edges anc seen cs) =
    {(a, b). (a, b) \<in> cable_rel cs \<and> a \<in> set anc \<and> b \<in> set anc \<and> pair_key a b \<notin> set seen}"
  using assms
proof (induction cs arbitrary: seen)
  case (Cons c cs)
  let ?a = "cb_outputModuleId c" and ?b = "cb_inputModuleId c"
  have IH: "set (extra_edges anc s cs) =
      {(a, b). (a, b) \<in> cable_rel cs \<and> a \<in> set anc \<and> b \<in> set anc \<and> pair_key a b \<notin> set s}" for s
    using Cons by simp
  have rel: "cable_rel (c # cs) = insert (?a, ?b) (cable_rel cs)" by (simp add: cable_rel_def)
  have key: "pair_key x y = pair_key ?a ?b \<longleftrightarrow> x = ?a \<and> y = ?b" if "(x, y) \<in> cable_rel cs" for x y
  proof -
    have "CHR ''-'' \<notin> set x" using that Cons.prems by (auto simp: cable_rel_def list_all_iff)
    then show ?thesis using pair_key_inj [of x ?a y ?b] Cons.prems by auto
  qed
  consider "?a \<notin> set anc \<or> ?b \<notin> set anc" | "?a \<in> set anc" "?b \<in> set anc" "pair_key ?a ?b \<in> set seen"
    | "?a \<in> set anc" "?b \<in> set anc" "pair_key ?a ?b \<notin> set seen" by blast
  then show ?case
  proof cases
    case 3
    then have "set (extra_edges anc seen (c # cs)) = insert (?a, ?b) (set (extra_edges anc (seen @ [pair_key ?a ?b]) cs))"
      by (simp add: Let_def)
    then show ?thesis unfolding IH rel using 3 key by auto
  qed (auto simp: IH rel Let_def)
qed (simp add: cable_rel_def)

lemma extra_edges_keys:
  "distinct (map (\<lambda>(a, b). pair_key a b) (extra_edges anc seen cs)) \<and>
     set (map (\<lambda>(a, b). pair_key a b) (extra_edges anc seen cs)) \<inter> set seen = {}"
proof (induction cs arbitrary: seen)
  case (Cons c cs)
  from Cons.IH [of "seen @ [pair_key (cb_outputModuleId c) (cb_inputModuleId c)]"] Cons.IH [of seen]
  show ?case by (auto simp: Let_def)
qed simp

lemma decimal_no_dash: "DecimalId_ok s \<Longrightarrow> CHR ''-'' \<notin> set s"
  by (auto simp: DecimalId_ok_def list_all_iff digit_def)

lemma longest_on_patch:
  assumes "acyclic (cable_rel (sn_cables snap))" and "path_to (incoming_of (sn_cables snap)) (ms_moduleId dest) q"
  shows "length q \<le> length (dest_path snap dest)"
  unfolding dest_path_def by (rule longest_is_longest) (use assms in \<open>simp_all add: edges_incoming\<close>)

lemma set_add_missing [simp]: "set (add_missing i xs) = insert i (set xs)"
  by (auto simp: add_missing_def)

lemma distinct_add_missing: "distinct xs \<Longrightarrow> distinct (add_missing i xs)"
  by (simp add: add_missing_def)

lemma show_extras_ids:
  "distinct mids \<Longrightarrow> distinct (snd (show_extras nm d count shown mids es)) \<and>
     set (snd (show_extras nm d count shown mids es)) \<subseteq> set mids \<union> fst ` set es \<union> snd ` set es"
proof (induction es arbitrary: shown mids)
  case (Cons e es)
  let ?m = "add_missing (snd e) (add_missing (fst e) mids)"
  have "distinct ?m" using Cons.prems by (simp add: distinct_add_missing)
  from Cons.IH [OF this, of "shown @ [clause nm e]"] show ?case using Cons.prems by auto
qed simp

lemma extra_edges_inside:
  "set (extra_edges anc seen cs) \<subseteq> cable_rel cs \<inter> set anc \<times> set anc"
  by (induction cs arbitrary: seen) (auto simp: Let_def cable_rel_def)

lemma dest_path_feeds: "set (dest_path snap dest) \<subseteq> {x. (x, ms_moduleId dest) \<in> flows snap}"
  using path_reach [OF dest_path_to [of snap dest]] by (auto simp: edges_incoming)

lemma dest_extras_feed:
  "fst ` set (dest_extras snap dest) \<union> snd ` set (dest_extras snap dest) \<subseteq> {x. (x, ms_moduleId dest) \<in> flows snap}"
proof -
  have "set (dest_extras snap dest) \<subseteq> set (dest_ancestors snap dest) \<times> set (dest_ancestors snap dest)"
    using extra_edges_inside unfolding dest_extras_def by blast
  then show ?thesis unfolding ancestors_exact by auto
qed

lemma length_join_snoc:
  "length (join_with comma (xs @ [x])) \<le> length (join_with comma xs) + 2 + length x"
proof (induction xs rule: induct_list012)
  case (3 y z zs)
  then show ?case by (simp add: comma_def units_def)
qed (simp_all add: comma_def units_def)

lemma length_units: "length (units s) \<le> length s"
  by (simp add: units_def length_text_units)

lemma length_nat_str: "n < 10 ^ k \<Longrightarrow> 0 < k \<Longrightarrow> length (nat_str n) \<le> k"
proof (induction k arbitrary: n)
  case (Suc k)
  show ?case
  proof (cases "n < 10")
    case True
    then show ?thesis by (subst nat_str.simps) simp
  next
    case False
    then have k: "0 < k" using Suc.prems(1) by (cases k) auto
    have "n div 10 < 10 ^ k" using Suc.prems(1) by (simp add: div_less_iff_less_mult mult.commute)
    from Suc.IH [OF this k] show ?thesis using False by (subst nat_str.simps) simp
  qed
qed simp

text \<open>The cap: the text shown grows to at most 1000 units plus the closing clause.\<close>

lemma show_extras_cap:
  assumes "d + length (join_with comma shown) \<le> 978" and "count < 10 ^ 16"
  shows "d + length (join_with comma (fst (show_extras nm d count shown mids es))) \<le> 1005"
  using assms
proof (induction es arbitrary: shown mids)
  case (Cons e es)
  show ?case
  proof (cases "d + length (join_with comma shown) + length (clause nm e) + 24 > 1000")
    case True
    have "length (nat_str (count - length shown)) \<le> 16"
      by (rule length_nat_str) (use Cons.prems(2) in auto)
    then have "length (units (''and '' @ nat_str (count - length shown) @ '' more'')) \<le> 25"
      by (intro order_trans [OF length_units]) simp
    then have "length (join_with comma (shown @ [units (''and '' @ nat_str (count - length shown) @ '' more'')]))
        \<le> length (join_with comma shown) + 2 + 25"
      by (intro order_trans [OF length_join_snoc]) simp
    then show ?thesis using True Cons.prems(1) by simp
  next
    case False
    have "d + length (join_with comma (shown @ [clause nm e])) \<le> 978"
      using False order_trans [OF length_join_snoc [of shown "clause nm e"], of "978 - d"] by linarith
    from Cons.IH [OF this Cons.prems(2)] show ?thesis using False by simp
  qed
qed simp

section \<open>Properties\<close>

text \<open>An oscillator patched into the audio interface, for the witnesses.\<close>

definition demo_module :: "string \<Rightarrow> string \<Rightarrow> string \<Rightarrow> string \<Rightarrow> module_s" where
  "demo_module i name slug plugin = \<lparr>ms_moduleId = i, ms_modelName = name, ms_modelSlug = slug,
     ms_pluginSlug = plugin, ms_bypassed = False, ms_isBridge = False, ms_isProbe = False, ms_params = [],
     ms_inputs = [\<lparr>po_portId = 0, po_name = ''1'', po_connected = True, po_channels = 1\<rparr>],
     ms_outputs = [\<lparr>po_portId = 0, po_name = ''1'', po_connected = True, po_channels = 1\<rparr>],
     ms_gridPosition = None, ms_gridWidth = None, ms_expanders = None\<rparr>"

definition demo_audio :: module_s where
  "demo_audio = demo_module ''2'' ''Audio'' ''AudioInterface2'' ''Core''"

definition demo_cable :: cable_s where
  "demo_cable = \<lparr>cb_cableId = ''9'', cb_outputModuleId = ''1'', cb_outputId = 0, cb_inputModuleId = ''2'',
     cb_inputId = 0\<rparr>"

definition demo_patch :: snapshot where
  "demo_patch = \<lparr>sn_modules = [demo_module ''1'' ''VCO'' ''VCO'' ''Fundamental'', demo_audio],
     sn_cables = [demo_cable], sn_bridgeModuleCount = 0, sn_patchEpoch = 1\<rparr>"

lemmas demo_defs = demo_patch_def demo_cable_def demo_audio_def demo_module_def

lemma demo_rel: "cable_rel (sn_cables demo_patch) = {(''1'', ''2'')}"
  by (simp add: cable_rel_def demo_defs)

lemma demo_path: "dest_path demo_patch demo_audio = [''1'', ''2'']"
  by code_simp

lemma claims_exact:
  assumes "list_all (\<lambda>c. DecimalId_ok (cb_outputModuleId c)) (sn_cables snap)"
  shows "set (consecutive (dest_path snap dest) @ dest_extras snap dest) =
      {(a, b). (a, b) \<in> cable_rel (sn_cables snap) \<and> (b, ms_moduleId dest) \<in> flows snap} \<and>
    set (consecutive (dest_path snap dest)) \<inter> set (dest_extras snap dest) = {} \<and>
    distinct (dest_extras snap dest)"
proof -
  let ?cs = "sn_cables snap" and ?p = "dest_path snap dest" and ?e = "dest_extras snap dest"
    and ?anc = "dest_ancestors snap dest"
  have nodash: "list_all (\<lambda>c. CHR ''-'' \<notin> set (cb_outputModuleId c)) ?cs"
    using assms by (auto simp: list_all_iff dest: decimal_no_dash)
  have src: "CHR ''-'' \<notin> set a" if "(a, b) \<in> cable_rel ?cs" for a b
    using that nodash by (auto simp: cable_rel_def list_all_iff)
  have path: "(a, b) \<in> cable_rel ?cs \<and> (b, ms_moduleId dest) \<in> flows snap" if "(a, b) \<in> set (consecutive ?p)" for a b
  proof -
    have "linked (incoming_of ?cs) a b"
      using linked_consecutive [OF _ that] dest_path_to [of snap dest] by (simp add: path_to_def)
    moreover have "b \<in> set ?p" using that by (cases ?p) (auto simp: consecutive_def dest: set_zip_rightD)
    then have "(b, ms_moduleId dest) \<in> flows snap"
      using path_reach [OF dest_path_to [of snap dest]] by (simp add: edges_incoming)
    ultimately show ?thesis by (simp add: linked_cable_rel)
  qed
  have in_keys: "pair_key a b \<in> set (onPath_keys ?p) \<longleftrightarrow> (a, b) \<in> set (consecutive ?p)"
    if "(a, b) \<in> cable_rel ?cs" for a b
  proof
    assume "pair_key a b \<in> set (onPath_keys ?p)"
    then obtain x y where xy: "(x, y) \<in> set (consecutive ?p)" "pair_key a b = pair_key x y"
      by (auto simp: onPath_keys_def)
    then show "(a, b) \<in> set (consecutive ?p)"
      using pair_key_inj [OF src [OF that] _ xy(2)] src path by blast
  qed (force simp: onPath_keys_def)
  have e: "set ?e = {(a, b). (a, b) \<in> cable_rel ?cs \<and> (b, ms_moduleId dest) \<in> flows snap} -
      set (consecutive ?p)"
    unfolding dest_extras_def set_extra_edges [OF nodash] ancestors_exact
    using in_keys by (auto intro: converse_rtrancl_into_rtrancl)
  have "distinct ?e"
    using extra_edges_keys [of ?anc "onPath_keys ?p" ?cs]
    unfolding dest_extras_def by (simp add: distinct_map)
  then show ?thesis using e path by auto
qed

text \<open>The clauses shown are a first part of the edges; they stop only where the next one would pass
  the cap, and then the last clause counts the edges left out.\<close>

definition counted :: "nat \<Rightarrow> code_unit list list" where
  "counted n = (if n = 0 then [] else [units (''and '' @ nat_str n @ '' more'')])"

lemma show_extras_prefix:
  assumes "distinct mids" and "count = length shown + length es"
  shows "\<exists>k \<le> length es. fst (show_extras nm d count shown mids es) =
      shown @ map (clause nm) (take k es) @ counted (length es - k) \<and>
    (k < length es \<longrightarrow> 976 < d + length (join_with comma (shown @ map (clause nm) (take k es))) + length (clause nm (es ! k))) \<and>
    distinct (snd (show_extras nm d count shown mids es)) \<and>
    set (snd (show_extras nm d count shown mids es)) = set mids \<union> fst ` set (take k es) \<union> snd ` set (take k es)"
  using assms
proof (induction es arbitrary: shown mids)
  case (Cons e es)
  show ?case
  proof (cases "d + length (join_with comma shown) + length (clause nm e) + 24 > 1000")
    case True
    then show ?thesis using Cons.prems by (intro exI [of _ 0]) (simp add: counted_def)
  next
    case False
    let ?m = "add_missing (snd e) (add_missing (fst e) mids)"
    have m: "distinct ?m" using Cons.prems by (simp add: distinct_add_missing)
    have c: "count = length (shown @ [clause nm e]) + length es" using Cons.prems by simp
    obtain k where k: "k \<le> length es" "fst (show_extras nm d count (shown @ [clause nm e]) ?m es) =
        (shown @ [clause nm e]) @ map (clause nm) (take k es) @ counted (length es - k)"
      "k < length es \<longrightarrow> 976 < d + length (join_with comma ((shown @ [clause nm e]) @ map (clause nm) (take k es))) + length (clause nm (es ! k))"
      "distinct (snd (show_extras nm d count (shown @ [clause nm e]) ?m es))"
      "set (snd (show_extras nm d count (shown @ [clause nm e]) ?m es)) = set ?m \<union> fst ` set (take k es) \<union> snd ` set (take k es)"
      using Cons.IH [OF m c] by blast
    then show ?thesis using False by (intro exI [of _ "Suc k"]) auto
  qed
qed (simp add: counted_def)



text \<open>C11: the headline of a destination is a real cable path on any patch: distinct modules, each
  joined to the next by a cable, ending at the destination.  When the cables form no cycle it is
  a longest one: no path of cables into the destination has more modules.
\<close>

theorem headline_path_longest:
  "path_to (incoming_of (sn_cables snap)) (ms_moduleId dest) (dest_path snap dest) \<and>
   (acyclic (cable_rel (sn_cables snap)) \<longrightarrow>
      (\<forall>q. path_to (incoming_of (sn_cables snap)) (ms_moduleId dest) q \<longrightarrow> length q \<le> length (dest_path snap dest)))"
  using dest_path_to longest_on_patch by blast

lemma headline_path_longest_witness:
  "dest_path demo_patch demo_audio = [''1'', ''2''] \<and> length [''1'', ''2''] \<le> length (dest_path demo_patch demo_audio)"
proof -
  have "acyclic ({} :: (string \<times> string) set)" by (simp add: acyclic_def)
  then have "acyclic (cable_rel (sn_cables demo_patch))" unfolding demo_rel by (simp add: acyclic_insert)
  moreover have "path_to (incoming_of (sn_cables demo_patch)) (ms_moduleId demo_audio) [''1'', ''2'']"
    by (simp add: path_to_def linked_def edges_incoming demo_rel demo_audio_def demo_module_def)
  ultimately show ?thesis using headline_path_longest demo_path by blast
qed

text \<open>Every module a chain lists can send signal to the chain's destination, on any patch
  (cycles included); no module is listed twice and the list fits the output schema.
\<close>

theorem chain_modules_feed:
  "distinct (ch_moduleIds (describe_dest snap dest)) \<and> length (ch_moduleIds (describe_dest snap dest)) \<le> 256 \<and>
   set (ch_moduleIds (describe_dest snap dest)) \<subseteq> {x. (x, ms_moduleId dest) \<in> flows snap}"
proof -
  let ?nm = "name_of (by_id snap)" and ?p = "dest_path snap dest" and ?e = "dest_extras snap dest"
  let ?s = "show_extras ?nm (length (headline ?nm dest ?p)) (length ?e) [] ?p ?e"
  have p: "distinct ?p" using dest_path_to [of snap dest] by (simp add: path_to_def)
  have "distinct (snd ?s) \<and> set (snd ?s) \<subseteq> {x. (x, ms_moduleId dest) \<in> flows snap}"
    using show_extras_ids [OF p] dest_path_feeds dest_extras_feed by blast
  moreover have "ch_moduleIds (describe_dest snap dest) = take 256 (if ?e = [] then ?p else snd ?s)"
    by (simp add: describe_dest_def Let_def split_beta)
  moreover have "set (take 256 xs) \<subseteq> A" if "set xs \<subseteq> A" for xs :: "string list" and A
    using that set_take_subset [of 256 xs] by blast
  ultimately show ?thesis using p dest_path_feeds [of snap dest] by simp
qed

text \<open>A description whose headline leaves room is within the schema's 1024 characters,
  however many edges remain: the clauses stop in time and the closing count still fits.
\<close>

theorem description_fits_schema:
  assumes "length (headline (name_of (by_id snap)) dest (dest_path snap dest)) \<le> 978"
    and "length (dest_extras snap dest) < 10 ^ 16"
  shows "length (ch_description (describe_dest snap dest)) \<le> 1024"
proof -
  let ?nm = "name_of (by_id snap)" and ?p = "dest_path snap dest" and ?e = "dest_extras snap dest"
  let ?h = "headline ?nm dest ?p"
  let ?s = "show_extras ?nm (length ?h) (length ?e) [] ?p ?e"
  have "length ?h + length (join_with comma (fst ?s)) \<le> 1005"
    by (rule show_extras_cap) (use assms in simp_all)
  moreover have "ch_description (describe_dest snap dest) = (if ?e = [] then ?h
      else ?h @ units ''; also feeding it: '' @ join_with comma (fst ?s))"
    by (simp add: describe_dest_def Let_def split_beta)
  moreover have "length (units ''; also feeding it: '') = 19" by (simp add: units_def)
  ultimately show ?thesis using assms(1) by simp
qed

lemma description_fits_schema_witness:
  "length (ch_description (describe_dest demo_patch demo_audio)) \<le> 1024"
proof (rule description_fits_schema)
  show "length (headline (name_of (by_id demo_patch)) demo_audio (dest_path demo_patch demo_audio)) \<le> 978"
    unfolding headline_def demo_path by (simp add: arrow_def name_of_def by_id_def demo_defs map_get_Cons units_def)
  have "dest_extras demo_patch demo_audio = []"
    unfolding dest_extras_def demo_path
    by (simp add: onPath_keys_def consecutive_def demo_patch_def demo_cable_def Let_def)
  then show "length (dest_extras demo_patch demo_audio) < 10 ^ 16" by simp
qed

end
