(* ===== verification/Validation.thy ===== *)
theory Validation
  imports Analysis
begin

text \<open>
  \<open>validatePatch\<close> of \<open>apps/mcp-server/src/analysis.ts\<close> and the finding types of
  \<open>packages/schemas/src/validation.ts\<close>: one definition per rule, in report order, and the
  report that concatenates them.  Evidence records are JSON objects; a non-finite number
  in them is \<open>null\<close>, as \<open>JSON.stringify\<close> writes it.
\<close>

section \<open>Findings\<close>

datatype severity = SevError | SevWarning | SevInfo

datatype entity_ref =
    EModule string | ECable string | EPort string port_type int | EParam string nat | EPatch

record finding =
  fd_ruleId :: string
  fd_severity :: severity
  fd_confidence :: confidence
  fd_entities :: "entity_ref list"
  fd_evidence :: "(string \<times> json) list"
  fd_explanation :: "code_unit list"
  fd_suggestedRepair :: "string option"

definition VALIDATION_RULES :: "string list" where
  "VALIDATION_RULES = [
    ''cable.dangling'', ''port.out_of_bounds'', ''cable.duplicate'', ''inputs.stacked'',
    ''module.collision'', ''expander.adjacency'', ''param.non_finite'', ''param.out_of_range'',
    ''param.outside_safe_range'', ''bridge.missing'', ''bypass.interrupts_path'', ''cycle.feedback'',
    ''adapter.signal_role_cross'', ''adapter.pitch_gate_confusion'', ''adapter.poly_into_mono'',
    ''adapter.unverified_modules'', ''audio.no_input'', ''audio.no_destination'']"

definition add :: "string \<Rightarrow> severity \<Rightarrow> confidence \<Rightarrow> string \<Rightarrow> entity_ref list \<Rightarrow> (string \<times> json) list \<Rightarrow>
  string option \<Rightarrow> finding" where
  "add ruleId sev conf explanation entities evidence repair =
     \<lparr>fd_ruleId = ruleId, fd_severity = sev, fd_confidence = conf, fd_entities = entities,
      fd_evidence = evidence, fd_explanation = units explanation, fd_suggestedRepair = repair\<rparr>"

section \<open>Numbers\<close>

fun js_lt :: "js_number \<Rightarrow> js_number \<Rightarrow> bool" where
  "js_lt (Fin a) (Fin b) = (a < b)"
| "js_lt NaN _ = False"
| "js_lt _ NaN = False"
| "js_lt NegInf b = (b \<noteq> NegInf)"
| "js_lt a PosInf = (a \<noteq> PosInf)"
| "js_lt _ _ = False"

fun js_plus :: "js_number \<Rightarrow> rat \<Rightarrow> js_number" where
  "js_plus (Fin a) b = Fin (a + b)"
| "js_plus a b = a"

definition tolerance :: rat where
  "tolerance = 1 / 10000"

fun finite_value :: "js_number option \<Rightarrow> rat option" where
  "finite_value (Some (Fin r)) = Some r"
| "finite_value _ = None"

fun number_text :: "js_number option \<Rightarrow> string" where
  "number_text None = ''null''"
| "number_text (Some (Fin r)) = num_json r"
| "number_text (Some PosInf) = ''Infinity''"
| "number_text (Some NegInf) = ''-Infinity''"
| "number_text (Some NaN) = ''NaN''"

definition jnum :: "js_number option \<Rightarrow> json" where
  "jnum v = (case finite_value v of None \<Rightarrow> JNull | Some r \<Rightarrow> JNum r)"

definition jint :: "int \<Rightarrow> json" where
  "jint i = JNum (of_int i)"

definition jpos :: "grid_position option \<Rightarrow> json" where
  "jpos p = (case p of None \<Rightarrow> JNull | Some g \<Rightarrow> JObj [(''x'', jint (gp_x g)), (''y'', jint (gp_y g))])"

section \<open>Cables\<close>

definition port_text :: "string \<Rightarrow> int \<Rightarrow> string" where
  "port_text m p = m @ '':'' @ int_str p"

definition cable_key :: "cable_s \<Rightarrow> string" where
  "cable_key c = port_text (cb_outputModuleId c) (cb_outputId c) @ ''->'' @ port_text (cb_inputModuleId c) (cb_inputId c)"

definition input_key :: "cable_s \<Rightarrow> string" where
  "input_key c = port_text (cb_inputModuleId c) (cb_inputId c)"

definition dangling_finding :: "(string, module_s) jsmap \<Rightarrow> cable_s \<Rightarrow> finding" where
  "dangling_finding byId c = add ''cable.dangling'' SevError Certain
     (''Cable '' @ cb_cableId c @ '' references a missing module.'')
     [ECable (cb_cableId c)]
     [(''cableId'', JStr (cb_cableId c)), (''outputModuleId'', JStr (cb_outputModuleId c)),
      (''inputModuleId'', JStr (cb_inputModuleId c)),
      (''missingEndpoint'', JStr (if map_get byId (cb_outputModuleId c) = None then ''output'' else ''input''))] None"

definition bounds_finding :: "cable_s \<Rightarrow> string \<Rightarrow> port_type \<Rightarrow> string \<Rightarrow> int \<Rightarrow> string \<Rightarrow> nat \<Rightarrow> finding" where
  "bounds_finding c kind pt moduleId portId modelName count = add ''port.out_of_bounds'' SevError Certain
     (''Cable '' @ cb_cableId c @ '' '' @ kind @ '' port '' @ int_str portId @ '' is out of bounds for '' @ modelName @ ''.'')
     [EPort moduleId pt portId]
     [(''cableId'', JStr (cb_cableId c)), (''portType'', JStr kind), (''portId'', jint portId),
      (''portCount'', jint (int count))] None"

definition bounds_findings :: "module_s \<Rightarrow> module_s \<Rightarrow> cable_s \<Rightarrow> finding list" where
  "bounds_findings out inp c =
     (if cb_outputId c < 0 \<or> cb_outputId c \<ge> int (length (ms_outputs out))
      then [bounds_finding c ''output'' OutputPort (cb_outputModuleId c) (cb_outputId c) (ms_modelName out) (length (ms_outputs out))]
      else []) @
     (if cb_inputId c < 0 \<or> cb_inputId c \<ge> int (length (ms_inputs inp))
      then [bounds_finding c ''input'' InputPort (cb_inputModuleId c) (cb_inputId c) (ms_modelName inp) (length (ms_inputs inp))]
      else [])"

definition duplicate_finding :: "cable_s \<Rightarrow> finding" where
  "duplicate_finding c = add ''cable.duplicate'' SevWarning Certain
     (''Duplicate identical cable between the same ports ('' @ cable_key c @ '').'')
     [ECable (cb_cableId c)] [(''cableId'', JStr (cb_cableId c)), (''endpoints'', JStr (cable_key c))]
     (Some ''Remove the redundant cable.'')"

text \<open>The state of the first loop.\<close>

record cable_scan =
  sc_findings :: "finding list"
  sc_seen :: "string list"
  sc_byInput :: "(string, cable_s list) jsmap"

definition push_cable :: "string \<Rightarrow> cable_s \<Rightarrow> (string, cable_s list) jsmap \<Rightarrow> (string, cable_s list) jsmap" where
  "push_cable k c m = (case map_get m k of Some l \<Rightarrow> map_set k (l @ [c]) m | None \<Rightarrow> map_set k [c] m)"

definition scan_cable :: "(string, module_s) jsmap \<Rightarrow> cable_scan \<Rightarrow> cable_s \<Rightarrow> cable_scan" where
  "scan_cable byId s c =
     (case (map_get byId (cb_outputModuleId c), map_get byId (cb_inputModuleId c)) of
        (Some out, Some inp) \<Rightarrow>
          \<lparr>sc_findings = sc_findings s @ bounds_findings out inp c @
             (if cable_key c \<in> set (sc_seen s) then [duplicate_finding c] else []),
           sc_seen = add_missing (cable_key c) (sc_seen s),
           sc_byInput = push_cable (input_key c) c (sc_byInput s)\<rparr>
      | _ \<Rightarrow> s\<lparr>sc_findings := sc_findings s @ [dangling_finding byId c]\<rparr>)"

definition scan_cables :: "snapshot \<Rightarrow> cable_scan" where
  "scan_cables snap = foldl (scan_cable (by_id snap)) \<lparr>sc_findings = [], sc_seen = [], sc_byInput = []\<rparr> (sn_cables snap)"

definition split_colon :: "string \<Rightarrow> string \<times> string" where
  "split_colon k = (case split_first (CHR '':'') k of None \<Rightarrow> (k, [])
     | Some (a, b) \<Rightarrow> (a, takeWhile (\<lambda>c. c \<noteq> CHR '':'') b))"

definition stacked_findings :: "(string, module_s) jsmap \<Rightarrow> string \<times> cable_s list \<Rightarrow> finding list" where
  "stacked_findings byId e = (case e of (inKey, l) \<Rightarrow>
     if length l > 1 then
       let (modId, portId) = split_colon inKey in
       [add ''inputs.stacked'' SevInfo Certain
         (''Input port '' @ portId @ '' of '' @ name_of byId modId @ '' has '' @ nat_str (length l) @
          '' cables; unless a summing/merge is in place, only one connection is effective.'')
         (map (\<lambda>c. ECable (cb_cableId c)) l)
         [(''moduleId'', JStr modId), (''portType'', JStr ''input''),
          (''portId'', case num_of portId of None \<Rightarrow> JNull | Some r \<Rightarrow> JNum r),
          (''cableCount'', jint (int (length l))),
          (''cableIds'', JArr (map (\<lambda>c. JStr (cb_cableId c)) l))]
         (Some ''Use a mixer or Merge module to combine multiple sources into one input.'')]
     else [])"

section \<open>Layout\<close>

definition pos_key :: "grid_position \<Rightarrow> string" where
  "pos_key g = int_str (gp_x g) @ '','' @ int_str (gp_y g)"

definition scan_position :: "finding list \<times> (string, string) jsmap \<Rightarrow> module_s \<Rightarrow> finding list \<times> (string, string) jsmap" where
  "scan_position s m = (case ms_gridPosition m of None \<Rightarrow> s | Some g \<Rightarrow>
     ((case map_get (snd s) (pos_key g) of None \<Rightarrow> fst s | Some other \<Rightarrow> fst s @
        [add ''module.collision'' SevWarning Certain
          (''Modules '' @ other @ '' and '' @ ms_moduleId m @ '' share grid position '' @ pos_key g @ ''.'')
          [EModule (ms_moduleId m)]
          [(''gridPosition'', jpos (Some g)), (''otherModuleId'', JStr other)] None]),
      map_set (pos_key g) (ms_moduleId m) (snd s)))"

definition collision_findings :: "snapshot \<Rightarrow> finding list" where
  "collision_findings snap = fst (foldl scan_position ([], []) (sn_modules snap))"

definition left_neighbor :: "module_s \<Rightarrow> string option" where
  "left_neighbor m = (case ms_expanders m of None \<Rightarrow> None | Some (l, _) \<Rightarrow>
     (case l of None \<Rightarrow> None | Some i \<Rightarrow> if i = [] then None else Some i))"

definition adjacent_left :: "module_s option \<Rightarrow> grid_position \<Rightarrow> bool" where
  "adjacent_left l g = (case l of None \<Rightarrow> False | Some n \<Rightarrow>
     (case (ms_gridPosition n, ms_gridWidth n) of
        (Some p, Some w) \<Rightarrow> w \<noteq> 0 \<and> gp_y p = gp_y g \<and> gp_x p + w = gp_x g | _ \<Rightarrow> False))"

definition expander_findings :: "(string, module_s) jsmap \<Rightarrow> module_s \<Rightarrow> finding list" where
  "expander_findings byId m = (case (left_neighbor m, ms_gridPosition m) of
     (Some leftId, Some g) \<Rightarrow>
       let l = map_get byId leftId in
       if adjacent_left l g then []
       else [add ''expander.adjacency'' SevInfo Certain
         (ms_modelName m @ '' reports a left expander ('' @ leftId @ '') that is not immediately adjacent on the same row.'')
         [EModule (ms_moduleId m)]
         [(''expanderSide'', JStr ''left''), (''declaredNeighborId'', JStr leftId),
          (''neighborPresent'', JBool (l \<noteq> None)), (''hostPosition'', jpos (Some g)),
          (''neighborPosition'', jpos (case l of None \<Rightarrow> None | Some n \<Rightarrow> ms_gridPosition n))]
         (Some ''Place expander modules directly next to their host, on the same row, with no gap.'')]
   | _ \<Rightarrow> [])"

section \<open>Parameters\<close>

definition out_of_range :: "rat \<Rightarrow> js_number option \<Rightarrow> js_number option \<Rightarrow> bool" where
  "out_of_range v mn mx = (case (mn, mx) of
     (Some lo, Some hi) \<Rightarrow> js_lt (Fin v) (js_plus lo (- tolerance)) \<or> js_lt (js_plus hi tolerance) (Fin v)
   | _ \<Rightarrow> False)"

definition safe_range_of :: "module_s \<Rightarrow> nat \<Rightarrow> (rat \<times> rat) option" where
  "safe_range_of m paramId = (case paramSemantics (ms_pluginSlug m) (ms_modelSlug m) paramId of
     None \<Rightarrow> None | Some s \<Rightarrow> ps_safeRange s)"

definition param_findings :: "module_s \<Rightarrow> param_s \<Rightarrow> finding list" where
  "param_findings m p =
     (let label = ms_modelName m @ '' param '' @ [CHR 0x22] @ pv_name p @ [CHR 0x22];
        ents = [EParam (ms_moduleId m) (pv_paramId p)]; pid = (''paramId'', jint (int (pv_paramId p))) in
      case finite_value (pv_value p) of
        None \<Rightarrow> [add ''param.non_finite'' SevError Certain (label @ '' has a non-finite value.'') ents
          [pid, (''value'', JStr (number_text (pv_value p)))] None]
      | Some v \<Rightarrow>
          if out_of_range v (pv_minValue p) (pv_maxValue p)
          then [add ''param.out_of_range'' SevWarning Certain
            (label @ '' value '' @ num_json v @ '' is outside ['' @ number_text (pv_minValue p) @ '', '' @
             number_text (pv_maxValue p) @ ''].'') ents
            [pid, (''value'', JNum v), (''minValue'', jnum (pv_minValue p)), (''maxValue'', jnum (pv_maxValue p))] None]
          else (case safe_range_of m (pv_paramId p) of None \<Rightarrow> [] | Some (lo, hi) \<Rightarrow>
            if v < lo - tolerance \<or> v > hi + tolerance
            then [add ''param.outside_safe_range'' SevInfo AdapterBacked
              (label @ '' value '' @ num_json v @ '' is outside the adapter'' @ [CHR 0x27] @ ''s safe range ['' @ num_json lo @ '', '' @
               num_json hi @ '']. This is legal for the module but may produce excessive levels.'') ents
              [pid, (''value'', JNum v), (''safeRange'', JArr [JNum lo, JNum hi]),
               (''hardRange'', JArr [jnum (pv_minValue p), jnum (pv_maxValue p)])]
              (Some (''Bring the parameter back within ['' @ num_json lo @ '', '' @ num_json hi @
                ''] unless the extreme value is deliberate.''))]
            else []))"

section \<open>Persistence, bypass, feedback\<close>

definition bridge_findings :: "snapshot \<Rightarrow> finding list" where
  "bridge_findings snap = (if sn_bridgeModuleCount snap = 0
     then [add ''bridge.missing'' SevWarning Certain
       ''The patch has no RackMCP-Bridge module and will not reconnect after a Rack restart.''
       [EPatch] [(''bridgeModuleCount'', jint (int (sn_bridgeModuleCount snap)))]
       (Some ''Add a RackMCP-Bridge module before saving a patch you intend to reconnect to.'')]
     else [])"

definition interrupts :: "string list \<Rightarrow> module_s \<Rightarrow> bool" where
  "interrupts feeds m = (ms_bypassed m \<and> ms_moduleId m \<in> set feeds \<and>
     list_ex po_connected (ms_inputs m) \<and> list_ex po_connected (ms_outputs m))"

definition bypass_findings :: "string list \<Rightarrow> module_s \<Rightarrow> finding list" where
  "bypass_findings feeds m = (if interrupts feeds m
     then [add ''bypass.interrupts_path'' SevWarning Heuristic
       (ms_modelName m @ '' is bypassed while on a signal path to an audio output; unless it defines a bypass pass-through, downstream signal is interrupted.'')
       [EModule (ms_moduleId m)]
       [(''bypassed'', JBool True), (''hasIncoming'', JBool True), (''hasOutgoing'', JBool True),
        (''feedsAudioDestination'', JBool True)]
       (Some ''Un-bypass the module, or route around it, to restore the signal path.'')]
     else [])"

definition cycle_findings :: "snapshot \<Rightarrow> finding list" where
  "cycle_findings snap = (let cycles = the (modulesInCycles (module_ids snap) (sn_cables snap)) in
     if length cycles > 0
     then [add ''cycle.feedback'' SevInfo Certain
       (''The patch contains a feedback loop involving '' @ nat_str (length cycles) @
        '' module(s). This is often intentional; verify levels to avoid runaway feedback.'')
       (map EModule (take 64 cycles))
       [(''moduleCount'', jint (int (length cycles))), (''moduleIds'', JArr (map JStr (take 64 cycles)))] None]
     else [])"

section \<open>Adapter-backed advice\<close>

fun role_text :: "signal_role \<Rightarrow> string" where
  "role_text Audio = ''audio''"
| "role_text CvUnipolar = ''cv_unipolar''"
| "role_text CvBipolar = ''cv_bipolar''"
| "role_text PitchVoct = ''pitch_voct''"
| "role_text Gate = ''gate''"
| "role_text Trigger = ''trigger''"
| "role_text Clock = ''clock''"
| "role_text UnknownRole = ''unknown''"

fun family_text :: "family \<Rightarrow> string" where
  "family_text AudioFamily = ''audio''"
| "family_text ControlFamily = ''control''"

fun kind_text :: "control_kind \<Rightarrow> string" where
  "kind_text PitchKind = ''pitch''"
| "kind_text EventKind = ''event''"

definition opt_role :: "signal_role option \<Rightarrow> string" where
  "opt_role r = (case r of None \<Rightarrow> ''undefined'' | Some x \<Rightarrow> role_text x)"

definition cross_findings :: "module_s \<Rightarrow> module_s \<Rightarrow> cable_s \<Rightarrow> finding list" where
  "cross_findings out inp c =
     (let oRole = outputRoleOf out (cb_outputId c); iRole = inputRoleOf inp (cb_inputId c) in
      case (familyOf oRole, familyOf iRole) of
        (Some oFam, Some iFam) \<Rightarrow>
          if oFam \<noteq> iFam
          then [\<lparr>fd_ruleId = ''adapter.signal_role_cross'', fd_severity = SevInfo, fd_confidence = AdapterBacked,
            fd_entities = [ECable (cb_cableId c)],
            fd_evidence = [(''cableId'', JStr (cb_cableId c)), (''outputRole'', JStr (opt_role oRole)),
              (''inputRole'', JStr (opt_role iRole)), (''outputFamily'', JStr (family_text oFam)),
              (''inputFamily'', JStr (family_text iFam))],
            fd_explanation = units (ms_modelName out @ '' '' @ opt_role oRole @ '' output feeds '' @ ms_modelName inp @
              '' '' @ opt_role iRole @ '' input (audio'') @ [0x2194] @
              units ''control). This may be intentional (e.g. audio-rate modulation), but check it is deliberate.'',
            fd_suggestedRepair = None\<rparr>]
          else []
      | _ \<Rightarrow> [])"

definition confusion_findings :: "module_s \<Rightarrow> module_s \<Rightarrow> cable_s \<Rightarrow> finding list" where
  "confusion_findings out inp c =
     (let oRole = outputRoleOf out (cb_outputId c); iRole = inputRoleOf inp (cb_inputId c) in
      case (controlKindOf oRole, controlKindOf iRole) of
        (Some oKind, Some iKind) \<Rightarrow>
          if oKind \<noteq> iKind
          then [add ''adapter.pitch_gate_confusion'' SevInfo AdapterBacked
            (ms_modelName out @ [CHR 0x27] @ ''s '' @ opt_role oRole @ '' output feeds '' @ ms_modelName inp @ [CHR 0x27] @ ''s '' @ opt_role iRole @
             '' input. Pitch (1V/oct) and gate/trigger/clock signals are rarely interchangeable; check this is deliberate.'')
            [ECable (cb_cableId c)]
            [(''cableId'', JStr (cb_cableId c)), (''outputRole'', JStr (opt_role oRole)),
             (''inputRole'', JStr (opt_role iRole)), (''outputKind'', JStr (kind_text oKind)),
             (''inputKind'', JStr (kind_text iKind))]
            (Some (if oKind = EventKind
               then ''Route a 1V/oct pitch source into the pitch input, or use the gate to drive an envelope instead.''
               else ''Route a gate/trigger source into this input, or use a comparator to derive a gate from the pitch signal.''))]
          else []
      | _ \<Rightarrow> [])"

definition channels_at :: "port_s list \<Rightarrow> int \<Rightarrow> int" where
  "channels_at ps i = (if 0 \<le> i \<and> i < int (length ps) then po_channels (ps ! nat i) else 0)"

definition mono_findings :: "module_s \<Rightarrow> module_s \<Rightarrow> cable_s \<Rightarrow> finding list" where
  "mono_findings out inp c =
     (let outChannels = channels_at (ms_outputs out) (cb_outputId c) in
      if outChannels > 1 \<and> inputPolyphonyOf inp (cb_inputId c) = Some Monophonic
      then [add ''adapter.poly_into_mono'' SevInfo AdapterBacked
        (''A '' @ int_str outChannels @ ''-channel polyphonic signal from '' @ ms_modelName out @ '' enters '' @
         ms_modelName inp @ [CHR 0x27] @ ''s monophonic input; channels beyond the first are summed or dropped.'')
        [ECable (cb_cableId c)]
        [(''cableId'', JStr (cb_cableId c)), (''outputChannels'', jint outChannels),
         (''declaredInputPolyphony'', JStr ''monophonic'')]
        (Some ''Insert a Merge/Sum or mix the voices before this monophonic input if summing is intended.'')]
      else [])"

definition adapter_findings :: "(string, module_s) jsmap \<Rightarrow> cable_s \<Rightarrow> finding list" where
  "adapter_findings byId c =
     (case (map_get byId (cb_outputModuleId c), map_get byId (cb_inputModuleId c)) of
        (Some out, Some inp) \<Rightarrow>
          if cb_outputId c \<ge> int (length (ms_outputs out)) \<or> cb_inputId c \<ge> int (length (ms_inputs inp)) then []
          else cross_findings out inp c @ confusion_findings out inp c @ mono_findings out inp c
      | _ \<Rightarrow> [])"

definition unadapted_findings :: "snapshot \<Rightarrow> finding list" where
  "unadapted_findings snap = (let un = unadapted snap in
     if length un > 0
     then [add ''adapter.unverified_modules'' SevInfo Heuristic
       (nat_str (length un) @ '' module(s) have no verified adapter; their semantics are inferred and any role-based findings about them are heuristic.'')
       (map (\<lambda>m. EModule (ms_moduleId m)) (take 64 un))
       [(''unadapteredCount'', jint (int (length un))),
        (''models'', JArr (map (\<lambda>m. JStr (ms_pluginSlug m @ ''/'' @ ms_modelSlug m)) (take 64 un)))] None]
     else [])"

section \<open>Silence\<close>

definition silence_findings :: "snapshot \<Rightarrow> finding list" where
  "silence_findings snap = (let audioDest = filter isAudioDestination (sn_modules snap) in
     if length audioDest > 0
     then (if list_ex (\<lambda>m. list_ex po_connected (ms_inputs m)) audioDest then []
       else [add ''audio.no_input'' SevWarning Heuristic
         ''An audio destination exists but has no connected inputs; the patch is likely silent.''
         (map (\<lambda>m. EModule (ms_moduleId m)) audioDest)
         [(''audioDestinationCount'', jint (int (length audioDest))), (''connectedInputCount'', jint 0)]
         (Some (''Connect a signal source to the audio module'' @ [CHR 0x27] @ ''s inputs.''))])
     else [add ''audio.no_destination'' SevInfo Heuristic
       ''No Core Audio destination module found; the patch produces no audible output.''
       [EPatch]
       [(''audioDestinationCount'', jint 0), (''moduleCount'', jint (int (length (sn_modules snap))))] None])"

section \<open>The report\<close>

definition all_findings :: "snapshot \<Rightarrow> finding list" where
  "all_findings snap =
     (let byId = by_id snap; scan = scan_cables snap; feeds = modulesFeedingDestinations snap in
      sc_findings scan @
      concat (map (stacked_findings byId) (sc_byInput scan)) @
      collision_findings snap @
      concat (map (expander_findings byId) (sn_modules snap)) @
      concat (map (\<lambda>m. concat (map (param_findings m) (ms_params m))) (sn_modules snap)) @
      bridge_findings snap @
      concat (map (bypass_findings feeds) (sn_modules snap)) @
      cycle_findings snap @
      concat (map (adapter_findings byId) (sn_cables snap)) @
      unadapted_findings snap @
      silence_findings snap)"

record report =
  rp_findings :: "finding list"
  rp_rulesRun :: "string list"
  rp_errorCount :: int
  rp_warningCount :: int
  rp_infoCount :: int

definition validatePatch :: "snapshot \<Rightarrow> report" where
  "validatePatch snap =
     (let findings = all_findings snap;
        errorCount = int (length (filter (\<lambda>f. fd_severity f = SevError) findings));
        warningCount = int (length (filter (\<lambda>f. fd_severity f = SevWarning) findings)) in
      \<lparr>rp_findings = findings, rp_rulesRun = VALIDATION_RULES, rp_errorCount = errorCount,
       rp_warningCount = warningCount, rp_infoCount = int (length findings) - errorCount - warningCount\<rparr>)"

end
