(* ===== verification/Findings.thy ===== *)
theory Findings
  imports Validation
begin

text \<open>
  What the findings of \<open>validatePatch\<close> mean: the table of rule levels, the scan of the
  cables and its port keys, and the properties of the report.
\<close>

section \<open>Which rule reports what\<close>

text \<open>Every rule has one severity and one confidence.\<close>

definition RULE_LEVELS :: "(string \<times> severity \<times> confidence) list" where
  "RULE_LEVELS = [
    (''cable.dangling'', SevError, Certain), (''port.out_of_bounds'', SevError, Certain),
    (''cable.duplicate'', SevWarning, Certain), (''inputs.stacked'', SevInfo, Certain),
    (''module.collision'', SevWarning, Certain), (''expander.adjacency'', SevInfo, Certain),
    (''param.non_finite'', SevError, Certain), (''param.out_of_range'', SevWarning, Certain),
    (''param.outside_safe_range'', SevInfo, AdapterBacked), (''bridge.missing'', SevWarning, Certain),
    (''bypass.interrupts_path'', SevWarning, Heuristic), (''cycle.feedback'', SevInfo, Certain),
    (''adapter.signal_role_cross'', SevInfo, AdapterBacked), (''adapter.pitch_gate_confusion'', SevInfo, AdapterBacked),
    (''adapter.poly_into_mono'', SevInfo, AdapterBacked), (''adapter.unverified_modules'', SevInfo, Heuristic),
    (''audio.no_input'', SevWarning, Heuristic), (''audio.no_destination'', SevInfo, Heuristic)]"

definition level :: "finding \<Rightarrow> string \<times> severity \<times> confidence" where
  "level f = (fd_ruleId f, fd_severity f, fd_confidence f)"

abbreviation levels :: "finding list \<Rightarrow> (string \<times> severity \<times> confidence) set" where
  "levels fs \<equiv> level ` set fs"

named_theorems level_of \<open>the levels of the findings of each rule\<close>

lemma level_add [simp]: "level (add r sv cf ex es ev rep) = (r, sv, cf)"
  by (simp add: level_def add_def)

lemma levels_bounds: "levels (bounds_findings a b c) \<subseteq> {(''port.out_of_bounds'', SevError, Certain)}"
  by (auto simp: bounds_findings_def bounds_finding_def)

lemma levels_scan_cable:
  "levels (sc_findings (scan_cable byId s c)) \<subseteq> levels (sc_findings s) \<union>
     {(''cable.dangling'', SevError, Certain), (''port.out_of_bounds'', SevError, Certain),
      (''cable.duplicate'', SevWarning, Certain)}"
  using levels_bounds
  by (auto simp: scan_cable_def dangling_finding_def duplicate_finding_def split: option.splits) blast+

lemma levels_scan [level_of]:
  "levels (sc_findings (scan_cables snap)) \<subseteq>
     {(''cable.dangling'', SevError, Certain), (''port.out_of_bounds'', SevError, Certain),
      (''cable.duplicate'', SevWarning, Certain)}"
proof -
  have "levels (sc_findings (foldl (scan_cable m) s cs)) \<subseteq> levels (sc_findings s) \<union>
     {(''cable.dangling'', SevError, Certain), (''port.out_of_bounds'', SevError, Certain),
      (''cable.duplicate'', SevWarning, Certain)}" for m s cs
  proof (induction cs arbitrary: s)
    case (Cons c cs)
    show ?case using Cons [of "scan_cable m s c"] levels_scan_cable [of m s c] by (simp only: foldl_Cons) blast
  qed auto
  from this [of "by_id snap" "\<lparr>sc_findings = [], sc_seen = [], sc_byInput = []\<rparr>" "sn_cables snap"]
  show ?thesis by (simp add: scan_cables_def)
qed

lemma levels_concat_map:
  "(\<And>x. levels (f x) \<subseteq> A) \<Longrightarrow> levels (concat (map f xs)) \<subseteq> A"
  by fastforce

lemma levels_stacked [level_of]:
  "levels (concat (map (stacked_findings byId) es)) \<subseteq> {(''inputs.stacked'', SevInfo, Certain)}"
  by (rule levels_concat_map) (auto simp: stacked_findings_def Let_def split_beta)

lemma levels_collision [level_of]:
  "levels (collision_findings snap) \<subseteq> {(''module.collision'', SevWarning, Certain)}"
proof -
  have "levels (fst (foldl scan_position s ms)) \<subseteq> levels (fst s) \<union> {(''module.collision'', SevWarning, Certain)}" for s ms
  proof (induction ms arbitrary: s)
    case (Cons m ms)
    have "levels (fst (scan_position s m)) \<subseteq> levels (fst s) \<union> {(''module.collision'', SevWarning, Certain)}"
      by (auto simp: scan_position_def split: option.splits)
    then show ?case using Cons [of "scan_position s m"] by (simp only: foldl_Cons) blast
  qed auto
  from this [of "([], [])"] show ?thesis by (simp add: collision_findings_def)
qed

lemma levels_expander [level_of]:
  "levels (concat (map (expander_findings byId) ms)) \<subseteq> {(''expander.adjacency'', SevInfo, Certain)}"
  by (rule levels_concat_map) (auto simp: expander_findings_def Let_def split: option.splits)

lemma levels_params [level_of]:
  "levels (concat (map (\<lambda>m. concat (map (param_findings m) (ms_params m))) ms)) \<subseteq>
     {(''param.non_finite'', SevError, Certain), (''param.out_of_range'', SevWarning, Certain),
      (''param.outside_safe_range'', SevInfo, AdapterBacked)}"
  by (intro levels_concat_map) (auto simp: param_findings_def Let_def split: option.splits prod.splits if_splits)

lemma levels_bridge [level_of]: "levels (bridge_findings snap) \<subseteq> {(''bridge.missing'', SevWarning, Certain)}"
  by (auto simp: bridge_findings_def)

lemma levels_bypass [level_of]:
  "levels (concat (map (bypass_findings fs) ms)) \<subseteq> {(''bypass.interrupts_path'', SevWarning, Heuristic)}"
  by (rule levels_concat_map) (auto simp: bypass_findings_def)

lemma levels_cycle [level_of]: "levels (cycle_findings snap) \<subseteq> {(''cycle.feedback'', SevInfo, Certain)}"
  by (auto simp: cycle_findings_def Let_def)

lemma levels_cable_advice:
  "levels (cross_findings a b c) \<subseteq> {(''adapter.signal_role_cross'', SevInfo, AdapterBacked)}"
  "levels (confusion_findings a b c) \<subseteq> {(''adapter.pitch_gate_confusion'', SevInfo, AdapterBacked)}"
  "levels (mono_findings a b c) \<subseteq> {(''adapter.poly_into_mono'', SevInfo, AdapterBacked)}"
  by (auto simp: cross_findings_def confusion_findings_def mono_findings_def Let_def level_def add_def
      split: option.splits)

lemma levels_adapter [level_of]:
  "levels (concat (map (adapter_findings byId) cs)) \<subseteq>
     {(''adapter.signal_role_cross'', SevInfo, AdapterBacked), (''adapter.pitch_gate_confusion'', SevInfo, AdapterBacked),
      (''adapter.poly_into_mono'', SevInfo, AdapterBacked)}"
proof (rule levels_concat_map)
  fix c
  have "levels (cross_findings a b c @ confusion_findings a b c @ mono_findings a b c) \<subseteq>
     {(''adapter.signal_role_cross'', SevInfo, AdapterBacked), (''adapter.pitch_gate_confusion'', SevInfo, AdapterBacked),
      (''adapter.poly_into_mono'', SevInfo, AdapterBacked)}" for a b
    using levels_cable_advice unfolding set_append image_Un by fast
  then show "levels (adapter_findings byId c) \<subseteq>
     {(''adapter.signal_role_cross'', SevInfo, AdapterBacked), (''adapter.pitch_gate_confusion'', SevInfo, AdapterBacked),
      (''adapter.poly_into_mono'', SevInfo, AdapterBacked)}"
    by (cases "map_get byId (cb_outputModuleId c)"; cases "map_get byId (cb_inputModuleId c)")
      (simp_all add: adapter_findings_def)
qed

lemma levels_unadapted [level_of]:
  "levels (unadapted_findings snap) \<subseteq> {(''adapter.unverified_modules'', SevInfo, Heuristic)}"
  by (auto simp: unadapted_findings_def Let_def)

lemma levels_silence [level_of]:
  "levels (silence_findings snap) \<subseteq> {(''audio.no_input'', SevWarning, Heuristic), (''audio.no_destination'', SevInfo, Heuristic)}"
  by (auto simp: silence_findings_def Let_def)

lemma levels_all: "levels (all_findings snap) \<subseteq> set RULE_LEVELS"
proof -
  have "A \<subseteq> set RULE_LEVELS" if "A \<subseteq> B" "B \<subseteq> set RULE_LEVELS" for A B using that by blast
  note up = this
  show ?thesis
    unfolding all_findings_def Let_def set_append image_Un
    by (intro Un_least; rule up, rule level_of) (simp_all add: RULE_LEVELS_def)
qed

lemma filter_rule_none:
  "levels fs \<subseteq> L \<Longrightarrow> r \<notin> fst ` L \<Longrightarrow> filter (\<lambda>f. fd_ruleId f = r) fs = []"
  by (force simp: filter_empty_conv level_def)

lemma filter_sev_none:
  "levels fs \<subseteq> L \<Longrightarrow> sv \<notin> fst ` snd ` L \<Longrightarrow> filter (\<lambda>f. fd_severity f = sv) fs = []"
  by (force simp: filter_empty_conv level_def)

lemma filter_rule_groups:
  "filter (\<lambda>f. fd_ruleId f = ''inputs.stacked'') (all_findings snap) =
     concat (map (stacked_findings (by_id snap)) (sc_byInput (scan_cables snap)))"
  "filter (\<lambda>f. fd_ruleId f = ''cable.duplicate'') (all_findings snap) =
     filter (\<lambda>f. fd_ruleId f = ''cable.duplicate'') (sc_findings (scan_cables snap))"
  "filter (\<lambda>f. fd_ruleId f = ''bypass.interrupts_path'') (all_findings snap) =
     concat (map (bypass_findings (modulesFeedingDestinations snap)) (sn_modules snap))"
  "filter (\<lambda>f. fd_ruleId f = ''cycle.feedback'') (all_findings snap) = cycle_findings snap"
proof -
  have all: "filter (\<lambda>f. fd_ruleId f = r) fs = fs" if "levels fs \<subseteq> {(r, sv, cf)}" for r sv cf fs
    using that by (force simp: filter_id_conv level_def)
  show "filter (\<lambda>f. fd_ruleId f = ''inputs.stacked'') (all_findings snap) =
     concat (map (stacked_findings (by_id snap)) (sc_byInput (scan_cables snap)))"
    by (simp add: all_findings_def Let_def all [OF levels_stacked] filter_rule_none [OF levels_scan]
        filter_rule_none [OF levels_collision] filter_rule_none [OF levels_expander] filter_rule_none [OF levels_params]
        filter_rule_none [OF levels_bridge] filter_rule_none [OF levels_bypass] filter_rule_none [OF levels_cycle]
        filter_rule_none [OF levels_adapter] filter_rule_none [OF levels_unadapted] filter_rule_none [OF levels_silence])
  show "filter (\<lambda>f. fd_ruleId f = ''cable.duplicate'') (all_findings snap) =
     filter (\<lambda>f. fd_ruleId f = ''cable.duplicate'') (sc_findings (scan_cables snap))"
    by (simp add: all_findings_def Let_def filter_rule_none [OF levels_stacked]
        filter_rule_none [OF levels_collision] filter_rule_none [OF levels_expander] filter_rule_none [OF levels_params]
        filter_rule_none [OF levels_bridge] filter_rule_none [OF levels_bypass] filter_rule_none [OF levels_cycle]
        filter_rule_none [OF levels_adapter] filter_rule_none [OF levels_unadapted] filter_rule_none [OF levels_silence])
  show "filter (\<lambda>f. fd_ruleId f = ''bypass.interrupts_path'') (all_findings snap) =
     concat (map (bypass_findings (modulesFeedingDestinations snap)) (sn_modules snap))"
    by (simp add: all_findings_def Let_def all [OF levels_bypass] filter_rule_none [OF levels_scan] filter_rule_none [OF levels_stacked]
        filter_rule_none [OF levels_collision] filter_rule_none [OF levels_expander] filter_rule_none [OF levels_params]
        filter_rule_none [OF levels_bridge] filter_rule_none [OF levels_cycle]
        filter_rule_none [OF levels_adapter] filter_rule_none [OF levels_unadapted] filter_rule_none [OF levels_silence])
  show "filter (\<lambda>f. fd_ruleId f = ''cycle.feedback'') (all_findings snap) = cycle_findings snap"
    by (simp add: all_findings_def Let_def all [OF levels_cycle] filter_rule_none [OF levels_scan] filter_rule_none [OF levels_stacked]
        filter_rule_none [OF levels_collision] filter_rule_none [OF levels_expander] filter_rule_none [OF levels_params]
        filter_rule_none [OF levels_bridge] filter_rule_none [OF levels_bypass]
        filter_rule_none [OF levels_adapter] filter_rule_none [OF levels_unadapted] filter_rule_none [OF levels_silence])
qed

lemma filter_errors:
  "filter (\<lambda>f. fd_severity f = SevError) (all_findings snap) =
     filter (\<lambda>f. fd_severity f = SevError) (sc_findings (scan_cables snap)) @
     filter (\<lambda>f. fd_severity f = SevError) (concat (map (\<lambda>m. concat (map (param_findings m) (ms_params m))) (sn_modules snap)))"
  by (simp add: all_findings_def Let_def filter_sev_none [OF levels_stacked]
      filter_sev_none [OF levels_collision] filter_sev_none [OF levels_expander]
      filter_sev_none [OF levels_bridge] filter_sev_none [OF levels_bypass] filter_sev_none [OF levels_cycle]
      filter_sev_none [OF levels_adapter] filter_sev_none [OF levels_unadapted] filter_sev_none [OF levels_silence])

section \<open>The cable scan\<close>

definition resolves :: "(string, module_s) jsmap \<Rightarrow> cable_s \<Rightarrow> bool" where
  "resolves byId c = (map_has byId (cb_outputModuleId c) \<and> map_has byId (cb_inputModuleId c))"

text \<open>Both ends exist and both ports are in bounds.\<close>

definition connects :: "(string, module_s) jsmap \<Rightarrow> cable_s \<Rightarrow> bool" where
  "connects byId c = (case (map_get byId (cb_outputModuleId c), map_get byId (cb_inputModuleId c)) of
     (Some out, Some inp) \<Rightarrow> 0 \<le> cb_outputId c \<and> cb_outputId c < int (length (ms_outputs out)) \<and>
       0 \<le> cb_inputId c \<and> cb_inputId c < int (length (ms_inputs inp))
   | _ \<Rightarrow> False)"

lemma add_simps [simp]:
  "fd_ruleId (add r sv cf ex es ev rep) = r" "fd_severity (add r sv cf ex es ev rep) = sv"
  "fd_entities (add r sv cf ex es ev rep) = es"
  by (simp_all add: add_def)

lemma scan_cable_errors:
  "filter (\<lambda>f. fd_severity f = SevError) (sc_findings (scan_cable m s c)) = [] \<longleftrightarrow>
     filter (\<lambda>f. fd_severity f = SevError) (sc_findings s) = [] \<and> connects m c"
  by (auto simp: scan_cable_def connects_def bounds_findings_def bounds_finding_def dangling_finding_def
      duplicate_finding_def split: option.splits)

lemma scan_errors:
  "filter (\<lambda>f. fd_severity f = SevError) (sc_findings (foldl (scan_cable m) s cs)) = [] \<longleftrightarrow>
     filter (\<lambda>f. fd_severity f = SevError) (sc_findings s) = [] \<and> list_all (connects m) cs"
  by (induction cs arbitrary: s) (auto simp: scan_cable_errors)

lemma param_errors:
  "filter (\<lambda>f. fd_severity f = SevError) (param_findings m p) = [] \<longleftrightarrow> finite_value (pv_value p) \<noteq> None"
  by (simp add: param_findings_def Let_def split: option.split prod.split)

lemma filter_concat_Nil: "filter P (concat (map f xs)) = [] \<longleftrightarrow> list_all (\<lambda>x. filter P (f x) = []) xs"
  by (induction xs) auto

definition params_finite :: "module_s \<Rightarrow> bool" where
  "params_finite m = list_all (\<lambda>p. finite_value (pv_value p) \<noteq> None) (ms_params m)"

lemma scan_cable_seen:
  assumes "distinct (sc_seen s)" "set (sc_seen s) = cable_key ` set (filter (resolves m) done)"
    "length (filter (\<lambda>f. fd_ruleId f = ''cable.duplicate'') (sc_findings s)) + length (sc_seen s) =
       length (filter (resolves m) done)"
  shows "distinct (sc_seen (scan_cable m s c))"
    "set (sc_seen (scan_cable m s c)) = cable_key ` set (filter (resolves m) (done @ [c]))"
    "length (filter (\<lambda>f. fd_ruleId f = ''cable.duplicate'') (sc_findings (scan_cable m s c))) +
       length (sc_seen (scan_cable m s c)) = length (filter (resolves m) (done @ [c]))"
proof -
  show "distinct (sc_seen (scan_cable m s c))"
    using assms by (auto simp: scan_cable_def distinct_add_missing split: option.split)
  show "set (sc_seen (scan_cable m s c)) = cable_key ` set (filter (resolves m) (done @ [c]))"
    using assms by (auto simp: scan_cable_def resolves_def map_has_def split: option.splits)
  show "length (filter (\<lambda>f. fd_ruleId f = ''cable.duplicate'') (sc_findings (scan_cable m s c))) +
       length (sc_seen (scan_cable m s c)) = length (filter (resolves m) (done @ [c]))"
    using assms by (auto simp: scan_cable_def resolves_def map_has_def add_missing_def bounds_findings_def
        bounds_finding_def dangling_finding_def duplicate_finding_def split: option.splits)
qed

lemma scan_seen:
  "distinct (sc_seen (scan_cables snap)) \<and>
   set (sc_seen (scan_cables snap)) = cable_key ` set (filter (resolves (by_id snap)) (sn_cables snap)) \<and>
   length (filter (\<lambda>f. fd_ruleId f = ''cable.duplicate'') (sc_findings (scan_cables snap))) +
     length (sc_seen (scan_cables snap)) = length (filter (resolves (by_id snap)) (sn_cables snap))"
proof -
  define m where "m = by_id snap"
  have "distinct (sc_seen (foldl (scan_cable m) s cs)) \<and>
     set (sc_seen (foldl (scan_cable m) s cs)) = cable_key ` set (filter (resolves m) (done @ cs)) \<and>
     length (filter (\<lambda>f. fd_ruleId f = ''cable.duplicate'') (sc_findings (foldl (scan_cable m) s cs))) +
       length (sc_seen (foldl (scan_cable m) s cs)) = length (filter (resolves m) (done @ cs))"
    if "distinct (sc_seen s)" "set (sc_seen s) = cable_key ` set (filter (resolves m) done)"
      "length (filter (\<lambda>f. fd_ruleId f = ''cable.duplicate'') (sc_findings s)) + length (sc_seen s) =
       length (filter (resolves m) done)" for s cs "done"
    using that
  proof (induction cs arbitrary: s "done")
    case (Cons c cs)
    from Cons.IH [OF scan_cable_seen [OF Cons.prems, of c]] show ?case by simp
  qed simp
  from this [of "\<lparr>sc_findings = [], sc_seen = [], sc_byInput = []\<rparr>" "[]"]
  show ?thesis by (simp add: scan_cables_def m_def)
qed

lemma scan_byInput:
  "map_ok (sc_byInput (scan_cables snap)) \<and>
   map_get (sc_byInput (scan_cables snap)) k =
     (let l = filter (\<lambda>c. input_key c = k) (filter (resolves (by_id snap)) (sn_cables snap)) in
      if l = [] then None else Some l)"
proof -
  define m where "m = by_id snap"
  have "map_ok (sc_byInput (foldl (scan_cable m) s cs)) \<and>
     map_get (sc_byInput (foldl (scan_cable m) s cs)) k =
       (let l = filter (\<lambda>c. input_key c = k) (filter (resolves m) cs) in
        case map_get (sc_byInput s) k of Some l' \<Rightarrow> Some (l' @ l) | None \<Rightarrow> if l = [] then None else Some l)"
    if "map_ok (sc_byInput s)" for s cs
    using that
  proof (induction cs arbitrary: s)
    case (Cons c cs)
    have ok: "map_ok (sc_byInput (scan_cable m s c))"
      using Cons.prems by (simp add: scan_cable_def push_cable_def split: option.split)
    have get: "map_get (sc_byInput (scan_cable m s c)) k = (if resolves m c \<and> input_key c = k
        then Some (case map_get (sc_byInput s) k of None \<Rightarrow> [c] | Some l \<Rightarrow> l @ [c]) else map_get (sc_byInput s) k)"
      by (auto simp: scan_cable_def resolves_def map_has_def push_cable_def split: option.splits)
    show ?case using Cons.IH [OF ok] unfolding foldl_Cons get
      by (auto simp: Let_def split: option.splits if_splits)
  qed (simp split: option.split)
  from this [of "\<lparr>sc_findings = [], sc_seen = [], sc_byInput = []\<rparr>" "sn_cables snap"]
  show ?thesis by (simp add: scan_cables_def m_def)
qed

section \<open>The keys are exact\<close>

lemma nat_str_inj: "nat_str a = nat_str b \<Longrightarrow> a = b"
  using digits_val_nat_str by metis

lemma nat_str_chars: "c \<in> set (nat_str n) \<Longrightarrow> digit c"
  using nat_str_digits [of n] by (auto simp: all_digits_def list_all_iff)

lemma not_digit [simp]: "\<not> digit (CHR ''-'')" "\<not> digit (CHR '':'')" "\<not> digit (CHR ''>'')" "\<not> digit (CHR '','')"
  by (simp_all add: digit_def)

lemma int_str_inj: "int_str a = int_str b \<Longrightarrow> a = b"
proof -
  assume e: "int_str a = int_str b"
  have "hd (nat_str n) \<noteq> CHR ''-''" for n
    using nat_str_chars [of "hd (nat_str n)" n] nat_str_nonempty [of n] by (metis hd_in_set not_digit(1))
  then have ne: "CHR ''-'' # x \<noteq> nat_str n" for x n by (metis list.sel(1))
  show "a = b"
    using e ne [of "nat_str (nat (- a))" "nat b"] ne [of "nat_str (nat (- b))" "nat a"]
    by (auto simp: int_str_def dest!: nat_str_inj split: if_splits)
qed

lemma int_str_dash:
  "int_str a @ CHR ''-'' # x = int_str b @ CHR ''-'' # y \<Longrightarrow> a = b \<and> x = y"
proof -
  assume e: "int_str a @ CHR ''-'' # x = int_str b @ CHR ''-'' # y"
  have nd: "CHR ''-'' \<notin> set (nat_str n)" for n using nat_str_chars not_digit(1) by blast
  have split: "split_first (CHR ''-'') (nat_str n @ CHR ''-'' # z) = Some (nat_str n, z)" for n z
    by (rule split_first_append [OF nd])
  have hd: "hd (nat_str n @ z) \<noteq> CHR ''-''" for n z
    using nd [of n] nat_str_nonempty [of n] by (cases "nat_str n") auto
  have sign: "a < 0 \<longleftrightarrow> b < 0" using arg_cong [OF e, of hd] hd hd [symmetric] by (auto simp: int_str_def split: if_splits)
  have "nat_str (nat \<bar>a\<bar>) @ CHR ''-'' # x = nat_str (nat \<bar>b\<bar>) @ CHR ''-'' # y"
    using e sign by (simp add: int_str_def split: if_splits)
  from arg_cong [OF this, of "split_first (CHR ''-'')"] show "a = b \<and> x = y"
    using sign unfolding split by (auto dest!: nat_str_inj)
qed

lemma port_text_inj:
  assumes "CHR '':'' \<notin> set m" "CHR '':'' \<notin> set m'" "port_text m p @ x = port_text m' p' @ y"
  shows "m = m' \<and> int_str p @ x = int_str p' @ y"
proof -
  have "split_first (CHR '':'') (n @ CHR '':'' # z) = Some (n, z)" if "CHR '':'' \<notin> set n" for n z
    by (rule split_first_append [OF that])
  from this [OF assms(1), of "int_str p @ x"] this [OF assms(2), of "int_str p' @ y"] assms(3)
  show ?thesis unfolding port_text_def append_assoc append_Cons append_Nil
    by (metis Pair_inject option.inject)
qed

definition endpoints :: "cable_s \<Rightarrow> string \<times> int \<times> string \<times> int" where
  "endpoints c = (cb_outputModuleId c, cb_outputId c, cb_inputModuleId c, cb_inputId c)"

definition ids_decimal :: "cable_s \<Rightarrow> bool" where
  "ids_decimal c = (DecimalId_ok (cb_outputModuleId c) \<and> DecimalId_ok (cb_inputModuleId c))"

lemma decimal_no_colon: "DecimalId_ok s \<Longrightarrow> CHR '':'' \<notin> set s"
  by (auto simp: DecimalId_ok_def list_all_iff)

lemma input_key_iff:
  assumes "ids_decimal c" "ids_decimal c'"
  shows "input_key c = input_key c' \<longleftrightarrow>
    cb_inputModuleId c = cb_inputModuleId c' \<and> cb_inputId c = cb_inputId c'"
  using port_text_inj [of "cb_inputModuleId c" "cb_inputModuleId c'" "cb_inputId c" "[]" "cb_inputId c'" "[]"] assms
  by (auto simp: input_key_def ids_decimal_def dest: decimal_no_colon int_str_inj)

lemma cable_key_iff:
  assumes "ids_decimal c" "ids_decimal c'"
  shows "cable_key c = cable_key c' \<longleftrightarrow> endpoints c = endpoints c'"
proof
  assume e: "cable_key c = cable_key c'"
  have n: "CHR '':'' \<notin> set (cb_outputModuleId c)" "CHR '':'' \<notin> set (cb_outputModuleId c')"
    using assms by (auto simp: ids_decimal_def dest: decimal_no_colon)
  have "cb_outputModuleId c = cb_outputModuleId c' \<and>
      int_str (cb_outputId c) @ CHR ''-'' # CHR ''>'' # input_key c =
      int_str (cb_outputId c') @ CHR ''-'' # CHR ''>'' # input_key c'"
    by (rule port_text_inj [OF n]) (use e in \<open>simp add: cable_key_def input_key_def\<close>)
  then have "cb_outputModuleId c = cb_outputModuleId c'" "cb_outputId c = cb_outputId c'" "input_key c = input_key c'"
    using int_str_dash by fastforce+
  then show "endpoints c = endpoints c'" using input_key_iff [OF assms] by (simp add: endpoints_def)
qed (simp add: endpoints_def cable_key_def)

section \<open>Properties\<close>

text \<open>Every finding of a report comes from a published rule, with the severity and the
  confidence of that rule; the report names exactly the published rules as run, and the
  three counts add up to the findings.
\<close>

theorem findings_follow_rules:
  "level ` set (rp_findings (validatePatch snap)) \<subseteq> set RULE_LEVELS \<and>
   map fst RULE_LEVELS = VALIDATION_RULES \<and> rp_rulesRun (validatePatch snap) = VALIDATION_RULES \<and>
   rp_infoCount (validatePatch snap) =
     int (length (filter (\<lambda>f. fd_severity f = SevInfo) (rp_findings (validatePatch snap)))) \<and>
   rp_errorCount (validatePatch snap) + rp_warningCount (validatePatch snap) + rp_infoCount (validatePatch snap) =
     int (length (rp_findings (validatePatch snap)))"
proof -
  have sum: "length fs = length (filter (\<lambda>f. fd_severity f = SevError) fs) +
      length (filter (\<lambda>f. fd_severity f = SevWarning) fs) + length (filter (\<lambda>f. fd_severity f = SevInfo) fs)" for fs
  proof (induction fs)
    case (Cons f fs)
    then show ?case by (cases "fd_severity f") simp_all
  qed simp
  have "map fst RULE_LEVELS = VALIDATION_RULES" by (simp add: RULE_LEVELS_def VALIDATION_RULES_def)
  then show ?thesis using levels_all [of snap] sum [of "all_findings snap"]
    by (simp add: validatePatch_def Let_def)
qed

text \<open>C20: a report has no errors iff the patch is structurally sound: both ends of every cable
  exist, its port indices are in bounds, and every parameter value is finite.  Cycles,
  role mismatches, missing adapters or silence never make a patch an error.
\<close>

theorem no_errors_iff_sound:
  "rp_errorCount (validatePatch snap) = 0 \<longleftrightarrow>
     list_all (connects (by_id snap)) (sn_cables snap) \<and> list_all params_finite (sn_modules snap)"
proof -
  have "rp_errorCount (validatePatch snap) = 0 \<longleftrightarrow>
      filter (\<lambda>f. fd_severity f = SevError) (all_findings snap) = []"
    by (simp add: validatePatch_def Let_def)
  also have "\<dots> \<longleftrightarrow> list_all (connects (by_id snap)) (sn_cables snap) \<and> list_all params_finite (sn_modules snap)"
    unfolding filter_errors append_is_Nil_conv scan_cables_def scan_errors filter_concat_Nil
    by (simp add: param_errors params_finite_def [abs_def])
  finally show ?thesis .
qed

text \<open>The two rules that compare cables by their port keys are exact on decimal ids: an
  input port is reported as stacked iff at least two resolving cables end at it, with those
  cables as the entities; and as many duplicates are reported as there are resolving cables
  beyond the distinct pairs of ports.
\<close>

theorem port_keys_exact:
  assumes "list_all ids_decimal (sn_cables snap)"
  shows "fd_entities ` set (filter (\<lambda>f. fd_ruleId f = ''inputs.stacked'') (rp_findings (validatePatch snap))) =
      {map (\<lambda>c. ECable (cb_cableId c)) l | l. \<exists>m p.
         l = filter (\<lambda>c. cb_inputModuleId c = m \<and> cb_inputId c = p) (filter (resolves (by_id snap)) (sn_cables snap)) \<and>
         1 < length l} \<and>
    length (filter (\<lambda>f. fd_ruleId f = ''cable.duplicate'') (rp_findings (validatePatch snap))) +
      card (endpoints ` set (filter (resolves (by_id snap)) (sn_cables snap))) =
      length (filter (resolves (by_id snap)) (sn_cables snap))"
proof
  let ?R = "filter (resolves (by_id snap)) (sn_cables snap)" and ?M = "sc_byInput (scan_cables snap)"
  have dec: "ids_decimal c" if "c \<in> set ?R" for c using that assms by (auto simp: list_all_iff)
  have ents: "fd_entities ` set (stacked_findings m e) =
      (if 1 < length (snd e) then {map (\<lambda>c. ECable (cb_cableId c)) (snd e)} else {})" for m e
    by (cases e) (simp add: stacked_findings_def split_beta Let_def)
  have M: "(k, l) \<in> set ?M \<longleftrightarrow> l \<noteq> [] \<and> l = filter (\<lambda>c. input_key c = k) ?R" for k l
    using scan_byInput [of snap k]
    by (auto simp: Let_def map_get_def map_ok_def split: if_splits dest: map_of_is_SomeI)
  have key: "filter (\<lambda>c. input_key c = input_key d) ?R =
      filter (\<lambda>c. cb_inputModuleId c = cb_inputModuleId d \<and> cb_inputId c = cb_inputId d) ?R" if "d \<in> set ?R" for d
    by (rule filter_cong) (use dec that in \<open>simp_all add: input_key_iff\<close>)
  have "fd_entities ` set (concat (map (stacked_findings (by_id snap)) ?M)) =
      {map (\<lambda>c. ECable (cb_cableId c)) l | l. \<exists>k. (k, l) \<in> set ?M \<and> 1 < length l}" 
    using ents by (auto simp: image_UN)
  also have "\<dots> = {map (\<lambda>c. ECable (cb_cableId c)) l | l. \<exists>m p.
         l = filter (\<lambda>c. cb_inputModuleId c = m \<and> cb_inputId c = p) ?R \<and> 1 < length l}"
  proof -
    have "(\<exists>k. (k, l) \<in> set ?M \<and> 1 < length l) \<longleftrightarrow>
      (\<exists>m p. l = filter (\<lambda>c. cb_inputModuleId c = m \<and> cb_inputId c = p) ?R \<and> 1 < length l)" for l
    proof
      assume "\<exists>k. (k, l) \<in> set ?M \<and> 1 < length l"
      then obtain k where l: "l \<noteq> []" "l = filter (\<lambda>c. input_key c = k) ?R" "1 < length l" using M by blast
      then obtain d where d: "d \<in> set l" using hd_in_set by blast
      then have dR: "d \<in> set ?R" and k: "k = input_key d" using l(2) by auto
      have "l = filter (\<lambda>c. cb_inputModuleId c = cb_inputModuleId d \<and> cb_inputId c = cb_inputId d) ?R"
        using key [OF dR] l(2) unfolding k by simp
      then show "\<exists>m p. l = filter (\<lambda>c. cb_inputModuleId c = m \<and> cb_inputId c = p) ?R \<and> 1 < length l"
        using l(3) by blast
    next
      assume "\<exists>m p. l = filter (\<lambda>c. cb_inputModuleId c = m \<and> cb_inputId c = p) ?R \<and> 1 < length l"
      then obtain m p where l: "l = filter (\<lambda>c. cb_inputModuleId c = m \<and> cb_inputId c = p) ?R" "1 < length l" by blast
      then have "l \<noteq> []" by auto
      then obtain d where d: "d \<in> set l" using hd_in_set by blast
      then have dR: "d \<in> set ?R" and mp: "m = cb_inputModuleId d" "p = cb_inputId d" using l(1) by auto
      have "l = filter (\<lambda>c. input_key c = input_key d) ?R" using key [OF dR] l(1) unfolding mp by simp
      moreover have "l \<noteq> []" using l(2) by auto
      ultimately show "\<exists>k. (k, l) \<in> set ?M \<and> 1 < length l" using M l(2) by blast
    qed
    then show ?thesis by simp
  qed
  finally show "fd_entities ` set (filter (\<lambda>f. fd_ruleId f = ''inputs.stacked'') (rp_findings (validatePatch snap))) =
      {map (\<lambda>c. ECable (cb_cableId c)) l | l. \<exists>m p.
         l = filter (\<lambda>c. cb_inputModuleId c = m \<and> cb_inputId c = p) ?R \<and> 1 < length l}"
    by (simp only: validatePatch_def Let_def report.simps filter_rule_groups)
  have "card (cable_key ` set ?R) = card (endpoints ` set ?R)"
  proof (rule bij_betw_same_card [of "\<lambda>k. endpoints (SOME c. c \<in> set ?R \<and> cable_key c = k)"])
    have some: "endpoints (SOME c. c \<in> set ?R \<and> cable_key c = cable_key d) = endpoints d" if "d \<in> set ?R" for d
    proof -
      have "\<exists>c. c \<in> set ?R \<and> cable_key c = cable_key d" using that by blast
      from someI_ex [OF this] show ?thesis using cable_key_iff [OF dec dec [OF that]] by blast
    qed
    show "bij_betw (\<lambda>k. endpoints (SOME c. c \<in> set ?R \<and> cable_key c = k)) (cable_key ` set ?R) (endpoints ` set ?R)"
      unfolding bij_betw_def inj_on_def image_image
      using some cable_key_iff [OF dec dec] by (auto simp: image_iff)
  qed
  moreover have "length (sc_seen (scan_cables snap)) = card (cable_key ` set ?R)"
    using scan_seen [of snap] distinct_card by metis
  ultimately show "length (filter (\<lambda>f. fd_ruleId f = ''cable.duplicate'') (rp_findings (validatePatch snap))) +
      card (endpoints ` set ?R) = length ?R"
    using scan_seen [of snap]
    by (simp only: validatePatch_def Let_def report.simps filter_rule_groups)
qed

lemma port_keys_exact_witness:
  "length (filter (\<lambda>f. fd_ruleId f = ''cable.duplicate'') (rp_findings (validatePatch demo_patch))) +
      card (endpoints ` set (filter (resolves (by_id demo_patch)) (sn_cables demo_patch))) =
      length (filter (resolves (by_id demo_patch)) (sn_cables demo_patch))"
proof -
  have "list_all ids_decimal (sn_cables demo_patch)"
    by (simp add: demo_patch_def demo_cable_def ids_decimal_def DecimalId_ok_def digit_def)
  from conjunct2 [OF port_keys_exact [OF this]] show ?thesis .
qed

text \<open>C21: \<open>bypass.interrupts_path\<close> is reported once for each bypassed module that has a cable in
  and a cable out and whose output reaches an audio destination, in module order, and for
  no other module.
\<close>

theorem bypass_reported_exactly:
  "map fd_entities (filter (\<lambda>f. fd_ruleId f = ''bypass.interrupts_path'') (rp_findings (validatePatch snap))) =
     map (\<lambda>m. [EModule (ms_moduleId m)]) (filter (\<lambda>m. ms_bypassed m \<and>
       (\<exists>d. d \<in> set (sn_modules snap) \<and> isAudioDestination d \<and> (ms_moduleId m, ms_moduleId d) \<in> flows snap) \<and>
       list_ex po_connected (ms_inputs m) \<and> list_ex po_connected (ms_outputs m)) (sn_modules snap))"
proof -
  let ?f = "modulesFeedingDestinations snap"
  have "map fd_entities (concat (map (bypass_findings ?f) ms)) =
      map (\<lambda>m. [EModule (ms_moduleId m)]) (filter (interrupts ?f) ms)" for ms
    by (induction ms) (simp_all add: bypass_findings_def)
  then show ?thesis
    by (simp add: validatePatch_def Let_def filter_rule_groups interrupts_def [abs_def] feeds_exact)
qed

text \<open>Feedback is reported, as information only, iff the cables of the patch close a
  directed cycle, and the report counts the modules that lie on one.
\<close>

theorem feedback_reported_iff_cycle:
  "(cycle_findings snap \<noteq> [] \<longleftrightarrow>
     (\<exists>x. (x, x) \<in> (cable_steps (module_ids snap) (sn_cables snap))\<^sup>+) \<or>
     (\<exists>c. c \<in> set (sn_cables snap) \<and> cb_outputModuleId c = cb_inputModuleId c)) \<and>
   filter (\<lambda>f. fd_ruleId f = ''cycle.feedback'') (rp_findings (validatePatch snap)) = cycle_findings snap \<and>
   fd_severity ` set (cycle_findings snap) \<subseteq> {SevInfo}"
proof -
  have "cycle_findings snap \<noteq> [] \<longleftrightarrow> set (the (modulesInCycles (module_ids snap) (sn_cables snap))) \<noteq> {}"
    by (simp add: cycle_findings_def Let_def)
  also have "\<dots> \<longleftrightarrow> (\<exists>x. (x, x) \<in> (cable_steps (module_ids snap) (sn_cables snap))\<^sup>+) \<or>
     (\<exists>c. c \<in> set (sn_cables snap) \<and> cb_outputModuleId c = cb_inputModuleId c)"
    unfolding set_modulesInCycles by auto
  finally have 1: "cycle_findings snap \<noteq> [] \<longleftrightarrow>
     (\<exists>x. (x, x) \<in> (cable_steps (module_ids snap) (sn_cables snap))\<^sup>+) \<or>
     (\<exists>c. c \<in> set (sn_cables snap) \<and> cb_outputModuleId c = cb_inputModuleId c)" .
  have "fd_severity ` set (cycle_findings snap) \<subseteq> {SevInfo}"
    using levels_cycle [of snap] by (force simp: level_def)
  then show ?thesis using 1 by (simp only: validatePatch_def Let_def report.simps filter_rule_groups simp_thms)
qed

definition silent_audio :: "nat \<Rightarrow> snapshot" where
  "silent_audio n = \<lparr>sn_modules = map (\<lambda>i. \<lparr>ms_moduleId = nat_str i, ms_modelName = ''Audio'',
     ms_modelSlug = ''AudioInterface2'', ms_pluginSlug = ''Core'', ms_bypassed = False, ms_isBridge = False,
     ms_isProbe = False, ms_params = [], ms_inputs = [], ms_outputs = [], ms_gridPosition = None,
     ms_gridWidth = None, ms_expanders = None\<rparr>) [0..<n], sn_cables = [], sn_bridgeModuleCount = 1, sn_patchEpoch = 1\<rparr>"

lemma audio_slug: "str_includes (to_lower ''AudioInterface2'') ''audio''"
  by code_simp

definition capped :: "finding \<Rightarrow> bool" where
  "capped f = (fd_ruleId f = ''inputs.stacked'' \<or> fd_ruleId f = ''audio.no_input'' \<or> length (fd_entities f) \<le> 64)"

lemma capped_add: "length es \<le> 64 \<Longrightarrow> capped (add r sv cf ex es ev rep)"
  by (simp add: capped_def)

lemma capped_stacked: "capped (add ''inputs.stacked'' sv cf ex es ev rep)" "capped (add ''audio.no_input'' sv cf ex es ev rep)"
  by (simp_all add: capped_def)

lemma capped_scan: "list_all capped (sc_findings (scan_cables snap))"
proof -
  have "list_all capped (sc_findings (foldl (scan_cable m) s cs))" if "list_all capped (sc_findings s)" for m s cs
    using that
  proof (induction cs arbitrary: s)
    case (Cons c cs)
    have "list_all capped (sc_findings (scan_cable m s c))"
      using Cons.prems by (simp add: scan_cable_def bounds_findings_def bounds_finding_def dangling_finding_def
          duplicate_finding_def capped_add split: option.split)
    then show ?case using Cons.IH by simp
  qed simp
  from this [of "\<lparr>sc_findings = [], sc_seen = [], sc_byInput = []\<rparr>"] show ?thesis by (simp add: scan_cables_def)
qed

lemma capped_collision: "list_all capped (collision_findings snap)"
proof -
  have "list_all capped (fst (foldl scan_position s ms))" if "list_all capped (fst s)" for s ms
    using that
  proof (induction ms arbitrary: s)
    case (Cons m ms)
    have "list_all capped (fst (scan_position s m))"
      using Cons.prems by (simp add: scan_position_def capped_add split: option.split)
    then show ?case using Cons.IH by simp
  qed simp
  from this [of "([], [])"] show ?thesis by (simp add: collision_findings_def)
qed

lemma list_all_concat_map: "(\<And>x. list_all P (f x)) \<Longrightarrow> list_all P (concat (map f xs))"
  by (induction xs) simp_all

lemma capped_cable_advice:
  "list_all capped (cross_findings a b c)" "list_all capped (confusion_findings a b c)" "list_all capped (mono_findings a b c)"
  by (simp_all add: cross_findings_def confusion_findings_def mono_findings_def Let_def capped_add split: option.split)
    (simp add: capped_def)

lemma capped_all: "list_all capped (all_findings snap)"
proof -
  have "list_all capped (concat (map (adapter_findings m) cs))" for m cs
    by (intro list_all_concat_map) (simp add: adapter_findings_def capped_cable_advice split: option.split)
  moreover have "list_all capped (concat (map (stacked_findings m) es))" for m es
    by (intro list_all_concat_map) (simp add: stacked_findings_def capped_stacked Let_def split_beta)
  moreover have "list_all capped (concat (map (expander_findings m) ms))" for m ms
    by (intro list_all_concat_map) (simp add: expander_findings_def capped_add Let_def split: option.split)
  moreover have "list_all capped (concat (map (\<lambda>m. concat (map (param_findings m) (ms_params m))) ms))" for ms
    by (intro list_all_concat_map) (simp add: param_findings_def capped_add Let_def split: option.split prod.split)
  moreover have "list_all capped (concat (map (bypass_findings fs) ms))" for fs ms
    by (intro list_all_concat_map) (simp add: bypass_findings_def capped_add)
  moreover have "list_all capped (bridge_findings snap)" "list_all capped (cycle_findings snap)"
    "list_all capped (unadapted_findings snap)" "list_all capped (silence_findings snap)"
    by (simp_all add: bridge_findings_def cycle_findings_def unadapted_findings_def silence_findings_def Let_def
        capped_add capped_stacked)
  ultimately show ?thesis
    unfolding all_findings_def Let_def list_all_append by (intro conjI capped_scan capped_collision)
qed

lemma silent_audio_finding:
  assumes "0 < n"
  shows "length (fd_entities (hd (silence_findings (silent_audio n)))) = n \<and>
    set (silence_findings (silent_audio n)) \<subseteq> set (rp_findings (validatePatch (silent_audio n))) \<and>
    silence_findings (silent_audio n) \<noteq> []"
proof -
  have "isAudioDestination m" if "m \<in> set (sn_modules (silent_audio n))" for m
    using that audio_slug by (auto simp: silent_audio_def isAudioDestination_def)
  then have "filter isAudioDestination (sn_modules (silent_audio n)) = sn_modules (silent_audio n)"
    by (simp add: filter_id_conv)
  moreover have "length (sn_modules (silent_audio n)) = n" "\<not> list_ex (\<lambda>m. list_ex po_connected (ms_inputs m)) (sn_modules (silent_audio n))"
    by (simp_all add: silent_audio_def list_ex_iff)
  moreover have "sn_modules (silent_audio n) \<noteq> []" using assms by (simp add: silent_audio_def)
  ultimately show ?thesis using assms
    by (simp add: silence_findings_def Let_def validatePatch_def all_findings_def)
qed

text \<open>The published cap of 64 entities per finding holds for every rule but
  \<open>inputs.stacked\<close> and \<open>audio.no_input\<close>, which do not cut their lists: a patch with 65
  unconnected audio modules yields a finding that violates the schema.
\<close>

theorem entity_cap:
  "list_all (\<lambda>f. fd_ruleId f = ''inputs.stacked'' \<or> fd_ruleId f = ''audio.no_input'' \<or> length (fd_entities f) \<le> 64)
     (rp_findings (validatePatch snap)) \<and>
   \<not> list_all (\<lambda>f. length (fd_entities f) \<le> 64) (rp_findings (validatePatch (silent_audio 65)))"
proof
  show "list_all (\<lambda>f. fd_ruleId f = ''inputs.stacked'' \<or> fd_ruleId f = ''audio.no_input'' \<or> length (fd_entities f) \<le> 64)
     (rp_findings (validatePatch snap))"
    using capped_all [of snap] by (simp add: capped_def [abs_def] validatePatch_def Let_def)
  let ?f = "hd (silence_findings (silent_audio 65))"
  have "?f \<in> set (rp_findings (validatePatch (silent_audio 65)))" "length (fd_entities ?f) = 65"
    using silent_audio_finding [of 65] hd_in_set by auto
  then show "\<not> list_all (\<lambda>f. length (fd_entities f) \<le> 64) (rp_findings (validatePatch (silent_audio 65)))"
    by (force simp: list_all_iff)
qed

end
