(* ===== verification/Paths.thy ===== *)
theory Paths
  imports Errors Json "HOL-Library.Sublist"
begin

text \<open>
  The patch-path policy (\<open>apps/mcp-server/src/paths.ts\<close>) on POSIX.  A path is the list of
  its components; the file system is a map from component lists to directories, files with
  a size, and symbolic links, on which the calls of \<open>node:fs\<close> and \<open>node:path\<close> that the
  policy uses are defined.  A system error that leaves the policy is a \<open>PlainErr\<close>.
\<close>

section \<open>The file system\<close>

type_synonym fspath = "string list"

datatype node = DirNode | FileNode nat | LinkNode string

type_synonym fs = "fspath \<Rightarrow> node option"

datatype os_error = ENOENT | ELOOP | ENOTDIR | EEXIST | OTHER string

definition node_at :: "fs \<Rightarrow> fspath \<Rightarrow> node option" where
  "node_at fs p = (if p = [] then Some DirNode else fs p)"

definition SYMLOOP_MAX :: nat where
  "SYMLOOP_MAX = 40"

abbreviation slash :: char where
  "slash \<equiv> CHR 0x2F"

fun split_on :: "char \<Rightarrow> string \<Rightarrow> string list" where
  "split_on c [] = [[]]"
| "split_on c (x # xs) = (if x = c then [] # split_on c xs
     else (case split_on c xs of [] \<Rightarrow> [[x]] | w # wds \<Rightarrow> (x # w) # wds))"

definition is_absolute :: "string \<Rightarrow> bool" where
  "is_absolute p = (case p of [] \<Rightarrow> False | x # xs \<Rightarrow> x = slash)"

text \<open>Walking a path from a canonical directory, following links.\<close>

function walk :: "fs \<Rightarrow> nat \<Rightarrow> fspath \<Rightarrow> string list \<Rightarrow> os_error + fspath" where
  "walk fs h cur [] = Inr cur"
| "walk fs h cur (c # r) =
     (if c = [] \<or> c = ''.'' then walk fs h cur r
      else if c = ''..'' then walk fs h (butlast cur) r
      else (case node_at fs (cur @ [c]) of
          None \<Rightarrow> Inl ENOENT
        | Some DirNode \<Rightarrow> walk fs h (cur @ [c]) r
        | Some (FileNode n) \<Rightarrow> (if r = [] then Inr (cur @ [c]) else Inl ENOTDIR)
        | Some (LinkNode t) \<Rightarrow> (case h of 0 \<Rightarrow> Inl ELOOP
            | Suc h' \<Rightarrow> walk fs h' (if is_absolute t then [] else cur) (split_on slash t @ r))))"
  by pat_completeness auto
termination by (relation "measures [\<lambda>(fs, h, cur, r). h, \<lambda>(fs, h, cur, r). length r]") auto

definition realpath :: "fs \<Rightarrow> fspath \<Rightarrow> os_error + fspath" where
  "realpath fs p = walk fs SYMLOOP_MAX [] p"

definition stat_node :: "fs \<Rightarrow> fspath \<Rightarrow> node option" where
  "stat_node fs p = (case realpath fs p of Inl e \<Rightarrow> None | Inr q \<Rightarrow> node_at fs q)"

definition existsSync :: "fs \<Rightarrow> fspath \<Rightarrow> bool" where
  "existsSync fs p = (stat_node fs p \<noteq> None)"

text \<open>\<open>lstatSync\<close>: the last component is not followed.\<close>

definition lstat_node :: "fs \<Rightarrow> fspath \<Rightarrow> node option" where
  "lstat_node fs p = (if p = [] then Some DirNode else
     (case realpath fs (butlast p) of Inl e \<Rightarrow> None | Inr d \<Rightarrow> node_at fs (d @ [last p])))"

text \<open>\<open>mkdirSync\<close> with \<open>recursive\<close>.\<close>

function mkdirs :: "fs \<Rightarrow> fspath \<Rightarrow> os_error + fs" where
  "mkdirs fs p = (case realpath fs p of
     Inr q \<Rightarrow> (if node_at fs q = Some DirNode then Inr fs else Inl EEXIST)
   | Inl e \<Rightarrow>
      if e \<noteq> ENOENT \<or> p = [] then Inl e
      else (case mkdirs fs (butlast p) of Inl e' \<Rightarrow> Inl e'
        | Inr fs' \<Rightarrow> (case realpath fs' p of Inr q \<Rightarrow> Inr fs'
            | Inl _ \<Rightarrow> (case realpath fs' (butlast p) of Inl e' \<Rightarrow> Inl e'
              | Inr d \<Rightarrow> (if node_at fs' d \<noteq> Some DirNode then Inl ENOTDIR
                  else if node_at fs' (d @ [last p]) = None
                  then Inr (fs'(d @ [last p] \<mapsto> DirNode)) else Inl EEXIST)))))"
  by pat_completeness auto
termination by (relation "measure (\<lambda>(fs, p). length p)") auto

declare mkdirs.simps [simp del]

section \<open>Lexical paths\<close>

fun norm_comps :: "fspath \<Rightarrow> string list \<Rightarrow> fspath" where
  "norm_comps acc [] = acc"
| "norm_comps acc (c # cs) =
     (if c = [] \<or> c = ''.'' then norm_comps acc cs
      else if c = ''..'' then norm_comps (butlast acc) cs
      else norm_comps (acc @ [c]) cs)"

text \<open>\<open>resolve(base, p)\<close>.\<close>

definition resolve_path :: "fspath \<Rightarrow> string \<Rightarrow> fspath" where
  "resolve_path base p = norm_comps (if is_absolute p then [] else base) (split_on slash p)"

text \<open>The components the operating system walks for a path string.\<close>

definition os_path :: "fspath \<Rightarrow> string \<Rightarrow> fspath" where
  "os_path cwd p = (if is_absolute p then [] else cwd) @ split_on slash p"

definition path_str :: "fspath \<Rightarrow> string" where
  "path_str p = (if p = [] then [slash] else concat (map (\<lambda>c. slash # c) p))"

section \<open>Name checks\<close>

text \<open>The model is the POSIX build.\<close>

definition IS_WINDOWS :: bool where
  "IS_WINDOWS = False"

definition letter :: "char \<Rightarrow> bool" where
  "letter c = (let n = of_char (char_lower c) :: nat in 97 \<le> n \<and> n \<le> 122)"

text \<open>\<open>/^[a-z][a-z0-9+.-]+:\/\//i\<close> or \<open>/^file:/i\<close>\<close>

definition scheme_char :: "char \<Rightarrow> bool" where
  "scheme_char c = (letter c \<or> digit c \<or> c \<in> {CHR ''+'', CHR ''.'', CHR ''-''})"

definition isUrl :: "string \<Rightarrow> bool" where
  "isUrl p =
     ((case p of [] \<Rightarrow> False | x # xs \<Rightarrow> letter x \<and>
        takeWhile scheme_char xs \<noteq> [] \<and> starts_with (dropWhile scheme_char xs) (CHR '':'' # [slash, slash])) \<or>
      starts_with (to_lower p) ''file:'')"

text \<open>\<open>isReservedWindowsName\<close>, consulted on Windows only.\<close>

definition isReservedWindowsName :: "string \<Rightarrow> bool" where
  "isReservedWindowsName name =
     (let stem = to_lower (takeWhile (\<lambda>c. c \<noteq> CHR ''.'') name);
        rest = dropWhile (\<lambda>c. c \<noteq> CHR ''.'') name in
      (stem \<in> {''con'', ''prn'', ''aux'', ''nul''} \<or>
       length stem = 4 \<and> (take 3 stem = ''com'' \<or> take 3 stem = ''lpt'') \<and> digit (stem ! 3) \<and> stem ! 3 \<noteq> CHR ''0'') \<and>
       CHR 0x0A \<notin> set rest \<and> CHR 0x0D \<notin> set rest \<or>
      (name \<noteq> [] \<and> last name \<in> {CHR ''.'', CHR '' ''}))"

section \<open>Canonical paths\<close>

definition MAX_LINK_HOPS :: nat where
  "MAX_LINK_HOPS = 32"

definition not_allowed :: "string \<Rightarrow> exn" where
  "not_allowed m = tool_error PATH_NOT_ALLOWED m"

function canonicalAllowingMissing :: "fs \<Rightarrow> fspath \<Rightarrow> nat \<Rightarrow> exn + fspath" where
  "canonicalAllowingMissing fs p hops = (case realpath fs p of
     Inr q \<Rightarrow> Inr q
   | Inl e \<Rightarrow>
      if e \<noteq> ENOENT \<or> p = [] then Inl (not_allowed ''path could not be resolved'')
      else (case canonicalAllowingMissing fs (butlast p) hops of Inl x \<Rightarrow> Inl x
        | Inr parent \<Rightarrow>
           let child = parent @ [last p] in
           (case lstat_node fs child of
              Some (LinkNode target) \<Rightarrow>
                if hops \<ge> MAX_LINK_HOPS then Inl (not_allowed ''path could not be resolved'')
                else canonicalAllowingMissing fs (resolve_path parent target) (Suc hops)
            | _ \<Rightarrow> Inr child)))"
  by pat_completeness auto
termination
  by (relation "measures [\<lambda>(fs, p, hops). MAX_LINK_HOPS - hops, \<lambda>(fs, p, hops). length p]") auto

declare canonicalAllowingMissing.simps [simp del]

definition os_code :: "os_error \<Rightarrow> string" where
  "os_code e = (case e of ENOENT \<Rightarrow> ''ENOENT'' | ELOOP \<Rightarrow> ''ELOOP'' | ENOTDIR \<Rightarrow> ''ENOTDIR''
     | EEXIST \<Rightarrow> ''EEXIST'' | OTHER c \<Rightarrow> c)"

definition canonicalDir :: "fspath \<Rightarrow> string \<Rightarrow> fs \<Rightarrow> (exn + fspath) \<times> fs" where
  "canonicalDir cwd dir fs = (case mkdirs fs (os_path cwd dir) of
     Inl e \<Rightarrow> (Inl (PlainErr (os_code e)), fs)
   | Inr fs' \<Rightarrow> (case realpath fs' (os_path cwd dir) of
       Inl e \<Rightarrow> (Inl (PlainErr (os_code e)), fs') | Inr q \<Rightarrow> (Inr q, fs')))"

definition canonicalRoot :: "fspath \<Rightarrow> string \<Rightarrow> fs \<Rightarrow> string" where
  "canonicalRoot cwd dir fs = (case realpath fs (os_path cwd dir) of Inl e \<Rightarrow> dir | Inr q \<Rightarrow> path_str q)"

text \<open>Root containment with a separator boundary.\<close>

definition path_within :: "string \<Rightarrow> string \<Rightarrow> bool \<Rightarrow> bool" where
  "path_within base target caseInsensitive =
     (let fold = (if caseInsensitive then to_lower else (\<lambda>s. s));
        r = fold (if ends_with base [slash] then base else base @ [slash]); t = fold target in
      t = fold base \<or> starts_with t r)"

section \<open>resolvePatchPath\<close>

datatype patch_root = Patches | Checkpoints

record roots =
  patchesDir :: string
  checkpointsDir :: string
  working_dir :: fspath

record resolved_path =
  rp_absolute :: fspath
  rp_root :: patch_root
  rp_exists :: bool

definition regular :: "node option \<Rightarrow> bool" where
  "regular st = (case st of Some (FileNode n) \<Rightarrow> True | _ \<Rightarrow> False)"

definition resolvePatchPath :: "roots \<Rightarrow> string \<Rightarrow> bool \<Rightarrow> (exn, fs, resolved_path) prog" where
  "resolvePatchPath cfg requested mustExist =
     andthen (guard (requested \<noteq> [] \<and> \<not> isUrl requested)
        (not_allowed ''path must be a local filesystem path, not a URL'')) (
     andthen (guard (CHR 0x00 \<notin> set requested) (not_allowed ''path contains a null byte'')) (
     andthen (guard (ends_with (to_lower requested) ''.vcv'') (not_allowed ''only .vcv patch files are permitted'')) (
     andthen (guard (\<not> (IS_WINDOWS \<and> isReservedWindowsName (last (split_on slash requested))))
        (not_allowed ''file name is a reserved Windows device name or ends with a dot or space'')) (
     bind (canonicalDir (working_dir cfg) (patchesDir cfg)) (\<lambda>patchesRoot.
     bind (canonicalDir (working_dir cfg) (checkpointsDir cfg)) (\<lambda>checkpointsRoot.
     bind (\<lambda>fs. (canonicalAllowingMissing fs (resolve_path (working_dir cfg) requested) 0, fs)) (\<lambda>canonical.
     bind (gets (\<lambda>fs. existsSync fs canonical)) (\<lambda>exists.
     bind (gets (\<lambda>fs. stat_node fs canonical)) (\<lambda>st.
     andthen (guard (\<not> exists \<or> regular st) (not_allowed ''path is not a regular file'')) (
     bind (if path_within (path_str patchesRoot) (path_str canonical) IS_WINDOWS then ret Patches
       else if path_within (path_str checkpointsRoot) (path_str canonical) IS_WINDOWS then ret Checkpoints
       else throw (not_allowed ''path is outside the configured patch and checkpoint roots'')) (\<lambda>root.
     bind (gets (\<lambda>fs. existsSync fs (butlast canonical))) (\<lambda>parentExists.
     andthen (guard (exists \<or> parentExists) (not_allowed ''parent directory does not exist'')) (
     andthen (guard (\<not> mustExist \<or> exists) (not_allowed ''patch file does not exist'')) (
     andthen (guard (\<not> mustExist \<or> st \<noteq> Some (FileNode 0))
        (not_allowed ''patch file is empty, so it holds no patch to load; it is most likely a write that never completed'')) (
     ret \<lparr>rp_absolute = canonical, rp_root = root, rp_exists = exists\<rparr>)))))))))))))))"

section \<open>Checkpoint names\<close>

text \<open>\<open>new Date(ms).toISOString()\<close>: the proleptic Gregorian calendar from the day number.\<close>

definition civil :: "int \<Rightarrow> int \<times> int \<times> int" where
  "civil days = (let z = days + 719468; era = z div 146097; doe = z mod 146097;
     yoe = (doe - doe div 1460 + doe div 36524 - doe div 146096) div 365;
     doy = doe - (365 * yoe + yoe div 4 - yoe div 100); mp = (5 * doy + 2) div 153;
     d = doy - (153 * mp + 2) div 5 + 1; mo = (if mp < 10 then mp + 3 else mp - 9) in
     (yoe + era * 400 + (if mo \<le> 2 then 1 else 0), mo, d))"

definition pad :: "nat \<Rightarrow> int \<Rightarrow> string" where
  "pad k n = (let s = nat_str (nat n) in replicate (k - length s) (CHR ''0'') @ s)"

definition iso_year :: "int \<Rightarrow> string" where
  "iso_year y = (if 0 \<le> y \<and> y \<le> 9999 then pad 4 y else (if y < 0 then CHR ''-'' else CHR ''+'') # pad 6 \<bar>y\<bar>)"

definition toISOString :: "int \<Rightarrow> string" where
  "toISOString ms = (let days = ms div 86400000; t = ms mod 86400000; (y, mo, d) = civil days in
     iso_year y @ ''-'' @ pad 2 mo @ ''-'' @ pad 2 d @ ''T'' @ pad 2 (t div 3600000) @ '':'' @
     pad 2 (t div 60000 mod 60) @ '':'' @ pad 2 (t div 1000 mod 60) @ ''.'' @ pad 3 (t mod 1000) @ ''Z'')"

definition stamp_text :: "int \<Rightarrow> string" where
  "stamp_text ms = map (\<lambda>c. if c = CHR '':'' \<or> c = CHR ''.'' then CHR ''-'' else c) (toISOString ms)"

definition label_char :: "char \<Rightarrow> bool" where
  "label_char c = (letter c \<or> digit c \<or> c = CHR ''_'' \<or> c = CHR ''-'')"

definition safe_label :: "string option \<Rightarrow> string" where
  "safe_label l = take 40 (map (\<lambda>c. if label_char c then c else CHR ''_'')
     (case l of None \<Rightarrow> ''checkpoint'' | Some x \<Rightarrow> x))"

definition checkpoint_stem :: "string option \<Rightarrow> int \<Rightarrow> string" where
  "checkpoint_stem l ms = stamp_text ms @ ''_'' @ safe_label l"

definition checkpointPath :: "roots \<Rightarrow> string option \<Rightarrow> int \<Rightarrow> (exn, fs, fspath) prog" where
  "checkpointPath cfg l ms =
     bind (canonicalDir (working_dir cfg) (checkpointsDir cfg)) (\<lambda>base.
     ret (base @ [checkpoint_stem l ms @ ''.vcv'']))"

definition MAX_CHECKPOINT_ATTEMPTS :: nat where
  "MAX_CHECKPOINT_ATTEMPTS = 100"

definition candidate :: "fspath \<Rightarrow> nat \<Rightarrow> fspath" where
  "candidate base n = (if n = 1 then base
     else butlast base @ [take (length (last base) - 4) (last base) @ ''-'' @ nat_str n @ ''.vcv''])"

text \<open>
  \<open>openSync(p, "wx")\<close> succeeds only on a name that does not exist; \<open>deny\<close> is the error the
  system reports for any other reason (permissions, space).
\<close>

definition open_exclusive :: "(fspath \<Rightarrow> string option) \<Rightarrow> fspath \<Rightarrow> fs \<Rightarrow> os_error + fs" where
  "open_exclusive deny p fs = (if stat_node fs (butlast p) \<noteq> Some DirNode then Inl ENOTDIR else
     case lstat_node fs p of Some x \<Rightarrow> Inl EEXIST
     | None \<Rightarrow> (case deny p of Some c \<Rightarrow> Inl (OTHER c) | None \<Rightarrow> Inr (fs(p \<mapsto> FileNode 0))))"

fun reserve_loop :: "(fspath \<Rightarrow> string option) \<Rightarrow> fspath \<Rightarrow> nat \<Rightarrow> nat \<Rightarrow> (exn, fs, fspath) prog" where
  "reserve_loop deny base n 0 = throw (tool_error_retry INTERNAL
     (nat_str MAX_CHECKPOINT_ATTEMPTS @ '' checkpoints already exist for this label and millisecond; use a different label'') True)"
| "reserve_loop deny base n (Suc left) = (\<lambda>fs.
     (case open_exclusive deny (candidate base n) fs of
        Inr fs' \<Rightarrow> (Inr (candidate base n), fs')
      | Inl e \<Rightarrow> if e = EEXIST then reserve_loop deny base (Suc n) left fs
          else (Inl (tool_error_retry INTERNAL (''the checkpoint file could not be created ('' @ os_code e @
            ''); make the checkpoints directory writable with free space, then retry'') True), fs)))"

definition reserveCheckpointPath :: "(fspath \<Rightarrow> string option) \<Rightarrow> roots \<Rightarrow> string option \<Rightarrow> int \<Rightarrow>
  (exn, fs, fspath) prog" where
  "reserveCheckpointPath deny cfg l ms =
     bind (checkpointPath cfg l ms) (\<lambda>base. reserve_loop deny base 1 MAX_CHECKPOINT_ATTEMPTS)"

definition releaseCheckpointReservation :: "fspath \<Rightarrow> fs \<Rightarrow> fs" where
  "releaseCheckpointReservation p fs =
     (if stat_node fs p = Some (FileNode 0) then fs(p := None) else fs)"

section \<open>Canonical paths have no links\<close>

definition plain :: "string \<Rightarrow> bool" where
  "plain c = (c \<noteq> [] \<and> c \<noteq> ''.'' \<and> c \<noteq> ''..'' \<and> slash \<notin> set c)"

text \<open>No prefix of the path is a symbolic link: writing to it touches no other place.\<close>

definition no_links :: "fs \<Rightarrow> fspath \<Rightarrow> bool" where
  "no_links fs p = (\<forall>i t. node_at fs (take i p) \<noteq> Some (LinkNode t))"

text \<open>Whatever exists lies in a directory.\<close>

definition wf_fs :: "fs \<Rightarrow> bool" where
  "wf_fs fs = (\<forall>p c. fs (p @ [c]) \<noteq> None \<longrightarrow> node_at fs p = Some DirNode)"

lemma no_links_Nil [simp]: "no_links fs []"
  by (simp add: no_links_def node_at_def)

lemma no_links_snoc:
  "no_links fs (p @ [c]) \<longleftrightarrow> no_links fs p \<and> (\<forall>t. node_at fs (p @ [c]) \<noteq> Some (LinkNode t))"
proof
  assume a: "no_links fs (p @ [c])"
  have "node_at fs (take i p) \<noteq> Some (LinkNode t)" for i t
  proof -
    have "take (min i (length p)) (p @ [c]) = take i p" by (simp add: min_def)
    then show ?thesis using a unfolding no_links_def by metis
  qed
  moreover have "node_at fs (p @ [c]) \<noteq> Some (LinkNode t)" for t
    using a unfolding no_links_def by (metis order_refl take_all)
  ultimately show "no_links fs p \<and> (\<forall>t. node_at fs (p @ [c]) \<noteq> Some (LinkNode t))" by (simp add: no_links_def)
next
  assume a: "no_links fs p \<and> (\<forall>t. node_at fs (p @ [c]) \<noteq> Some (LinkNode t))"
  have "take i (p @ [c]) = take i p \<or> take i (p @ [c]) = p @ [c]" for i by (cases "i \<le> length p") auto
  then show "no_links fs (p @ [c])" using a unfolding no_links_def by metis
qed

lemma no_links_butlast: "no_links fs p \<Longrightarrow> no_links fs (butlast p)"
  by (cases p rule: rev_cases) (simp_all add: no_links_snoc)

lemma walk_no_links: "walk fs h cur r = Inr q \<Longrightarrow> no_links fs cur \<Longrightarrow> no_links fs q"
proof (induction fs h cur r arbitrary: q rule: walk.induct)
  case (2 fs h cur c r)
  then show ?case
    by (auto simp: no_links_snoc no_links_butlast split: if_splits option.splits node.splits nat.splits)
qed simp

lemma split_on_slash: "w \<in> set (split_on c s) \<Longrightarrow> c \<notin> set w"
  by (induction s arbitrary: w) (auto split: if_splits list.splits)

lemma plain_butlast: "list_all plain p \<Longrightarrow> list_all plain (butlast p)"
  by (auto simp: list_all_iff dest: in_set_butlastD)

lemma norm_plain:
  "list_all plain acc \<Longrightarrow> \<forall>c \<in> set cs. slash \<notin> set c \<Longrightarrow> list_all plain (norm_comps acc cs)"
  by (induction acc cs rule: norm_comps.induct) (auto simp: plain_butlast plain_def)

lemma resolve_plain: "list_all plain base \<Longrightarrow> list_all plain (resolve_path base p)"
  unfolding resolve_path_def by (rule norm_plain) (auto dest: split_on_slash)

lemma walk_plain:
  "walk fs h cur r = Inr q \<Longrightarrow> list_all plain cur \<Longrightarrow> \<forall>c \<in> set r. slash \<notin> set c \<Longrightarrow> list_all plain q"
proof (induction fs h cur r arbitrary: q rule: walk.induct)
  case (2 fs h cur c r)
  have slashes: "\<forall>d \<in> set (split_on slash t @ r). slash \<notin> set d" for t
    using 2(7) split_on_slash by auto
  show ?case
  proof (cases "c = [] \<or> c = ''.'' \<or> c = ''..''")
    case True
    then show ?thesis using 2 by (auto simp: plain_butlast split: if_splits)
  next
    case False
    then have "plain c" using 2(7) by (simp add: plain_def)
    then have cc: "list_all plain (cur @ [c])" using 2(6) by simp
    have cur': "list_all plain (if is_absolute t then [] else cur)" for t using 2(6) by simp
    show ?thesis
    proof (cases "node_at fs (cur @ [c])")
      case None
      then show ?thesis using 2(5) False by simp
    next
      case (Some x)
      show ?thesis
      proof (cases x)
        case DirNode
        then show ?thesis using 2(3) [of x q] 2(5,7) False Some cc by simp
      next
        case (FileNode n)
        then have "q = cur @ [c]" using 2(5) False Some by (simp split: if_splits)
        then show ?thesis using cc by simp
      next
        case (LinkNode t)
        show ?thesis
        proof (cases h)
          case 0
          then show ?thesis using 2(5) False Some LinkNode by simp
        next
          case (Suc h')
          have "walk fs h' (if is_absolute t then [] else cur) (split_on slash t @ r) = Inr q"
            using 2(5) False Some LinkNode Suc by simp
          then show ?thesis using 2(4) [of x t h' q] False Some LinkNode Suc cur' slashes by simp
        qed
      qed
    qed
  qed
qed simp

text \<open>On a path without links walking is trivial.\<close>

lemma walk_straight:
  "walk fs h cur r = Inr q \<Longrightarrow> no_links fs (cur @ r) \<Longrightarrow> list_all plain r \<Longrightarrow> q = cur @ r"
proof (induction r arbitrary: cur)
  case (Cons c r)
  have pl: "c \<noteq> []" "c \<noteq> ''.''" "c \<noteq> ''..''" using Cons.prems(3) by (auto simp: plain_def)
  have "take (Suc (length cur)) (cur @ c # r) = cur @ [c]" by simp
  then have nl: "node_at fs (cur @ [c]) \<noteq> Some (LinkNode t)" for t
    using Cons.prems(2) unfolding no_links_def by metis
  show ?case
  proof (cases "node_at fs (cur @ [c])")
    case (Some x)
    then show ?thesis
      using Cons.IH [of "cur @ [c]"] Cons.prems pl nl by (cases x) (auto split: if_splits)
  qed (use Cons.prems pl in simp)
qed simp

lemma wf_dir_prefix:
  assumes "wf_fs fs" and "node_at fs (p @ r) \<noteq> None" and "r \<noteq> []"
  shows "node_at fs p = Some DirNode"
  using assms(2,3)
proof (induction r rule: rev_induct)
  case (snoc c r)
  have "fs ((p @ r) @ [c]) \<noteq> None" using snoc.prems by (simp add: node_at_def)
  then have d: "node_at fs (p @ r) = Some DirNode" using assms(1) unfolding wf_fs_def by blast
  show ?case
  proof (cases "r = []")
    case True
    then show ?thesis using d by simp
  next
    case False
    then show ?thesis using snoc.IH d by simp
  qed
qed simp

lemma walk_existing:
  assumes "wf_fs fs" and "node_at fs (cur @ r) \<noteq> None" and "no_links fs (cur @ r)" and "list_all plain r"
  shows "walk fs h cur r = Inr (cur @ r)"
  using assms(2-4)
proof (induction r arbitrary: cur)
  case (Cons c r)
  have pl: "c \<noteq> []" "c \<noteq> ''.''" "c \<noteq> ''..''" using Cons.prems(3) by (auto simp: plain_def)
  have IH: "walk fs h (cur @ [c]) r = Inr (cur @ c # r)" using Cons.IH [of "cur @ [c]"] Cons.prems by simp
  show ?case
  proof (cases "r = []")
    case True
    have "node_at fs (cur @ [c]) \<noteq> Some (LinkNode t)" for t
      using Cons.prems(2) True by (simp add: no_links_snoc)
    then show ?thesis using Cons.prems(1) pl True
      by (cases "node_at fs (cur @ [c])") (auto split: node.split)
  next
    case False
    have "node_at fs (cur @ [c]) = Some DirNode"
      using wf_dir_prefix [OF assms(1), of "cur @ [c]" r] Cons.prems(1) False by simp
    then show ?thesis using IH pl by simp
  qed
qed simp

lemma stat_straight:
  assumes "wf_fs fs" and "no_links fs p" and "list_all plain p"
  shows "stat_node fs p = node_at fs p" "existsSync fs p = (node_at fs p \<noteq> None)"
    "realpath fs p = Inr q \<Longrightarrow> q = p \<and> node_at fs p \<noteq> None"
proof -
  show 1: "stat_node fs p = node_at fs p"
  proof (cases "node_at fs p")
    case None
    show ?thesis
    proof (cases "realpath fs p")
      case (Inr q)
      then have "q = p" using walk_straight [of fs SYMLOOP_MAX "[]" p q] assms by (simp add: realpath_def)
      then show ?thesis using Inr by (simp add: stat_node_def)
    qed (simp add: stat_node_def None)
  next
    case (Some x)
    then show ?thesis using walk_existing [OF assms(1), of "[]" p] assms by (simp add: stat_node_def realpath_def)
  qed
  show "existsSync fs p = (node_at fs p \<noteq> None)" by (simp add: existsSync_def 1)
  assume r: "realpath fs p = Inr q"
  then have q: "q = p" using walk_straight [of fs SYMLOOP_MAX "[]" p q] assms by (simp add: realpath_def)
  have "walk fs h cur rs = Inr q \<Longrightarrow> node_at fs cur \<noteq> None \<Longrightarrow> wf_fs fs \<Longrightarrow> node_at fs q \<noteq> None" for h cur rs
  proof (induction fs h cur rs rule: walk.induct)
    case (2 fs h cur c rs)
    have "node_at fs (butlast cur) \<noteq> None"
      using wf_dir_prefix [OF 2(7), of "butlast cur" "[last cur]"] 2(6)
      by (cases "cur = []") auto
    then show ?case using 2
      by (auto split: if_splits option.splits node.splits nat.splits simp: node_at_def [of _ "[]"])
  qed simp
  then show "q = p \<and> node_at fs p \<noteq> None"
    using r q assms(1) by (auto simp: realpath_def node_at_def [of _ "[]"])
qed

lemma lstat_straight:
  assumes "wf_fs fs" and "no_links fs p" and "list_all plain p"
  shows "lstat_node fs (p @ [c]) = node_at fs (p @ [c])"
proof (cases "realpath fs p")
  case (Inl e)
  have "node_at fs p = None"
    using walk_existing [OF assms(1), of "[]" p] assms Inl by (cases "node_at fs p") (auto simp: realpath_def)
  then have "node_at fs (p @ [c]) = None"
    using wf_dir_prefix [OF assms(1), of p "[c]"] by (cases "node_at fs (p @ [c])") auto
  then show ?thesis by (simp add: lstat_node_def Inl)
next
  case (Inr q)
  then show ?thesis using stat_straight(3) [OF assms Inr] by (simp add: lstat_node_def)
qed

lemma canonical_safe:
  "canonicalAllowingMissing fs p hops = Inr q \<Longrightarrow> wf_fs fs \<Longrightarrow> list_all plain p \<Longrightarrow>
     no_links fs q \<and> list_all plain q"
proof (induction fs p hops arbitrary: q rule: canonicalAllowingMissing.induct)
  case (1 fs p hops)
  show ?case
  proof (cases "realpath fs p")
    case (Inr c)
    then have "q = c" using 1(3) by (simp add: canonicalAllowingMissing.simps [of fs p])
    then show ?thesis
      using Inr walk_no_links [of fs SYMLOOP_MAX "[]" p c] walk_plain [of fs SYMLOOP_MAX "[]" p c] 1(5)
      by (auto simp: realpath_def list_all_iff plain_def)
  next
    case (Inl e)
    then have e: "e = ENOENT" "p \<noteq> []" using 1(3) by (auto simp: canonicalAllowingMissing.simps [of fs p] split: if_splits)
    then obtain parent where pa: "canonicalAllowingMissing fs (butlast p) hops = Inr parent"
      using 1(3) Inl by (cases "canonicalAllowingMissing fs (butlast p) hops") (auto simp: canonicalAllowingMissing.simps [of fs p])
    have ok: "no_links fs parent \<and> list_all plain parent"
      using 1(1) [OF Inl _ pa] e 1(4,5) by (simp add: plain_butlast)
    let ?c = "parent @ [last p]"
    have lp: "plain (last p)" using 1(5) e(2) by (simp add: list_all_iff)
    have ls: "lstat_node fs ?c = node_at fs ?c" using lstat_straight 1(4) ok by blast
    show ?thesis
    proof (cases "\<exists>t. lstat_node fs ?c = Some (LinkNode t)")
      case True
      then obtain t where t: "lstat_node fs ?c = Some (LinkNode t)" by blast
      then have h: "\<not> MAX_LINK_HOPS \<le> hops" and r: "canonicalAllowingMissing fs (resolve_path parent t) (Suc hops) = Inr q"
        using 1(3) Inl e pa by (auto simp: canonicalAllowingMissing.simps [of fs p] Let_def split: if_splits)
      show ?thesis by (rule 1(2) [OF Inl _ pa refl t refl h r 1(4)]) (use e ok in \<open>simp_all add: resolve_plain\<close>)
    next
      case False
      then have "q = ?c"
        using 1(3) Inl e pa by (auto simp: canonicalAllowingMissing.simps [of fs p] Let_def split: if_splits option.splits node.splits)
      then show ?thesis using ok lp False ls by (simp add: no_links_snoc)
    qed
  qed
qed

section \<open>Containment\<close>

lemma path_str_concat: "p \<noteq> [] \<Longrightarrow> path_str p = concat (map (\<lambda>c. slash # c) p)"
  by (simp add: path_str_def)

lemma component_split:
  assumes "slash \<notin> set c" "slash \<notin> set c'" and "c @ u = c' @ v"
    and "u = [] \<or> hd u = slash" and "v = [] \<or> hd v = slash"
  shows "c = c' \<and> u = v"
proof -
  have "takeWhile (\<lambda>x. x \<noteq> slash) (d @ w) = d" if "slash \<notin> set d" "w = [] \<or> hd w = slash" for d w :: string
  proof -
    have "takeWhile (\<lambda>x. x \<noteq> slash) (d @ w) = d @ takeWhile (\<lambda>x. x \<noteq> slash) w"
      using that(1) by (intro takeWhile_append2) auto
    moreover have "takeWhile (\<lambda>x. x \<noteq> slash) w = []" using that(2) by (cases w) auto
    ultimately show ?thesis by simp
  qed
  then have "c = c'" using assms by metis
  then show ?thesis using assms(3) by simp
qed

lemma hd_concat: "concat (map (\<lambda>c. slash # c) p) = [] \<or> hd (concat (map (\<lambda>c. slash # c) p)) = slash"
  by (cases p) auto

lemma concat_prefix:
  "list_all plain a \<Longrightarrow> list_all plain b \<Longrightarrow>
     concat (map (\<lambda>c. slash # c) b) = concat (map (\<lambda>c. slash # c) a) @ slash # y \<Longrightarrow> prefix a b"
proof (induction a arbitrary: b)
  case (Cons c a)
  then obtain c' b' where b: "b = c' # b'" by (cases b) auto
  have e: "c' @ concat (map (\<lambda>c. slash # c) b') = c @ (concat (map (\<lambda>c. slash # c) a) @ slash # y)"
    using Cons.prems(3) b by simp
  have "hd (concat (map (\<lambda>c. slash # c) a) @ slash # y) = slash" by (cases a) auto
  then have "c' = c \<and> concat (map (\<lambda>c. slash # c) b') = concat (map (\<lambda>c. slash # c) a) @ slash # y"
    using component_split [OF _ _ e hd_concat] Cons.prems b by (auto simp: plain_def)
  then show ?case using Cons.IH [of b'] Cons.prems b by simp
qed simp

lemma concat_inj:
  "list_all plain a \<Longrightarrow> list_all plain b \<Longrightarrow>
     concat (map (\<lambda>c. slash # c) b) = concat (map (\<lambda>c. slash # c) a) \<Longrightarrow> a = b"
proof (induction a arbitrary: b)
  case Nil
  then show ?case by (cases b) auto
next
  case (Cons c a)
  then obtain c' b' where b: "b = c' # b'" by (cases b) auto
  have e: "c' @ concat (map (\<lambda>c. slash # c) b') = c @ concat (map (\<lambda>c. slash # c) a)"
    using Cons.prems(3) b by simp
  have "c' = c \<and> concat (map (\<lambda>c. slash # c) b') = concat (map (\<lambda>c. slash # c) a)"
    using component_split [OF _ _ e hd_concat hd_concat] Cons.prems b by (auto simp: plain_def)
  then show ?case using Cons.IH [of b'] Cons.prems b by simp
qed

lemma path_str_slash: "list_all plain p \<Longrightarrow> ends_with (path_str p) [slash] \<longleftrightarrow> p = []"
proof (cases p rule: rev_cases)
  case Nil
  then show ?thesis by (simp add: path_str_def ends_with_def)
next
  case (snoc q c)
  assume pl: "list_all plain p"
  have c: "c \<noteq> []" "slash \<notin> set c" using pl snoc by (auto simp: plain_def)
  then have "last c \<noteq> slash" using last_in_set by metis
  then have "last (path_str p) \<noteq> slash" using snoc c by (auto simp: path_str_def last_append)
  moreover have "ends_with (path_str p) [slash] \<Longrightarrow> last (path_str p) = slash" by (auto simp: ends_with_iff)
  ultimately show ?thesis using snoc by auto
qed

lemma path_within_prefix:
  assumes "list_all plain a" "list_all plain b"
  shows "path_within (path_str a) (path_str b) False \<longleftrightarrow> prefix a b"
proof
  assume w: "path_within (path_str a) (path_str b) False"
  show "prefix a b"
  proof (cases "a = []")
    case False
    have "\<not> ends_with (path_str a) [slash]" using path_str_slash [OF assms(1)] False by simp
    then consider "path_str b = path_str a" | y where "path_str b = path_str a @ slash # y"
      using w by (auto simp: path_within_def Let_def starts_with_iff)
    then show ?thesis
    proof cases
      case 1
      have "b \<noteq> []"
      proof
        assume "b = []"
        then have "ends_with (path_str a) [slash]" using 1 by (simp add: path_str_def ends_with_def)
        then show False using path_str_slash [OF assms(1)] False by simp
      qed
      then show ?thesis using concat_inj [OF assms] False 1 by (simp add: path_str_def)
    next
      case 2
      have "b \<noteq> []" using 2 False by (cases a) (auto simp: path_str_def)
      then show ?thesis using concat_prefix [OF assms, of y] 2 False by (simp add: path_str_def)
    qed
  qed simp
next
  assume "prefix a b"
  then obtain r where b: "b = a @ r" by (auto simp: prefix_def)
  show "path_within (path_str a) (path_str b) False"
  proof (cases "r = []")
    case True
    then show ?thesis using b by (simp add: path_within_def Let_def)
  next
    case False
    then obtain c r' where r: "r = c # r'" by (cases r) auto
    have "ends_with (path_str a) [slash] \<longleftrightarrow> a = []" by (rule path_str_slash [OF assms(1)])
    then show ?thesis using b r by (auto simp: path_within_def Let_def starts_with_iff path_str_def)
  qed
qed

section \<open>Creating the roots\<close>

definition extends :: "fs \<Rightarrow> fs \<Rightarrow> bool" where
  "extends fs fs' = (\<forall>p x. node_at fs p = Some x \<longrightarrow> node_at fs' p = Some x)"

lemma extends_refl [simp]: "extends fs fs"
  by (simp add: extends_def)

lemma extends_trans: "extends a b \<Longrightarrow> extends b c \<Longrightarrow> extends a c"
  by (simp add: extends_def)

lemma extends_new: "node_at fs p = None \<Longrightarrow> extends fs (fs(p \<mapsto> x))"
  by (auto simp: extends_def node_at_def)

lemma walk_extends: "walk fs h cur r = Inr q \<Longrightarrow> extends fs fs' \<Longrightarrow> walk fs' h cur r = Inr q"
proof (induction fs h cur r rule: walk.induct)
  case (2 fs h cur c r)
  have keep: "node_at fs (cur @ [c]) = Some x \<Longrightarrow> node_at fs' (cur @ [c]) = Some x" for x
    using 2(6) by (simp add: extends_def)
  show ?case
  proof (cases "c = [] \<or> c = ''.'' \<or> c = ''..''")
    case True
    then show ?thesis using 2 by (auto split: if_splits)
  next
    case False
    then obtain x where x: "node_at fs (cur @ [c]) = Some x" "node_at fs' (cur @ [c]) = Some x"
      using 2(5) keep by (cases "node_at fs (cur @ [c])") auto
    show ?thesis
    proof (cases x)
      case DirNode
      then show ?thesis using 2(3) [of x] 2(5,6) False x by simp
    next
      case (FileNode n)
      then show ?thesis using 2(5) False x by simp
    next
      case (LinkNode t)
      then obtain h' where "h = Suc h'" using 2(5) False x by (cases h) auto
      then show ?thesis using 2(4) [of x t h'] 2(5,6) False x LinkNode by simp
    qed
  qed
qed simp

lemma realpath_extends: "realpath fs p = Inr q \<Longrightarrow> extends fs fs' \<Longrightarrow> realpath fs' p = Inr q"
  unfolding realpath_def by (rule walk_extends)

lemma wf_fs_add: "wf_fs fs \<Longrightarrow> node_at fs d = Some DirNode \<Longrightarrow> node_at fs (d @ [c]) = None \<Longrightarrow> wf_fs (fs(d @ [c] \<mapsto> x))"
  unfolding wf_fs_def
proof (intro allI impI)
  fix p e assume wf: "\<forall>p c. fs (p @ [c]) \<noteq> None \<longrightarrow> node_at fs p = Some DirNode"
    and d: "node_at fs d = Some DirNode" and n: "node_at fs (d @ [c]) = None"
    and ex: "(fs(d @ [c] \<mapsto> x)) (p @ [e]) \<noteq> None"
  have dir: "node_at fs p = Some DirNode"
  proof (cases "p @ [e] = d @ [c]")
    case True
    then show ?thesis using d by simp
  next
    case False
    then have "fs (p @ [e]) \<noteq> None" using ex by (auto split: if_splits)
    then show ?thesis using wf by blast
  qed
  then have "p \<noteq> d @ [c]" using n by auto
  then show "node_at (fs(d @ [c] \<mapsto> x)) p = Some DirNode"
    using dir by (simp add: node_at_def split: if_splits)
qed

lemma mkdirs_ok: "mkdirs fs p = Inr fs' \<Longrightarrow> wf_fs fs \<Longrightarrow> wf_fs fs' \<and> extends fs fs'"
proof (induction fs p arbitrary: fs' rule: mkdirs.induct)
  case (1 fs p)
  show ?case
  proof (cases "realpath fs p")
    case (Inr q)
    then show ?thesis using 1(2,3) by (simp add: mkdirs.simps [of fs p] split: if_splits)
  next
    case (Inl e)
    then have e: "\<not> (e \<noteq> ENOENT \<or> p = [])" using 1(2) by (simp add: mkdirs.simps [of fs p] split: if_splits)
    then obtain fs1 where m: "mkdirs fs (butlast p) = Inr fs1"
      using 1(2) Inl by (cases "mkdirs fs (butlast p)") (auto simp: mkdirs.simps [of fs p])
    note IH = 1(1) [OF Inl e m 1(3)]
    show ?thesis
    proof (cases "realpath fs1 p")
      case (Inr q)
      then show ?thesis using 1(2) Inl e m IH by (simp add: mkdirs.simps [of fs p])
    next
      case (Inl e2)
      then obtain d where "realpath fs1 (butlast p) = Inr d"
        using 1(2) \<open>realpath fs p = Inl e\<close> e m by (cases "realpath fs1 (butlast p)") (auto simp: mkdirs.simps [of fs p])
      then have "node_at fs1 d = Some DirNode" "node_at fs1 (d @ [last p]) = None" "fs' = fs1(d @ [last p] \<mapsto> DirNode)"
        using 1(2) \<open>realpath fs p = Inl e\<close> e m Inl by (auto simp: mkdirs.simps [of fs p] split: if_splits)
      then show ?thesis using IH wf_fs_add extends_new extends_trans by metis
    qed
  qed
qed

lemma canonicalDir_ok:
  assumes "canonicalDir cwd dir fs = (Inr q, fs')" and "wf_fs fs"
  shows "wf_fs fs'" "extends fs fs'" "realpath fs' (os_path cwd dir) = Inr q"
  using assms mkdirs_ok by (auto simp: canonicalDir_def split: sum.splits)

lemma os_path_slash: "list_all plain cwd \<Longrightarrow> \<forall>c \<in> set (os_path cwd p). slash \<notin> set c"
  using split_on_slash by (auto simp: os_path_def list_all_iff plain_def)

lemma realpath_plain: "realpath fs p = Inr q \<Longrightarrow> \<forall>c \<in> set p. slash \<notin> set c \<Longrightarrow> list_all plain q \<and> no_links fs q"
  using walk_plain [of fs SYMLOOP_MAX "[]" p q] walk_no_links [of fs SYMLOOP_MAX "[]" p q]
  by (simp add: realpath_def)

definition root_dir :: "roots \<Rightarrow> patch_root \<Rightarrow> string" where
  "root_dir cfg r = (case r of Patches \<Rightarrow> patchesDir cfg | Checkpoints \<Rightarrow> checkpointsDir cfg)"

lemma resolve_parts:
  assumes "resolvePatchPath cfg req mustExist fs = (Inr r, fs2)"
  shows "\<exists>a b fs1. canonicalDir (working_dir cfg) (patchesDir cfg) fs = (Inr a, fs1) \<and>
    canonicalDir (working_dir cfg) (checkpointsDir cfg) fs1 = (Inr b, fs2) \<and>
    canonicalAllowingMissing fs2 (resolve_path (working_dir cfg) req) 0 = Inr (rp_absolute r) \<and>
    rp_exists r = existsSync fs2 (rp_absolute r) \<and>
    (rp_exists r \<longrightarrow> regular (stat_node fs2 (rp_absolute r))) \<and>
    path_within (path_str (case rp_root r of Patches \<Rightarrow> a | Checkpoints \<Rightarrow> b)) (path_str (rp_absolute r)) False \<and>
    (rp_exists r \<or> existsSync fs2 (butlast (rp_absolute r))) \<and>
    (mustExist \<longrightarrow> rp_exists r \<and> stat_node fs2 (rp_absolute r) \<noteq> Some (FileNode 0)) \<and>
    ends_with (to_lower req) ''.vcv'' \<and> \<not> isUrl req \<and> CHR 0x00 \<notin> set req"
  using assms
  by (auto simp: resolvePatchPath_def IS_WINDOWS_def andthen_def bind_def guard_def gets_def ret_def throw_def
      split: if_splits prod.splits sum.splits)

section \<open>Checkpoint reservations\<close>

definition existing_dir :: "fs \<Rightarrow> fspath \<Rightarrow> bool" where
  "existing_dir fs d = (node_at fs d = Some DirNode \<and> no_links fs d \<and> list_all plain d)"

lemma label_no_slash: "slash \<notin> set (safe_label l)"
proof
  assume "slash \<in> set (safe_label l)"
  then have "slash \<in> set (map (\<lambda>c. if label_char c then c else CHR ''_'') (case l of None \<Rightarrow> ''checkpoint'' | Some x \<Rightarrow> x))"
    unfolding safe_label_def by (rule in_set_takeD)
  then obtain c where c: "slash = (if label_char c then c else CHR ''_'')" unfolding set_map by blast
  moreover have "\<not> label_char slash" by (simp add: label_char_def letter_def digit_def char_lower_def Let_def)
  ultimately show False by (cases "label_char c") auto
qed

lemma canonicalDir_dir:
  assumes "canonicalDir cwd dir fs = (Inr q, fs')" and "wf_fs fs" and "list_all plain cwd"
  shows "list_all plain q" "no_links fs' q" "node_at fs' q \<noteq> None"
proof -
  note ok = canonicalDir_ok [OF assms(1,2)]
  have p: "list_all plain q \<and> no_links fs' q" by (rule realpath_plain [OF ok(3) os_path_slash [OF assms(3)]])
  then show "list_all plain q" "no_links fs' q" by simp_all
  have "walk fs' h cur rs = Inr q \<Longrightarrow> node_at fs' cur \<noteq> None \<Longrightarrow> wf_fs fs' \<Longrightarrow> node_at fs' q \<noteq> None" for h cur rs
  proof (induction fs' h cur rs rule: walk.induct)
    case (2 fs h cur c rs)
    have "node_at fs (butlast cur) \<noteq> None"
      using wf_dir_prefix [OF 2(7), of "butlast cur" "[last cur]"] 2(6)
      by (cases "cur = []") auto
    then show ?case using 2
      by (auto split: if_splits option.splits node.splits nat.splits simp: node_at_def [of _ "[]"])
  qed simp
  from this [of SYMLOOP_MAX "[]"] show "node_at fs' q \<noteq> None"
    using ok(1,3) unfolding realpath_def by (simp add: node_at_def [of _ "[]"])
qed

lemma lstat_in_dir:
  assumes "wf_fs fs" "no_links fs d" "list_all plain d"
  shows "lstat_node fs (d @ [c]) = node_at fs (d @ [c])"
  by (rule lstat_straight [OF assms])

lemma reserve_loop_ok:
  assumes "reserve_loop deny (d @ [b]) n left fs = (Inr p, fs')"
    and "wf_fs fs" "no_links fs d" "list_all plain d"
  shows "node_at fs d = Some DirNode \<and> (\<exists>k. n \<le> k \<and> k < n + left \<and> p = candidate (d @ [b]) k \<and> fs p = None \<and> fs' = fs(p \<mapsto> FileNode 0) \<and>
    (\<forall>j. n \<le> j \<longrightarrow> j < k \<longrightarrow> fs (candidate (d @ [b]) j) \<noteq> None))"
  using assms(1)
proof (induction left arbitrary: n)
  case (Suc left)
  have cand: "\<exists>c. candidate (d @ [b]) k = d @ [c]" for k by (auto simp: candidate_def)
  have ls: "lstat_node fs (candidate (d @ [b]) k) = fs (candidate (d @ [b]) k)" for k
    using cand [of k] lstat_in_dir [OF assms(2-4)] by (auto simp: node_at_def)
  have st: "stat_node fs (butlast (candidate (d @ [b]) k)) = node_at fs d" for k
    using cand [of k] stat_straight(1) [OF assms(2-4)] by auto
  have root: "node_at fs d = Some DirNode"
    using Suc.prems st by (simp add: open_exclusive_def split: if_splits)
  show ?case
  proof (cases "fs (candidate (d @ [b]) n)")
    case None
    then have "p = candidate (d @ [b]) n \<and> fs' = fs(p \<mapsto> FileNode 0)"
      using Suc.prems ls st root by (auto simp: open_exclusive_def split: option.splits)
    then show ?thesis using None root by (intro conjI exI [of _ n]) auto
  next
    case (Some x)
    then have "reserve_loop deny (d @ [b]) (Suc n) left fs = (Inr p, fs')"
      using Suc.prems ls st root by (simp add: open_exclusive_def)
    from Suc.IH [OF this] obtain k where k: "Suc n \<le> k" "k < Suc n + left" "p = candidate (d @ [b]) k" "fs p = None"
      "fs' = fs(p \<mapsto> FileNode 0)" "\<forall>j. Suc n \<le> j \<longrightarrow> j < k \<longrightarrow> fs (candidate (d @ [b]) j) \<noteq> None" by blast
    have "\<forall>j. n \<le> j \<longrightarrow> j < k \<longrightarrow> fs (candidate (d @ [b]) j) \<noteq> None"
      using k(6) Some by (metis Suc_leI le_neq_implies_less option.distinct(1))
    then show ?thesis using k root by (intro conjI exI [of _ k]) auto
  qed
qed (simp add: throw_def)

lemma nat_str_slash: "slash \<notin> set (nat_str n)"
  using nat_str_digits [of n] by (auto simp: all_digits_def list_all_iff digit_def)

lemma pad_slash: "slash \<notin> set (pad k n)"
  using nat_str_slash by (auto simp: pad_def Let_def)

lemma stamp_slash: "slash \<notin> set (stamp_text ms)"
  using pad_slash by (auto simp: stamp_text_def toISOString_def iso_year_def Let_def split_beta)

lemma candidate_plain: "\<exists>c. candidate (d @ [checkpoint_stem l ms @ ''.vcv'']) k = d @ [c] \<and> plain c"
proof -
  let ?s = "checkpoint_stem l ms"
  have s: "slash \<notin> set ?s" "CHR ''_'' \<in> set ?s"
    using stamp_slash label_no_slash by (auto simp: checkpoint_stem_def)
  have pl: "plain c" if "slash \<notin> set c" "CHR ''_'' \<in> set c" for c
    using that by (auto simp: plain_def)
  show ?thesis
    using s pl [of "?s @ ''.vcv''"] pl [of "?s @ CHR ''-'' # nat_str k @ ''.vcv''"] nat_str_slash
    by (auto simp: candidate_def)
qed

section \<open>Properties\<close>

text \<open>A small file system with links inside and out of the roots, for the witnesses.\<close>

definition demo_fs :: fs where
  "demo_fs = map_of [([''rack''], DirNode), ([''rack'', ''patches''], DirNode),
     ([''rack'', ''patches'', ''a.vcv''], FileNode 10),
     ([''rack'', ''patches'', ''notes.txt''], FileNode 5),
     ([''rack'', ''patches'', ''c.vcv''], LinkNode ''notes.txt''),
     ([''rack'', ''patches'', ''out.vcv''], LinkNode ''../../etc/x.vcv'')]"

definition demo_roots :: roots where
  "demo_roots = \<lparr>patchesDir = ''/rack/patches'', checkpointsDir = ''/rack/RackMCP/checkpoints'', working_dir = []\<rparr>"

lemma demo_fs_wf: "wf_fs demo_fs"
proof -
  have k: "p = [] \<or> p = [''rack''] \<or> p = [''rack'', ''patches'']" if "demo_fs (p @ [c]) \<noteq> None" for p c
    using that by (auto simp: demo_fs_def append_eq_Cons_conv split: if_splits)
  show ?thesis
    unfolding wf_fs_def
  proof (intro allI impI)
    fix p c assume "demo_fs (p @ [c]) \<noteq> None"
    from k [OF this] show "node_at demo_fs p = Some DirNode"
      by (elim disjE) (simp_all add: node_at_def demo_fs_def)
  qed
qed

lemma demo_resolve: "fst (resolvePatchPath demo_roots ''/rack/patches/a.vcv'' True demo_fs) =
  Inr \<lparr>rp_absolute = [''rack'', ''patches'', ''a.vcv''], rp_root = Patches, rp_exists = True\<rparr>"
  by code_simp

lemma demo_reserve: "fst (reserveCheckpointPath (\<lambda>_. None) demo_roots (Some ''a/b'') 1700000000000 demo_fs) =
  Inr [''rack'', ''RackMCP'', ''checkpoints'', ''2023-11-14T22-13-20-000Z_a_b.vcv'']"
  by code_simp

text \<open>The suffix is checked on the requested name only: a link \<open>c.vcv\<close> to a text file is
  accepted, and the path handed to the plugin is the text file.\<close>

lemma suffix_checked_on_request_only:
  "fst (resolvePatchPath demo_roots ''/rack/patches/c.vcv'' False demo_fs) =
     Inr \<lparr>rp_absolute = [''rack'', ''patches'', ''notes.txt''], rp_root = Patches, rp_exists = True\<rparr>"
  by code_simp

text \<open>C23: a path the policy accepts stays inside its root for good: it lies under the
  canonical directory of the root it is reported in, no component of it is a symbolic link,
  so writing to it reaches no other place; if it exists it is a regular file, and a load
  source exists and is not empty.
\<close>

theorem resolved_path_contained:
  assumes "wf_fs fs" and "list_all plain (working_dir cfg)"
    and "resolvePatchPath cfg req mustExist fs = (Inr r, fs')"
  shows "(\<exists>base. realpath fs' (os_path (working_dir cfg) (root_dir cfg (rp_root r))) = Inr base \<and>
      prefix base (rp_absolute r)) \<and>
    no_links fs' (rp_absolute r) \<and>
    (rp_exists r \<longleftrightarrow> (\<exists>n. node_at fs' (rp_absolute r) = Some (FileNode n))) \<and>
    (mustExist \<longrightarrow> (\<exists>n. 0 < n \<and> node_at fs' (rp_absolute r) = Some (FileNode n)))"
proof -
  from resolve_parts [OF assms(3)] obtain a b fs1 where
    a: "canonicalDir (working_dir cfg) (patchesDir cfg) fs = (Inr a, fs1)" and
    b: "canonicalDir (working_dir cfg) (checkpointsDir cfg) fs1 = (Inr b, fs')" and
    c: "canonicalAllowingMissing fs' (resolve_path (working_dir cfg) req) 0 = Inr (rp_absolute r)" and
    e: "rp_exists r = existsSync fs' (rp_absolute r)" "rp_exists r \<longrightarrow> regular (stat_node fs' (rp_absolute r))" and
    w: "path_within (path_str (case rp_root r of Patches \<Rightarrow> a | Checkpoints \<Rightarrow> b)) (path_str (rp_absolute r)) False" and
    m: "mustExist \<longrightarrow> rp_exists r \<and> stat_node fs' (rp_absolute r) \<noteq> Some (FileNode 0)" by blast
  note A = canonicalDir_ok [OF a assms(1)]
  note B = canonicalDir_ok [OF b A(1)]
  have safe: "no_links fs' (rp_absolute r)" "list_all plain (rp_absolute r)"
    using canonical_safe [OF c B(1) resolve_plain [OF assms(2)]] by simp_all
  have st: "stat_node fs' (rp_absolute r) = node_at fs' (rp_absolute r)"
    "existsSync fs' (rp_absolute r) = (node_at fs' (rp_absolute r) \<noteq> None)"
    using stat_straight [OF B(1) safe] by simp_all
  have ra: "realpath fs' (os_path (working_dir cfg) (patchesDir cfg)) = Inr a"
    by (rule realpath_extends [OF A(3) B(2)])
  have pl: "list_all plain a" "list_all plain b"
    using canonicalDir_dir [OF a assms(1,2)] canonicalDir_dir [OF b A(1) assms(2)] by simp_all
  have "\<exists>base. realpath fs' (os_path (working_dir cfg) (root_dir cfg (rp_root r))) = Inr base \<and> prefix base (rp_absolute r)"
    using w ra B(3) path_within_prefix [OF pl(1) safe(2)] path_within_prefix [OF pl(2) safe(2)]
    by (cases "rp_root r") (auto simp: root_dir_def)
  moreover have "rp_exists r \<longleftrightarrow> (\<exists>n. node_at fs' (rp_absolute r) = Some (FileNode n))"
    using e st by (auto simp: regular_def split: option.splits node.splits)
  moreover from this have "mustExist \<longrightarrow> (\<exists>n. 0 < n \<and> node_at fs' (rp_absolute r) = Some (FileNode n))"
    using m st by (metis neq0_conv)
  ultimately show ?thesis using safe by blast
qed

lemma resolved_path_contained_witness:
  "\<exists>r fs'. resolvePatchPath demo_roots ''/rack/patches/a.vcv'' True demo_fs = (Inr r, fs') \<and>
     rp_absolute r = [''rack'', ''patches'', ''a.vcv''] \<and> no_links fs' (rp_absolute r) \<and>
     (\<exists>n. 0 < n \<and> node_at fs' (rp_absolute r) = Some (FileNode n))"
proof -
  obtain r fs' where r: "resolvePatchPath demo_roots ''/rack/patches/a.vcv'' True demo_fs = (Inr r, fs')"
    "rp_absolute r = [''rack'', ''patches'', ''a.vcv'']"
    using demo_resolve by (cases "resolvePatchPath demo_roots ''/rack/patches/a.vcv'' True demo_fs") auto
  have "list_all plain (working_dir demo_roots)" by (simp add: demo_roots_def)
  from resolved_path_contained [OF demo_fs_wf this r(1)] r show ?thesis by blast
qed

text \<open>C24: a checkpoint reservation claims a name that did not exist, directly in the
  canonical checkpoints directory, and only after every earlier candidate was found taken;
  releasing it at once restores the file system, and releasing it after the plugin wrote
  the file leaves the file alone.
\<close>

theorem reservation_exclusive:
  assumes "wf_fs fs" and "list_all plain (working_dir cfg)"
    and "reserveCheckpointPath deny cfg l ms fs = (Inr p, fs')"
  shows "\<exists>d fs1 k. canonicalDir (working_dir cfg) (checkpointsDir cfg) fs = (Inr d, fs1) \<and> butlast p = d \<and>
    1 \<le> k \<and> k \<le> 100 \<and> p = candidate (d @ [checkpoint_stem l ms @ ''.vcv'']) k \<and>
    fs1 p = None \<and> fs' = fs1(p \<mapsto> FileNode 0) \<and>
    (\<forall>j. 1 \<le> j \<longrightarrow> j < k \<longrightarrow> fs1 (candidate (d @ [checkpoint_stem l ms @ ''.vcv'']) j) \<noteq> None) \<and>
    releaseCheckpointReservation p fs' = fs1 \<and>
    releaseCheckpointReservation p (fs1(p \<mapsto> FileNode (Suc n))) = fs1(p \<mapsto> FileNode (Suc n))"
proof -
  let ?b = "checkpoint_stem l ms @ ''.vcv''"
  obtain d fs1 where d: "canonicalDir (working_dir cfg) (checkpointsDir cfg) fs = (Inr d, fs1)"
    and res: "reserve_loop deny (d @ [?b]) 1 MAX_CHECKPOINT_ATTEMPTS fs1 = (Inr p, fs')"
    using assms(3) by (auto simp: reserveCheckpointPath_def checkpointPath_def bind_def ret_def split: prod.splits sum.splits)
  note ok = canonicalDir_ok [OF d assms(1)]
  note dir = canonicalDir_dir [OF d assms(1,2)]
  obtain k where root: "node_at fs1 d = Some DirNode" and k: "1 \<le> k" "k < 1 + MAX_CHECKPOINT_ATTEMPTS" "p = candidate (d @ [?b]) k" "fs1 p = None"
    "fs' = fs1(p \<mapsto> FileNode 0)" "\<forall>j. 1 \<le> j \<longrightarrow> j < k \<longrightarrow> fs1 (candidate (d @ [?b]) j) \<noteq> None"
    using reserve_loop_ok [OF res ok(1) dir(2,1)] by blast
  obtain c where c: "p = d @ [c]" "plain c" using candidate_plain [of d l ms k] k(3) by auto
  have stat: "stat_node (fs1(p \<mapsto> FileNode m)) p = Some (FileNode m)" for m
  proof -
    have wf: "wf_fs (fs1(p \<mapsto> FileNode m))"
      unfolding c(1) by (rule wf_fs_add [OF ok(1) root]) (use k(4) c in \<open>simp add: node_at_def\<close>)
    have "no_links (fs1(p \<mapsto> FileNode m)) d"
    proof -
      have "node_at (fs1(p \<mapsto> FileNode m)) (take i d) = node_at fs1 (take i d)" for i
      proof -
        have "length (take i d) \<noteq> length (d @ [c])" by simp
        then have "take i d \<noteq> d @ [c]" by metis
        then show ?thesis by (simp add: node_at_def c(1))
      qed
      then show ?thesis using dir(2) by (simp add: no_links_def)
    qed
    then have "no_links (fs1(p \<mapsto> FileNode m)) p" unfolding c(1) no_links_snoc by (simp add: node_at_def)
    then show ?thesis using stat_straight(1) [OF wf, of p] dir(1) c by (simp add: node_at_def)
  qed
  have rel: "releaseCheckpointReservation p fs' = fs1"
    "releaseCheckpointReservation p (fs1(p \<mapsto> FileNode (Suc n))) = fs1(p \<mapsto> FileNode (Suc n))"
    using stat k(4) by (auto simp: releaseCheckpointReservation_def k(5) fun_upd_idem)
  have "k \<le> 100" using k(2) by (simp add: MAX_CHECKPOINT_ATTEMPTS_def)
  then show ?thesis using d c(1) k rel by auto
qed

lemma reservation_exclusive_witness:
  "\<exists>p fs'. reserveCheckpointPath (\<lambda>_. None) demo_roots (Some ''a/b'') 1700000000000 demo_fs = (Inr p, fs') \<and>
     p = [''rack'', ''RackMCP'', ''checkpoints'', ''2023-11-14T22-13-20-000Z_a_b.vcv''] \<and>
     fs' p = Some (FileNode 0) \<and> releaseCheckpointReservation p fs' p = None"
proof -
  obtain p fs' where r: "reserveCheckpointPath (\<lambda>_. None) demo_roots (Some ''a/b'') 1700000000000 demo_fs = (Inr p, fs')"
    "p = [''rack'', ''RackMCP'', ''checkpoints'', ''2023-11-14T22-13-20-000Z_a_b.vcv'']"
    using demo_reserve
    by (cases "reserveCheckpointPath (\<lambda>_. None) demo_roots (Some ''a/b'') 1700000000000 demo_fs") auto
  have "list_all plain (working_dir demo_roots)" by (simp add: demo_roots_def)
  from reservation_exclusive [OF demo_fs_wf this r(1), of 0] r show ?thesis by auto
qed

end
