(* ===== verification/PatchFiles.thy ===== *)
theory PatchFiles
  imports Paths Transactions
begin

text \<open>
  The patch-file tools (\<open>apps/mcp-server/src/patchfiles.ts\<close>) over the transaction manager,
  the path policy and an injected bridge.  Everything an \<open>await\<close> may change (other handlers
  on the manager, the file system, the plugin, the clock) is the shared state, and the
  injected operations are arbitrary functions of it.  A ghost log records what the handler
  sends and the confirmations it consumes.
\<close>

section \<open>Shared state and the bridge\<close>

record patch_fingerprint =
  fp_fingerprint :: string
  fp_patchEpoch :: int

record patch_file_result =
  pr_fingerprint :: string
  pr_patchEpoch :: int
  pr_patchName :: "string option"
  pr_path :: string
  pr_saved :: bool
  pr_bridgeModulePresent :: bool
  pr_warnings :: "string list"
  pr_replayed :: bool

text \<open>The four patch-file requests; all carry the scope and an operation id.\<close>

datatype pf_request =
    SaveCopy wire_scope string string
  | SavePatch wire_scope string string
  | LoadPatchFile wire_scope string bool string
  | ClearPatchFile wire_scope string

record 'w shared =
  sh_txm :: txm
  sh_fs :: fs
  sh_world :: 'w

datatype pf_event =
    Sent pf_request
  | Answered pf_request
  | Consumed load_token_binding

record 'w pf_state =
  pf_shared :: "'w shared"
  pf_log :: "pf_event list"

record 'w pf_deps =
  pd_now :: "'w shared \<Rightarrow> int \<times> 'w shared"
  pd_randomUUID :: "'w shared \<Rightarrow> string \<times> 'w shared"
  pd_randomBytes :: "'w shared \<Rightarrow> string \<times> 'w shared"
  pd_ensureConnected :: "'w shared \<Rightarrow> (exn + selected_instance) \<times> 'w shared"
  pd_ensureLease :: "'w shared \<Rightarrow> (exn + unit) \<times> 'w shared"
  pd_statusSaved :: "'w shared \<Rightarrow> (exn + bool) \<times> 'w shared"
  pd_fingerprint :: "'w shared \<Rightarrow> (exn + patch_fingerprint) \<times> 'w shared"
  pd_request :: "pf_request \<Rightarrow> string \<Rightarrow> int \<Rightarrow> 'w shared \<Rightarrow> (exn + patch_file_result) \<times> 'w shared"
  pd_deny :: "fspath \<Rightarrow> string option"
  pd_roots :: roots
  pd_mac :: "string \<Rightarrow> string"
  pd_patchIoTimeoutMs :: int

type_synonym ('w, 'a) pf = "(exn, 'w pf_state, 'a) prog"

definition outside :: "('w shared \<Rightarrow> (exn + 'a) \<times> 'w shared) \<Rightarrow> ('w, 'a) pf" where
  "outside f = (\<lambda>s. let (r, t) = f (pf_shared s) in (r, s\<lparr>pf_shared := t\<rparr>))"

definition always :: "('w shared \<Rightarrow> 'a \<times> 'w shared) \<Rightarrow> ('w, 'a) pf" where
  "always f = outside (\<lambda>t. let (x, t') = f t in (Inr x, t'))"

definition on_fs :: "(exn, fs, 'a) prog \<Rightarrow> ('w, 'a) pf" where
  "on_fs m = outside (\<lambda>t. let (r, f) = m (sh_fs t) in (r, t\<lparr>sh_fs := f\<rparr>))"

definition on_txm :: "(exn, txm, 'a) prog \<Rightarrow> ('w, 'a) pf" where
  "on_txm m = outside (\<lambda>t. let (r, x) = m (sh_txm t) in (r, t\<lparr>sh_txm := x\<rparr>))"

definition note_event :: "pf_event \<Rightarrow> ('w, unit) pf" where
  "note_event e = modify (\<lambda>s. s\<lparr>pf_log := pf_log s @ [e]\<rparr>)"

text \<open>A request: its payload, then the operation id and deadline of its envelope.\<close>

definition request :: "'w pf_deps \<Rightarrow> pf_request \<Rightarrow> string \<Rightarrow> ('w, patch_file_result) pf" where
  "request d q envelopeId = andthen (note_event (Sent q)) (
     bind (outside (pd_request d q envelopeId (pd_patchIoTimeoutMs d))) (\<lambda>r.
     andthen (note_event (Answered q)) (ret r)))"

section \<open>Policy helpers\<close>

definition scopeFor :: "selected_instance \<Rightarrow> wire_scope" where
  "scopeFor i = \<lparr>ws_instanceId = si_instanceId i, ws_sessionId = si_sessionId i, ws_patchEpoch = 0\<rparr>"

definition requireRoot :: "resolved_path \<Rightarrow> patch_root \<Rightarrow> string \<Rightarrow> ('w, unit) pf" where
  "requireRoot r want what = guard (rp_root r = want) (not_allowed
     (if want = Patches
      then what @ '' must be in the patches root; checkpoints are written by create_checkpoint and read by restore_checkpoint''
      else what @ '' must be a checkpoint file''))"

definition pluginReportedFailure :: "exn \<Rightarrow> bool" where
  "pluginReportedFailure e = (let code = ep_code (toErrorPayload e) in code \<noteq> TIMEOUT \<and> code \<noteq> RACK_DISCONNECTED)"

definition samePath :: "string option \<Rightarrow> string \<Rightarrow> bool" where
  "samePath a b = (case a of None \<Rightarrow> False | Some p \<Rightarrow>
     if IS_WINDOWS then to_lower p = to_lower b else p = b)"

definition resolve_in :: "'w pf_deps \<Rightarrow> string \<Rightarrow> bool \<Rightarrow> ('w, resolved_path) pf" where
  "resolve_in d p mustExist = on_fs (resolvePatchPath (pd_roots d) p mustExist)"

definition reserve_in :: "'w pf_deps \<Rightarrow> string option \<Rightarrow> int \<Rightarrow> ('w, fspath) pf" where
  "reserve_in d l ms = on_fs (reserveCheckpointPath (pd_deny d) (pd_roots d) l ms)"

definition release_in :: "fspath \<Rightarrow> ('w, unit) pf" where
  "release_in p = on_fs (\<lambda>f. (Inr (), releaseCheckpointReservation p f))"

definition size_at :: "fspath \<Rightarrow> ('w, nat) pf" where
  "size_at p = on_fs (\<lambda>f. (case stat_node f p of Some (FileNode n) \<Rightarrow> Inr n
     | Some _ \<Rightarrow> Inr 0 | None \<Rightarrow> Inl (PlainErr ''ENOENT''), f))"

section \<open>Checkpoints and saving\<close>

record checkpoint_result =
  kr_checkpointPath :: string
  kr_fingerprint :: string
  kr_createdAt :: string
  kr_replayed :: bool

definition createCheckpoint :: "'w pf_deps \<Rightarrow> string option \<Rightarrow> string \<Rightarrow> ('w, checkpoint_result) pf" where
  "createCheckpoint d label operationId =
     bind (outside (pd_ensureConnected d)) (\<lambda>inst.
     andthen (outside (pd_ensureLease d)) (
     bind (always (pd_now d)) (\<lambda>stampMs.
     bind (reserve_in d label stampMs) (\<lambda>path.
     bind (catching (request d (SaveCopy (scopeFor inst) (path_str path) operationId) operationId)
         (\<lambda>err. andthen (if pluginReportedFailure err then release_in path else ret ()) (throw err))) (\<lambda>res.
     ret \<lparr>kr_checkpointPath = path_str path, kr_fingerprint = pr_fingerprint res,
          kr_createdAt = toISOString stampMs, kr_replayed = pr_replayed res\<rparr>)))))"

record save_result =
  sr_path :: string
  sr_fingerprint :: string
  sr_saved :: bool
  sr_bridgeModulePresent :: bool
  sr_warnings :: "string list"
  sr_replayed :: bool

definition savePatch :: "'w pf_deps \<Rightarrow> string option \<Rightarrow> string \<Rightarrow> ('w, save_result) pf" where
  "savePatch d argPath operationId =
     bind (outside (pd_ensureConnected d)) (\<lambda>inst.
     andthen (outside (pd_ensureLease d)) (
     bind (if argPath = None \<or> argPath = Some [] then ret None
       else bind (resolve_in d (the argPath) False) (\<lambda>r.
         andthen (requireRoot r Patches ''the save target'') (ret (Some (path_str (rp_absolute r)))))) (\<lambda>path.
     bind (request d (SavePatch (scopeFor inst) (case path of None \<Rightarrow> [] | Some p \<Rightarrow> p) operationId) operationId) (\<lambda>res.
     ret \<lparr>sr_path = (if pr_path res \<noteq> [] then pr_path res else case path of None \<Rightarrow> [] | Some p \<Rightarrow> p),
          sr_fingerprint = pr_fingerprint res, sr_saved = True,
          sr_bridgeModulePresent = pr_bridgeModulePresent res, sr_warnings = pr_warnings res,
          sr_replayed = pr_replayed res\<rparr>))))"

section \<open>Previews\<close>

record load_preview =
  lp_path :: "string option"
  lp_exists :: bool
  lp_sizeBytes :: "nat option"
  lp_currentPatchSaved :: bool
  lp_willCreateRecoveryCheckpoint :: bool
  lp_willInsertBridgeModule :: bool
  lp_flags :: "string list"
  lp_reasons :: "string list"
  lp_confirmationRequired :: bool
  lp_warnings :: "string list"
  lp_confirmationToken :: string
  lp_confirmationExpiresAt :: string

definition BRIDGE_INSERTION_NOTICE :: string where
  "BRIDGE_INSERTION_NOTICE = ''a RackMCP-Bridge module will be inserted into the resulting patch if it does not already contain one, which changes the layout of the loaded file''"

definition unsaved_warning :: "bool \<Rightarrow> string list" where
  "unsaved_warning saved = (if saved then [] else [''the current patch has unsaved changes''])"

definition mint_in :: "'w pf_deps \<Rightarrow> load_token_binding \<Rightarrow> ('w, string) pf" where
  "mint_in d b = bind (always (pd_now d)) (\<lambda>now. bind (always (pd_randomBytes d)) (\<lambda>rnd.
     on_txm (\<lambda>t. let (tok, t') = mintLoadToken (pd_mac d) now rnd b t in (Inr tok, t'))))"

definition buildLoadPreview :: "'w pf_deps \<Rightarrow> load_kind \<Rightarrow> string option \<Rightarrow> ('w, load_preview) pf" where
  "buildLoadPreview d kind targetPath =
     bind (outside (pd_ensureConnected d)) (\<lambda>inst.
     bind (outside (pd_statusSaved d)) (\<lambda>saved.
     bind (outside (pd_fingerprint d)) (\<lambda>live.
     bind (if kind = LoadPatch \<and> targetPath \<noteq> None \<and> targetPath \<noteq> Some []
       then bind (resolve_in d (the targetPath) True) (\<lambda>r.
         bind (size_at (rp_absolute r)) (\<lambda>n. ret (rp_exists r, Some n)))
       else ret (False, None)) (\<lambda>(exists, size).
     bind (mint_in d \<lparr>lt_instanceId = si_instanceId inst, lt_sessionId = si_sessionId inst, lt_kind = kind,
       lt_path = targetPath, lt_patchEpoch = fp_patchEpoch live, lt_fingerprint = fp_fingerprint live\<rparr>) (\<lambda>token.
     bind (always (pd_now d)) (\<lambda>now.
     ret \<lparr>lp_path = targetPath, lp_exists = (if kind = LoadPatch then exists else True), lp_sizeBytes = size,
          lp_currentPatchSaved = saved, lp_willCreateRecoveryCheckpoint = True, lp_willInsertBridgeModule = True,
          lp_flags = (if kind = ClearPatch then [''clears_patch''] else [''replaces_patch'']),
          lp_reasons = (if kind = ClearPatch then ''clears the entire current patch''
            else ''replaces the entire current patch with a loaded file'') # unsaved_warning saved,
          lp_confirmationRequired = True,
          lp_warnings = unsaved_warning saved @ [BRIDGE_INSERTION_NOTICE],
          lp_confirmationToken = token, lp_confirmationExpiresAt = toISOString (now + 5 * 60 * 1000)\<rparr>))))))"

definition previewLoadPatch :: "'w pf_deps \<Rightarrow> string \<Rightarrow> ('w, load_preview) pf" where
  "previewLoadPatch d path =
     bind (resolve_in d path True) (\<lambda>r.
     andthen (requireRoot r Patches ''the load source'') (buildLoadPreview d LoadPatch (Some path)))"

definition previewClearPatch :: "'w pf_deps \<Rightarrow> ('w, load_preview) pf" where
  "previewClearPatch d = buildLoadPreview d ClearPatch None"

section \<open>Commits\<close>

record load_result =
  lr_fingerprint :: string
  lr_patchEpoch :: int
  lr_patchName :: "string option"
  lr_saved :: bool
  lr_bridgeModulePresent :: bool
  lr_recoveryCheckpointPath :: string
  lr_warnings :: "string list"
  lr_replayed :: bool

definition kind_str :: "load_kind \<Rightarrow> string" where
  "kind_str k = (case k of LoadPatch \<Rightarrow> ''load'' | ClearPatch \<Rightarrow> ''clear'' | RestorePatch \<Rightarrow> ''restore'')"

definition verify_in :: "'w pf_deps \<Rightarrow> string \<Rightarrow> ('w, load_token_binding) pf" where
  "verify_in d token = bind (always (pd_now d)) (\<lambda>now. on_txm (verifyLoadToken (pd_mac d) now token))"

definition consume_in :: "'w pf_deps \<Rightarrow> string \<Rightarrow> ('w, unit) pf" where
  "consume_in d token = bind (always (pd_now d)) (\<lambda>now.
     bind (on_txm (consumeLoadToken (pd_mac d) now token)) (\<lambda>b. note_event (Consumed b)))"

text \<open>The recovery checkpoint, its failure reported with its cause's code.\<close>

definition recovery_failed :: "load_kind \<Rightarrow> exn \<Rightarrow> exn" where
  "recovery_failed kind err = (let cause = toErrorPayload err in
     tool_error_retry (ep_code cause) (''the recovery checkpoint could not be created ('' @ code_str (ep_code cause) @
       '': '' @ ep_message cause @ ''), so the '' @ kind_str kind @
       '' was not performed; make the checkpoints directory writable with free space, then retry'') True)"

definition recovery_checkpoint :: "'w pf_deps \<Rightarrow> load_kind \<Rightarrow> selected_instance \<Rightarrow> int \<Rightarrow> ('w, fspath) pf" where
  "recovery_checkpoint d kind inst stampMs =
     bind (catching (reserve_in d (Some ''recovery'') stampMs) (\<lambda>err. throw (recovery_failed kind err))) (\<lambda>path.
     bind (always (pd_randomUUID d)) (\<lambda>opid.
     bind (always (pd_randomUUID d)) (\<lambda>envelopeId.
     bind (catching (request d (SaveCopy (scopeFor inst) (path_str path) opid) envelopeId)
       (\<lambda>err. andthen (if pluginReportedFailure err then release_in path else ret ())
         (throw (recovery_failed kind err)))) (\<lambda>res.
     ret path))))"

definition commitLoadOrClear :: "'w pf_deps \<Rightarrow> load_kind \<Rightarrow> string \<Rightarrow> string \<Rightarrow> string option \<Rightarrow> ('w, load_result) pf" where
  "commitLoadOrClear d kind token operationId expectedPath =
     bind (outside (pd_ensureConnected d)) (\<lambda>inst.
     bind (verify_in d token) (\<lambda>b.
     andthen (guard (lt_kind b = kind \<and> lt_instanceId b = si_instanceId inst \<and> lt_sessionId b = si_sessionId inst)
       (tool_error CONFIRMATION_REQUIRED ''confirmation token does not match this operation'')) (
     andthen (guard (expectedPath = None \<or> samePath (lt_path b) (the expectedPath))
       (tool_error CONFIRMATION_REQUIRED ''confirmation token was issued for a different patch file'')) (
     bind (outside (pd_fingerprint d)) (\<lambda>live.
     andthen (guard (fp_patchEpoch live = lt_patchEpoch b)
       (tool_error STALE_PATCH_EPOCH ''the patch was replaced since the preview; re-run the preview and confirm again'')) (
     andthen (guard (fp_fingerprint live = lt_fingerprint b)
       (tool_error PATCH_CONFLICT ''the patch changed since the preview; re-run the preview and confirm again'')) (
     andthen (outside (pd_ensureLease d)) (
     bind (always (pd_now d)) (\<lambda>stampMs.
     bind (recovery_checkpoint d kind inst stampMs) (\<lambda>recovery.
     andthen (consume_in d token) (
     bind (if kind = ClearPatch then request d (ClearPatchFile (scopeFor inst) operationId) operationId
       else bind (resolve_in d (case lt_path b of None \<Rightarrow> [] | Some p \<Rightarrow> p) True) (\<lambda>r.
         andthen (requireRoot r (if kind = RestorePatch then Checkpoints else Patches) ''the load source'') (
         request d (LoadPatchFile (scopeFor inst) (path_str (rp_absolute r)) (kind = LoadPatch) operationId) operationId))) (\<lambda>res.
     ret \<lparr>lr_fingerprint = pr_fingerprint res, lr_patchEpoch = pr_patchEpoch res, lr_patchName = pr_patchName res,
          lr_saved = pr_saved res, lr_bridgeModulePresent = pr_bridgeModulePresent res,
          lr_recoveryCheckpointPath = path_str recovery, lr_warnings = pr_warnings res,
          lr_replayed = pr_replayed res\<rparr>))))))))))))"

definition commitLoadPatch :: "'w pf_deps \<Rightarrow> string \<Rightarrow> string \<Rightarrow> ('w, load_result) pf" where
  "commitLoadPatch d token operationId = commitLoadOrClear d LoadPatch token operationId None"

definition commitClearPatch :: "'w pf_deps \<Rightarrow> string \<Rightarrow> string \<Rightarrow> ('w, load_result) pf" where
  "commitClearPatch d token operationId = commitLoadOrClear d ClearPatch token operationId None"

datatype restore_outcome = RestorePreview load_preview | Restored load_result

definition restoreCheckpoint :: "'w pf_deps \<Rightarrow> string \<Rightarrow> string option \<Rightarrow> string \<Rightarrow> ('w, restore_outcome) pf" where
  "restoreCheckpoint d source confirmationToken operationId =
     bind (resolve_in d source True) (\<lambda>cp.
     andthen (guard (rp_root cp = Checkpoints) (not_allowed ''restore source must be a checkpoint file'')) (
     bind (outside (pd_ensureConnected d)) (\<lambda>inst.
     if confirmationToken = None \<or> confirmationToken = Some []
     then bind (outside (pd_statusSaved d)) (\<lambda>saved.
       bind (outside (pd_fingerprint d)) (\<lambda>live.
       bind (mint_in d \<lparr>lt_instanceId = si_instanceId inst, lt_sessionId = si_sessionId inst, lt_kind = RestorePatch,
         lt_path = Some (path_str (rp_absolute cp)), lt_patchEpoch = fp_patchEpoch live,
         lt_fingerprint = fp_fingerprint live\<rparr>) (\<lambda>token.
       bind (size_at (rp_absolute cp)) (\<lambda>n.
       bind (always (pd_now d)) (\<lambda>now.
       ret (RestorePreview \<lparr>lp_path = Some (path_str (rp_absolute cp)), lp_exists = True, lp_sizeBytes = Some n,
         lp_currentPatchSaved = saved, lp_willCreateRecoveryCheckpoint = True, lp_willInsertBridgeModule = True,
         lp_flags = [''replaces_patch''], lp_reasons = [''restoring a checkpoint replaces the entire current patch''],
         lp_confirmationRequired = True, lp_warnings = unsaved_warning saved @ [BRIDGE_INSERTION_NOTICE],
         lp_confirmationToken = token, lp_confirmationExpiresAt = toISOString (now + 5 * 60 * 1000)\<rparr>))))))
     else bind (commitLoadOrClear d RestorePatch (the confirmationToken) operationId (Some (path_str (rp_absolute cp))))
       (\<lambda>r. ret (Restored r)))))"

section \<open>What a handler emits\<close>

text \<open>\<open>emits m T\<close>: every run of \<open>m\<close> appends events to the log, and \<open>T\<close> relates its result to them.\<close>

definition emits :: "('w, 'a) pf \<Rightarrow> (exn + 'a \<Rightarrow> pf_event list \<Rightarrow> bool) \<Rightarrow> bool" where
  "emits m T = (\<forall>s r s'. m s = (r, s') \<longrightarrow> (\<exists>ev. pf_log s' = pf_log s @ ev \<and> T r ev))"

abbreviation silently :: "('w, 'a) pf \<Rightarrow> ('a \<Rightarrow> bool) \<Rightarrow> bool" where
  "silently m P \<equiv> emits m (\<lambda>r ev. ev = [] \<and> (case r of Inl _ \<Rightarrow> True | Inr a \<Rightarrow> P a))"

named_theorems emit_rules \<open>what the steps of a handler emit\<close>

lemma emits_mono: "emits m T \<Longrightarrow> (\<And>r ev. T r ev \<Longrightarrow> U r ev) \<Longrightarrow> emits m U"
  unfolding emits_def by meson

lemma emits_bind:
  assumes "emits m T" and "\<And>a. emits (f a) (U a)"
  shows "emits (bind m f) (\<lambda>r ev. (\<exists>e. r = Inl e \<and> T (Inl e) ev) \<or>
    (\<exists>a ev1 ev2. ev = ev1 @ ev2 \<and> T (Inr a) ev1 \<and> U a r ev2))"
  unfolding emits_def
proof (intro allI impI)
  fix s r s' assume b: "bind m f s = (r, s')"
  obtain r1 s1 where m: "m s = (r1, s1)" by (cases "m s")
  obtain ev1 where ev1: "pf_log s1 = pf_log s @ ev1" "T r1 ev1" using assms(1) m unfolding emits_def by blast
  show "\<exists>ev. pf_log s' = pf_log s @ ev \<and> ((\<exists>e. r = Inl e \<and> T (Inl e) ev) \<or>
    (\<exists>a ev1 ev2. ev = ev1 @ ev2 \<and> T (Inr a) ev1 \<and> U a r ev2))"
  proof (cases r1)
    case (Inl e)
    then show ?thesis using b m ev1 by (auto simp: bind_def)
  next
    case (Inr a)
    then have "f a s1 = (r, s')" using b m by (simp add: bind_def)
    then obtain ev2 where "pf_log s' = pf_log s1 @ ev2" "U a r ev2" using assms(2) unfolding emits_def by blast
    then show ?thesis using ev1 Inr by auto
  qed
qed

text \<open>Sequencing after a silent step, which is what most steps are.\<close>

lemma emits_silent_bind:
  assumes "silently m P" and "\<And>a. P a \<Longrightarrow> emits (f a) T" and "\<And>e. T (Inl e) []"
  shows "emits (bind m f) T"
  unfolding emits_def
proof (intro allI impI)
  fix s r s' assume b: "bind m f s = (r, s')"
  obtain r1 s1 where m: "m s = (r1, s1)" by (cases "m s")
  then have s1: "pf_log s1 = pf_log s" "case r1 of Inl _ \<Rightarrow> True | Inr a \<Rightarrow> P a"
    using assms(1) unfolding emits_def by fastforce+
  show "\<exists>ev. pf_log s' = pf_log s @ ev \<and> T r ev"
  proof (cases r1)
    case (Inl e)
    then show ?thesis using b m s1 assms(3) by (auto simp: bind_def)
  next
    case (Inr a)
    then have "f a s1 = (r, s')" "P a" using b m s1 by (simp_all add: bind_def)
    then show ?thesis using assms(2) s1 unfolding emits_def by metis
  qed
qed

lemma emits_silent_andthen:
  "silently m P \<Longrightarrow> (\<And>a. P a \<Longrightarrow> emits n T) \<Longrightarrow> (\<And>e. T (Inl e) []) \<Longrightarrow> emits (andthen m n) T"
  unfolding andthen_def by (rule emits_silent_bind)

lemma silently_outside [emit_rules]: "silently (outside f) (\<lambda>a. \<exists>t t'. f t = (Inr a, t'))"
  by (auto simp: emits_def outside_def split_beta Let_def split: sum.split prod.splits) (metis surjective_pairing)

lemma silently_mono: "silently m P \<Longrightarrow> (\<And>a. P a \<Longrightarrow> Q a) \<Longrightarrow> silently m Q"
  by (erule emits_mono) (auto split: sum.splits)

lemma silently_always [emit_rules]: "silently (always f) (\<lambda>a. \<exists>t. a = fst (f t))"
  unfolding always_def by (rule silently_mono [OF silently_outside]) (auto simp: split_beta)

lemma silently_on_fs [emit_rules]: "silently (on_fs m) (\<lambda>a. \<exists>f f'. m f = (Inr a, f'))"
  unfolding on_fs_def by (rule silently_mono [OF silently_outside]) (auto simp: split_beta, metis prod.collapse)

lemma silently_on_txm [emit_rules]: "silently (on_txm m) (\<lambda>a. \<exists>t t'. m t = (Inr a, t'))"
  unfolding on_txm_def by (rule silently_mono [OF silently_outside]) (auto simp: split_beta, metis prod.collapse)

lemma silently_guard [emit_rules]: "silently (guard b e) (\<lambda>_. b)"
  by (simp add: emits_def guard_def ret_def throw_def)

lemma emits_ret: "emits (ret a) (\<lambda>r ev. r = Inr a \<and> ev = [])"
  by (simp add: emits_def ret_def)

lemma emits_throw: "emits (throw e) (\<lambda>r ev. r = Inl e \<and> ev = [])"
  by (simp add: emits_def throw_def)

lemma emits_note: "emits (note_event e) (\<lambda>r ev. r = Inr () \<and> ev = [e])"
  by (simp add: emits_def note_event_def modify_def)

lemma emits_request:
  "emits (request d q envelopeId) (\<lambda>r ev. case r of Inl _ \<Rightarrow> ev = [Sent q] | Inr _ \<Rightarrow> ev = [Sent q, Answered q])"
  by (auto simp: emits_def request_def andthen_def bind_def note_event_def modify_def outside_def ret_def
      split_beta Let_def split: sum.splits prod.splits)

lemma silently_requireRoot [emit_rules]: "silently (requireRoot r w x) (\<lambda>_. rp_root r = w)"
  unfolding requireRoot_def by (rule silently_guard)

lemma silently_resolve [emit_rules]:
  "silently (resolve_in d p me) (\<lambda>r. \<exists>f f'. resolvePatchPath (pd_roots d) p me f = (Inr r, f'))"
  unfolding resolve_in_def by (rule silently_on_fs)

lemma silently_reserve [emit_rules]:
  "silently (reserve_in d l ms) (\<lambda>p. \<exists>f f'. reserveCheckpointPath (pd_deny d) (pd_roots d) l ms f = (Inr p, f'))"
  unfolding reserve_in_def by (rule silently_on_fs)

lemma silently_verify [emit_rules]:
  "silently (verify_in d tok) (\<lambda>b. \<exists>now t t'. verifyLoadToken (pd_mac d) now tok t = (Inr b, t'))"
  unfolding verify_in_def
  by (rule emits_silent_bind [OF silently_always])
    (auto intro!: silently_mono [OF silently_on_txm])

lemma emits_consume:
  "emits (consume_in d tok) (\<lambda>r ev. case r of Inl _ \<Rightarrow> ev = []
     | Inr _ \<Rightarrow> \<exists>b now t t'. ev = [Consumed b] \<and> consumeLoadToken (pd_mac d) now tok t = (Inr b, t'))"
  unfolding consume_in_def
  by (rule emits_silent_bind [OF silently_always], rule emits_silent_bind [OF silently_on_txm])
    (auto intro!: emits_mono [OF emits_note], blast)

lemma emits_catching:
  assumes "emits m T" and "\<And>e. emits (h e) (U e)"
  shows "emits (catching m h) (\<lambda>r ev. (\<exists>a. r = Inr a \<and> T r ev) \<or>
    (\<exists>e ev1 ev2. ev = ev1 @ ev2 \<and> T (Inl e) ev1 \<and> U e r ev2))"
  unfolding emits_def
proof (intro allI impI)
  fix s r s' assume b: "catching m h s = (r, s')"
  obtain r1 s1 where m: "m s = (r1, s1)" by (cases "m s")
  obtain ev1 where ev1: "pf_log s1 = pf_log s @ ev1" "T r1 ev1" using assms(1) m unfolding emits_def by blast
  show "\<exists>ev. pf_log s' = pf_log s @ ev \<and> ((\<exists>a. r = Inr a \<and> T r ev) \<or>
    (\<exists>e ev1 ev2. ev = ev1 @ ev2 \<and> T (Inl e) ev1 \<and> U e r ev2))"
  proof (cases r1)
    case (Inl e)
    then have "h e s1 = (r, s')" using b m by (simp add: catching_def)
    then obtain ev2 where "pf_log s' = pf_log s1 @ ev2" "U e r ev2" using assms(2) unfolding emits_def by blast
    then show ?thesis using ev1 Inl by auto
  next
    case (Inr a)
    then show ?thesis using b m ev1 by (auto simp: catching_def)
  qed
qed

lemma silently_release: "silently (release_in p) (\<lambda>_. True)"
  unfolding release_in_def by (rule silently_mono [OF silently_on_fs]) simp

lemma emits_recovery:
  "emits (recovery_checkpoint d kind inst ms) (\<lambda>r ev. (\<exists>e. r = Inl e \<and> ev = []) \<or>
     (\<exists>p opid. (\<exists>f f'. reserveCheckpointPath (pd_deny d) (pd_roots d) (Some ''recovery'') ms f = (Inr p, f')) \<and>
       ((\<exists>e. r = Inl e \<and> ev = [Sent (SaveCopy (scopeFor inst) (path_str p) opid)]) \<or>
        r = Inr p \<and> ev = [Sent (SaveCopy (scopeFor inst) (path_str p) opid),
          Answered (SaveCopy (scopeFor inst) (path_str p) opid)])))"
  unfolding recovery_checkpoint_def
proof (rule emits_silent_bind)
  show "silently (catching (reserve_in d (Some ''recovery'') ms) (\<lambda>err. throw (recovery_failed kind err)))
      (\<lambda>p. \<exists>f f'. reserveCheckpointPath (pd_deny d) (pd_roots d) (Some ''recovery'') ms f = (Inr p, f'))"
    by (rule emits_mono [OF emits_catching [OF silently_reserve emits_throw]]) auto
  fix p assume p: "\<exists>f f'. reserveCheckpointPath (pd_deny d) (pd_roots d) (Some ''recovery'') ms f = (Inr p, f')"
  show "emits (bind (always (pd_randomUUID d)) (\<lambda>opid. bind (always (pd_randomUUID d)) (\<lambda>envelopeId.
     bind (catching (request d (SaveCopy (scopeFor inst) (path_str p) opid) envelopeId)
       (\<lambda>err. andthen (if pluginReportedFailure err then release_in p else ret ())
         (throw (recovery_failed kind err)))) (\<lambda>res. ret p))))
     (\<lambda>r ev. (\<exists>e. r = Inl e \<and> ev = []) \<or>
     (\<exists>p opid. (\<exists>f f'. reserveCheckpointPath (pd_deny d) (pd_roots d) (Some ''recovery'') ms f = (Inr p, f')) \<and>
       ((\<exists>e. r = Inl e \<and> ev = [Sent (SaveCopy (scopeFor inst) (path_str p) opid)]) \<or>
        r = Inr p \<and> ev = [Sent (SaveCopy (scopeFor inst) (path_str p) opid),
          Answered (SaveCopy (scopeFor inst) (path_str p) opid)])))"
  proof (rule emits_silent_bind [OF silently_always], rule emits_silent_bind [OF silently_always])
    fix opid envelopeId
    let ?q = "SaveCopy (scopeFor inst) (path_str p) opid"
    have rel: "silently (if pluginReportedFailure err then release_in p else ret ()) (\<lambda>_. True)" for err
    proof (cases "pluginReportedFailure err")
      case True
      then show ?thesis using silently_release [of p] by simp
    next
      case False
      then show ?thesis by (simp add: emits_def ret_def)
    qed
    have h: "emits (andthen (if pluginReportedFailure err then release_in p else ret ()) (throw (recovery_failed kind err)))
        (\<lambda>r ev. (\<exists>e. r = Inl e) \<and> ev = [])" for err
      by (rule emits_silent_andthen [OF rel]) (auto intro: emits_mono [OF emits_throw])
    show "emits (bind (catching (request d ?q envelopeId) (\<lambda>err. andthen (if pluginReportedFailure err then release_in p else ret ())
         (throw (recovery_failed kind err)))) (\<lambda>res. ret p))
     (\<lambda>r ev. (\<exists>e. r = Inl e \<and> ev = []) \<or>
     (\<exists>p opid. (\<exists>f f'. reserveCheckpointPath (pd_deny d) (pd_roots d) (Some ''recovery'') ms f = (Inr p, f')) \<and>
       ((\<exists>e. r = Inl e \<and> ev = [Sent (SaveCopy (scopeFor inst) (path_str p) opid)]) \<or>
        r = Inr p \<and> ev = [Sent (SaveCopy (scopeFor inst) (path_str p) opid),
          Answered (SaveCopy (scopeFor inst) (path_str p) opid)])))"
      by (rule emits_mono [OF emits_bind [OF emits_catching [OF emits_request h] emits_ret]]) (use p in fastforce)
  qed simp_all
qed simp

section \<open>Properties\<close>

definition destructive :: "pf_request \<Rightarrow> bool" where
  "destructive q = (case q of LoadPatchFile sc p b i \<Rightarrow> True | ClearPatchFile sc i \<Rightarrow> True | _ \<Rightarrow> False)"

text \<open>The request a confirmed commit may send: for a load the file the confirmation names,
  re-resolved inside the one root that belongs to the kind.\<close>

definition confirmed_request :: "'w pf_deps \<Rightarrow> load_kind \<Rightarrow> load_token_binding \<Rightarrow> selected_instance \<Rightarrow> string \<Rightarrow>
  pf_request \<Rightarrow> bool" where
  "confirmed_request d kind b inst opid q =
     (if kind = ClearPatch then q = ClearPatchFile (scopeFor inst) opid
      else (\<exists>r f f'. resolvePatchPath (pd_roots d) (case lt_path b of None \<Rightarrow> [] | Some p \<Rightarrow> p) True f = (Inr r, f') \<and>
        rp_root r = (if kind = RestorePatch then Checkpoints else Patches) \<and>
        q = LoadPatchFile (scopeFor inst) (path_str (rp_absolute r)) (kind = LoadPatch) opid))"

text \<open>What a commit may do, whatever the bridge answers and whatever runs in between: the
  confirmation is live and binds this operation, the recovery copy goes to a freshly claimed
  checkpoint and is answered, the confirmation is spent, and only then is the confirmed
  destructive request sent, once.  Only the complete sequence returns a result.\<close>

definition commit_trace :: "'w pf_deps \<Rightarrow> load_kind \<Rightarrow> string \<Rightarrow> string \<Rightarrow> string option \<Rightarrow>
  exn + load_result \<Rightarrow> pf_event list \<Rightarrow> bool" where
  "commit_trace d kind token opid expected r ev = (isl r \<and> ev = [] \<or>
     (\<exists>inst b p o1. (\<exists>now t t'. verifyLoadToken (pd_mac d) now token t = (Inr b, t')) \<and>
       lt_kind b = kind \<and> lt_instanceId b = si_instanceId inst \<and> lt_sessionId b = si_sessionId inst \<and>
       (expected = None \<or> samePath (lt_path b) (the expected)) \<and>
       (\<exists>l ms f f'. reserveCheckpointPath (pd_deny d) (pd_roots d) l ms f = (Inr p, f')) \<and>
       (let q = SaveCopy (scopeFor inst) (path_str p) o1 in
        isl r \<and> (ev = [Sent q] \<or> ev = [Sent q, Answered q]) \<or>
        (\<exists>c. (\<exists>now t t'. consumeLoadToken (pd_mac d) now token t = (Inr c, t')) \<and>
          (isl r \<and> ev = [Sent q, Answered q, Consumed c] \<or>
           (\<exists>x. confirmed_request d kind b inst opid x \<and>
             (isl r \<and> ev = [Sent q, Answered q, Consumed c, Sent x] \<or>
              (\<exists>a. r = Inr a \<and> lr_recoveryCheckpointPath a = path_str p) \<and>
                ev = [Sent q, Answered q, Consumed c, Sent x, Answered x])))))))"

lemma emits_bind_at:
  "emits m T \<Longrightarrow> (\<And>a. emits (f a) (U a)) \<Longrightarrow>
   (\<And>e ev. T (Inl e) ev \<Longrightarrow> V (Inl e) ev) \<Longrightarrow> (\<And>a ev1 ev2 r. T (Inr a) ev1 \<Longrightarrow> U a r ev2 \<Longrightarrow> V r (ev1 @ ev2)) \<Longrightarrow>
   emits (bind m f) V"
  by (rule emits_mono [OF emits_bind [of m T f U]]) auto

lemma emits_destroy:
  "emits (bind (if kind = ClearPatch then request d (ClearPatchFile (scopeFor inst) opid) opid
       else bind (resolve_in d (case lt_path b of None \<Rightarrow> [] | Some p \<Rightarrow> p) True) (\<lambda>r.
         andthen (requireRoot r (if kind = RestorePatch then Checkpoints else Patches) ''the load source'') (
         request d (LoadPatchFile (scopeFor inst) (path_str (rp_absolute r)) (kind = LoadPatch) opid) opid))) (\<lambda>res. ret (g res)))
   (\<lambda>r ev. (\<exists>e. r = Inl e) \<and> ev = [] \<or> (\<exists>x. confirmed_request d kind b inst opid x \<and>
      ((\<exists>e. r = Inl e) \<and> ev = [Sent x] \<or> (\<exists>a. r = Inr (g a)) \<and> ev = [Sent x, Answered x])))"
proof (rule emits_bind_at [where T = "\<lambda>r ev. (\<exists>e. r = Inl e) \<and> ev = [] \<or> (\<exists>x. confirmed_request d kind b inst opid x \<and>
      ((\<exists>e. r = Inl e) \<and> ev = [Sent x] \<or> (\<exists>a. r = Inr a) \<and> ev = [Sent x, Answered x]))"])
  show "emits (if kind = ClearPatch then request d (ClearPatchFile (scopeFor inst) opid) opid
       else bind (resolve_in d (case lt_path b of None \<Rightarrow> [] | Some p \<Rightarrow> p) True) (\<lambda>r.
         andthen (requireRoot r (if kind = RestorePatch then Checkpoints else Patches) ''the load source'') (
         request d (LoadPatchFile (scopeFor inst) (path_str (rp_absolute r)) (kind = LoadPatch) opid) opid)))
     (\<lambda>r ev. (\<exists>e. r = Inl e) \<and> ev = [] \<or> (\<exists>x. confirmed_request d kind b inst opid x \<and>
      ((\<exists>e. r = Inl e) \<and> ev = [Sent x] \<or> (\<exists>a. r = Inr a) \<and> ev = [Sent x, Answered x])))"
  proof (cases "kind = ClearPatch")
    case True
    then show ?thesis
      by (auto intro!: emits_mono [OF emits_request] simp: confirmed_request_def split: sum.splits)
  next
    case False
    let ?root = "if kind = RestorePatch then Checkpoints else Patches"
    have "emits (bind (resolve_in d (case lt_path b of None \<Rightarrow> [] | Some p \<Rightarrow> p) True) (\<lambda>r.
         andthen (requireRoot r ?root ''the load source'') (
         request d (LoadPatchFile (scopeFor inst) (path_str (rp_absolute r)) (kind = LoadPatch) opid) opid)))
       (\<lambda>r ev. (\<exists>e. r = Inl e) \<and> ev = [] \<or> (\<exists>x. confirmed_request d kind b inst opid x \<and>
      ((\<exists>e. r = Inl e) \<and> ev = [Sent x] \<or> (\<exists>a. r = Inr a) \<and> ev = [Sent x, Answered x])))"
    proof (rule emits_silent_bind [OF silently_resolve])
      fix r assume r: "\<exists>f f'. resolvePatchPath (pd_roots d) (case lt_path b of None \<Rightarrow> [] | Some p \<Rightarrow> p) True f = (Inr r, f')"
      show "emits (andthen (requireRoot r ?root ''the load source'') (
         request d (LoadPatchFile (scopeFor inst) (path_str (rp_absolute r)) (kind = LoadPatch) opid) opid))
       (\<lambda>r ev. (\<exists>e. r = Inl e) \<and> ev = [] \<or> (\<exists>x. confirmed_request d kind b inst opid x \<and>
      ((\<exists>e. r = Inl e) \<and> ev = [Sent x] \<or> (\<exists>a. r = Inr a) \<and> ev = [Sent x, Answered x])))"
      proof (rule emits_silent_andthen [OF silently_requireRoot])
        assume root: "rp_root r = ?root"
        have "confirmed_request d kind b inst opid
            (LoadPatchFile (scopeFor inst) (path_str (rp_absolute r)) (kind = LoadPatch) opid)"
          unfolding confirmed_request_def if_not_P [OF False] using r root by blast
        then show "emits (request d (LoadPatchFile (scopeFor inst) (path_str (rp_absolute r)) (kind = LoadPatch) opid) opid)
          (\<lambda>r ev. (\<exists>e. r = Inl e) \<and> ev = [] \<or> (\<exists>x. confirmed_request d kind b inst opid x \<and>
      ((\<exists>e. r = Inl e) \<and> ev = [Sent x] \<or> (\<exists>a. r = Inr a) \<and> ev = [Sent x, Answered x])))"
          by (intro emits_mono [OF emits_request]) (auto split: sum.splits)
      qed simp
    qed simp
    then show ?thesis using False by simp
  qed
qed (rule emits_ret, auto)

lemma emits_commit:
  "emits (commitLoadOrClear d kind token opid expected) (\<lambda>r ev. commit_trace d kind token opid expected r ev)"
  unfolding commitLoadOrClear_def
proof (rule emits_silent_bind [OF silently_outside], rule emits_silent_bind [OF silently_verify],
    rule emits_silent_andthen [OF silently_guard], rule emits_silent_andthen [OF silently_guard],
    rule emits_silent_bind [OF silently_outside], rule emits_silent_andthen [OF silently_guard],
    rule emits_silent_andthen [OF silently_guard], rule emits_silent_andthen [OF silently_outside],
    rule emits_silent_bind [OF silently_always])
  fix inst :: selected_instance and b :: load_token_binding and live :: patch_fingerprint and ms :: int
  assume b: "\<exists>now t t'. verifyLoadToken (pd_mac d) now token t = (Inr b, t')"
    and k: "lt_kind b = kind \<and> lt_instanceId b = si_instanceId inst \<and> lt_sessionId b = si_sessionId inst"
    and x: "expected = None \<or> samePath (lt_path b) (the expected)"
  let ?rest = "\<lambda>recovery. bind (if kind = ClearPatch then request d (ClearPatchFile (scopeFor inst) opid) opid
       else bind (resolve_in d (case lt_path b of None \<Rightarrow> [] | Some p \<Rightarrow> p) True) (\<lambda>r.
         andthen (requireRoot r (if kind = RestorePatch then Checkpoints else Patches) ''the load source'') (
         request d (LoadPatchFile (scopeFor inst) (path_str (rp_absolute r)) (kind = LoadPatch) opid) opid))) (\<lambda>res.
     ret \<lparr>lr_fingerprint = pr_fingerprint res, lr_patchEpoch = pr_patchEpoch res, lr_patchName = pr_patchName res,
          lr_saved = pr_saved res, lr_bridgeModulePresent = pr_bridgeModulePresent res,
          lr_recoveryCheckpointPath = path_str recovery, lr_warnings = pr_warnings res,
          lr_replayed = pr_replayed res\<rparr>)"
  have tail: "emits (andthen (consume_in d token) (?rest p)) (\<lambda>r ev. isl r \<and> ev = [] \<or>
      (\<exists>c. (\<exists>now t t'. consumeLoadToken (pd_mac d) now token t = (Inr c, t')) \<and>
        (isl r \<and> ev = [Consumed c] \<or> (\<exists>x. confirmed_request d kind b inst opid x \<and>
          (isl r \<and> ev = [Consumed c, Sent x] \<or>
           (\<exists>a. r = Inr a \<and> lr_recoveryCheckpointPath a = path_str p) \<and> ev = [Consumed c, Sent x, Answered x])))))" for p
    unfolding andthen_def [of "consume_in d token"]
    proof (rule emits_bind_at [OF emits_consume emits_destroy], goal_cases)
    case 1
    then show ?case by simp
  next
    case (2 u ev1 ev2 r)
    then obtain c where ev1: "ev1 = [Consumed c]" and c: "\<exists>now t t'. consumeLoadToken (pd_mac d) now token t = (Inr c, t')"
      by auto
    have "(isl r \<and> ev1 @ ev2 = [Consumed c] \<or> (\<exists>x. confirmed_request d kind b inst opid x \<and>
          (isl r \<and> ev1 @ ev2 = [Consumed c, Sent x] \<or>
           (\<exists>a. r = Inr a \<and> lr_recoveryCheckpointPath a = path_str p) \<and> ev1 @ ev2 = [Consumed c, Sent x, Answered x])))"
      using 2(2) by (auto simp: ev1)
    with c show ?case by blast
  qed
  show "emits (bind (recovery_checkpoint d kind inst ms) (\<lambda>p. andthen (consume_in d token) (?rest p)))
      (\<lambda>r ev. commit_trace d kind token opid expected r ev)"
  proof (rule emits_bind_at [OF emits_recovery tail])
    fix e ev
    assume "(\<exists>e'. Inl e = (Inl e' :: exn + fspath) \<and> ev = []) \<or>
     (\<exists>p opid. (\<exists>f f'. reserveCheckpointPath (pd_deny d) (pd_roots d) (Some ''recovery'') ms f = (Inr p, f')) \<and>
       ((\<exists>e'. Inl e = (Inl e' :: exn + fspath) \<and> ev = [Sent (SaveCopy (scopeFor inst) (path_str p) opid)]) \<or>
        Inl e = Inr p \<and> ev = [Sent (SaveCopy (scopeFor inst) (path_str p) opid),
          Answered (SaveCopy (scopeFor inst) (path_str p) opid)]))"
    then consider "ev = []" | p o1 where
        "\<exists>l ms f f'. reserveCheckpointPath (pd_deny d) (pd_roots d) l ms f = (Inr p, f')"
        "ev = [Sent (SaveCopy (scopeFor inst) (path_str p) o1)]"
      by blast
    then show "commit_trace d kind token opid expected (Inl e) ev"
    proof cases
      case 1
      then show ?thesis by (simp add: commit_trace_def)
    next
      case (2 p o1)
      show ?thesis unfolding commit_trace_def Let_def
        apply (intro disjI2 exI [of _ inst] exI [of _ b] exI [of _ p] exI [of _ o1])
        using b k x 2 by auto
    qed
  next
    fix p ev1 ev2 and r :: "exn + load_result"
    assume "(\<exists>e. Inr p = (Inl e :: exn + fspath) \<and> ev1 = []) \<or>
     (\<exists>p' o1. (\<exists>f f'. reserveCheckpointPath (pd_deny d) (pd_roots d) (Some ''recovery'') ms f = (Inr p', f')) \<and>
       ((\<exists>e. Inr p = (Inl e :: exn + fspath) \<and> ev1 = [Sent (SaveCopy (scopeFor inst) (path_str p') o1)]) \<or>
        Inr p = Inr p' \<and> ev1 = [Sent (SaveCopy (scopeFor inst) (path_str p') o1),
          Answered (SaveCopy (scopeFor inst) (path_str p') o1)]))"
    then obtain o1 where o1: "\<exists>l ms f f'. reserveCheckpointPath (pd_deny d) (pd_roots d) l ms f = (Inr p, f')"
      "ev1 = [Sent (SaveCopy (scopeFor inst) (path_str p) o1), Answered (SaveCopy (scopeFor inst) (path_str p) o1)]"
      by blast
    assume "isl r \<and> ev2 = [] \<or> (\<exists>c. (\<exists>now t t'. consumeLoadToken (pd_mac d) now token t = (Inr c, t')) \<and>
        (isl r \<and> ev2 = [Consumed c] \<or> (\<exists>x. confirmed_request d kind b inst opid x \<and>
          (isl r \<and> ev2 = [Consumed c, Sent x] \<or>
           (\<exists>a. r = Inr a \<and> lr_recoveryCheckpointPath a = path_str p) \<and> ev2 = [Consumed c, Sent x, Answered x]))))"
    then show "commit_trace d kind token opid expected r (ev1 @ ev2)"
      unfolding commit_trace_def Let_def
      apply (intro disjI2 exI [of _ inst] exI [of _ b] exI [of _ p] exI [of _ o1])
      using b k x o1 by auto
  qed
qed (simp_all add: commit_trace_def)

definition demo_deps :: "unit pf_deps" where
  "demo_deps = \<lparr>pd_now = \<lambda>t. (1700000000000, t), pd_randomUUID = \<lambda>t. (''u'', t), pd_randomBytes = \<lambda>t. (''r'', t),
     pd_ensureConnected = \<lambda>t. (Inr \<lparr>si_instanceId = ''i'', si_sessionId = ''s''\<rparr>, t),
     pd_ensureLease = \<lambda>t. (Inr (), t), pd_statusSaved = \<lambda>t. (Inr True, t),
     pd_fingerprint = \<lambda>t. (Inr \<lparr>fp_fingerprint = ''f'', fp_patchEpoch = 3\<rparr>, t),
     pd_request = \<lambda>q op ms t. (Inr \<lparr>pr_fingerprint = ''g'', pr_patchEpoch = 4, pr_patchName = None, pr_path = [],
       pr_saved = True, pr_bridgeModulePresent = True, pr_warnings = [], pr_replayed = False\<rparr>, t),
     pd_deny = \<lambda>_. None, pd_roots = demo_roots, pd_mac = (\<lambda>b. CHR ''m'' # b), pd_patchIoTimeoutMs = 30000\<rparr>"

definition demo_state :: "unit pf_state" where
  "demo_state = \<lparr>pf_shared = \<lparr>sh_txm = new_txm\<lparr>loadBindings := [(''r'', \<lparr>lb_binding = \<lparr>lt_instanceId = ''i'',
       lt_sessionId = ''s'', lt_kind = ClearPatch, lt_path = None, lt_patchEpoch = 3, lt_fingerprint = ''f''\<rparr>,
       lb_expiresAt = 1700000000000\<rparr>)]\<rparr>, sh_fs = demo_fs, sh_world = ()\<rparr>, pf_log = []\<rparr>"

abbreviation demo_copy :: pf_request where
  "demo_copy \<equiv> SaveCopy \<lparr>ws_instanceId = ''i'', ws_sessionId = ''s'', ws_patchEpoch = 0\<rparr>
     ''/rack/RackMCP/checkpoints/2023-11-14T22-13-20-000Z_recovery.vcv'' ''u''"

definition demo_fs1 :: fs where
  "demo_fs1 = snd (canonicalDir [] ''/rack/RackMCP/checkpoints'' demo_fs)"

lemma demo_canon: "fst (canonicalDir [] ''/rack/RackMCP/checkpoints'' demo_fs) = Inr [''rack'', ''RackMCP'', ''checkpoints'']"
  by code_simp

lemma demo_dir: "stat_node demo_fs1 [''rack'', ''RackMCP'', ''checkpoints''] = Some DirNode"
  by code_simp

lemma demo_free: "lstat_node demo_fs1 [''rack'', ''RackMCP'', ''checkpoints'', ''2023-11-14T22-13-20-000Z_recovery.vcv''] = None"
  by code_simp

lemma demo_stem: "checkpoint_stem (Some ''recovery'') 1700000000000 = ''2023-11-14T22-13-20-000Z_recovery''"
proof -
  have "stamp_text 1700000000000 = ''2023-11-14T22-13-20-000Z''" by code_simp
  then show ?thesis
    by (simp add: checkpoint_stem_def safe_label_def label_char_def letter_def digit_def char_lower_def)
qed

lemma demo_reserved: "fst (reserveCheckpointPath (\<lambda>_. None) demo_roots (Some ''recovery'') 1700000000000 demo_fs) =
    Inr [''rack'', ''RackMCP'', ''checkpoints'', ''2023-11-14T22-13-20-000Z_recovery.vcv'']"
proof -
  have c: "canonicalDir [] ''/rack/RackMCP/checkpoints'' demo_fs = (Inr [''rack'', ''RackMCP'', ''checkpoints''], demo_fs1)"
    unfolding demo_fs1_def demo_canon [symmetric] by simp
  have m: "reserve_loop deny b n MAX_CHECKPOINT_ATTEMPTS fs = (case open_exclusive deny (candidate b n) fs of
        Inr fs' \<Rightarrow> (Inr (candidate b n), fs')
      | Inl e \<Rightarrow> if e = EEXIST then reserve_loop deny b (Suc n) 99 fs
          else (Inl (tool_error_retry INTERNAL (''the checkpoint file could not be created ('' @ os_code e @
            ''); make the checkpoints directory writable with free space, then retry'') True), fs))" for deny b n fs
    using reserve_loop.simps(2) [of deny b n 99] by (simp add: MAX_CHECKPOINT_ATTEMPTS_def)
  show ?thesis
    by (simp add: reserveCheckpointPath_def checkpointPath_def bind_def ret_def demo_roots_def c m demo_stem
      candidate_def open_exclusive_def demo_dir demo_free)
qed

lemma run_steps:
  "bind m f s = (case m s of (Inl e, s') \<Rightarrow> (Inl e, s') | (Inr a, s') \<Rightarrow> f a s')"
  "andthen m n s = (case m s of (Inl e, s') \<Rightarrow> (Inl e, s') | (Inr a, s') \<Rightarrow> n s')"
  "catching m h s = (case m s of (Inl e, s') \<Rightarrow> h e s' | (Inr a, s') \<Rightarrow> (Inr a, s'))"
  "ret a s = (Inr a, s)" "throw e s = (Inl e, s)" "guard c e s = (if c then (Inr (), s) else (Inl e, s))"
  "outside g t = (let (r, sh) = g (pf_shared t) in (r, t\<lparr>pf_shared := sh\<rparr>))"
  "always k t = (let (r, sh) = k (pf_shared t) in (Inr r, t\<lparr>pf_shared := sh\<rparr>))"
  "note_event ev t = (Inr (), t\<lparr>pf_log := pf_log t @ [ev]\<rparr>)"
  by (simp_all add: bind_def andthen_def catching_def ret_def throw_def guard_def outside_def always_def
      note_event_def modify_def split_beta Let_def)

lemma demo_commit:
  "\<exists>a s' c. commitLoadOrClear demo_deps ClearPatch ''r.mr'' ''op'' None demo_state = (Inr a, s') \<and>
     pf_log s' = [Sent demo_copy, Answered demo_copy, Consumed c,
       Sent (ClearPatchFile \<lparr>ws_instanceId = ''i'', ws_sessionId = ''s'', ws_patchEpoch = 0\<rparr> ''op''),
       Answered (ClearPatchFile \<lparr>ws_instanceId = ''i'', ws_sessionId = ''s'', ws_patchEpoch = 0\<rparr> ''op'')]"
proof -
  obtain fs' where r: "reserveCheckpointPath (\<lambda>_. None) demo_roots (Some ''recovery'') 1700000000000 demo_fs =
    (Inr [''rack'', ''RackMCP'', ''checkpoints'', ''2023-11-14T22-13-20-000Z_recovery.vcv''], fs')"
    using demo_reserved by (metis prod.collapse)
  show ?thesis
    by (simp add: commitLoadOrClear_def recovery_checkpoint_def run_steps on_fs_def on_txm_def verify_in_def
      consume_in_def request_def reserve_in_def demo_deps_def demo_state_def verifyLoadToken_def
      consumeLoadToken_def lookupLoadToken_def new_txm_def map_get_def r scopeFor_def path_str_def)
qed

text \<open>C25: the live patch is destroyed only with the user's confirmation and a recovery copy.
  Whatever the plugin answers and whatever other handlers do between the steps, a load,
  clear or restore commit sends at most: the copy of the current patch to a freshly claimed
  checkpoint; then, once that is answered and the confirmation (which is live and binds this
  kind, instance, session and file) has been spent, one destructive request, which is the
  confirmed one, re-resolved inside the root of its kind.  Only the complete sequence
  returns a result, and it names the recovery copy.
\<close>

theorem destruction_guarded:
  assumes "commitLoadOrClear d kind token opid expected s = (r, s')"
  shows "\<exists>ev. pf_log s' = pf_log s @ ev \<and> commit_trace d kind token opid expected r ev"
  using emits_commit [of d kind token opid expected] assms unfolding emits_def by blast

lemma destruction_guarded_witness:
  "\<exists>a s'. commitLoadOrClear demo_deps ClearPatch ''r.mr'' ''op'' None demo_state = (Inr a, s') \<and>
     length (pf_log s') = 5 \<and> commit_trace demo_deps ClearPatch ''r.mr'' ''op'' None (Inr a) (pf_log s')"
proof -
  obtain a s' where r: "commitLoadOrClear demo_deps ClearPatch ''r.mr'' ''op'' None demo_state = (Inr a, s')"
    "length (pf_log s') = 5"
    using demo_commit by force
  from destruction_guarded [OF r(1)] r show ?thesis by (auto simp: demo_state_def)
qed

end
