(* ===== verification/Client.thy ===== *)
theory Client
  imports Framing Transactions
begin

text \<open>
  The bridge client (\<open>packages/protocol/src/client.ts\<close>): framing, the handshake queue, request
  correlation with deadlines, heartbeats and teardown.  A promise is a number; the first
  settlement of a promise counts, as in JavaScript.  The timers that are armed are part of
  the state, and any of them may fire at any time.  \<open>JSON.parse\<close> of received text, the
  HMAC and the event hook are arguments.
\<close>

section \<open>State\<close>

datatype outcome =
    Resolved "json option"
  | Rejected exn
  | RemoteError json

datatype timer =
    RequestTimer string nat string int
  | HandshakeTimer nat
  | Heartbeat

record pending_entry =
  pe_promise :: nat
  pe_timer :: timer

record welcome_data =
  wd_instanceId :: "json option"
  wd_sessionId :: "json option"
  wd_bridgeVersion :: "json option"
  wd_rackVersion :: "json option"
  wd_rackEdition :: "json option"
  wd_patchEpoch :: "json option"
  wd_nonce :: "json option"

record client =
  cl_socket :: bool
  cl_decoder :: decoder
  cl_pending :: "(string, pending_entry) jsmap"
  cl_welcome :: "welcome_data option"
  cl_queue :: "nat list"
  cl_closed :: bool
  cl_timers :: "timer list"
  cl_settled :: "(nat, outcome) jsmap"
  cl_next :: nat
  cl_sent :: "json list"

record client_env =
  ce_parse :: "code_unit list \<Rightarrow> json option"
  ce_hmac :: "string \<Rightarrow> string \<Rightarrow> string"
  ce_closing_event :: "json option \<Rightarrow> json option \<Rightarrow> bool"
  ce_name :: string
  ce_version :: string
  ce_deadlineMs :: "int option"

definition new_client :: client where
  "new_client = \<lparr>cl_socket = False, cl_decoder = new_decoder (bridgeFrameBytes LIMITS), cl_pending = [],
     cl_welcome = None, cl_queue = [], cl_closed = False, cl_timers = [], cl_settled = [], cl_next = 0,
     cl_sent = []\<rparr>"

definition isConnected :: "client \<Rightarrow> bool" where
  "isConnected c = (cl_socket c \<and> \<not> cl_closed c)"

text \<open>Promises and timers.\<close>

definition settle :: "nat \<Rightarrow> outcome \<Rightarrow> client \<Rightarrow> client" where
  "settle p r c = (if map_has (cl_settled c) p then c else c\<lparr>cl_settled := map_set p r (cl_settled c)\<rparr>)"

definition arm :: "timer \<Rightarrow> client \<Rightarrow> client" where
  "arm t c = c\<lparr>cl_timers := t # cl_timers c\<rparr>"

definition disarm :: "timer \<Rightarrow> client \<Rightarrow> client" where
  "disarm t c = c\<lparr>cl_timers := removeAll t (cl_timers c)\<rparr>"

text \<open>\<open>clearInterval\<close> of the stored handle: the interval set last.  One that an earlier
  \<open>startHeartbeat\<close> set is not stored any more and keeps running.\<close>

definition clear_heartbeat :: "client \<Rightarrow> client" where
  "clear_heartbeat c = c\<lparr>cl_timers := remove1 Heartbeat (cl_timers c)\<rparr>"

definition fresh_promise :: "client \<Rightarrow> nat \<times> client" where
  "fresh_promise c = (cl_next c, c\<lparr>cl_next := Suc (cl_next c)\<rparr>)"

section \<open>Protocol versions\<close>

definition protocolVersionRange :: "int \<Rightarrow> int \<Rightarrow> int list" where
  "protocolVersionRange lo hi = (if hi < lo then [] else map (\<lambda>i. lo + int i) [0..<nat (hi - lo + 1)])"

definition BRIDGE_PROTOCOL_VERSION :: int where
  "BRIDGE_PROTOCOL_VERSION = 1"

definition BRIDGE_PROTOCOL_MIN_SUPPORTED :: int where
  "BRIDGE_PROTOCOL_MIN_SUPPORTED = 1"

definition SUPPORTED_PROTOCOL_VERSIONS :: "int list" where
  "SUPPORTED_PROTOCOL_VERSIONS = protocolVersionRange BRIDGE_PROTOCOL_MIN_SUPPORTED BRIDGE_PROTOCOL_VERSION"

lemma set_protocolVersionRange: "set (protocolVersionRange lo hi) = {lo..hi}"
proof -
  have "x \<in> (\<lambda>i. lo + int i) ` {0..<nat (hi - lo + 1)}" if "lo \<le> x" "x \<le> hi" for x
    by (rule image_eqI [of _ _ "nat (x - lo)"]) (use that in auto)
  then show ?thesis by (auto simp: protocolVersionRange_def)
qed

section \<open>Teardown\<close>

text \<open>What a request in flight is told when the connection goes.\<close>

definition pendingReason :: "string \<Rightarrow> exn" where
  "pendingReason message = BridgeErr \<lparr>rpc_code = ''RACK_DISCONNECTED'', rpc_message = message,
     rpc_retrySafe = False, rpc_mutationMayHaveOccurred = True, rpc_details = None, rpc_rollback = None\<rparr>"

definition reject_pending :: "string \<Rightarrow> client \<Rightarrow> client" where
  "reject_pending reason c = fold (\<lambda>(i, e) c. settle (pe_promise e) (Rejected (pendingReason reason)) (disarm (pe_timer e) c))
     (cl_pending c) c"

definition reject_waiters :: "string \<Rightarrow> nat list \<Rightarrow> client \<Rightarrow> client" where
  "reject_waiters reason = fold (\<lambda>p c. settle p (Rejected (PlainErr reason)) (disarm (HandshakeTimer p) c))"

definition teardown :: "string \<Rightarrow> client \<Rightarrow> client" where
  "teardown reason c =
     (if cl_closed c then c
      else let c1 = (clear_heartbeat (c\<lparr>cl_closed := True\<rparr>))\<lparr>cl_socket := False\<rparr>;
               c2 = (reject_pending reason c1)\<lparr>cl_pending := []\<rparr>
           in reject_waiters reason (cl_queue c2) (c2\<lparr>cl_queue := []\<rparr>))"

definition client_close :: "client \<Rightarrow> client" where
  "client_close = teardown ''client closed''"

section \<open>Sending\<close>

text \<open>\<open>JSON.stringify\<close> of a frame, as UTF-16 code units; its strings are held as UTF-8 bytes.\<close>

definition wire_text :: "json \<Rightarrow> code_unit list" where
  "wire_text j = text_units (stringify j)"

definition client_send :: "json \<Rightarrow> client \<Rightarrow> (exn + unit) \<times> client" where
  "client_send frame c =
     (if \<not> cl_socket c then (Inl (PlainErr ''not connected''), c)
      else case encodeFrame (wire_text frame) (bridgeFrameBytes LIMITS) of
        Inl e \<Rightarrow> (Inl e, c) | Inr bytes \<Rightarrow> (Inr (), c\<lparr>cl_sent := cl_sent c @ [frame]\<rparr>))"

definition request_frame :: "string \<Rightarrow> string \<Rightarrow> json \<Rightarrow> int \<Rightarrow> string option \<Rightarrow> json" where
  "request_frame i meth payload deadlineMs operationId = JObj (
     [(''kind'', JStr ''req''), (''id'', JStr i), (''method'', JStr meth),
      (''deadlineMs'', JNum (of_int deadlineMs)), (''payload'', payload)] @
     (case operationId of None \<Rightarrow> [] | Some x \<Rightarrow> if x = [] then [] else [(''operationId'', JStr x)]))"

text \<open>\<open>request\<close>: the random id is an argument; the result is the promise that will be settled.
  When the frame cannot be sent the call throws, and nobody holds the promise: its number is
  given back.\<close>

definition client_request :: "client_env \<Rightarrow> string \<Rightarrow> string \<Rightarrow> json \<Rightarrow> int option \<Rightarrow> string option \<Rightarrow> client \<Rightarrow>
  (exn + nat) \<times> client" where
  "client_request env i meth payload deadline operationId c =
     (if \<not> cl_socket c \<or> cl_closed c then (Inl (PlainErr ''not connected''), c)
      else let deadlineMs = (case deadline of Some d \<Rightarrow> d | None \<Rightarrow>
               (case ce_deadlineMs env of Some d \<Rightarrow> d | None \<Rightarrow> commandTimeoutMs LIMITS));
             (p, c1) = fresh_promise c;
             t = RequestTimer i p meth deadlineMs;
             c2 = (arm t c1)\<lparr>cl_pending := map_set i \<lparr>pe_promise = p, pe_timer = t\<rparr> (cl_pending c1)\<rparr>
           in case client_send (request_frame i meth payload deadlineMs operationId) c2 of
             (Inr _, c3) \<Rightarrow> (Inr p, c3)
           | (Inl e, c3) \<Rightarrow> (Inl e, (case map_get (cl_pending c3) i of None \<Rightarrow> c3
               | Some entry \<Rightarrow> disarm (pe_timer entry) (c3\<lparr>cl_pending := map_delete i (cl_pending c3)\<rparr>))
               \<lparr>cl_next := cl_next c\<rparr>))"

definition timeout_error :: "string \<Rightarrow> int \<Rightarrow> exn" where
  "timeout_error meth deadlineMs = BridgeErr \<lparr>rpc_code = ''TIMEOUT'',
     rpc_message = ''bridge request '' @ meth @ '' timed out after '' @ int_str deadlineMs @ ''ms'',
     rpc_retrySafe = False, rpc_mutationMayHaveOccurred = True, rpc_details = None, rpc_rollback = None\<rparr>"

text \<open>A heartbeat tick sends a ping; a failing send is ignored.\<close>

definition ping_frame :: "string \<Rightarrow> json" where
  "ping_frame i = JObj [(''kind'', JStr ''ping''), (''id'', JStr i)]"

text \<open>A timer fires once, except the interval; the random id of a ping is an argument.\<close>

definition fire :: "string \<Rightarrow> timer \<Rightarrow> client \<Rightarrow> client" where
  "fire rnd t c = (case t of
     RequestTimer i p meth deadlineMs \<Rightarrow>
       settle p (Rejected (timeout_error meth deadlineMs))
         ((disarm t c)\<lparr>cl_pending := map_delete i (cl_pending c)\<rparr>)
   | HandshakeTimer p \<Rightarrow> settle p (Rejected (PlainErr ''handshake timeout'')) (disarm t c)
   | Heartbeat \<Rightarrow> snd (client_send (ping_frame rnd) c))"

section \<open>Handshake\<close>

definition exchangeHandshake :: "json \<Rightarrow> client \<Rightarrow> nat \<times> client" where
  "exchangeHandshake frame c =
     (let (p, c1) = fresh_promise c;
          c2 = (arm (HandshakeTimer p) c1)\<lparr>cl_queue := cl_queue c1 @ [p]\<rparr>
      in case client_send frame c2 of
        (Inr _, c3) \<Rightarrow> (p, c3)
      | (Inl e, c3) \<Rightarrow> (p, settle p (Rejected e) (disarm (HandshakeTimer p) (c3\<lparr>cl_queue := butlast (cl_queue c3)\<rparr>))))"

definition hello_frame :: "client_env \<Rightarrow> json" where
  "hello_frame env = JObj [(''kind'', JStr ''hello''),
     (''versions'', JArr (map (\<lambda>v. JNum (of_int v)) SUPPORTED_PROTOCOL_VERSIONS)),
     (''client'', JObj [(''name'', JStr (ce_name env)), (''version'', JStr (ce_version env))])]"

text \<open>\<open>connect\<close> once the socket is open, and its continuation with the answer.\<close>

definition connect_open :: "client_env \<Rightarrow> client \<Rightarrow> nat \<times> client" where
  "connect_open env c = exchangeHandshake (hello_frame env) (c\<lparr>cl_socket := True\<rparr>)"

text \<open>\<open>error ?? fallback\<close> of a refused handshake.\<close>

definition refusal :: "json \<Rightarrow> string \<Rightarrow> string \<Rightarrow> outcome" where
  "refusal frame code message = (case js_prop frame ''error'' of
     Inr (Some e) \<Rightarrow> if e = JNull then Rejected (BridgeErr \<lparr>rpc_code = code, rpc_message = message,
       rpc_retrySafe = False, rpc_mutationMayHaveOccurred = False, rpc_details = None, rpc_rollback = None\<rparr>)
       else RemoteError e
   | _ \<Rightarrow> Rejected (BridgeErr \<lparr>rpc_code = code, rpc_message = message,
       rpc_retrySafe = False, rpc_mutationMayHaveOccurred = False, rpc_details = None, rpc_rollback = None\<rparr>))"

definition field :: "json \<Rightarrow> string \<Rightarrow> json option" where
  "field frame k = (case js_prop frame k of Inl e \<Rightarrow> None | Inr x \<Rightarrow> x)"

definition welcome_of :: "json \<Rightarrow> welcome_data" where
  "welcome_of f = \<lparr>wd_instanceId = field f ''instanceId'', wd_sessionId = field f ''sessionId'',
     wd_bridgeVersion = field f ''bridgeVersion'', wd_rackVersion = field f ''rackVersion'',
     wd_rackEdition = field f ''rackEdition'', wd_patchEpoch = field f ''patchEpoch'', wd_nonce = field f ''nonce''\<rparr>"

text \<open>String conversion in a template literal.\<close>

fun js_text :: "json \<Rightarrow> string" where
  "js_text JNull = ''null''"
| "js_text (JBool b) = (if b then ''true'' else ''false'')"
| "js_text (JNum r) = num_json r"
| "js_text (JStr s) = s"
| "js_text (JArr xs) = commas (map (\<lambda>x. if x = JNull then [] else js_text x) xs)"
| "js_text (JObj kvs) = ''[object Object]''"

definition js_text_opt :: "json option \<Rightarrow> string" where
  "js_text_opt x = (case x of None \<Rightarrow> ''undefined'' | Some j \<Rightarrow> js_text j)"

definition offered :: "json option \<Rightarrow> bool" where
  "offered v = (\<exists>n \<in> set SUPPORTED_PROTOCOL_VERSIONS. v = Some (JNum (of_int n)))"

definition connect_done :: "json \<Rightarrow> client \<Rightarrow> (outcome + welcome_data) \<times> client" where
  "connect_done welcome c =
     (if field welcome ''kind'' \<noteq> Some (JStr ''welcome'')
      then (Inl (refusal welcome ''PROTOCOL_VERSION_MISMATCH'' ''handshake failed''), client_close c)
      else let c1 = c\<lparr>cl_welcome := Some (welcome_of welcome)\<rparr>; negotiated = field welcome ''version''
        in if \<not> offered negotiated
           then (Inl (Rejected (BridgeErr \<lparr>rpc_code = ''PROTOCOL_VERSION_MISMATCH'',
               rpc_message = ''bridge selected protocol version '' @ js_text_opt negotiated @
                 '', which this client did not offer'',
               rpc_retrySafe = False, rpc_mutationMayHaveOccurred = False, rpc_details = None, rpc_rollback = None\<rparr>)),
               client_close c1)
           else (Inr (welcome_of welcome), c1))"

definition auth_message :: "welcome_data \<Rightarrow> string" where
  "auth_message w = js_text_opt (wd_nonce w) @ CHR ''|'' # js_text_opt (wd_instanceId w) @ CHR ''|'' #
     js_text_opt (wd_sessionId w)"

definition authenticate :: "client_env \<Rightarrow> string \<Rightarrow> client \<Rightarrow> (exn + nat) \<times> client" where
  "authenticate env secret c = (case cl_welcome c of
     None \<Rightarrow> (Inl (PlainErr ''connect() first''), c)
   | Some w \<Rightarrow> (let (p, c1) = exchangeHandshake (JObj [(''kind'', JStr ''auth''),
       (''hmac'', JStr (ce_hmac env secret (auth_message w)))]) c in (Inr p, c1)))"

definition startHeartbeat :: "client \<Rightarrow> client" where
  "startHeartbeat = arm Heartbeat"

definition authenticate_done :: "json \<Rightarrow> client \<Rightarrow> (outcome + unit) \<times> client" where
  "authenticate_done result c =
     (if field result ''kind'' \<noteq> Some (JStr ''authResult'') \<or> field result ''ok'' \<noteq> Some (JBool True)
      then (Inl (refusal result ''AUTHENTICATION_FAILED'' ''authentication failed''), client_close c)
      else (Inr (), startHeartbeat c))"

section \<open>Receiving\<close>

definition malformed_response :: outcome where
  "malformed_response = Rejected (BridgeErr \<lparr>rpc_code = ''INTERNAL'', rpc_message = ''malformed error response'',
     rpc_retrySafe = False, rpc_mutationMayHaveOccurred = True, rpc_details = None, rpc_rollback = None\<rparr>)"

definition response_outcome :: "json \<Rightarrow> outcome" where
  "response_outcome frame =
     (if field frame ''ok'' = Some (JBool True) then Resolved (field frame ''payload'')
      else case field frame ''error'' of None \<Rightarrow> malformed_response
        | Some e \<Rightarrow> if e = JNull then malformed_response else RemoteError e)"

definition pending_of :: "json option \<Rightarrow> client \<Rightarrow> (string \<times> pending_entry) option" where
  "pending_of i c = (case i of Some (JStr s) \<Rightarrow> map_option (Pair s) (map_get (cl_pending c) s) | _ \<Rightarrow> None)"

text \<open>The oldest waiter takes a handshake frame, the pending request of its id a response.\<close>

definition answer_handshake :: "json \<Rightarrow> client \<Rightarrow> client" where
  "answer_handshake frame c = (case cl_queue c of [] \<Rightarrow> c
     | p # ps \<Rightarrow> settle p (Resolved (Some frame)) (disarm (HandshakeTimer p) (c\<lparr>cl_queue := ps\<rparr>)))"

definition answer_request :: "json \<Rightarrow> client \<Rightarrow> client" where
  "answer_request frame c = (case pending_of (field frame ''id'') c of None \<Rightarrow> c
     | Some (i, entry) \<Rightarrow> settle (pe_promise entry) (response_outcome frame)
         (disarm (pe_timer entry) (c\<lparr>cl_pending := map_delete i (cl_pending c)\<rparr>)))"

text \<open>One frame.  Reading a property of \<open>null\<close> throws out of the socket's listener.\<close>

definition dispatch :: "client_env \<Rightarrow> json \<Rightarrow> client \<Rightarrow> (exn + unit) \<times> client" where
  "dispatch env frame c = (case js_prop frame ''kind'' of
     Inl e \<Rightarrow> (Inl e, c)
   | Inr kind \<Rightarrow> (Inr (),
       if kind = Some (JStr ''welcome'') \<or> kind = Some (JStr ''authResult'') then answer_handshake frame c
       else if kind = Some (JStr ''res'') then answer_request frame c
       else if kind = Some (JStr ''pong'') then c
       else if kind = Some (JStr ''evt'') \<and> ce_closing_event env (field frame ''event'') (field frame ''payload'')
       then client_close c else c))"

lemma settle_frame [simp]: "cl_decoder (settle p r c) = cl_decoder c"
  by (simp add: settle_def)

lemma disarm_frame [simp]: "cl_decoder (disarm t c) = cl_decoder c"
  by (simp add: disarm_def)

lemma reject_waiters_frame [simp]: "cl_decoder (reject_waiters r ps c) = cl_decoder c"
  unfolding reject_waiters_def by (induction ps arbitrary: c) simp_all

lemma reject_pending_frame [simp]: "cl_decoder (reject_pending r c) = cl_decoder c"
proof -
  have "cl_decoder (fold (\<lambda>(i, e) c. settle (pe_promise e) (Rejected (pendingReason r)) (disarm (pe_timer e) c)) m d) =
    cl_decoder d" for m d
    by (induction m arbitrary: d) (auto split: prod.split)
  then show ?thesis unfolding reject_pending_def .
qed

lemma teardown_decoder [simp]: "cl_decoder (teardown r c) = cl_decoder c"
  by (simp add: teardown_def Let_def clear_heartbeat_def)

lemma dispatch_decoder: "cl_decoder (snd (dispatch env f c)) = cl_decoder c"
  by (simp add: dispatch_def answer_handshake_def answer_request_def client_close_def
      split: sum.split list.split option.split)

text \<open>\<open>onData\<close>: the drain loop, with the decoder in the state as the listeners see it.\<close>

function on_frames :: "client_env \<Rightarrow> client \<Rightarrow> (exn + unit) \<times> client" where
  "on_frames env c = (case next_frame (cl_decoder c) of
     (None, d) \<Rightarrow> (Inr (), if failed d then teardown ''bridge frame decode error'' (c\<lparr>cl_decoder := d\<rparr>)
       else c\<lparr>cl_decoder := d\<rparr>)
   | (Some f, d) \<Rightarrow> (case ce_parse env f of
       None \<Rightarrow> (Inr (), teardown ''bridge sent invalid JSON'' (c\<lparr>cl_decoder := d\<rparr>))
     | Some j \<Rightarrow> (case dispatch env j (c\<lparr>cl_decoder := d\<rparr>) of
         (Inl e, c') \<Rightarrow> (Inl e, c')
       | (Inr _, c') \<Rightarrow> on_frames env c')))"
  by pat_completeness auto
termination
proof (relation "measure (\<lambda>(env, c). length (concat (chunks (cl_decoder c))))", goal_cases)
  case 1
  then show ?case by simp
next
  case (2 env c o' d f j r' c' u)
  then have "next_frame (cl_decoder c) = (Some f, d)" "cl_decoder c' = d"
    using dispatch_decoder [of env j "c\<lparr>cl_decoder := d\<rparr>"] by (auto dest: sym)
  then show ?case using next_frame_shrinks by fastforce
qed

declare on_frames.simps [simp del]

definition onData :: "client_env \<Rightarrow> byte list \<Rightarrow> client \<Rightarrow> (exn + unit) \<times> client" where
  "onData env chunk c = (let (ok, d) = push chunk (cl_decoder c); c1 = c\<lparr>cl_decoder := d\<rparr> in
     if \<not> ok then (Inr (), teardown ''bridge frame decode error'' c1) else on_frames env c1)"

section \<open>Steps\<close>

text \<open>Everything that can happen to a client: calls of its owner, continuations of its
  handshakes, data, timers and the end of the socket.  Request ids are fresh among the
  pending ones (they are 64 random bits), and a client is opened once.\<close>

inductive client_step :: "client_env \<Rightarrow> client \<Rightarrow> client \<Rightarrow> bool" for env where
  call_request: "map_get (cl_pending c) i = None \<Longrightarrow>
    client_step env c (snd (client_request env i meth payload deadline opid c))"
| call_connect: "\<not> cl_closed c \<Longrightarrow> client_step env c (snd (connect_open env c))"
| connect_answered: "client_step env c (snd (connect_done frame c))"
| call_authenticate: "client_step env c (snd (authenticate env secret c))"
| authenticate_answered: "client_step env c (snd (authenticate_done frame c))"
| data: "cl_socket c \<Longrightarrow> client_step env c (snd (onData env chunk c))"
| timer_fires: "t \<in> set (cl_timers c) \<Longrightarrow> client_step env c (fire rnd t c)"
| socket_ends: "client_step env c (teardown reason c)"

inductive client_reach :: "client_env \<Rightarrow> client \<Rightarrow> bool" for env where
  init: "client_reach env new_client"
| step: "client_reach env c \<Longrightarrow> client_step env c c' \<Longrightarrow> client_reach env c'"

inductive_cases client_stepE: "client_step env c c'"

fun timer_promise :: "timer \<Rightarrow> nat option" where
  "timer_promise (RequestTimer i p m d) = Some p"
| "timer_promise (HandshakeTimer p) = Some p"
| "timer_promise Heartbeat = None"

definition settled :: "client \<Rightarrow> nat \<Rightarrow> bool" where
  "settled c p = (map_get (cl_settled c) p \<noteq> None)"

text \<open>The pending map and the deadline timers mirror each other; a timer is armed exactly for
  the promises that are not settled; a closed client holds nothing.\<close>

definition mirror :: "client \<Rightarrow> bool" where
  "mirror c \<longleftrightarrow>
     (\<forall>i e. map_get (cl_pending c) i = Some e \<longrightarrow> pe_timer e \<in> set (cl_timers c) \<and>
        (\<exists>m d. pe_timer e = RequestTimer i (pe_promise e) m d)) \<and>
     (\<forall>i p m d. RequestTimer i p m d \<in> set (cl_timers c) \<longrightarrow>
        map_get (cl_pending c) i = Some \<lparr>pe_promise = p, pe_timer = RequestTimer i p m d\<rparr>) \<and>
     (\<forall>p. HandshakeTimer p \<in> set (cl_timers c) \<longrightarrow> p \<in> set (cl_queue c)) \<and>
     (\<forall>p \<in> set (cl_queue c). settled c p \<or> HandshakeTimer p \<in> set (cl_timers c))"

definition accounted :: "client \<Rightarrow> bool" where
  "accounted c \<longleftrightarrow>
     (\<forall>t p. t \<in> set (cl_timers c) \<longrightarrow> timer_promise t = Some p \<longrightarrow> p < cl_next c \<and> \<not> settled c p) \<and>
     (\<forall>p < cl_next c. settled c p \<or> (\<exists>t \<in> set (cl_timers c). timer_promise t = Some p)) \<and>
     (\<forall>t u p. t \<in> set (cl_timers c) \<longrightarrow> u \<in> set (cl_timers c) \<longrightarrow> timer_promise t = Some p \<longrightarrow>
        timer_promise u = Some p \<longrightarrow> t = u) \<and>
     (\<forall>p. settled c p \<longrightarrow> p < cl_next c)"

definition client_inv :: "client \<Rightarrow> bool" where
  "client_inv c \<longleftrightarrow> mirror c \<and> accounted c \<and> map_ok (cl_pending c) \<and>
     (cl_closed c \<longrightarrow> \<not> cl_socket c \<and> cl_pending c = [] \<and> cl_queue c = [])"

lemma settle_settled: "settled (settle p r c) q \<longleftrightarrow> q = p \<or> settled c q"
  by (simp add: settled_def settle_def map_has_def)

lemma settle_fields [simp]:
  "cl_socket (settle p r c) = cl_socket c" "cl_pending (settle p r c) = cl_pending c"
  "cl_queue (settle p r c) = cl_queue c" "cl_closed (settle p r c) = cl_closed c"
  "cl_timers (settle p r c) = cl_timers c" "cl_next (settle p r c) = cl_next c"
  by (simp_all add: settle_def)

lemma disarm_fields [simp]:
  "cl_socket (disarm t c) = cl_socket c" "cl_pending (disarm t c) = cl_pending c"
  "cl_queue (disarm t c) = cl_queue c" "cl_closed (disarm t c) = cl_closed c"
  "set (cl_timers (disarm t c)) = set (cl_timers c) - {t}" "cl_next (disarm t c) = cl_next c"
  "settled (disarm t c) p = settled c p"
  by (simp_all add: disarm_def settled_def)

lemma disarm_pending: "(disarm t c)\<lparr>cl_pending := m\<rparr> = disarm t (c\<lparr>cl_pending := m\<rparr>)"
  by (cases c) (simp add: disarm_def)

lemma settled_update [simp]:
  "settled (c\<lparr>cl_pending := m\<rparr>) p = settled c p" "settled (c\<lparr>cl_queue := q\<rparr>) p = settled c p"
  "settled (c\<lparr>cl_timers := ts\<rparr>) p = settled c p" "settled (c\<lparr>cl_next := n\<rparr>) p = settled c p"
  "settled (c\<lparr>cl_sent := s\<rparr>) p = settled c p" "settled (c\<lparr>cl_decoder := d\<rparr>) p = settled c p"
  "settled (c\<lparr>cl_welcome := w\<rparr>) p = settled c p" "settled (c\<lparr>cl_socket := b\<rparr>) p = settled c p"
  "settled (c\<lparr>cl_closed := b\<rparr>) p = settled c p"
  by (simp_all add: settled_def)

lemma inv_init: "client_inv new_client"
  by (simp add: client_inv_def mirror_def accounted_def new_client_def settled_def map_get_def map_ok_def)

lemma inv_other [simp]:
  "client_inv (c\<lparr>cl_sent := s\<rparr>) = client_inv c" "client_inv (c\<lparr>cl_decoder := d\<rparr>) = client_inv c"
  "client_inv (c\<lparr>cl_welcome := w\<rparr>) = client_inv c"
  by (simp_all add: client_inv_def mirror_def accounted_def)

text \<open>Settling the promise of an armed timer, which is disarmed.\<close>

lemma accounted_done:
  assumes "accounted c" and "t \<in> set (cl_timers c)" and "timer_promise t = Some p"
    and "set (cl_timers c') = set (cl_timers c) - {t}" and "cl_next c' = cl_next c"
    and "\<And>q. settled c' q \<longleftrightarrow> q = p \<or> settled c q"
  shows "accounted c'"
proof -
  have a: "\<forall>t p. t \<in> set (cl_timers c) \<longrightarrow> timer_promise t = Some p \<longrightarrow> p < cl_next c \<and> \<not> settled c p"
    and b: "\<forall>p < cl_next c. settled c p \<or> (\<exists>t \<in> set (cl_timers c). timer_promise t = Some p)"
    and u: "\<forall>t u p. t \<in> set (cl_timers c) \<longrightarrow> u \<in> set (cl_timers c) \<longrightarrow> timer_promise t = Some p \<longrightarrow>
        timer_promise u = Some p \<longrightarrow> t = u"
    and n: "\<forall>p. settled c p \<longrightarrow> p < cl_next c"
    using assms(1) unfolding accounted_def by simp_all
  note tp = assms(2,3)
  show ?thesis
    unfolding accounted_def assms(4-6)
  proof (intro conjI allI impI)
    fix x q assume "x \<in> set (cl_timers c) - {t}" "timer_promise x = Some q"
    then show "q < cl_next c" "\<not> (q = p \<or> settled c q)" using a u tp by blast+
  next
    fix q assume "q < cl_next c"
    then show "(q = p \<or> settled c q) \<or> (\<exists>x \<in> set (cl_timers c) - {t}. timer_promise x = Some q)"
      using b tp by force
  next
    fix x y q assume "x \<in> set (cl_timers c) - {t}" "y \<in> set (cl_timers c) - {t}"
      "timer_promise x = Some q" "timer_promise y = Some q"
    then show "x = y" using u by blast
  next
    fix q assume "q = p \<or> settled c q"
    then show "q < cl_next c" using a n tp by blast
  qed
qed

lemma mirror_entry:
  "mirror c \<Longrightarrow> map_get (cl_pending c) i = Some e \<Longrightarrow>
    pe_timer e \<in> set (cl_timers c) \<and> (\<exists>m d. pe_timer e = RequestTimer i (pe_promise e) m d)"
  "mirror c \<Longrightarrow> RequestTimer i p m d \<in> set (cl_timers c) \<Longrightarrow>
    map_get (cl_pending c) i = Some \<lparr>pe_promise = p, pe_timer = RequestTimer i p m d\<rparr>"
  "mirror c \<Longrightarrow> HandshakeTimer p \<in> set (cl_timers c) \<Longrightarrow> p \<in> set (cl_queue c)"
  "mirror c \<Longrightarrow> p \<in> set (cl_queue c) \<Longrightarrow> settled c p \<or> HandshakeTimer p \<in> set (cl_timers c)"
  unfolding mirror_def by blast+

lemma mirrorI:
  "(\<And>i e. map_get (cl_pending c) i = Some e \<Longrightarrow> pe_timer e \<in> set (cl_timers c)) \<Longrightarrow>
   (\<And>i e. map_get (cl_pending c) i = Some e \<Longrightarrow> \<exists>m d. pe_timer e = RequestTimer i (pe_promise e) m d) \<Longrightarrow>
   (\<And>i p m d. RequestTimer i p m d \<in> set (cl_timers c) \<Longrightarrow>
     map_get (cl_pending c) i = Some \<lparr>pe_promise = p, pe_timer = RequestTimer i p m d\<rparr>) \<Longrightarrow>
   (\<And>p. HandshakeTimer p \<in> set (cl_timers c) \<Longrightarrow> p \<in> set (cl_queue c)) \<Longrightarrow>
   (\<And>p. p \<in> set (cl_queue c) \<Longrightarrow> settled c p \<or> HandshakeTimer p \<in> set (cl_timers c)) \<Longrightarrow> mirror c"
  unfolding mirror_def by blast

text \<open>The timers of the map are deadline timers of their own id.\<close>

lemma mirror_timer_eq:
  assumes "mirror c" and "map_get (cl_pending c) j = Some e"
  shows "pe_timer e \<noteq> HandshakeTimer p" and "pe_timer e = RequestTimer i q m d \<Longrightarrow> j = i"
  using mirror_entry(1) [OF assms] by auto

lemma inv_request_done:
  assumes inv: "client_inv c" and get: "map_get (cl_pending c) i = Some e"
  shows "client_inv (settle (pe_promise e) r (disarm (pe_timer e) (c\<lparr>cl_pending := map_delete i (cl_pending c)\<rparr>)))"
proof -
  obtain m d where e: "pe_timer e = RequestTimer i (pe_promise e) m d" "pe_timer e \<in> set (cl_timers c)"
    using inv get unfolding client_inv_def mirror_def by metis
  have "accounted (settle (pe_promise e) r (disarm (pe_timer e) (c\<lparr>cl_pending := map_delete i (cl_pending c)\<rparr>)))"
    by (rule accounted_done [of c "pe_timer e" "pe_promise e"])
      (use inv e in \<open>simp_all add: client_inv_def settle_settled\<close>)
  moreover have "mirror (settle (pe_promise e) r (disarm (pe_timer e) (c\<lparr>cl_pending := map_delete i (cl_pending c)\<rparr>)))"
  proof (rule mirrorI)
    have M: "mirror c" using inv by (simp add: client_inv_def)
    fix j x assume "map_get (cl_pending (settle (pe_promise e) r (disarm (pe_timer e) (c\<lparr>cl_pending := map_delete i (cl_pending c)\<rparr>)))) j = Some x"
    then have j: "map_get (cl_pending c) j = Some x" "j \<noteq> i" by (auto split: if_splits)
    show "\<exists>m d. pe_timer x = RequestTimer j (pe_promise x) m d" using mirror_entry(1) [OF M j(1)] by simp
    show "pe_timer x \<in> set (cl_timers (settle (pe_promise e) r (disarm (pe_timer e) (c\<lparr>cl_pending := map_delete i (cl_pending c)\<rparr>))))"
      using mirror_entry(1) [OF M j(1)] j(2) e(1) by auto
  next
    have M: "mirror c" using inv by (simp add: client_inv_def)
    fix j q m' d' assume "RequestTimer j q m' d' \<in> set (cl_timers (settle (pe_promise e) r (disarm (pe_timer e) (c\<lparr>cl_pending := map_delete i (cl_pending c)\<rparr>))))"
    then have j: "RequestTimer j q m' d' \<in> set (cl_timers c)" "RequestTimer j q m' d' \<noteq> pe_timer e" by auto
    from mirror_entry(2) [OF M j(1)] j(2) get show "map_get (cl_pending (settle (pe_promise e) r (disarm (pe_timer e) (c\<lparr>cl_pending := map_delete i (cl_pending c)\<rparr>)))) j =
      Some \<lparr>pe_promise = q, pe_timer = RequestTimer j q m' d'\<rparr>" by auto
  qed (use inv e(1) mirror_entry(3,4) [of c] in \<open>auto simp: settle_settled client_inv_def\<close>)
  ultimately show ?thesis
    using inv get by (auto simp: client_inv_def map_get_def map_delete_def)
qed

lemma inv_waiter_done:
  assumes inv: "client_inv c" and q: "cl_queue c = p # ps"
  shows "client_inv (settle p r (disarm (HandshakeTimer p) (c\<lparr>cl_queue := ps\<rparr>)))"
proof (cases "HandshakeTimer p \<in> set (cl_timers c)")
  case True
  have "accounted (settle p r (disarm (HandshakeTimer p) (c\<lparr>cl_queue := ps\<rparr>)))"
    by (rule accounted_done [of c "HandshakeTimer p" p]) (use inv True in \<open>simp_all add: client_inv_def settle_settled\<close>)
  moreover have "mirror (settle p r (disarm (HandshakeTimer p) (c\<lparr>cl_queue := ps\<rparr>)))"
    by (rule mirrorI)
      (use inv q mirror_entry [of c] mirror_timer_eq(1) [of c] in \<open>fastforce simp: settle_settled client_inv_def\<close>)+
  ultimately show ?thesis using inv q by (auto simp: client_inv_def)
next
  case False
  then have "settled c p" using inv q unfolding client_inv_def mirror_def by auto
  then have "settle p r (disarm (HandshakeTimer p) (c\<lparr>cl_queue := ps\<rparr>)) = c\<lparr>cl_queue := ps\<rparr>"
    using False by (simp add: settle_def map_has_def settled_def disarm_def)
  then show ?thesis
    using inv q False unfolding client_inv_def mirror_def accounted_def by auto
qed

lemma inv_handshake_timeout:
  assumes inv: "client_inv c" and t: "HandshakeTimer p \<in> set (cl_timers c)"
  shows "client_inv (settle p r (disarm (HandshakeTimer p) c))"
proof -
  have "accounted (settle p r (disarm (HandshakeTimer p) c))"
    by (rule accounted_done [of c "HandshakeTimer p" p]) (use inv t in \<open>simp_all add: client_inv_def settle_settled\<close>)
  moreover have "mirror (settle p r (disarm (HandshakeTimer p) c))"
    by (rule mirrorI)
      (use inv mirror_entry [of c] mirror_timer_eq(1) [of c] in \<open>fastforce simp: settle_settled client_inv_def\<close>)+
  ultimately show ?thesis using inv by (auto simp: client_inv_def)
qed

lemma inv_heartbeat:
  assumes "client_inv c" and "\<And>t. t \<noteq> Heartbeat \<Longrightarrow> t \<in> set ts \<longleftrightarrow> t \<in> set (cl_timers c)"
  shows "client_inv (c\<lparr>cl_timers := ts\<rparr>)"
proof -
  have tp: "timer_promise t = Some p \<Longrightarrow> t \<in> set ts \<longleftrightarrow> t \<in> set (cl_timers c)" for t p
    using assms(2) by (cases t) auto
  have "accounted (c\<lparr>cl_timers := ts\<rparr>)"
  proof -
    have ex: "(\<exists>t \<in> set ts. timer_promise t = Some p) = (\<exists>t \<in> set (cl_timers c). timer_promise t = Some p)" for p
      using tp by blast
    show ?thesis using assms(1) tp unfolding client_inv_def accounted_def by (auto simp: ex)
  qed
  moreover have "mirror (c\<lparr>cl_timers := ts\<rparr>)"
    using assms unfolding client_inv_def mirror_def by (auto, metis timer.distinct(3))
  ultimately show ?thesis using assms(1) by (simp add: client_inv_def)
qed


section \<open>Every step keeps the books\<close>

lemma fold_settle:
  "\<exists>m. fold (\<lambda>x c. settle (P x) (Rejected e) (disarm (T x) c)) xs c =
     c\<lparr>cl_timers := filter (\<lambda>t. t \<notin> T ` set xs) (cl_timers c), cl_settled := m\<rparr> \<and>
     (\<forall>p. map_get m p = (case map_get (cl_settled c) p of Some r \<Rightarrow> Some r
        | None \<Rightarrow> if p \<in> P ` set xs then Some (Rejected e) else None))"
proof (induction xs arbitrary: c)
  case Nil
  show ?case by (rule exI [of _ "cl_settled c"]) (simp split: option.split)
next
  case (Cons x xs)
  let ?d = "settle (P x) (Rejected e) (disarm (T x) c)"
  have d: "cl_timers ?d = removeAll (T x) (cl_timers c)"
    "\<And>p. map_get (cl_settled ?d) p = (case map_get (cl_settled c) p of Some r \<Rightarrow> Some r
        | None \<Rightarrow> if p = P x then Some (Rejected e) else None)"
    "\<And>ts m. ?d\<lparr>cl_timers := ts, cl_settled := m\<rparr> = c\<lparr>cl_timers := ts, cl_settled := m\<rparr>"
    by (auto simp: settle_def disarm_def map_has_def split: option.split)
  obtain m where m: "fold (\<lambda>x c. settle (P x) (Rejected e) (disarm (T x) c)) xs ?d =
      ?d\<lparr>cl_timers := filter (\<lambda>t. t \<notin> T ` set xs) (cl_timers ?d), cl_settled := m\<rparr>"
    "\<forall>p. map_get m p = (case map_get (cl_settled ?d) p of Some r \<Rightarrow> Some r
        | None \<Rightarrow> if p \<in> P ` set xs then Some (Rejected e) else None)"
    using Cons.IH [of ?d] by blast
  show ?case
    by (rule exI [of _ m]) (use m d in \<open>auto simp: removeAll_filter_not_eq intro!: arg_cong [of _ _ "\<lambda>ts. c\<lparr>cl_timers := ts, cl_settled := m\<rparr>"] filter_cong split: option.splits\<close>)
qed

lemma reject_pending_char:
  "\<exists>m. reject_pending reason c = c\<lparr>cl_timers := filter (\<lambda>t. t \<notin> pe_timer ` snd ` set (cl_pending c)) (cl_timers c),
       cl_settled := m\<rparr> \<and>
     (\<forall>p. map_get m p = (case map_get (cl_settled c) p of Some r \<Rightarrow> Some r
        | None \<Rightarrow> if p \<in> pe_promise ` snd ` set (cl_pending c) then Some (Rejected (pendingReason reason)) else None))"
proof -
  have "(\<lambda>(i :: string, e :: pending_entry) (c :: client). settle (pe_promise e) (Rejected (pendingReason reason)) (disarm (pe_timer e) c)) =
      (\<lambda>x c. settle (pe_promise (snd x)) (Rejected (pendingReason reason)) (disarm (pe_timer (snd x)) c))"
    by (simp add: fun_eq_iff split_beta)
  then show ?thesis
    using fold_settle [of "\<lambda>x. pe_promise (snd x)" "pendingReason reason" "\<lambda>x. pe_timer (snd x)" "cl_pending c" c]
    by (simp only: reject_pending_def image_image)
qed

lemma reject_waiters_char:
  "\<exists>m. reject_waiters reason ps c = c\<lparr>cl_timers := filter (\<lambda>t. t \<notin> HandshakeTimer ` set ps) (cl_timers c),
       cl_settled := m\<rparr> \<and>
     (\<forall>p. map_get m p = (case map_get (cl_settled c) p of Some r \<Rightarrow> Some r
        | None \<Rightarrow> if p \<in> set ps then Some (Rejected (PlainErr reason)) else None))"
  using fold_settle [of "\<lambda>p. p" "PlainErr reason" HandshakeTimer ps c]
  unfolding reject_waiters_def image_ident .

text \<open>What a teardown leaves.\<close>

lemma teardown_char:
  assumes "\<not> cl_closed c"
  shows "\<exists>m. teardown reason c = c\<lparr>cl_closed := True, cl_socket := False, cl_pending := [], cl_queue := [],
       cl_timers := filter (\<lambda>t. t \<notin> pe_timer ` snd ` set (cl_pending c) \<and>
          t \<notin> HandshakeTimer ` set (cl_queue c)) (remove1 Heartbeat (cl_timers c)), cl_settled := m\<rparr> \<and>
     (\<forall>p. map_get m p = (case map_get (cl_settled c) p of Some r \<Rightarrow> Some r
        | None \<Rightarrow> if p \<in> pe_promise ` snd ` set (cl_pending c) then Some (Rejected (pendingReason reason))
            else if p \<in> set (cl_queue c) then Some (Rejected (PlainErr reason)) else None))"
proof -
  let ?pt = "pe_timer ` snd ` set (cl_pending c)"
  let ?c1 = "c\<lparr>cl_closed := True, cl_timers := remove1 Heartbeat (cl_timers c), cl_socket := False\<rparr>"
  obtain m1 where m1: "reject_pending reason ?c1 = ?c1\<lparr>cl_timers := filter (\<lambda>t. t \<notin> ?pt) (remove1 Heartbeat (cl_timers c)), cl_settled := m1\<rparr>"
     "\<forall>p. map_get m1 p = (case map_get (cl_settled c) p of Some r \<Rightarrow> Some r
        | None \<Rightarrow> if p \<in> pe_promise ` snd ` set (cl_pending c) then Some (Rejected (pendingReason reason)) else None)"
    using reject_pending_char [of reason ?c1] by auto
  let ?c2 = "c\<lparr>cl_closed := True, cl_socket := False, cl_pending := [], cl_queue := [],
      cl_timers := filter (\<lambda>t. t \<notin> ?pt) (remove1 Heartbeat (cl_timers c)), cl_settled := m1\<rparr>"
  have t: "teardown reason c = reject_waiters reason (cl_queue c) ?c2"
    using assms by (simp add: teardown_def Let_def clear_heartbeat_def m1(1)) (cases c; simp)
  obtain m2 where m2: "reject_waiters reason (cl_queue c) ?c2 =
      ?c2\<lparr>cl_timers := filter (\<lambda>t. t \<notin> HandshakeTimer ` set (cl_queue c)) (cl_timers ?c2), cl_settled := m2\<rparr>"
     "\<forall>p. map_get m2 p = (case map_get m1 p of Some r \<Rightarrow> Some r
        | None \<Rightarrow> if p \<in> set (cl_queue c) then Some (Rejected (PlainErr reason)) else None)"
    using reject_waiters_char [of reason "cl_queue c" ?c2] by auto
  have f: "filter (\<lambda>t. t \<notin> HandshakeTimer ` set (cl_queue c)) (cl_timers ?c2) = filter (\<lambda>t. t \<notin> ?pt \<and>
          t \<notin> HandshakeTimer ` set (cl_queue c)) (remove1 Heartbeat (cl_timers c))"
    by (auto intro: filter_cong)
  have "map_get m2 p = (case map_get (cl_settled c) p of Some r \<Rightarrow> Some r
        | None \<Rightarrow> if p \<in> pe_promise ` snd ` set (cl_pending c) then Some (Rejected (pendingReason reason))
            else if p \<in> set (cl_queue c) then Some (Rejected (PlainErr reason)) else None)" for p
    by (simp only: m1(2) m2(2)) (simp split: option.split)
  then show ?thesis by (intro exI [of _ m2] conjI allI) (simp_all only: t m2(1) f, simp)
qed


lemma inv_teardown:
  assumes "client_inv c"
  shows "client_inv (teardown reason c)"
proof (cases "cl_closed c")
  case True
  then show ?thesis using assms by (simp add: teardown_def)
next
  case False
  have M: "mirror c" and A: "accounted c" using assms by (simp_all add: client_inv_def)
  obtain m where t: "teardown reason c = c\<lparr>cl_closed := True, cl_socket := False, cl_pending := [], cl_queue := [],
       cl_timers := filter (\<lambda>t. t \<notin> pe_timer ` snd ` set (cl_pending c) \<and>
          t \<notin> HandshakeTimer ` set (cl_queue c)) (remove1 Heartbeat (cl_timers c)), cl_settled := m\<rparr>"
    and m: "\<And>p. map_get m p = (case map_get (cl_settled c) p of Some r \<Rightarrow> Some r
        | None \<Rightarrow> if p \<in> pe_promise ` snd ` set (cl_pending c) then Some (Rejected (pendingReason reason))
            else if p \<in> set (cl_queue c) then Some (Rejected (PlainErr reason)) else None)"
    using teardown_char [OF False] by blast
  have in_map: "(i, e) \<in> set (cl_pending c) \<longleftrightarrow> map_get (cl_pending c) i = Some e" for i e
    using assms by (simp add: client_inv_def map_ok_def map_get_def)
  have gone: "t \<in> pe_timer ` snd ` set (cl_pending c) \<or> t \<in> HandshakeTimer ` set (cl_queue c)"
    if "t \<in> set (cl_timers c)" "t \<noteq> Heartbeat" for t
  proof (cases t)
    case (RequestTimer i p m' d)
    then have "(i, \<lparr>pe_promise = p, pe_timer = t\<rparr>) \<in> set (cl_pending c)"
      using mirror_entry(2) [OF M] that in_map by simp
    then show ?thesis by (force simp: image_iff)
  next
    case (HandshakeTimer p)
    then show ?thesis using mirror_entry(3) [OF M] that by blast
  qed (use that in simp)
  have hb: "t = Heartbeat" if "t \<in> set (cl_timers (teardown reason c))" for t
    using gone [of t] that set_remove1_subset [of Heartbeat "cl_timers c"] by (auto simp: t)
  have none: "timer_promise t = None" if "t \<in> set (cl_timers (teardown reason c))" for t
    using hb [OF that] by simp
  have s: "settled (teardown reason c) p \<longleftrightarrow> settled c p \<or> p \<in> pe_promise ` snd ` set (cl_pending c) \<or> p \<in> set (cl_queue c)" for p
    by (simp add: settled_def t m split: option.splits)
  have "settled (teardown reason c) p \<longleftrightarrow> p < cl_next c" for p
  proof
    assume "settled (teardown reason c) p"
    then consider "settled c p" | i e where "(i, e) \<in> set (cl_pending c)" "p = pe_promise e" | "p \<in> set (cl_queue c)"
      unfolding s by force
    then show "p < cl_next c"
    proof cases
      case 1
      then show ?thesis using A by (simp add: accounted_def)
    next
      case (2 i e)
      then have "pe_timer e \<in> set (cl_timers c)" "timer_promise (pe_timer e) = Some p"
        using mirror_entry(1) [OF M, of i e] in_map by auto
      then show ?thesis using A unfolding accounted_def by blast
    next
      case 3
      then show ?thesis using mirror_entry(4) [OF M, of p] A unfolding accounted_def by fastforce
    qed
  next
    assume "p < cl_next c"
    then consider "settled c p" | t where "t \<in> set (cl_timers c)" "timer_promise t = Some p"
      using A unfolding accounted_def by blast
    then show "settled (teardown reason c) p"
    proof cases
      case 1
      then show ?thesis by (simp add: s)
    next
      case (2 t)
      show ?thesis
      proof (cases t)
        case (RequestTimer i q m' d)
        then have "(i, \<lparr>pe_promise = p, pe_timer = t\<rparr>) \<in> set (cl_pending c)"
          using mirror_entry(2) [OF M] 2 in_map by simp
        then show ?thesis unfolding s by (force simp: image_iff)
      next
        case (HandshakeTimer q)
        then show ?thesis unfolding s using mirror_entry(3) [OF M] 2 by simp
      qed (use 2 in simp)
    qed
  qed
  moreover have "cl_next (teardown reason c) = cl_next c" by (simp add: t)
  ultimately have all: "settled (teardown reason c) p \<longleftrightarrow> p < cl_next (teardown reason c)" for p by simp
  have "accounted (teardown reason c)" unfolding accounted_def all by (auto dest: none)
  moreover have "cl_pending (teardown reason c) = []" "cl_queue (teardown reason c) = []" by (simp_all add: t)
  then have "mirror (teardown reason c)" unfolding mirror_def map_get_def by (auto dest: hb)
  moreover have "map_ok (cl_pending (teardown reason c)) \<and> (cl_closed (teardown reason c) \<longrightarrow>
      \<not> cl_socket (teardown reason c) \<and> cl_pending (teardown reason c) = [] \<and> cl_queue (teardown reason c) = [])"
    by (simp add: t map_ok_def)
  ultimately show ?thesis by (simp add: client_inv_def)
qed


lemma inv_arm_request:
  assumes inv: "client_inv c" and i: "map_get (cl_pending c) i = None" and op: "\<not> cl_closed c"
    and t: "t = RequestTimer i (cl_next c) m d"
  shows "client_inv (c\<lparr>cl_next := Suc (cl_next c), cl_timers := t # cl_timers c,
    cl_pending := map_set i \<lparr>pe_promise = cl_next c, pe_timer = t\<rparr> (cl_pending c)\<rparr>)" (is "client_inv ?c")
proof -
  have M: "mirror c" and A: "accounted c" using inv by (simp_all add: client_inv_def)
  have new: "timer_promise u \<noteq> Some (cl_next c)" if "u \<in> set (cl_timers c)" for u
    using A that unfolding accounted_def by blast
  have s: "settled ?c p = settled c p" for p by (simp add: settled_def)
  have "accounted ?c"
    using A new unfolding accounted_def s by (auto simp: t less_Suc_eq)
  moreover have "mirror ?c"
  proof (rule mirrorI)
    fix j p m' d' assume "RequestTimer j p m' d' \<in> set (cl_timers ?c)"
    then show "map_get (cl_pending ?c) j = Some \<lparr>pe_promise = p, pe_timer = RequestTimer j p m' d'\<rparr>"
      using mirror_entry(2) [OF M] i t by auto
  qed (use mirror_entry(1,3,4) [OF M] t in \<open>auto simp: s split: if_splits\<close>)
  ultimately show ?thesis using inv op by (simp add: client_inv_def)
qed

lemma map_delete_set_fresh: "map_get m k = None \<Longrightarrow> map_delete k (map_set k v m) = m"
proof (induction m)
  case (Cons e m)
  then show ?case by (cases e) (auto simp: map_get_Cons map_delete_def split: if_splits)
qed (simp add: map_delete_def)

lemma send_cases:
  assumes "client_send f c = (r, c')"
  obtains "c' = c" "\<exists>e. r = Inl e" | "c' = c\<lparr>cl_sent := cl_sent c @ [f]\<rparr>" "r = Inr ()" "cl_socket c"
  using assms by (auto simp: client_send_def split: if_splits sum.splits)

lemma inv_request:
  assumes inv: "client_inv c" and i: "map_get (cl_pending c) i = None"
  shows "client_inv (snd (client_request env i meth payload deadline opid c))"
proof (cases "\<not> cl_socket c \<or> cl_closed c")
  case True
  then show ?thesis using inv by (simp add: client_request_def)
next
  case False
  define d where "d = (case deadline of Some d \<Rightarrow> d | None \<Rightarrow>
               (case ce_deadlineMs env of Some d \<Rightarrow> d | None \<Rightarrow> commandTimeoutMs LIMITS))"
  define t where "t = RequestTimer i (cl_next c) meth d"
  define c2 where "c2 = c\<lparr>cl_next := Suc (cl_next c), cl_timers := t # cl_timers c,
    cl_pending := map_set i \<lparr>pe_promise = cl_next c, pe_timer = t\<rparr> (cl_pending c)\<rparr>"
  obtain r c3 where s: "client_send (request_frame i meth payload d opid) c2 = (r, c3)" by fastforce
  have R: "client_request env i meth payload deadline opid c =
    (case (r, c3) of (Inr _, c3) \<Rightarrow> (Inr (cl_next c), c3)
           | (Inl e, c3) \<Rightarrow> (Inl e, (case map_get (cl_pending c3) i of None \<Rightarrow> c3
               | Some entry \<Rightarrow> disarm (pe_timer entry) (c3\<lparr>cl_pending := map_delete i (cl_pending c3)\<rparr>))
               \<lparr>cl_next := cl_next c\<rparr>))"
    unfolding client_request_def if_not_P [OF False] fresh_promise_def arm_def Let_def prod.case
    using s unfolding c2_def t_def d_def by simp
  have c2: "client_inv c2"
    unfolding c2_def by (rule inv_arm_request [OF inv i _ t_def]) (use False in simp)
  from s show ?thesis
  proof (cases rule: send_cases)
    case 1
    have "t \<notin> set (cl_timers c)"
      using inv by (auto simp: t_def client_inv_def accounted_def)
    moreover have "map_delete i (map_set i e (cl_pending c)) = cl_pending c" for e
      using i by (rule map_delete_set_fresh)
    ultimately have "snd (client_request env i meth payload deadline opid c) = c"
      using 1 by (auto simp: R c2_def disarm_def removeAll_id)
    then show ?thesis using inv by simp
  next
    case 2
    then show ?thesis using c2 by (simp add: R)
  qed
qed


lemma inv_handshake:
  assumes inv: "client_inv c" and closed: "cl_closed c \<Longrightarrow> \<not> cl_socket c"
  shows "client_inv (snd (exchangeHandshake f c))"
proof -
  let ?p = "cl_next c"
  define c2 where "c2 = c\<lparr>cl_next := Suc ?p, cl_timers := HandshakeTimer ?p # cl_timers c, cl_queue := cl_queue c @ [?p]\<rparr>"
  have M: "mirror c" and A: "accounted c" using inv by (simp_all add: client_inv_def)
  have new: "timer_promise u \<noteq> Some ?p" if "u \<in> set (cl_timers c)" for u
    using A that unfolding accounted_def by blast
  have nt: "HandshakeTimer ?p \<notin> set (cl_timers c)" using new by fastforce
  have nset: "\<not> settled c ?p" using A unfolding accounted_def by blast
  obtain r c3 where s: "client_send f c2 = (r, c3)" by fastforce
  have R: "exchangeHandshake f c = (case (r, c3) of (Inr _, c3) \<Rightarrow> (?p, c3)
      | (Inl e, c3) \<Rightarrow> (?p, settle ?p (Rejected e) (disarm (HandshakeTimer ?p) (c3\<lparr>cl_queue := butlast (cl_queue c3)\<rparr>))))"
    unfolding exchangeHandshake_def fresh_promise_def arm_def Let_def prod.case
    using s unfolding c2_def by simp
  from s show ?thesis
  proof (cases rule: send_cases)
    case 1
    then obtain e where "r = Inl e" by blast
    then have eq: "snd (exchangeHandshake f c) = settle ?p (Rejected e) (c\<lparr>cl_next := Suc ?p\<rparr>)"
      using 1 nt by (simp add: R c2_def disarm_def removeAll_id)
    have s': "settled (settle ?p (Rejected e) (c\<lparr>cl_next := Suc ?p\<rparr>)) q \<longleftrightarrow> q = ?p \<or> settled c q" for q
      by (simp add: settle_settled)
    have "accounted (settle ?p (Rejected e) (c\<lparr>cl_next := Suc ?p\<rparr>))"
      using A new unfolding accounted_def s' by (auto simp: less_Suc_eq)
    moreover have "mirror (settle ?p (Rejected e) (c\<lparr>cl_next := Suc ?p\<rparr>))"
      using M unfolding mirror_def s' by auto
    ultimately show ?thesis unfolding eq using inv by (simp add: client_inv_def)
  next
    case 2
    have "accounted c2"
      using A new unfolding accounted_def by (auto simp: c2_def less_Suc_eq)
    moreover have "mirror c2"
      using M unfolding mirror_def by (auto simp: c2_def)
    ultimately have "client_inv c2" using inv closed 2(3) by (auto simp: client_inv_def c2_def)
    then show ?thesis using 2 by (simp add: R)
  qed
qed

lemma inv_open: "client_inv c \<Longrightarrow> \<not> cl_closed c \<Longrightarrow> client_inv (c\<lparr>cl_socket := True\<rparr>)"
  by (simp add: client_inv_def mirror_def accounted_def)

lemma dispatch_cases:
  assumes "dispatch env f c = (r, c')"
  obtains (same) "c' = c"
  | (waiter) p ps where "field f ''kind'' \<noteq> Some (JStr ''res'')" "cl_queue c = p # ps" "c' = settle p (Resolved (Some f)) (disarm (HandshakeTimer p) (c\<lparr>cl_queue := ps\<rparr>))"
  | (response) i e where "field f ''kind'' = Some (JStr ''res'')" "field f ''id'' = Some (JStr i)" "map_get (cl_pending c) i = Some e"
      "c' = settle (pe_promise e) (response_outcome f) (disarm (pe_timer e) (c\<lparr>cl_pending := map_delete i (cl_pending c)\<rparr>))"
  | (closed) "field f ''kind'' = Some (JStr ''evt'')" "c' = client_close c"
proof -
  have h: thesis if a: "c' = answer_handshake f c" and n: "field f ''kind'' \<noteq> Some (JStr ''res'')"
  proof (cases "cl_queue c")
    case Nil
    then show ?thesis using a same by (simp add: answer_handshake_def)
  next
    case (Cons p ps)
    then show ?thesis using a n waiter by (simp add: answer_handshake_def)
  qed
  have q: thesis if a: "c' = answer_request f c" and n: "field f ''kind'' = Some (JStr ''res'')"
  proof (cases "pending_of (field f ''id'') c")
    case None
    then show ?thesis using a same by (simp add: answer_request_def)
  next
    case (Some x)
    then obtain i e where "field f ''id'' = Some (JStr i)" "map_get (cl_pending c) i = Some e" "x = (i, e)"
      by (auto simp: pending_of_def split: option.splits json.splits)
    then show ?thesis using a n Some response by (simp add: answer_request_def)
  qed
  show thesis
    using assms h q same closed unfolding dispatch_def by (cases "js_prop f ''kind''") (auto simp: field_def split: if_splits)
qed

lemma inv_dispatch: "client_inv c \<Longrightarrow> client_inv (snd (dispatch env f c))"
proof -
  assume inv: "client_inv c"
  obtain r c' where d: "dispatch env f c = (r, c')" by fastforce
  then show ?thesis
    by (cases rule: dispatch_cases)
      (use inv d in \<open>simp_all add: inv_waiter_done inv_request_done client_close_def inv_teardown\<close>)
qed

lemma inv_on_frames: "client_inv c \<Longrightarrow> client_inv (snd (on_frames env c))"
proof (induction env c rule: on_frames.induct)
  case (1 env c)
  show ?case
  proof (cases "next_frame (cl_decoder c)")
    case (Pair fo d)
    have c: "client_inv (c\<lparr>cl_decoder := d\<rparr>)" using 1(2) by simp
    show ?thesis
    proof (cases fo)
      case None
      then show ?thesis using Pair c inv_teardown [OF c] by (simp add: on_frames.simps [of env c])
    next
      case (Some f)
      show ?thesis
      proof (cases "ce_parse env f")
        case None
        then show ?thesis using Pair Some inv_teardown [OF c] by (simp add: on_frames.simps [of env c])
      next
        case (Some j)
        obtain r c' where d: "dispatch env j (c\<lparr>cl_decoder := d\<rparr>) = (r, c')" by fastforce
        then have c': "client_inv c'" using inv_dispatch [OF c, of env j] by simp
        show ?thesis
        proof (cases r)
          case (Inl e)
          then show ?thesis using Pair \<open>fo = Some f\<close> Some d c' by (simp add: on_frames.simps [of env c])
        next
          case (Inr u)
          then show ?thesis using 1(1) [OF Pair [symmetric] \<open>fo = Some f\<close> Some d [symmetric] Inr c']
              Pair \<open>fo = Some f\<close> Some d by (simp add: on_frames.simps [of env c])
        qed
      qed
    qed
  qed
qed

lemma inv_step: "client_step env c c' \<Longrightarrow> client_inv c \<Longrightarrow> client_inv c'"
proof (induction rule: client_step.induct)
  case (call_request c i meth payload deadline opid)
  then show ?case by (simp add: inv_request)
next
  case (call_connect c)
  then show ?case by (auto simp: connect_open_def intro!: inv_handshake inv_open)
next
  case (connect_answered c frame)
  then show ?case by (simp add: connect_done_def Let_def client_close_def inv_teardown)
next
  case (call_authenticate c secret)
  then show ?case
    using inv_handshake [of c] by (auto simp: authenticate_def client_inv_def split_beta Let_def split: option.split)
next
  case (authenticate_answered c frame)
  then show ?case
    using inv_heartbeat [of c "Heartbeat # cl_timers c"]
    by (simp add: authenticate_done_def client_close_def inv_teardown startHeartbeat_def arm_def)
next
  case (data c chunk)
  then show ?case by (simp add: onData_def split_beta Let_def inv_teardown inv_on_frames)
next
  case (timer_fires t c rnd)
  show ?case
  proof (cases t)
    case (RequestTimer i p m d)
    then have "map_get (cl_pending c) i = Some \<lparr>pe_promise = p, pe_timer = t\<rparr>"
      using timer_fires mirror_entry(2) [of c] by (auto simp: client_inv_def)
    from inv_request_done [OF timer_fires(2) this] show ?thesis
      by (simp add: fire_def RequestTimer disarm_pending)
  next
    case (HandshakeTimer p)
    then show ?thesis using timer_fires inv_handshake_timeout by (simp add: fire_def)
  next
    case Heartbeat
    obtain r c3 where s: "client_send (ping_frame rnd) c = (r, c3)" by fastforce
    then have "client_inv (snd (client_send (ping_frame rnd) c))"
      using timer_fires by (cases rule: send_cases) (simp_all add: s)
    then show ?thesis by (simp add: fire_def Heartbeat)
  qed
next
  case (socket_ends c reason)
  then show ?case by (simp add: inv_teardown)
qed

lemma inv_reach: "client_reach env c \<Longrightarrow> client_inv c"
  by (induction rule: client_reach.induct) (auto simp: inv_init intro: inv_step)


section \<open>Properties\<close>

lemma accounted_iff:
  assumes "client_inv c" and "p < cl_next c"
  shows "settled c p \<longleftrightarrow> \<not> (\<exists>t \<in> set (cl_timers c). timer_promise t = Some p)"
  using assms unfolding client_inv_def accounted_def by blast

lemma closed_no_timer:
  assumes "client_inv c" and "cl_closed c" and "t \<in> set (cl_timers c)"
  shows "timer_promise t = None"
proof (cases t)
  case (RequestTimer i p m d)
  then have "map_get (cl_pending c) i \<noteq> None"
    using assms mirror_entry(2) [of c i p m d] by (simp add: client_inv_def)
  then show ?thesis using assms by (simp add: client_inv_def map_get_def)
next
  case (HandshakeTimer p)
  then show ?thesis using assms mirror_entry(3) [of c p] by (simp add: client_inv_def)
qed simp

text \<open>What a teardown does to the promises and timers.\<close>

lemma teardown_fields:
  assumes "\<not> cl_closed c"
  shows "cl_closed (teardown reason c) \<and> \<not> cl_socket (teardown reason c) \<and> cl_pending (teardown reason c) = [] \<and>
    cl_queue (teardown reason c) = []"
  using teardown_char [OF assms, of reason] by auto

lemma teardown_settled:
  assumes "\<not> cl_closed c"
  shows "map_get (cl_settled (teardown reason c)) p = (case map_get (cl_settled c) p of Some r \<Rightarrow> Some r
        | None \<Rightarrow> if p \<in> pe_promise ` snd ` set (cl_pending c) then Some (Rejected (pendingReason reason))
            else if p \<in> set (cl_queue c) then Some (Rejected (PlainErr reason)) else None)"
  by (rule exE [OF teardown_char [OF assms, of reason]], erule conjE, erule_tac x = p in allE) simp

lemma remove1_filter_one: "P x \<Longrightarrow> filter P (remove1 x xs) = remove1 x (filter P xs)"
  by (induction xs) auto

lemma filter_only: "(\<And>x. x \<in> set xs \<Longrightarrow> P x \<longleftrightarrow> x = h) \<Longrightarrow> filter P xs = replicate (count_list xs h) h"
  by (induction xs) auto

lemma teardown_timers:
  assumes "client_inv c" and "\<not> cl_closed c"
  shows "cl_timers (teardown reason c) = replicate (count_list (cl_timers c) Heartbeat - 1) Heartbeat"
proof -
  let ?P = "\<lambda>t. t \<notin> pe_timer ` snd ` set (cl_pending c) \<and> t \<notin> HandshakeTimer ` set (cl_queue c)"
  have e: "cl_timers (teardown reason c) = filter ?P (remove1 Heartbeat (cl_timers c))"
    using teardown_char [OF assms(2), of reason] by auto
  have M: "mirror c" and ok: "map_ok (cl_pending c)" using assms(1) by (simp_all add: client_inv_def)
  have h: "?P Heartbeat"
  proof -
    have "pe_timer x \<noteq> Heartbeat" if "(i, x) \<in> set (cl_pending c)" for i x
      using mirror_entry(1) [OF M, of i x] that ok by (auto simp: map_ok_def map_get_def)
    then show ?thesis by fastforce
  qed
  have "?P t \<longleftrightarrow> t = Heartbeat" if "t \<in> set (cl_timers c)" for t
  proof (cases t)
    case (RequestTimer i p m d)
    then have "map_get (cl_pending c) i = Some \<lparr>pe_promise = p, pe_timer = t\<rparr>" using mirror_entry(2) [OF M] that by simp
    then have "t \<in> pe_timer ` snd ` set (cl_pending c)" by (force simp: map_get_def image_iff dest: map_of_SomeD)
    then show ?thesis using RequestTimer by simp
  next
    case (HandshakeTimer p)
    then have "p \<in> set (cl_queue c)" using mirror_entry(3) [OF M] that by simp
    then show ?thesis using HandshakeTimer by simp
  qed (use h in simp)
  then have "filter ?P (cl_timers c) = replicate (count_list (cl_timers c) Heartbeat) Heartbeat" by (rule filter_only)
  then show ?thesis unfolding e remove1_filter_one [of ?P, OF h]
    by (cases "count_list (cl_timers c) Heartbeat") simp_all
qed

text \<open>Every armed timer is the only one of its promise.\<close>

lemma timer_unique:
  assumes "client_inv c" and "t \<in> set (cl_timers c)" and "timer_promise t = Some p"
  shows "\<not> settled c p" and "u \<in> set (cl_timers c) \<Longrightarrow> timer_promise u = Some p \<Longrightarrow> u = t"
  using assms unfolding client_inv_def accounted_def by blast+

lemma pending_timer:
  assumes "client_inv c" and "map_get (cl_pending c) i = Some e"
  shows "pe_timer e \<in> set (cl_timers c)" and "timer_promise (pe_timer e) = Some (pe_promise e)"
    and "pe_promise e \<in> pe_promise ` snd ` set (cl_pending c)"
  using mirror_entry(1) [of c i e] assms by (auto simp: client_inv_def, force simp: map_get_def dest: map_of_SomeD)

lemma teardown_rejects_pending:
  assumes "client_inv c" and "\<not> cl_closed c" and "map_get (cl_pending c) i = Some e"
  shows "map_get (cl_settled (teardown reason c)) (pe_promise e) = Some (Rejected (pendingReason reason))"
  using timer_unique(1) [OF assms(1) pending_timer(1,2) [OF assms(1,3)]] pending_timer(3) [OF assms(1,3)]
  by (simp add: teardown_settled [OF assms(2)] settled_def)

lemma teardown_rejects_waiter:
  assumes inv: "client_inv c" and "\<not> cl_closed c" and q: "p \<in> set (cl_queue c)"
  shows "settled c p \<or> map_get (cl_settled (teardown reason c)) p = Some (Rejected (PlainErr reason))"
proof (cases "settled c p")
  case False
  then have h: "HandshakeTimer p \<in> set (cl_timers c)" using mirror_entry(4) [of c p] inv q by (simp add: client_inv_def)
  have "p \<notin> pe_promise ` snd ` set (cl_pending c)"
  proof
    assume "p \<in> pe_promise ` snd ` set (cl_pending c)"
    then obtain i e where e: "map_get (cl_pending c) i = Some e" "p = pe_promise e"
      using inv by (auto simp: client_inv_def map_ok_def map_get_def)
    have "pe_timer e = HandshakeTimer p"
      by (rule timer_unique(2) [OF inv h]) (use pending_timer [OF inv e(1)] e(2) in simp_all)
    then show False using mirror_timer_eq(1) [of c i e p] inv e(1) by (simp add: client_inv_def)
  qed
  then show ?thesis using False q by (simp add: teardown_settled [OF assms(2)] settled_def)
qed simp

text \<open>A small conversation: connect, authenticate, ask twice, get the second answer, and lose the socket.\<close>

definition demo_env :: client_env where
  "demo_env = \<lparr>ce_parse = (\<lambda>us. json_parse (map (\<lambda>u. char_of (unat u)) us)), ce_hmac = (\<lambda>k m. k),
     ce_closing_event = (\<lambda>e p. e = Some (JStr ''shutting_down'')), ce_name = ''rack-mcp-server'', ce_version = ''0.1.0'',
     ce_deadlineMs = None\<rparr>"

lemma scalars_length: "\<forall>u \<in> set us. u < 0x10000 \<Longrightarrow> length (concat (map enc_scalar (scalars us))) \<le> 3 * length us"
proof (induction us rule: scalars.induct)
  case (3 u v r)
  then show ?case
  proof (cases "is_high u \<and> is_low v")
    case True
    have "length (enc_scalar c) \<le> 4" for c by (simp add: enc_scalar_def)
    then have "length (enc_scalar (0x10000 + (u - 0xD800) * 1024 + (v - 0xDC00))) \<le> 4" .
    then show ?thesis using True 3 by simp
  next
    case False
    have "length (enc_scalar (if is_high u \<or> is_low u then replacement else u)) \<le> 3"
      using 3(3) by (simp add: enc_scalar_def replacement_def)
    then show ?thesis using False 3 by (auto split: if_splits)
  qed
qed (auto simp: enc_scalar_def replacement_def)

lemma send_short:
  assumes "cl_socket c" and "length (stringify f) \<le> 1000"
  shows "client_send f c = (Inr (), c\<lparr>cl_sent := cl_sent c @ [f]\<rparr>)"
proof -
  have "length (utf8_encode (wire_text f)) \<le> 3 * length (wire_text f)"
    using scalars_length [OF map_unat_units, of "wire_text f"] by (simp add: utf8_encode_def)
  then have "length (utf8_encode (wire_text f)) \<le> 3000"
    using assms(2) length_text_units [of "stringify f"] by (simp add: wire_text_def)
  then show ?thesis using assms(1) by (simp add: client_send_def encodeFrame_def Let_def LIMITS_def)
qed

definition demo_open :: client where
  "demo_open = snd (connect_open demo_env new_client)"

definition demo_asked :: client where
  "demo_asked = snd (client_request demo_env ''a1'' ''status.get'' (JObj []) None None demo_open)"

lemma demo_open_eq: "demo_open = new_client\<lparr>cl_socket := True, cl_next := 1, cl_timers := [HandshakeTimer 0], cl_queue := [0],
    cl_sent := [hello_frame demo_env]\<rparr>"
proof -
  have "length (stringify (hello_frame demo_env)) \<le> 1000" by code_simp
  then show ?thesis
    by (simp add: demo_open_def connect_open_def exchangeHandshake_def fresh_promise_def arm_def send_short new_client_def)
qed

lemma demo_asked_eq: "demo_asked = demo_open\<lparr>cl_next := 2,
    cl_timers := [RequestTimer ''a1'' 1 ''status.get'' 5000, HandshakeTimer 0],
    cl_pending := [(''a1'', \<lparr>pe_promise = 1, pe_timer = RequestTimer ''a1'' 1 ''status.get'' 5000\<rparr>)],
    cl_sent := cl_sent demo_open @ [request_frame ''a1'' ''status.get'' (JObj []) 5000 None]\<rparr>"
proof -
  have "num_json 5000 = int_str 5000" using num_json_int [of 5000] by simp
  then have "length (stringify (request_frame ''a1'' ''status.get'' (JObj []) 5000 None)) \<le> 1000"
    by (simp add: request_frame_def str_json_def esc_char_def int_str_def nat_str.simps)
  moreover have "ce_deadlineMs demo_env = None" by (simp add: demo_env_def)
  moreover have "commandTimeoutMs LIMITS = 5000" by (simp add: LIMITS_def)
  ultimately show ?thesis
    unfolding demo_asked_def client_request_def fresh_promise_def arm_def Let_def
    by (simp add: send_short demo_open_eq new_client_def eval_nat_numeral)
qed

lemma demo_reach: "client_reach demo_env demo_asked"
proof -
  have "client_reach demo_env demo_open"
    unfolding demo_open_def by (rule client_reach.step [OF client_reach.init call_connect]) (simp add: new_client_def)
  moreover have "map_get (cl_pending demo_open) ''a1'' = None"
    by (simp add: demo_open_eq new_client_def map_get_def)
  ultimately show ?thesis
    unfolding demo_asked_def by (intro client_reach.step [OF _ call_request])
qed

text \<open>C26: no call of the client hangs and none is answered twice: a promise handed out is
  unsettled exactly as long as its own deadline timer is armed, that timer firing settles it,
  and once the client is closed everything is settled.\<close>

theorem calls_accounted:
  assumes "client_reach env c" and "p < cl_next c"
  shows "(settled c p \<longleftrightarrow> \<not> (\<exists>t \<in> set (cl_timers c). timer_promise t = Some p)) \<and>
    (\<forall>t rnd. timer_promise t = Some p \<longrightarrow> settled (fire rnd t c) p) \<and>
    (cl_closed c \<longrightarrow> settled c p)"
proof -
  note inv = inv_reach [OF assms(1)]
  have "settled (fire rnd t c) p" if "timer_promise t = Some p" for t rnd
    using that by (cases t) (simp_all add: fire_def settle_settled)
  then show ?thesis using accounted_iff [OF inv assms(2)] closed_no_timer [OF inv] by fastforce
qed

lemma calls_accounted_witness:
  "cl_next demo_asked = 2 \<and> \<not> settled demo_asked 1 \<and> (\<exists>t \<in> set (cl_timers demo_asked). timer_promise t = Some 1)"
proof -
  have n: "cl_next demo_asked = 2" "map_get (cl_settled demo_asked) 1 = None"
    by (simp_all add: demo_asked_eq demo_open_eq new_client_def map_get_def)
  then show ?thesis using calls_accounted [OF demo_reach, of 1] by (simp add: settled_def)
qed

text \<open>C27: losing the connection reports every request in flight with an unknown outcome, so
  no mutation is taken for not having happened: it is rejected as RACK_DISCONNECTED with
  mutationMayHaveOccurred.  Earlier outcomes stand, handshakes are rejected with the reason,
  no deadline is left armed and later requests are refused without being sent.  The heartbeat
  set last is cleared, so no timer at all is left unless a second authentication had set
  another one.\<close>

theorem disconnect_reports_unknown:
  assumes "client_reach env c" and "\<not> cl_closed c"
  shows "let c' = teardown reason c in
    cl_pending c' = [] \<and> cl_queue c' = [] \<and> cl_timers c' = replicate (count_list (cl_timers c) Heartbeat - 1) Heartbeat \<and>
    (\<forall>i e. map_get (cl_pending c) i = Some e \<longrightarrow> (\<exists>x. map_get (cl_settled c') (pe_promise e) = Some (Rejected x) \<and>
       ep_code (toErrorPayload x) = RACK_DISCONNECTED \<and> ep_mutationMayHaveOccurred (toErrorPayload x))) \<and>
    (\<forall>p \<in> set (cl_queue c). settled c p \<or> map_get (cl_settled c') p = Some (Rejected (PlainErr reason))) \<and>
    (\<forall>p r. map_get (cl_settled c) p = Some r \<longrightarrow> map_get (cl_settled c') p = Some r) \<and>
    client_request env i meth payload deadline opid c' = (Inl (PlainErr ''not connected''), c')"
proof -
  note inv = inv_reach [OF assms(1)]
  note settles = teardown_rejects_pending [OF inv assms(2)] teardown_rejects_waiter [OF inv assms(2)]
    teardown_settled [OF assms(2)]
  have code: "normalizeErrorCode ''RACK_DISCONNECTED'' = RACK_DISCONNECTED" by code_simp
  show ?thesis
    unfolding Let_def teardown_timers [OF inv assms(2)]
    using settles teardown_fields [OF assms(2), of reason]
    by (auto simp: code pendingReason_def client_request_def intro!: exI [of _ "pendingReason reason"])
qed

lemma disconnect_reports_unknown_witness:
  "(\<exists>x. map_get (cl_settled (teardown ''bridge connection closed'' demo_asked)) 1 = Some (Rejected x) \<and>
     ep_code (toErrorPayload x) = RACK_DISCONNECTED) \<and>
   cl_timers (teardown ''bridge connection closed'' demo_asked) = []"
proof -
  have "\<not> cl_closed demo_asked" by (simp add: demo_asked_eq demo_open_eq new_client_def)
  note c27 = disconnect_reports_unknown [OF demo_reach this, of "''bridge connection closed''", unfolded Let_def]
  have n: "count_list (cl_timers demo_asked) Heartbeat = 0" by (simp add: demo_asked_eq demo_open_eq new_client_def)
  have "map_get (cl_pending demo_asked) ''a1'' =
      Some \<lparr>pe_promise = 1, pe_timer = RequestTimer ''a1'' 1 ''status.get'' 5000\<rparr>"
    by (simp add: demo_asked_eq map_get_Cons)
  then have "\<exists>x. map_get (cl_settled (teardown ''bridge connection closed'' demo_asked)) 1 = Some (Rejected x) \<and>
      ep_code (toErrorPayload x) = RACK_DISCONNECTED" using c27 by fastforce
  then show ?thesis using c27 n by simp
qed

text \<open>C28: answers are never mixed up.  While a request waits, a frame from the bridge settles it
  only if it is a response with the id of that request, and then with what the frame says; or
  if it is an event on which the owner closes the client.  Every other frame leaves it waiting
  with its deadline armed.\<close>

theorem responses_correlated:
  assumes "client_reach env c" and "RequestTimer i p m d \<in> set (cl_timers c)"
    and "dispatch env frame c = (r, c')"
  shows "RequestTimer i p m d \<in> set (cl_timers c') \<and> \<not> settled c' p \<or>
    field frame ''kind'' = Some (JStr ''res'') \<and> field frame ''id'' = Some (JStr i) \<and>
      map_get (cl_settled c') p = Some (response_outcome frame) \<or>
    field frame ''kind'' = Some (JStr ''evt'') \<and>
      map_get (cl_settled c') p = Some (Rejected (pendingReason ''client closed''))"
proof -
  note inv = inv_reach [OF assms(1)]
  let ?t = "RequestTimer i p m d"
  have get: "map_get (cl_pending c) i = Some \<lparr>pe_promise = p, pe_timer = ?t\<rparr>"
    by (rule mirror_entry(2)) (use inv assms(2) in \<open>simp_all add: client_inv_def\<close>)
  note u = timer_unique [OF inv assms(2), of p, simplified]
  show ?thesis
    using assms(3)
  proof (cases rule: dispatch_cases)
    case same
    then show ?thesis using assms(2) u(1) by simp
  next
    case (waiter q qs)
    have "q \<noteq> p" using mirror_entry(4) [of c q] inv waiter(2) u(1) u(2) [of "HandshakeTimer p"] by (auto simp: client_inv_def)
    then show ?thesis using assms(2) u(1) by (simp add: waiter settle_settled)
  next
    case (response j e)
    show ?thesis
    proof (cases "j = i")
      case True
      then have "e = \<lparr>pe_promise = p, pe_timer = ?t\<rparr>" using response(3) get by simp
      then show ?thesis using True response(1,2,4) u(1) by (simp add: settle_def map_has_def settled_def disarm_def)
    next
      case False
      then have "pe_timer e \<noteq> ?t" using mirror_timer_eq(2) [of c j e] inv response(3) by (auto simp: client_inv_def)
      moreover from this have "pe_promise e \<noteq> p" using u(2) [of "pe_timer e"] pending_timer [OF inv response(3)] by auto
      ultimately show ?thesis using assms(2) u(1) by (simp add: response settle_settled)
    qed
  next
    case closed
    have "\<not> cl_closed c" using get inv by (auto simp: client_inv_def map_get_def)
    then show ?thesis
      using teardown_rejects_pending [OF inv _ get] closed by (simp add: client_close_def)
  qed
qed

lemma responses_correlated_witness:
  "map_get (cl_settled (snd (dispatch demo_env (JObj [(''kind'', JStr ''res''), (''id'', JStr ''a1''), (''ok'', JBool True),
     (''payload'', JNum 7)]) demo_asked))) 1 = Some (Resolved (Some (JNum 7)))"
proof -
  let ?f = "JObj [(''kind'', JStr ''res''), (''id'', JStr ''a1''), (''ok'', JBool True), (''payload'', JNum 7)]"
  obtain r c' where d: "dispatch demo_env ?f demo_asked = (r, c')" by fastforce
  have t: "RequestTimer ''a1'' 1 ''status.get'' 5000 \<in> set (cl_timers demo_asked)" by (simp add: demo_asked_eq)
  have "RequestTimer ''a1'' 1 ''status.get'' 5000 \<notin> set (cl_timers c')"
    using d by (auto simp: dispatch_def answer_request_def pending_of_def field_def map_get_def demo_asked_eq
      demo_open_eq new_client_def disarm_def settle_def map_has_def map_delete_def split: if_splits)
  moreover have "field ?f ''kind'' = Some (JStr ''res'')" "response_outcome ?f = Resolved (Some (JNum 7))"
    by (simp_all add: field_def map_get_def response_outcome_def)
  ultimately show ?thesis using responses_correlated [OF demo_reach t d] by (simp add: d)
qed

end
