(* ===== verification/AuditLog.thy ===== *)
theory AuditLog
  imports Client Paths
begin

text \<open>
  The audit log (\<open>apps/mcp-server/src/audit.ts\<close>): appending, rotation by size, expiry by age
  and the bounded view of the recent entries.  The directory holds the live log and one
  rotated generation; what the file system refuses is an argument of each call.  The
  parser of a line (\<open>JSON.parse\<close>, then \<open>AuditEntry.safeParse\<close>) is an argument.
\<close>

section \<open>State\<close>

definition TAIL_BYTES :: nat where
  "TAIL_BYTES = 256 * 1024"

record audit_retention =
  ar_maxBytes :: rat
  ar_maxAgeDays :: rat

definition DEFAULT_RETENTION :: audit_retention where
  "DEFAULT_RETENTION = \<lparr>ar_maxBytes = 8 * 1024 * 1024, ar_maxAgeDays = 30\<rparr>"

text \<open>The directory: \<open>audit.log\<close>, and \<open>audit.log.1\<close> with its modification time.\<close>

record audit_dir =
  ad_live :: "byte list option"
  ad_liveTime :: int
  ad_rotated :: "(byte list \<times> int) option"

record audit_log =
  al_file :: bool
  al_retention :: audit_retention
  al_sinceCheck :: nat
  al_dir :: audit_dir

text \<open>What the file system refuses: creating the directory, looking at or removing the rotated
  file, appending (then a prefix may have been written), the size check, the rename.\<close>

record refusals =
  rf_mkdir :: bool
  rf_expire :: bool
  rf_append :: "nat option"
  rf_stat :: bool
  rf_rename :: bool

definition no_refusal :: refusals where
  "no_refusal = \<lparr>rf_mkdir = False, rf_expire = False, rf_append = None, rf_stat = False, rf_rename = False\<rparr>"

definition new_audit :: "audit_retention \<Rightarrow> audit_dir \<Rightarrow> audit_log" where
  "new_audit r d = \<lparr>al_file = False, al_retention = r, al_sinceCheck = 0, al_dir = d\<rparr>"

section \<open>Retention\<close>

definition expireRotated :: "refusals \<Rightarrow> int \<Rightarrow> audit_log \<Rightarrow> audit_log" where
  "expireRotated rf now a =
     (let days = ar_maxAgeDays (al_retention a) in
      if days \<le> 0 \<or> rf_expire rf then a
      else case ad_rotated (al_dir a) of
        None \<Rightarrow> a
      | Some (content, mtime) \<Rightarrow>
          if of_int (now - mtime) > days * 24 * 60 * 60 * 1000
          then a\<lparr>al_dir := (al_dir a)\<lparr>ad_rotated := None\<rparr>\<rparr> else a)"

definition ensureFile :: "refusals \<Rightarrow> int \<Rightarrow> audit_log \<Rightarrow> bool \<times> audit_log" where
  "ensureFile rf now a =
     (if al_file a then (True, a)
      else if rf_mkdir rf then (False, a)
      else (True, expireRotated rf now (a\<lparr>al_file := True\<rparr>)))"

definition check_after :: "rat \<Rightarrow> rat" where
  "check_after m = min (64 * 1024) (max 1 m)"

definition live_size :: "audit_log \<Rightarrow> nat" where
  "live_size a = (case ad_live (al_dir a) of None \<Rightarrow> 0 | Some b \<Rightarrow> length b)"

definition rotateIfLarge :: "refusals \<Rightarrow> int \<Rightarrow> audit_log \<Rightarrow> audit_log" where
  "rotateIfLarge rf now a =
     (let m = ar_maxBytes (al_retention a) in
      if m \<le> 0 \<or> of_nat (al_sinceCheck a) < check_after m then a
      else let a1 = a\<lparr>al_sinceCheck := 0\<rparr> in
        if rf_stat rf \<or> ad_live (al_dir a1) = None \<or> of_nat (live_size a1) \<le> m then a1
        else let a2 = expireRotated rf now a1 in
          if rf_rename rf then a2
          else a2\<lparr>al_dir := \<lparr>ad_live = None, ad_liveTime = ad_liveTime (al_dir a2),
            ad_rotated = Some (the (ad_live (al_dir a2)), ad_liveTime (al_dir a2))\<rparr>\<rparr>)"

section \<open>Recording\<close>

record audit_entry =
  ae_tool :: string
  ae_outcome :: string
  ae_instanceId :: "string option"
  ae_operationId :: "string option"
  ae_errorCode :: "string option"
  ae_durationMs :: "int option"
  ae_schemaValid :: "bool option"

text \<open>\<open>JSON.stringify\<close> leaves undefined members out.\<close>

definition opt_member :: "string \<Rightarrow> json option \<Rightarrow> (string \<times> json) list" where
  "opt_member k v = (case v of None \<Rightarrow> [] | Some j \<Rightarrow> [(k, j)])"

definition entry_json :: "int \<Rightarrow> audit_entry \<Rightarrow> json" where
  "entry_json now e = JObj ([(''ts'', JStr (toISOString now)), (''tool'', JStr (ae_tool e)),
       (''outcome'', JStr (ae_outcome e))] @
     opt_member ''instanceId'' (map_option JStr (ae_instanceId e)) @
     opt_member ''operationId'' (map_option JStr (ae_operationId e)) @
     opt_member ''errorCode'' (map_option JStr (ae_errorCode e)) @
     opt_member ''durationMs'' (map_option (\<lambda>n. JNum (of_int n)) (ae_durationMs e)) @
     opt_member ''schemaValid'' (map_option JBool (ae_schemaValid e)))"

definition newline :: code_unit where
  "newline = 10"

definition entry_line :: "int \<Rightarrow> audit_entry \<Rightarrow> byte list" where
  "entry_line now e = utf8_encode (wire_text (entry_json now e) @ [newline])"

definition append_live :: "byte list \<Rightarrow> int \<Rightarrow> audit_log \<Rightarrow> audit_log" where
  "append_live bs now a = a\<lparr>al_dir := (al_dir a)\<lparr>
     ad_live := Some ((case ad_live (al_dir a) of None \<Rightarrow> [] | Some b \<Rightarrow> b) @ bs), ad_liveTime := now\<rparr>\<rparr>"

definition audit_record :: "refusals \<Rightarrow> int \<Rightarrow> audit_entry \<Rightarrow> audit_log \<Rightarrow> audit_log" where
  "audit_record rf now e a =
     (let (ok, a1) = ensureFile rf now a in
      if \<not> ok then a1
      else let line = entry_line now e in
        case rf_append rf of
          Some k \<Rightarrow> (if k = 0 then a1 else append_live (take k line) now a1)
        | None \<Rightarrow>
            let a2 = append_live line now a1
            in rotateIfLarge rf now (a2\<lparr>al_sinceCheck := al_sinceCheck a2 + length line\<rparr>))"

section \<open>Reading\<close>

fun split_units :: "code_unit \<Rightarrow> code_unit list \<Rightarrow> code_unit list list" where
  "split_units c [] = [[]]"
| "split_units c (x # xs) = (if x = c then [] # split_units c xs
     else (case split_units c xs of l # ls \<Rightarrow> (x # l) # ls | [] \<Rightarrow> [[x]]))"

text \<open>The code units \<open>String.prototype.trim\<close> removes.\<close>

definition trimmed_unit :: "code_unit \<Rightarrow> bool" where
  "trimmed_unit u = (let n = unat u in (9 \<le> n \<and> n \<le> 13) \<or> n = 0x20 \<or> n = 0xA0 \<or> n = 0x1680 \<or>
     (0x2000 \<le> n \<and> n \<le> 0x200A) \<or> n = 0x2028 \<or> n = 0x2029 \<or> n = 0x202F \<or> n = 0x205F \<or> n = 0x3000 \<or> n = 0xFEFF)"

definition blank :: "code_unit list \<Rightarrow> bool" where
  "blank l = list_all trimmed_unit l"

text \<open>\<open>tailLines\<close>: \<open>None\<close> stands for a missing or unreadable file.\<close>

definition tailLines :: "byte list option \<Rightarrow> code_unit list list" where
  "tailLines file = (case file of None \<Rightarrow> []
     | Some bs \<Rightarrow>
         let size = length bs; n = min size TAIL_BYTES;
             lines = split_units newline (utf8_decode (drop (size - n) bs));
             whole = (if size > n \<and> lines \<noteq> [] then tl lines else lines)
         in filter (\<lambda>l. \<not> blank l) whole)"

text \<open>\<open>slice(-want)\<close>; minus zero is zero.\<close>

definition slice_last :: "nat \<Rightarrow> 'a list \<Rightarrow> 'a list" where
  "slice_last want xs = (if want = 0 then xs else drop (length xs - want) xs)"

fun accept_lines :: "(code_unit list \<Rightarrow> 'e option) \<Rightarrow> code_unit list list \<Rightarrow> 'e list \<times> nat" where
  "accept_lines acc [] = ([], 0)"
| "accept_lines acc (l # ls) = (let (es, skipped) = accept_lines acc ls in
     case acc l of Some e \<Rightarrow> (e # es, skipped) | None \<Rightarrow> (es, Suc skipped))"

definition recent :: "(code_unit list \<Rightarrow> 'e option) \<Rightarrow> refusals \<Rightarrow> int \<Rightarrow> bool \<Rightarrow> bool \<Rightarrow> int \<Rightarrow> audit_log \<Rightarrow>
  ('e list \<times> nat) \<times> audit_log" where
  "recent acc rf now liveReadable rotatedReadable limit a =
     (let (ok, a1) = ensureFile rf now a in
      if \<not> ok then (([], 0), a1)
      else let want = nat (max 0 limit);
               live = tailLines (if liveReadable then ad_live (al_dir a1) else None);
               lines = (if length live < want
                 then tailLines (if rotatedReadable then map_option fst (ad_rotated (al_dir a1)) else None) @ live
                 else live)
           in (accept_lines acc (slice_last want lines), a1))"

section \<open>The live log stays bounded\<close>

fun audit_run :: "(refusals \<times> int \<times> audit_entry) list \<Rightarrow> audit_log \<Rightarrow> audit_log" where
  "audit_run [] a = a"
| "audit_run ((rf, now, e) # calls) a = audit_run calls (audit_record rf now e a)"

text \<open>The appends, the size check and the rename go through; creating the directory and expiring
  the rotated file may fail.\<close>

definition writes_ok :: "refusals \<Rightarrow> bool" where
  "writes_ok rf = (rf_append rf = None \<and> \<not> rf_stat rf \<and> \<not> rf_rename rf)"

definition bounded_log :: "rat \<Rightarrow> audit_log \<Rightarrow> bool" where
  "bounded_log b a \<longleftrightarrow> ar_maxBytes (al_retention a) \<le> b \<and>
     of_nat (live_size a) \<le> b + of_nat (al_sinceCheck a) \<and>
     of_nat (al_sinceCheck a) < check_after (ar_maxBytes (al_retention a))"

lemma expireRotated_frame [simp]:
  "al_retention (expireRotated rf now a) = al_retention a" "al_sinceCheck (expireRotated rf now a) = al_sinceCheck a"
  "live_size (expireRotated rf now a) = live_size a" "ad_live (al_dir (expireRotated rf now a)) = ad_live (al_dir a)"
  by (auto simp: expireRotated_def Let_def live_size_def split: option.split)

lemma ensureFile_frame:
  "ensureFile rf now a = (ok, a') \<Longrightarrow> al_retention a' = al_retention a \<and> al_sinceCheck a' = al_sinceCheck a \<and>
     live_size a' = live_size a"
  by (auto simp: ensureFile_def live_size_def split: if_splits)

lemma append_live_frame [simp]:
  "al_retention (append_live bs now a) = al_retention a" "al_sinceCheck (append_live bs now a) = al_sinceCheck a"
  "live_size (append_live bs now a) = live_size a + length bs"
  by (auto simp: append_live_def live_size_def split: option.split)

lemma since_frame: "live_size (a\<lparr>al_sinceCheck := n\<rparr>) = live_size a"
  by (simp add: live_size_def)

lemma check_after_pos: "0 < check_after m" "check_after m \<le> 64 * 1024"
  by (simp_all add: check_after_def)

lemma rotate_bounded:
  assumes "0 < ar_maxBytes (al_retention a)" and "ar_maxBytes (al_retention a) \<le> b" and "writes_ok rf"
    and "of_nat (live_size a) \<le> b + of_nat (al_sinceCheck a)"
  shows "bounded_log b (rotateIfLarge rf now a)"
proof -
  have "live_size a = 0 \<or> ad_live (al_dir a) \<noteq> None" by (simp add: live_size_def split: option.split)
  then show ?thesis
    using assms check_after_pos
    by (auto simp: rotateIfLarge_def Let_def bounded_log_def writes_ok_def live_size_def)
qed

lemma record_bounded:
  assumes "bounded_log b a" and "0 < ar_maxBytes (al_retention a)" and "writes_ok rf"
  shows "bounded_log b (audit_record rf now e a) \<and>
    al_retention (audit_record rf now e a) = al_retention a"
proof -
  obtain ok a1 where e: "ensureFile rf now a = (ok, a1)" by fastforce
  note f = ensureFile_frame [OF e]
  have ret: "al_retention (rotateIfLarge rf now x) = al_retention x" for x
    by (simp add: rotateIfLarge_def Let_def)
  show ?thesis
  proof (cases ok)
    case True
    have "bounded_log b (rotateIfLarge rf now ((append_live (entry_line now e) now a1)
        \<lparr>al_sinceCheck := al_sinceCheck a1 + length (entry_line now e)\<rparr>))"
      by (rule rotate_bounded) (use assms f in \<open>auto simp: bounded_log_def since_frame\<close>)
    then show ?thesis
      using e True assms(3) f by (simp add: audit_record_def Let_def writes_ok_def ret)
  next
    case False
    then show ?thesis using e assms f by (auto simp: audit_record_def bounded_log_def)
  qed
qed

lemma run_bounded:
  "bounded_log b a \<Longrightarrow> 0 < ar_maxBytes (al_retention a) \<Longrightarrow> list_all (\<lambda>c. writes_ok (fst c)) calls \<Longrightarrow>
   bounded_log b (audit_run calls a)"
  by (induction calls a rule: audit_run.induct) (simp_all add: record_bounded)

section \<open>The recent view\<close>

lemma accept_lines_filter:
  "accept_lines acc ls = (List.map_filter acc ls, length (filter (\<lambda>l. acc l = None) ls))"
  by (induction ls) (auto simp: map_filter_simps split: option.split)

lemma map_filter_length: "length (List.map_filter acc ls) + length (filter (\<lambda>l. acc l = None) ls) = length ls"
  by (induction ls) (auto simp: map_filter_simps split: option.split)

text \<open>Reading the rotated generation only when the live log is short changes nothing.\<close>

definition newest :: "nat \<Rightarrow> 'a list \<Rightarrow> 'a list" where
  "newest n xs = rev (take n (rev xs))"

lemma length_newest [simp]: "length (newest n xs) = min n (length xs)"
  by (simp add: newest_def)

lemma top_up: "0 < n \<Longrightarrow> slice_last n (if length ys < n then xs @ ys else ys) = newest n (xs @ ys)"
  by (auto simp: slice_last_def newest_def take_rev)

text \<open>The lines of a file, each with the offset at which it begins.\<close>

fun lines_at :: "nat \<Rightarrow> byte list \<Rightarrow> (nat \<times> byte list) list" where
  "lines_at k [] = [(k, [])]"
| "lines_at k (b # bs) = (if b = 10 then (k, []) # lines_at (Suc k) bs
     else (case lines_at (Suc k) bs of (_, l) # ls \<Rightarrow> (k, b # l) # ls | [] \<Rightarrow> [(k, [b])]))"

text \<open>What may be shown of a file: its lines in order, of a file above 256 KiB those that begin after
  the first of the last 256 KiB.  Blank lines are not counted.\<close>

definition window_lines :: "byte list option \<Rightarrow> code_unit list list" where
  "window_lines file = (case file of None \<Rightarrow> [] | Some bs \<Rightarrow> filter (\<lambda>l. \<not> blank l)
     (map (\<lambda>(k, l). utf8_decode l)
       (filter (\<lambda>(k, l). length bs \<le> 262144 \<or> length bs - 262144 < k) (lines_at 0 bs))))"

lemma lines_at_Nil [simp]: "lines_at k bs \<noteq> []"
  by (cases bs) (auto split: list.split)

lemma lines_at_head: "\<exists>l ls. lines_at k bs = (k, l) # ls \<and> (\<forall>x \<in> set ls. k < fst x)"
proof (induction k bs rule: lines_at.induct)
  case (2 k b bs)
  show ?case
  proof (cases "b = 10")
    case True
    obtain l ls where "lines_at (Suc k) bs = (Suc k, l) # ls" "\<forall>x \<in> set ls. Suc k < fst x" using 2(1) True by blast
    then show ?thesis using True by auto
  next
    case False
    obtain l ls where "lines_at (Suc k) bs = (Suc k, l) # ls" "\<forall>x \<in> set ls. Suc k < fst x" using 2(2) False by blast
    then show ?thesis using False by auto
  qed
qed simp

lemma lines_at_drop:
  "m \<le> length bs \<Longrightarrow> tl (lines_at (k + m) (drop m bs)) = filter (\<lambda>(o', l). k + m < o') (lines_at k bs)"
proof (induction m arbitrary: k bs)
  case 0
  obtain l ls where l: "lines_at k bs = (k, l) # ls" "\<forall>x \<in> set ls. k < fst x" using lines_at_head by blast
  then have "filter (\<lambda>(o', l). k < o') ls = ls" by (intro filter_True) auto
  then show ?case by (simp add: l(1))
next
  case (Suc m)
  then obtain b r where bs: "bs = b # r" by (cases bs) auto
  obtain l ls where l: "lines_at (Suc k) r = (Suc k, l) # ls" using lines_at_head by blast
  have "tl (lines_at (Suc k + m) (drop m r)) = filter (\<lambda>(o', l). Suc k + m < o') (lines_at (Suc k) r)"
    using Suc.IH [of r "Suc k"] Suc.prems bs by simp
  also have "\<dots> = filter (\<lambda>(o', l). Suc k + m < o') (lines_at k bs)" unfolding bs by (simp add: l)
  finally show ?case by (simp add: bs)
qed

text \<open>Cutting the text at line feeds and decoding the lines of the bytes are the same.\<close>

lemma split_units_one: "newline \<notin> set u \<Longrightarrow> split_units newline u = [u]"
  by (induction u) auto

lemma split_units_line: "newline \<notin> set u \<Longrightarrow> split_units newline (u @ newline # v) = u # split_units newline v"
  by (induction u) auto

lemma lines_at_one: "10 \<notin> set bs \<Longrightarrow> lines_at k bs = [(k, bs)]"
  by (induction bs arbitrary: k) auto

lemma lines_at_line: "10 \<notin> set a \<Longrightarrow> lines_at k (a @ 10 # b) = (k, a) # lines_at (Suc (k + length a)) b"
  by (induction a arbitrary: k) auto

lemma split_decode: "split_units newline (utf8_decode bs) = map (\<lambda>(k, l). utf8_decode l) (lines_at k bs)"
proof (induction bs arbitrary: k rule: length_induct)
  case (1 bs)
  note IH = 1 [rule_format]
  show ?case
  proof (cases "10 \<in> set bs")
    case True
    then obtain a b where ab: "bs = a @ 10 # b" "10 \<notin> set a" using split_list_first by metis
    have n: "newline \<notin> set (utf8_decode a)" using utf8_decode_no_line [OF ab(2)] by (simp add: newline_def)
    have "split_units newline (utf8_decode bs) = utf8_decode a # split_units newline (utf8_decode b)"
      using split_units_line [OF n] by (simp add: ab(1) utf8_decode_line newline_def)
    then show ?thesis using IH [of b "Suc (k + length a)"] by (simp add: ab lines_at_line)
  next
    case False
    then show ?thesis using split_units_one utf8_decode_no_line [OF False] by (simp add: lines_at_one newline_def)
  qed
qed

lemma tailLines_window: "tailLines f = window_lines f"
proof (cases f)
  case (Some bs)
  show ?thesis
  proof (cases "length bs \<le> 262144")
    case True
    then show ?thesis by (simp add: Some tailLines_def window_lines_def TAIL_BYTES_def Let_def split_decode [of _ 0])
  next
    case False
    let ?m = "length bs - 262144"
    have "tl (lines_at ?m (drop ?m bs)) = filter (\<lambda>(k, l). ?m < k) (lines_at 0 bs)"
      using lines_at_drop [of ?m bs 0] by simp
    moreover have "split_units newline (utf8_decode (drop ?m bs)) \<noteq> []" by (simp add: split_decode [of _ ?m])
    ultimately show ?thesis using False
      by (simp add: Some tailLines_def window_lines_def TAIL_BYTES_def Let_def split_decode [of _ ?m] map_tl [symmetric])
  qed
qed (simp add: tailLines_def window_lines_def)

text \<open>C32: within one process the audit log does not grow without bound: however many calls are
  recorded, while the disk accepts the writes the live log stays below the larger of the size
  limit and the size it was found with, plus 64 KiB, whatever the lengths of the lines.\<close>

theorem audit_bounded:
  assumes "0 < ar_maxBytes r" and "list_all (\<lambda>c. writes_ok (fst c)) calls"
  shows "of_nat (live_size (audit_run calls (new_audit r d))) <
    max (ar_maxBytes r) (of_nat (live_size (new_audit r d))) + (64 * 1024 :: rat)"
proof -
  let ?b = "max (ar_maxBytes r) (of_nat (live_size (new_audit r d)))"
  have ret: "al_retention (new_audit r d) = r" "al_sinceCheck (new_audit r d) = 0" by (simp_all add: new_audit_def)
  have "bounded_log ?b (new_audit r d)" using check_after_pos by (simp add: bounded_log_def ret)
  then have "bounded_log ?b (audit_run calls (new_audit r d))"
    by (rule run_bounded) (use assms ret in simp_all)
  then show ?thesis using check_after_pos(2) [of "ar_maxBytes (al_retention (audit_run calls (new_audit r d)))"]
    unfolding bounded_log_def by linarith
qed

lemma audit_bounded_witness:
  "of_nat (live_size (audit_run (replicate 9 (no_refusal, 1700000000000,
      \<lparr>ae_tool = ''list_probes'', ae_outcome = ''ok'', ae_instanceId = None, ae_operationId = None,
       ae_errorCode = None, ae_durationMs = Some 3, ae_schemaValid = None\<rparr>))
     (new_audit DEFAULT_RETENTION \<lparr>ad_live = None, ad_liveTime = 0, ad_rotated = None\<rparr>)))
   < (8454144 :: rat)"
  using audit_bounded [of DEFAULT_RETENTION "replicate 9 (no_refusal, 1700000000000,
      \<lparr>ae_tool = ''list_probes'', ae_outcome = ''ok'', ae_instanceId = None, ae_operationId = None,
       ae_errorCode = None, ae_durationMs = Some 3, ae_schemaValid = None\<rparr>)"
     "\<lparr>ad_live = None, ad_liveTime = 0, ad_rotated = None\<rparr>"]
  by (simp add: DEFAULT_RETENTION_def no_refusal_def writes_ok_def live_size_def new_audit_def list_all_iff)

text \<open>The limit holds within one process only: the count of bytes since the last check starts at zero
  with each, so processes that write little never look at the size, and the log they share grows
  by every line.\<close>

definition session_bytes :: "(refusals \<times> int \<times> audit_entry) list \<Rightarrow> nat" where
  "session_bytes calls = (\<Sum>(rf, now, e) \<leftarrow> calls. length (entry_line now e))"

lemma record_grows:
  assumes "writes_ok rf" and "\<not> rf_mkdir rf"
    and "of_nat (al_sinceCheck a + length (entry_line now e)) < check_after (ar_maxBytes (al_retention a))"
  shows "live_size (audit_record rf now e a) = live_size a + length (entry_line now e) \<and>
    al_sinceCheck (audit_record rf now e a) = al_sinceCheck a + length (entry_line now e) \<and>
    al_retention (audit_record rf now e a) = al_retention a"
proof -
  obtain a1 where e: "ensureFile rf now a = (True, a1)" using assms(2) by (cases "al_file a") (auto simp: ensureFile_def)
  from ensureFile_frame [OF e] show ?thesis
    using assms e by (auto simp: audit_record_def Let_def writes_ok_def rotateIfLarge_def since_frame)
qed

lemma short_session_grows:
  "list_all (\<lambda>c. writes_ok (fst c) \<and> \<not> rf_mkdir (fst c)) calls \<Longrightarrow>
   of_nat (al_sinceCheck a + session_bytes calls) < check_after (ar_maxBytes (al_retention a)) \<Longrightarrow>
   live_size (audit_run calls a) = live_size a + session_bytes calls"
proof (induction calls a rule: audit_run.induct)
  case (2 rf now e calls a)
  then have "of_nat (al_sinceCheck a + length (entry_line now e)) < check_after (ar_maxBytes (al_retention a))"
    by (simp add: session_bytes_def)
  from record_grows [OF _ _ this] show ?case using 2 by (simp add: session_bytes_def add.assoc)
qed (simp add: session_bytes_def)

definition audit_sessions :: "audit_retention \<Rightarrow> (refusals \<times> int \<times> audit_entry) list list \<Rightarrow> audit_dir \<Rightarrow> audit_dir" where
  "audit_sessions r css d = foldl (\<lambda>d calls. al_dir (audit_run calls (new_audit r d))) d css"

lemma short_sessions_never_rotate:
  "list_all (\<lambda>calls. list_all (\<lambda>c. writes_ok (fst c) \<and> \<not> rf_mkdir (fst c)) calls \<and>
     of_nat (session_bytes calls) < check_after (ar_maxBytes r)) css \<Longrightarrow>
   live_size (new_audit r (audit_sessions r css d)) = live_size (new_audit r d) + (\<Sum>calls \<leftarrow> css. session_bytes calls)"
proof (induction css arbitrary: d)
  case (Cons calls css)
  let ?d = "al_dir (audit_run calls (new_audit r d))"
  have new: "live_size (new_audit r x) = (case ad_live x of None \<Rightarrow> 0 | Some b \<Rightarrow> length b)" for x
    by (simp add: live_size_def new_audit_def)
  have f: "al_sinceCheck (new_audit r d) = 0" "al_retention (new_audit r d) = r" by (simp_all add: new_audit_def)
  have "live_size (audit_run calls (new_audit r d)) = live_size (new_audit r d) + session_bytes calls"
    using short_session_grows [of calls "new_audit r d"] Cons.prems by (simp add: f)
  then have "live_size (new_audit r ?d) = live_size (new_audit r d) + session_bytes calls"
    unfolding new by (simp add: live_size_def)
  then show ?case using Cons.IH [of ?d] Cons.prems by (simp add: audit_sessions_def)
qed (simp add: audit_sessions_def)

text \<open>C33: the recent view is exactly the newest lines kept.  With a positive limit it holds, oldest
  first, the accepted ones among the last \<open>limit\<close> non-blank lines of the rotated and the live
  file, of each file the lines that begin within its last 256 KiB, and counts the others, so
  nothing is hidden and no more than \<open>limit\<close> lines are looked at.  With a limit of zero or below
  it holds every such line of the live file.  An unreadable file counts as an empty one, and
  without the directory the view is empty.\<close>

theorem recent_exact:
  "case recent acc rf now liveReadable rotatedReadable limit a of ((es, skipped), a') \<Rightarrow>
     a' = snd (ensureFile rf now a) \<and>
     (let live = window_lines (if liveReadable then ad_live (al_dir a') else None);
          older = window_lines (if rotatedReadable then map_option fst (ad_rotated (al_dir a')) else None);
          seen = (if \<not> al_file a \<and> rf_mkdir rf then [] else if 0 < limit then newest (nat limit) (older @ live) else live)
      in es = List.map_filter acc seen \<and> skipped = length (filter (\<lambda>l. acc l = None) seen) \<and>
         length es + skipped = length seen)"
proof (cases "\<not> al_file a \<and> rf_mkdir rf")
  case True
  then show ?thesis by (simp add: recent_def ensureFile_def map_filter_simps)
next
  case False
  then obtain a1 where e: "ensureFile rf now a = (True, a1)" by (cases "al_file a") (auto simp: ensureFile_def)
  have c: "(if \<not> al_file a \<and> rf_mkdir rf then [] else x) = x" for x :: "code_unit list list"
    using False by (rule if_not_P)
  have z: "slice_last 0 xs = xs" for xs :: "code_unit list list" by (simp add: slice_last_def)
  show ?thesis
  proof (cases "0 < limit")
    case True
    then have "0 < nat limit" "nat (max 0 limit) = nat limit" by auto
    then show ?thesis using e True unfolding c
      by (simp add: recent_def Let_def tailLines_window accept_lines_filter map_filter_length top_up)
  next
    case lim: False
    then have "nat (max 0 limit) = 0" by simp
    then show ?thesis using e lim unfolding c
      by (simp add: recent_def Let_def tailLines_window accept_lines_filter map_filter_length z)
  qed
qed

definition demo_audit :: audit_log where
  "demo_audit = \<lparr>al_file = True, al_retention = DEFAULT_RETENTION, al_sinceCheck = 0,
     al_dir = \<lparr>ad_live = Some [97, 10, 98, 10], ad_liveTime = 0, ad_rotated = Some ([99, 10, 32, 10], 0)\<rparr>\<rparr>"

lemma recent_exact_witness:
  "fst (recent (\<lambda>l. if l = [97] then None else Some l) no_refusal 0 True True 5 demo_audit) = ([[99], [98]], 1)"
proof -
  let ?acc = "\<lambda>l :: code_unit list. if l = [97] then None else Some l"
  obtain es k a' where r: "recent ?acc no_refusal 0 True True 5 demo_audit = ((es, k), a')"
    by (cases "recent ?acc no_refusal 0 True True 5 demo_audit") auto
  have "window_lines (Some [97, 10, 98, 10]) = [[97], [98]]" "window_lines (Some [99, 10, 32, 10]) = [[99]]"
    by (simp_all add: window_lines_def utf8_decode_def dec_one units_of_def blank_def trimmed_unit_def)
  then have "es = [[99], [98]] \<and> k = 1"
    using recent_exact [where acc = ?acc and rf = no_refusal and now = 0 and liveReadable = True and
        rotatedReadable = True and limit = 5 and a = demo_audit, unfolded r]
    by (simp add: demo_audit_def ensureFile_def Let_def newest_def map_filter_simps)
  then show ?thesis by (simp add: r)
qed

end
