(* ===== verification/Connection.thy ===== *)
theory Connection
  imports Client Paths
begin

text \<open>
  Instance discovery (\<open>packages/protocol/src/discovery.ts\<close>) and the connection manager
  (\<open>apps/mcp-server/src/connection.ts\<close>): which instance is selected, its session, the
  writer lease, and reconnection.  What an \<open>await\<close> lets happen (the plugin, the clock, the
  callbacks of a session, other calls) is an arbitrary change of the manager's state.  The
  manager's calls and the wait for the command pump call each other, so they take fuel;
  running out of fuel is the error \<open>None\<close>, which no handler catches.
\<close>

section \<open>Discovery\<close>

record instance_manifest =
  im_instanceId :: string
  im_pid :: nat
  im_rackVersion :: string
  im_rackEdition :: string
  im_bridgeVersion :: string
  im_bridgeProtocolVersion :: nat
  im_port :: nat
  im_startTime :: string
  im_lastHeartbeat :: string
  im_mode :: string
  im_patchName :: "string option"
  im_commandPumpPresent :: bool
  im_bridgeModulePresent :: bool
  im_userDir :: string
  im_patchesDir :: string
  im_checkpointsDir :: string

record discovered =
  di_manifest :: instance_manifest
  di_manifestPath :: string
  di_stale :: bool
  di_pidAlive :: bool

text \<open>The outcome of \<open>process.kill(pid, 0)\<close>.\<close>

datatype kill_outcome = Signalled | KillError string

definition pidAlive :: "(nat \<Rightarrow> kill_outcome) \<Rightarrow> nat \<Rightarrow> bool" where
  "pidAlive kill pid = (case kill pid of Signalled \<Rightarrow> True | KillError code \<Rightarrow> code = ''EPERM'')"

text \<open>\<open>Date.parse\<close> of an ISO date-time with the suffix Z; \<open>None\<close> is NaN.\<close>

definition days_from_civil :: "int \<Rightarrow> int \<Rightarrow> int \<Rightarrow> int" where
  "days_from_civil y m d = (let y' = (if m \<le> 2 then y - 1 else y); yoe = y' mod 400;
     mp = (m + 9) mod 12; doy = (153 * mp + 2) div 5 + d - 1;
     doe = yoe * 365 + yoe div 4 - yoe div 100 + doy in (y' div 400) * 146097 + doe - 719468)"

definition two_digits :: "string \<Rightarrow> int option" where
  "two_digits s = (if length s = 2 \<and> all_digits s then Some (int (digits_val s)) else None)"

definition clock_of :: "string \<Rightarrow> int option" where
  "clock_of t = (case split_first (CHR ''.'') t of
     None \<Rightarrow> (if length t = 8 \<and> t ! 2 = CHR '':'' \<and> t ! 5 = CHR '':''
        then (case (two_digits (take 2 t), two_digits (take 2 (drop 3 t)), two_digits (drop 6 t)) of
            (Some h, Some m, Some s) \<Rightarrow> if h \<le> 23 \<and> m \<le> 59 \<and> s \<le> 59 then Some ((h * 3600 + m * 60 + s) * 1000) else None
          | _ \<Rightarrow> None)
        else if length t = 5 \<and> t ! 2 = CHR '':''
        then (case (two_digits (take 2 t), two_digits (drop 3 t)) of
            (Some h, Some m) \<Rightarrow> if h \<le> 23 \<and> m \<le> 59 then Some ((h * 3600 + m * 60) * 1000) else None
          | _ \<Rightarrow> None)
        else None)
   | Some (hms, fr) \<Rightarrow> (if length hms = 8 \<and> hms ! 2 = CHR '':'' \<and> hms ! 5 = CHR '':'' \<and> all_digits fr
        then (case (two_digits (take 2 hms), two_digits (take 2 (drop 3 hms)), two_digits (drop 6 hms)) of
            (Some h, Some m, Some s) \<Rightarrow> if h \<le> 23 \<and> m \<le> 59 \<and> s \<le> 59
              then Some ((h * 3600 + m * 60 + s) * 1000 + int (digits_val (take 3 (fr @ ''00'')))) else None
          | _ \<Rightarrow> None)
        else None))"

definition date_parse :: "string \<Rightarrow> int option" where
  "date_parse s = (if length s < 12 \<or> last s \<noteq> CHR ''Z'' \<or> s ! 4 \<noteq> CHR ''-'' \<or> s ! 7 \<noteq> CHR ''-'' \<or> s ! 10 \<noteq> CHR ''T''
       \<or> \<not> all_digits (take 4 s) then None
     else case (two_digits (take 2 (drop 5 s)), two_digits (take 2 (drop 8 s)), clock_of (butlast (drop 11 s))) of
       (Some m, Some d, Some t) \<Rightarrow> if 1 \<le> m \<and> m \<le> 12 \<and> 1 \<le> d \<and> d \<le> 31
         then Some (days_from_civil (int (digits_val (take 4 s))) m d * 86400000 + t) else None
     | _ \<Rightarrow> None)"

text \<open>A directory entry: its size and text, or the error that reading it throws.  The parser
  (\<open>JSON.parse\<close>, then the manifest schema) is an argument; the clock is read once per entry.\<close>

type_synonym dir_file = "exn + nat \<times> string"

definition scan_entry :: "(string \<Rightarrow> instance_manifest option) \<Rightarrow> (nat \<Rightarrow> kill_outcome) \<Rightarrow> (string \<Rightarrow> int) \<Rightarrow>
  string \<Rightarrow> string \<times> dir_file \<Rightarrow> discovered option" where
  "scan_entry parse kill clock dir f = (case snd f of
     Inl e \<Rightarrow> None
   | Inr (sz, content) \<Rightarrow>
       if sz > 64 * 1024 then None
       else case parse content of None \<Rightarrow> None
         | Some m \<Rightarrow>
             let alive = pidAlive kill (im_pid m);
                 old = (case date_parse (im_lastHeartbeat m) of None \<Rightarrow> False
                   | Some t \<Rightarrow> clock (fst f) - t > instanceStaleAfterMs LIMITS)
             in Some \<lparr>di_manifest = m, di_manifestPath = dir @ slash # fst f, di_stale = (\<not> alive \<or> old), di_pidAlive = alive\<rparr>)"

definition scanInstances :: "(string \<Rightarrow> instance_manifest option) \<Rightarrow> (nat \<Rightarrow> kill_outcome) \<Rightarrow> (string \<Rightarrow> int) \<Rightarrow>
  string \<Rightarrow> (string \<times> dir_file) list option \<Rightarrow> discovered list" where
  "scanInstances parse kill clock dir entries = (case entries of None \<Rightarrow> []
     | Some fs \<Rightarrow> List.map_filter (scan_entry parse kill clock dir) (filter (\<lambda>f. ends_with (fst f) ''.json'') fs))"

text \<open>The pairing secret: 64 lowercase hex digits, surrounding white space aside.\<close>

definition blank_char :: "char \<Rightarrow> bool" where
  "blank_char c = (let n = of_char c :: nat in (9 \<le> n \<and> n \<le> 13) \<or> n = 32 \<or> n = 160)"

definition trim :: "string \<Rightarrow> string" where
  "trim s = rev (dropWhile blank_char (rev (dropWhile blank_char s)))"

definition lower_hex :: "char \<Rightarrow> bool" where
  "lower_hex c = (digit c \<or> (97 \<le> (of_char c :: nat) \<and> (of_char c :: nat) \<le> 102))"

definition hex_nibble :: "char \<Rightarrow> nat" where
  "hex_nibble c = (if digit c then of_char c - 48 else of_char c - 87)"

fun hex_bytes :: "string \<Rightarrow> string" where
  "hex_bytes (a # b # r) = char_of (hex_nibble a * 16 + hex_nibble b) # hex_bytes r"
| "hex_bytes _ = []"

definition loadPairingSecret :: "exn + string \<Rightarrow> exn + string" where
  "loadPairingSecret file = (case file of Inl e \<Rightarrow> Inl e
     | Inr text \<Rightarrow> (let h = trim text in
         if length h = 64 \<and> list_all lower_hex h then Inr (hex_bytes h)
         else Inl (PlainErr ''pairing secret file is malformed'')))"

section \<open>The manager\<close>

record selection =
  sl_instanceId :: string
  sl_sessionId :: string
  sl_rackVersion :: string
  sl_rackEdition :: string
  sl_port :: nat
  sl_pid :: nat

record session_welcome =
  wl_instanceId :: string
  wl_sessionId :: string
  wl_rackVersion :: string
  wl_rackEdition :: string

text \<open>Sessions are numbered; \<open>cn_live\<close> are those whose socket is open.\<close>

record 'w conn =
  cn_userNotesPending :: bool
  cn_client :: "nat option"
  cn_live :: "nat list"
  cn_selected :: "selection option"
  cn_leaseId :: "string option"
  cn_nextClient :: nat
  cn_world :: 'w

text \<open>
  What the manager is given.  The fields of the first group read the file system, the
  processes and the clock; those of the second are the awaits: the connect lock, a session's
  \<open>connect\<close>, \<open>authenticate\<close> and \<open>request\<close>, and the pause between two polls.
\<close>

record 'w conn_deps =
  cd_discoveryDir :: string
  cd_entries :: "'w \<Rightarrow> (string \<times> dir_file) list option"
  cd_parse :: "string \<Rightarrow> instance_manifest option"
  cd_kill :: "'w \<Rightarrow> nat \<Rightarrow> kill_outcome"
  cd_scanClock :: "'w \<Rightarrow> string \<Rightarrow> int"
  cd_secretFile :: "'w \<Rightarrow> exn + string"
  cd_now :: "'w \<Rightarrow> int"
  cd_requestDeadlineMs :: int
  cd_lock :: "'w conn \<Rightarrow> 'w conn"
  cd_connect :: "nat \<Rightarrow> nat \<Rightarrow> 'w conn \<Rightarrow> (exn + session_welcome) \<times> 'w conn"
  cd_authenticate :: "nat \<Rightarrow> string \<Rightarrow> 'w conn \<Rightarrow> (exn + unit) \<times> 'w conn"
  cd_request :: "nat \<Rightarrow> string \<Rightarrow> json \<Rightarrow> string option \<Rightarrow> int \<Rightarrow> 'w conn \<Rightarrow> (exn + json) \<times> 'w conn"
  cd_pause :: "int \<Rightarrow> 'w conn \<Rightarrow> 'w conn"

type_synonym ('w, 'a) cm = "(exn option, 'w conn, 'a) prog"

definition lift_exn :: "('s \<Rightarrow> (exn + 'a) \<times> 's) \<Rightarrow> (exn option, 's, 'a) prog" where
  "lift_exn f = (\<lambda>s. case f s of (Inl e, t) \<Rightarrow> (Inl (Some e), t) | (Inr a, t) \<Rightarrow> (Inr a, t))"

text \<open>\<open>catch\<close>, which does not see the end of the fuel.\<close>

definition catching_exn :: "(exn option, 's, 'a) prog \<Rightarrow> (exn \<Rightarrow> (exn option, 's, 'a) prog) \<Rightarrow> (exn option, 's, 'a) prog" where
  "catching_exn m h = catching m (\<lambda>x. case x of None \<Rightarrow> throw None | Some e \<Rightarrow> h e)"

definition hasPendingUserNotes :: "'w conn \<Rightarrow> bool" where
  "hasPendingUserNotes s = cn_userNotesPending s"

definition clearPendingUserNotes :: "'w conn \<Rightarrow> 'w conn" where
  "clearPendingUserNotes s = s\<lparr>cn_userNotesPending := False\<rparr>"

definition is_connected :: "'w conn \<Rightarrow> bool" where
  "is_connected s = (case cn_client s of None \<Rightarrow> False | Some i \<Rightarrow> i \<in> set (cn_live s))"

definition hasWriterLease :: "'w conn \<Rightarrow> bool" where
  "hasWriterLease s = (cn_leaseId s \<noteq> None)"

text \<open>A session ends (from either side): its \<open>onClose\<close> hook.\<close>

definition onClose :: "nat \<Rightarrow> 'w conn \<Rightarrow> 'w conn" where
  "onClose i s = (if cn_client s = Some i then s\<lparr>cn_client := None, cn_leaseId := None\<rparr> else s)"

definition close_session :: "nat \<Rightarrow> 'w conn \<Rightarrow> 'w conn" where
  "close_session i s = (if i \<in> set (cn_live s) then onClose i (s\<lparr>cn_live := removeAll i (cn_live s)\<rparr>) else s)"

definition disconnect :: "'w conn \<Rightarrow> 'w conn" where
  "disconnect s = (let s1 = s\<lparr>cn_leaseId := None\<rparr> in
     (case cn_client s1 of None \<Rightarrow> s1 | Some i \<Rightarrow> close_session i s1)\<lparr>cn_client := None\<rparr>)"

text \<open>The \<open>onEvent\<close> hook.\<close>

definition onEvent :: "string \<Rightarrow> 'w conn \<Rightarrow> 'w conn" where
  "onEvent event s = (let s1 = (if event = ''shutting_down'' then disconnect s else s) in
     if event = ''user_note_pending'' then s1\<lparr>cn_userNotesPending := True\<rparr> else s1)"

section \<open>Connecting\<close>

definition exn_text :: "exn \<Rightarrow> string" where
  "exn_text e = (case e of PlainErr m \<Rightarrow> ''Error: '' @ m | ToolErr t \<Rightarrow> ''ToolError: '' @ te_message t
     | BridgeErr r \<Rightarrow> ''BridgeRequestError: '' @ rpc_code r @ '': '' @ rpc_message r)"

definition find_instance :: "string \<Rightarrow> discovered list \<Rightarrow> discovered option" where
  "find_instance i ds = List.find (\<lambda>d. im_instanceId (di_manifest d) = i) ds"

definition selection_of :: "session_welcome \<Rightarrow> discovered \<Rightarrow> selection" where
  "selection_of w d = \<lparr>sl_instanceId = wl_instanceId w, sl_sessionId = wl_sessionId w, sl_rackVersion = wl_rackVersion w,
     sl_rackEdition = wl_rackEdition w, sl_port = im_port (di_manifest d), sl_pid = im_pid (di_manifest d)\<rparr>"

definition listInstances :: "'w conn_deps \<Rightarrow> 'w conn \<Rightarrow> discovered list" where
  "listInstances d s = scanInstances (cd_parse d) (cd_kill d (cn_world s)) (cd_scanClock d (cn_world s))
     (cd_discoveryDir d) (cd_entries d (cn_world s))"

text \<open>A fresh session: connect, authenticate, then select it.\<close>

definition open_session :: "'w conn_deps \<Rightarrow> discovered \<Rightarrow> string \<Rightarrow> ('w, selection) cm" where
  "open_session d found secret =
     bind (gets cn_nextClient) (\<lambda>i.
     andthen (modify (\<lambda>s. s\<lparr>cn_nextClient := Suc i\<rparr>)) (
     bind (lift_exn (cd_connect d i (im_port (di_manifest found)))) (\<lambda>w.
     andthen (lift_exn (cd_authenticate d i secret)) (
     andthen (modify (\<lambda>s. s\<lparr>cn_client := Some i, cn_selected := Some (selection_of w found)\<rparr>)) (
     ret (selection_of w found))))))"

definition secret_unreadable :: "exn \<Rightarrow> exn" where
  "secret_unreadable e = tool_error AUTHENTICATION_FAILED (''cannot read pairing secret: '' @ exn_text e)"

definition connectTo :: "'w conn_deps \<Rightarrow> string \<Rightarrow> ('w, selection) cm" where
  "connectTo d instanceId = (\<lambda>s.
     if is_connected s \<and> map_option sl_instanceId (cn_selected s) = Some instanceId then ret (the (cn_selected s)) s
     else case find_instance instanceId (listInstances d s) of
       None \<Rightarrow> throw (Some (tool_error_retry RACK_NOT_FOUND (''no discoverable Rack instance '' @ instanceId) True)) s
     | Some found \<Rightarrow>
         if di_stale found
         then throw (Some (tool_error_retry RACK_DISCONNECTED (''instance '' @ instanceId @ '' is stale (no heartbeat)'') True)) s
         else let s1 = (disconnect s)\<lparr>cn_selected := None\<rparr> in
           case loadPairingSecret (cd_secretFile d (cn_world s1)) of
             Inl e \<Rightarrow> throw (Some (secret_unreadable e)) s1
           | Inr secret \<Rightarrow> open_session d found secret s1)"

definition no_live_instance :: exn where
  "no_live_instance = tool_error_retry RACK_NOT_FOUND ''no running Rack instance with the RackMCP bridge'' True"

definition several_instances :: "discovered list \<Rightarrow> exn" where
  "several_instances live = ToolErr \<lparr>te_code = INSTANCE_NOT_SELECTED,
     te_message = nat_str (length live) @ '' instances available; call select_rack_instance first'',
     te_retrySafe = False, te_mutationMayHaveOccurred = False,
     te_details = Some [(''instanceIds'', JArr (map (\<lambda>i. JStr (im_instanceId (di_manifest i))) live))]\<rparr>"

definition notReady :: "exn \<Rightarrow> bool" where
  "notReady e = (case e of BridgeErr r \<Rightarrow> rpc_code r = ''BRIDGE_NOT_READY'' | _ \<Rightarrow> False)"

section \<open>Requests\<close>

definition clock :: "'w conn_deps \<Rightarrow> 'w conn \<Rightarrow> int" where
  "clock d s = cd_now d (cn_world s)"

definition over_session :: "'w conn_deps \<Rightarrow> string \<Rightarrow> json \<Rightarrow> string option \<Rightarrow> int option \<Rightarrow> ('w, json) cm" where
  "over_session d meth payload operationId deadlineMs = bind (gets cn_client) (\<lambda>c. case c of
     None \<Rightarrow> throw (Some (tool_error_retry RACK_DISCONNECTED ''bridge session lost'' True))
   | Some i \<Rightarrow> lift_exn (cd_request d i meth payload operationId
       (case deadlineMs of Some t \<Rightarrow> t | None \<Rightarrow> cd_requestDeadlineMs d)))"

text \<open>\<open>ensureConnected\<close>, \<open>select\<close> and \<open>request\<close>, given the wait for the command pump up to a deadline.\<close>

definition select_by :: "(int \<Rightarrow> ('w, unit) cm) \<Rightarrow> 'w conn_deps \<Rightarrow> string \<Rightarrow> ('w, selection) cm" where
  "select_by wait d instanceId =
     andthen (modify (cd_lock d)) (
     bind (connectTo d instanceId) (\<lambda>selected.
     bind (gets (clock d)) (\<lambda>now.
     andthen (catching_exn (wait (now + 15000)) (\<lambda>_. ret ())) (
     ret selected))))"

definition ensure_by :: "(int \<Rightarrow> ('w, unit) cm) \<Rightarrow> 'w conn_deps \<Rightarrow> ('w, selection) cm" where
  "ensure_by wait d =
     (\<lambda>s. case cn_selected s of
       Some sel \<Rightarrow> (if is_connected s then ret sel s else select_by wait d (sl_instanceId sel) s)
     | None \<Rightarrow> (let live = filter (\<lambda>i. \<not> di_stale i) (listInstances d s) in
         if live = [] then throw (Some no_live_instance) s
         else if length live > 1 then throw (Some (several_instances live)) s
         else select_by wait d (im_instanceId (di_manifest (hd live))) s))"

definition request_by :: "(int \<Rightarrow> ('w, unit) cm) \<Rightarrow> 'w conn_deps \<Rightarrow> string \<Rightarrow> json \<Rightarrow> string option \<Rightarrow>
  int option \<Rightarrow> ('w, json) cm" where
  "request_by wait d meth payload operationId deadlineMs =
     andthen (ensure_by wait d) (over_session d meth payload operationId deadlineMs)"

fun wait_loop :: "nat \<Rightarrow> 'w conn_deps \<Rightarrow> int \<Rightarrow> ('w, unit) cm" where
  "wait_loop 0 d deadline = throw None"
| "wait_loop (Suc n) d deadline =
     catching_exn (andthen (request_by (wait_loop n d) d ''status.get'' (JObj []) None None) (ret ()))
       (\<lambda>e. bind (gets (clock d)) (\<lambda>now.
         if \<not> notReady e \<or> now \<ge> deadline then throw (Some e)
         else andthen (modify (cd_pause d 300)) (wait_loop n d deadline)))"

definition conn_request :: "nat \<Rightarrow> 'w conn_deps \<Rightarrow> string \<Rightarrow> json \<Rightarrow> string option \<Rightarrow> int option \<Rightarrow> ('w, json) cm" where
  "conn_request n d = request_by (wait_loop n d) d"

definition ensureConnected :: "nat \<Rightarrow> 'w conn_deps \<Rightarrow> ('w, selection) cm" where
  "ensureConnected n d = ensure_by (wait_loop n d) d"

definition select_instance :: "nat \<Rightarrow> 'w conn_deps \<Rightarrow> string \<Rightarrow> ('w, selection) cm" where
  "select_instance n d = select_by (wait_loop n d) d"

definition waitForReady :: "nat \<Rightarrow> 'w conn_deps \<Rightarrow> int \<Rightarrow> ('w, unit) cm" where
  "waitForReady n d timeoutMs = bind (gets (clock d)) (\<lambda>now. wait_loop n d (now + timeoutMs))"

section \<open>The writer lease\<close>

text \<open>The reply is used as it comes; \<open>leaseId\<close> of a reply without one is undefined.\<close>

definition member_str :: "string \<Rightarrow> json \<Rightarrow> string option" where
  "member_str k j = (case j of JObj ms \<Rightarrow> (case map_of ms k of Some (JStr x) \<Rightarrow> Some x | _ \<Rightarrow> None) | _ \<Rightarrow> None)"

definition acquireLease :: "nat \<Rightarrow> 'w conn_deps \<Rightarrow> ('w, json) cm" where
  "acquireLease n d = bind (conn_request n d ''lease.acquire'' (JObj [(''clientName'', JStr ''rack-mcp-server'')]) None None)
     (\<lambda>res. andthen (modify (\<lambda>s. s\<lparr>cn_leaseId := member_str ''leaseId'' res\<rparr>)) (ret res))"

definition lease_payload :: "string \<Rightarrow> json" where
  "lease_payload l = JObj [(''leaseId'', JStr l)]"

text \<open>An empty lease id is falsy.\<close>

definition held_lease :: "'w conn \<Rightarrow> string option" where
  "held_lease s = (if cn_leaseId s = Some [] then None else cn_leaseId s)"

definition releaseLease :: "nat \<Rightarrow> 'w conn_deps \<Rightarrow> ('w, bool) cm" where
  "releaseLease n d = bind (gets held_lease) (\<lambda>l. case l of None \<Rightarrow> ret False
     | Some l \<Rightarrow> andthen (conn_request n d ''lease.release'' (lease_payload l) None None)
         (andthen (modify (\<lambda>s. s\<lparr>cn_leaseId := None\<rparr>)) (ret True)))"

definition ensureLease :: "nat \<Rightarrow> 'w conn_deps \<Rightarrow> ('w, unit) cm" where
  "ensureLease n d = bind (gets held_lease) (\<lambda>l. case l of
     None \<Rightarrow> andthen (acquireLease n d) (ret ())
   | Some l \<Rightarrow> bind (catching_exn (andthen (conn_request n d ''lease.renew'' (lease_payload l) None None) (ret True))
         (\<lambda>_. andthen (modify (\<lambda>s. s\<lparr>cn_leaseId := None\<rparr>)) (ret False)))
       (\<lambda>renewed. if renewed then ret () else andthen (acquireLease n d) (ret ())))"

section \<open>Selecting an instance\<close>

text \<open>The connect lock: while a session is opened no other call selects an instance.\<close>

definition lock_held :: "'w conn_deps \<Rightarrow> bool" where
  "lock_held d \<longleftrightarrow> (\<forall>i p s. cn_selected (snd (cd_connect d i p s)) = cn_selected s) \<and>
     (\<forall>i secret s. cn_selected (snd (cd_authenticate d i secret s)) = cn_selected s)"

lemma disconnect_selected [simp]: "cn_selected (disconnect s) = cn_selected s" "cn_nextClient (disconnect s) = cn_nextClient s"
  by (auto simp: disconnect_def close_session_def onClose_def Let_def split: option.split)

lemma lift_exn_cases:
  "lift_exn f s = (case f s of (Inl e, t) \<Rightarrow> (Inl (Some e), t) | (Inr a, t) \<Rightarrow> (Inr a, t))"
  by (simp add: lift_exn_def)

lemma open_session_outcome:
  assumes "lock_held d" and "cn_selected s = None" and "open_session d found secret s = (r, s')"
  shows "case r of Inr sel \<Rightarrow> cn_selected s' = Some sel \<and> cn_client s' = Some (cn_nextClient s) \<and>
      (\<exists>w t. fst (cd_connect d (cn_nextClient s) (im_port (di_manifest found)) t) = Inr w \<and> sel = selection_of w found)
    | Inl e \<Rightarrow> e \<noteq> None \<and> cn_selected s' = None"
proof -
  let ?i = "cn_nextClient s" and ?s = "s\<lparr>cn_nextClient := Suc (cn_nextClient s)\<rparr>"
  obtain c s1 where c: "cd_connect d ?i (im_port (di_manifest found)) ?s = (c, s1)" by fastforce
  have s1: "cn_selected s1 = None" using assms(1,2) c unfolding lock_held_def
    by (metis (no_types, lifting) conn.select_convs(4) conn.surjective conn.update_convs(6) snd_conv)
  obtain a s2 where a: "cd_authenticate d ?i secret s1 = (a, s2)" by fastforce
  have s2: "cn_selected s2 = None" using assms(1) a s1 unfolding lock_held_def by (metis snd_conv)
  note defs = open_session_def bind_def andthen_def gets_def modify_def ret_def lift_exn_def
  show ?thesis
  proof (cases "\<exists>w. c = Inr w \<and> a = Inr ()")
    case True
    then obtain w where w: "c = Inr w" "a = Inr ()" by blast
    then have "fst (cd_connect d ?i (im_port (di_manifest found)) ?s) = Inr w" using c by simp
    moreover have "r = Inr (selection_of w found)" "cn_selected s' = Some (selection_of w found)" "cn_client s' = Some ?i"
      using assms(3) c a w by (auto simp: defs)
    ultimately show ?thesis by auto
  next
    case False
    then show ?thesis using assms(3) c a s1 s2 by (cases c; cases a) (auto simp: defs)
  qed
qed

lemma find_instance_Some:
  "find_instance i ds = Some f \<Longrightarrow> f \<in> set ds \<and> im_instanceId (di_manifest f) = i"
  by (auto simp: find_instance_def find_Some_iff)

text \<open>C29: what connecting leaves selected.  A call that succeeds either reuses the open session of that
  very instance and changes nothing, or has opened a fresh session on the port of the first
  discovered manifest with the requested id, which is live, and selects what the peer on that
  port calls itself in its welcome (the id of the welcome is not compared with the requested
  one), with the port and process of the manifest.  A call that fails either changed nothing,
  because the manifest is missing or stale, or leaves no instance selected at all, so that no
  later call goes silently to the previous one.  No other call selects an instance meanwhile,
  which is what the connect lock is for.\<close>

theorem connect_contract:
  assumes "lock_held d" and "connectTo d instanceId s = (r, s')"
  shows "case r of
      Inr sel \<Rightarrow> cn_selected s' = Some sel \<and>
        (s' = s \<and> is_connected s \<and> sl_instanceId sel = instanceId \<or>
         cn_client s' = Some (cn_nextClient s) \<and>
         (\<exists>f w t. find_instance instanceId (listInstances d s) = Some f \<and> \<not> di_stale f \<and>
            im_instanceId (di_manifest f) = instanceId \<and>
            fst (cd_connect d (cn_nextClient s) (im_port (di_manifest f)) t) = Inr w \<and> sel = selection_of w f))
    | Inl e \<Rightarrow> e \<noteq> None \<and>
        (s' = s \<and> (case find_instance instanceId (listInstances d s) of None \<Rightarrow> True | Some f \<Rightarrow> di_stale f) \<or>
         cn_selected s' = None)"
proof (cases "is_connected s \<and> map_option sl_instanceId (cn_selected s) = Some instanceId")
  case True
  then show ?thesis using assms(2) by (auto simp: connectTo_def ret_def)
next
  case False
  let ?s = "(disconnect s)\<lparr>cn_selected := None\<rparr>"
  note step = assms(2) [unfolded connectTo_def if_not_P [OF False] Let_def]
  show ?thesis
  proof (cases "find_instance instanceId (listInstances d s)")
    case None
    with step have "r = Inl (Some (tool_error_retry RACK_NOT_FOUND (''no discoverable Rack instance '' @ instanceId) True))" "s' = s"
      by (simp_all add: throw_def)
    with None show ?thesis by simp
  next
    case (Some f)
    note f = find_instance_Some [OF Some]
    show ?thesis
    proof (cases "di_stale f")
      case True
      with step Some have "(\<exists>e. r = Inl (Some e)) \<and> s' = s" by (auto simp: throw_def)
      with Some True show ?thesis by auto
    next
      case False
      show ?thesis
      proof (cases "loadPairingSecret (cd_secretFile d (cn_world ?s))")
        case (Inl e)
        with step Some False have "r = Inl (Some (secret_unreadable e))" "s' = ?s" by (simp_all add: throw_def)
        then show ?thesis by simp
      next
        case (Inr secret)
        with step Some False have "open_session d f secret ?s = (r, s')" by simp
        from open_session_outcome [OF assms(1) _ this] show ?thesis
          using f False Some by (auto split: sum.splits)
      qed
    qed
  qed
qed

text \<open>A plugin that answers every request at once and a clock that advances with the pauses.\<close>

definition demo_manifest :: instance_manifest where
  "demo_manifest = \<lparr>im_instanceId = ''B'', im_pid = 7, im_rackVersion = ''2.6.0'', im_rackEdition = ''Free'',
     im_bridgeVersion = ''1'', im_bridgeProtocolVersion = 1, im_port = 4000, im_startTime = ''2024-01-01T00:00:00Z'',
     im_lastHeartbeat = ''2024-01-01T00:00:00Z'', im_mode = ''standalone-gui'', im_patchName = None,
     im_commandPumpPresent = True, im_bridgeModulePresent = True, im_userDir = [], im_patchesDir = [], im_checkpointsDir = []\<rparr>"

definition demo_answer :: "exn + json \<Rightarrow> int conn_deps" where
  "demo_answer r = \<lparr>cd_discoveryDir = ''d'', cd_entries = (\<lambda>_. Some [(''a.json'', Inr (10, ''x''))]),
     cd_parse = (\<lambda>_. Some demo_manifest), cd_kill = (\<lambda>_ _. Signalled), cd_scanClock = (\<lambda>_ _. 1704067201000),
     cd_secretFile = (\<lambda>_. Inr (replicate 64 (CHR ''a''))), cd_now = (\<lambda>w. w), cd_requestDeadlineMs = 5000,
     cd_lock = (\<lambda>s. s), cd_connect = (\<lambda>i p s. (Inr \<lparr>wl_instanceId = ''B'', wl_sessionId = ''S'', wl_rackVersion = [], wl_rackEdition = []\<rparr>,
       s\<lparr>cn_live := i # cn_live s\<rparr>)), cd_authenticate = (\<lambda>i x s. (Inr (), s)),
     cd_request = (\<lambda>i m p oid t s. (r, s)), cd_pause = (\<lambda>t s. s\<lparr>cn_world := cn_world s + t\<rparr>)\<rparr>"

definition demo_conn :: "int conn" where
  "demo_conn = \<lparr>cn_userNotesPending = False, cn_client = Some 0, cn_live = [0],
     cn_selected = Some \<lparr>sl_instanceId = ''A'', sl_sessionId = ''T'', sl_rackVersion = [], sl_rackEdition = [], sl_port = 1, sl_pid = 2\<rparr>,
     cn_leaseId = None, cn_nextClient = 1, cn_world = 0\<rparr>"

lemma demo_lock: "lock_held (demo_answer r)"
  by (simp add: lock_held_def demo_answer_def)

lemma demo_scan: "listInstances (demo_answer r) s =
  [\<lparr>di_manifest = demo_manifest, di_manifestPath = ''d/a.json'', di_stale = False, di_pidAlive = True\<rparr>]"
proof -
  have e: "ends_with ''a.json'' ''.json''" by (simp add: ends_with_def)
  have p: "date_parse ''2024-01-01T00:00:00Z'' = Some 1704067200000" by code_simp
  show ?thesis
    by (simp add: listInstances_def scanInstances_def demo_answer_def map_filter_simps scan_entry_def e pidAlive_def
        demo_manifest_def p LIMITS_def)
qed

lemma connect_contract_witness:
  "case connectTo (demo_answer (Inr JNull)) ''C'' demo_conn of (Inr sel, s') \<Rightarrow> False | (Inl e, s') \<Rightarrow> s' = demo_conn"
proof -
  obtain r s' where c: "connectTo (demo_answer (Inr JNull)) ''C'' demo_conn = (r, s')" by fastforce
  have n: "find_instance ''C'' (listInstances (demo_answer (Inr JNull)) demo_conn) = None"
    by (simp add: demo_scan find_instance_def demo_manifest_def)
  have r: "\<exists>e. r = Inl e \<and> s' = demo_conn" using c n
    by (auto simp: connectTo_def demo_conn_def throw_def)
  show ?thesis using connect_contract [OF demo_lock c] r c by auto
qed

section \<open>Waiting for the command pump\<close>

text \<open>The session holds, time does not run backwards, and a pause takes at least \<open>g\<close> milliseconds.\<close>

definition attached :: "'w conn \<Rightarrow> bool" where
  "attached s = (is_connected s \<and> cn_selected s \<noteq> None)"

definition steady :: "int \<Rightarrow> 'w conn_deps \<Rightarrow> bool" where
  "steady g d \<longleftrightarrow> 0 < g \<and>
     (\<forall>i m p oid t s. attached s \<longrightarrow> attached (snd (cd_request d i m p oid t s)) \<and>
        clock d s \<le> clock d (snd (cd_request d i m p oid t s))) \<and>
     (\<forall>s. attached s \<longrightarrow> attached (cd_pause d 300 s) \<and> clock d s + g \<le> clock d (cd_pause d 300 s))"

lemma request_attached:
  assumes "attached s"
  shows "request_by w d m p oid dl s = lift_exn (cd_request d (the (cn_client s)) m p oid
    (case dl of Some t \<Rightarrow> t | None \<Rightarrow> cd_requestDeadlineMs d)) s"
proof -
  obtain i sel where "cn_client s = Some i" "cn_selected s = Some sel"
    using assms by (auto simp: attached_def is_connected_def split: option.splits)
  then show ?thesis using assms
    by (simp add: request_by_def ensure_by_def over_session_def attached_def andthen_def bind_def ret_def gets_def)
qed

text \<open>One round of the poll.\<close>

lemma wait_round:
  assumes "attached s"
  shows "wait_loop (Suc n) d deadline s =
    (case cd_request d (the (cn_client s)) ''status.get'' (JObj []) None (cd_requestDeadlineMs d) s of
       (Inr _, t) \<Rightarrow> (Inr (), t)
     | (Inl e, t) \<Rightarrow> if \<not> notReady e \<or> deadline \<le> clock d t then (Inl (Some e), t)
         else wait_loop n d deadline (cd_pause d 300 t))"
  by (simp add: request_attached [OF assms] catching_exn_def catching_def andthen_def
      bind_def lift_exn_def gets_def ret_def throw_def modify_def split: prod.split sum.split)

definition waited :: "'w conn_deps \<Rightarrow> int \<Rightarrow> (exn option + unit) \<times> 'w conn \<Rightarrow> bool" where
  "waited d deadline o' = (case o' of (Inr _, s') \<Rightarrow> True | (Inl None, s') \<Rightarrow> False
     | (Inl (Some e), s') \<Rightarrow> \<not> notReady e \<or> deadline \<le> clock d s')"

lemma wait_loop_returns:
  assumes "steady g d"
  shows "attached s \<Longrightarrow> deadline - clock d s \<le> int n * g \<Longrightarrow> waited d deadline (wait_loop (Suc n) d deadline s)"
proof (induction n arbitrary: s)
  case (0 s)
  obtain r s1 where q: "cd_request d (the (cn_client s)) ''status.get'' (JObj []) None (cd_requestDeadlineMs d) s = (r, s1)"
    by fastforce
  have "clock d s \<le> clock d s1" using assms 0 q unfolding steady_def by (metis snd_conv)
  then show ?case using 0 q by (cases r) (auto simp: wait_round waited_def simp del: wait_loop.simps)
next
  case (Suc n s)
  obtain r s1 where q: "cd_request d (the (cn_client s)) ''status.get'' (JObj []) None (cd_requestDeadlineMs d) s = (r, s1)"
    by fastforce
  have s1: "clock d s \<le> clock d s1" "attached s1" using assms Suc.prems q unfolding steady_def by (metis snd_conv)+
  then have p: "attached (cd_pause d 300 s1)" "clock d s1 + g \<le> clock d (cd_pause d 300 s1)"
    using assms unfolding steady_def by blast+
  have "deadline - clock d (cd_pause d 300 s1) \<le> int n * g" using Suc.prems p s1 by (simp add: algebra_simps)
  note IH = Suc.IH [OF p(1) this]
  show ?case using Suc.prems(1) q IH by (cases r) (auto simp: wait_round waited_def simp del: wait_loop.simps)
qed

text \<open>C31: waiting for the command pump ends: on a session that stays up, whatever the plugin
  answers, the poll returns after at most \<open>timeout / g + 1\<close> rounds when a pause takes at least
  \<open>g\<close> milliseconds.  It never gives up early: the error it reports is either another one
  than \<open>BRIDGE_NOT_READY\<close>, or the deadline has passed.\<close>

theorem wait_for_ready_returns:
  assumes "steady g d" and "attached s" and "timeoutMs \<le> int n * g"
  shows "case waitForReady (Suc n) d timeoutMs s of
      (Inr _, s') \<Rightarrow> True
    | (Inl None, s') \<Rightarrow> False
    | (Inl (Some e), s') \<Rightarrow> \<not> notReady e \<or> clock d s + timeoutMs \<le> clock d s'"
proof -
  have "waitForReady (Suc n) d timeoutMs s = wait_loop (Suc n) d (clock d s + timeoutMs) s"
    by (simp add: waitForReady_def bind_def gets_def del: wait_loop.simps)
  then show ?thesis
    using wait_loop_returns [OF assms(1,2), of "clock d s + timeoutMs" n] assms(3) by (simp add: waited_def del: wait_loop.simps)
qed

lemma demo_steady: "steady 300 (demo_answer r)"
  by (auto simp: steady_def demo_answer_def attached_def is_connected_def clock_def split: option.splits)

lemma wait_for_ready_returns_witness:
  "case waitForReady 51 (demo_answer (Inl (BridgeErr \<lparr>rpc_code = ''BRIDGE_NOT_READY'', rpc_message = [], rpc_retrySafe = True,
      rpc_mutationMayHaveOccurred = False, rpc_details = None, rpc_rollback = None\<rparr>))) 15000 demo_conn of
    (Inl None, s') \<Rightarrow> False | _ \<Rightarrow> True"
proof -
  let ?d = "demo_answer (Inl (BridgeErr \<lparr>rpc_code = ''BRIDGE_NOT_READY'', rpc_message = [], rpc_retrySafe = True,
      rpc_mutationMayHaveOccurred = False, rpc_details = None, rpc_rollback = None\<rparr>))"
  have a: "attached demo_conn" by (simp add: demo_conn_def attached_def is_connected_def)
  have st: "steady 300 ?d" by (rule demo_steady)
  have "(15000 :: int) \<le> int 50 * 300" by simp
  from wait_for_ready_returns [OF st a this]
  show ?thesis by (auto split: sum.splits option.splits prod.splits)
qed

section \<open>No guessing\<close>

definition live_instances :: "'w conn_deps \<Rightarrow> 'w conn \<Rightarrow> discovered list" where
  "live_instances d s = filter (\<lambda>i. \<not> di_stale i) (listInstances d s)"

text \<open>The refused renewal forgets the lease it was for.\<close>

definition drop_lease :: "'w conn \<Rightarrow> 'w conn" where
  "drop_lease s = (if held_lease s = None then s else s\<lparr>cn_leaseId := None\<rparr>)"

text \<open>Every call that needs a session fails with the same error and changes nothing but a lease that no
  session backs; releasing without a lease has nothing to do.\<close>

definition calls_refused :: "nat \<Rightarrow> 'w conn_deps \<Rightarrow> exn \<Rightarrow> 'w conn \<Rightarrow> bool" where
  "calls_refused n d e s \<longleftrightarrow> ensureConnected n d s = (Inl (Some e), s) \<and>
     (\<forall>meth payload oid dl. conn_request n d meth payload oid dl s = (Inl (Some e), s)) \<and>
     acquireLease n d s = (Inl (Some e), s) \<and> ensureLease n d s = (Inl (Some e), drop_lease s) \<and>
     releaseLease n d s = (if held_lease s = None then (Inr False, s) else (Inl (Some e), s)) \<and>
     (\<forall>timeoutMs. waitForReady (Suc n) d timeoutMs s = (Inl (Some e), s))"

lemma refusal_spreads:
  assumes ens: "\<And>t. cn_selected t = None \<Longrightarrow> cn_world t = cn_world s \<Longrightarrow> ensureConnected n d t = (Inl (Some e), t)"
    and sel: "cn_selected s = None" and e: "\<not> notReady e"
  shows "calls_refused n d e s"
proof -
  have req: "conn_request n d m p oid dl t = (Inl (Some e), t)" if "cn_selected t = None" "cn_world t = cn_world s" for m p oid dl t
    using ens [OF that] by (simp add: conn_request_def ensureConnected_def request_by_def andthen_def bind_def)
  have acq: "acquireLease n d t = (Inl (Some e), t)" if "cn_selected t = None" "cn_world t = cn_world s" for t
    using req [OF that] by (simp add: acquireLease_def bind_def)
  have lease: "ensureLease n d s = (Inl (Some e), drop_lease s)"
    using req sel acq
    by (auto simp: ensureLease_def bind_def andthen_def gets_def catching_exn_def catching_def
        modify_def ret_def drop_lease_def split: option.split)
  have rel: "releaseLease n d s = (if held_lease s = None then (Inr False, s) else (Inl (Some e), s))"
    using req [OF sel refl] by (auto simp: releaseLease_def bind_def andthen_def gets_def ret_def split: option.split)
  have "waitForReady (Suc n) d timeoutMs s = (Inl (Some e), s)" for timeoutMs
    using req [OF sel refl] e
    by (simp add: waitForReady_def conn_request_def catching_exn_def catching_def andthen_def bind_def gets_def throw_def)
  then show ?thesis unfolding calls_refused_def using ens [OF sel refl] req [OF sel refl] acq [OF sel refl] lease rel by blast
qed

text \<open>C30: with no instance selected, no call that needs a session picks one of several: unless exactly
  one live instance is discovered, reconnection, every request, acquiring and renewing the
  writer lease, releasing a held one and waiting for the command pump fail at once with an
  error that lists the candidates, and change nothing but a lease that no session backs.  With
  exactly one, that one is selected and the request goes to it.  Only \<open>select\<close>, which names its
  instance, is not refused.\<close>

theorem never_guesses:
  assumes "cn_selected s = None"
  shows "case live_instances d s of
      [] \<Rightarrow> calls_refused n d no_live_instance s
    | [i] \<Rightarrow> ensureConnected n d s = select_instance n d (im_instanceId (di_manifest i)) s \<and>
        conn_request n d meth payload oid dl s =
          andthen (select_instance n d (im_instanceId (di_manifest i))) (over_session d meth payload oid dl) s
    | live \<Rightarrow> calls_refused n d (several_instances live) s"
proof -
  have ens: "ensureConnected n d t = (case live_instances d s of
      [] \<Rightarrow> (Inl (Some no_live_instance), t)
    | [i] \<Rightarrow> select_instance n d (im_instanceId (di_manifest i)) t
    | live \<Rightarrow> (Inl (Some (several_instances live)), t))" if "cn_selected t = None" "cn_world t = cn_world s" for t
  proof -
    have "live_instances d t = live_instances d s" using that(2) by (simp add: live_instances_def listInstances_def)
    then show ?thesis using that(1)
      by (auto simp: ensureConnected_def ensure_by_def select_instance_def live_instances_def throw_def Let_def split: list.split)
  qed
  have tool: "\<not> notReady no_live_instance" "\<not> notReady (several_instances live)" for live
    by (simp_all add: notReady_def no_live_instance_def several_instances_def tool_error_retry_def)
  show ?thesis
  proof (cases "live_instances d s")
    case Nil
    then show ?thesis using refusal_spreads [OF _ assms tool(1), of n d] ens by simp
  next
    case (Cons i rest)
    note c = this
    show ?thesis
    proof (cases rest)
      case Nil
      then have "ensureConnected n d s = select_instance n d (im_instanceId (di_manifest i)) s"
        using c ens [OF assms refl] by simp
      then show ?thesis using c Nil
        by (simp add: conn_request_def ensureConnected_def request_by_def andthen_def bind_def)
    next
      case (Cons j more)
      then show ?thesis using refusal_spreads [OF _ assms tool(2) [of "i # j # more"], of n d] ens c by simp
    qed
  qed
qed

lemma never_guesses_witness:
  "fst (conn_request 5 (demo_answer (Inr JNull)\<lparr>cd_entries := (\<lambda>_. None)\<rparr>) ''status.get'' (JObj []) None None
     (demo_conn\<lparr>cn_selected := None\<rparr>)) = Inl (Some no_live_instance)"
proof -
  let ?d = "demo_answer (Inr JNull)\<lparr>cd_entries := (\<lambda>_. None)\<rparr>" and ?s = "demo_conn\<lparr>cn_selected := None\<rparr>"
  have l: "live_instances ?d ?s = []" by (simp add: live_instances_def listInstances_def scanInstances_def)
  have "cn_selected ?s = None" by simp
  from never_guesses [OF this, where d = ?d and n = 5] l show ?thesis by (simp add: calls_refused_def)
qed

end
