(* ===== verification/Schema.thy ===== *)
theory Schema
  imports Operations
begin

text \<open>
  The language the contracts of \<open>packages/schemas/src\<close> are written in: zod schemas as data,
  with the constructors the declarations use, and which JSON values a schema accepts.  Every
  object is strict: an undeclared key is refused.  The two string formats that zod itself
  defines (UUID and ISO date-time) are an argument.
\<close>

section \<open>Schemas\<close>

datatype zformat = UuidFormat | IsoDateTime

datatype str_check = MinLen nat | MaxLen nat | Matches "string \<Rightarrow> bool" | Format zformat

datatype num_check = IsInt | AtLeast rat | AtMost rat | Positive

datatype presence = Required | Optional | Default json

datatype schema =
    ZString "str_check list"
  | ZNumber "num_check list"
  | ZBool
  | ZLiteral json
  | ZEnum "string list"
  | ZUnknown
  | ZArray "nat option" "nat option" schema
  | ZTuple "schema list"
  | ZObject "(string \<times> presence \<times> schema) list"
  | ZNullable schema
  | ZUnion "schema list"
  | ZRecord "str_check list" schema
  | ZRefine "json \<Rightarrow> bool" schema

type_synonym fields = "(string \<times> presence \<times> schema) list"

definition req :: "string \<Rightarrow> schema \<Rightarrow> string \<times> presence \<times> schema" where
  "req k s = (k, Required, s)"

definition opt :: "string \<Rightarrow> schema \<Rightarrow> string \<times> presence \<times> schema" where
  "opt k s = (k, Optional, s)"

definition dflt :: "string \<Rightarrow> schema \<Rightarrow> json \<Rightarrow> string \<times> presence \<times> schema" where
  "dflt k s j = (k, Default j, s)"

text \<open>\<open>safeExtend\<close>: new keys are added to a strict object.\<close>

fun safeExtend :: "schema \<Rightarrow> fields \<Rightarrow> schema" where
  "safeExtend (ZObject fs) gs = ZObject (fs @ gs)"
| "safeExtend s gs = s"

section \<open>What a schema accepts\<close>

definition safe_int :: "rat \<Rightarrow> bool" where
  "safe_int r = (snd (quotient_of r) = 1 \<and> \<bar>r\<bar> \<le> 9007199254740991)"

fun str_ok :: "(zformat \<Rightarrow> string \<Rightarrow> bool) \<Rightarrow> string \<Rightarrow> str_check \<Rightarrow> bool" where
  "str_ok fmt s (MinLen n) = (n \<le> length s)"
| "str_ok fmt s (MaxLen n) = (length s \<le> n)"
| "str_ok fmt s (Matches p) = p s"
| "str_ok fmt s (Format f) = fmt f s"

fun num_ok :: "rat \<Rightarrow> num_check \<Rightarrow> bool" where
  "num_ok r IsInt = safe_int r"
| "num_ok r (AtLeast a) = (a \<le> r)"
| "num_ok r (AtMost b) = (r \<le> b)"
| "num_ok r Positive = (0 < r)"

definition within_opt :: "nat option \<Rightarrow> nat option \<Rightarrow> nat \<Rightarrow> bool" where
  "within_opt lo hi n = ((case lo of None \<Rightarrow> True | Some a \<Rightarrow> a \<le> n) \<and> (case hi of None \<Rightarrow> True | Some b \<Rightarrow> n \<le> b))"

fun conforms :: "(zformat \<Rightarrow> string \<Rightarrow> bool) \<Rightarrow> schema \<Rightarrow> json \<Rightarrow> bool" where
  "conforms fmt (ZString cs) j = (case j of JStr s \<Rightarrow> list_all (str_ok fmt s) cs | _ \<Rightarrow> False)"
| "conforms fmt (ZNumber cs) j = (case j of JNum r \<Rightarrow> list_all (num_ok r) cs | _ \<Rightarrow> False)"
| "conforms fmt ZBool j = (case j of JBool b \<Rightarrow> True | _ \<Rightarrow> False)"
| "conforms fmt (ZLiteral l) j = (j = l)"
| "conforms fmt (ZEnum xs) j = (case j of JStr s \<Rightarrow> list_ex ((=) s) xs | _ \<Rightarrow> False)"
| "conforms fmt ZUnknown j = True"
| "conforms fmt (ZArray lo hi s) j = (case j of JArr xs \<Rightarrow> within_opt lo hi (length xs) \<and> list_all (conforms fmt s) xs | _ \<Rightarrow> False)"
| "conforms fmt (ZTuple ss) j = (case j of JArr xs \<Rightarrow> list_all2 (conforms fmt) ss xs | _ \<Rightarrow> False)"
| "conforms fmt (ZObject fs) j = (case j of
     JObj ms \<Rightarrow> list_all (\<lambda>m. list_ex (\<lambda>f. fst f = fst m) fs) ms \<and>
       list_all (\<lambda>f. case map_get ms (fst f) of
         Some v \<Rightarrow> conforms fmt (snd (snd f)) v | None \<Rightarrow> fst (snd f) \<noteq> Required) fs
   | _ \<Rightarrow> False)"
| "conforms fmt (ZNullable s) j = (j = JNull \<or> conforms fmt s j)"
| "conforms fmt (ZUnion ss) j = list_ex (\<lambda>s. conforms fmt s j) ss"
| "conforms fmt (ZRecord ks s) j = (case j of
     JObj ms \<Rightarrow> list_all (\<lambda>m. list_all (str_ok fmt (fst m)) ks \<and> conforms fmt s (snd m)) ms | _ \<Rightarrow> False)"
| "conforms fmt (ZRefine p s) j = (conforms fmt s j \<and> p j)"

end
