(* ===== verification/WireSchemas.thy ===== *)
theory WireSchemas
  imports Schema Client Recipes
begin

text \<open>
  The wire contracts: references (\<open>refs.ts\<close>), errors (\<open>errors.ts\<close>), patch operations
  (\<open>operations.ts\<close>), snapshots (\<open>snapshot.ts\<close>), telemetry (\<open>telemetry.ts\<close>), frames and
  method payloads of the bridge (\<open>bridge.ts\<close>), under \<open>packages/schemas/src\<close>.  The schemas carry
  the names of the source.
\<close>

section \<open>Patterns and refinements\<close>

definition hex_of_length :: "nat \<Rightarrow> string \<Rightarrow> bool" where
  "hex_of_length n s = (length s = n \<and>
     list_all (\<lambda>c. digit c \<or> (97 \<le> (of_char c :: nat) \<and> (of_char c :: nat) \<le> 102)) s)"

definition snapshot_color :: "string \<Rightarrow> bool" where
  "snapshot_color s = (s \<noteq> [] \<and> hd s = CHR ''#'' \<and> list_all hex_digit (tl s) \<and> (length s = 7 \<or> length s = 9))"

definition recipe_id_text :: "string \<Rightarrow> bool" where
  "recipe_id_text s = (s \<noteq> [] \<and> list_all recipe_id_char s)"

definition member :: "json \<Rightarrow> string \<Rightarrow> json option" where
  "member j k = (case j of JObj ms \<Rightarrow> map_get ms k | _ \<Rightarrow> None)"

definition exactly_one_target :: "json \<Rightarrow> bool" where
  "exactly_one_target j =
     (length (filter (\<lambda>k. member j k \<noteq> None) [''value'', ''normalized'', ''display'']) = 1)"

definition placed :: "json \<Rightarrow> bool" where
  "placed j = (member j ''placement'' \<noteq> Some (JStr ''at'') \<or> member j ''position'' \<noteq> None)"

section \<open>References\<close>

definition DecimalId :: schema where
  "DecimalId = ZString [Matches DecimalId_ok]"

definition Uuid :: schema where
  "Uuid = ZString [Format UuidFormat]"

definition HexHash :: schema where
  "HexHash = ZString [Matches (hex_of_length 64)]"

definition Slug :: schema where
  "Slug = ZString [MinLen 1, MaxLen 255]"

definition SmallIndex :: schema where
  "SmallIndex = ZNumber [IsInt, AtLeast 0, AtMost 65535]"

definition PatchEpoch :: schema where
  "PatchEpoch = ZNumber [IsInt, AtLeast 1]"

definition Scope :: schema where
  "Scope = ZObject [req ''instanceId'' Uuid,
     req ''sessionId'' Uuid,
     req ''patchEpoch'' PatchEpoch]"

definition ModuleRef :: schema where
  "ModuleRef = ZUnion [ZObject [req ''moduleId'' DecimalId], ZObject [req ''alias'' (ZString [MinLen 1,
       MaxLen 64])]]"

definition CableRef :: schema where
  "CableRef = ZObject [req ''cableId'' DecimalId]"

definition PortType :: schema where
  "PortType = ZEnum [''input'', ''output'']"

definition PortRef :: schema where
  "PortRef = ZObject [req ''module'' ModuleRef,
     req ''portType'' PortType,
     req ''portId'' SmallIndex]"

definition GridPosition :: schema where
  "GridPosition = ZObject [req ''x'' (ZNumber [IsInt, AtLeast (- 4096), AtMost 4096]),
     req ''y'' (ZNumber [IsInt, AtLeast (- 256), AtMost 256])]"

definition CableColor :: schema where
  "CableColor = ZString [Matches CableColor_ok]"

section \<open>Errors\<close>

definition RollbackReport :: schema where
  "RollbackReport = ZObject [req ''rolledBack'' (ZEnum [''complete'', ''indeterminate'']),
     req ''failedOperationIndex'' (ZNumber [IsInt, AtLeast 0]),
     req ''inversesExecuted'' (ZNumber [IsInt, AtLeast 0]),
     req ''detail'' (ZString [MaxLen 4096])]"

definition ErrorCode :: schema where
  "ErrorCode = ZEnum (map code_str ERROR_CODES)"

definition RackMcpError :: schema where
  "RackMcpError = ZObject [req ''code'' ErrorCode,
     req ''message'' (ZString [MaxLen 4096]),
     req ''retrySafe'' ZBool,
     req ''mutationMayHaveOccurred'' ZBool,
     opt ''details'' (ZRecord [] ZUnknown),
     opt ''rollback'' RollbackReport]"

section \<open>Patch operations\<close>

definition paramTarget :: fields where
  "paramTarget = [opt ''value'' (ZNumber []),
     opt ''normalized'' (ZNumber [AtLeast 0, AtMost 1]),
     opt ''display'' (ZString [MaxLen 256])]"

definition InitialParamValue :: schema where
  "InitialParamValue = ZRefine exactly_one_target (ZObject ([req ''paramId'' SmallIndex] @ paramTarget))"

definition PlacementPolicy :: schema where
  "PlacementPolicy = ZEnum [''auto'', ''at'']"

definition AddModuleOp :: schema where
  "AddModuleOp = ZRefine placed (ZObject [req ''op'' (ZLiteral (JStr ''add_module'')),
     req ''pluginSlug'' Slug,
     req ''modelSlug'' Slug,
     req ''alias'' (ZString [MinLen 1, MaxLen 64]),
     dflt ''placement'' PlacementPolicy (JStr ''auto''),
     opt ''position'' GridPosition,
     opt ''initialParams'' (ZArray None (Some 256) InitialParamValue),
     opt ''bypassed'' ZBool])"

definition CableRemovalPolicy :: schema where
  "CableRemovalPolicy = ZEnum [''remove_attached'', ''fail_if_connected'']"

definition RemoveModuleOp :: schema where
  "RemoveModuleOp = ZObject [req ''op'' (ZLiteral (JStr ''remove_module'')),
     req ''module'' ModuleRef,
     req ''cablePolicy'' CableRemovalPolicy,
     dflt ''allowLastBridge'' ZBool (JBool False)]"

definition CollisionPolicy :: schema where
  "CollisionPolicy = ZEnum [''fail'', ''nearest'', ''force'', ''squeeze'']"

definition MoveModuleOp :: schema where
  "MoveModuleOp = ZObject [req ''op'' (ZLiteral (JStr ''move_module'')),
     req ''module'' ModuleRef,
     req ''position'' GridPosition,
     req ''collision'' CollisionPolicy]"

definition DuplicateModuleOp :: schema where
  "DuplicateModuleOp = ZRefine placed (ZObject [req ''op'' (ZLiteral (JStr ''duplicate_module'')),
     req ''module'' ModuleRef,
     req ''alias'' (ZString [MinLen 1, MaxLen 64]),
     req ''copyCables'' ZBool,
     dflt ''placement'' PlacementPolicy (JStr ''auto''),
     opt ''position'' GridPosition])"

definition SetParameterOp :: schema where
  "SetParameterOp = ZRefine exactly_one_target (ZObject ([req ''op'' (ZLiteral (JStr ''set_parameter'')),
     req ''module'' ModuleRef,
     req ''paramId'' SmallIndex] @ paramTarget @ [opt ''smoothMs'' (ZNumber [AtLeast 0, AtMost 10000])]))"

definition SetBypassOp :: schema where
  "SetBypassOp = ZObject [req ''op'' (ZLiteral (JStr ''set_bypass'')),
     req ''module'' ModuleRef,
     req ''bypassed'' ZBool]"

definition InputPolicy :: schema where
  "InputPolicy = ZEnum [''fail_if_connected'', ''stack'', ''replace_all'']"

definition ConnectOp :: schema where
  "ConnectOp = ZObject [req ''op'' (ZLiteral (JStr ''connect'')),
     req ''output'' PortRef,
     req ''input'' PortRef,
     opt ''color'' CableColor,
     req ''inputPolicy'' InputPolicy]"

definition DisconnectOp :: schema where
  "DisconnectOp = ZObject [req ''op'' (ZLiteral (JStr ''disconnect'')),
     req ''cable'' CableRef]"

definition DisconnectPortPolicy :: schema where
  "DisconnectPortPolicy = ZEnum [''top'', ''all'']"

definition DisconnectPortOp :: schema where
  "DisconnectPortOp = ZObject [req ''op'' (ZLiteral (JStr ''disconnect_port'')),
     req ''port'' PortRef,
     req ''policy'' DisconnectPortPolicy]"

definition ResetModuleOp :: schema where
  "ResetModuleOp = ZObject [req ''op'' (ZLiteral (JStr ''reset_module'')),
     req ''module'' ModuleRef]"

definition RandomizeModuleOp :: schema where
  "RandomizeModuleOp = ZObject [req ''op'' (ZLiteral (JStr ''randomize_module'')),
     req ''module'' ModuleRef]"

definition PatchOperation :: schema where
  "PatchOperation = ZUnion [AddModuleOp, RemoveModuleOp, MoveModuleOp, DuplicateModuleOp, SetParameterOp,
       SetBypassOp, ConnectOp, DisconnectOp, DisconnectPortOp, ResetModuleOp, RandomizeModuleOp]"

definition RiskLevel :: schema where
  "RiskLevel = ZEnum [''low'', ''destructive'', ''high'']"

definition RiskFlag :: schema where
  "RiskFlag = ZEnum [''removes_bridge'', ''affects_audio_path'', ''randomize'', ''removes_modules'',
       ''removes_cables'', ''replaces_cables'', ''stacks_inputs'', ''possible_feedback'', ''adapter_uncertainty'',
       ''missing_modules'', ''large_transaction'', ''clears_patch'', ''replaces_patch'']"

section \<open>Snapshots\<close>

definition ParamSnapshot :: schema where
  "ParamSnapshot = ZObject [req ''paramId'' SmallIndex,
     req ''name'' (ZString [MaxLen 256]),
     req ''value'' (ZNullable (ZNumber [])),
     req ''minValue'' (ZNullable (ZNumber [])),
     req ''maxValue'' (ZNullable (ZNumber [])),
     req ''defaultValue'' (ZNullable (ZNumber [])),
     req ''normalizedValue'' (ZNullable (ZNumber [])),
     req ''displayValue'' (ZNullable (ZString [MaxLen 256])),
     req ''unit'' (ZString [MaxLen 64]),
     req ''snapped'' ZBool]"

definition PortSnapshot :: schema where
  "PortSnapshot = ZObject [req ''portId'' SmallIndex,
     req ''type'' (ZEnum [''input'', ''output'']),
     req ''name'' (ZString [MaxLen 256]),
     req ''channels'' (ZNumber [IsInt, AtLeast 0, AtMost 16]),
     req ''connected'' ZBool]"

definition ModuleSnapshot :: schema where
  "ModuleSnapshot = ZObject [req ''moduleId'' DecimalId,
     req ''pluginSlug'' Slug,
     req ''pluginVersion'' (ZString [MaxLen 64]),
     req ''modelSlug'' Slug,
     req ''modelName'' (ZString [MaxLen 256]),
     req ''bypassed'' ZBool,
     req ''isBridge'' ZBool,
     req ''isProbe'' ZBool,
     req ''gridPosition'' (ZNullable GridPosition),
     req ''gridWidth'' (ZNullable (ZNumber [IsInt, AtLeast 0, AtMost 1024])),
     req ''params'' (ZArray None (Some 4096) ParamSnapshot),
     req ''inputs'' (ZArray None (Some 1024) PortSnapshot),
     req ''outputs'' (ZArray None (Some 1024) PortSnapshot),
     req ''expanders'' (ZObject [req ''left'' (ZNullable DecimalId),
     req ''right'' (ZNullable DecimalId)]),
     opt ''opaqueState'' ZUnknown,
     opt ''opaqueStateDisclosed'' ZBool]"

definition SnapshotCableColor :: schema where
  "SnapshotCableColor = ZUnion [ZLiteral (JStr ''''), ZString [Matches snapshot_color]]"

definition CableSnapshot :: schema where
  "CableSnapshot = ZObject [req ''cableId'' DecimalId,
     req ''outputModuleId'' DecimalId,
     req ''outputId'' SmallIndex,
     req ''inputModuleId'' DecimalId,
     req ''inputId'' SmallIndex,
     req ''color'' SnapshotCableColor]"

definition PatchSnapshot :: schema where
  "PatchSnapshot = ZObject [req ''rackVersion'' (ZString [MaxLen 64]),
     req ''rackEdition'' (ZEnum [''Free'', ''Pro'', ''unknown'']),
     req ''instanceId'' Uuid,
     req ''sessionId'' Uuid,
     req ''patchEpoch'' PatchEpoch,
     req ''patchName'' (ZNullable (ZString [MaxLen 512])),
     req ''saved'' ZBool,
     req ''sampleRate'' (ZNumber [AtLeast 0]),
     req ''modules'' (ZArray None (Some 4096) ModuleSnapshot),
     req ''cables'' (ZArray None (Some 16384) CableSnapshot),
     req ''bridgeModuleCount'' (ZNumber [IsInt, AtLeast 0]),
     req ''probeModuleCount'' (ZNumber [IsInt, AtLeast 0]),
     req ''fingerprint'' HexHash,
     req ''warnings'' (ZArray None None (ZString [MaxLen 512]))]"

section \<open>Telemetry\<close>

definition ProbeChannelStats :: schema where
  "ProbeChannelStats = ZObject [req ''min'' (ZNumber []),
     req ''max'' (ZNumber []),
     req ''peakAbs'' (ZNumber []),
     req ''rms'' (ZNumber []),
     req ''mean'' (ZNumber []),
     req ''clippedCount'' (ZNumber [IsInt, AtLeast 0]),
     req ''nonFiniteCount'' (ZNumber [IsInt, AtLeast 0]),
     opt ''edgeCount'' (ZNumber [IsInt, AtLeast 0])]"

definition ProbeReading :: schema where
  "ProbeReading = ZObject [req ''probeModuleId'' DecimalId,
     req ''probeInputId'' SmallIndex,
     req ''connected'' ZBool,
     req ''channelCount'' (ZNumber [IsInt, AtLeast 0, AtMost 16]),
     req ''sampleRate'' (ZNumber [Positive]),
     req ''windowFrames'' (ZNumber [IsInt, AtLeast 0]),
     req ''channels'' (ZArray None (Some 16) ProbeChannelStats),
     req ''droppedFrames'' (ZNumber [IsInt, AtLeast 0]),
     req ''sequence'' (ZNumber [IsInt, AtLeast 0])]"

definition ProbeSlotInfo :: schema where
  "ProbeSlotInfo = ZObject [req ''probeModuleId'' DecimalId,
     req ''probeInputId'' SmallIndex,
     req ''connected'' ZBool,
     opt ''sourceModuleId'' DecimalId,
     opt ''sourcePortId'' SmallIndex]"

section \<open>Frames\<close>

definition RequestId :: schema where
  "RequestId = ZString [Matches (hex_of_length 16)]"

definition Nonce :: schema where
  "Nonce = ZString [Matches (hex_of_length 64)]"

definition HmacHex :: schema where
  "HmacHex = ZString [Matches (hex_of_length 64)]"

definition HelloFrame :: schema where
  "HelloFrame = ZObject [req ''kind'' (ZLiteral (JStr ''hello'')),
     req ''versions'' (ZArray (Some 1) (Some 16) (ZNumber [IsInt, AtLeast 1])),
     req ''client'' (ZObject [req ''name'' (ZString [MaxLen 128]),
     req ''version'' (ZString [MaxLen 64])])]"

definition WelcomeFrame :: schema where
  "WelcomeFrame = ZObject [req ''kind'' (ZLiteral (JStr ''welcome'')),
     req ''version'' (ZNumber [IsInt, AtLeast (of_int BRIDGE_PROTOCOL_MIN_SUPPORTED),
       AtMost (of_int BRIDGE_PROTOCOL_VERSION)]),
     req ''instanceId'' Uuid,
     req ''sessionId'' Uuid,
     req ''bridgeVersion'' (ZString [MaxLen 64]),
     req ''rackVersion'' (ZString [MaxLen 64]),
     req ''rackEdition'' (ZEnum [''Free'', ''Pro'', ''unknown'']),
     req ''patchEpoch'' PatchEpoch,
     req ''nonce'' Nonce,
     req ''authRequired'' (ZLiteral (JBool True))]"

definition AuthFrame :: schema where
  "AuthFrame = ZObject [req ''kind'' (ZLiteral (JStr ''auth'')),
     req ''hmac'' HmacHex]"

definition AuthResultFrame :: schema where
  "AuthResultFrame = ZObject [req ''kind'' (ZLiteral (JStr ''authResult'')),
     req ''ok'' ZBool,
     opt ''role'' (ZEnum [''readonly'']),
     opt ''error'' RackMcpError]"

definition BRIDGE_METHOD_NAMES :: "string list" where
  "BRIDGE_METHOD_NAMES = [''status.get'', ''lease.acquire'', ''lease.renew'', ''lease.release'',
       ''catalog.listModels'', ''catalog.inspectModel'', ''patch.snapshot'', ''patch.fingerprint'',
       ''module.inspect'', ''txn.preview'', ''txn.commit'', ''txn.undoLast'', ''patchfile.save'',
       ''patchfile.saveCopy'', ''patchfile.load'', ''patchfile.clear'', ''probe.list'', ''probe.read'',
       ''metrics.get'', ''chat.poll'', ''chat.post'']"

definition BridgeMethod :: schema where
  "BridgeMethod = ZEnum BRIDGE_METHOD_NAMES"

definition RequestFrame :: schema where
  "RequestFrame = ZObject [req ''kind'' (ZLiteral (JStr ''req'')),
     req ''id'' RequestId,
     req ''method'' BridgeMethod,
     req ''deadlineMs'' (ZNumber [IsInt, AtLeast 1, AtMost 600000]),
     opt ''operationId'' Uuid,
     req ''payload'' ZUnknown]"

definition ResponseFrame :: schema where
  "ResponseFrame = ZObject [req ''kind'' (ZLiteral (JStr ''res'')),
     req ''id'' RequestId,
     req ''ok'' ZBool,
     opt ''payload'' ZUnknown,
     opt ''error'' RackMcpError]"

definition PingFrame :: schema where
  "PingFrame = ZObject [req ''kind'' (ZLiteral (JStr ''ping'')),
     req ''id'' RequestId]"

definition PongFrame :: schema where
  "PongFrame = ZObject [req ''kind'' (ZLiteral (JStr ''pong'')),
     req ''id'' RequestId]"

definition EventFrame :: schema where
  "EventFrame = ZObject [req ''kind'' (ZLiteral (JStr ''evt'')),
     req ''event'' (ZEnum [''shutting_down'', ''patch_epoch_changed'', ''lease_revoked'', ''user_note_pending'']),
     opt ''payload'' ZUnknown]"

definition BridgeFrame :: schema where
  "BridgeFrame = ZUnion [HelloFrame, WelcomeFrame, AuthFrame, AuthResultFrame, RequestFrame, ResponseFrame,
       PingFrame, PongFrame, EventFrame]"

section \<open>Methods\<close>

definition WriterLeaseInfo :: schema where
  "WriterLeaseInfo = ZObject [req ''held'' ZBool,
     opt ''holderClientName'' (ZString [MaxLen 128]),
     opt ''leaseId'' Uuid,
     opt ''expiresInMs'' (ZNumber [IsInt, AtLeast 0])]"

definition BridgeMetrics :: schema where
  "BridgeMetrics = ZObject [req ''commandQueueDepth'' (ZNumber [IsInt, AtLeast 0]),
     req ''commandQueueMaxDepth'' (ZNumber [IsInt, AtLeast 0]),
     req ''requestsHandled'' (ZNumber [IsInt, AtLeast 0]),
     req ''requestTimeouts'' (ZNumber [IsInt, AtLeast 0]),
     req ''rollbacks'' (ZNumber [IsInt, AtLeast 0]),
     req ''authFailures'' (ZNumber [IsInt, AtLeast 0]),
     req ''droppedTelemetryFrames'' (ZNumber [IsInt, AtLeast 0]),
     req ''bridgeReconnects'' (ZNumber [IsInt, AtLeast 0]),
     req ''uiPumpLastDrainMs'' (ZNumber [AtLeast 0]),
     req ''uiPumpMaxDrainMs'' (ZNumber [AtLeast 0]),
     req ''requestLatencyEwmaMs'' (ZNumber [AtLeast 0]),
     opt ''engineBlock'' (ZNumber [IsInt, AtLeast 0]),
     opt ''engineFrame'' (ZNumber [IsInt, AtLeast 0]),
     req ''protocolErrors'' (ZNumber [IsInt, AtLeast 0]),
     req ''responseDrops'' (ZNumber [IsInt, AtLeast 0]),
     req ''oversizedResults'' (ZNumber [IsInt, AtLeast 0])]"

definition StatusResult :: schema where
  "StatusResult = ZObject [req ''instanceId'' Uuid,
     req ''sessionId'' Uuid,
     req ''patchEpoch'' PatchEpoch,
     req ''rackVersion'' (ZString [MaxLen 64]),
     req ''rackEdition'' (ZEnum [''Free'', ''Pro'', ''unknown'']),
     req ''bridgeVersion'' (ZString [MaxLen 64]),
     req ''bridgeProtocolVersion'' (ZNumber [IsInt, AtLeast 1]),
     req ''mode'' (ZLiteral (JStr ''standalone-gui'')),
     req ''sampleRate'' (ZNumber [Positive]),
     req ''patchName'' (ZNullable (ZString [MaxLen 512])),
     req ''saved'' ZBool,
     req ''bridgeModulePresent'' ZBool,
     req ''commandPumpPresent'' ZBool,
     req ''writerLease'' WriterLeaseInfo]"

definition LeaseAcquirePayload :: schema where
  "LeaseAcquirePayload = ZObject [req ''clientName'' (ZString [MaxLen 128])]"

definition LeaseAcquireResult :: schema where
  "LeaseAcquireResult = ZObject [req ''leaseId'' Uuid,
     req ''expiresInMs'' (ZNumber [IsInt, AtLeast 1])]"

definition LeaseRenewPayload :: schema where
  "LeaseRenewPayload = ZObject [req ''leaseId'' Uuid]"

definition LeaseRenewResult :: schema where
  "LeaseRenewResult = ZObject [req ''expiresInMs'' (ZNumber [IsInt, AtLeast 1])]"

definition LeaseReleasePayload :: schema where
  "LeaseReleasePayload = ZObject [req ''leaseId'' Uuid]"

definition EmptyObject :: schema where
  "EmptyObject = ZObject []"

definition CatalogListPayload :: schema where
  "CatalogListPayload = ZObject [opt ''cursor'' (ZString [MaxLen 256]),
     dflt ''limit'' (ZNumber [IsInt, AtLeast 1, AtMost 500]) (JNum 100)]"

definition CatalogModelInfo :: schema where
  "CatalogModelInfo = ZObject [req ''pluginSlug'' (ZString [MaxLen 255]),
     req ''pluginName'' (ZString [MaxLen 256]),
     req ''pluginVersion'' (ZString [MaxLen 64]),
     req ''modelSlug'' (ZString [MaxLen 255]),
     req ''modelName'' (ZString [MaxLen 256]),
     req ''description'' (ZString [MaxLen 2048]),
     req ''tags'' (ZArray None (Some 32) (ZString [MaxLen 64]))]"

definition CatalogListResult :: schema where
  "CatalogListResult = ZObject [req ''models'' (ZArray None (Some 500) CatalogModelInfo),
     req ''nextCursor'' (ZNullable (ZString [MaxLen 256])),
     req ''totalModels'' (ZNumber [IsInt, AtLeast 0])]"

definition InspectModelPayload :: schema where
  "InspectModelPayload = ZObject [req ''pluginSlug'' (ZString [MaxLen 255]),
     req ''modelSlug'' (ZString [MaxLen 255])]"

definition InspectModelResult :: schema where
  "InspectModelResult = ZObject [req ''model'' CatalogModelInfo,
     req ''params'' (ZArray None (Some 4096) (ZObject [req ''paramId'' SmallIndex,
     req ''name'' (ZString [MaxLen 256]),
     req ''unit'' (ZString [MaxLen 64]),
     req ''minValue'' (ZNullable (ZNumber [])),
     req ''maxValue'' (ZNullable (ZNumber [])),
     req ''defaultValue'' (ZNullable (ZNumber [])),
     opt ''labels'' (ZArray None (Some 64) (ZString [MaxLen 128]))])),
     req ''inputs'' (ZArray None (Some 1024) (ZObject [req ''portId'' SmallIndex,
     req ''name'' (ZString [MaxLen 256])])),
     req ''outputs'' (ZArray None (Some 1024) (ZObject [req ''portId'' SmallIndex,
     req ''name'' (ZString [MaxLen 256])])),
     req ''requiredTemporaryInstantiation'' ZBool,
     req ''cached'' ZBool]"

definition SnapshotPayload :: schema where
  "SnapshotPayload = ZObject [dflt ''includeOpaqueState'' ZBool (JBool False),
     opt ''maxBytes'' (ZNumber [IsInt, AtLeast 1024, AtMost (4 * 1024 * 1024)])]"

definition FingerprintResult :: schema where
  "FingerprintResult = ZObject [req ''fingerprint'' HexHash,
     req ''patchEpoch'' PatchEpoch]"

definition ModuleInspectResult :: schema where
  "ModuleInspectResult = ZObject [req ''module'' ModuleSnapshot]"

definition ModuleInspectPayload :: schema where
  "ModuleInspectPayload = ZObject [req ''scope'' Scope,
     req ''moduleId'' DecimalId,
     dflt ''includeOpaqueState'' ZBool (JBool False)]"

definition NormalizedPlan :: schema where
  "NormalizedPlan = ZObject [req ''label'' (ZString [MinLen 1, MaxLen 128]),
     req ''operations'' (ZArray (Some 1) (Some 128) PatchOperation)]"

definition TxnDiff :: schema where
  "TxnDiff = ZObject [req ''addedModules'' (ZArray None (Some 128) (ZObject [req ''alias'' (ZString [MaxLen 64]),
     req ''pluginSlug'' (ZString [MaxLen 255]),
     req ''modelSlug'' (ZString [MaxLen 255])])),
     req ''removedModuleIds'' (ZArray None (Some 4096) DecimalId),
     req ''movedModuleIds'' (ZArray None (Some 4096) DecimalId),
     req ''modifiedModuleIds'' (ZArray None (Some 4096) DecimalId),
     req ''addedCableCount'' (ZNumber [IsInt, AtLeast 0]),
     req ''removedCableIds'' (ZArray None (Some 16384) DecimalId),
     req ''replacedInputPorts'' (ZArray None (Some 4096) (ZObject [req ''moduleId'' DecimalId,
     req ''portId'' SmallIndex])),
     req ''stackedInputPorts'' (ZArray None (Some 4096) (ZObject [req ''moduleId'' DecimalId,
     req ''portId'' SmallIndex]))]"

definition TxnRisk :: schema where
  "TxnRisk = ZObject [req ''level'' RiskLevel,
     req ''flags'' (ZArray None (Some 32) RiskFlag),
     req ''reasons'' (ZArray None (Some 64) (ZString [MaxLen 512])),
     req ''confirmationRequired'' ZBool]"

definition TxnPreviewPayload :: schema where
  "TxnPreviewPayload = ZObject [req ''scope'' Scope,
     req ''label'' (ZString [MinLen 1, MaxLen 128]),
     req ''operations'' (ZArray (Some 1) (Some 128) PatchOperation)]"

definition TxnPreviewResult :: schema where
  "TxnPreviewResult = ZObject [req ''plan'' NormalizedPlan,
     req ''planHash'' HexHash,
     req ''baseFingerprint'' HexHash,
     req ''patchEpoch'' PatchEpoch,
     req ''diff'' TxnDiff,
     req ''risk'' TxnRisk,
     req ''undoable'' ZBool,
     req ''warnings'' (ZArray None (Some 128) (ZString [MaxLen 1024]))]"

definition TxnCommitPayload :: schema where
  "TxnCommitPayload = ZObject [req ''scope'' Scope,
     req ''operationId'' Uuid,
     req ''plan'' NormalizedPlan,
     req ''planHash'' HexHash,
     req ''expectedFingerprint'' HexHash]"

definition AppliedOperation :: schema where
  "AppliedOperation = ZObject [req ''op'' (ZString [MaxLen 64]),
     req ''summary'' (ZString [MaxLen 512])]"

definition TxnCommitResult :: schema where
  "TxnCommitResult = ZObject [req ''operationId'' Uuid,
     req ''oldFingerprint'' HexHash,
     req ''newFingerprint'' HexHash,
     req ''patchEpoch'' PatchEpoch,
     req ''applied'' (ZArray None (Some 128) AppliedOperation),
     req ''aliasToModuleId'' (ZRecord [] DecimalId),
     req ''warnings'' (ZArray None (Some 128) (ZString [MaxLen 1024])),
     req ''undoEligible'' ZBool,
     req ''durationMs'' (ZNumber [AtLeast 0]),
     req ''replayed'' ZBool]"

definition TxnUndoPayload :: schema where
  "TxnUndoPayload = ZObject [req ''scope'' Scope,
     req ''expectedOperationId'' Uuid,
     req ''operationId'' Uuid]"

definition TxnUndoResult :: schema where
  "TxnUndoResult = ZObject [req ''undone'' (ZLiteral (JBool True)),
     req ''newFingerprint'' HexHash,
     req ''patchEpoch'' PatchEpoch]"

definition PatchFilePathPayload :: schema where
  "PatchFilePathPayload = ZObject [req ''scope'' Scope,
     req ''path'' (ZString [MinLen 1, MaxLen 4096]),
     req ''operationId'' Uuid]"

definition PatchFileSavePayload :: schema where
  "PatchFileSavePayload = ZObject [req ''scope'' Scope,
     req ''path'' (ZString [MaxLen 4096]),
     req ''operationId'' Uuid]"

definition PatchFileLoadPayload :: schema where
  "PatchFileLoadPayload = ZObject [req ''scope'' Scope,
     req ''path'' (ZString [MinLen 1, MaxLen 4096]),
     dflt ''setPath'' ZBool (JBool True),
     req ''operationId'' Uuid]"

definition PatchFileClearPayload :: schema where
  "PatchFileClearPayload = ZObject [req ''scope'' Scope,
     req ''operationId'' Uuid]"

definition PatchFileResult :: schema where
  "PatchFileResult = ZObject [req ''fingerprint'' HexHash,
     req ''patchEpoch'' PatchEpoch,
     req ''patchName'' (ZNullable (ZString [MaxLen 512])),
     req ''path'' (ZString [MaxLen 4096]),
     req ''saved'' ZBool,
     req ''bridgeModulePresent'' ZBool,
     req ''warnings'' (ZArray None (Some 64) (ZString [MaxLen 1024])),
     req ''replayed'' ZBool]"

definition ProbeListResult :: schema where
  "ProbeListResult = ZObject [req ''slots'' (ZArray None (Some 128) ProbeSlotInfo)]"

definition ProbeReadPayload :: schema where
  "ProbeReadPayload = ZObject [req ''scope'' Scope,
     req ''probeModuleId'' DecimalId,
     req ''probeInputId'' SmallIndex]"

section \<open>Chat\<close>

definition UserNote :: schema where
  "UserNote = ZObject [req ''seq'' (ZNumber [IsInt, Positive]),
     req ''text'' (ZString [MinLen 1, MaxLen 2000]),
     req ''clock'' (ZString [MaxLen 16])]"

definition ChatPollPayload :: schema where
  "ChatPollPayload = ZObject [dflt ''sinceSeq'' (ZNumber [IsInt, AtLeast 0]) (JNum 0)]"

definition ChatPollResult :: schema where
  "ChatPollResult = ZObject [req ''notes'' (ZArray None (Some 32) UserNote),
     req ''lastSeq'' (ZNumber [IsInt, AtLeast 0]),
     req ''dropped'' (ZNumber [IsInt, AtLeast 0])]"

definition ChatPostPayload :: schema where
  "ChatPostPayload = ZObject [req ''text'' (ZString [MinLen 1, MaxLen 2000]),
     dflt ''ackThroughSeq'' (ZNumber [IsInt, AtLeast 0]) (JNum 0)]"

definition ChatPostResult :: schema where
  "ChatPostResult = ZObject [req ''seq'' (ZNumber [IsInt, Positive]),
     req ''acknowledged'' (ZNumber [IsInt, AtLeast 0])]"

section \<open>Discovery\<close>

definition InstanceManifest :: schema where
  "InstanceManifest = ZObject [req ''manifestVersion'' (ZLiteral (JNum 1)),
     req ''instanceId'' Uuid,
     req ''pid'' (ZNumber [IsInt, AtLeast 1]),
     req ''rackVersion'' (ZString [MaxLen 64]),
     req ''rackEdition'' (ZEnum [''Free'', ''Pro'', ''unknown'']),
     req ''bridgeVersion'' (ZString [MaxLen 64]),
     req ''bridgeProtocolVersion'' (ZNumber [IsInt, AtLeast 1]),
     req ''port'' (ZNumber [IsInt, AtLeast 1, AtMost 65535]),
     req ''startTime'' (ZString [Format IsoDateTime]),
     req ''lastHeartbeat'' (ZString [Format IsoDateTime]),
     req ''mode'' (ZLiteral (JStr ''standalone-gui'')),
     req ''patchName'' (ZNullable (ZString [MaxLen 512])),
     req ''commandPumpPresent'' ZBool,
     req ''bridgeModulePresent'' ZBool,
     req ''userDir'' (ZString [MaxLen 4096]),
     req ''patchesDir'' (ZString [MaxLen 4096]),
     req ''checkpointsDir'' (ZString [MaxLen 4096])]"

section \<open>The method table\<close>

record method_spec =
  bm_request :: schema
  bm_result :: schema
  bm_mutating :: bool

definition bridge_method :: "schema \<Rightarrow> schema \<Rightarrow> bool \<Rightarrow> method_spec" where
  "bridge_method q r m = \<lparr>bm_request = q, bm_result = r, bm_mutating = m\<rparr>"

definition BRIDGE_METHODS :: "(string \<times> method_spec) list" where
  "BRIDGE_METHODS = [
     (''status.get'', bridge_method EmptyObject StatusResult False),
     (''lease.acquire'', bridge_method LeaseAcquirePayload LeaseAcquireResult False),
     (''lease.renew'', bridge_method LeaseRenewPayload LeaseRenewResult False),
     (''lease.release'', bridge_method LeaseReleasePayload EmptyObject False),
     (''catalog.listModels'', bridge_method CatalogListPayload CatalogListResult False),
     (''catalog.inspectModel'', bridge_method InspectModelPayload InspectModelResult False),
     (''patch.snapshot'', bridge_method SnapshotPayload PatchSnapshot False),
     (''patch.fingerprint'', bridge_method EmptyObject FingerprintResult False),
     (''module.inspect'', bridge_method ModuleInspectPayload ModuleInspectResult False),
     (''txn.preview'', bridge_method TxnPreviewPayload TxnPreviewResult False),
     (''txn.commit'', bridge_method TxnCommitPayload TxnCommitResult True),
     (''txn.undoLast'', bridge_method TxnUndoPayload TxnUndoResult True),
     (''patchfile.save'', bridge_method PatchFileSavePayload PatchFileResult True),
     (''patchfile.saveCopy'', bridge_method PatchFilePathPayload PatchFileResult True),
     (''patchfile.load'', bridge_method PatchFileLoadPayload PatchFileResult True),
     (''patchfile.clear'', bridge_method PatchFileClearPayload PatchFileResult True),
     (''probe.list'', bridge_method EmptyObject ProbeListResult False),
     (''probe.read'', bridge_method ProbeReadPayload ProbeReading False),
     (''metrics.get'', bridge_method EmptyObject BridgeMetrics False),
     (''chat.poll'', bridge_method ChatPollPayload ChatPollResult False),
     (''chat.post'', bridge_method ChatPostPayload ChatPostResult False)]"

end
