(* ===== verification/ToolSchemas.thy ===== *)
theory ToolSchemas
  imports WireSchemas Validation
begin

text \<open>
  The published documents and the tool contracts: validation reports (\<open>validation.ts\<close>),
  adapters (\<open>adapters.ts\<close>), recipes (\<open>recipes.ts\<close>) and the registry of tools (\<open>tools.ts\<close>), under
  \<open>packages/schemas/src\<close>.  Non-ASCII characters of a description are spelt in UTF-8.
\<close>

section \<open>Validation reports\<close>

definition Severity :: schema where
  "Severity = ZEnum [''error'', ''warning'', ''info'']"

definition Confidence :: schema where
  "Confidence = ZEnum [''certain'', ''adapter'', ''heuristic'']"

definition EntityRef :: schema where
  "EntityRef = ZUnion [ZObject [req ''kind'' (ZLiteral (JStr ''module'')),
     req ''moduleId'' DecimalId], ZObject [req ''kind'' (ZLiteral (JStr ''cable'')),
     req ''cableId'' DecimalId], ZObject [req ''kind'' (ZLiteral (JStr ''port'')),
     req ''moduleId'' DecimalId,
     req ''portType'' (ZEnum [''input'', ''output'']),
     req ''portId'' SmallIndex], ZObject [req ''kind'' (ZLiteral (JStr ''param'')),
     req ''moduleId'' DecimalId,
     req ''paramId'' SmallIndex], ZObject [req ''kind'' (ZLiteral (JStr ''patch''))]]"

definition ValidationRuleId :: schema where
  "ValidationRuleId = ZEnum VALIDATION_RULES"

definition ValidationFinding :: schema where
  "ValidationFinding = ZObject [req ''ruleId'' ValidationRuleId,
     req ''severity'' Severity,
     req ''confidence'' Confidence,
     req ''entities'' (ZArray None (Some 64) EntityRef),
     req ''evidence'' (ZRecord [] ZUnknown),
     req ''explanation'' (ZString [MaxLen 4096]),
     opt ''suggestedRepair'' (ZString [MaxLen 4096])]"

definition ValidationReport :: schema where
  "ValidationReport = ZObject [req ''findings'' (ZArray None (Some 4096) ValidationFinding),
     req ''rulesRun'' (ZArray None (Some 1024) (ZString [MaxLen 128])),
     req ''errorCount'' (ZNumber [IsInt, AtLeast 0]),
     req ''warningCount'' (ZNumber [IsInt, AtLeast 0]),
     req ''infoCount'' (ZNumber [IsInt, AtLeast 0])]"

section \<open>Adapters\<close>

definition SignalRole :: schema where
  "SignalRole = ZEnum [''audio'', ''cv_unipolar'', ''cv_bipolar'', ''pitch_voct'', ''gate'', ''trigger'',
       ''clock'', ''unknown'']"

definition PolyphonyBehavior :: schema where
  "PolyphonyBehavior = ZEnum [''monophonic'', ''polyphonic'', ''poly_from_input'', ''unknown'']"

definition AdapterParamSemantics :: schema where
  "AdapterParamSemantics = ZObject [req ''paramId'' SmallIndex,
     req ''role'' (ZString [MaxLen 64]),
     opt ''description'' (ZString [MaxLen 1024]),
     opt ''safeInitial'' (ZNumber []),
     opt ''safeRange'' (ZTuple [ZNumber [], ZNumber []])]"

definition AdapterPortSemantics :: schema where
  "AdapterPortSemantics = ZObject [req ''portId'' SmallIndex,
     req ''role'' SignalRole,
     req ''key'' (ZString [MaxLen 64]),
     opt ''description'' (ZString [MaxLen 1024]),
     dflt ''polyphony'' PolyphonyBehavior (JStr ''unknown'')]"

definition AdapterConnectionRecipe :: schema where
  "AdapterConnectionRecipe = ZObject [req ''name'' (ZString [MaxLen 128]),
     req ''description'' (ZString [MaxLen 2048]),
     req ''fromOutputKey'' (ZString [MaxLen 64]),
     req ''toRole'' SignalRole]"

definition ModuleAdapter :: schema where
  "ModuleAdapter = ZObject [req ''adapterVersion'' (ZLiteral (JNum 1)),
     req ''pluginSlug'' Slug,
     req ''modelSlug'' Slug,
     req ''pluginVersionRange'' (ZString [MaxLen 128]),
     req ''displayName'' (ZString [MaxLen 256]),
     req ''summary'' (ZString [MaxLen 2048]),
     req ''params'' (ZArray None (Some 1024) AdapterParamSemantics),
     req ''inputs'' (ZArray None (Some 256) AdapterPortSemantics),
     req ''outputs'' (ZArray None (Some 256) AdapterPortSemantics),
     dflt ''polyphony'' PolyphonyBehavior (JStr ''unknown''),
     dflt ''connectionRecipes'' (ZArray None (Some 64) AdapterConnectionRecipe) (JArr []),
     req ''provenance'' (ZArray (Some 1) None (ZString [MaxLen 1024]))]"

section \<open>Recipes\<close>

definition RecipeRoleRequirement :: schema where
  "RecipeRoleRequirement = ZObject [req ''role'' (ZString [MaxLen 64]),
     req ''description'' (ZString [MaxLen 1024]),
     req ''preferred'' (ZObject [req ''pluginSlug'' Slug,
     req ''modelSlug'' Slug]),
     dflt ''signalRoles'' (ZArray None None SignalRole) (JArr [])]"

definition Recipe :: schema where
  "Recipe = ZObject [req ''recipeVersion'' (ZLiteral (JNum 1)),
     req ''id'' (ZString [Matches recipe_id_text, MaxLen 64]),
     req ''name'' (ZString [MaxLen 256]),
     req ''description'' (ZString [MaxLen 4096]),
     req ''roles'' (ZArray None (Some 64) RecipeRoleRequirement),
     req ''operations'' (ZArray None (Some 128) PatchOperation),
     dflt ''notes'' (ZArray None None (ZString [MaxLen 1024])) (JArr [])]"

definition RecipeResolution :: schema where
  "RecipeResolution = ZObject [req ''recipeId'' (ZString [MaxLen 64]),
     req ''resolved'' ZBool,
     req ''unresolvedRoles'' (ZArray None None (ZObject [req ''role'' (ZString [MaxLen 64]),
     req ''description'' (ZString [MaxLen 1024]),
     req ''preferred'' (ZObject [req ''pluginSlug'' Slug,
     req ''modelSlug'' Slug])])),
     req ''assignments'' (ZRecord [] (ZObject [req ''pluginSlug'' Slug,
     req ''modelSlug'' Slug]))]"

section \<open>Tool contracts\<close>

definition ExpectedEpoch :: fields where
  "ExpectedEpoch = [opt ''expectedPatchEpoch'' PatchEpoch]"

definition ConfirmationTokenField :: schema where
  "ConfirmationTokenField = ZString [MinLen 16, MaxLen 512]"

definition ConfirmationInfo :: schema where
  "ConfirmationInfo = ZObject [req ''confirmationToken'' ConfirmationTokenField,
     req ''confirmationExpiresAt'' (ZString [Format IsoDateTime]),
     req ''confirmationRequired'' ZBool]"

definition InstanceSummary :: schema where
  "InstanceSummary = ZObject [req ''instanceId'' Uuid,
     req ''pid'' (ZNumber [IsInt, AtLeast 1]),
     req ''rackVersion'' (ZString [MaxLen 64]),
     req ''rackEdition'' (ZEnum [''Free'', ''Pro'', ''unknown'']),
     req ''bridgeVersion'' (ZString [MaxLen 64]),
     req ''port'' (ZNumber [IsInt, AtLeast 1, AtMost 65535]),
     req ''startTime'' (ZString [Format IsoDateTime]),
     req ''lastHeartbeat'' (ZString [Format IsoDateTime]),
     req ''mode'' (ZLiteral (JStr ''standalone-gui'')),
     req ''patchName'' (ZNullable (ZString [MaxLen 512])),
     req ''commandPumpPresent'' ZBool,
     req ''bridgeModulePresent'' ZBool,
     req ''stale'' ZBool,
     req ''selected'' ZBool]"

definition ListRackInstancesInput :: schema where
  "ListRackInstancesInput = ZObject []"

definition ListRackInstancesOutput :: schema where
  "ListRackInstancesOutput = ZObject [req ''instances'' (ZArray None (Some 64) InstanceSummary),
     req ''discoveryDir'' (ZString [MaxLen 4096])]"

definition SelectRackInstanceInput :: schema where
  "SelectRackInstanceInput = ZObject [req ''instanceId'' Uuid]"

definition SelectRackInstanceOutput :: schema where
  "SelectRackInstanceOutput = ZObject [req ''status'' StatusResult,
     req ''connected'' (ZLiteral (JBool True))]"

definition GetRackStatusInput :: schema where
  "GetRackStatusInput = ZObject []"

definition GetRackStatusOutput :: schema where
  "GetRackStatusOutput = ZObject [req ''status'' (ZNullable StatusResult),
     req ''connected'' ZBool,
     req ''selectedInstanceId'' (ZNullable Uuid),
     req ''userNotesPending'' ZBool,
     req ''server'' (ZObject [req ''serverVersion'' (ZString [MaxLen 64]),
     req ''bridgeProtocolVersion'' (ZNumber [IsInt, AtLeast 1]),
     req ''supportedRackVersions'' (ZArray None None (ZString [MaxLen 64])),
     opt ''metrics'' BridgeMetrics])]"

definition AcquireWriterLeaseInput :: schema where
  "AcquireWriterLeaseInput = ZObject []"

definition AcquireWriterLeaseOutput :: schema where
  "AcquireWriterLeaseOutput = ZObject [req ''leaseId'' Uuid,
     req ''expiresInMs'' (ZNumber [IsInt, AtLeast 1])]"

definition ReleaseWriterLeaseInput :: schema where
  "ReleaseWriterLeaseInput = ZObject []"

definition ReleaseWriterLeaseOutput :: schema where
  "ReleaseWriterLeaseOutput = ZObject [req ''released'' ZBool]"

definition ListInstalledModelsInput :: schema where
  "ListInstalledModelsInput = ZObject [opt ''cursor'' (ZString [MaxLen 256]),
     dflt ''limit'' (ZNumber [IsInt, AtLeast 1, AtMost 500]) (JNum 100),
     opt ''query'' (ZString [MaxLen 256])]"

definition ListInstalledModelsOutput :: schema where
  "ListInstalledModelsOutput = CatalogListResult"

definition InspectModelInput :: schema where
  "InspectModelInput = ZObject [req ''pluginSlug'' (ZString [MaxLen 255]),
     req ''modelSlug'' (ZString [MaxLen 255])]"

definition InspectModelOutput :: schema where
  "InspectModelOutput = safeExtend InspectModelResult [req ''adapterAvailable'' ZBool,
     req ''adapterVersionRange'' (ZNullable (ZString [MaxLen 128]))]"

definition GetPatchSnapshotInput :: schema where
  "GetPatchSnapshotInput = ZObject ([dflt ''includeOpaqueState'' ZBool (JBool False)] @ ExpectedEpoch)"

definition GetPatchSnapshotOutput :: schema where
  "GetPatchSnapshotOutput = PatchSnapshot"

definition InspectModuleInput :: schema where
  "InspectModuleInput = ZObject ([req ''moduleId'' DecimalId,
     dflt ''includeOpaqueState'' ZBool (JBool False)] @ ExpectedEpoch)"

definition InspectModuleOutput :: schema where
  "InspectModuleOutput = ZObject [req ''module'' ModuleSnapshot,
     req ''adapterAvailable'' ZBool,
     req ''semanticsConfidence'' (ZEnum [''adapter'', ''heuristic'', ''none''])]"

definition InspectParameterInput :: schema where
  "InspectParameterInput = ZObject ([req ''moduleId'' DecimalId,
     req ''paramId'' SmallIndex] @ ExpectedEpoch)"

definition InspectParameterOutput :: schema where
  "InspectParameterOutput = ZObject [req ''param'' ParamSnapshot,
     req ''moduleId'' DecimalId,
     req ''adapterRole'' (ZNullable (ZString [MaxLen 64])),
     req ''semanticsConfidence'' (ZEnum [''adapter'', ''heuristic'', ''none''])]"

definition SignalChain :: schema where
  "SignalChain = ZObject [req ''description'' (ZString [MaxLen 1024]),
     req ''moduleIds'' (ZArray None (Some 256) DecimalId),
     req ''confidence'' (ZEnum [''certain'', ''adapter'', ''heuristic''])]"

definition DescribePatchInput :: schema where
  "DescribePatchInput = ZObject ExpectedEpoch"

definition DescribePatchOutput :: schema where
  "DescribePatchOutput = ZObject [req ''summary'' (ZString [MaxLen 8192]),
     req ''moduleCount'' (ZNumber [IsInt, AtLeast 0]),
     req ''cableCount'' (ZNumber [IsInt, AtLeast 0]),
     req ''chains'' (ZArray None (Some 128) SignalChain),
     req ''unknownModuleCount'' (ZNumber [IsInt, AtLeast 0]),
     req ''warnings'' (ZArray None (Some 128) (ZString [MaxLen 1024]))]"

definition ValidatePatchInput :: schema where
  "ValidatePatchInput = ZObject ExpectedEpoch"

definition ValidatePatchOutput :: schema where
  "ValidatePatchOutput = ValidationReport"

definition PreviewPatchTransactionInput :: schema where
  "PreviewPatchTransactionInput = ZObject ([req ''label'' (ZString [MinLen 1, MaxLen 128]),
     req ''operations'' (ZArray (Some 1) (Some (txnMaxOperations LIMITS)) PatchOperation),
     opt ''expectedFingerprint'' HexHash] @ ExpectedEpoch)"

definition PreviewPatchTransactionOutput :: schema where
  "PreviewPatchTransactionOutput = ZObject [req ''preview'' TxnPreviewResult,
     req ''confirmation'' ConfirmationInfo]"

definition CommitPatchTransactionInput :: schema where
  "CommitPatchTransactionInput = ZObject [req ''operationId'' Uuid,
     req ''planHash'' HexHash,
     req ''expectedFingerprint'' HexHash,
     opt ''confirmationToken'' ConfirmationTokenField]"

definition CommitPatchTransactionOutput :: schema where
  "CommitPatchTransactionOutput = TxnCommitResult"

definition UndoLastMcpTransactionInput :: schema where
  "UndoLastMcpTransactionInput = ZObject [req ''operationId'' Uuid]"

definition UndoLastMcpTransactionOutput :: schema where
  "UndoLastMcpTransactionOutput = ZObject [req ''undone'' (ZLiteral (JBool True)),
     req ''undoneOperationId'' Uuid,
     req ''newFingerprint'' HexHash,
     req ''patchEpoch'' PatchEpoch]"

definition BuildPatchInput :: schema where
  "BuildPatchInput = ZObject ([req ''label'' (ZString [MinLen 1, MaxLen 128]),
     req ''operations'' (ZArray (Some 1) (Some (txnMaxOperations LIMITS)) PatchOperation),
     dflt ''autoCommit'' ZBool (JBool True),
     req ''operationId'' Uuid] @ ExpectedEpoch)"

definition BuildPatchOutput :: schema where
  "BuildPatchOutput = ZObject [req ''phase'' (ZEnum [''previewed'', ''committed'']),
     req ''preview'' TxnPreviewResult,
     req ''confirmation'' ConfirmationInfo,
     opt ''commit'' TxnCommitResult]"

definition BuildRecipeInput :: schema where
  "BuildRecipeInput = ZObject ([req ''recipeId'' (ZString [MinLen 1, MaxLen 64]),
     opt ''label'' (ZString [MinLen 1, MaxLen 128]),
     dflt ''autoCommit'' ZBool (JBool True),
     req ''operationId'' Uuid] @ ExpectedEpoch)"

definition BuildRecipeOutput :: schema where
  "BuildRecipeOutput = ZObject [req ''phase'' (ZEnum [''unresolved'', ''previewed'', ''committed'']),
     req ''recipeId'' (ZString [MaxLen 64]),
     req ''resolution'' RecipeResolution,
     req ''catalogComplete'' ZBool,
     opt ''preview'' TxnPreviewResult,
     opt ''confirmation'' ConfirmationInfo,
     opt ''commit'' TxnCommitResult]"

definition PatchFileEntry :: schema where
  "PatchFileEntry = ZObject [req ''path'' (ZString [MaxLen 4096]),
     req ''name'' (ZString [MaxLen 512]),
     req ''sizeBytes'' (ZNumber [IsInt, AtLeast 0]),
     req ''modifiedAt'' (ZString [Format IsoDateTime]),
     req ''root'' (ZEnum [''patches'', ''checkpoints''])]"

definition ListPatchFilesInput :: schema where
  "ListPatchFilesInput = ZObject [dflt ''root'' (ZEnum [''patches'', ''checkpoints'', ''all'']) (JStr ''all''),
     opt ''cursor'' (ZString [MaxLen 256]),
     dflt ''limit'' (ZNumber [IsInt, AtLeast 1, AtMost 500]) (JNum 100)]"

definition ListPatchFilesOutput :: schema where
  "ListPatchFilesOutput = ZObject [req ''files'' (ZArray None (Some 500) PatchFileEntry),
     req ''nextCursor'' (ZNullable (ZString [MaxLen 256])),
     req ''roots'' (ZObject [req ''patches'' (ZString [MaxLen 4096]),
     req ''checkpoints'' (ZString [MaxLen 4096])])]"

definition CreateCheckpointInput :: schema where
  "CreateCheckpointInput = ZObject [opt ''label'' (ZString [MaxLen 64]),
     req ''operationId'' Uuid]"

definition CreateCheckpointOutput :: schema where
  "CreateCheckpointOutput = ZObject [req ''checkpointPath'' (ZString [MaxLen 4096]),
     req ''fingerprint'' HexHash,
     req ''createdAt'' (ZString [Format IsoDateTime]),
     req ''replayed'' ZBool]"

definition SavePatchInput :: schema where
  "SavePatchInput = ZObject [opt ''path'' (ZString [MinLen 1, MaxLen 4096]),
     req ''operationId'' Uuid]"

definition SavePatchOutput :: schema where
  "SavePatchOutput = ZObject [req ''path'' (ZString [MinLen 1, MaxLen 4096]),
     req ''fingerprint'' HexHash,
     req ''saved'' (ZLiteral (JBool True)),
     req ''bridgeModulePresent'' ZBool,
     req ''warnings'' (ZArray None (Some 64) (ZString [MaxLen 1024])),
     req ''replayed'' ZBool]"

definition LoadPreviewInfo :: schema where
  "LoadPreviewInfo = ZObject [req ''path'' (ZNullable (ZString [MaxLen 4096])),
     req ''exists'' ZBool,
     req ''sizeBytes'' (ZNullable (ZNumber [IsInt, AtLeast 0])),
     req ''currentPatchSaved'' ZBool,
     req ''willCreateRecoveryCheckpoint'' ZBool,
     req ''recoveryCheckpointImpossibleReason'' (ZNullable (ZString [MaxLen 1024])),
     req ''willInsertBridgeModule'' ZBool,
     req ''risk'' TxnRisk,
     req ''warnings'' (ZArray None (Some 64) (ZString [MaxLen 1024]))]"

definition PreviewLoadPatchInput :: schema where
  "PreviewLoadPatchInput = ZObject [req ''path'' (ZString [MinLen 1, MaxLen 4096])]"

definition PreviewLoadPatchOutput :: schema where
  "PreviewLoadPatchOutput = ZObject [req ''preview'' LoadPreviewInfo,
     req ''confirmation'' ConfirmationInfo]"

definition CommitLoadPatchInput :: schema where
  "CommitLoadPatchInput = ZObject [req ''confirmationToken'' ConfirmationTokenField,
     req ''operationId'' Uuid]"

definition PatchFileCommitOutput :: schema where
  "PatchFileCommitOutput = ZObject [req ''fingerprint'' HexHash,
     req ''patchEpoch'' PatchEpoch,
     req ''patchName'' (ZNullable (ZString [MaxLen 512])),
     req ''saved'' ZBool,
     req ''bridgeModulePresent'' ZBool,
     req ''recoveryCheckpointPath'' (ZNullable (ZString [MaxLen 4096])),
     req ''warnings'' (ZArray None (Some 64) (ZString [MaxLen 1024])),
     req ''replayed'' ZBool]"

definition CommitLoadPatchOutput :: schema where
  "CommitLoadPatchOutput = PatchFileCommitOutput"

definition PreviewClearPatchInput :: schema where
  "PreviewClearPatchInput = ZObject []"

definition PreviewClearPatchOutput :: schema where
  "PreviewClearPatchOutput = ZObject [req ''preview'' LoadPreviewInfo,
     req ''confirmation'' ConfirmationInfo]"

definition CommitClearPatchInput :: schema where
  "CommitClearPatchInput = CommitLoadPatchInput"

definition CommitClearPatchOutput :: schema where
  "CommitClearPatchOutput = PatchFileCommitOutput"

definition RestoreCheckpointInput :: schema where
  "RestoreCheckpointInput = ZObject [req ''checkpointPath'' (ZString [MinLen 1, MaxLen 4096]),
     opt ''confirmationToken'' ConfirmationTokenField,
     req ''operationId'' Uuid]"

definition RestoreCheckpointOutput :: schema where
  "RestoreCheckpointOutput = ZObject [req ''phase'' (ZEnum [''preview'', ''restored'']),
     opt ''preview'' LoadPreviewInfo,
     opt ''confirmation'' ConfirmationInfo,
     opt ''result'' PatchFileCommitOutput]"

definition ListProbesInput :: schema where
  "ListProbesInput = ZObject []"

definition ListProbesOutput :: schema where
  "ListProbesOutput = safeExtend ProbeListResult [req ''attachedCount'' (ZNumber [IsInt, AtLeast 0]),
     req ''maxActiveProbes'' (ZNumber [IsInt, AtLeast 1])]"

definition PreviewAttachProbeInput :: schema where
  "PreviewAttachProbeInput = ZObject ([req ''source'' PortRef,
     opt ''probe'' (ZObject [req ''probeModuleId'' DecimalId,
     req ''probeInputId'' SmallIndex])] @ ExpectedEpoch)"

definition PreviewAttachProbeOutput :: schema where
  "PreviewAttachProbeOutput = ZObject [req ''preview'' TxnPreviewResult,
     req ''confirmation'' ConfirmationInfo,
     req ''slot'' (ZObject [req ''probeModuleId'' (ZNullable DecimalId),
     req ''probeInputId'' SmallIndex,
     req ''addsProbeModule'' ZBool])]"

definition CommitAttachProbeInput :: schema where
  "CommitAttachProbeInput = ZObject [req ''operationId'' Uuid,
     req ''planHash'' HexHash,
     req ''expectedFingerprint'' HexHash,
     opt ''confirmationToken'' ConfirmationTokenField]"

definition CommitAttachProbeOutput :: schema where
  "CommitAttachProbeOutput = ZObject [req ''commit'' TxnCommitResult,
     req ''probeModuleId'' DecimalId,
     req ''probeInputId'' SmallIndex,
     req ''cableId'' DecimalId]"

definition ReadProbeInput :: schema where
  "ReadProbeInput = ZObject ([req ''probeModuleId'' DecimalId,
     req ''probeInputId'' SmallIndex] @ ExpectedEpoch)"

definition ReadProbeOutput :: schema where
  "ReadProbeOutput = ProbeReading"

definition ReadUserNotesInput :: schema where
  "ReadUserNotesInput = ZObject ([dflt ''sinceSeq'' (ZNumber [IsInt, AtLeast 0]) (JNum 0)] @ ExpectedEpoch)"

definition ReadUserNotesOutput :: schema where
  "ReadUserNotesOutput = ChatPollResult"

definition PostChatMessageInput :: schema where
  "PostChatMessageInput = ZObject ([req ''text'' (ZString [MinLen 1, MaxLen 2000]),
     dflt ''ackThroughSeq'' (ZNumber [IsInt, AtLeast 0]) (JNum 0)] @ ExpectedEpoch)"

definition PostChatMessageOutput :: schema where
  "PostChatMessageOutput = ChatPostResult"

definition DetachProbeInput :: schema where
  "DetachProbeInput = ZObject [req ''probeModuleId'' DecimalId,
     req ''probeInputId'' SmallIndex,
     req ''operationId'' Uuid,
     req ''expectedPatchEpoch'' PatchEpoch]"

definition DetachProbeOutput :: schema where
  "DetachProbeOutput = ZObject [req ''detached'' (ZLiteral (JBool True)),
     req ''removedCableIds'' (ZArray None (Some 64) DecimalId),
     req ''newFingerprint'' HexHash,
     req ''replayed'' ZBool]"

section \<open>The registry\<close>

record tool_annotations =
  ta_readOnlyHint :: bool
  ta_destructiveHint :: bool
  ta_idempotentHint :: bool
  ta_openWorldHint :: bool

record tool_spec =
  ts_name :: string
  ts_title :: string
  ts_description :: string
  ts_input :: schema
  ts_output :: schema
  ts_annotations :: tool_annotations

definition RO :: tool_annotations where
  "RO = \<lparr>ta_readOnlyHint = True, ta_destructiveHint = False, ta_idempotentHint = True, ta_openWorldHint = False\<rparr>"

definition MUT :: "bool \<Rightarrow> bool \<Rightarrow> tool_annotations" where
  "MUT destructive idempotent = \<lparr>ta_readOnlyHint = False, ta_destructiveHint = destructive,
     ta_idempotentHint = idempotent, ta_openWorldHint = False\<rparr>"

definition T_list_rack_instances :: tool_spec where
  "T_list_rack_instances = \<lparr>ts_name = ''list_rack_instances'', ts_title = ''List Rack instances'',
     ts_description = ''Discover running VCV Rack instances with the RackMCP plugin loaded, via their local discovery '' @
       ''manifests. Reports staleness and which instance is currently selected.'',
     ts_input = ListRackInstancesInput, ts_output = ListRackInstancesOutput,
     ts_annotations = RO\<rparr>"

definition T_select_rack_instance :: tool_spec where
  "T_select_rack_instance = \<lparr>ts_name = ''select_rack_instance'', ts_title = ''Select Rack instance'',
     ts_description = ''Connect to a specific running Rack instance and make it the target of all subsequent tools. '' @
       ''Authenticates with the local pairing secret.'',
     ts_input = SelectRackInstanceInput, ts_output = SelectRackInstanceOutput,
     ts_annotations = \<lparr>ta_readOnlyHint = False, ta_destructiveHint = False, ta_idempotentHint = True, ta_openWorldHint = False\<rparr>\<rparr>"

definition T_get_rack_status :: tool_spec where
  "T_get_rack_status = \<lparr>ts_name = ''get_rack_status'', ts_title = ''Get Rack status'',
     ts_description = ''Report connection state, Rack version/edition, patch epoch, patch name, save state, writer-lease '' @
       ''ownership, and bridge metrics for the selected instance.'',
     ts_input = GetRackStatusInput, ts_output = GetRackStatusOutput,
     ts_annotations = RO\<rparr>"

definition T_acquire_writer_lease :: tool_spec where
  "T_acquire_writer_lease = \<lparr>ts_name = ''acquire_writer_lease'', ts_title = ''Acquire writer lease'',
     ts_description = ''Acquire the single writer lease for the selected Rack instance. All mutations require the lease. '' @
       ''Fails with LEASE_HELD when another client holds it.'',
     ts_input = AcquireWriterLeaseInput, ts_output = AcquireWriterLeaseOutput,
     ts_annotations = \<lparr>ta_readOnlyHint = False, ta_destructiveHint = False, ta_idempotentHint = True, ta_openWorldHint = False\<rparr>\<rparr>"

definition T_release_writer_lease :: tool_spec where
  "T_release_writer_lease = \<lparr>ts_name = ''release_writer_lease'', ts_title = ''Release writer lease'',
     ts_description = ''Release the writer lease held by this client.'',
     ts_input = ReleaseWriterLeaseInput, ts_output = ReleaseWriterLeaseOutput,
     ts_annotations = \<lparr>ta_readOnlyHint = False, ta_destructiveHint = False, ta_idempotentHint = True, ta_openWorldHint = False\<rparr>\<rparr>"

definition T_list_installed_models :: tool_spec where
  "T_list_installed_models = \<lparr>ts_name = ''list_installed_models'', ts_title = ''List installed models'',
     ts_description = ''Enumerate installed plugins and modules (models) in the selected Rack instance, paginated, with '' @
       ''optional name filtering.'',
     ts_input = ListInstalledModelsInput, ts_output = ListInstalledModelsOutput,
     ts_annotations = RO\<rparr>"

definition T_inspect_model :: tool_spec where
  "T_inspect_model = \<lparr>ts_name = ''inspect_model'', ts_title = ''Inspect model'',
     ts_description = ''Return parameter and port metadata for an installed model. Metadata inspection may require '' @
       ''temporary engine-module instantiation on the UI thread; this is disclosed and the module is never '' @
       ''added to the patch. Results are cached by plugin/model/version.'',
     ts_input = InspectModelInput, ts_output = InspectModelOutput,
     ts_annotations = RO\<rparr>"

definition T_get_patch_snapshot :: tool_spec where
  "T_get_patch_snapshot = \<lparr>ts_name = ''get_patch_snapshot'', ts_title = ''Get patch snapshot'',
     ts_description = ''Return the full structured state of the current patch: modules, parameters, ports, cables, '' @
       ''positions, expanders, bypass state, fingerprint and warnings. Opaque module state is excluded '' @
       ''unless explicitly requested.'',
     ts_input = GetPatchSnapshotInput, ts_output = GetPatchSnapshotOutput,
     ts_annotations = RO\<rparr>"

definition T_inspect_module :: tool_spec where
  "T_inspect_module = \<lparr>ts_name = ''inspect_module'', ts_title = ''Inspect module'',
     ts_description = ''Return detailed state for one module, including parameters with display values, ports with '' @
       ''connections, and adapter-backed semantics when available.'',
     ts_input = InspectModuleInput, ts_output = InspectModuleOutput,
     ts_annotations = RO\<rparr>"

definition T_inspect_parameter :: tool_spec where
  "T_inspect_parameter = \<lparr>ts_name = ''inspect_parameter'', ts_title = ''Inspect parameter'',
     ts_description = ''Return detailed state for one parameter: raw value, range, default, display value and unit, plus '' @
       ''adapter semantics when available.'',
     ts_input = InspectParameterInput, ts_output = InspectParameterOutput,
     ts_annotations = RO\<rparr>"

definition T_describe_patch :: tool_spec where
  "T_describe_patch = \<lparr>ts_name = ''describe_patch'', ts_title = ''Describe patch'',
     ts_description = ''Explain the current patch'' @
       [CHR 0x27] @
       ''s signal flow in plain language: chains from sources to audio destinations, modulation paths, and '' @
       ''notable structure. Confidence is labeled; unknown third-party modules are described heuristically.'',
     ts_input = DescribePatchInput, ts_output = DescribePatchOutput,
     ts_annotations = RO\<rparr>"

definition T_validate_patch :: tool_spec where
  "T_validate_patch = \<lparr>ts_name = ''validate_patch'', ts_title = ''Validate patch'',
     ts_description = ''Run structural and advisory validation of the current patch. Findings carry stable rule ids, '' @
       ''severity, confidence (certain/adapter/heuristic), evidence and suggested repairs.'',
     ts_input = ValidatePatchInput, ts_output = ValidatePatchOutput,
     ts_annotations = RO\<rparr>"

definition T_preview_patch_transaction :: tool_spec where
  "T_preview_patch_transaction = \<lparr>ts_name = ''preview_patch_transaction'', ts_title = ''Preview patch transaction'',
     ts_description = ''Validate a structured patch transaction without mutating Rack. Returns the normalized plan, a diff, '' @
       ''risk summary, plan hash, base fingerprint and an expiring confirmation token. Nothing is applied.'',
     ts_input = PreviewPatchTransactionInput, ts_output = PreviewPatchTransactionOutput,
     ts_annotations = RO\<rparr>"

definition T_commit_patch_transaction :: tool_spec where
  "T_commit_patch_transaction = \<lparr>ts_name = ''commit_patch_transaction'', ts_title = ''Commit patch transaction'',
     ts_description = ''Atomically apply a previously previewed transaction. Requires the exact plan hash and expected base '' @
       ''fingerprint; destructive or high-risk plans additionally require the confirmation token. Applies as '' @
       ''a single named Rack history action with full rollback on failure. Retries must reuse the same '' @
       ''operationId.'',
     ts_input = CommitPatchTransactionInput, ts_output = CommitPatchTransactionOutput,
     ts_annotations = MUT True True\<rparr>"

definition T_undo_last_mcp_transaction :: tool_spec where
  "T_undo_last_mcp_transaction = \<lparr>ts_name = ''undo_last_mcp_transaction'', ts_title = ''Undo last MCP transaction'',
     ts_description = ''Undo the most recent MCP transaction, only when it is still the top Rack history entry, no manual '' @
       ''action followed it, and the current fingerprint matches the recorded post-transaction fingerprint. '' @
       ''Refuses rather than undoing unrelated user work.'',
     ts_input = UndoLastMcpTransactionInput, ts_output = UndoLastMcpTransactionOutput,
     ts_annotations = MUT True True\<rparr>"

definition T_build_patch :: tool_spec where
  "T_build_patch = \<lparr>ts_name = ''build_patch'', ts_title = ''Build patch'',
     ts_description = ''High-level convenience: preview a structured operation graph and, when no confirmation is required, '' @
       ''commit it in one call. Never bypasses validation or confirmation; risky plans return a token '' @
       ''instead of committing.'',
     ts_input = BuildPatchInput, ts_output = BuildPatchOutput,
     ts_annotations = MUT True True\<rparr>"

definition T_build_recipe :: tool_spec where
  "T_build_recipe = \<lparr>ts_name = ''build_recipe'', ts_title = ''Build recipe'',
     ts_description = ''Build a patch from a recipe in the recipe library: resolve its functional roles against the '' @
       ''installed models, expand them into operations, preview, and commit when no confirmation is '' @
       ''required. Reports unresolved roles instead of substituting a different module, because expansion '' @
       ''keeps the port and parameter ids chosen for the preferred model.'',
     ts_input = BuildRecipeInput, ts_output = BuildRecipeOutput,
     ts_annotations = MUT True True\<rparr>"

definition T_list_patch_files :: tool_spec where
  "T_list_patch_files = \<lparr>ts_name = ''list_patch_files'', ts_title = ''List patch files'',
     ts_description = ''List .vcv patch files inside the configured roots (Rack patches directory and RackMCP checkpoints '' @
       ''directory), paginated.'',
     ts_input = ListPatchFilesInput, ts_output = ListPatchFilesOutput,
     ts_annotations = RO\<rparr>"

definition T_create_checkpoint :: tool_spec where
  "T_create_checkpoint = \<lparr>ts_name = ''create_checkpoint'', ts_title = ''Create checkpoint'',
     ts_description = ''Save a checkpoint copy of the current patch into the RackMCP checkpoints directory without changing '' @
       ''the current patch path or save state. The name is claimed before writing, so two checkpoints made '' @
       ''in the same millisecond with the same label get separate files rather than one overwriting the '' @
       ''other.'',
     ts_input = CreateCheckpointInput, ts_output = CreateCheckpointOutput,
     ts_annotations = MUT False True\<rparr>"

definition T_save_patch :: tool_spec where
  "T_save_patch = \<lparr>ts_name = ''save_patch'', ts_title = ''Save patch'',
     ts_description = ''Save the current patch to its current path or a policy-checked .vcv path inside the patches root. '' @
       ''Refuses a path in the checkpoints root: checkpoints are written by create_checkpoint. Warns when '' @
       ''the saved patch lacks a Bridge module and therefore cannot reconnect after restart.'',
     ts_input = SavePatchInput, ts_output = SavePatchOutput,
     ts_annotations = MUT True True\<rparr>"

definition T_preview_load_patch :: tool_spec where
  "T_preview_load_patch = \<lparr>ts_name = ''preview_load_patch'', ts_title = ''Preview load patch'',
     ts_description = ''Preview loading a .vcv patch from the patches root: path policy, unsaved-work risk, '' @
       ''recovery-checkpoint plan and a confirmation token. Nothing is loaded. Use restore_checkpoint for a '' @
       ''file in the checkpoints root.'',
     ts_input = PreviewLoadPatchInput, ts_output = PreviewLoadPatchOutput,
     ts_annotations = RO\<rparr>"

definition T_commit_load_patch :: tool_spec where
  "T_commit_load_patch = \<lparr>ts_name = ''commit_load_patch'', ts_title = ''Commit load patch'',
     ts_description = ''Load the previewed patch after automatically creating a recovery checkpoint (unless the preview '' @
       ''reported why that is impossible). Replaces the current patch; increments the patch epoch.'',
     ts_input = CommitLoadPatchInput, ts_output = CommitLoadPatchOutput,
     ts_annotations = MUT True True\<rparr>"

definition T_preview_clear_patch :: tool_spec where
  "T_preview_clear_patch = \<lparr>ts_name = ''preview_clear_patch'', ts_title = ''Preview clear patch'',
     ts_description = ''Preview clearing the current patch, including the recovery-checkpoint plan and a confirmation '' @
       ''token. Nothing is cleared.'',
     ts_input = PreviewClearPatchInput, ts_output = PreviewClearPatchOutput,
     ts_annotations = RO\<rparr>"

definition T_commit_clear_patch :: tool_spec where
  "T_commit_clear_patch = \<lparr>ts_name = ''commit_clear_patch'', ts_title = ''Commit clear patch'',
     ts_description = ''Clear the patch after automatically creating a recovery checkpoint (unless the preview reported why '' @
       ''that is impossible). Increments the patch epoch.'',
     ts_input = CommitClearPatchInput, ts_output = CommitClearPatchOutput,
     ts_annotations = MUT True True\<rparr>"

definition T_restore_checkpoint :: tool_spec where
  "T_restore_checkpoint = \<lparr>ts_name = ''restore_checkpoint'', ts_title = ''Restore checkpoint'',
     ts_description = ''Restore a previously created checkpoint. Called without a confirmation token it returns a preview '' @
       ''and token only; called with the token it creates a recovery checkpoint of the current state and '' @
       ''then loads the checkpoint. The restored patch has no file path, so it cannot be saved over the '' @
       ''checkpoint: save it with save_patch and an explicit path.'',
     ts_input = RestoreCheckpointInput, ts_output = RestoreCheckpointOutput,
     ts_annotations = MUT True True\<rparr>"

definition T_list_probes :: tool_spec where
  "T_list_probes = \<lparr>ts_name = ''list_probes'', ts_title = ''List probes'',
     ts_description = ''List RackMCP-Probe modules and their input slots, showing which are connected and to which source '' @
       ''ports.'',
     ts_input = ListProbesInput, ts_output = ListProbesOutput,
     ts_annotations = RO\<rparr>"

definition T_preview_attach_probe :: tool_spec where
  "T_preview_attach_probe = \<lparr>ts_name = ''preview_attach_probe'', ts_title = ''Preview attach probe'',
     ts_description = ''Preview attaching a Probe input to a source output port via an explicit cable, adding a Probe '' @
       ''module if none has a free slot. Returns a plan and confirmation info; nothing is mutated.'',
     ts_input = PreviewAttachProbeInput, ts_output = PreviewAttachProbeOutput,
     ts_annotations = RO\<rparr>"

definition T_commit_attach_probe :: tool_spec where
  "T_commit_attach_probe = \<lparr>ts_name = ''commit_attach_probe'', ts_title = ''Commit attach probe'',
     ts_description = ''Apply a previously previewed probe attachment. Signal telemetry is only available through an '' @
       ''explicit Probe cable.'',
     ts_input = CommitAttachProbeInput, ts_output = CommitAttachProbeOutput,
     ts_annotations = MUT False True\<rparr>"

definition T_read_probe :: tool_spec where
  "T_read_probe = \<lparr>ts_name = ''read_probe'', ts_title = ''Read probe'',
     ts_description = ''Read the latest telemetry window from an attached Probe input: per-channel min/max, peak, RMS, DC, '' @
       ''clipped and non-finite counts, edge count, window and sample rate. A new window is published every '' @
       nat_str (probeWindowMs LIMITS) @
       '' ms ('' @
       nat_str (probeMaxHz LIMITS) @
       '' Hz); reading faster is allowed and simply returns the current window again.'',
     ts_input = ReadProbeInput, ts_output = ReadProbeOutput,
     ts_annotations = RO\<rparr>"

definition T_read_user_notes :: tool_spec where
  "T_read_user_notes = \<lparr>ts_name = ''read_user_notes'', ts_title = ''Read notes from the rack'',
     ts_description = ''Read anything the person typed into the RackMCP-Chat module'' @
       [CHR 0x27] @
       ''s panel since you last looked. Nothing inside Rack can interrupt you, so notes wait here until you '' @
       ''ask; call this when you start a turn, or after a long operation, to see whether they said something '' @
       ''while you worked. Notes are returned oldest first and are not removed by reading '' @
       [CHR 0xE2] @
       [CHR 0x80] @
       [CHR 0x94] @
       '' acknowledge them by passing the highest seq you have handled to post_chat_message, which is what '' @
       ''marks them delivered in the panel.'',
     ts_input = ReadUserNotesInput, ts_output = ReadUserNotesOutput,
     ts_annotations = RO\<rparr>"

definition T_post_chat_message :: tool_spec where
  "T_post_chat_message = \<lparr>ts_name = ''post_chat_message'', ts_title = ''Reply into the rack'',
     ts_description = ''Write a short message into the RackMCP-Chat panel, so the person sees your answer in Rack rather '' @
       ''than only in the host application. Use it to answer a note, or to say what you just changed and how '' @
       ''to undo it. Pass ackThroughSeq to mark their notes as delivered; a note that is never acknowledged '' @
       ''keeps showing as pending, which is how the panel stays honest about whether you have actually seen '' @
       ''it. This does not touch the patch and needs no writer lease.'',
     ts_input = PostChatMessageInput, ts_output = PostChatMessageOutput,
     ts_annotations = MUT False False\<rparr>"

definition T_detach_probe :: tool_spec where
  "T_detach_probe = \<lparr>ts_name = ''detach_probe'', ts_title = ''Detach probe'',
     ts_description = ''Disconnect a Probe input'' @
       [CHR 0x27] @
       ''s cable(s). The Probe module itself is left in place.'',
     ts_input = DetachProbeInput, ts_output = DetachProbeOutput,
     ts_annotations = MUT False True\<rparr>"

definition TOOLS :: "tool_spec list" where
  "TOOLS = [T_list_rack_instances, T_select_rack_instance, T_get_rack_status, T_acquire_writer_lease,
       T_release_writer_lease, T_list_installed_models, T_inspect_model, T_get_patch_snapshot, T_inspect_module,
       T_inspect_parameter, T_describe_patch, T_validate_patch, T_preview_patch_transaction,
       T_commit_patch_transaction, T_undo_last_mcp_transaction, T_build_patch, T_build_recipe, T_list_patch_files,
       T_create_checkpoint, T_save_patch, T_preview_load_patch, T_commit_load_patch, T_preview_clear_patch,
       T_commit_clear_patch, T_restore_checkpoint, T_list_probes, T_preview_attach_probe, T_commit_attach_probe,
       T_read_probe, T_read_user_notes, T_post_chat_message, T_detach_probe]"

definition TOOL_NAMES :: "string list" where
  "TOOL_NAMES = map ts_name TOOLS"

definition getTool :: "string \<Rightarrow> tool_spec option" where
  "getTool name = find (\<lambda>t. ts_name t = name) TOOLS"

end
