(* ===== verification/ResourceSchemas.thy ===== *)
theory ResourceSchemas
  imports ToolSchemas
begin

text \<open>
  The contracts of the \<open>rack://\<close> resources (\<open>resources.ts\<close>) and the prompts (\<open>prompts.ts\<close>), under
  \<open>packages/schemas/src\<close>.
\<close>

section \<open>Resource bodies\<close>

definition ok_body :: "string \<Rightarrow> schema \<Rightarrow> fields \<Rightarrow> schema" where
  "ok_body uri data extra = ZObject ([req ''state'' (ZLiteral (JStr ''ok'')), req ''uri'' (ZLiteral (JStr uri)),
     req ''data'' data] @ extra)"

definition ResourceUri :: schema where
  "ResourceUri = ZString [MaxLen 256]"

definition ResourceUnavailable :: schema where
  "ResourceUnavailable = ZObject [req ''state'' (ZLiteral (JStr ''unavailable'')),
     req ''uri'' ResourceUri,
     req ''code'' (ZEnum [''RACK_NOT_FOUND'', ''INSTANCE_NOT_SELECTED'', ''RACK_DISCONNECTED'']),
     req ''discoveredInstances'' (ZNumber [IsInt, AtLeast 0]),
     req ''hint'' (ZString [MaxLen 512])]"

definition ResourceError :: schema where
  "ResourceError = ZObject [req ''state'' (ZLiteral (JStr ''error'')),
     req ''uri'' ResourceUri,
     req ''error'' RackMcpError]"

definition ResourceTruncated :: schema where
  "ResourceTruncated = ZObject [req ''state'' (ZLiteral (JStr ''truncated'')),
     req ''uri'' ResourceUri,
     req ''sizeBytes'' (ZNumber [IsInt, AtLeast 0]),
     req ''limitBytes'' (ZNumber [IsInt, AtLeast 1]),
     req ''useTool'' (ZNullable (ZString [MaxLen 64])),
     req ''reason'' (ZString [MaxLen 512])]"

definition RackStatusData :: schema where
  "RackStatusData = ZObject [req ''connected'' ZBool,
     req ''selectedInstanceId'' (ZNullable Uuid),
     req ''instances'' (ZArray None (Some 64) InstanceSummary),
     req ''status'' (ZNullable StatusResult),
     req ''statusError'' (ZNullable RackMcpError),
     req ''metrics'' (ZNullable BridgeMetrics),
     req ''metricsError'' (ZNullable RackMcpError)]"

definition RackStatusResource :: schema where
  "RackStatusResource = ZUnion [ok_body ''rack://status'' RackStatusData [], ResourceTruncated]"

definition PatchCurrentResource :: schema where
  "PatchCurrentResource = ZUnion [ok_body ''rack://patch/current'' PatchSnapshot [], ResourceUnavailable,
       ResourceError, ResourceTruncated]"

definition CatalogModelsResource :: schema where
  "CatalogModelsResource = ZUnion [ok_body ''rack://catalog/models'' CatalogListResult [req ''continueWith''
       (ZObject [req ''tool'' (ZLiteral (JStr ''list_installed_models'')),
     req ''cursor'' (ZNullable (ZString [MaxLen 256]))])], ResourceUnavailable, ResourceError, ResourceTruncated]"

definition AdaptersData :: schema where
  "AdaptersData = ZObject [req ''adapters'' (ZArray None (Some 512) ModuleAdapter)]"

definition AdaptersResource :: schema where
  "AdaptersResource = ZUnion [ok_body ''rack://adapters'' AdaptersData [], ResourceTruncated]"

definition RecipesData :: schema where
  "RecipesData = ZObject [req ''recipes'' (ZArray None (Some 256) Recipe),
     req ''resolutions'' (ZNullable (ZRecord [MaxLen 64] RecipeResolution)),
     req ''catalogComplete'' ZBool,
     req ''modelsScanned'' (ZNumber [IsInt, AtLeast 0]),
     req ''totalModels'' (ZNullable (ZNumber [IsInt, AtLeast 0]))]"

definition RecipesResource :: schema where
  "RecipesResource = ZUnion [ok_body ''rack://recipes'' RecipesData [req ''resolutionState'' (ZEnum [''resolved'',
       ''partial'', ''unavailable'', ''failed'']),
     req ''resolutionError'' (ZNullable RackMcpError)], ResourceTruncated]"

definition AuditEntry :: schema where
  "AuditEntry = ZObject [req ''ts'' (ZString [Format IsoDateTime]),
     req ''tool'' (ZString [MaxLen 128]),
     req ''outcome'' (ZEnum [''ok'', ''error'']),
     opt ''instanceId'' Uuid,
     opt ''operationId'' Uuid,
     opt ''errorCode'' ErrorCode,
     opt ''durationMs'' (ZNumber [IsInt, AtLeast 0]),
     opt ''schemaValid'' ZBool]"

definition AuditRecentData :: schema where
  "AuditRecentData = ZObject [req ''entries'' (ZArray None (Some 200) AuditEntry),
     req ''skipped'' (ZNumber [IsInt, AtLeast 0])]"

definition AuditRecentResource :: schema where
  "AuditRecentResource = ZUnion [ok_body ''rack://audit/recent'' AuditRecentData [], ResourceTruncated]"

section \<open>The registry\<close>

record resource_spec =
  rs_name :: string
  rs_uri :: string
  rs_title :: string
  rs_description :: string
  rs_output :: schema
  rs_truncationTool :: "string option"

definition RESOURCES :: "resource_spec list" where
  "RESOURCES = [
     \<lparr>rs_name = ''rack-status'', rs_uri = ''rack://status'', rs_title = ''Rack status'',
      rs_description = ''Discovery and connection status for the selected Rack instance.'',
      rs_output = RackStatusResource, rs_truncationTool = Some ''get_rack_status''\<rparr>,
     \<lparr>rs_name = ''rack-patch-current'', rs_uri = ''rack://patch/current'', rs_title = ''Current patch'',
      rs_description = ''Structured snapshot of the current patch (opaque state excluded).'',
      rs_output = PatchCurrentResource, rs_truncationTool = Some ''get_patch_snapshot''\<rparr>,
     \<lparr>rs_name = ''rack-catalog-models'', rs_uri = ''rack://catalog/models'', rs_title = ''Installed models'',
      rs_description = ''First page of installed plugin models for the selected instance.'',
      rs_output = CatalogModelsResource, rs_truncationTool = Some ''list_installed_models''\<rparr>,
     \<lparr>rs_name = ''rack-adapters'', rs_uri = ''rack://adapters'', rs_title = ''Adapter pack'',
      rs_description = ''Verified module adapters (semantics, port roles, safe values).'',
      rs_output = AdaptersResource, rs_truncationTool = None\<rparr>,
     \<lparr>rs_name = ''rack-recipes'', rs_uri = ''rack://recipes'', rs_title = ''Recipe library'',
      rs_description = ''High-level recipes; resolved against installed models when connected.'',
      rs_output = RecipesResource, rs_truncationTool = None\<rparr>,
     \<lparr>rs_name = ''rack-audit-recent'', rs_uri = ''rack://audit/recent'', rs_title = ''Recent audit'',
      rs_description = ''Most-recent tool invocations recorded by this server.'',
      rs_output = AuditRecentResource, rs_truncationTool = None\<rparr>]"

definition RESOURCE_URIS :: "string list" where
  "RESOURCE_URIS = map rs_uri RESOURCES"

definition getResource :: "string \<Rightarrow> resource_spec option" where
  "getResource uri = find (\<lambda>r. rs_uri r = uri) RESOURCES"

section \<open>Prompts\<close>

record prompt_argument =
  pa_name :: string
  pa_description :: string
  pa_required :: bool

record prompt_spec =
  ps_name :: string
  ps_title :: string
  ps_description :: string
  ps_arguments :: "prompt_argument list option"

definition PROMPTS :: "prompt_spec list" where
  "PROMPTS = [
     \<lparr>ps_name = ''design_patch'', ps_title = ''Design a patch'',
      ps_description = ''Design and safely build a VCV Rack patch that achieves a musical goal, grounded in the adapter pack '' @
       ''and recipes.'',
      ps_arguments = Some [\<lparr>pa_name = ''goal'', pa_description = ''What the patch should do, musically.'', pa_required = True\<rparr>,
        \<lparr>pa_name = ''constraints'', pa_description = ''Optional constraints (modules to use/avoid, size, style).'', pa_required = False\<rparr>]\<rparr>,
     \<lparr>ps_name = ''troubleshoot_silence'', ps_title = ''Troubleshoot silence'',
      ps_description = ''Diagnose why a patch produces no sound (or too little), with evidence.'',
      ps_arguments = Some [\<lparr>pa_name = ''suspectModuleId'', pa_description = ''Optional module id to focus the investigation on.'', pa_required = False\<rparr>]\<rparr>,
     \<lparr>ps_name = ''add_effect_safely'', ps_title = ''Add an effect safely'',
      ps_description = ''Insert an effect into the signal path without breaking the existing routing.'',
      ps_arguments = Some [\<lparr>pa_name = ''effect'', pa_description = (''The effect to add (e.g. '' @ [CHR 0x27] @ ''stereo delay'' @ [CHR 0x27] @ '', '' @ [CHR 0x27] @ ''lowpass filter'' @ [CHR 0x27] @ '').''), pa_required = True\<rparr>,
        \<lparr>pa_name = ''insertAfterModuleId'', pa_description = ''Optional module id after which to insert the effect.'', pa_required = False\<rparr>]\<rparr>,
     \<lparr>ps_name = ''explain_signal_flow'', ps_title = ''Explain signal flow'',
      ps_description = ''Explain how the current patch works, in musical terms.'',
      ps_arguments = None\<rparr>,
     \<lparr>ps_name = ''prepare_live_performance_patch'', ps_title = ''Prepare a live performance patch'',
      ps_description = ''Make the current patch safe and robust for live performance.'',
      ps_arguments = None\<rparr>]"

definition PROMPT_NAMES :: "string list" where
  "PROMPT_NAMES = map ps_name PROMPTS"

definition getPrompt :: "string \<Rightarrow> prompt_spec option" where
  "getPrompt name = find (\<lambda>p. ps_name p = name) PROMPTS"

end
