(* ===== verification/ToolContext.thy ===== *)
theory ToolContext
  imports ResourceSchemas Findings PatchFiles Connection AuditLog
begin

text \<open>
  What every tool handler works on (\<open>ToolContext\<close> of \<open>apps/mcp-server/src/tools.ts\<close>): the
  connection manager, the transaction manager and the file system as one state, the lifting
  of their programs, and the projections to JSON shared by the tools and the resources
  (\<open>projections.ts\<close>).  Replies of the plugin are JSON, cast to a type only where the code
  reads them; a cast is an argument.
\<close>

section \<open>State\<close>

text \<open>Probe attachments cached between preview and commit (\<open>telemetry.ts\<close>).\<close>

record attach_meta =
  at_probeModuleId :: "string option"
  at_probeAlias :: "string option"
  at_probeInputId :: nat
  at_addsProbeModule :: bool

record 'w hub =
  hb_conn :: "'w conn"
  hb_attach :: "(string, attach_meta) jsmap"

type_synonym 'w server = "'w hub shared"
type_synonym ('w, 'a) tool = "(exn option, 'w server, 'a) prog"

text \<open>The part of a snapshot the telemetry tools read.\<close>

record probe_module =
  pm_moduleId :: string
  pm_isProbe :: bool
  pm_inputs :: "(nat \<times> bool) list"

record probe_cable =
  pc_cableId :: string
  pc_inputModuleId :: string
  pc_inputId :: nat

record probe_snapshot =
  pn_modules :: "probe_module list"
  pn_cables :: "probe_cable list"

record models_page =
  mp_models :: "installed_model list"
  mp_totalModels :: "nat option"
  mp_nextCursor :: "string option"

record 'w tool_deps =
  td_fuel :: nat
  td_conn :: "'w conn_deps"
  td_txn :: "'w server txn_deps"
  td_pf :: "'w hub pf_deps"
  td_mac :: "string \<Rightarrow> string"
  td_randomUUID :: "'w server \<Rightarrow> string \<times> 'w server"
  td_serverVersion :: string
  td_asSnapshot :: "json \<Rightarrow> snapshot"
  td_asProbeSnapshot :: "json \<Rightarrow> probe_snapshot"
  td_asModelsPage :: "json \<Rightarrow> models_page"
  td_readdir :: "fs \<Rightarrow> string \<Rightarrow> (string \<times> (bool \<times> nat \<times> int) option) list option"

section \<open>Lifting\<close>

text \<open>The programs of one manager run on its part of the state.  The rest is kept: during a call of
  the connection manager the transaction manager, the file system and the attachments stay as
  they are, and a transaction handler resumes with the transaction manager it left.\<close>

definition on_conn :: "('w, 'a) cm \<Rightarrow> ('w, 'a) tool" where
  "on_conn m = (\<lambda>s. let (r, c) = m (hb_conn (sh_world s))
     in (r, s\<lparr>sh_world := (sh_world s)\<lparr>hb_conn := c\<rparr>\<rparr>))"

definition on_txn :: "(exn, 'w server txn_world, 'a) prog \<Rightarrow> ('w, 'a) tool" where
  "on_txn m = (\<lambda>s. let (r, t) = m \<lparr>tw_tm = sh_txm s, tw_world = s, tw_sent = []\<rparr>
     in (map_sum Some id r, (tw_world t)\<lparr>sh_txm := tw_tm t\<rparr>))"

definition on_pf :: "('w hub, 'a) pf \<Rightarrow> ('w, 'a) tool" where
  "on_pf m = (\<lambda>s. let (r, t) = m \<lparr>pf_shared = s, pf_log = []\<rparr> in (map_sum Some id r, pf_shared t))"

definition the_conn :: "'w server \<Rightarrow> 'w conn" where
  "the_conn s = hb_conn (sh_world s)"

definition request_op :: "'w tool_deps \<Rightarrow> string \<Rightarrow> json \<Rightarrow> string option \<Rightarrow> ('w, json) tool" where
  "request_op d meth payload operationId = on_conn (conn_request (td_fuel d) (td_conn d) meth payload operationId None)"

definition tool_request :: "'w tool_deps \<Rightarrow> string \<Rightarrow> json \<Rightarrow> ('w, json) tool" where
  "tool_request d meth payload = request_op d meth payload None"

definition ensure :: "'w tool_deps \<Rightarrow> ('w, selection) tool" where
  "ensure d = on_conn (ensureConnected (td_fuel d) (td_conn d))"

definition as_instance :: "selection \<Rightarrow> selected_instance" where
  "as_instance sel = \<lparr>si_instanceId = sl_instanceId sel, si_sessionId = sl_sessionId sel\<rparr>"

text \<open>The scope the tools attach: its epoch is always 0.\<close>

definition scope_json :: "selection \<Rightarrow> json" where
  "scope_json sel = JObj [(''instanceId'', JStr (sl_instanceId sel)), (''sessionId'', JStr (sl_sessionId sel)),
     (''patchEpoch'', JNum 0)]"

section \<open>JSON\<close>

definition jnat :: "nat \<Rightarrow> json" where
  "jnat n = JNum (of_nat n)"

definition jopt :: "('a \<Rightarrow> json) \<Rightarrow> 'a option \<Rightarrow> json" where
  "jopt f x = (case x of None \<Rightarrow> JNull | Some a \<Rightarrow> f a)"

definition jstrs :: "string list \<Rightarrow> json" where
  "jstrs xs = JArr (map JStr xs)"

definition unit_text :: "code_unit list \<Rightarrow> string" where
  "unit_text us = map (\<lambda>b. char_of (unat b)) (utf8_encode us)"

text \<open>Reading a member of undefined or null throws.\<close>

definition nothing_to_read :: "string \<Rightarrow> string \<Rightarrow> exn" where
  "nothing_to_read what k = PlainErr (''Cannot read properties of '' @ what @ '' (reading '' @ [CHR 0x27] @ k @ [CHR 0x27] @ '')'')"

text \<open>Spreading an object into another.\<close>

definition spread :: "json \<Rightarrow> (string \<times> json) list \<Rightarrow> json" where
  "spread j ms = JObj (foldl (\<lambda>o' (k, v). map_set k v o') (case j of JObj xs \<Rightarrow> xs | _ \<Rightarrow> []) ms)"

section \<open>Projections\<close>

definition mapStatus :: "json \<Rightarrow> json" where
  "mapStatus s = JObj (
     opt_member ''instanceId'' (member s ''instanceId'') @ opt_member ''sessionId'' (member s ''sessionId'') @
     opt_member ''patchEpoch'' (member s ''patchEpoch'') @ opt_member ''rackVersion'' (member s ''rackVersion'') @
     opt_member ''rackEdition'' (member s ''rackEdition'') @ opt_member ''bridgeVersion'' (member s ''bridgeVersion'') @
     opt_member ''bridgeProtocolVersion'' (member s ''bridgeProtocolVersion'') @ opt_member ''mode'' (member s ''mode'') @
     opt_member ''sampleRate'' (member s ''sampleRate'') @
     [(''patchName'', case member s ''patchName'' of None \<Rightarrow> JNull | Some j \<Rightarrow> j)] @
     opt_member ''saved'' (member s ''saved'') @ opt_member ''bridgeModulePresent'' (member s ''bridgeModulePresent'') @
     opt_member ''commandPumpPresent'' (member s ''commandPumpPresent'') @
     opt_member ''writerLease'' (member s ''writerLease''))"

definition instance_summary :: "string option \<Rightarrow> discovered \<Rightarrow> json" where
  "instance_summary selectedId i = (let m = di_manifest i in JObj [
     (''instanceId'', JStr (im_instanceId m)), (''pid'', jnat (im_pid m)), (''rackVersion'', JStr (im_rackVersion m)),
     (''rackEdition'', JStr (im_rackEdition m)), (''bridgeVersion'', JStr (im_bridgeVersion m)), (''port'', jnat (im_port m)),
     (''startTime'', JStr (im_startTime m)), (''lastHeartbeat'', JStr (im_lastHeartbeat m)), (''mode'', JStr (im_mode m)),
     (''patchName'', jopt JStr (im_patchName m)), (''commandPumpPresent'', JBool (im_commandPumpPresent m)),
     (''bridgeModulePresent'', JBool (im_bridgeModulePresent m)), (''stale'', JBool (di_stale i)),
     (''selected'', JBool (Some (im_instanceId m) = selectedId))])"

definition listInstanceSummaries :: "'w conn_deps \<Rightarrow> 'w conn \<Rightarrow> json" where
  "listInstanceSummaries d s =
     JArr (map (instance_summary (map_option sl_instanceId (cn_selected s))) (listInstances d s))"

section \<open>Results of the transaction manager\<close>

definition preview_json :: "preview_reply \<Rightarrow> json" where
  "preview_json r = JObj [(''plan'', pv_plan r), (''planHash'', JStr (pv_planHash r)),
     (''baseFingerprint'', JStr (pv_baseFingerprint r)), (''patchEpoch'', jint (pv_patchEpoch r)), (''diff'', pv_diff r),
     (''risk'', JObj [(''level'', JStr (pv_riskLevel r)), (''flags'', jstrs (pv_riskFlags r)),
       (''reasons'', jstrs (pv_riskReasons r)), (''confirmationRequired'', JBool (pv_confirmationRequired r))]),
     (''undoable'', JBool (pv_undoable r)), (''warnings'', jstrs (pv_warnings r))]"

definition confirmation_json :: "confirmation \<Rightarrow> json" where
  "confirmation_json c = JObj [(''confirmationToken'', JStr (cf_confirmationToken c)),
     (''confirmationExpiresAt'', JStr (toISOString (cf_confirmationExpiresAt c))),
     (''confirmationRequired'', JBool (cf_confirmationRequired c))]"

definition previewed_json :: "preview_reply \<times> confirmation \<Rightarrow> json" where
  "previewed_json p = JObj [(''preview'', preview_json (fst p)), (''confirmation'', confirmation_json (snd p))]"

text \<open>The result of \<open>previewAndMaybeCommit\<close>: the phase tells whether there is a commit.\<close>

definition build_members :: "build_result \<Rightarrow> (string \<times> json) list" where
  "build_members b = [(''phase'', JStr (if br_commit b = None then ''previewed'' else ''committed'')),
     (''preview'', preview_json (br_preview b)), (''confirmation'', confirmation_json (br_confirmation b))] @
     opt_member ''commit'' (br_commit b)"

end
