(* ===== verification/Telemetry.thy ===== *)
theory Telemetry
  imports ToolContext
begin

text \<open>
  The telemetry tools (\<open>apps/mcp-server/src/telemetry.ts\<close>) and the chat tools
  (\<open>apps/mcp-server/src/chat.ts\<close>): choosing a probe input, attaching it through the preview
  and commit of the transaction manager, detaching, reading.
\<close>

section \<open>Reading\<close>

definition PROBE_INPUTS :: nat where
  "PROBE_INPUTS = 8"

definition probe_snapshot_of :: "'w tool_deps \<Rightarrow> ('w, probe_snapshot) tool" where
  "probe_snapshot_of d = bind (tool_request d ''patch.snapshot'' (JObj [(''includeOpaqueState'', JBool False)]))
     (\<lambda>j. ret (td_asProbeSnapshot d j))"

definition slot_connected :: "json \<Rightarrow> bool" where
  "slot_connected j = (member j ''connected'' = Some (JBool True))"

text \<open>A reply whose \<open>slots\<close> is no list makes the handler throw a \<open>TypeError\<close>.\<close>

definition slots_of :: "json \<Rightarrow> ('w, json list) tool" where
  "slots_of l = (case member l ''slots'' of Some (JArr xs) \<Rightarrow> ret xs
     | None \<Rightarrow> throw (Some (nothing_to_read ''undefined'' ''filter'')) | Some JNull \<Rightarrow> throw (Some (nothing_to_read ''null'' ''filter''))
     | _ \<Rightarrow> throw (Some (PlainErr ''list.slots.filter is not a function'')))"

definition listProbes :: "'w tool_deps \<Rightarrow> ('w, json) tool" where
  "listProbes d = bind (tool_request d ''probe.list'' (JObj [])) (\<lambda>l.
     bind (slots_of l) (\<lambda>slots.
     ret (JObj [(''slots'', JArr slots), (''attachedCount'', jnat (length (filter slot_connected slots))),
       (''maxActiveProbes'', jnat (maxActiveProbes LIMITS))])))"

definition readProbe :: "'w tool_deps \<Rightarrow> string \<Rightarrow> nat \<Rightarrow> ('w, json) tool" where
  "readProbe d probeModuleId probeInputId = bind (ensure d) (\<lambda>sel.
     tool_request d ''probe.read'' (JObj [(''scope'', scope_json sel), (''probeModuleId'', JStr probeModuleId),
       (''probeInputId'', jnat probeInputId)]))"

section \<open>Attaching\<close>

definition free_input :: "probe_module \<Rightarrow> nat option" where
  "free_input m = find (\<lambda>i. map_of (pm_inputs m) i = Some False) [0..<PROBE_INPUTS]"

fun first_free :: "probe_module list \<Rightarrow> (string \<times> nat) option" where
  "first_free [] = None"
| "first_free (m # ms) = (case free_input m of Some i \<Rightarrow> Some (pm_moduleId m, i) | None \<Rightarrow> first_free ms)"

definition chooseSlot :: "probe_snapshot \<Rightarrow> (string \<times> nat) option \<Rightarrow> attach_meta" where
  "chooseSlot snap explicit = (case explicit of
     Some (m, i) \<Rightarrow> \<lparr>at_probeModuleId = Some m, at_probeAlias = None, at_probeInputId = i, at_addsProbeModule = False\<rparr>
   | None \<Rightarrow> (case first_free (filter pm_isProbe (pn_modules snap)) of
       Some (m, i) \<Rightarrow> \<lparr>at_probeModuleId = Some m, at_probeAlias = None, at_probeInputId = i, at_addsProbeModule = False\<rparr>
     | None \<Rightarrow> \<lparr>at_probeModuleId = None, at_probeAlias = Some ''rackmcp_probe'', at_probeInputId = 0, at_addsProbeModule = True\<rparr>))"

text \<open>The plan: the probe module when one is added, and the cable.\<close>

definition probe_ref :: "attach_meta \<Rightarrow> module_ref" where
  "probe_ref slot = (if at_addsProbeModule slot then Alias (the (at_probeAlias slot)) else ModuleId (the (at_probeModuleId slot)))"

text \<open>The module id of the source; an alias has none (undefined, written as the empty id, which the
  schema of the operation refuses as well).  The port type of the source is not read.\<close>

definition source_id :: "port_ref \<Rightarrow> string" where
  "source_id source = (case pr_module source of ModuleId m \<Rightarrow> m | Alias a \<Rightarrow> [])"

definition attach_operations :: "port_ref \<Rightarrow> attach_meta \<Rightarrow> patch_operation list" where
  "attach_operations source slot =
     (if at_addsProbeModule slot
      then [AddModule \<lparr>am_pluginSlug = ''RackMCP'', am_modelSlug = ''Probe'', am_alias = the (at_probeAlias slot),
        am_placement = PlaceAuto, am_position = None, am_initialParams = None, am_bypassed = None\<rparr>] else []) @
     [Connect \<lparr>cn_output = \<lparr>pr_module = ModuleId (source_id source), pr_portType = OutputPort, pr_portId = pr_portId source\<rparr>,
        cn_input = \<lparr>pr_module = probe_ref slot, pr_portType = InputPort, pr_portId = at_probeInputId slot\<rparr>,
        cn_color = Some ''#2a7fc8'', cn_inputPolicy = ReplaceAll\<rparr>]"

definition probes_active :: "probe_snapshot \<Rightarrow> nat" where
  "probes_active snap = length (filter pm_isProbe (pn_modules snap))"

definition probe_limit :: exn where
  "probe_limit = tool_error TELEMETRY_UNAVAILABLE (''probe limit ('' @ nat_str (maxActiveProbes LIMITS) @ '') reached'')"

definition set_meta :: "string \<Rightarrow> attach_meta \<Rightarrow> ('w, unit) tool" where
  "set_meta h slot = modify (\<lambda>s. s\<lparr>sh_world := (sh_world s)\<lparr>hb_attach := map_set h slot (hb_attach (sh_world s))\<rparr>\<rparr>)"

definition delete_meta :: "string \<Rightarrow> ('w, unit) tool" where
  "delete_meta h = modify (\<lambda>s. s\<lparr>sh_world := (sh_world s)\<lparr>hb_attach := map_delete h (hb_attach (sh_world s))\<rparr>\<rparr>)"

definition slot_json :: "attach_meta \<Rightarrow> json" where
  "slot_json slot = JObj [(''probeModuleId'', jopt JStr (at_probeModuleId slot)), (''probeInputId'', jnat (at_probeInputId slot)),
     (''addsProbeModule'', JBool (at_addsProbeModule slot))]"

definition previewAttachProbe :: "'w tool_deps \<Rightarrow> port_ref \<Rightarrow> (string \<times> nat) option \<Rightarrow> int option \<Rightarrow> ('w, json) tool" where
  "previewAttachProbe d source explicit expectedPatchEpoch =
     bind (ensure d) (\<lambda>sel.
     bind (probe_snapshot_of d) (\<lambda>snap.
     let slot = chooseSlot snap explicit in
     andthen (guard (\<not> (at_addsProbeModule slot \<and> probes_active snap \<ge> maxActiveProbes LIMITS)) (Some probe_limit)) (
     bind (on_txn (preview (td_txn d) (td_mac d) ''Attach probe'' (attach_operations source slot)
       (as_instance sel) \<lparr>ex_fingerprint = None, ex_patchEpoch = expectedPatchEpoch\<rparr>)) (\<lambda>p.
     andthen (set_meta (pv_planHash (fst p)) slot) (
     ret (spread (previewed_json p) [(''slot'', slot_json slot)]))))))"

definition commit_args_of :: "selection \<Rightarrow> string \<Rightarrow> string \<Rightarrow> string \<Rightarrow> string option \<Rightarrow> commit_args" where
  "commit_args_of sel operationId planHash expectedFingerprint confirmationToken =
     \<lparr>ca_operationId = operationId, ca_planHash = planHash, ca_expectedFingerprint = expectedFingerprint,
      ca_confirmationToken = confirmationToken, ca_instance = as_instance sel\<rparr>"

definition alias_module :: "json \<Rightarrow> string \<Rightarrow> ('w, string option) tool" where
  "alias_module c alias = (case member c ''aliasToModuleId'' of
     None \<Rightarrow> throw (Some (nothing_to_read ''undefined'' alias)) | Some JNull \<Rightarrow> throw (Some (nothing_to_read ''null'' alias))
   | Some a \<Rightarrow> ret (member_str alias a))"

text \<open>The module of the attached probe; an empty id is falsy.\<close>

definition attached_module :: "attach_meta option \<Rightarrow> json \<Rightarrow> ('w, string option) tool" where
  "attached_module meta c =
     (case meta of None \<Rightarrow> ret None
      | Some slot \<Rightarrow> (case (if at_probeModuleId slot = Some [] then None else at_probeModuleId slot) of
          Some m \<Rightarrow> ret (Some m)
        | None \<Rightarrow> (case at_probeAlias slot of Some a \<Rightarrow> if a = [] then ret None else alias_module c a | None \<Rightarrow> ret None)))"

definition cable_into :: "probe_snapshot \<Rightarrow> string \<Rightarrow> nat \<Rightarrow> string" where
  "cable_into snap m i = (case find (\<lambda>c. pc_inputModuleId c = m \<and> pc_inputId c = i) (pn_cables snap) of
     Some c \<Rightarrow> pc_cableId c | None \<Rightarrow> [])"

definition commitAttachProbe :: "'w tool_deps \<Rightarrow> string \<Rightarrow> string \<Rightarrow> string \<Rightarrow> string option \<Rightarrow> ('w, json) tool" where
  "commitAttachProbe d operationId planHash expectedFingerprint confirmationToken =
     bind (ensure d) (\<lambda>sel.
     bind (gets (\<lambda>s. map_get (hb_attach (sh_world s)) planHash)) (\<lambda>meta.
     bind (on_txn (commit (td_txn d) (td_mac d) (commit_args_of sel operationId planHash expectedFingerprint confirmationToken)))
       (\<lambda>c.
     bind (attached_module meta c) (\<lambda>m.
     let i = (case meta of None \<Rightarrow> 0 | Some slot \<Rightarrow> at_probeInputId slot) in
     andthen (delete_meta planHash) (
     bind (if m = None \<or> m = Some [] then ret [] else bind (probe_snapshot_of d) (\<lambda>snap. ret (cable_into snap (the m) i)))
       (\<lambda>cable.
     ret (JObj [(''commit'', c), (''probeModuleId'', JStr (case m of None \<Rightarrow> [] | Some x \<Rightarrow> x)),
       (''probeInputId'', jnat i), (''cableId'', JStr cable)])))))))"

section \<open>Detaching\<close>

definition detach_operations :: "string \<Rightarrow> nat \<Rightarrow> patch_operation list" where
  "detach_operations m i = [DisconnectPort \<lparr>dp_port = \<lparr>pr_module = ModuleId m, pr_portType = InputPort, pr_portId = i\<rparr>,
     dp_policy = DisconnectAll\<rparr>]"

definition cables_at :: "probe_snapshot \<Rightarrow> string \<Rightarrow> nat \<Rightarrow> string list" where
  "cables_at snap m i = map pc_cableId (filter (\<lambda>c. pc_inputModuleId c = m \<and> pc_inputId c = i) (pn_cables snap))"

definition detachProbe :: "'w tool_deps \<Rightarrow> string \<Rightarrow> nat \<Rightarrow> string \<Rightarrow> int option \<Rightarrow> ('w, json) tool" where
  "detachProbe d probeModuleId probeInputId operationId expectedPatchEpoch =
     bind (ensure d) (\<lambda>sel.
     bind (probe_snapshot_of d) (\<lambda>before.
     bind (on_txn (preview (td_txn d) (td_mac d) ''Detach probe'' (detach_operations probeModuleId probeInputId)
       (as_instance sel) \<lparr>ex_fingerprint = None, ex_patchEpoch = expectedPatchEpoch\<rparr>)) (\<lambda>(r, cf).
     bind (on_txn (commit (td_txn d) (td_mac d) (commit_args_of sel operationId (pv_planHash r) (pv_baseFingerprint r)
       (Some (cf_confirmationToken cf))))) (\<lambda>c.
     ret (JObj ([(''detached'', JBool True), (''removedCableIds'', jstrs (cables_at before probeModuleId probeInputId))] @
       opt_member ''newFingerprint'' (member c ''newFingerprint'') @ opt_member ''replayed'' (member c ''replayed'')))))))"

section \<open>Chat\<close>

definition readUserNotes :: "'w tool_deps \<Rightarrow> nat option \<Rightarrow> ('w, json) tool" where
  "readUserNotes d sinceSeq = andthen (ensure d) (
     bind (tool_request d ''chat.poll'' (JObj [(''sinceSeq'', jnat (case sinceSeq of None \<Rightarrow> 0 | Some n \<Rightarrow> n))])) (\<lambda>r.
     andthen (modify (\<lambda>s. s\<lparr>sh_world := (sh_world s)\<lparr>hb_conn := clearPendingUserNotes (the_conn s)\<rparr>\<rparr>)) (
     ret r)))"

definition postChatMessage :: "'w tool_deps \<Rightarrow> string \<Rightarrow> nat option \<Rightarrow> ('w, json) tool" where
  "postChatMessage d txt ackThroughSeq = andthen (ensure d) (
     tool_request d ''chat.post'' (JObj [(''text'', JStr txt),
       (''ackThroughSeq'', jnat (case ackThroughSeq of None \<Rightarrow> 0 | Some n \<Rightarrow> n))]))"

section \<open>Choosing a probe input\<close>

lemma free_input_Some: "free_input m = Some i \<Longrightarrow> i < PROBE_INPUTS \<and> map_of (pm_inputs m) i = Some False"
  by (auto simp: free_input_def find_Some_iff)

lemma free_input_None: "free_input m = None \<longleftrightarrow> list_all (\<lambda>i. map_of (pm_inputs m) i \<noteq> Some False) [0..<PROBE_INPUTS]"
  by (auto simp: free_input_def find_None_iff list_all_iff)

lemma first_free_Some:
  "first_free ms = Some (mid, i) \<Longrightarrow> \<exists>m \<in> set ms. pm_moduleId m = mid \<and> free_input m = Some i"
  by (induction ms) (auto split: option.splits)

lemma first_free_None: "first_free ms = None \<longleftrightarrow> list_all (\<lambda>m. free_input m = None) ms"
  by (induction ms) (auto split: option.splits)

definition free_slot :: "probe_snapshot \<Rightarrow> string \<Rightarrow> nat \<Rightarrow> bool" where
  "free_slot snap m i = list_ex (\<lambda>p. pm_isProbe p \<and> pm_moduleId p = m \<and> i < PROBE_INPUTS \<and>
     map_of (pm_inputs p) i = Some False) (pn_modules snap)"

lemma chosen:
  "case chooseSlot snap None of slot \<Rightarrow>
     if at_addsProbeModule slot then (\<forall>m i. \<not> free_slot snap m i) \<and> slot = \<lparr>at_probeModuleId = None, at_probeAlias = Some ''rackmcp_probe'',
        at_probeInputId = 0, at_addsProbeModule = True\<rparr>
     else \<exists>m. at_probeModuleId slot = Some m \<and> free_slot snap m (at_probeInputId slot)"
proof (cases "first_free (filter pm_isProbe (pn_modules snap))")
  case None
  then have "\<not> free_slot snap m i" for m i
    by (auto simp: first_free_None free_input_None free_slot_def list_ex_iff list_all_iff)
  with None show ?thesis by (simp add: chooseSlot_def)
next
  case (Some s)
  obtain m i where s: "s = (m, i)" by fastforce
  obtain p where "p \<in> set (filter pm_isProbe (pn_modules snap))" "pm_moduleId p = m" "free_input p = Some i"
    using first_free_Some Some s by blast
  then have "free_slot snap m i" using free_input_Some by (auto simp: free_slot_def list_ex_iff)
  with Some s show ?thesis by (simp add: chooseSlot_def)
qed

text \<open>C35: without an explicit slot, attaching a probe displaces no cable: the plan leads to an input
  of an existing probe that the snapshot reports unconnected, although its input policy
  replaces; it adds a probe module only if no probe has such an input, and then connects to
  the added one.  The plan satisfies the operation schema exactly when the source names a
  module by a decimal id (and the chosen module has one).  The port type of the source is
  not read at all: an input port is taken for the output of the same number.\<close>

theorem attach_targets_free_slot:
  "let slot = chooseSlot snap None; ops = attach_operations source slot;
       cable = (\<lambda>r. Connect \<lparr>cn_output = \<lparr>pr_module = ModuleId (source_id source), pr_portType = OutputPort, pr_portId = pr_portId source\<rparr>,
         cn_input = \<lparr>pr_module = r, pr_portType = InputPort, pr_portId = at_probeInputId slot\<rparr>,
         cn_color = Some ''#2a7fc8'', cn_inputPolicy = ReplaceAll\<rparr>) in
    (case at_probeModuleId slot of
       Some m \<Rightarrow> free_slot snap m (at_probeInputId slot) \<and> ops = [cable (ModuleId m)] \<and>
         (list_all PatchOperation_ok ops \<longleftrightarrow> DecimalId_ok (source_id source) \<and> SmallIndex_ok (pr_portId source) \<and> DecimalId_ok m)
     | None \<Rightarrow> (\<forall>m i. \<not> free_slot snap m i) \<and> (\<exists>a. ops = [AddModule a, cable (Alias (am_alias a))] \<and>
           am_pluginSlug a = ''RackMCP'' \<and> am_modelSlug a = ''Probe'' \<and> at_probeInputId slot = 0) \<and>
         (list_all PatchOperation_ok ops \<longleftrightarrow> DecimalId_ok (source_id source) \<and> SmallIndex_ok (pr_portId source))) \<and>
    attach_operations (source\<lparr>pr_portType := t\<rparr>) slot = ops"
proof -
  have i: "SmallIndex_ok i" if "i < PROBE_INPUTS" for i using that by (simp add: SmallIndex_ok_def PROBE_INPUTS_def)
  have c: "CableColor_ok ''#2a7fc8''" by (simp add: CableColor_ok_def hex_digit_def digit_def)
  show ?thesis
  proof (cases "at_addsProbeModule (chooseSlot snap None)")
    case True
    then show ?thesis using chosen [of snap] i [of 0] c
      by (simp add: attach_operations_def probe_ref_def source_id_def Let_def PROBE_INPUTS_def PortRef_ok_def Slug_ok_def
          alias_ok_def position_ok_def)
  next
    case False
    then obtain m where m: "at_probeModuleId (chooseSlot snap None) = Some m" "free_slot snap m (at_probeInputId (chooseSlot snap None))"
      using chosen [of snap] by auto
    then have "SmallIndex_ok (at_probeInputId (chooseSlot snap None))"
      using i by (auto simp: free_slot_def list_ex_iff)
    then show ?thesis using m False c
      by (auto simp: attach_operations_def probe_ref_def source_id_def Let_def PortRef_ok_def)
  qed
qed

end
