(* ===== verification/Encoding.thy ===== *)
theory Encoding
  imports ToolSchemas
begin

text \<open>
  The typed models written as the JSON they have on the wire, and that the schemas accept
  exactly the values the typed models call valid: patch operations, adapter documents,
  recipes and error payloads.
\<close>

section \<open>Patch operations\<close>

definition nat_json :: "nat \<Rightarrow> json" where
  "nat_json n = JNum (of_nat n)"

definition int_json :: "int \<Rightarrow> json" where
  "int_json i = JNum (of_int i)"

definition opt_json :: "string \<Rightarrow> ('a \<Rightarrow> json) \<Rightarrow> 'a option \<Rightarrow> (string \<times> json) list" where
  "opt_json k f x = (case x of None \<Rightarrow> [] | Some a \<Rightarrow> [(k, f a)])"

fun module_ref_json :: "module_ref \<Rightarrow> json" where
  "module_ref_json (ModuleId i) = JObj [(''moduleId'', JStr i)]"
| "module_ref_json (Alias a) = JObj [(''alias'', JStr a)]"

definition port_type_str :: "port_type \<Rightarrow> string" where
  "port_type_str t = (case t of InputPort \<Rightarrow> ''input'' | OutputPort \<Rightarrow> ''output'')"

definition port_ref_json :: "port_ref \<Rightarrow> json" where
  "port_ref_json p = JObj [(''module'', module_ref_json (pr_module p)), (''portType'', JStr (port_type_str (pr_portType p))),
     (''portId'', nat_json (pr_portId p))]"

definition position_json :: "grid_position \<Rightarrow> json" where
  "position_json g = JObj [(''x'', int_json (gp_x g)), (''y'', int_json (gp_y g))]"

definition target_json :: "param_target \<Rightarrow> (string \<times> json) list" where
  "target_json t = opt_json ''value'' JNum (tg_value t) @ opt_json ''normalized'' JNum (tg_normalized t) @
     opt_json ''display'' JStr (tg_display t)"

definition initial_param_json :: "initial_param \<Rightarrow> json" where
  "initial_param_json p = JObj ((''paramId'', nat_json (ip_paramId p)) # target_json (ip_target p))"

definition placement_str :: "placement \<Rightarrow> string" where
  "placement_str p = (case p of PlaceAuto \<Rightarrow> ''auto'' | PlaceAt \<Rightarrow> ''at'')"

definition removal_str :: "cable_removal \<Rightarrow> string" where
  "removal_str p = (case p of RemoveAttached \<Rightarrow> ''remove_attached'' | FailIfAttached \<Rightarrow> ''fail_if_connected'')"

definition collision_str :: "collision \<Rightarrow> string" where
  "collision_str p = (case p of CollisionFail \<Rightarrow> ''fail'' | CollisionNearest \<Rightarrow> ''nearest'' | CollisionForce \<Rightarrow> ''force''
     | CollisionSqueeze \<Rightarrow> ''squeeze'')"

definition input_policy_str :: "input_policy \<Rightarrow> string" where
  "input_policy_str p = (case p of FailIfConnected \<Rightarrow> ''fail_if_connected'' | Stack \<Rightarrow> ''stack'' | ReplaceAll \<Rightarrow> ''replace_all'')"

definition disconnect_policy_str :: "disconnect_policy \<Rightarrow> string" where
  "disconnect_policy_str p = (case p of DisconnectTop \<Rightarrow> ''top'' | DisconnectAll \<Rightarrow> ''all'')"

fun op_members :: "patch_operation \<Rightarrow> (string \<times> json) list" where
  "op_members (AddModule a) = [(''pluginSlug'', JStr (am_pluginSlug a)), (''modelSlug'', JStr (am_modelSlug a)),
     (''alias'', JStr (am_alias a)), (''placement'', JStr (placement_str (am_placement a)))] @
     opt_json ''position'' position_json (am_position a) @
     opt_json ''initialParams'' (\<lambda>ps. JArr (map initial_param_json ps)) (am_initialParams a) @
     opt_json ''bypassed'' JBool (am_bypassed a)"
| "op_members (RemoveModule a) = [(''module'', module_ref_json (rm_module a)),
     (''cablePolicy'', JStr (removal_str (rm_cablePolicy a))), (''allowLastBridge'', JBool (rm_allowLastBridge a))]"
| "op_members (MoveModule a) = [(''module'', module_ref_json (mv_module a)), (''position'', position_json (mv_position a)),
     (''collision'', JStr (collision_str (mv_collision a)))]"
| "op_members (DuplicateModule a) = [(''module'', module_ref_json (dm_module a)), (''alias'', JStr (dm_alias a)),
     (''copyCables'', JBool (dm_copyCables a)), (''placement'', JStr (placement_str (dm_placement a)))] @
     opt_json ''position'' position_json (dm_position a)"
| "op_members (SetParameter a) = [(''module'', module_ref_json (sp_module a)), (''paramId'', nat_json (sp_paramId a))] @
     target_json (sp_target a) @ opt_json ''smoothMs'' JNum (sp_smoothMs a)"
| "op_members (SetBypass a) = [(''module'', module_ref_json (sb_module a)), (''bypassed'', JBool (sb_bypassed a))]"
| "op_members (Connect a) = [(''output'', port_ref_json (cn_output a)), (''input'', port_ref_json (cn_input a))] @
     opt_json ''color'' JStr (cn_color a) @ [(''inputPolicy'', JStr (input_policy_str (cn_inputPolicy a)))]"
| "op_members (Disconnect c) = [(''cable'', JObj [(''cableId'', JStr c)])]"
| "op_members (DisconnectPort a) = [(''port'', port_ref_json (dp_port a)), (''policy'', JStr (disconnect_policy_str (dp_policy a)))]"
| "op_members (ResetModule m) = [(''module'', module_ref_json m)]"
| "op_members (RandomizeModule m) = [(''module'', module_ref_json m)]"

definition op_json :: "patch_operation \<Rightarrow> json" where
  "op_json p = JObj ((''op'', JStr (op_name p)) # op_members p)"

section \<open>Documents\<close>

definition signal_role_str :: "signal_role \<Rightarrow> string" where
  "signal_role_str r = (case r of Audio \<Rightarrow> ''audio'' | CvUnipolar \<Rightarrow> ''cv_unipolar'' | CvBipolar \<Rightarrow> ''cv_bipolar''
     | PitchVoct \<Rightarrow> ''pitch_voct'' | Gate \<Rightarrow> ''gate'' | Trigger \<Rightarrow> ''trigger'' | Clock \<Rightarrow> ''clock'' | UnknownRole \<Rightarrow> ''unknown'')"

definition polyphony_str :: "polyphony \<Rightarrow> string" where
  "polyphony_str p = (case p of Monophonic \<Rightarrow> ''monophonic'' | Polyphonic \<Rightarrow> ''polyphonic''
     | PolyFromInput \<Rightarrow> ''poly_from_input'' | UnknownPolyphony \<Rightarrow> ''unknown'')"

definition param_semantics_json :: "param_semantics \<Rightarrow> json" where
  "param_semantics_json p = JObj ([(''paramId'', nat_json (ps_paramId p)), (''role'', JStr (ps_role p))] @
     opt_json ''description'' JStr (ps_description p) @ opt_json ''safeInitial'' JNum (ps_safeInitial p) @
     opt_json ''safeRange'' (\<lambda>(a, b). JArr [JNum a, JNum b]) (ps_safeRange p))"

definition port_semantics_json :: "port_semantics \<Rightarrow> json" where
  "port_semantics_json p = JObj ([(''portId'', nat_json (pt_portId p)), (''role'', JStr (signal_role_str (pt_role p))),
     (''key'', JStr (pt_key p))] @ opt_json ''description'' JStr (pt_description p) @
     [(''polyphony'', JStr (polyphony_str (pt_polyphony p)))])"

definition connection_recipe_json :: "connection_recipe \<Rightarrow> json" where
  "connection_recipe_json c = JObj [(''name'', JStr (cr_name c)), (''description'', JStr (cr_description c)),
     (''fromOutputKey'', JStr (cr_fromOutputKey c)), (''toRole'', JStr (signal_role_str (cr_toRole c)))]"

definition strs_json :: "string list \<Rightarrow> json" where
  "strs_json xs = JArr (map JStr xs)"

definition adapter_json :: "module_adapter \<Rightarrow> json" where
  "adapter_json a = JObj [(''adapterVersion'', nat_json (ad_adapterVersion a)), (''pluginSlug'', JStr (ad_pluginSlug a)),
     (''modelSlug'', JStr (ad_modelSlug a)), (''pluginVersionRange'', JStr (ad_pluginVersionRange a)),
     (''displayName'', JStr (ad_displayName a)), (''summary'', JStr (ad_summary a)),
     (''params'', JArr (map param_semantics_json (ad_params a))), (''inputs'', JArr (map port_semantics_json (ad_inputs a))),
     (''outputs'', JArr (map port_semantics_json (ad_outputs a))), (''polyphony'', JStr (polyphony_str (ad_polyphony a))),
     (''connectionRecipes'', JArr (map connection_recipe_json (ad_connectionRecipes a))),
     (''provenance'', strs_json (ad_provenance a))]"

definition model_json :: "installed_model \<Rightarrow> json" where
  "model_json m = JObj [(''pluginSlug'', JStr (im_pluginSlug m)), (''modelSlug'', JStr (im_modelSlug m))]"

definition role_json :: "role_requirement \<Rightarrow> json" where
  "role_json r = JObj [(''role'', JStr (rr_role r)), (''description'', JStr (rr_description r)),
     (''preferred'', model_json (rr_preferred r)), (''signalRoles'', strs_json (map signal_role_str (rr_signalRoles r)))]"

definition recipe_json :: "recipe \<Rightarrow> json" where
  "recipe_json r = JObj [(''recipeVersion'', nat_json (rc_recipeVersion r)), (''id'', JStr (rc_id r)), (''name'', JStr (rc_name r)),
     (''description'', JStr (rc_description r)), (''roles'', JArr (map role_json (rc_roles r))),
     (''operations'', JArr (map op_json (rc_operations r))), (''notes'', strs_json (rc_notes r))]"

definition unresolved_json :: "unresolved_role \<Rightarrow> json" where
  "unresolved_json u = JObj [(''role'', JStr (ur_role u)), (''description'', JStr (ur_description u)),
     (''preferred'', model_json (ur_preferred u))]"

definition resolution_json :: "recipe_resolution \<Rightarrow> json" where
  "resolution_json r = JObj [(''recipeId'', JStr (rr_recipeId r)), (''resolved'', JBool (rr_resolved r)),
     (''unresolvedRoles'', JArr (map unresolved_json (rr_unresolvedRoles r))),
     (''assignments'', JObj (map (\<lambda>(k, m). (k, model_json m)) (rr_assignments r)))]"

section \<open>Errors\<close>

definition rollback_json :: "rollback_report \<Rightarrow> json" where
  "rollback_json r = JObj [(''rolledBack'', JStr (case rb_rolledBack r of Complete \<Rightarrow> ''complete'' | Indeterminate \<Rightarrow> ''indeterminate'')),
     (''failedOperationIndex'', nat_json (rb_failedOperationIndex r)), (''inversesExecuted'', nat_json (rb_inversesExecuted r)),
     (''detail'', JStr (rb_detail r))]"

definition error_json :: "error_payload \<Rightarrow> json" where
  "error_json p = JObj ([(''code'', JStr (code_str (ep_code p))), (''message'', JStr (ep_message p)),
     (''retrySafe'', JBool (ep_retrySafe p)), (''mutationMayHaveOccurred'', JBool (ep_mutationMayHaveOccurred p))] @
     opt_json ''details'' JObj (ep_details p) @ opt_json ''rollback'' rollback_json (ep_rollback p))"

section \<open>Which encodings the schemas accept\<close>

named_theorems schema_defs \<open>unfolding of schemas and encoders\<close>

lemmas field_defs [schema_defs] = req_def opt_def dflt_def nat_json_def int_json_def map_get_Cons

lemma map_get_opt_json [simp]:
  "map_get (opt_json k f x) k' = (if k' = k then map_option f x else None)"
  "map_get (opt_json k f x @ ms) k' = (if k' = k \<and> x \<noteq> None then map_option f x else map_get ms k')"
  by (auto simp: opt_json_def map_get_Cons split: option.split)

lemma list_all_opt_json [simp]: "list_all P (opt_json k f x) = (case x of None \<Rightarrow> True | Some a \<Rightarrow> P (k, f a))"
  by (auto simp: opt_json_def split: option.split)

lemma object_conforms:
  "conforms fmt (ZObject fs) (JObj ms) \<longleftrightarrow> list_all (\<lambda>m. list_ex (\<lambda>f. fst f = fst m) fs) ms \<and>
     list_all (\<lambda>f. case map_get ms (fst f) of
       Some v \<Rightarrow> conforms fmt (snd (snd f)) v | None \<Rightarrow> fst (snd f) \<noteq> Required) fs"
  by simp

lemma safe_int_of_int [simp]: "safe_int (of_int i) \<longleftrightarrow> \<bar>i\<bar> \<le> 9007199254740991"
  by (simp add: safe_int_def flip: of_int_abs)

lemma safe_int_of_nat [simp]: "safe_int (of_nat n) \<longleftrightarrow> n \<le> 9007199254740991"
  using safe_int_of_int [of "int n"] by simp

lemma small_index [simp]: "conforms fmt SmallIndex (JNum (of_nat n)) = SmallIndex_ok n"
  by (auto simp: SmallIndex_def SmallIndex_ok_def)

lemma module_ref_conforms [simp]: "conforms fmt ModuleRef (module_ref_json m) = ModuleRef_ok m"
  by (cases m) (simp_all add: ModuleRef_def schema_defs DecimalId_def alias_ok_def)

lemma port_type_conforms [simp]: "conforms fmt PortType (JStr (port_type_str t))"
  by (cases t) (simp_all add: PortType_def port_type_str_def)

lemma port_ref_conforms [simp]: "conforms fmt PortRef (port_ref_json p) = PortRef_ok p"
  by (simp add: PortRef_def port_ref_json_def schema_defs PortRef_ok_def)

lemma position_conforms [simp]: "conforms fmt GridPosition (position_json g) = GridPosition_ok g"
  by (auto simp: GridPosition_def position_json_def schema_defs GridPosition_ok_def)

lemma slug_conforms [simp]: "conforms fmt Slug (JStr s) = Slug_ok s"
  by (simp add: Slug_def Slug_ok_def)

lemma initial_param_conforms [simp]: "conforms fmt InitialParamValue (initial_param_json p) = InitialParamValue_ok p"
  by (auto simp: InitialParamValue_def initial_param_json_def target_json_def paramTarget_def schema_defs
      InitialParamValue_ok_def param_target_ok_def exactlyOneTarget_def exactly_one_target_def member_def max_opt_def split: option.split)

text \<open>An alternative of the union is settled by its tag.\<close>

lemma tagged:
  "conforms fmt (ZObject (req ''op'' (ZLiteral (JStr x)) # fs)) (JObj ((''op'', JStr y) # ms)) \<Longrightarrow> y = x"
  "conforms fmt (ZRefine p (ZObject (req ''op'' (ZLiteral (JStr x)) # fs))) (JObj ((''op'', JStr y) # ms)) \<Longrightarrow> y = x"
  by (simp_all add: req_def map_get_Cons)

lemmas op_schemas = AddModuleOp_def RemoveModuleOp_def MoveModuleOp_def DuplicateModuleOp_def SetParameterOp_def
  SetBypassOp_def ConnectOp_def DisconnectOp_def DisconnectPortOp_def ResetModuleOp_def RandomizeModuleOp_def

definition op_schema :: "patch_operation \<Rightarrow> schema" where
  "op_schema p = (case p of AddModule _ \<Rightarrow> AddModuleOp | RemoveModule _ \<Rightarrow> RemoveModuleOp | MoveModule _ \<Rightarrow> MoveModuleOp
     | DuplicateModule _ \<Rightarrow> DuplicateModuleOp | SetParameter _ \<Rightarrow> SetParameterOp | SetBypass _ \<Rightarrow> SetBypassOp
     | Connect _ \<Rightarrow> ConnectOp | Disconnect _ \<Rightarrow> DisconnectOp | DisconnectPort _ \<Rightarrow> DisconnectPortOp
     | ResetModule _ \<Rightarrow> ResetModuleOp | RandomizeModule _ \<Rightarrow> RandomizeModuleOp)"

lemma op_tags:
  "conforms fmt AddModuleOp (JObj ((''op'', JStr y) # ms)) \<Longrightarrow> y = ''add_module''"
  "conforms fmt RemoveModuleOp (JObj ((''op'', JStr y) # ms)) \<Longrightarrow> y = ''remove_module''"
  "conforms fmt MoveModuleOp (JObj ((''op'', JStr y) # ms)) \<Longrightarrow> y = ''move_module''"
  "conforms fmt DuplicateModuleOp (JObj ((''op'', JStr y) # ms)) \<Longrightarrow> y = ''duplicate_module''"
  "conforms fmt SetParameterOp (JObj ((''op'', JStr y) # ms)) \<Longrightarrow> y = ''set_parameter''"
  "conforms fmt SetBypassOp (JObj ((''op'', JStr y) # ms)) \<Longrightarrow> y = ''set_bypass''"
  "conforms fmt ConnectOp (JObj ((''op'', JStr y) # ms)) \<Longrightarrow> y = ''connect''"
  "conforms fmt DisconnectOp (JObj ((''op'', JStr y) # ms)) \<Longrightarrow> y = ''disconnect''"
  "conforms fmt DisconnectPortOp (JObj ((''op'', JStr y) # ms)) \<Longrightarrow> y = ''disconnect_port''"
  "conforms fmt ResetModuleOp (JObj ((''op'', JStr y) # ms)) \<Longrightarrow> y = ''reset_module''"
  "conforms fmt RandomizeModuleOp (JObj ((''op'', JStr y) # ms)) \<Longrightarrow> y = ''randomize_module''"
  unfolding op_schemas append_Cons append_Nil by (erule tagged)+

lemma union_cases:
  "conforms fmt PatchOperation j \<longleftrightarrow> conforms fmt AddModuleOp j \<or> conforms fmt RemoveModuleOp j \<or>
     conforms fmt MoveModuleOp j \<or> conforms fmt DuplicateModuleOp j \<or> conforms fmt SetParameterOp j \<or>
     conforms fmt SetBypassOp j \<or> conforms fmt ConnectOp j \<or> conforms fmt DisconnectOp j \<or>
     conforms fmt DisconnectPortOp j \<or> conforms fmt ResetModuleOp j \<or> conforms fmt RandomizeModuleOp j"
  by (simp only: PatchOperation_def conforms.simps(11) list_ex_Cons_iff list_ex_Nil_iff simp_thms)

lemma op_untagged:
  "y \<noteq> ''add_module'' \<Longrightarrow> \<not> conforms fmt AddModuleOp (JObj ((''op'', JStr y) # ms))"
  "y \<noteq> ''remove_module'' \<Longrightarrow> \<not> conforms fmt RemoveModuleOp (JObj ((''op'', JStr y) # ms))"
  "y \<noteq> ''move_module'' \<Longrightarrow> \<not> conforms fmt MoveModuleOp (JObj ((''op'', JStr y) # ms))"
  "y \<noteq> ''duplicate_module'' \<Longrightarrow> \<not> conforms fmt DuplicateModuleOp (JObj ((''op'', JStr y) # ms))"
  "y \<noteq> ''set_parameter'' \<Longrightarrow> \<not> conforms fmt SetParameterOp (JObj ((''op'', JStr y) # ms))"
  "y \<noteq> ''set_bypass'' \<Longrightarrow> \<not> conforms fmt SetBypassOp (JObj ((''op'', JStr y) # ms))"
  "y \<noteq> ''connect'' \<Longrightarrow> \<not> conforms fmt ConnectOp (JObj ((''op'', JStr y) # ms))"
  "y \<noteq> ''disconnect'' \<Longrightarrow> \<not> conforms fmt DisconnectOp (JObj ((''op'', JStr y) # ms))"
  "y \<noteq> ''disconnect_port'' \<Longrightarrow> \<not> conforms fmt DisconnectPortOp (JObj ((''op'', JStr y) # ms))"
  "y \<noteq> ''reset_module'' \<Longrightarrow> \<not> conforms fmt ResetModuleOp (JObj ((''op'', JStr y) # ms))"
  "y \<noteq> ''randomize_module'' \<Longrightarrow> \<not> conforms fmt RandomizeModuleOp (JObj ((''op'', JStr y) # ms))"
  by (rule notI, drule op_tags, simp)+

lemma union_tagged: "conforms fmt PatchOperation (op_json p) = conforms fmt (op_schema p) (op_json p)"
  unfolding union_cases op_json_def op_schema_def
  by (cases p) (simp_all add: op_untagged del: op_members.simps)

lemma placement_member [simp]:
  "placed (JObj ((''op'', x) # ms)) = placed (JObj ms)"
  by (simp add: placed_def member_def map_get_Cons)

lemma add_module_conforms:
  "conforms fmt AddModuleOp (op_json (AddModule a)) = PatchOperation_ok (AddModule a)"
  by (simp add: AddModuleOp_def op_json_def schema_defs alias_ok_def placement_str_def PlacementPolicy_def position_ok_def
      placed_def member_def within_opt_def list.pred_map o_def split: option.split placement.split)

lemma duplicate_module_conforms:
  "conforms fmt DuplicateModuleOp (op_json (DuplicateModule a)) = PatchOperation_ok (DuplicateModule a)"
  by (simp add: DuplicateModuleOp_def op_json_def schema_defs alias_ok_def placement_str_def PlacementPolicy_def position_ok_def
      placed_def member_def split: option.split placement.split)

lemma set_parameter_conforms:
  "conforms fmt SetParameterOp (op_json (SetParameter a)) = PatchOperation_ok (SetParameter a)"
  by (auto simp: SetParameterOp_def op_json_def target_json_def paramTarget_def schema_defs
      param_target_ok_def exactlyOneTarget_def exactly_one_target_def member_def max_opt_def split: option.split)

lemma connect_conforms: "conforms fmt ConnectOp (op_json (Connect a)) = PatchOperation_ok (Connect a)"
  by (simp add: ConnectOp_def op_json_def schema_defs InputPolicy_def input_policy_str_def CableColor_def
      split: option.split input_policy.split)

lemma small_op_conforms:
  "conforms fmt RemoveModuleOp (op_json (RemoveModule b)) = PatchOperation_ok (RemoveModule b)"
  "conforms fmt MoveModuleOp (op_json (MoveModule c)) = PatchOperation_ok (MoveModule c)"
  "conforms fmt SetBypassOp (op_json (SetBypass e)) = PatchOperation_ok (SetBypass e)"
  "conforms fmt DisconnectOp (op_json (Disconnect i)) = PatchOperation_ok (Disconnect i)"
  "conforms fmt DisconnectPortOp (op_json (DisconnectPort f)) = PatchOperation_ok (DisconnectPort f)"
  "conforms fmt ResetModuleOp (op_json (ResetModule m)) = PatchOperation_ok (ResetModule m)"
  "conforms fmt RandomizeModuleOp (op_json (RandomizeModule m)) = PatchOperation_ok (RandomizeModule m)"
  by (cases "rm_cablePolicy b"; simp add: RemoveModuleOp_def op_json_def schema_defs CableRemovalPolicy_def removal_str_def)
    (cases "mv_collision c"; cases "dp_policy f"; simp add: MoveModuleOp_def SetBypassOp_def DisconnectOp_def DisconnectPortOp_def
      ResetModuleOp_def RandomizeModuleOp_def op_json_def schema_defs CollisionPolicy_def collision_str_def CableRef_def DecimalId_def
      DisconnectPortPolicy_def disconnect_policy_str_def)+

lemma op_schema_exact: "conforms fmt PatchOperation (op_json p) = PatchOperation_ok p"
  unfolding union_tagged
  by (cases p) (simp_all only: op_schema_def patch_operation.case add_module_conforms duplicate_module_conforms
      set_parameter_conforms connect_conforms small_op_conforms)

section \<open>Documents and errors\<close>

lemma all_true [simp]: "list_all (\<lambda>m. True) xs"
  by (simp add: list_all_length)

lemma signal_role_conforms [simp]: "conforms fmt SignalRole (JStr (signal_role_str r))"
  by (cases r) (simp_all add: SignalRole_def signal_role_str_def)

lemma polyphony_conforms [simp]: "conforms fmt PolyphonyBehavior (JStr (polyphony_str p))"
  by (cases p) (simp_all add: PolyphonyBehavior_def polyphony_str_def)

lemma param_semantics_conforms [simp]:
  "conforms fmt AdapterParamSemantics (param_semantics_json p) = param_semantics_ok p"
  by (auto simp: AdapterParamSemantics_def param_semantics_json_def schema_defs param_semantics_ok_def max_opt_def
      split: option.split)

lemma port_semantics_conforms [simp]:
  "conforms fmt AdapterPortSemantics (port_semantics_json p) = port_semantics_ok p"
  by (auto simp: AdapterPortSemantics_def port_semantics_json_def schema_defs port_semantics_ok_def max_opt_def
      split: option.split)

lemma connection_recipe_conforms [simp]:
  "conforms fmt AdapterConnectionRecipe (connection_recipe_json c) = connection_recipe_ok c"
  by (simp add: AdapterConnectionRecipe_def connection_recipe_json_def schema_defs connection_recipe_ok_def)

lemma adapter_schema_exact: "conforms fmt ModuleAdapter (adapter_json a) = module_adapter_ok a"
  by (auto simp: ModuleAdapter_def adapter_json_def schema_defs module_adapter_ok_def within_opt_def strs_json_def list.pred_map o_def)

lemma model_conforms [simp]:
  "conforms fmt (ZObject [req ''pluginSlug'' Slug, req ''modelSlug'' Slug]) (model_json m) \<longleftrightarrow>
     Slug_ok (im_pluginSlug m) \<and> Slug_ok (im_modelSlug m)"
  by (simp add: model_json_def schema_defs)

lemma role_conforms [simp]: "conforms fmt RecipeRoleRequirement (role_json r) = role_requirement_ok r"
proof -
  have "conforms fmt (ZArray None None SignalRole) (strs_json (map signal_role_str xs))" for xs
    by (simp add: strs_json_def within_opt_def list_all_length)
  then show ?thesis
    using model_conforms [of fmt "rr_preferred r"]
    by (simp add: RecipeRoleRequirement_def role_json_def field_defs role_requirement_ok_def del: model_conforms)
qed

lemma recipe_schema_exact: "conforms fmt Recipe (recipe_json r) = recipe_ok r"
  by (auto simp: Recipe_def recipe_json_def schema_defs recipe_ok_def within_opt_def list.pred_map o_def op_schema_exact
      recipe_id_text_def strs_json_def)

definition counters_ok :: "error_payload \<Rightarrow> bool" where
  "counters_ok p = (case ep_rollback p of None \<Rightarrow> True | Some r \<Rightarrow>
     rb_failedOperationIndex r \<le> 9007199254740991 \<and> rb_inversesExecuted r \<le> 9007199254740991)"

lemma rollback_conforms [simp]:
  "conforms fmt RollbackReport (rollback_json r) \<longleftrightarrow> rollback_ok r \<and>
     rb_failedOperationIndex r \<le> 9007199254740991 \<and> rb_inversesExecuted r \<le> 9007199254740991"
  by (auto simp: RollbackReport_def rollback_json_def schema_defs rollback_ok_def split: rolled_back.split)

lemma error_schema_exact:
  "conforms fmt RackMcpError (error_json p) \<longleftrightarrow> payload_ok p \<and> counters_ok p"
proof -
  have "list_ex ((=) (code_str c)) (map code_str ERROR_CODES)" for c
    using ERROR_CODES_complete [of c] by (auto simp: list_ex_iff)
  then have code: "conforms fmt ErrorCode (JStr (code_str c))" for c by (simp add: ErrorCode_def)
  show ?thesis
    by (auto simp: RackMcpError_def error_json_def schema_defs payload_ok_def counters_ok_def code ERROR_CODES_complete
        split: option.split)
qed

text \<open>The published schemas and the typed models of this development say the same: of the JSON
  written for a patch operation, an adapter document, a recipe or an error payload, the zod
  schema accepts exactly what the typed validity predicate accepts (for an error payload, with
  rollback counters that a JSON number holds exactly).  JSON that the writers never
  produce, such as an operation with a default left out, is not covered.\<close>

theorem typed_models_exact:
  "(conforms fmt PatchOperation (op_json p) \<longleftrightarrow> PatchOperation_ok p) \<and>
   (conforms fmt ModuleAdapter (adapter_json a) \<longleftrightarrow> module_adapter_ok a) \<and>
   (conforms fmt Recipe (recipe_json r) \<longleftrightarrow> recipe_ok r) \<and>
   (conforms fmt RackMcpError (error_json q) \<longleftrightarrow> payload_ok q \<and> counters_ok q)"
  by (intro conjI op_schema_exact adapter_schema_exact recipe_schema_exact error_schema_exact)

end
