(* ===== verification/Resources.thy ===== *)
theory Resources
  imports Telemetry Encoding RecipeDocs
begin

text \<open>
  The \<open>rack://\<close> resources (\<open>apps/mcp-server/src/resources.ts\<close>): the scan of the installed
  models, the degradation of a resource no instance can serve, the size cap, and the six
  readers.  The validation of a body only logs and audits; its outcome is an argument.
\<close>

section \<open>The catalogue scan\<close>

definition MODELS_PAGE :: nat where
  "MODELS_PAGE = 300"

definition AUDIT_RECENT :: int where
  "AUDIT_RECENT = 50"

definition MAX_CATALOG_PAGES :: nat where
  "MAX_CATALOG_PAGES = 4"

record catalog_scan =
  sc_models :: "installed_model list"
  sc_complete :: bool
  sc_totalModels :: "nat option"

text \<open>An empty cursor is falsy, but is sent.\<close>

definition page_request :: "string option \<Rightarrow> json" where
  "page_request cursor = JObj ([(''limit'', jnat MODELS_PAGE)] @ opt_member ''cursor'' (map_option JStr cursor))"

definition last_cursor :: "string option \<Rightarrow> bool" where
  "last_cursor c = (c = None \<or> c = Some [])"

fun scan_pages :: "nat \<Rightarrow> (string option \<Rightarrow> ('e, 's, models_page) prog) \<Rightarrow> string option \<Rightarrow> installed_model list \<Rightarrow>
  nat option \<Rightarrow> ('e, 's, catalog_scan) prog" where
  "scan_pages 0 ask cursor models totalModels =
     ret \<lparr>sc_models = models, sc_complete = False, sc_totalModels = totalModels\<rparr>"
| "scan_pages (Suc n) ask cursor models totalModels = bind (ask cursor) (\<lambda>res.
     let t = (case mp_totalModels res of Some k \<Rightarrow> Some k | None \<Rightarrow> totalModels); ms = models @ mp_models res in
     if last_cursor (mp_nextCursor res)
     then ret \<lparr>sc_models = ms, sc_complete = True, sc_totalModels = t\<rparr>
     else scan_pages n ask (mp_nextCursor res) ms t)"

definition ask_page :: "'w tool_deps \<Rightarrow> string option \<Rightarrow> ('w, models_page) tool" where
  "ask_page d cursor = bind (tool_request d ''catalog.listModels'' (page_request cursor)) (\<lambda>j. ret (td_asModelsPage d j))"

definition scanInstalledModels :: "'w tool_deps \<Rightarrow> ('w, catalog_scan) tool" where
  "scanInstalledModels d = scan_pages MAX_CATALOG_PAGES (ask_page d) None [] None"

section \<open>Degradation\<close>

definition unavailable_codes :: "error_code list" where
  "unavailable_codes = [RACK_NOT_FOUND, INSTANCE_NOT_SELECTED, RACK_DISCONNECTED]"

definition isUnavailable :: "exn \<Rightarrow> bool" where
  "isUnavailable e = (case e of ToolErr t \<Rightarrow> te_code t \<in> set unavailable_codes | _ \<Rightarrow> False)"

definition unavailable_code :: "exn \<Rightarrow> error_code" where
  "unavailable_code e = (case e of ToolErr t \<Rightarrow>
     (if te_code t = INSTANCE_NOT_SELECTED \<or> te_code t = RACK_DISCONNECTED then te_code t else RACK_NOT_FOUND)
   | _ \<Rightarrow> RACK_NOT_FOUND)"

definition unavailable_hint :: "nat \<Rightarrow> error_code \<Rightarrow> string" where
  "unavailable_hint live code =
     (if live > 0 then nat_str live @ '' Rack instance'' @ (if live = 1 then '' is'' else ''s are'') @
        '' running but none is connected; call select_rack_instance to choose one''
      else if code = RACK_DISCONNECTED then ''the bridge session was lost; the instance may have quit''
      else ''start Rack with the RackMCP Bridge module in the patch'')"

definition unavailable :: "string \<Rightarrow> nat \<Rightarrow> exn \<Rightarrow> json" where
  "unavailable uri live e = JObj [(''state'', JStr ''unavailable''), (''uri'', JStr uri),
     (''code'', JStr (code_str (unavailable_code e))), (''discoveredInstances'', jnat live),
     (''hint'', JStr (unavailable_hint live (unavailable_code e)))]"

definition live_count :: "'w tool_deps \<Rightarrow> 'w server \<Rightarrow> nat" where
  "live_count d s = length (filter (\<lambda>i. \<not> di_stale i) (listInstances (td_conn d) (the_conn s)))"

section \<open>The body\<close>

definition truncated :: "string \<Rightarrow> string option \<Rightarrow> nat \<Rightarrow> nat \<Rightarrow> json" where
  "truncated uri tool sz limit = JObj [(''state'', JStr ''truncated''), (''uri'', JStr uri), (''sizeBytes'', jnat sz),
     (''limitBytes'', jnat limit), (''useTool'', jopt JStr tool),
     (''reason'', JStr (''resource body is '' @ nat_str sz @ '' bytes; the cap is '' @ nat_str limit))]"

text \<open>\<open>bytes_of\<close> is the byte length of the serialised value (two-space indentation).\<close>

definition body_payload :: "(json \<Rightarrow> nat) \<Rightarrow> nat \<Rightarrow> resource_spec \<Rightarrow> json \<Rightarrow> json" where
  "body_payload bytes_of limit spec payload =
     (if bytes_of payload > limit then truncated (rs_uri spec) (rs_truncationTool spec) (bytes_of payload) limit else payload)"

definition drift_entry :: "string \<Rightarrow> audit_entry" where
  "drift_entry uri = \<lparr>ae_tool = ''resource:'' @ uri, ae_outcome = ''ok'', ae_instanceId = None, ae_operationId = None,
     ae_errorCode = None, ae_durationMs = None, ae_schemaValid = Some False\<rparr>"

text \<open>The text serving, and the audit entry of a body its own schema refuses.\<close>

definition body :: "(zformat \<Rightarrow> string \<Rightarrow> bool) \<Rightarrow> (json \<Rightarrow> nat) \<Rightarrow> nat \<Rightarrow> resource_spec \<Rightarrow> json \<Rightarrow> json \<times> audit_entry list" where
  "body fmt bytes_of limit spec payload = (let p = body_payload bytes_of limit spec payload in
     (p, if conforms fmt (rs_output spec) p then [] else [drift_entry (rs_uri spec)]))"

section \<open>The readers\<close>

definition catch_exn :: "('w, 'a) tool \<Rightarrow> (exn \<Rightarrow> ('w, 'a) tool) \<Rightarrow> ('w, 'a) tool" where
  "catch_exn m h = catching_exn m h"

definition ok_envelope :: "string \<Rightarrow> json \<Rightarrow> (string \<times> json) list \<Rightarrow> json" where
  "ok_envelope uri data extra = JObj ([(''state'', JStr ''ok''), (''uri'', JStr uri), (''data'', data)] @ extra)"

definition error_envelope :: "string \<Rightarrow> exn \<Rightarrow> json" where
  "error_envelope uri e = JObj [(''state'', JStr ''error''), (''uri'', JStr uri), (''error'', error_json (toErrorPayload e))]"

text \<open>A read that fails becomes its error payload.\<close>

definition attempt :: "('w, json) tool \<Rightarrow> ('w, json \<times> json) tool" where
  "attempt m = catch_exn (bind m (\<lambda>j. ret (j, JNull))) (\<lambda>e. ret (JNull, error_json (toErrorPayload e)))"

definition status_resource :: "'w tool_deps \<Rightarrow> ('w, json) tool" where
  "status_resource d = bind (gets (\<lambda>s. cn_selected (the_conn s))) (\<lambda>selected.
     bind (if selected = None then ret (JNull, JNull)
       else attempt (bind (tool_request d ''status.get'' (JObj [])) (\<lambda>j. ret (mapStatus j)))) (\<lambda>(status, statusError).
     bind (if selected = None then ret (JNull, JNull) else attempt (tool_request d ''metrics.get'' (JObj []))) (\<lambda>(metrics, metricsError).
     bind (gets (\<lambda>s. (is_connected (the_conn s), listInstanceSummaries (td_conn d) (the_conn s)))) (\<lambda>(conn, instances).
     ret (ok_envelope ''rack://status'' (JObj [(''connected'', JBool (selected \<noteq> None \<and> conn)),
       (''selectedInstanceId'', jopt (\<lambda>x. JStr (sl_instanceId x)) selected), (''instances'', instances),
       (''status'', status), (''statusError'', statusError), (''metrics'', metrics), (''metricsError'', metricsError)]) [])))))"

definition serving :: "'w tool_deps \<Rightarrow> string \<Rightarrow> ('w, json) tool \<Rightarrow> ('w, json) tool" where
  "serving d uri m = catch_exn m (\<lambda>e. bind (gets (live_count d)) (\<lambda>live.
     ret (if isUnavailable e then unavailable uri live e else error_envelope uri e)))"

definition patch_resource :: "'w tool_deps \<Rightarrow> ('w, json) tool" where
  "patch_resource d = serving d ''rack://patch/current''
     (bind (tool_request d ''patch.snapshot'' (JObj [(''includeOpaqueState'', JBool False)]))
       (\<lambda>snap. ret (ok_envelope ''rack://patch/current'' snap [])))"

definition catalog_resource :: "'w tool_deps \<Rightarrow> ('w, json) tool" where
  "catalog_resource d = serving d ''rack://catalog/models''
     (bind (tool_request d ''catalog.listModels'' (JObj [(''limit'', jnat MODELS_PAGE)])) (\<lambda>res.
       ret (ok_envelope ''rack://catalog/models'' res [(''continueWith'', JObj [(''tool'', JStr ''list_installed_models''),
         (''cursor'', case member res ''nextCursor'' of None \<Rightarrow> JNull | Some c \<Rightarrow> c)])])))"

definition adapters_resource :: json where
  "adapters_resource = ok_envelope ''rack://adapters'' (JObj [(''adapters'', JArr (map adapter_json listAdapters))]) []"

definition recipes_resource :: "'w tool_deps \<Rightarrow> ('w, json) tool" where
  "recipes_resource d =
     bind (catch_exn (bind (scanInstalledModels d) (\<lambda>scan.
         ret (scan, JObj (map (\<lambda>r. (rc_id r, resolution_json (resolveRecipe r (sc_models scan)))) listRecipes),
           if sc_complete scan then ''resolved'' else ''partial'', JNull)))
       (\<lambda>e. ret (\<lparr>sc_models = [], sc_complete = False, sc_totalModels = None\<rparr>, JNull,
           if isUnavailable e then ''unavailable'' else ''failed'',
           if isUnavailable e then JNull else error_json (toErrorPayload e))))
     (\<lambda>(scan, resolutions, resolutionState, resolutionError).
     ret (ok_envelope ''rack://recipes'' (JObj [(''recipes'', JArr (map recipe_json listRecipes)), (''resolutions'', resolutions),
         (''catalogComplete'', JBool (sc_complete scan)), (''modelsScanned'', jnat (length (sc_models scan))),
         (''totalModels'', jopt jnat (sc_totalModels scan))])
       [(''resolutionState'', JStr resolutionState), (''resolutionError'', resolutionError)]))"

text \<open>The audit resource over the recent view.\<close>

definition audit_resource :: "(code_unit list \<Rightarrow> json option) \<Rightarrow> refusals \<Rightarrow> int \<Rightarrow> bool \<Rightarrow> bool \<Rightarrow> audit_log \<Rightarrow> json \<times> audit_log" where
  "audit_resource acc rf now liveReadable rotatedReadable a =
     (let ((entries, skipped), a') = recent acc rf now liveReadable rotatedReadable AUDIT_RECENT a in
      (ok_envelope ''rack://audit/recent'' (JObj [(''entries'', JArr entries), (''skipped'', jnat skipped)]) [], a'))"

section \<open>What the scan sees\<close>

text \<open>A plugin that serves the catalogue \<open>cat\<close> page by page while \<open>P\<close> holds (of the session): its
  cursors are decimal offsets.\<close>

definition page_at :: "installed_model list \<Rightarrow> nat \<Rightarrow> models_page" where
  "page_at cat n = \<lparr>mp_models = take MODELS_PAGE (drop n cat), mp_totalModels = Some (length cat),
     mp_nextCursor = (if n + MODELS_PAGE < length cat then Some (nat_str (n + MODELS_PAGE)) else None)\<rparr>"

definition serves :: "('s \<Rightarrow> bool) \<Rightarrow> installed_model list \<Rightarrow> (string option \<Rightarrow> ('e, 's, models_page) prog) \<Rightarrow> bool" where
  "serves P cat ask \<longleftrightarrow> (\<forall>s. P s \<longrightarrow> wp (ask None) (\<lambda>r s'. r = page_at cat 0 \<and> P s') (\<lambda>e s'. False) s \<and>
     (\<forall>n. wp (ask (Some (nat_str n))) (\<lambda>r s'. r = page_at cat n \<and> P s') (\<lambda>e s'. False) s))"

lemma wp_page: "wp m (\<lambda>r s'. r = x \<and> P s') (\<lambda>e s'. False) s \<longleftrightarrow> (\<exists>s1. m s = (Inr x, s1) \<and> P s1)"
  by (auto simp: wp_def split: prod.splits sum.splits)

lemma scan_from:
  assumes "\<And>n s. P s \<Longrightarrow> wp (ask (Some (nat_str n))) (\<lambda>r s'. r = page_at cat n \<and> P s') (\<lambda>e s'. False) s"
  shows "wp (ask cursor) (\<lambda>r s'. r = page_at cat m \<and> P s') (\<lambda>e s'. False) s \<Longrightarrow>
    fst (scan_pages (Suc n) ask cursor (take m cat) t s) =
      Inr \<lparr>sc_models = take (m + MODELS_PAGE * Suc n) cat, sc_complete = (length cat \<le> m + MODELS_PAGE * Suc n),
        sc_totalModels = Some (length cat)\<rparr>"
proof (induction n arbitrary: cursor s m t)
  case (0 cursor s m t)
  then obtain s1 where a: "ask cursor s = (Inr (page_at cat m), s1)" by (auto simp: wp_page)
  show ?case
    by (auto simp: bind_def a page_at_def ret_def last_cursor_def nat_str_nonempty Let_def take_add)
next
  case (Suc n cursor s m t)
  then obtain s1 where a: "ask cursor s = (Inr (page_at cat m), s1)" and "P s1" by (auto simp: wp_page)
  have IH: "fst (scan_pages (Suc n) ask (Some (nat_str (m + MODELS_PAGE))) (take (m + MODELS_PAGE) cat) (Some (length cat)) s1) =
      Inr \<lparr>sc_models = take (m + MODELS_PAGE + MODELS_PAGE * Suc n) cat, sc_complete = (length cat \<le> m + MODELS_PAGE + MODELS_PAGE * Suc n),
        sc_totalModels = Some (length cat)\<rparr>"
    by (rule Suc.IH) (rule assms, fact)
  show ?case
  proof (cases "m + MODELS_PAGE < length cat")
    case True
    have "fst (scan_pages (Suc (Suc n)) ask cursor (take m cat) t s) =
      fst (scan_pages (Suc n) ask (Some (nat_str (m + MODELS_PAGE))) (take (m + MODELS_PAGE) cat) (Some (length cat)) s1)"
      using True unfolding scan_pages.simps(2) [of "Suc n"]
      by (simp add: bind_def a page_at_def last_cursor_def nat_str_nonempty Let_def take_add del: scan_pages.simps)
    then show ?thesis using IH by (simp add: algebra_simps del: scan_pages.simps)
  next
    case False
    then show ?thesis unfolding scan_pages.simps(2) [of "Suc n"]
      by (simp add: bind_def a page_at_def last_cursor_def Let_def ret_def take_all del: scan_pages.simps flip: take_add)
  qed
qed

lemma installed_take: "installedHas (take n cat) m \<Longrightarrow> installedHas cat m"
  by (auto simp: installedHas_def list_ex_iff dest: in_set_takeD)

text \<open>C34: against a plugin that serves a catalogue of any size in pages while the session holds, the scan returns its first
  1200 models and says so: it is complete exactly when nothing was cut off, and reports the
  true total.  A recipe that is resolved on what was scanned is resolved on the whole
  catalogue; the converse, that an unresolved role names a module that is not installed,
  holds for the complete scan.\<close>

theorem scan_exact:
  assumes "serves P cat (ask_page d)" and "P s"
  shows "fst (scanInstalledModels d s) = Inr \<lparr>sc_models = take 1200 cat, sc_complete = (length cat \<le> 1200),
      sc_totalModels = Some (length cat)\<rparr> \<and>
    (rr_resolved (resolveRecipe r (take 1200 cat)) \<longrightarrow> rr_resolved (resolveRecipe r cat)) \<and>
    (length cat \<le> 1200 \<longrightarrow> resolveRecipe r (take 1200 cat) = resolveRecipe r cat)"
proof -
  have m: "MAX_CATALOG_PAGES = Suc 3" by (simp add: MAX_CATALOG_PAGES_def)
  have n: "0 + MODELS_PAGE * Suc 3 = 1200" by (simp add: MODELS_PAGE_def)
  have z: "take 0 cat = []" by simp
  have "fst (scan_pages (Suc 3) (ask_page d) None (take 0 cat) None s) =
      Inr \<lparr>sc_models = take (0 + MODELS_PAGE * Suc 3) cat, sc_complete = (length cat \<le> 0 + MODELS_PAGE * Suc 3),
        sc_totalModels = Some (length cat)\<rparr>"
    by (rule scan_from [where P = P]) (use assms in \<open>unfold serves_def, blast\<close>)+
  then have "fst (scanInstalledModels d s) = Inr \<lparr>sc_models = take 1200 cat, sc_complete = (length cat \<le> 1200),
      sc_totalModels = Some (length cat)\<rparr>"
    unfolding scanInstalledModels_def m n z .
  moreover have "rr_resolved (resolveRecipe r (take 1200 cat)) \<longrightarrow> rr_resolved (resolveRecipe r cat)"
    by (simp add: resolved_iff) (blast intro: installed_take)
  ultimately show ?thesis by simp
qed

text \<open>A plugin with 1500 models that reads the offset from the cursor.\<close>

definition demo_catalogue :: "installed_model list" where
  "demo_catalogue = replicate 1500 \<lparr>im_pluginSlug = ''Fundamental'', im_modelSlug = ''VCO''\<rparr>"

definition demo_page :: "json \<Rightarrow> models_page" where
  "demo_page j = page_at demo_catalogue (case member j ''cursor'' of Some (JStr c) \<Rightarrow> digits_val c | _ \<Rightarrow> 0)"

lemma scan_exact_witness:
  "\<forall>(d :: int tool_deps) s. fst (scanInstalledModels
     (d\<lparr>td_conn := demo_answer (Inr JNull)\<lparr>cd_request := (\<lambda>i m p oid t s. (Inr p, s))\<rparr>, td_asModelsPage := demo_page\<rparr>)
     (s\<lparr>sh_world := (sh_world s)\<lparr>hb_conn := demo_conn\<rparr>\<rparr>)) =
   Inr \<lparr>sc_models = take 1200 demo_catalogue, sc_complete = False, sc_totalModels = Some 1500\<rparr>"
proof (intro allI)
  fix d :: "int tool_deps" and s :: "int server"
  let ?d = "d\<lparr>td_conn := demo_answer (Inr JNull)\<lparr>cd_request := (\<lambda>i m p oid t s. (Inr p, s))\<rparr>, td_asModelsPage := demo_page\<rparr>"
  let ?P = "\<lambda>s. attached (hb_conn (sh_world s))"
  have q: "tool_request ?d m p t = (Inr p, t)" if "?P t" for m p t
    using that by (simp add: tool_request_def request_op_def on_conn_def conn_request_def request_attached lift_exn_def demo_answer_def)
  have a: "ask_page ?d None t = (Inr (page_at demo_catalogue 0), t)"
    "ask_page ?d (Some (nat_str n)) t = (Inr (page_at demo_catalogue n), t)" if "?P t" for t n
    using q [OF that] by (simp_all add: ask_page_def bind_def ret_def page_request_def demo_page_def member_def opt_member_def map_get_Cons
        digits_val_nat_str)
  have "serves ?P demo_catalogue (ask_page ?d)"
    unfolding serves_def wp_page using a by blast
  moreover have "?P (s\<lparr>sh_world := (sh_world s)\<lparr>hb_conn := demo_conn\<rparr>\<rparr>)"
    by (simp add: attached_def is_connected_def demo_conn_def)
  ultimately have "fst (scanInstalledModels ?d (s\<lparr>sh_world := (sh_world s)\<lparr>hb_conn := demo_conn\<rparr>\<rparr>)) =
      Inr \<lparr>sc_models = take 1200 demo_catalogue, sc_complete = (length demo_catalogue \<le> 1200),
        sc_totalModels = Some (length demo_catalogue)\<rparr>"
    using scan_exact [of ?P demo_catalogue ?d] by blast
  moreover have "length demo_catalogue = 1500" by (simp only: demo_catalogue_def length_replicate)
  ultimately show "fst (scanInstalledModels ?d (s\<lparr>sh_world := (sh_world s)\<lparr>hb_conn := demo_conn\<rparr>\<rparr>)) =
      Inr \<lparr>sc_models = take 1200 demo_catalogue, sc_complete = False, sc_totalModels = Some 1500\<rparr>" by simp
qed

end
