(* ===== verification/Config.thy ===== *)
theory Config
  imports Connection ResourceSchemas
begin

text \<open>
  The start-up of the server: its configuration from the environment
  (\<open>apps/mcp-server/src/config.ts\<close>), the prompts (\<open>prompts/index.ts\<close>), and the transport that
  lets a call omit its arguments (\<open>transport-compat.ts\<close>).  Paths are joined as POSIX does.
\<close>

section \<open>Numbers in the environment\<close>

text \<open>\<open>Number(text)\<close> as an exact rational; \<open>None\<close> is NaN or an infinity.\<close>

definition digit_in :: "nat \<Rightarrow> char \<Rightarrow> nat option" where
  "digit_in base c = (let n = of_char c :: nat;
     v = (if 48 \<le> n \<and> n \<le> 57 then n - 48 else if 97 \<le> n \<and> n \<le> 122 then n - 87 else if 65 \<le> n \<and> n \<le> 90 then n - 55 else 36)
     in if v < base then Some v else None)"

fun radix_val :: "nat \<Rightarrow> nat \<Rightarrow> string \<Rightarrow> nat option" where
  "radix_val base acc [] = Some acc"
| "radix_val base acc (c # s) = (case digit_in base c of None \<Rightarrow> None | Some v \<Rightarrow> radix_val base (acc * base + v) s)"

definition prefixed :: "string \<Rightarrow> rat option option" where
  "prefixed s = (case s of c # x # r \<Rightarrow>
       if c \<noteq> CHR ''0'' then None
       else let base = (if x = CHR ''x'' \<or> x = CHR ''X'' then 16 else if x = CHR ''o'' \<or> x = CHR ''O'' then 8
         else if x = CHR ''b'' \<or> x = CHR ''B'' then 2 else 0)
       in if base = 0 then None else Some (if r = [] then None else map_option of_nat (radix_val base 0 r))
     | _ \<Rightarrow> None)"

text \<open>The exponent part, 0 when there is none; \<open>None\<close> when it is malformed.\<close>

definition exponent_of :: "string \<Rightarrow> int option" where
  "exponent_of s = (case s of [] \<Rightarrow> Some 0
     | c # r \<Rightarrow> if c = CHR ''e'' \<or> c = CHR ''E'' then
         (let (neg, ds) = (case r of x # t \<Rightarrow> if x = CHR ''-'' then (True, t) else if x = CHR ''+'' then (False, t) else (False, r)
            | [] \<Rightarrow> (False, []))
          in if ds = [] \<or> \<not> all_digits ds then None
             else Some (if neg then - int (digits_val ds) else int (digits_val ds)))
       else None)"

definition scaled :: "nat \<Rightarrow> int \<Rightarrow> rat" where
  "scaled n k = (if 0 \<le> k then of_nat n * 10 ^ nat k else of_nat n / 10 ^ nat (- k))"

definition decimal_of :: "string \<Rightarrow> rat option" where
  "decimal_of s = (let ip = takeWhile digit s; r = dropWhile digit s;
     (fp, e) = (case r of c # t \<Rightarrow> if c = CHR ''.'' then (takeWhile digit t, dropWhile digit t) else ([], r) | [] \<Rightarrow> ([], []))
     in if ip @ fp = [] then None
        else map_option (\<lambda>k. scaled (digits_val (ip @ fp)) (k - int (length fp))) (exponent_of e))"

definition js_number_of :: "string \<Rightarrow> rat option" where
  "js_number_of raw = (let s = trim raw in
     if s = [] then Some 0
     else case prefixed s of Some v \<Rightarrow> v
     | None \<Rightarrow> (case s of c # r \<Rightarrow> if c = CHR ''-'' then map_option uminus (decimal_of r)
         else if c = CHR ''+'' then decimal_of r else decimal_of s
       | [] \<Rightarrow> None))"

text \<open>The least magnitude that rounds to an infinity.\<close>

definition finite_number :: "rat \<Rightarrow> bool" where
  "finite_number v = (\<bar>v\<bar> < 2 ^ 1024 - 2 ^ 970)"

definition numeric :: "string option \<Rightarrow> rat \<Rightarrow> rat" where
  "numeric raw fallback = (case raw of None \<Rightarrow> fallback
     | Some text \<Rightarrow> (case js_number_of text of None \<Rightarrow> fallback
         | Some n \<Rightarrow> if finite_number n \<and> n \<ge> 0 then n else fallback))"

section \<open>Joining paths\<close>

fun norm_parts :: "bool \<Rightarrow> string list \<Rightarrow> string list \<Rightarrow> string list" where
  "norm_parts up acc [] = rev acc"
| "norm_parts up acc (p # ps) =
     (if p = [] \<or> p = ''.'' then norm_parts up acc ps
      else if p = ''..'' then
        (case acc of q # qs \<Rightarrow> if q = ''..'' then norm_parts up (if up then p # acc else acc) ps else norm_parts up qs ps
         | [] \<Rightarrow> norm_parts up (if up then [p] else []) ps)
      else norm_parts up (p # acc) ps)"

definition joined :: "string list \<Rightarrow> string" where
  "joined ps = concat (case ps of [] \<Rightarrow> [] | p # qs \<Rightarrow> p # map (\<lambda>q. slash # q) qs)"

definition path_normalize :: "string \<Rightarrow> string" where
  "path_normalize p = (if p = [] then ''.''
     else let absolute = is_absolute p; trailing = (last p = slash);
       s = joined (norm_parts (\<not> absolute) [] (split_on slash p));
       t = (if s = [] \<and> \<not> absolute then ''.'' else s);
       u = (if trailing \<and> t \<noteq> [] then t @ [slash] else t)
     in if absolute then slash # u else u)"

definition path_join :: "string list \<Rightarrow> string" where
  "path_join ps = (let qs = filter (\<lambda>p. p \<noteq> []) ps in if qs = [] then ''.'' else path_normalize (joined qs))"

section \<open>The configuration\<close>

record server_config =
  cg_rackUserDir :: string
  cg_rackmcpDir :: string
  cg_discoveryDir :: string
  cg_checkpointsDir :: string
  cg_patchesDir :: string
  cg_auditDir :: string
  cg_auditMaxBytes :: rat
  cg_auditMaxAgeDays :: rat
  cg_requestDeadlineMs :: rat
  cg_patchIoTimeoutMs :: rat
  cg_txnCommitTimeoutMs :: rat

type_synonym environment = "string \<Rightarrow> string option"

definition or_else :: "'a option \<Rightarrow> 'a \<Rightarrow> 'a" where
  "or_else x y = (case x of None \<Rightarrow> y | Some a \<Rightarrow> a)"

definition defaultRackUserDir :: "string \<Rightarrow> string \<Rightarrow> environment \<Rightarrow> string" where
  "defaultRackUserDir platform home env =
     (if platform = ''darwin'' then path_join [home, ''Library'', ''Application Support'', ''Rack2'']
      else if platform = ''win32'' then path_join [or_else (env ''LOCALAPPDATA'') (path_join [home, ''AppData'', ''Local'']), ''Rack2'']
      else path_join [or_else (env ''XDG_DATA_HOME'') (path_join [home, ''.local'', ''share'']), ''Rack2''])"

definition loadConfig :: "string \<Rightarrow> string \<Rightarrow> environment \<Rightarrow> server_config" where
  "loadConfig platform home env = (let rackUserDir = or_else (env ''RACKMCP_RACK_USER_DIR'')
       (or_else (env ''RACK_USER_DIR'') (defaultRackUserDir platform home env));
     rackmcpDir = path_join [rackUserDir, ''RackMCP''] in
     \<lparr>cg_rackUserDir = rackUserDir, cg_rackmcpDir = rackmcpDir,
      cg_discoveryDir = path_join [rackmcpDir, ''instances''],
      cg_checkpointsDir = path_join [rackmcpDir, ''checkpoints''],
      cg_patchesDir = path_join [rackUserDir, ''patches''],
      cg_auditDir = path_join [rackmcpDir, ''audit''],
      cg_auditMaxBytes = numeric (env ''RACKMCP_AUDIT_MAX_BYTES'') (8 * 1024 * 1024),
      cg_auditMaxAgeDays = numeric (env ''RACKMCP_AUDIT_MAX_AGE_DAYS'') 30,
      cg_requestDeadlineMs = numeric (env ''RACKMCP_REQUEST_DEADLINE_MS'') (of_int (commandTimeoutMs LIMITS)),
      cg_patchIoTimeoutMs = numeric (env ''RACKMCP_PATCH_IO_TIMEOUT_MS'') (of_int (patchIoTimeoutMs LIMITS)),
      cg_txnCommitTimeoutMs = numeric (env ''RACKMCP_TXN_COMMIT_TIMEOUT_MS'') (of_int (txnCommitTimeoutMs LIMITS))\<rparr>)"

section \<open>Omitted arguments\<close>

definition OPTIONAL_ARGUMENTS_METHODS :: "string list" where
  "OPTIONAL_ARGUMENTS_METHODS = [''prompts/get'', ''tools/call'']"

text \<open>The message as the wrapped handler passes it on; \<open>params\<close> of a JSON-RPC message is an object.\<close>

definition normalize_message :: "json \<Rightarrow> json" where
  "normalize_message m = (case m of
     JObj ms \<Rightarrow> (case (map_get ms ''method'', map_get ms ''params'') of
         (Some (JStr name), Some (JObj ps)) \<Rightarrow>
           if list_ex ((=) name) OPTIONAL_ARGUMENTS_METHODS \<and> (map_get ps ''arguments'' = None \<or> map_get ps ''arguments'' = Some JNull)
           then JObj (map_set ''params'' (JObj (map_set ''arguments'' (JObj []) ps)) ms) else m
       | _ \<Rightarrow> m)
   | _ \<Rightarrow> m)"

text \<open>A transport's handler, and whether this module has wrapped it.\<close>

record 'r transport =
  tp_onmessage :: "(json \<Rightarrow> 'r) option"
  tp_wrapped :: bool

definition normalizeOmittedArguments :: "'r transport \<Rightarrow> 'r transport" where
  "normalizeOmittedArguments t = (case tp_onmessage t of None \<Rightarrow> t
     | Some inner \<Rightarrow> if tp_wrapped t then t
         else \<lparr>tp_onmessage = Some (\<lambda>m. inner (normalize_message m)), tp_wrapped = True\<rparr>)"

end
