(* ===== verification/Tools.thy ===== *)
theory Tools
  imports Resources Config
begin

text \<open>
  The tool handlers (\<open>apps/mcp-server/src/tools.ts\<close>, with the analysis, patch-file, telemetry
  and chat handlers it registers) and their dispatch.  The arguments of a call are those its
  input schema has validated; results are the JSON the server serialises.
\<close>

section \<open>Results as JSON\<close>

definition confidence_str :: "confidence \<Rightarrow> string" where
  "confidence_str c = (case c of Certain \<Rightarrow> ''certain'' | AdapterBacked \<Rightarrow> ''adapter'' | Heuristic \<Rightarrow> ''heuristic'')"

definition severity_str :: "severity \<Rightarrow> string" where
  "severity_str s = (case s of SevError \<Rightarrow> ''error'' | SevWarning \<Rightarrow> ''warning'' | SevInfo \<Rightarrow> ''info'')"

definition chain_json :: "chain \<Rightarrow> json" where
  "chain_json c = JObj [(''description'', JStr (unit_text (ch_description c))), (''moduleIds'', jstrs (ch_moduleIds c)),
     (''confidence'', JStr (confidence_str (ch_confidence c)))]"

definition description_json :: "description \<Rightarrow> json" where
  "description_json d = JObj [(''summary'', JStr (de_summary d)), (''moduleCount'', jnat (de_moduleCount d)),
     (''cableCount'', jnat (de_cableCount d)), (''chains'', JArr (map chain_json (de_chains d))),
     (''unknownModuleCount'', jnat (de_unknownModuleCount d)), (''warnings'', jstrs (de_warnings d))]"

fun entity_json :: "entity_ref \<Rightarrow> json" where
  "entity_json (EModule m) = JObj [(''kind'', JStr ''module''), (''moduleId'', JStr m)]"
| "entity_json (ECable c) = JObj [(''kind'', JStr ''cable''), (''cableId'', JStr c)]"
| "entity_json (EPort m t i) = JObj [(''kind'', JStr ''port''), (''moduleId'', JStr m),
     (''portType'', JStr (port_type_str t)), (''portId'', jint i)]"
| "entity_json (EParam m i) = JObj [(''kind'', JStr ''param''), (''moduleId'', JStr m), (''paramId'', jnat i)]"
| "entity_json EPatch = JObj [(''kind'', JStr ''patch'')]"

definition finding_json :: "finding \<Rightarrow> json" where
  "finding_json f = JObj ([(''ruleId'', JStr (fd_ruleId f)), (''severity'', JStr (severity_str (fd_severity f))),
     (''confidence'', JStr (confidence_str (fd_confidence f))), (''entities'', JArr (map entity_json (fd_entities f))),
     (''evidence'', JObj (fd_evidence f)), (''explanation'', JStr (unit_text (fd_explanation f)))] @
     opt_member ''suggestedRepair'' (map_option JStr (fd_suggestedRepair f)))"

definition report_json :: "report \<Rightarrow> json" where
  "report_json r = JObj [(''findings'', JArr (map finding_json (rp_findings r))), (''rulesRun'', jstrs (rp_rulesRun r)),
     (''errorCount'', jint (rp_errorCount r)), (''warningCount'', jint (rp_warningCount r)), (''infoCount'', jint (rp_infoCount r))]"

definition checkpoint_json :: "checkpoint_result \<Rightarrow> json" where
  "checkpoint_json r = JObj [(''checkpointPath'', JStr (kr_checkpointPath r)), (''fingerprint'', JStr (kr_fingerprint r)),
     (''createdAt'', JStr (kr_createdAt r)), (''replayed'', JBool (kr_replayed r))]"

definition save_json :: "save_result \<Rightarrow> json" where
  "save_json r = JObj [(''path'', JStr (sr_path r)), (''fingerprint'', JStr (sr_fingerprint r)), (''saved'', JBool (sr_saved r)),
     (''bridgeModulePresent'', JBool (sr_bridgeModulePresent r)), (''warnings'', jstrs (sr_warnings r)),
     (''replayed'', JBool (sr_replayed r))]"

definition load_preview_members :: "load_preview \<Rightarrow> (string \<times> json) list" where
  "load_preview_members p = [(''preview'', JObj [(''path'', jopt JStr (lp_path p)), (''exists'', JBool (lp_exists p)),
       (''sizeBytes'', jopt jnat (lp_sizeBytes p)), (''currentPatchSaved'', JBool (lp_currentPatchSaved p)),
       (''willCreateRecoveryCheckpoint'', JBool (lp_willCreateRecoveryCheckpoint p)),
       (''recoveryCheckpointImpossibleReason'', JNull), (''willInsertBridgeModule'', JBool (lp_willInsertBridgeModule p)),
       (''risk'', JObj [(''level'', JStr ''high''), (''flags'', jstrs (lp_flags p)), (''reasons'', jstrs (lp_reasons p)),
         (''confirmationRequired'', JBool (lp_confirmationRequired p))]),
       (''warnings'', jstrs (lp_warnings p))]),
     (''confirmation'', JObj [(''confirmationToken'', JStr (lp_confirmationToken p)),
       (''confirmationExpiresAt'', JStr (lp_confirmationExpiresAt p)), (''confirmationRequired'', JBool True)])]"

definition load_json :: "load_result \<Rightarrow> json" where
  "load_json r = JObj [(''fingerprint'', JStr (lr_fingerprint r)), (''patchEpoch'', jint (lr_patchEpoch r)),
     (''patchName'', jopt JStr (lr_patchName r)), (''saved'', JBool (lr_saved r)),
     (''bridgeModulePresent'', JBool (lr_bridgeModulePresent r)), (''recoveryCheckpointPath'', JStr (lr_recoveryCheckpointPath r)),
     (''warnings'', jstrs (lr_warnings r)), (''replayed'', JBool (lr_replayed r))]"

fun restore_json :: "restore_outcome \<Rightarrow> json" where
  "restore_json (RestorePreview p) = JObj ((''phase'', JStr ''preview'') # load_preview_members p)"
| "restore_json (Restored r) = JObj [(''phase'', JStr ''restored''), (''result'', load_json r)]"

section \<open>Listing patch files\<close>

record patch_file_entry =
  pe_path :: string
  pe_name :: string
  pe_sizeBytes :: nat
  pe_modified :: int
  pe_root :: patch_root

text \<open>A directory entry is its name with whether it is a file, its size and time, or \<open>None\<close> when
  looking at it fails; the listing is \<open>None\<close> when the directory cannot be read.\<close>

definition listRoot :: "(fs \<Rightarrow> string \<Rightarrow> (string \<times> (bool \<times> nat \<times> int) option) list option) \<Rightarrow> fspath \<Rightarrow> fs \<Rightarrow>
  string \<Rightarrow> patch_root \<Rightarrow> patch_file_entry list" where
  "listRoot readdir cwd f rawDir r = (let dir = canonicalRoot cwd rawDir f in case readdir f dir of None \<Rightarrow> []
     | Some entries \<Rightarrow> List.map_filter (\<lambda>(name, st). case st of
           Some (True, n, t) \<Rightarrow> Some \<lparr>pe_path = dir @ slash # name, pe_name = name, pe_sizeBytes = n,
             pe_modified = t, pe_root = r\<rparr>
         | _ \<Rightarrow> None)
       (filter (\<lambda>(name, st). ends_with (to_lower name) ''.vcv'') entries))"

text \<open>Newest first; \<open>sort\<close> is stable.\<close>

definition newest_first :: "patch_file_entry list \<Rightarrow> patch_file_entry list" where
  "newest_first xs = sort_key (\<lambda>e. - pe_modified e) xs"

text \<open>\<open>Number(text)\<close>.  A literal is kept exact, like every number of the model, also where a double
  would overflow.\<close>

definition to_number :: "string \<Rightarrow> js_number" where
  "to_number t = (let s = trim t in
     if s = ''Infinity'' \<or> s = ''+Infinity'' then PosInf else if s = ''-Infinity'' then NegInf
     else case js_number_of t of None \<Rightarrow> NaN
       | Some q \<Rightarrow> Fin q)"

definition cursor_start :: "string option \<Rightarrow> js_number" where
  "cursor_start c = (case c of None \<Rightarrow> Fin 0 | Some t \<Rightarrow> if t = [] then Fin 0 else to_number t)"

definition js_add :: "js_number \<Rightarrow> nat \<Rightarrow> js_number" where
  "js_add x n = (case x of Fin q \<Rightarrow> Fin (q + of_nat n) | _ \<Rightarrow> x)"

text \<open>An argument of \<open>slice\<close>: truncated towards zero, counted from the end when negative, clamped.\<close>

definition slice_index :: "nat \<Rightarrow> js_number \<Rightarrow> nat" where
  "slice_index len x = (case x of NaN \<Rightarrow> 0 | NegInf \<Rightarrow> 0 | PosInf \<Rightarrow> len
     | Fin q \<Rightarrow> (let i = (if q < 0 then \<lceil>q\<rceil> else \<lfloor>q\<rfloor>) in if i < 0 then nat (int len + i) else min (nat i) len))"

definition js_slice :: "'a list \<Rightarrow> js_number \<Rightarrow> js_number \<Rightarrow> 'a list" where
  "js_slice xs x y = (let i = slice_index (length xs) x in take (slice_index (length xs) y - i) (drop i xs))"

definition js_below :: "js_number \<Rightarrow> nat \<Rightarrow> bool" where
  "js_below x n = (case x of Fin q \<Rightarrow> q < of_nat n | NegInf \<Rightarrow> True | _ \<Rightarrow> False)"

definition js_number_str :: "js_number \<Rightarrow> string" where
  "js_number_str x = (case x of Fin q \<Rightarrow> num_json q | PosInf \<Rightarrow> ''Infinity'' | NegInf \<Rightarrow> ''-Infinity'' | NaN \<Rightarrow> ''NaN'')"

definition file_page :: "'a list \<Rightarrow> js_number \<Rightarrow> nat \<Rightarrow> 'a list \<times> string option" where
  "file_page files start limit = (js_slice files start (js_add start limit),
     if js_below (js_add start limit) (length files) then Some (js_number_str (js_add start limit)) else None)"

definition root_str :: "patch_root \<Rightarrow> string" where
  "root_str r = (case r of Patches \<Rightarrow> ''patches'' | Checkpoints \<Rightarrow> ''checkpoints'')"

definition file_entry_json :: "patch_file_entry \<Rightarrow> json" where
  "file_entry_json e = JObj [(''path'', JStr (pe_path e)), (''name'', JStr (pe_name e)), (''sizeBytes'', jnat (pe_sizeBytes e)),
     (''modifiedAt'', JStr (toISOString (pe_modified e))), (''root'', JStr (root_str (pe_root e)))]"

definition listed_files :: "'w tool_deps \<Rightarrow> patch_root option \<Rightarrow> fs \<Rightarrow> patch_file_entry list" where
  "listed_files d which f = (let cfg = pd_roots (td_pf d); ls = listRoot (td_readdir d) (working_dir cfg) f in
     newest_first ((if which = Some Patches \<or> which = None then ls (patchesDir cfg) Patches else []) @
       (if which = Some Checkpoints \<or> which = None then ls (checkpointsDir cfg) Checkpoints else [])))"

definition listPatchFiles :: "'w tool_deps \<Rightarrow> patch_root option \<Rightarrow> string option \<Rightarrow> nat option \<Rightarrow> ('w, json) tool" where
  "listPatchFiles d which cursor limit = gets (\<lambda>s. let cfg = pd_roots (td_pf d);
     (page, next_cursor) = file_page (listed_files d which (sh_fs s)) (cursor_start cursor) (case limit of None \<Rightarrow> 100 | Some n \<Rightarrow> n) in
     JObj [(''files'', JArr (map file_entry_json page)), (''nextCursor'', jopt JStr next_cursor),
       (''roots'', JObj [(''patches'', JStr (canonicalRoot (working_dir cfg) (patchesDir cfg) (sh_fs s))),
         (''checkpoints'', JStr (canonicalRoot (working_dir cfg) (checkpointsDir cfg) (sh_fs s)))])])"

section \<open>Connection and discovery\<close>

definition listRackInstances :: "'w tool_deps \<Rightarrow> ('w, json) tool" where
  "listRackInstances d = gets (\<lambda>s. JObj [(''discoveryDir'', JStr (cd_discoveryDir (td_conn d))),
     (''instances'', listInstanceSummaries (td_conn d) (the_conn s))])"

definition selectRackInstance :: "'w tool_deps \<Rightarrow> string \<Rightarrow> ('w, json) tool" where
  "selectRackInstance d instanceId = andthen (on_conn (select_instance (td_fuel d) (td_conn d) instanceId)) (
     bind (tool_request d ''status.get'' (JObj [])) (\<lambda>status.
     ret (JObj [(''status'', mapStatus status), (''connected'', JBool True)])))"

definition serverInfo :: "'w tool_deps \<Rightarrow> (string \<times> json) list" where
  "serverInfo d = [(''serverVersion'', JStr (td_serverVersion d)), (''bridgeProtocolVersion'', jint BRIDGE_PROTOCOL_VERSION),
     (''supportedRackVersions'', jstrs [''2.6.6''])]"

definition truthy :: "json option \<Rightarrow> json option" where
  "truthy x = (if x = Some JNull \<or> x = Some (JBool False) \<or> x = Some (JNum 0) \<or> x = Some (JStr []) then None else x)"

definition getRackStatus :: "'w tool_deps \<Rightarrow> ('w, json) tool" where
  "getRackStatus d = bind (gets the_conn) (\<lambda>c. case (if is_connected c then cn_selected c else None) of
       None \<Rightarrow> ret (JObj [(''status'', JNull), (''connected'', JBool False),
         (''selectedInstanceId'', jopt (\<lambda>x. JStr (sl_instanceId x)) (cn_selected c)), (''userNotesPending'', JBool False),
         (''server'', JObj (serverInfo d))])
     | Some selected \<Rightarrow>
         bind (tool_request d ''status.get'' (JObj [])) (\<lambda>status.
         bind (catch_exn (bind (tool_request d ''metrics.get'' (JObj [])) (\<lambda>m. ret (Some m))) (\<lambda>_. ret None)) (\<lambda>metrics.
         bind (gets (\<lambda>s. hasPendingUserNotes (the_conn s))) (\<lambda>pending.
         ret (JObj [(''status'', mapStatus status), (''connected'', JBool True),
           (''selectedInstanceId'', JStr (sl_instanceId selected)), (''userNotesPending'', JBool pending),
           (''server'', JObj (serverInfo d @ opt_member ''metrics'' (truthy metrics)))])))))"

definition acquireWriterLease :: "'w tool_deps \<Rightarrow> ('w, json) tool" where
  "acquireWriterLease d = bind (on_conn (acquireLease (td_fuel d) (td_conn d))) (\<lambda>res.
     ret (JObj (opt_member ''leaseId'' (member res ''leaseId'') @ opt_member ''expiresInMs'' (member res ''expiresInMs''))))"

definition releaseWriterLease :: "'w tool_deps \<Rightarrow> ('w, json) tool" where
  "releaseWriterLease d = bind (on_conn (releaseLease (td_fuel d) (td_conn d))) (\<lambda>r. ret (JObj [(''released'', JBool r)]))"

section \<open>Catalog and inspection\<close>

definition listInstalledModels :: "'w tool_deps \<Rightarrow> string option \<Rightarrow> nat option \<Rightarrow> string option \<Rightarrow> ('w, json) tool" where
  "listInstalledModels d cursor limit query = tool_request d ''catalog.listModels'' (JObj (
     opt_member ''cursor'' (map_option JStr cursor) @ [(''limit'', jnat (case limit of None \<Rightarrow> 100 | Some n \<Rightarrow> n))] @
     opt_member ''query'' (map_option JStr query)))"

definition inspectModel :: "'w tool_deps \<Rightarrow> string \<Rightarrow> string \<Rightarrow> ('w, json) tool" where
  "inspectModel d pluginSlug modelSlug =
     bind (tool_request d ''catalog.inspectModel'' (JObj [(''pluginSlug'', JStr pluginSlug), (''modelSlug'', JStr modelSlug)])) (\<lambda>meta.
     let adapter = getAdapter pluginSlug modelSlug in
     ret (spread meta [(''adapterAvailable'', JBool (adapter \<noteq> None)),
       (''adapterVersionRange'', jopt (\<lambda>a. JStr (ad_pluginVersionRange a)) adapter)]))"

definition epoch_member :: "int option \<Rightarrow> (string \<times> json) list" where
  "epoch_member e = opt_member ''expectedPatchEpoch'' (map_option jint e)"

definition getPatchSnapshot :: "'w tool_deps \<Rightarrow> bool option \<Rightarrow> int option \<Rightarrow> ('w, json) tool" where
  "getPatchSnapshot d includeOpaqueState e = tool_request d ''patch.snapshot''
     (JObj ((''includeOpaqueState'', JBool (includeOpaqueState = Some True)) # epoch_member e))"

text \<open>\<open>res.module\<close>, whose members are read next, so that it must be neither undefined nor null; and a slug
  of it read with \<open>String(x ?? "")\<close>.\<close>

definition module_of :: "string \<Rightarrow> json \<Rightarrow> ('w, json) tool" where
  "module_of k res = (case member res ''module'' of None \<Rightarrow> throw (Some (nothing_to_read ''undefined'' k))
     | Some m \<Rightarrow> if m = JNull then throw (Some (nothing_to_read ''null'' k)) else ret m)"

definition text_member :: "json \<Rightarrow> string \<Rightarrow> string" where
  "text_member m k = (case member m k of None \<Rightarrow> [] | Some JNull \<Rightarrow> [] | Some j \<Rightarrow> js_text j)"

definition inspectModule :: "'w tool_deps \<Rightarrow> string \<Rightarrow> bool option \<Rightarrow> int option \<Rightarrow> ('w, json) tool" where
  "inspectModule d moduleId includeOpaqueState e = bind (ensure d) (\<lambda>sel.
     bind (tool_request d ''module.inspect'' (JObj ([(''scope'', scope_json sel), (''moduleId'', JStr moduleId),
       (''includeOpaqueState'', JBool (includeOpaqueState = Some True))] @ epoch_member e))) (\<lambda>res.
     bind (module_of ''pluginSlug'' res) (\<lambda>m.
     let available = hasAdapter (text_member m ''pluginSlug'') (text_member m ''modelSlug'') in
     ret (JObj [(''module'', m), (''adapterAvailable'', JBool available),
       (''semanticsConfidence'', JStr (if available then ''adapter'' else ''none''))]))))"

definition params_of :: "json \<Rightarrow> ('w, json list) tool" where
  "params_of m = (case member m ''params'' of Some (JArr xs) \<Rightarrow> ret xs | None \<Rightarrow> ret [] | Some JNull \<Rightarrow> ret []
     | _ \<Rightarrow> throw (Some (PlainErr ''params.find is not a function'')))"

definition param_role :: "json \<Rightarrow> nat \<Rightarrow> string option" where
  "param_role m paramId = (case getAdapter (text_member m ''pluginSlug'') (text_member m ''modelSlug'') of None \<Rightarrow> None
     | Some a \<Rightarrow> map_option ps_role (find (\<lambda>p. ps_paramId p = paramId) (ad_params a)))"

definition no_param :: "string \<Rightarrow> nat \<Rightarrow> exn" where
  "no_param moduleId paramId = tool_error PARAMETER_NOT_FOUND (''module '' @ moduleId @ '' has no param '' @ nat_str paramId)"

definition inspectParameter :: "'w tool_deps \<Rightarrow> string \<Rightarrow> nat \<Rightarrow> int option \<Rightarrow> ('w, json) tool" where
  "inspectParameter d moduleId paramId e = bind (ensure d) (\<lambda>sel.
     bind (tool_request d ''module.inspect'' (JObj ([(''scope'', scope_json sel), (''moduleId'', JStr moduleId)] @ epoch_member e)))
       (\<lambda>res.
     bind (module_of ''params'' res) (\<lambda>m.
     bind (params_of m) (\<lambda>params.
     case find (\<lambda>p. member p ''paramId'' = Some (jnat paramId)) params of
       None \<Rightarrow> throw (Some (no_param moduleId paramId))
     | Some p \<Rightarrow> let r = (if param_role m paramId = Some [] then None else param_role m paramId) in
         ret (JObj [(''param'', p), (''moduleId'', JStr moduleId), (''adapterRole'', jopt JStr (param_role m paramId)),
           (''semanticsConfidence'', JStr (if r = None then ''none'' else ''adapter''))])))))"

definition analysed :: "'w tool_deps \<Rightarrow> int option \<Rightarrow> (snapshot \<Rightarrow> json) \<Rightarrow> ('w, json) tool" where
  "analysed d e f = bind (tool_request d ''patch.snapshot'' (JObj ((''includeOpaqueState'', JBool False) # epoch_member e)))
     (\<lambda>j. ret (f (td_asSnapshot d j)))"

section \<open>Mutation\<close>

definition previewPatchTransaction :: "'w tool_deps \<Rightarrow> string \<Rightarrow> patch_operation list \<Rightarrow> string option \<Rightarrow> int option \<Rightarrow> ('w, json) tool" where
  "previewPatchTransaction d label operations fingerprint e = bind (ensure d) (\<lambda>sel.
     bind (on_txn (preview (td_txn d) (td_mac d) label operations (as_instance sel) \<lparr>ex_fingerprint = fingerprint, ex_patchEpoch = e\<rparr>))
       (\<lambda>p. ret (previewed_json p)))"

definition commitPatchTransaction :: "'w tool_deps \<Rightarrow> string \<Rightarrow> string \<Rightarrow> string \<Rightarrow> string option \<Rightarrow> ('w, json) tool" where
  "commitPatchTransaction d operationId planHash expectedFingerprint confirmationToken = bind (ensure d) (\<lambda>sel.
     on_txn (commit (td_txn d) (td_mac d) (commit_args_of sel operationId planHash expectedFingerprint confirmationToken)))"

definition build_with :: "'w tool_deps \<Rightarrow> selection \<Rightarrow> string \<Rightarrow> patch_operation list \<Rightarrow> bool option \<Rightarrow> string \<Rightarrow> int option \<Rightarrow>
  ('w, build_result) tool" where
  "build_with d sel label operations autoCommit operationId e = on_txn (previewAndMaybeCommit (td_txn d) (td_mac d)
     (as_instance sel) label operations (autoCommit \<noteq> Some False) operationId e)"

definition buildPatch :: "'w tool_deps \<Rightarrow> string \<Rightarrow> patch_operation list \<Rightarrow> bool option \<Rightarrow> string \<Rightarrow> int option \<Rightarrow> ('w, json) tool" where
  "buildPatch d label operations autoCommit operationId e = bind (ensure d) (\<lambda>sel.
     bind (build_with d sel label operations autoCommit operationId e) (\<lambda>b. ret (JObj (build_members b))))"

definition no_recipe :: "string \<Rightarrow> exn" where
  "no_recipe recipeId = tool_error_retry BAD_REQUEST (''no recipe with id '' @ [CHR 0x22] @ recipeId @ [CHR 0x22] @
     ''; see rack://recipes for the available ids'') True"

definition recipe_members :: "string \<Rightarrow> recipe_resolution \<Rightarrow> catalog_scan \<Rightarrow> (string \<times> json) list" where
  "recipe_members recipeId r scan = [(''recipeId'', JStr recipeId), (''resolution'', resolution_json r),
     (''catalogComplete'', JBool (sc_complete scan))]"

definition buildRecipe :: "'w tool_deps \<Rightarrow> string \<Rightarrow> string option \<Rightarrow> bool option \<Rightarrow> string \<Rightarrow> int option \<Rightarrow> ('w, json) tool" where
  "buildRecipe d recipeId label autoCommit operationId e = (case getRecipe recipeId of
     None \<Rightarrow> throw (Some (no_recipe recipeId))
   | Some recipe \<Rightarrow> bind (ensure d) (\<lambda>sel.
       bind (scanInstalledModels d) (\<lambda>scan.
       let r = resolveRecipe recipe (sc_models scan) in
       if \<not> rr_resolved r then ret (JObj ((''phase'', JStr ''unresolved'') # recipe_members recipeId r scan))
       else case expandRecipeOperations recipe r of
         Inl msg \<Rightarrow> throw (Some (PlainErr msg))
       | Inr operations \<Rightarrow>
           bind (build_with d sel (case label of None \<Rightarrow> rc_name recipe | Some l \<Rightarrow> l) operations autoCommit operationId e)
             (\<lambda>b. ret (JObj (build_members b @ recipe_members recipeId r scan))))))"

definition undoLastMcpTransaction :: "'w tool_deps \<Rightarrow> string \<Rightarrow> ('w, json) tool" where
  "undoLastMcpTransaction d operationId = bind (ensure d) (\<lambda>sel.
     andthen (on_conn (ensureLease (td_fuel d) (td_conn d))) (
     bind (\<lambda>s. let (u, t) = td_randomUUID d s in (Inr u, t)) (\<lambda>undoOperationId.
     bind (request_op d ''txn.undoLast'' (JObj [(''scope'', scope_json sel), (''expectedOperationId'', JStr operationId),
       (''operationId'', JStr undoOperationId)]) (Some undoOperationId)) (\<lambda>res.
     ret (JObj ([(''undone'', JBool True), (''undoneOperationId'', JStr operationId)] @
       opt_member ''newFingerprint'' (member res ''newFingerprint'') @ opt_member ''patchEpoch'' (member res ''patchEpoch'')))))))"

section \<open>The dispatch\<close>

datatype tool_call =
    ListRackInstances
  | SelectRackInstance string
  | GetRackStatus
  | AcquireWriterLease
  | ReleaseWriterLease
  | ListInstalledModels "string option" "nat option" "string option"
  | InspectModel string string
  | GetPatchSnapshot "bool option" "int option"
  | InspectModule string "bool option" "int option"
  | InspectParameter string nat "int option"
  | DescribePatch "int option"
  | ValidatePatch "int option"
  | PreviewPatchTransaction string "patch_operation list" "string option" "int option"
  | CommitPatchTransaction string string string "string option"
  | UndoLastMcpTransaction string
  | BuildPatch string "patch_operation list" "bool option" string "int option"
  | BuildRecipe string "string option" "bool option" string "int option"
  | ListPatchFiles "patch_root option" "string option" "nat option"
  | CreateCheckpoint "string option" string
  | SavePatchTo "string option" string
  | PreviewLoadPatch string
  | CommitLoadPatch string string
  | PreviewClearPatch
  | CommitClearPatch string string
  | RestoreCheckpoint string "string option" string
  | ListProbes
  | PreviewAttachProbe port_ref "(string \<times> nat) option" "int option"
  | CommitAttachProbe string string string "string option"
  | ReadProbe string nat
  | ReadUserNotes "nat option"
  | PostChatMessage string "nat option"
  | DetachProbe string nat string "int option"

fun tool_name :: "tool_call \<Rightarrow> string" where
  "tool_name ListRackInstances = ''list_rack_instances''"
| "tool_name (SelectRackInstance _) = ''select_rack_instance''"
| "tool_name GetRackStatus = ''get_rack_status''"
| "tool_name AcquireWriterLease = ''acquire_writer_lease''"
| "tool_name ReleaseWriterLease = ''release_writer_lease''"
| "tool_name (ListInstalledModels _ _ _) = ''list_installed_models''"
| "tool_name (InspectModel _ _) = ''inspect_model''"
| "tool_name (GetPatchSnapshot _ _) = ''get_patch_snapshot''"
| "tool_name (InspectModule _ _ _) = ''inspect_module''"
| "tool_name (InspectParameter _ _ _) = ''inspect_parameter''"
| "tool_name (DescribePatch _) = ''describe_patch''"
| "tool_name (ValidatePatch _) = ''validate_patch''"
| "tool_name (PreviewPatchTransaction _ _ _ _) = ''preview_patch_transaction''"
| "tool_name (CommitPatchTransaction _ _ _ _) = ''commit_patch_transaction''"
| "tool_name (UndoLastMcpTransaction _) = ''undo_last_mcp_transaction''"
| "tool_name (BuildPatch _ _ _ _ _) = ''build_patch''"
| "tool_name (BuildRecipe _ _ _ _ _) = ''build_recipe''"
| "tool_name (ListPatchFiles _ _ _) = ''list_patch_files''"
| "tool_name (CreateCheckpoint _ _) = ''create_checkpoint''"
| "tool_name (SavePatchTo _ _) = ''save_patch''"
| "tool_name (PreviewLoadPatch _) = ''preview_load_patch''"
| "tool_name (CommitLoadPatch _ _) = ''commit_load_patch''"
| "tool_name PreviewClearPatch = ''preview_clear_patch''"
| "tool_name (CommitClearPatch _ _) = ''commit_clear_patch''"
| "tool_name (RestoreCheckpoint _ _ _) = ''restore_checkpoint''"
| "tool_name ListProbes = ''list_probes''"
| "tool_name (PreviewAttachProbe _ _ _) = ''preview_attach_probe''"
| "tool_name (CommitAttachProbe _ _ _ _) = ''commit_attach_probe''"
| "tool_name (ReadProbe _ _) = ''read_probe''"
| "tool_name (ReadUserNotes _) = ''read_user_notes''"
| "tool_name (PostChatMessage _ _) = ''post_chat_message''"
| "tool_name (DetachProbe _ _ _ _) = ''detach_probe''"

text \<open>\<open>HANDLERS\<close>.\<close>

fun handle :: "'w tool_deps \<Rightarrow> tool_call \<Rightarrow> ('w, json) tool" where
  "handle d ListRackInstances = listRackInstances d"
| "handle d (SelectRackInstance i) = selectRackInstance d i"
| "handle d GetRackStatus = getRackStatus d"
| "handle d AcquireWriterLease = acquireWriterLease d"
| "handle d ReleaseWriterLease = releaseWriterLease d"
| "handle d (ListInstalledModels c n q) = listInstalledModels d c n q"
| "handle d (InspectModel p m) = inspectModel d p m"
| "handle d (GetPatchSnapshot b e) = getPatchSnapshot d b e"
| "handle d (InspectModule m b e) = inspectModule d m b e"
| "handle d (InspectParameter m p e) = inspectParameter d m p e"
| "handle d (DescribePatch e) = analysed d e (\<lambda>s. description_json (describePatch s))"
| "handle d (ValidatePatch e) = analysed d e (\<lambda>s. report_json (validatePatch s))"
| "handle d (PreviewPatchTransaction l ops f e) = previewPatchTransaction d l ops f e"
| "handle d (CommitPatchTransaction i h f t) = commitPatchTransaction d i h f t"
| "handle d (UndoLastMcpTransaction i) = undoLastMcpTransaction d i"
| "handle d (BuildPatch l ops a i e) = buildPatch d l ops a i e"
| "handle d (BuildRecipe r l a i e) = buildRecipe d r l a i e"
| "handle d (ListPatchFiles r c n) = listPatchFiles d r c n"
| "handle d (CreateCheckpoint l i) = bind (on_pf (createCheckpoint (td_pf d) l i)) (\<lambda>r. ret (checkpoint_json r))"
| "handle d (SavePatchTo p i) = bind (on_pf (savePatch (td_pf d) p i)) (\<lambda>r. ret (save_json r))"
| "handle d (PreviewLoadPatch p) = bind (on_pf (previewLoadPatch (td_pf d) p)) (\<lambda>r. ret (JObj (load_preview_members r)))"
| "handle d (CommitLoadPatch t i) = bind (on_pf (commitLoadPatch (td_pf d) t i)) (\<lambda>r. ret (load_json r))"
| "handle d PreviewClearPatch = bind (on_pf (previewClearPatch (td_pf d))) (\<lambda>r. ret (JObj (load_preview_members r)))"
| "handle d (CommitClearPatch t i) = bind (on_pf (commitClearPatch (td_pf d) t i)) (\<lambda>r. ret (load_json r))"
| "handle d (RestoreCheckpoint p t i) = bind (on_pf (restoreCheckpoint (td_pf d) p t i)) (\<lambda>r. ret (restore_json r))"
| "handle d ListProbes = listProbes d"
| "handle d (PreviewAttachProbe p x e) = previewAttachProbe d p x e"
| "handle d (CommitAttachProbe i h f t) = commitAttachProbe d i h f t"
| "handle d (ReadProbe m p) = readProbe d m p"
| "handle d (ReadUserNotes n) = readUserNotes d n"
| "handle d (PostChatMessage x n) = postChatMessage d x n"
| "handle d (DetachProbe m p i e) = detachProbe d m p i e"

section \<open>Following the pages\<close>

lemma digit_not: "digit c \<Longrightarrow> \<not> blank_char c \<and> c \<notin> set ''xXoObB+-I''"
  by (auto simp: digit_def blank_char_def)

lemma trim_digits: "all_digits s \<Longrightarrow> trim s = s"
proof -
  assume a: "all_digits s"
  have "dropWhile blank_char t = t" if "t \<noteq> []" "list_all digit t" for t
    using that digit_not by (cases t) auto
  from this [of s] this [of "rev s"] a show ?thesis by (simp add: trim_def all_digits_def)
qed

lemma js_number_of_digits: "all_digits s \<Longrightarrow> js_number_of s = Some (of_nat (digits_val s))"
proof -
  assume a: "all_digits s"
  then obtain c r where s: "s = c # r" "digit c" "list_all digit r" by (cases s) (auto simp: all_digits_def)
  have "prefixed s = None"
  proof (cases r)
    case (Cons x t)
    then show ?thesis using s digit_not [of x] by (simp add: prefixed_def Let_def)
  qed (simp add: s prefixed_def)
  moreover have w: "takeWhile digit s = s" "dropWhile digit s = []" using s by (simp_all add: list_all_iff)
  have "s \<noteq> []" using s by simp
  then have "decimal_of s = Some (of_nat (digits_val s))"
    unfolding decimal_of_def w Let_def by (simp add: exponent_of_def scaled_def)
  ultimately show ?thesis using a s digit_not [of c] by (simp add: js_number_of_def trim_digits)
qed

lemma cursor_nat_str: "cursor_start (Some (nat_str n)) = Fin (of_nat n)"
proof -
  note d = nat_str_digits [of n]
  have "nat_str n \<noteq> ''Infinity''" "nat_str n \<noteq> ''+Infinity''" "nat_str n \<noteq> ''-Infinity''"
    using d by (auto simp: all_digits_def digit_def)
  then show ?thesis
    by (simp add: cursor_start_def to_number_def nat_str_nonempty trim_digits [OF d] js_number_of_digits [OF d]
        digits_val_nat_str)
qed

lemma page_at:
  "file_page files (Fin (of_nat n)) limit =
    (take limit (drop n files), if n + limit < length files then Some (nat_str (n + limit)) else None)"
proof -
  have sum: "js_add (Fin (of_nat n)) limit = Fin (of_nat (n + limit))" by (simp add: js_add_def)
  have ix: "slice_index (length files) (Fin (of_nat m)) = min m (length files)" for m by (simp add: slice_index_def Let_def)
  have num: "num_json (of_nat m) = nat_str m" for m using num_json_int [of "int m"] by (simp add: int_str_def)
  show ?thesis unfolding file_page_def sum js_slice_def ix
    by (simp add: Let_def js_below_def js_number_str_def num del: of_nat_add) (auto simp: min_def)
qed

text \<open>What a client collects that calls the tool at most \<open>k\<close> times, each time with the cursor it was given.\<close>

definition page_files :: "json \<Rightarrow> json list" where
  "page_files j = (case member j ''files'' of Some (JArr xs) \<Rightarrow> xs | _ \<Rightarrow> [])"

fun follow :: "nat \<Rightarrow> (string option \<Rightarrow> ('w, json) tool) \<Rightarrow> string option \<Rightarrow> 'w server \<Rightarrow> json list" where
  "follow 0 ask c s = []"
| "follow (Suc k) ask c s = (case ask c s of (Inl e, t) \<Rightarrow> []
     | (Inr j, t) \<Rightarrow> page_files j @ (case member_str ''nextCursor'' j of None \<Rightarrow> [] | Some n \<Rightarrow> follow k ask (Some n) t))"

lemma list_page:
  "cursor_start c = Fin (of_nat n) \<Longrightarrow> listPatchFiles d which c (Some limit) s = (Inr j, t) \<Longrightarrow>
    t = s \<and> page_files j = map file_entry_json (take limit (drop n (listed_files d which (sh_fs s)))) \<and>
    member_str ''nextCursor'' j = (if n + limit < length (listed_files d which (sh_fs s)) then Some (nat_str (n + limit)) else None)"
  by (auto simp: listPatchFiles_def gets_def page_at page_files_def member_def member_str_def jopt_def Let_def map_get_Cons
      split: if_splits)

lemma list_total: "\<exists>j. listPatchFiles d which c (Some limit) s = (Inr j, s)"
  by (simp add: listPatchFiles_def gets_def)

lemma follow_from:
  "0 < limit \<Longrightarrow> cursor_start c = Fin (of_nat n) \<Longrightarrow> length (listed_files d which (sh_fs s)) \<le> n + Suc k * limit \<Longrightarrow>
    follow (Suc k) (\<lambda>c. listPatchFiles d which c (Some limit)) c s = map file_entry_json (drop n (listed_files d which (sh_fs s)))"
proof (induction k arbitrary: n c)
  case 0
  obtain j where j: "listPatchFiles d which c (Some limit) s = (Inr j, s)" using list_total by blast
  show ?case using 0 list_page [OF 0(2) j] j by simp
next
  case (Suc k)
  obtain j where j: "listPatchFiles d which c (Some limit) s = (Inr j, s)" using list_total by blast
  note p = list_page [OF Suc.prems(2) j]
  show ?case
  proof (cases "n + limit < length (listed_files d which (sh_fs s))")
    case True
    have "follow (Suc k) (\<lambda>c. listPatchFiles d which c (Some limit)) (Some (nat_str (n + limit))) s =
        map file_entry_json (drop (n + limit) (listed_files d which (sh_fs s)))"
      using Suc.prems by (intro Suc.IH) (simp_all add: cursor_nat_str)
    then show ?thesis using p True j unfolding follow.simps(2) [of "Suc k"]
      by (simp add: flip: map_append del: follow.simps) (metis append_take_drop_id drop_drop add.commute)
  next
    case False
    then show ?thesis using p j by simp
  qed
qed

text \<open>C36: a client that follows the cursors of the patch file listing collects every listed file
  exactly once, newest first, whatever page size it chose, in as many calls as pages.\<close>

theorem list_pages_complete:
  assumes "0 < limit" and "length (listed_files d which (sh_fs s)) \<le> Suc k * limit"
  shows "follow (Suc k) (\<lambda>c. listPatchFiles d which c (Some limit)) None s = map file_entry_json (listed_files d which (sh_fs s)) \<and>
    sorted (map (\<lambda>e. - pe_modified e) (listed_files d which (sh_fs s)))"
proof (rule conjI)
  show "follow (Suc k) (\<lambda>c. listPatchFiles d which c (Some limit)) None s = map file_entry_json (listed_files d which (sh_fs s))"
    using follow_from [OF assms(1), of None 0 d which s k] assms(2) by (simp add: cursor_start_def del: follow.simps)
  show "sorted (map (\<lambda>e. - pe_modified e) (listed_files d which (sh_fs s)))"
    unfolding listed_files_def newest_first_def Let_def by (rule sorted_sort_key)
qed

lemma list_pages_complete_witness:
  "\<forall>(d :: 'w tool_deps) s. let d' = d\<lparr>td_readdir := (\<lambda>f p. Some [(''a.vcv'', Some (True, 1, 5)), (''b.vcv'', Some (True, 2, 9))])\<rparr> in
    follow (Suc 1) (\<lambda>c. listPatchFiles d' (Some Patches) c (Some 1)) None s = map file_entry_json (listed_files d' (Some Patches) (sh_fs s))"
proof (unfold Let_def, intro allI)
  fix d :: "'w tool_deps" and s :: "'w server"
  let ?d = "d\<lparr>td_readdir := (\<lambda>f p. Some [(''a.vcv'', Some (True, 1, 5)), (''b.vcv'', Some (True, 2, 9))])\<rparr>"
  have l: "(0 :: nat) < 1" by simp
  have n: "length (listed_files ?d (Some Patches) (sh_fs s)) \<le> Suc 1 * 1"
    by (simp add: listed_files_def listRoot_def newest_first_def Let_def map_filter_simps to_lower_def ends_with_def)
  show "follow (Suc 1) (\<lambda>c. listPatchFiles ?d (Some Patches) c (Some 1)) None s = map file_entry_json (listed_files ?d (Some Patches) (sh_fs s))"
    by (rule conjunct1 [OF list_pages_complete [OF l n]])
qed

end
