(* ===== verification/ToolSafety.thy ===== *)
theory ToolSafety
  imports Tools
begin

text \<open>
  What the tools guarantee together: a read-only tool depends on no mutating operation of the
  plugin, every handler is registered, and what the attachment of a probe may commit.
\<close>

section \<open>Annotations\<close>

definition mutating :: "string \<Rightarrow> bool" where
  "mutating m = (case map_of BRIDGE_METHODS m of Some s \<Rightarrow> bm_mutating s | None \<Rightarrow> True)"

definition annotations_of :: "tool_call \<Rightarrow> tool_annotations option" where
  "annotations_of c = map_option ts_annotations (getTool (tool_name c))"

definition read_only :: "tool_call \<Rightarrow> bool" where
  "read_only c = (case annotations_of c of Some a \<Rightarrow> ta_readOnlyHint a | None \<Rightarrow> False)"

lemmas tool_specs = T_list_rack_instances_def T_select_rack_instance_def T_get_rack_status_def T_acquire_writer_lease_def
  T_release_writer_lease_def T_list_installed_models_def T_inspect_model_def T_get_patch_snapshot_def T_inspect_module_def
  T_inspect_parameter_def T_describe_patch_def T_validate_patch_def T_preview_patch_transaction_def
  T_commit_patch_transaction_def T_undo_last_mcp_transaction_def T_build_patch_def T_build_recipe_def T_list_patch_files_def
  T_create_checkpoint_def T_save_patch_def T_preview_load_patch_def T_commit_load_patch_def T_preview_clear_patch_def
  T_commit_clear_patch_def T_restore_checkpoint_def T_list_probes_def T_preview_attach_probe_def T_commit_attach_probe_def
  T_read_probe_def T_read_user_notes_def T_post_chat_message_def T_detach_probe_def

definition ANNOTATIONS :: "(string \<times> tool_annotations) list" where
  "ANNOTATIONS = [(''list_rack_instances'', RO), (''select_rack_instance'', MUT False True), (''get_rack_status'', RO),
     (''acquire_writer_lease'', MUT False True), (''release_writer_lease'', MUT False True), (''list_installed_models'', RO),
     (''inspect_model'', RO), (''get_patch_snapshot'', RO), (''inspect_module'', RO), (''inspect_parameter'', RO),
     (''describe_patch'', RO), (''validate_patch'', RO), (''preview_patch_transaction'', RO),
     (''commit_patch_transaction'', MUT True True), (''undo_last_mcp_transaction'', MUT True True),
     (''build_patch'', MUT True True), (''build_recipe'', MUT True True), (''list_patch_files'', RO),
     (''create_checkpoint'', MUT False True), (''save_patch'', MUT True True), (''preview_load_patch'', RO),
     (''commit_load_patch'', MUT True True), (''preview_clear_patch'', RO), (''commit_clear_patch'', MUT True True),
     (''restore_checkpoint'', MUT True True), (''list_probes'', RO), (''preview_attach_probe'', RO),
     (''commit_attach_probe'', MUT False True), (''read_probe'', RO), (''read_user_notes'', RO),
     (''post_chat_message'', MUT False False), (''detach_probe'', MUT False True)]"

lemma annotations_table: "map (\<lambda>t. (ts_name t, ts_annotations t)) TOOLS = ANNOTATIONS"
  by (simp add: TOOLS_def tool_specs ANNOTATIONS_def MUT_def)

lemma find_map_of: "map_option f (find (\<lambda>t. g t = n) ts) = map_of (map (\<lambda>t. (g t, f t)) ts) n"
  by (induction ts) auto

lemma annotations_lookup: "annotations_of c = map_of ANNOTATIONS (tool_name c)"
  by (simp add: annotations_of_def getTool_def find_map_of annotations_table)

lemma read_only_calls:
  "read_only c \<Longrightarrow> (case c of
     ListRackInstances \<Rightarrow> True | GetRackStatus \<Rightarrow> True | ListInstalledModels _ _ _ \<Rightarrow> True | InspectModel _ _ \<Rightarrow> True
   | GetPatchSnapshot _ _ \<Rightarrow> True | InspectModule _ _ _ \<Rightarrow> True | InspectParameter _ _ _ \<Rightarrow> True | DescribePatch _ \<Rightarrow> True
   | ValidatePatch _ \<Rightarrow> True | PreviewPatchTransaction _ _ _ _ \<Rightarrow> True | ListPatchFiles _ _ _ \<Rightarrow> True | PreviewLoadPatch _ \<Rightarrow> True
   | PreviewClearPatch \<Rightarrow> True | ListProbes \<Rightarrow> True | PreviewAttachProbe _ _ _ \<Rightarrow> True | ReadProbe _ _ \<Rightarrow> True
   | ReadUserNotes _ \<Rightarrow> True | _ \<Rightarrow> False)"
  by (cases c) (simp_all add: read_only_def annotations_lookup ANNOTATIONS_def MUT_def)

section \<open>Read-only tools\<close>

text \<open>Two bridges that agree on every operation that is not mutating.\<close>

definition same_reads :: "'w tool_deps \<Rightarrow> 'w tool_deps \<Rightarrow> bool" where
  "same_reads d d' \<longleftrightarrow> (\<exists>q c l r e. (\<forall>i m. \<not> mutating m \<longrightarrow> q i m = cd_request (td_conn d) i m) \<and>
     d' = d\<lparr>td_conn := (td_conn d)\<lparr>cd_request := q\<rparr>, td_txn := (td_txn d)\<lparr>d_commit := c, d_ensureLease := l\<rparr>,
       td_pf := (td_pf d)\<lparr>pd_request := r, pd_ensureLease := e\<rparr>\<rparr>)"

lemmas branch_cong = option.case_cong if_cong sum.case_cong prod.case_cong

lemma list_agrees: "listInstances (cd\<lparr>cd_request := q\<rparr>) = listInstances cd"
  by (intro ext) (simp add: listInstances_def)

lemma open_agrees: "open_session (cd\<lparr>cd_request := q\<rparr>) = open_session cd"
  by (intro ext) (simp add: open_session_def)

lemma connect_agrees: "connectTo (cd\<lparr>cd_request := q\<rparr>) = connectTo cd"
  by (intro ext) (simp add: connectTo_def list_agrees open_agrees cong: branch_cong)

lemma clock_agrees: "clock (cd\<lparr>cd_request := q\<rparr>) = clock cd"
  by (intro ext) (simp add: clock_def)

lemma select_agrees: "select_by w (cd\<lparr>cd_request := q\<rparr>) = select_by w cd"
  by (intro ext) (simp add: select_by_def connect_agrees clock_agrees)

lemma ensure_agrees: "ensure_by w (cd\<lparr>cd_request := q\<rparr>) = ensure_by w cd"
  by (intro ext) (simp add: ensure_by_def list_agrees select_agrees cong: branch_cong)

lemma over_session_agrees:
  assumes "\<And>i. q i m = cd_request cd i m"
  shows "over_session (cd\<lparr>cd_request := q\<rparr>) m = over_session cd m"
  by (intro ext) (simp add: over_session_def assms cong: branch_cong)

lemma request_by_agrees:
  assumes "\<And>i. q i m = cd_request cd i m"
  shows "request_by w (cd\<lparr>cd_request := q\<rparr>) m = request_by w cd m"
  by (intro ext) (simp add: request_by_def ensure_agrees over_session_agrees [where q = q and cd = cd and m = m, OF assms])

lemma wait_agrees:
  assumes "\<And>i. q i ''status.get'' = cd_request cd i ''status.get''"
  shows "wait_loop n (cd\<lparr>cd_request := q\<rparr>) = wait_loop n cd"
  by (induction n) (auto intro!: ext simp: request_by_agrees [where q = q and cd = cd and m = "''status.get''", OF assms] clock_agrees cong: branch_cong)

lemma not_mutating:
  "\<not> mutating ''status.get''" "\<not> mutating ''metrics.get''" "\<not> mutating ''patch.snapshot''"
  "\<not> mutating ''module.inspect''" "\<not> mutating ''catalog.listModels''" "\<not> mutating ''catalog.inspectModel''"
  "\<not> mutating ''probe.list''" "\<not> mutating ''probe.read''" "\<not> mutating ''chat.poll''"
  by (simp_all add: mutating_def BRIDGE_METHODS_def bridge_method_def)

definition reads_agree :: "'w conn_deps \<Rightarrow> (nat \<Rightarrow> string \<Rightarrow> json \<Rightarrow> string option \<Rightarrow> int \<Rightarrow> 'w conn \<Rightarrow> (exn + json) \<times> 'w conn) \<Rightarrow> bool" where
  "reads_agree cd q \<longleftrightarrow> (\<forall>i m. \<not> mutating m \<longrightarrow> q i m = cd_request cd i m)"

lemma conn_request_agrees:
  "reads_agree cd q \<Longrightarrow> \<not> mutating m \<Longrightarrow> conn_request n (cd\<lparr>cd_request := q\<rparr>) m = conn_request n cd m"
  by (intro ext) (simp add: conn_request_def reads_agree_def wait_agrees request_by_agrees not_mutating)

lemma ensureConnected_agrees: "reads_agree cd q \<Longrightarrow> ensureConnected n (cd\<lparr>cd_request := q\<rparr>) = ensureConnected n cd"
  by (simp add: ensureConnected_def reads_agree_def wait_agrees ensure_agrees not_mutating)

text \<open>A deployment over another bridge: the requests, the commit and lease calls of the transaction
  manager and of the patch files are replaced.\<close>

definition rebridged :: "'w tool_deps \<Rightarrow> _ \<Rightarrow> _ \<Rightarrow> _ \<Rightarrow> _ \<Rightarrow> _ \<Rightarrow> 'w tool_deps" where
  "rebridged d q c l r e = d\<lparr>td_conn := (td_conn d)\<lparr>cd_request := q\<rparr>, td_txn := (td_txn d)\<lparr>d_commit := c, d_ensureLease := l\<rparr>,
       td_pf := (td_pf d)\<lparr>pd_request := r, pd_ensureLease := e\<rparr>\<rparr>"

lemma preview_agrees: "preview (t\<lparr>d_commit := c, d_ensureLease := l\<rparr>) = preview t"
  by (intro ext) (simp add: preview_def segment_def)

lemma resolve_agrees: "resolve_in (p\<lparr>pd_request := r, pd_ensureLease := e\<rparr>) = resolve_in p"
  by (intro ext) (simp add: resolve_in_def)

lemma mint_agrees: "mint_in (p\<lparr>pd_request := r, pd_ensureLease := e\<rparr>) = mint_in p"
  by (intro ext) (simp add: mint_in_def)

lemma load_preview_agrees: "buildLoadPreview (p\<lparr>pd_request := r, pd_ensureLease := e\<rparr>) = buildLoadPreview p"
  by (intro ext) (simp add: buildLoadPreview_def resolve_agrees mint_agrees cong: branch_cong)

lemma tool_request_agrees:
  assumes "reads_agree (td_conn d) q" and "\<not> mutating m"
  shows "tool_request (rebridged d q c l r e) m = tool_request d m"
  by (intro ext) (simp add: tool_request_def request_op_def rebridged_def conn_request_agrees [OF assms])

lemma ensure_tool_agrees:
  assumes "reads_agree (td_conn d) q"
  shows "ensure (rebridged d q c l r e) = ensure d"
  by (simp add: ensure_def rebridged_def ensureConnected_agrees [OF assms])

lemma rebridged_fields [simp]:
  "td_fuel (rebridged d q c l r e) = td_fuel d" "td_mac (rebridged d q c l r e) = td_mac d"
  "td_serverVersion (rebridged d q c l r e) = td_serverVersion d" "td_asSnapshot (rebridged d q c l r e) = td_asSnapshot d"
  "td_asProbeSnapshot (rebridged d q c l r e) = td_asProbeSnapshot d" "td_readdir (rebridged d q c l r e) = td_readdir d"
  "pd_roots (td_pf (rebridged d q c l r e)) = pd_roots (td_pf d)"
  "listInstances (td_conn (rebridged d q c l r e)) = listInstances (td_conn d)"
  "cd_discoveryDir (td_conn (rebridged d q c l r e)) = cd_discoveryDir (td_conn d)"
  "preview (td_txn (rebridged d q c l r e)) = preview (td_txn d)"
  "previewLoadPatch (td_pf (rebridged d q c l r e)) = previewLoadPatch (td_pf d)"
  "previewClearPatch (td_pf (rebridged d q c l r e)) = previewClearPatch (td_pf d)"
  by (auto simp: rebridged_def list_agrees preview_agrees previewLoadPatch_def previewClearPatch_def resolve_agrees
      load_preview_agrees intro!: ext)

lemma listed_files_agrees [simp]: "listed_files (rebridged d q c l r e) = listed_files d"
  by (intro ext) (simp add: listed_files_def)

text \<open>C8: a tool whose annotations call it read-only depends on no mutating operation of the plugin:
  replace the plugin's answers and effects for every mutating method, the commit and the lease
  of the transaction manager, and the requests and the lease of the patch files by anything
  at all, and each of the seventeen tools returns the same result from every state and leaves
  the same state behind, errors and reconnections included.\<close>

theorem read_only_tools_never_mutate:
  assumes q: "reads_agree (td_conn d) q" and r: "read_only call"
  shows "handle (rebridged d q c l r e) call = handle d call"
proof -
  note agree = ensure_tool_agrees [OF q] tool_request_agrees [OF q] not_mutating listInstanceSummaries_def
  show ?thesis
    using read_only_calls [OF r]
    by (cases call; simp add: agree listRackInstances_def getRackStatus_def serverInfo_def listInstalledModels_def inspectModel_def
      getPatchSnapshot_def inspectModule_def inspectParameter_def analysed_def previewPatchTransaction_def listPatchFiles_def
      listProbes_def previewAttachProbe_def probe_snapshot_of_def readProbe_def readUserNotes_def
      cong: branch_cong)
qed

lemma read_only_tools_never_mutate_witness:
  "\<forall>d :: 'w tool_deps. handle (rebridged d (\<lambda>i m p oid t s. if mutating m then (Inr JNull, s\<lparr>cn_live := []\<rparr>)
      else cd_request (td_conn d) i m p oid t s) (\<lambda>q t w. (Inr JNull, w)) (\<lambda>w. (Inr (), w))
      (\<lambda>q op ms t. (Inl (PlainErr ''refused''), t)) (\<lambda>w. (Inr (), w))) (PreviewLoadPatch ''a.vcv'') =
    handle d (PreviewLoadPatch ''a.vcv'')"
proof
  fix d :: "'w tool_deps"
  have q: "reads_agree (td_conn d) (\<lambda>i m p oid t s. if mutating m then (Inr JNull, s\<lparr>cn_live := []\<rparr>)
      else cd_request (td_conn d) i m p oid t s)"
    by (simp add: reads_agree_def)
  have r: "read_only (PreviewLoadPatch ''a.vcv'')" by (simp add: read_only_def annotations_lookup ANNOTATIONS_def RO_def)
  show "handle (rebridged d (\<lambda>i m p oid t s. if mutating m then (Inr JNull, s\<lparr>cn_live := []\<rparr>)
      else cd_request (td_conn d) i m p oid t s) (\<lambda>q t w. (Inr JNull, w)) (\<lambda>w. (Inr (), w))
      (\<lambda>q op ms t. (Inl (PlainErr ''refused''), t)) (\<lambda>w. (Inr (), w))) (PreviewLoadPatch ''a.vcv'') =
    handle d (PreviewLoadPatch ''a.vcv'')"
    by (rule read_only_tools_never_mutate [OF q r])
qed

section \<open>Attaching\<close>

text \<open>What \<open>commit_attach_probe\<close> makes of a committed plan it did not preview.\<close>

definition attach_reply :: "string \<Rightarrow> (exn option + json) \<times> 'w server \<Rightarrow> (exn option + json) \<times> 'w server" where
  "attach_reply planHash o' = (case o' of (Inl e, s) \<Rightarrow> (Inl e, s)
     | (Inr c, s) \<Rightarrow> (Inr (JObj [(''commit'', c), (''probeModuleId'', JStr []), (''probeInputId'', JNum 0), (''cableId'', JStr [])]),
         s\<lparr>sh_world := (sh_world s)\<lparr>hb_attach := map_delete planHash (hb_attach (sh_world s))\<rparr>\<rparr>))"

lemma ensure_attach: "hb_attach (sh_world (snd (ensure d s))) = hb_attach (sh_world s)"
  by (simp add: ensure_def on_conn_def split: prod.split)

lemma empty_id_refused: "\<not> conforms fmt CommitAttachProbeOutput (JObj [(''commit'', c), (''probeModuleId'', JStr []), (''probeInputId'', JNum 0), (''cableId'', JStr [])])"
  by (simp add: CommitAttachProbeOutput_def schema_defs DecimalId_def DecimalId_ok_def)

lemma attach_annotations:
  "annotations_of (CommitAttachProbe i h f t) = Some (MUT False True)"
  "annotations_of (CommitPatchTransaction i h f t) = Some (MUT True True)"
  by (simp_all add: annotations_lookup ANNOTATIONS_def)

text \<open>C37: the tool that commits probe attachments commits every plan.  Given the hash of a plan it
  has not previewed itself, destructive or not, it does from every state exactly what the
  general commit does; but it is annotated as not destructive while the general commit is,
  and the reply it then gives violates its own output schema, with two empty ids.\<close>

theorem attach_commits_any_plan:
  assumes "map_get (hb_attach (sh_world s)) planHash = None"
  shows "handle d (CommitAttachProbe i planHash f t) s = attach_reply planHash (handle d (CommitPatchTransaction i planHash f t) s) \<and>
    (case handle d (CommitAttachProbe i planHash f t) s of (Inr j, s') \<Rightarrow> \<not> conforms fmt CommitAttachProbeOutput j | (Inl e, s') \<Rightarrow> True) \<and>
    map_option ta_destructiveHint (annotations_of (CommitAttachProbe i planHash f t)) = Some False \<and>
    map_option ta_destructiveHint (annotations_of (CommitPatchTransaction i planHash f t)) = Some True"
proof -
  obtain r s1 where e: "ensure d s = (r, s1)" by fastforce
  have m: "map_get (hb_attach (sh_world s1)) planHash = None"
    using assms ensure_attach [of d s] e by simp
  have "handle d (CommitAttachProbe i planHash f t) s = attach_reply planHash (handle d (CommitPatchTransaction i planHash f t) s)"
  proof (cases r)
    case (Inl x)
    then show ?thesis
      by (simp add: commitAttachProbe_def commitPatchTransaction_def attach_reply_def bind_def e)
  next
    case (Inr sel)
    obtain c s2 where c: "on_txn (commit (td_txn d) (td_mac d) (commit_args_of sel i planHash f t)) s1 = (c, s2)" by fastforce
    show ?thesis
      by (cases c) (simp_all add: commitAttachProbe_def commitPatchTransaction_def attach_reply_def bind_def andthen_def
        gets_def ret_def e Inr c m attached_module_def delete_meta_def modify_def jnat_def Let_def)
  qed
  then show ?thesis
    using empty_id_refused
    by (auto simp: attach_annotations MUT_def attach_reply_def split: prod.split sum.split)
qed

lemma attach_commits_any_plan_witness:
  "\<forall>(d :: 'w tool_deps) s. handle d (CommitAttachProbe ''o'' ''h'' ''f'' None) (s\<lparr>sh_world := (sh_world s)\<lparr>hb_attach := []\<rparr>\<rparr>) =
     attach_reply ''h'' (handle d (CommitPatchTransaction ''o'' ''h'' ''f'' None) (s\<lparr>sh_world := (sh_world s)\<lparr>hb_attach := []\<rparr>\<rparr>))"
proof (intro allI)
  fix d :: "'w tool_deps" and s :: "'w server"
  have "map_get (hb_attach (sh_world (s\<lparr>sh_world := (sh_world s)\<lparr>hb_attach := []\<rparr>\<rparr>))) ''h'' = None" by simp
  from attach_commits_any_plan [OF this, of d "''o''" "''f''" None]
  show "handle d (CommitAttachProbe ''o'' ''h'' ''f'' None) (s\<lparr>sh_world := (sh_world s)\<lparr>hb_attach := []\<rparr>\<rparr>) =
     attach_reply ''h'' (handle d (CommitPatchTransaction ''o'' ''h'' ''f'' None) (s\<lparr>sh_world := (sh_world s)\<lparr>hb_attach := []\<rparr>\<rparr>))"
    by (rule conjunct1)
qed

end
