(* ===== verification/Server.thy ===== *)
theory Server
  imports ToolSafety Config
begin

text \<open>
  The server (\<open>apps/mcp-server/src/server.ts\<close>): a tool call from its arguments to the reply and
  the audit entry, a resource read from its reader to the served body, the tool table, and the
  prompts (\<open>prompts/index.ts\<close>).  The message of a schema error, the clock and the byte length
  of an indented body are arguments; a call during which the fuel of the connection manager
  ends has no reply.
\<close>

section \<open>Prompts\<close>

definition em_dash :: string where
  "em_dash = [CHR 0xE2, CHR 0x80, CHR 0x94]"

definition inspect_first_text :: string where
  "inspect_first_text = ''Start by inspecting the selected instance and current patch. Propose a plan and preview it with '' @
     ''preview_patch_transaction (or build_patch), grounded in the adapter pack and the recipe library. '' @
     ''Prefer a matching recipe and report any unresolved functional roles instead of substituting unknown '' @
     ''modules. Show the plan and its risk summary, then commit only after confirmation. Acquire the '' @
     ''writer lease before mutating and release it when done.''"

definition no_sound_text :: string where
  "no_sound_text = ''The patch is producing no sound, or much less than expected. Diagnose the cause with evidence.''"

definition trace_back_text :: string where
  "trace_back_text = ''Trace from the Core Audio destination back toward the sources. Check for bypassed modules, '' @
     ''disconnected or missing cables, a fully closed filter cutoff, a VCA at zero level, or an envelope '' @
     ''that never opens. Use validate_patch and describe_patch first.''"

definition attach_and_read_text :: string where
  "attach_and_read_text = ''Attach a Probe to the suspect signal and read it (peak, RMS, DC, clipped/non-finite counts) to '' @
     ''confirm where the signal dies. Telemetry needs a running engine '' @
     em_dash @
     '' if engineFrame is not advancing, say the engine is idle and reason from the graph instead. Report '' @
     ''the root cause and the smallest fix.''"

definition find_place_text :: string where
  "find_place_text = ''Identify the right place in the chain from the current routing.''"

definition preview_insertion_text :: string where
  "preview_insertion_text = ''Preview the insertion: add the effect module, reroute the affected cables through it, and keep a '' @
     ''sensible dry/master path. Classify the risk (this reroutes audio), show the plan, and confirm '' @
     ''before committing. Use adapter-verified port roles so audio meets audio and CV meets CV.''"

definition explain_flow_text :: string where
  "explain_flow_text = ''Explain how the current patch works, in musical terms. Use describe_patch and the adapter pack to '' @
     ''name each module'' @
     [CHR 0x27] @
     ''s role and each cable'' @
     [CHR 0x27] @
     ''s signal type (pitch/1V-oct, gate, trigger, clock, audio, unipolar/bipolar CV). Trace the signal '' @
     ''from its sources to the audio output, and call out anything notable: bypassed modules, disconnected '' @
     ''cables, stacked inputs, or feedback paths. Distinguish certain, adapter, and heuristic claims; do '' @
     ''not overclaim third-party module semantics.''"

definition prepare_live_text :: string where
  "prepare_live_text = ''Prepare the current patch for live performance. First create a recovery checkpoint. Run '' @
     ''validate_patch and resolve any errors, explaining each. Ensure a RackMCP-Bridge module is present '' @
     ''so control survives a Rack restart, disclosing if one must be added. Inspect the master output '' @
     ''chain for safe headroom '' @
     em_dash @
     '' attach a Probe to the signal feeding the Audio module and confirm it is not clipping (peak below '' @
     ''~10V) when the engine is running. Summarize every change you made and what to keep an eye on during '' @
     ''the set. Acquire the writer lease for changes and release it when finished.''"

type_synonym prompt_args = "string \<Rightarrow> string option"

text \<open>An argument that is absent or empty is falsy; in a template an absent one reads \<open>undefined\<close>.\<close>

definition truthy_arg :: "prompt_args \<Rightarrow> string \<Rightarrow> bool" where
  "truthy_arg a k = (a k \<noteq> None \<and> a k \<noteq> Some [])"

definition shown :: "prompt_args \<Rightarrow> string \<Rightarrow> string" where
  "shown a k = (case a k of None \<Rightarrow> ''undefined'' | Some t \<Rightarrow> t)"

definition with_spaces :: "string list \<Rightarrow> string" where
  "with_spaces ps = concat (case ps of [] \<Rightarrow> [] | p # qs \<Rightarrow> p # map (\<lambda>q. CHR '' '' # q) qs)"

definition nonempty :: "string list \<Rightarrow> string list" where
  "nonempty ps = filter (\<lambda>p. p \<noteq> []) ps"

definition design_patch :: "prompt_args \<Rightarrow> string" where
  "design_patch a = with_spaces (nonempty [''Design and build a patch that achieves this goal: '' @ shown a ''goal'' @ ''.'',
     if truthy_arg a ''constraints'' then ''Constraints: '' @ shown a ''constraints'' @ ''.'' else [],
     inspect_first_text])"

definition troubleshoot_silence :: "prompt_args \<Rightarrow> string" where
  "troubleshoot_silence a = with_spaces (nonempty [no_sound_text, trace_back_text,
     if truthy_arg a ''suspectModuleId'' then ''Focus especially on module '' @ shown a ''suspectModuleId'' @ ''.'' else [],
     attach_and_read_text])"

definition add_effect_safely :: "prompt_args \<Rightarrow> string" where
  "add_effect_safely a = with_spaces [
     ''Add this effect to the patch without breaking the existing signal path: '' @ shown a ''effect'' @ ''.'',
     if truthy_arg a ''insertAfterModuleId''
       then ''Insert it immediately after module '' @ shown a ''insertAfterModuleId'' @ ''.'' else find_place_text,
     preview_insertion_text]"

definition BODIES :: "(string \<times> (prompt_args \<Rightarrow> string)) list" where
  "BODIES = [(''design_patch'', design_patch), (''troubleshoot_silence'', troubleshoot_silence),
     (''add_effect_safely'', add_effect_safely), (''explain_signal_flow'', \<lambda>_. explain_flow_text),
     (''prepare_live_performance_patch'', \<lambda>_. prepare_live_text)]"

text \<open>The declared arguments, each with whether it is required.\<close>

definition shapeOf :: "prompt_argument list \<Rightarrow> fields" where
  "shapeOf args = map (\<lambda>a. if pa_required a then req (pa_name a) (ZString []) else opt (pa_name a) (ZString [])) args"

definition userMessage :: "string \<Rightarrow> string \<Rightarrow> json" where
  "userMessage identity task = JObj [(''messages'', JArr [JObj [(''role'', JStr ''user''),
     (''content'', JObj [(''type'', JStr ''text''), (''text'', JStr (identity @ [CHR 0x0A, CHR 0x0A] @ ''# Task'' @
       [CHR 0x0A, CHR 0x0A] @ task))])]])]"

record registered_prompt =
  rp_name :: string
  rp_argsSchema :: "fields option"
  rp_answer :: "prompt_args \<Rightarrow> json"

definition register_prompt :: "string \<Rightarrow> prompt_spec \<Rightarrow> string + registered_prompt" where
  "register_prompt identity spec = (case map_of BODIES (ps_name spec) of
     None \<Rightarrow> Inl (''prompt '' @ [CHR 0x22] @ ps_name spec @ [CHR 0x22] @ '' is declared but has no body'')
   | Some task \<Rightarrow> Inr (case ps_arguments spec of
       Some args \<Rightarrow> \<lparr>rp_name = ps_name spec, rp_argsSchema = Some (shapeOf args), rp_answer = (\<lambda>a. userMessage identity (task a))\<rparr>
     | None \<Rightarrow> \<lparr>rp_name = ps_name spec, rp_argsSchema = None, rp_answer = (\<lambda>a. userMessage identity (task Map.empty))\<rparr>))"

fun register_all :: "('a \<Rightarrow> 'e + 'b) \<Rightarrow> 'a list \<Rightarrow> 'e + 'b list" where
  "register_all f [] = Inr []"
| "register_all f (x # xs) = (case f x of Inl e \<Rightarrow> Inl e
     | Inr y \<Rightarrow> (case register_all f xs of Inl e \<Rightarrow> Inl e | Inr ys \<Rightarrow> Inr (y # ys)))"

definition registerPrompts :: "string \<Rightarrow> string + registered_prompt list" where
  "registerPrompts identity = register_all (register_prompt identity) PROMPTS"

section \<open>The tool table\<close>

definition HANDLERS :: "string list" where
  "HANDLERS = [''list_rack_instances'', ''select_rack_instance'', ''get_rack_status'', ''acquire_writer_lease'',
     ''release_writer_lease'', ''list_installed_models'', ''inspect_model'', ''get_patch_snapshot'', ''inspect_module'',
     ''inspect_parameter'', ''describe_patch'', ''validate_patch'', ''preview_patch_transaction'', ''commit_patch_transaction'',
     ''undo_last_mcp_transaction'', ''build_patch'', ''build_recipe'', ''list_patch_files'', ''create_checkpoint'', ''save_patch'',
     ''preview_load_patch'', ''commit_load_patch'', ''preview_clear_patch'', ''commit_clear_patch'', ''restore_checkpoint'',
     ''list_probes'', ''preview_attach_probe'', ''commit_attach_probe'', ''read_probe'', ''read_user_notes'', ''post_chat_message'',
     ''detach_probe'']"

text \<open>A registered tool: its specification, and the shape of its input.\<close>

definition shape_of :: "schema \<Rightarrow> fields" where
  "shape_of s = (case s of ZObject fs \<Rightarrow> fs | _ \<Rightarrow> [])"

definition buildToolTable :: "string + (tool_spec \<times> fields) list" where
  "buildToolTable = register_all (\<lambda>spec. if list_ex ((=) (ts_name spec)) HANDLERS then Inr (spec, shape_of (ts_input spec))
     else Inl (''no handler for tool '' @ ts_name spec)) TOOLS"

definition RESULT_LIMIT_BYTES :: nat where
  "RESULT_LIMIT_BYTES = mcpResultBytes LIMITS"

section \<open>A tool call\<close>

record 'w host =
  ho_server :: "'w server"
  ho_audit :: audit_log

text \<open>What the wrapper is given: the checks of the string formats, the message of a schema error, the
  cast of the validated arguments of a tool, the clock, what other calls record while the
  handler is awaited, and what the file system refuses to the audit log.\<close>

record 'w host_deps =
  hd_tools :: "'w tool_deps"
  hd_fmt :: "zformat \<Rightarrow> string \<Rightarrow> bool"
  hd_zodMessage :: "schema \<Rightarrow> json \<Rightarrow> string"
  hd_decode :: "string \<Rightarrow> json \<Rightarrow> tool_call"
  hd_now :: "'w server \<Rightarrow> int"
  hd_meanwhile :: "'w server \<Rightarrow> audit_log \<Rightarrow> audit_log"
  hd_refusals :: refusals

record call_reply =
  cl_isError :: bool
  cl_text :: "code_unit list"
  cl_structured :: json

definition result_bytes :: "json \<Rightarrow> nat" where
  "result_bytes j = length (utf8_encode (wire_text j))"

definition result_too_large :: exn where
  "result_too_large = PlainErr (''result exceeds '' @ nat_str RESULT_LIMIT_BYTES @ '' bytes'')"

text \<open>The \<open>try\<close> block up to the size check; \<open>args ?? {}\<close>.\<close>

definition invoke :: "'w host_deps \<Rightarrow> tool_spec \<Rightarrow> json \<Rightarrow> ('w, json) tool" where
  "invoke d spec args = (let a = (if args = JNull then JObj [] else args) in
     andthen (guard (conforms (hd_fmt d) (ts_input spec) a) (Some (PlainErr (hd_zodMessage d (ts_input spec) a)))) (
     bind (handle (hd_tools d) (hd_decode d (ts_name spec) a)) (\<lambda>j.
     if result_bytes j > RESULT_LIMIT_BYTES then throw (Some result_too_large) else ret j)))"

definition selected_id :: "'w server \<Rightarrow> string option" where
  "selected_id s = map_option sl_instanceId (cn_selected (the_conn s))"

definition ok_entry :: "'w host_deps \<Rightarrow> tool_spec \<Rightarrow> int \<Rightarrow> json \<Rightarrow> 'w server \<Rightarrow> audit_entry" where
  "ok_entry d spec started j s = \<lparr>ae_tool = ts_name spec, ae_outcome = ''ok'', ae_instanceId = selected_id s,
     ae_operationId = None, ae_errorCode = None, ae_durationMs = Some (hd_now d s - started),
     ae_schemaValid = (if conforms (hd_fmt d) (ts_output spec) j then None else Some False)\<rparr>"

definition error_entry :: "'w host_deps \<Rightarrow> tool_spec \<Rightarrow> int \<Rightarrow> error_payload \<Rightarrow> 'w server \<Rightarrow> audit_entry" where
  "error_entry d spec started p s = \<lparr>ae_tool = ts_name spec, ae_outcome = ''error'', ae_instanceId = selected_id s,
     ae_operationId = None, ae_errorCode = Some (code_str (ep_code p)), ae_durationMs = Some (hd_now d s - started),
     ae_schemaValid = None\<rparr>"

definition ok_reply :: "json \<Rightarrow> call_reply" where
  "ok_reply j = \<lparr>cl_isError = False, cl_text = wire_text j, cl_structured = j\<rparr>"

definition error_reply :: "error_payload \<Rightarrow> call_reply" where
  "error_reply p = \<lparr>cl_isError = True, cl_text = units (code_str (ep_code p) @ '': '' @ ep_message p),
     cl_structured = JObj [(''error'', error_json p)]\<rparr>"

definition call_tool :: "'w host_deps \<Rightarrow> tool_spec \<Rightarrow> json \<Rightarrow> 'w host \<Rightarrow> call_reply option \<times> 'w host" where
  "call_tool d spec args h = (let started = hd_now d (ho_server h);
     (r, s) = invoke d spec args (ho_server h);
     audit = hd_meanwhile d s (ho_audit h);
     recorded = (\<lambda>e. \<lparr>ho_server = s, ho_audit = audit_record (hd_refusals d) (hd_now d s) e audit\<rparr>)
     in case r of
       Inr j \<Rightarrow> (Some (ok_reply j), recorded (ok_entry d spec started j s))
     | Inl None \<Rightarrow> (None, \<lparr>ho_server = s, ho_audit = audit\<rparr>)
     | Inl (Some e) \<Rightarrow> (Some (error_reply (toErrorPayload e)), recorded (error_entry d spec started (toErrorPayload e) s)))"

section \<open>Registration\<close>

lemma register_all_Inr: "list_all (\<lambda>x. f x = Inr (g x)) xs \<Longrightarrow> register_all f xs = Inr (map g xs)"
  by (induction xs) auto

lemma handlers_complete: "map ts_name TOOLS = HANDLERS"
proof -
  have "map ts_name TOOLS = map fst ANNOTATIONS" unfolding annotations_table [symmetric] by simp
  then show ?thesis by (simp add: ANNOTATIONS_def HANDLERS_def)
qed

lemma tool_table: "buildToolTable = Inr (map (\<lambda>t. (t, shape_of (ts_input t))) TOOLS)"
proof -
  have "list_ex ((=) (ts_name t)) HANDLERS" if "t \<in> set TOOLS" for t
    using that unfolding handlers_complete [symmetric] by (auto simp: list_ex_iff)
  then show ?thesis
    unfolding buildToolTable_def by (intro register_all_Inr) (simp add: list_all_iff)
qed

lemma handlers_distinct: "distinct HANDLERS"
  by (simp add: HANDLERS_def)

lemma prompts_registered: "case registerPrompts identity of Inl e \<Rightarrow> False | Inr ps \<Rightarrow> map rp_name ps = PROMPT_NAMES"
  by (simp add: registerPrompts_def register_prompt_def PROMPTS_def BODIES_def PROMPT_NAMES_def)

lemma input_table: "map (\<lambda>t. (ts_name t, ts_input t)) TOOLS =
    [(''list_rack_instances'', ListRackInstancesInput),
     (''select_rack_instance'', SelectRackInstanceInput),
     (''get_rack_status'', GetRackStatusInput),
     (''acquire_writer_lease'', AcquireWriterLeaseInput),
     (''release_writer_lease'', ReleaseWriterLeaseInput),
     (''list_installed_models'', ListInstalledModelsInput),
     (''inspect_model'', InspectModelInput),
     (''get_patch_snapshot'', GetPatchSnapshotInput),
     (''inspect_module'', InspectModuleInput),
     (''inspect_parameter'', InspectParameterInput),
     (''describe_patch'', DescribePatchInput),
     (''validate_patch'', ValidatePatchInput),
     (''preview_patch_transaction'', PreviewPatchTransactionInput),
     (''commit_patch_transaction'', CommitPatchTransactionInput),
     (''undo_last_mcp_transaction'', UndoLastMcpTransactionInput),
     (''build_patch'', BuildPatchInput),
     (''build_recipe'', BuildRecipeInput),
     (''list_patch_files'', ListPatchFilesInput),
     (''create_checkpoint'', CreateCheckpointInput),
     (''save_patch'', SavePatchInput),
     (''preview_load_patch'', PreviewLoadPatchInput),
     (''commit_load_patch'', CommitLoadPatchInput),
     (''preview_clear_patch'', PreviewClearPatchInput),
     (''commit_clear_patch'', CommitClearPatchInput),
     (''restore_checkpoint'', RestoreCheckpointInput),
     (''list_probes'', ListProbesInput),
     (''preview_attach_probe'', PreviewAttachProbeInput),
     (''commit_attach_probe'', CommitAttachProbeInput),
     (''read_probe'', ReadProbeInput),
     (''read_user_notes'', ReadUserNotesInput),
     (''post_chat_message'', PostChatMessageInput),
     (''detach_probe'', DetachProbeInput)]"
  by (simp add: TOOLS_def tool_specs)

lemma empty_object: "conforms fmt (ZObject fs) (JObj []) = list_all (\<lambda>f. fst (snd f) \<noteq> Required) fs"
  by simp

lemmas tool_inputs = ListRackInstancesInput_def SelectRackInstanceInput_def GetRackStatusInput_def AcquireWriterLeaseInput_def ReleaseWriterLeaseInput_def ListInstalledModelsInput_def InspectModelInput_def GetPatchSnapshotInput_def InspectModuleInput_def InspectParameterInput_def DescribePatchInput_def ValidatePatchInput_def PreviewPatchTransactionInput_def CommitPatchTransactionInput_def UndoLastMcpTransactionInput_def BuildPatchInput_def BuildRecipeInput_def ListPatchFilesInput_def CreateCheckpointInput_def SavePatchInput_def PreviewLoadPatchInput_def CommitLoadPatchInput_def PreviewClearPatchInput_def CommitClearPatchInput_def RestoreCheckpointInput_def ListProbesInput_def PreviewAttachProbeInput_def CommitAttachProbeInput_def ReadProbeInput_def ReadUserNotesInput_def PostChatMessageInput_def DetachProbeInput_def

lemma omitted_arguments:
  "filter (\<lambda>t. conforms fmt (snd t) (JObj [])) (map (\<lambda>t. (ts_name t, ts_input t)) TOOLS) = 
    [(''list_rack_instances'', ListRackInstancesInput),
     (''get_rack_status'', GetRackStatusInput),
     (''acquire_writer_lease'', AcquireWriterLeaseInput),
     (''release_writer_lease'', ReleaseWriterLeaseInput),
     (''list_installed_models'', ListInstalledModelsInput),
     (''get_patch_snapshot'', GetPatchSnapshotInput),
     (''describe_patch'', DescribePatchInput),
     (''validate_patch'', ValidatePatchInput),
     (''list_patch_files'', ListPatchFilesInput),
     (''preview_clear_patch'', PreviewClearPatchInput),
     (''list_probes'', ListProbesInput),
     (''read_user_notes'', ReadUserNotesInput)]"
  unfolding input_table
  by (simp add: tool_inputs ExpectedEpoch_def req_def opt_def dflt_def empty_object del: conforms.simps)

section \<open>Every call is answered and audited once\<close>

text \<open>C10: every tool call that gets a reply leaves exactly one audit entry, of its tool and instance,
  whose outcome, error code and schema flag are those of the reply.  A reply that is no error
  is the validated result of the handler on validated arguments, serialised, within the result
  limit; an error reply carries an error payload with a published code and a bounded message,
  and when the arguments fail their schema the handler was not run and nothing changed.\<close>

theorem call_contract:
  "case call_tool d spec args h of
     (None, h') \<Rightarrow> ho_audit h' = hd_meanwhile d (ho_server h') (ho_audit h)
   | (Some r, h') \<Rightarrow>
       (\<exists>e. ho_audit h' = audit_record (hd_refusals d) (hd_now d (ho_server h')) e (hd_meanwhile d (ho_server h') (ho_audit h)) \<and>
          ae_tool e = ts_name spec \<and> ae_instanceId e = selected_id (ho_server h') \<and>
          ae_outcome e = (if cl_isError r then ''error'' else ''ok'') \<and>
          (ae_schemaValid e = Some False \<longleftrightarrow> \<not> cl_isError r \<and> \<not> conforms (hd_fmt d) (ts_output spec) (cl_structured r)) \<and>
          (ae_errorCode e = None \<longleftrightarrow> \<not> cl_isError r)) \<and>
       (if cl_isError r
        then (conforms (hd_fmt d) (ts_input spec) (if args = JNull then JObj [] else args) \<or> ho_server h' = ho_server h) \<and>
          (\<exists>p. cl_structured r = JObj [(''error'', error_json p)] \<and> ep_code p \<in> set ERROR_CODES \<and> length (ep_message p) \<le> 4096 \<and>
               cl_text r = units (code_str (ep_code p) @ '': '' @ ep_message p))
        else cl_text r = wire_text (cl_structured r) \<and> length (utf8_encode (cl_text r)) \<le> 4 * 1024 * 1024 \<and>
          (let a = (if args = JNull then JObj [] else args) in conforms (hd_fmt d) (ts_input spec) a \<and>
             fst (handle (hd_tools d) (hd_decode d (ts_name spec) a) (ho_server h)) = Inr (cl_structured r)))"
proof -
  let ?a = "if args = JNull then JObj [] else args"
  obtain r s where i: "invoke d spec args (ho_server h) = (r, s)" by fastforce
  have lim: "RESULT_LIMIT_BYTES = 4 * 1024 * 1024" by (simp add: RESULT_LIMIT_BYTES_def LIMITS_def)
  show ?thesis
  proof (cases r)
    case (Inl x)
    show ?thesis
    proof (cases x)
      case None
      then show ?thesis using i Inl by (simp add: call_tool_def Let_def)
    next
      case (Some e)
      have p: "ep_code (toErrorPayload e) \<in> set ERROR_CODES" "length (ep_message (toErrorPayload e)) \<le> 4096"
        by (cases e; simp add: clamp_length ERROR_CODES_complete)+
      have unrun: "conforms (hd_fmt d) (ts_input spec) ?a \<or> s = ho_server h"
        using i by (auto simp: invoke_def Let_def andthen_def bind_def guard_def ret_def throw_def split: if_splits)
      show ?thesis using i Inl Some p unrun
        by (auto simp: call_tool_def Let_def error_reply_def error_entry_def intro!: exI [of _ "toErrorPayload e"])
    qed
  next
    case (Inr j)
    have c: "conforms (hd_fmt d) (ts_input spec) ?a \<and> result_bytes j \<le> RESULT_LIMIT_BYTES \<and>
        fst (handle (hd_tools d) (hd_decode d (ts_name spec) ?a) (ho_server h)) = Inr j"
      using i Inr by (auto simp: invoke_def Let_def andthen_def bind_def guard_def ret_def throw_def
          split: prod.splits sum.splits if_splits)
    then show ?thesis using i Inr
      by (auto simp: call_tool_def Let_def ok_reply_def ok_entry_def result_bytes_def lim)
  qed
qed

end
