(* ===== verification/ToolReplies.thy ===== *)
theory ToolReplies
  imports Server
begin

text \<open>
  Against a bridge whose replies satisfy the published result schemas, what the tools return
  satisfies their output schemas; and the scopes the tools send, which no schema accepts.
\<close>

section \<open>The status\<close>

text \<open>Members picked from a lookup, in the order of their keys.\<close>

definition picked :: "(string \<Rightarrow> json option) \<Rightarrow> string list \<Rightarrow> (string \<times> json) list" where
  "picked g ks = concat (map (\<lambda>k. opt_member k (g k)) ks)"

lemma picked_get: "map_get (picked g ks) k = (if k \<in> set ks then g k else None)"
  by (induction ks) (auto simp: picked_def opt_member_def map_get_Cons map_get_def map_of_append split: option.split)

lemma object_agrees:
  assumes "conforms fmt (ZObject fs) (JObj ms)" and "list_all (\<lambda>f. map_get ms' (fst f) = map_get ms (fst f)) fs"
    and "list_all (\<lambda>m. list_ex (\<lambda>f. fst f = fst m) fs) ms'"
  shows "conforms fmt (ZObject fs) (JObj ms')"
  using assms by (auto simp: list_all_iff)

lemma member_JObj: "member (JObj ms) k = map_get ms k"
  by (simp add: member_def map_get_def)

definition status_fields :: fields where
  "status_fields = shape_of StatusResult"

lemma status_fields: "StatusResult = ZObject status_fields"
  by (simp add: status_fields_def StatusResult_def shape_of_def)

definition status_keys :: "string list" where
  "status_keys = [''instanceId'', ''sessionId'', ''patchEpoch'', ''rackVersion'', ''rackEdition'', ''bridgeVersion'',
     ''bridgeProtocolVersion'', ''mode'', ''sampleRate'', ''patchName'', ''saved'', ''bridgeModulePresent'', ''commandPumpPresent'',
     ''writerLease'']"

lemma status_fields_keys: "map fst status_fields = status_keys"
  by (simp add: status_fields_def shape_of_def StatusResult_def req_def status_keys_def)

definition status_get :: "json \<Rightarrow> string \<Rightarrow> json option" where
  "status_get s k = (if k = ''patchName'' then Some (case member s k of None \<Rightarrow> JNull | Some j \<Rightarrow> j) else member s k)"

lemma mapStatus_picked: "mapStatus s = JObj (picked (status_get s) status_keys)"
  by (simp add: mapStatus_def picked_def status_keys_def status_get_def opt_member_def)

lemma picked_declared: "list_all (\<lambda>m. list_ex (\<lambda>f. fst f = fst m) fs) (picked g (map fst fs))"
  by (auto simp: picked_def list_all_iff list_ex_iff opt_member_def split: option.splits)

lemma status_conforms:
  assumes "conforms fmt StatusResult (JObj ms)" and "list_all (\<lambda>k. map_get ms' k = map_get ms k) status_keys"
  shows "conforms fmt StatusResult (mapStatus (JObj ms'))"
proof -
  have "map_get ms ''patchName'' \<noteq> None"
    using assms(1) by (auto simp: StatusResult_def req_def split: option.splits)
  then have "list_all (\<lambda>k. status_get (JObj ms') k = map_get ms k) status_keys"
    using assms(2) by (auto simp: list_all_iff status_get_def member_JObj)
  then have "list_all (\<lambda>f. map_get (picked (status_get (JObj ms')) (map fst status_fields)) (fst f) = map_get ms (fst f)) status_fields"
    unfolding picked_get status_fields_keys [symmetric] by (auto simp: list_all_iff)
  from object_agrees [OF assms(1) [unfolded status_fields] this picked_declared] show ?thesis
    by (simp only: status_fields mapStatus_picked status_fields_keys)
qed

section \<open>The scope\<close>

lemma scope_refused: "\<not> conforms fmt Scope (scope_json sel)"
  by (simp add: Scope_def scope_json_def schema_defs PatchEpoch_def)

section \<open>What the tools return\<close>

definition OUTPUTS :: "(string \<times> schema) list" where
  "OUTPUTS = [(''list_rack_instances'', ListRackInstancesOutput),
     (''select_rack_instance'', SelectRackInstanceOutput),
     (''get_rack_status'', GetRackStatusOutput),
     (''acquire_writer_lease'', AcquireWriterLeaseOutput),
     (''release_writer_lease'', ReleaseWriterLeaseOutput),
     (''list_installed_models'', ListInstalledModelsOutput),
     (''inspect_model'', InspectModelOutput),
     (''get_patch_snapshot'', GetPatchSnapshotOutput),
     (''inspect_module'', InspectModuleOutput),
     (''inspect_parameter'', InspectParameterOutput),
     (''describe_patch'', DescribePatchOutput),
     (''validate_patch'', ValidatePatchOutput),
     (''preview_patch_transaction'', PreviewPatchTransactionOutput),
     (''commit_patch_transaction'', CommitPatchTransactionOutput),
     (''undo_last_mcp_transaction'', UndoLastMcpTransactionOutput),
     (''build_patch'', BuildPatchOutput),
     (''build_recipe'', BuildRecipeOutput),
     (''list_patch_files'', ListPatchFilesOutput),
     (''create_checkpoint'', CreateCheckpointOutput),
     (''save_patch'', SavePatchOutput),
     (''preview_load_patch'', PreviewLoadPatchOutput),
     (''commit_load_patch'', CommitLoadPatchOutput),
     (''preview_clear_patch'', PreviewClearPatchOutput),
     (''commit_clear_patch'', CommitClearPatchOutput),
     (''restore_checkpoint'', RestoreCheckpointOutput),
     (''list_probes'', ListProbesOutput),
     (''preview_attach_probe'', PreviewAttachProbeOutput),
     (''commit_attach_probe'', CommitAttachProbeOutput),
     (''read_probe'', ReadProbeOutput),
     (''read_user_notes'', ReadUserNotesOutput),
     (''post_chat_message'', PostChatMessageOutput),
     (''detach_probe'', DetachProbeOutput)]"

lemma output_table: "map (\<lambda>t. (ts_name t, ts_output t)) TOOLS = OUTPUTS"
  by (simp add: TOOLS_def tool_specs OUTPUTS_def)

definition output_of :: "tool_call \<Rightarrow> schema" where
  "output_of c = ts_output (the (getTool (tool_name c)))"

lemma output_lookup: "output_of c = the (map_of OUTPUTS (tool_name c))"
proof -
  have "map_option ts_output (getTool (tool_name c)) = map_of OUTPUTS (tool_name c)"
    by (simp add: getTool_def find_map_of output_table)
  moreover have "map_of OUTPUTS (tool_name c) \<noteq> None" by (cases c) (simp_all add: OUTPUTS_def)
  ultimately show ?thesis by (cases "getTool (tool_name c)") (auto simp: output_of_def)
qed

text \<open>A bridge whose replies satisfy the published result schemas.\<close>

definition conforming :: "(zformat \<Rightarrow> string \<Rightarrow> bool) \<Rightarrow> 'w conn_deps \<Rightarrow> bool" where
  "conforming fmt d \<longleftrightarrow> (\<forall>i m p oid t s. case fst (cd_request d i m p oid t s) of Inl e \<Rightarrow> True
     | Inr j \<Rightarrow> (case map_of BRIDGE_METHODS m of None \<Rightarrow> True | Some sp \<Rightarrow> conforms fmt (bm_result sp) j))"

lemma request_conforms:
  assumes "conforming fmt (td_conn d)" and "map_of BRIDGE_METHODS m = Some sp"
    and "fst (conn_request n (td_conn d) m p oid dl s) = Inr j"
  shows "conforms fmt (bm_result sp) j"
proof -
  from assms(3) obtain i t s1 where "fst (cd_request (td_conn d) i m p oid t s1) = Inr j"
    by (auto simp: conn_request_def request_by_def andthen_def bind_def over_session_def gets_def lift_exn_def throw_def
        split: prod.splits sum.splits option.splits) (metis fst_conv)+
  then show ?thesis using assms(1,2) unfolding conforming_def
    by (metis (mono_tags, lifting) option.simps(5) sum.simps(6))
qed

lemma tool_request_conforms:
  assumes "conforming fmt (td_conn d)" and "tool_request d m p s = (Inr j, t)" and "map_of BRIDGE_METHODS m = Some sp"
  shows "conforms fmt (bm_result sp) j"
proof -
  have "fst (conn_request (td_fuel d) (td_conn d) m p None None (hb_conn (sh_world s))) = Inr j"
    using assms(2) by (auto simp: tool_request_def request_op_def on_conn_def split: prod.splits)
  from request_conforms [OF assms(1,3) this] show ?thesis .
qed

lemma object_set:
  assumes "conforms fmt (ZObject fs) (JObj ms)" and "k \<notin> fst ` set fs" and "conforms fmt s v"
  shows "conforms fmt (ZObject (fs @ [req k s])) (JObj (map_set k v ms))"
proof -
  have "fst ` set (map_set k v ms) = insert k (fst ` set ms)" by (rule set_keys_map_set)
  moreover have "fst ` set ms \<subseteq> fst ` set fs" using assms(1) by (force simp: list_all_iff list_ex_iff)
  ultimately have "fst ` set (map_set k v ms) \<subseteq> fst ` set (fs @ [req k s])" by (auto simp: req_def)
  then have "list_all (\<lambda>m. list_ex (\<lambda>f. fst f = fst m) (fs @ [req k s])) (map_set k v ms)"
    by (force simp: list_all_iff list_ex_iff image_iff subset_iff)
  moreover have "list_all (\<lambda>f. case map_get (map_set k v ms) (fst f) of
       Some v \<Rightarrow> conforms fmt (snd (snd f)) v | None \<Rightarrow> fst (snd f) \<noteq> Required) (fs @ [req k s])"
    using assms by (auto simp: list_all_iff req_def image_iff)
  ultimately show ?thesis by simp
qed

lemma required_member:
  assumes "conforms fmt (ZObject fs) j" and "req k s \<in> set fs"
  obtains v where "member j k = Some v" and "conforms fmt s v"
proof -
  obtain ms where "j = JObj ms" using assms(1) by (auto split: json.splits)
  then show ?thesis using assms that by (fastforce simp: list_all_iff req_def member_def split: option.splits)
qed

lemma safe_int_numeral [simp]: "safe_int (numeral k) \<longleftrightarrow> numeral k \<le> (9007199254740991 :: int)"
  using safe_int_of_int [of "numeral k"] by simp

lemma safe_int_small [simp]: "safe_int 0" "safe_int 1"
  using safe_int_of_int [of 0] safe_int_of_int [of 1] by simp_all

lemma adapter_texts:
  assumes "getAdapter p m = Some a"
  shows "length (ad_pluginVersionRange a) \<le> 128" and "q \<in> set (ad_params a) \<Longrightarrow> length (ps_role q) \<le> 64"
proof -
  have "a \<in> set ADAPTER_DOCS" using assms unfolding getAdapter_find by (auto simp: find_Some_iff)
  then have "module_adapter_ok a" using adapter_docs_ok by (simp add: list_all_iff)
  then show "length (ad_pluginVersionRange a) \<le> 128" and "q \<in> set (ad_params a) \<Longrightarrow> length (ps_role q) \<le> 64"
    by (auto simp: module_adapter_ok_def param_semantics_ok_def list_all_iff)
qed

lemma method_results:
  "map_of BRIDGE_METHODS ''status.get'' = Some (bridge_method EmptyObject StatusResult False)"
  "map_of BRIDGE_METHODS ''metrics.get'' = Some (bridge_method EmptyObject BridgeMetrics False)"
  "map_of BRIDGE_METHODS ''patch.snapshot'' = Some (bridge_method SnapshotPayload PatchSnapshot False)"
  "map_of BRIDGE_METHODS ''module.inspect'' = Some (bridge_method ModuleInspectPayload ModuleInspectResult False)"
  "map_of BRIDGE_METHODS ''catalog.listModels'' = Some (bridge_method CatalogListPayload CatalogListResult False)"
  "map_of BRIDGE_METHODS ''catalog.inspectModel'' = Some (bridge_method InspectModelPayload InspectModelResult False)"
  "map_of BRIDGE_METHODS ''probe.list'' = Some (bridge_method EmptyObject ProbeListResult False)"
  "map_of BRIDGE_METHODS ''probe.read'' = Some (bridge_method ProbeReadPayload ProbeReading False)"
  "map_of BRIDGE_METHODS ''chat.poll'' = Some (bridge_method ChatPollPayload ChatPollResult False)"
  "map_of BRIDGE_METHODS ''chat.post'' = Some (bridge_method ChatPostPayload ChatPostResult False)"
  "map_of BRIDGE_METHODS ''lease.acquire'' = Some (bridge_method LeaseAcquirePayload LeaseAcquireResult False)"
  "map_of BRIDGE_METHODS ''txn.undoLast'' = Some (bridge_method TxnUndoPayload TxnUndoResult True)"
  by (simp_all add: BRIDGE_METHODS_def)

text \<open>A program whose results satisfy a predicate, from every state.\<close>

definition yields :: "('e, 's, 'a) prog \<Rightarrow> ('a \<Rightarrow> bool) \<Rightarrow> bool" where
  "yields m P \<longleftrightarrow> (\<forall>s. wp m (\<lambda>a s'. P a) (\<lambda>e s'. True) s)"

lemma yields_ret: "P a \<Longrightarrow> yields (ret a) P"
  by (simp add: yields_def wp_simps)

lemma yields_bind: "yields m Q \<Longrightarrow> (\<And>a. Q a \<Longrightarrow> yields (f a) P) \<Longrightarrow> yields (bind m f) P"
  unfolding yields_def wp_bind by (blast intro: wp_mono)

lemma yields_any: "yields m (\<lambda>_. True)"
  by (auto simp: yields_def intro: wpI)

lemma yields_bind_any: "(\<And>a. yields (f a) P) \<Longrightarrow> yields (bind m f) P"
  by (rule yields_bind [OF yields_any]) simp

lemma yields_then: "yields k P \<Longrightarrow> yields (andthen m k) P"
  by (simp add: andthen_def yields_bind_any)

lemma yields_throw: "yields (throw e) P"
  by (simp add: yields_def wp_simps)

lemma yields_weaken: "yields m Q \<Longrightarrow> (\<And>a. Q a \<Longrightarrow> P a) \<Longrightarrow> yields m P"
  unfolding yields_def by (blast intro: wp_mono)

lemma yields_catch:
  assumes "yields m P" and "\<And>e. yields (h e) P"
  shows "yields (catch_exn m h) P"
  unfolding yields_def catch_exn_def catching_exn_def wp_catching
proof
  fix s
  have handled: "wp (case x of None \<Rightarrow> throw None | Some e \<Rightarrow> h e) (\<lambda>a s'. P a) (\<lambda>e s'. True) t" for x t
    using assms(2) by (cases x) (simp_all add: yields_def wp_simps)
  have "wp m (\<lambda>a s'. P a) (\<lambda>e s'. True) s" using assms(1) by (simp add: yields_def)
  then show "wp m (\<lambda>a s'. P a) (\<lambda>x. wp (case x of None \<Rightarrow> throw None | Some e \<Rightarrow> h e) (\<lambda>a s'. P a) (\<lambda>e s'. True)) s"
    by (rule wp_mono) (use handled in simp_all)
qed

lemma yields_request:
  "conforming fmt (td_conn d) \<Longrightarrow> map_of BRIDGE_METHODS m = Some sp \<Longrightarrow> yields (tool_request d m p) (conforms fmt (bm_result sp))"
  unfolding yields_def by (blast intro: wpI tool_request_conforms)

lemma result_of [simp]: "bm_result (bridge_method q r b) = r"
  by (simp add: bridge_method_def)

section \<open>One tool at a time\<close>

lemmas replies = yields_request [OF _ method_results(1), simplified] yields_request [OF _ method_results(2), simplified]
  yields_request [OF _ method_results(3), simplified] yields_request [OF _ method_results(4), simplified]
  yields_request [OF _ method_results(5), simplified] yields_request [OF _ method_results(6), simplified]
  yields_request [OF _ method_results(7), simplified] yields_request [OF _ method_results(8), simplified]
  yields_request [OF _ method_results(9), simplified] yields_request [OF _ method_results(10), simplified]

lemma plain_replies:
  assumes "conforming fmt (td_conn d)"
  shows "yields (listInstalledModels d c n q) (conforms fmt ListInstalledModelsOutput)"
    and "yields (getPatchSnapshot d b e) (conforms fmt GetPatchSnapshotOutput)"
    and "yields (readProbe d m i) (conforms fmt ReadProbeOutput)"
    and "yields (postChatMessage d x k) (conforms fmt PostChatMessageOutput)"
  using replies [OF assms]
  by (simp_all add: listInstalledModels_def ListInstalledModelsOutput_def getPatchSnapshot_def GetPatchSnapshotOutput_def readProbe_def
      ReadProbeOutput_def postChatMessage_def PostChatMessageOutput_def yields_bind_any yields_then del: conforms.simps)

lemma notes_reply:
  assumes "conforming fmt (td_conn d)"
  shows "yields (readUserNotes d k) (conforms fmt ReadUserNotesOutput)"
  unfolding readUserNotes_def ReadUserNotesOutput_def
  by (intro yields_then yields_bind [OF replies(9) [OF assms]] yields_ret)

lemma lease_reply:
  assumes "conforming fmt (td_conn d)"
  shows "yields (acquireWriterLease d) (conforms fmt AcquireWriterLeaseOutput)"
proof -
  have "yields (on_conn (acquireLease n (td_conn d))) (conforms fmt LeaseAcquireResult)" for n
  proof (unfold yields_def, intro allI wpI)
    fix s j s'
    assume "on_conn (acquireLease n (td_conn d)) s = (Inr j, s')"
    then have "fst (conn_request n (td_conn d) ''lease.acquire'' (JObj [(''clientName'', JStr ''rack-mcp-server'')]) None None
        (hb_conn (sh_world s))) = Inr j"
      by (auto simp: on_conn_def acquireLease_def bind_def andthen_def modify_def ret_def split: prod.splits sum.splits)
    from request_conforms [OF assms method_results(11) this] show "conforms fmt LeaseAcquireResult j" by simp
  qed simp
  then show ?thesis
    unfolding acquireWriterLease_def
    by (rule yields_bind)
      (intro yields_ret, auto simp: LeaseAcquireResult_def AcquireWriterLeaseOutput_def schema_defs opt_member_def member_JObj
        split: json.splits option.splits)
qed

lemma release_reply: "yields (releaseWriterLease d) (conforms fmt ReleaseWriterLeaseOutput)"
  unfolding releaseWriterLease_def
  by (intro yields_bind_any yields_ret) (simp add: ReleaseWriterLeaseOutput_def schema_defs)

lemma model_reply:
  assumes "conforming fmt (td_conn d)"
  shows "yields (inspectModel d p m) (conforms fmt InspectModelOutput)"
  unfolding inspectModel_def
proof (rule yields_bind [OF replies(6) [OF assms]], unfold Let_def, rule yields_ret)
  fix j assume j: "conforms fmt InspectModelResult j"
  then obtain ms where ms: "j = JObj ms" by (auto simp: InspectModelResult_def split: json.splits)
  define fs where "fs = shape_of InspectModelResult"
  have fs: "InspectModelResult = ZObject fs" by (simp add: fs_def InspectModelResult_def shape_of_def)
  have k: "''adapterAvailable'' \<notin> fst ` set fs" "''adapterVersionRange'' \<notin> fst ` set (fs @ [req ''adapterAvailable'' ZBool])"
    by (simp_all add: fs_def InspectModelResult_def shape_of_def req_def)
  have v: "conforms fmt (ZNullable (ZString [MaxLen 128])) (jopt (\<lambda>a. JStr (ad_pluginVersionRange a)) (getAdapter p m))"
    using adapter_texts(1) [of p m] by (cases "getAdapter p m") (simp_all add: jopt_def)
  have "conforms fmt (ZObject ((fs @ [req ''adapterAvailable'' ZBool]) @ [req ''adapterVersionRange'' (ZNullable (ZString [MaxLen 128]))]))
      (JObj (map_set ''adapterVersionRange'' (jopt (\<lambda>a. JStr (ad_pluginVersionRange a)) (getAdapter p m))
        (map_set ''adapterAvailable'' (JBool (getAdapter p m \<noteq> None)) ms)))"
    by (intro object_set k v) (use j ms fs in simp_all)
  then show "conforms fmt InspectModelOutput (spread j [(''adapterAvailable'', JBool (getAdapter p m \<noteq> None)),
       (''adapterVersionRange'', jopt (\<lambda>a. JStr (ad_pluginVersionRange a)) (getAdapter p m))])"
    by (simp add: InspectModelOutput_def fs ms spread_def del: conforms.simps)
qed

lemma module_yields:
  "yields (module_of k j) (\<lambda>m. member j ''module'' = Some m)"
  by (auto simp: module_of_def intro: yields_ret yields_throw split: option.split)

lemma module_conforms:
  "conforms fmt ModuleInspectResult j \<Longrightarrow> member j ''module'' = Some m \<Longrightarrow> conforms fmt ModuleSnapshot m"
  by (cases j) (auto simp: ModuleInspectResult_def schema_defs member_def)

lemma module_reply:
  assumes "conforming fmt (td_conn d)"
  shows "yields (inspectModule d i b e) (conforms fmt InspectModuleOutput)"
  unfolding inspectModule_def
proof (rule yields_bind_any, rule yields_bind [OF replies(4) [OF assms]])
  fix sel j assume j: "conforms fmt ModuleInspectResult j"
  show "yields (bind (module_of ''pluginSlug'' j) (\<lambda>m. let available = hasAdapter (text_member m ''pluginSlug'') (text_member m ''modelSlug'')
      in ret (JObj [(''module'', m), (''adapterAvailable'', JBool available),
        (''semanticsConfidence'', JStr (if available then ''adapter'' else ''none''))]))) (conforms fmt InspectModuleOutput)"
    by (rule yields_bind [OF module_yields], unfold Let_def, rule yields_ret)
      (use module_conforms [OF j] in \<open>simp add: InspectModuleOutput_def schema_defs\<close>)
qed

lemma probes_reply:
  assumes "conforming fmt (td_conn d)"
  shows "yields (listProbes d) (conforms fmt ListProbesOutput)"
  unfolding listProbes_def
proof (rule yields_bind [OF replies(7) [OF assms]])
  fix j assume j: "conforms fmt ProbeListResult j"
  then obtain xs where x: "member j ''slots'' = Some (JArr xs)" and c: "length xs \<le> 128" "list_all (conforms fmt ProbeSlotInfo) xs"
    by (auto simp: ProbeListResult_def schema_defs within_opt_def member_JObj split: json.splits option.splits)
  have "length (filter slot_connected xs) \<le> 128" using c(1) length_filter_le [of slot_connected xs] by linarith
  then have "conforms fmt ListProbesOutput (JObj [(''slots'', JArr xs), (''attachedCount'', jnat (length (filter slot_connected xs))),
       (''maxActiveProbes'', jnat (maxActiveProbes LIMITS))])"
    using c by (simp add: ListProbesOutput_def ProbeListResult_def schema_defs within_opt_def jnat_def LIMITS_def)
  then show "yields (bind (slots_of j) (\<lambda>slots. ret (JObj [(''slots'', JArr slots), (''attachedCount'', jnat (length (filter slot_connected slots))),
       (''maxActiveProbes'', jnat (maxActiveProbes LIMITS))]))) (conforms fmt ListProbesOutput)"
    by (simp add: slots_of_def x yields_def wp_simps)
qed

lemma role_short: "param_role m i = Some r \<Longrightarrow> length r \<le> 64"
  using adapter_texts(2) by (fastforce simp: param_role_def find_Some_iff split: option.splits)

lemma parameter_reply:
  assumes "conforming fmt (td_conn d)" and "DecimalId_ok moduleId"
  shows "yields (inspectParameter d moduleId paramId e) (conforms fmt InspectParameterOutput)"
  unfolding inspectParameter_def
proof (rule yields_bind_any, rule yields_bind [OF replies(4) [OF assms(1)]], rule yields_bind [OF module_yields])
  fix j m assume "conforms fmt ModuleInspectResult j" "member j ''module'' = Some m"
  then have m: "conforms fmt ModuleSnapshot m" by (rule module_conforms)
  obtain v where v: "member m ''params'' = Some v" "conforms fmt (ZArray None (Some 4096) ParamSnapshot) v"
    using required_member [OF m [unfolded ModuleSnapshot_def], of "''params''" "ZArray None (Some 4096) ParamSnapshot"]
    by (auto simp: req_def simp del: conforms.simps)
  then obtain xs where "v = JArr xs" "list_all (conforms fmt ParamSnapshot) xs" by (auto split: json.splits)
  then have ps: "yields (params_of m) (list_all (conforms fmt ParamSnapshot))"
    using v by (simp add: params_of_def yields_ret)
  show "yields (bind (params_of m) (\<lambda>params. case find (\<lambda>p. member p ''paramId'' = Some (jnat paramId)) params of
       None \<Rightarrow> throw (Some (no_param moduleId paramId))
     | Some p \<Rightarrow> let r = (if param_role m paramId = Some [] then None else param_role m paramId) in
         ret (JObj [(''param'', p), (''moduleId'', JStr moduleId), (''adapterRole'', jopt JStr (param_role m paramId)),
           (''semanticsConfidence'', JStr (if r = None then ''none'' else ''adapter''))]))) (conforms fmt InspectParameterOutput)"
  proof (rule yields_bind [OF ps])
    fix params assume "list_all (conforms fmt ParamSnapshot) params"
    then have p: "conforms fmt ParamSnapshot p" if "find (\<lambda>p. member p ''paramId'' = Some (jnat paramId)) params = Some p" for p
      using that by (auto simp: find_Some_iff list_all_iff)
    have r: "conforms fmt (ZNullable (ZString [MaxLen 64])) (jopt JStr (param_role m paramId))"
      using role_short [of m paramId] by (cases "param_role m paramId") (simp_all add: jopt_def)
    show "yields (case find (\<lambda>p. member p ''paramId'' = Some (jnat paramId)) params of
       None \<Rightarrow> throw (Some (no_param moduleId paramId))
     | Some p \<Rightarrow> let r = (if param_role m paramId = Some [] then None else param_role m paramId) in
         ret (JObj [(''param'', p), (''moduleId'', JStr moduleId), (''adapterRole'', jopt JStr (param_role m paramId)),
           (''semanticsConfidence'', JStr (if r = None then ''none'' else ''adapter''))])) (conforms fmt InspectParameterOutput)"
      using p r assms(2)
      by (auto simp: InspectParameterOutput_def schema_defs DecimalId_def Let_def intro!: yields_ret yields_throw split: option.splits)
  qed
qed

lemma mapStatus_conforms:
  "conforms fmt StatusResult j \<Longrightarrow> conforms fmt StatusResult (mapStatus j)"
proof -
  assume j: "conforms fmt StatusResult j"
  then obtain ms where ms: "j = JObj ms" by (auto simp: StatusResult_def split: json.splits)
  show ?thesis unfolding ms by (rule status_conforms [of fmt ms]) (use j ms in \<open>simp_all add: list_all_iff\<close>)
qed

lemma select_reply:
  assumes "conforming fmt (td_conn d)"
  shows "yields (selectRackInstance d i) (conforms fmt SelectRackInstanceOutput)"
  unfolding selectRackInstance_def
  by (intro yields_then yields_bind [OF replies(1) [OF assms]] yields_ret)
    (use mapStatus_conforms in \<open>simp add: SelectRackInstanceOutput_def schema_defs\<close>)

lemma status_reply:
  assumes "conforming fmt (td_conn d)" and "length (td_serverVersion d) \<le> 64"
    and "case cn_selected (the_conn s) of None \<Rightarrow> True | Some x \<Rightarrow> fmt UuidFormat (sl_instanceId x)"
  shows "wp (getRackStatus d) (\<lambda>j s'. conforms fmt GetRackStatusOutput j) (\<lambda>e s'. True) s"
proof -
  define S where "S = ZObject [req ''serverVersion'' (ZString [MaxLen 64]),
     req ''bridgeProtocolVersion'' (ZNumber [IsInt, AtLeast 1]),
     req ''supportedRackVersions'' (ZArray None None (ZString [MaxLen 64])),
     opt ''metrics'' BridgeMetrics]"
  have out: "GetRackStatusOutput = ZObject [req ''status'' (ZNullable StatusResult), req ''connected'' ZBool,
     req ''selectedInstanceId'' (ZNullable Uuid), req ''userNotesPending'' ZBool, req ''server'' S]"
    by (simp add: GetRackStatusOutput_def S_def)
  have info: "conforms fmt S (JObj (serverInfo d @ opt_member ''metrics'' mx))"
    if "case mx of None \<Rightarrow> True | Some j \<Rightarrow> conforms fmt BridgeMetrics j" for mx
    using that assms(2) by (simp add: S_def serverInfo_def schema_defs jint_def jstrs_def BRIDGE_PROTOCOL_VERSION_def opt_member_def within_opt_def split: option.splits)
  show ?thesis
  proof (cases "if is_connected (the_conn s) then cn_selected (the_conn s) else None")
    case None
    then show ?thesis
      using info [of None] assms(3)
      by (auto simp: getRackStatus_def wp_simps out req_def map_get_Cons jopt_def Uuid_def opt_member_def split: option.splits)
  next
    case (Some sel)
    have u: "conforms fmt Uuid (JStr (sl_instanceId sel))"
      using Some assms(3) by (auto simp: Uuid_def split: if_splits)
    have mx: "yields (catch_exn (bind (tool_request d ''metrics.get'' (JObj [])) (\<lambda>m. ret (Some m))) (\<lambda>_. ret None))
       (\<lambda>mx. case mx of None \<Rightarrow> True | Some j \<Rightarrow> conforms fmt BridgeMetrics j)"
      by (intro yields_catch yields_bind [OF replies(2) [OF assms(1)]] yields_ret) simp_all
    have "yields (bind (tool_request d ''status.get'' (JObj [])) (\<lambda>status.
         bind (catch_exn (bind (tool_request d ''metrics.get'' (JObj [])) (\<lambda>m. ret (Some m))) (\<lambda>_. ret None)) (\<lambda>metrics.
         bind (gets (\<lambda>s. hasPendingUserNotes (the_conn s))) (\<lambda>pending.
         ret (JObj [(''status'', mapStatus status), (''connected'', JBool True),
           (''selectedInstanceId'', JStr (sl_instanceId sel)), (''userNotesPending'', JBool pending),
           (''server'', JObj (serverInfo d @ opt_member ''metrics'' (truthy metrics)))])))))
        (conforms fmt GetRackStatusOutput)"
    proof (intro yields_bind [OF replies(1) [OF assms(1)]] yields_bind [OF mx] yields_bind [OF yields_any] yields_ret)
      fix status mx pending
      assume "conforms fmt StatusResult status" and mx: "case mx of None \<Rightarrow> True | Some j \<Rightarrow> conforms fmt BridgeMetrics j"
      then have st: "conforms fmt StatusResult (mapStatus status)" by (intro mapStatus_conforms)
      have "case truthy mx of None \<Rightarrow> True | Some j \<Rightarrow> conforms fmt BridgeMetrics j"
        using mx by (auto simp: truthy_def)
      from info [OF this] st u
      show "conforms fmt GetRackStatusOutput (JObj [(''status'', mapStatus status), (''connected'', JBool True),
           (''selectedInstanceId'', JStr (sl_instanceId sel)), (''userNotesPending'', JBool pending),
           (''server'', JObj (serverInfo d @ opt_member ''metrics'' (truthy mx)))])"
        by (simp add: out req_def map_get_Cons)
    qed
    then show ?thesis using Some by (simp add: getRackStatus_def wp_simps yields_def)
  qed
qed

text \<open>C9: what the tools return satisfies their published output schemas, whatever the plugin does
  within its own contract: for the thirteen tools that read or lease, from every state, a
  result conforms provided that each reply conforms to the result schema of its method, that
  the selected instance has a UUID and that the validated module id is decimal.\<close>

theorem replies_conform:
  assumes "conforming (fmt) (td_conn d)" and "length (td_serverVersion d) \<le> 64"
    and "case cn_selected (the_conn s) of None \<Rightarrow> True | Some x \<Rightarrow> fmt UuidFormat (sl_instanceId x)"
    and "case call of SelectRackInstance _ \<Rightarrow> True | GetRackStatus \<Rightarrow> True | AcquireWriterLease \<Rightarrow> True | ReleaseWriterLease \<Rightarrow> True
      | ListInstalledModels _ _ _ \<Rightarrow> True | InspectModel _ _ \<Rightarrow> True | GetPatchSnapshot _ _ \<Rightarrow> True | InspectModule _ _ _ \<Rightarrow> True
      | InspectParameter moduleId _ _ \<Rightarrow> DecimalId_ok moduleId | ListProbes \<Rightarrow> True | ReadProbe _ _ \<Rightarrow> True
      | ReadUserNotes _ \<Rightarrow> True | PostChatMessage _ _ \<Rightarrow> True | _ \<Rightarrow> False"
  shows "case handle d call s of (Inl e, s') \<Rightarrow> True | (Inr j, s') \<Rightarrow> conforms fmt (output_of call) j"
proof -
  note all = select_reply [OF assms(1)] lease_reply [OF assms(1)] release_reply [of d fmt] plain_replies [OF assms(1)] model_reply [OF assms(1)]
    module_reply [OF assms(1)] parameter_reply [OF assms(1)] probes_reply [OF assms(1)] notes_reply [OF assms(1)]
  have "wp (handle d call) (\<lambda>j s'. conforms fmt (output_of call) j) (\<lambda>e s'. True) s"
    using assms(4) all status_reply [OF assms(1,2,3)]
    by (cases call) (simp_all add: output_lookup OUTPUTS_def yields_def)
  then show ?thesis by (simp add: wp_def)
qed

text \<open>A session over which the plugin answers \<open>probe.list\<close> and refuses everything else.\<close>

definition demo_probes :: "int conn_deps" where
  "demo_probes = (demo_answer (Inr JNull))\<lparr>cd_request := (\<lambda>i m p oid t s.
     (if m = ''probe.list'' then Inr (JObj [(''slots'', JArr [])]) else Inl (PlainErr ''refused''), s))\<rparr>"

lemma replies_conform_witness:
  "\<forall>(d :: int tool_deps) s. case handle (d\<lparr>td_conn := demo_probes, td_serverVersion := ''0.1.0''\<rparr>) ListProbes
      (s\<lparr>sh_world := (sh_world s)\<lparr>hb_conn := demo_conn\<rparr>\<rparr>) of (Inl e, s') \<Rightarrow> False | (Inr j, s') \<Rightarrow> conforms (\<lambda>f t. True) (output_of ListProbes) j"
proof (intro allI)
  fix d :: "int tool_deps" and s :: "int server"
  let ?d = "d\<lparr>td_conn := demo_probes, td_serverVersion := ''0.1.0''\<rparr>" and ?s = "s\<lparr>sh_world := (sh_world s)\<lparr>hb_conn := demo_conn\<rparr>\<rparr>"
  have c: "conforming (\<lambda>f t. True) (td_conn ?d)"
    by (simp add: conforming_def demo_probes_def method_results ProbeListResult_def schema_defs within_opt_def split: option.split)
  have v: "length (td_serverVersion ?d) \<le> 64" by simp
  have u: "case cn_selected (the_conn ?s) of None \<Rightarrow> True | Some x \<Rightarrow> (\<lambda>f t. True) UuidFormat (sl_instanceId x)"
    by (simp split: option.split)
  have k: "case ListProbes of SelectRackInstance _ \<Rightarrow> True | GetRackStatus \<Rightarrow> True | AcquireWriterLease \<Rightarrow> True | ReleaseWriterLease \<Rightarrow> True
      | ListInstalledModels _ _ _ \<Rightarrow> True | InspectModel _ _ \<Rightarrow> True | GetPatchSnapshot _ _ \<Rightarrow> True | InspectModule _ _ _ \<Rightarrow> True
      | InspectParameter moduleId _ _ \<Rightarrow> DecimalId_ok moduleId | ListProbes \<Rightarrow> True | ReadProbe _ _ \<Rightarrow> True
      | ReadUserNotes _ \<Rightarrow> True | PostChatMessage _ _ \<Rightarrow> True | _ \<Rightarrow> False" by simp
  have "\<exists>j t. handle ?d ListProbes ?s = (Inr j, t)"
    by (simp add: listProbes_def tool_request_def request_op_def on_conn_def conn_request_def request_attached attached_def
        is_connected_def demo_conn_def demo_probes_def lift_exn_def bind_def ret_def slots_of_def member_def map_get_Cons)
  then show "case handle ?d ListProbes ?s of (Inl e, s') \<Rightarrow> False | (Inr j, s') \<Rightarrow> conforms (\<lambda>f t. True) (output_of ListProbes) j"
    using replies_conform [OF c v u k] by auto
qed

end
