(* ===== verification/TestClient.thy ===== *)
theory TestClient
  imports ToolReplies
begin

text \<open>
  The scriptable client of the live smokes (\<open>packages/test-client\<close>): unwrapping a tool result
  (\<open>results.ts\<close>), tallying assertions (\<open>checks.ts\<close>) and the calls of \<open>client.ts\<close>, over the
  \<open>callTool\<close> of the SDK, which is an argument.  A value read from a result is \<open>None\<close> where the
  code reads \<open>undefined\<close>; a thrown \<open>Error\<close> is its message.  The reading of results is then
  composed with the replies the server builds.
\<close>

section \<open>Reading a result\<close>

text \<open>A property of \<open>(result ?? {})\<close>.\<close>

definition get_prop :: "json option \<Rightarrow> string \<Rightarrow> json option" where
  "get_prop v k = (case v of None \<Rightarrow> None | Some j \<Rightarrow> member j k)"

text \<open>\<open>v !== null && typeof v === "object"\<close>.\<close>

definition js_object :: "json option \<Rightarrow> bool" where
  "js_object v = (case v of Some (JObj _) \<Rightarrow> True | Some (JArr _) \<Rightarrow> True | _ \<Rightarrow> False)"

text \<open>\<open>String(v)\<close>.\<close>

fun js_String :: "json \<Rightarrow> string" where
  "js_String JNull = ''null''"
| "js_String (JBool b) = (if b then ''true'' else ''false'')"
| "js_String (JNum r) = num_json r"
| "js_String (JStr s) = s"
| "js_String (JArr vs) = join_with '','' (map (\<lambda>v. if v = JNull then [] else js_String v) vs)"
| "js_String (JObj kvs) = ''[object Object]''"

definition String_of :: "json option \<Rightarrow> string" where
  "String_of v = (case v of None \<Rightarrow> ''undefined'' | Some j \<Rightarrow> js_String j)"

text \<open>A parsed value always has a JSON text; only \<open>undefined\<close> has none.\<close>

definition describe :: "json option \<Rightarrow> string" where
  "describe v = (case v of None \<Rightarrow> String_of None | Some j \<Rightarrow> take 400 (stringify j))"

definition structured :: "json option \<Rightarrow> string \<Rightarrow> string + json" where
  "structured result toolName = (let sc = get_prop result ''structuredContent'' in
     if js_object sc then Inr (the sc)
     else Inl (toolName @ '' returned no structuredContent (isError='' @ String_of (get_prop result ''isError'') @ ''); '' @
       ''raw result: '' @ describe result))"

record reported_error =
  re_code :: string
  re_message :: string

definition string_or_empty :: "json option \<Rightarrow> string" where
  "string_or_empty v = (case v of Some (JStr s) \<Rightarrow> s | _ \<Rightarrow> [])"

definition toolError_of :: "json option \<Rightarrow> reported_error option" where
  "toolError_of result = (let err = get_prop (get_prop result ''structuredContent'') ''error'' in
     if js_object err then Some \<lparr>re_code = string_or_empty (get_prop err ''code''), re_message = string_or_empty (get_prop err ''message'')\<rparr>
     else if get_prop result ''isError'' = Some (JBool True) then Some \<lparr>re_code = [], re_message = []\<rparr> else None)"

definition succeeded :: "json option \<Rightarrow> bool" where
  "succeeded result = (toolError_of result = None)"

section \<open>Tallying assertions\<close>

record checks =
  ck_label :: string
  ck_passes :: nat
  ck_failures :: nat
  ck_sink :: "string list"
  ck_exitCode :: "nat option"

definition new_checks :: "string \<Rightarrow> checks" where
  "new_checks label = \<lparr>ck_label = label, ck_passes = 0, ck_failures = 0, ck_sink = [], ck_exitCode = None\<rparr>"

definition sink_line :: "string \<Rightarrow> checks \<Rightarrow> checks" where
  "sink_line l c = c\<lparr>ck_sink := ck_sink c @ [l]\<rparr>"

definition check_fail :: "string \<Rightarrow> string \<Rightarrow> checks \<Rightarrow> checks" where
  "check_fail name detail c = sink_line (''FAIL '' @ name @ '' '' @ detail) (c\<lparr>ck_failures := ck_failures c + 1\<rparr>)"

definition check_ok :: "string \<Rightarrow> bool \<Rightarrow> string \<Rightarrow> checks \<Rightarrow> bool \<times> checks" where
  "check_ok name cond detail c = (cond,
     if cond then sink_line (''ok   '' @ name @ (if detail = [] then [] else '' ('' @ detail @ '')'')) (c\<lparr>ck_passes := ck_passes c + 1\<rparr>)
     else sink_line (''FAIL '' @ name @ '' '' @ detail) (c\<lparr>ck_failures := ck_failures c + 1\<rparr>))"

definition check_finish :: "checks \<Rightarrow> nat \<times> checks" where
  "check_finish c = (ck_failures c,
     (sink_line (if ck_failures c \<noteq> 0
        then ck_label c @ '': FAILED ('' @ nat_str (ck_failures c) @ '' of '' @ nat_str (ck_failures c + ck_passes c) @ '')''
        else ck_label c @ '': PASSED ('' @ nat_str (ck_passes c) @ '')'') c)
     \<lparr>ck_exitCode := Some (if ck_failures c \<noteq> 0 then 1 else 0)\<rparr>)"

section \<open>The client\<close>

text \<open>What the process is started with.\<close>

record connect_options =
  co_userDir :: string
  co_name :: "string option"
  co_serverEntry :: "string option"
  co_env :: "(string, string) jsmap"

record server_process =
  sv_client_name :: string
  sv_command :: string
  sv_args :: "string list"
  sv_env :: "(string, string) jsmap"

definition defined_entries :: "(string, string option) jsmap \<Rightarrow> (string, string) jsmap" where
  "defined_entries = foldl (\<lambda>env (k, v). case v of None \<Rightarrow> env | Some s \<Rightarrow> map_set k s env) []"

definition object_assign :: "('k, 'v) jsmap \<Rightarrow> ('k, 'v) jsmap \<Rightarrow> ('k, 'v) jsmap" where
  "object_assign target src = foldl (\<lambda>m (k, v). map_set k v m) target src"

definition connect_process :: "(string, string option) jsmap \<Rightarrow> string \<Rightarrow> string \<Rightarrow> connect_options \<Rightarrow> server_process" where
  "connect_process processEnv execPath defaultEntry opts =
     \<lparr>sv_client_name = (case co_name opts of None \<Rightarrow> ''rackmcp-test-client'' | Some n \<Rightarrow> n),
      sv_command = execPath,
      sv_args = [case co_serverEntry opts of None \<Rightarrow> defaultEntry | Some e \<Rightarrow> e],
      sv_env = object_assign (map_set ''RACKMCP_RACK_USER_DIR'' (co_userDir opts) (defined_entries processEnv)) (co_env opts)\<rparr>"

text \<open>The SDK client: a call by name and arguments, and closing; the state is the client's, with what is
  on the other side.\<close>

record 'w sdk =
  sdk_callTool :: "string \<Rightarrow> json \<Rightarrow> (string, 'w, json option) prog"
  sdk_close :: "(string, 'w, unit) prog"

record 'w rack_client =
  rc_world :: 'w
  rc_closed :: bool

type_synonym ('w, 'a) client_prog = "(string, 'w rack_client, 'a) prog"

definition on_world :: "(string, 'w, 'a) prog \<Rightarrow> ('w, 'a) client_prog" where
  "on_world m c = (case m (rc_world c) of (r, w) \<Rightarrow> (r, c\<lparr>rc_world := w\<rparr>))"

definition callRaw :: "'w sdk \<Rightarrow> string \<Rightarrow> json \<Rightarrow> ('w, json option) client_prog" where
  "callRaw d name args = on_world (sdk_callTool d name args)"

definition lift_error :: "string + 'a \<Rightarrow> ('w, 'a) client_prog" where
  "lift_error r = (case r of Inl e \<Rightarrow> throw e | Inr x \<Rightarrow> ret x)"

definition client_call :: "'w sdk \<Rightarrow> string \<Rightarrow> json \<Rightarrow> ('w, json) client_prog" where
  "client_call d name args = bind (callRaw d name args) (\<lambda>result.
     case toolError_of result of
       Some err \<Rightarrow> throw (name @ '' failed: '' @ (if re_code err = [] then ''(no code)'' else re_code err) @ '' '' @ re_message err)
     | None \<Rightarrow> lift_error (structured result name))"

definition expectError :: "'w sdk \<Rightarrow> string \<Rightarrow> json \<Rightarrow> ('w, reported_error) client_prog" where
  "expectError d name args = bind (callRaw d name args) (\<lambda>result.
     case toolError_of result of
       None \<Rightarrow> bind (lift_error (structured result name)) (\<lambda>sc.
         throw (name @ '' was expected to fail but succeeded: '' @ take 300 (stringify sc)))
     | Some err \<Rightarrow> ret err)"

definition client_attempt :: "'w sdk \<Rightarrow> string \<Rightarrow> json \<Rightarrow> ('w, bool) client_prog" where
  "client_attempt d name args = bind (callRaw d name args) (\<lambda>result. ret (succeeded result))"

text \<open>\<open>listed["instances"] ?? []\<close>, cast to an array; \<open>find\<close> reads \<open>stale\<close> of each element up to the
  first that is not stale, and a \<open>null\<close> element has no properties.\<close>

definition instances_of :: "json \<Rightarrow> string + json list" where
  "instances_of listed = (case member listed ''instances'' of None \<Rightarrow> Inr [] | Some JNull \<Rightarrow> Inr []
     | Some (JArr xs) \<Rightarrow> Inr xs | Some _ \<Rightarrow> Inl ''instances.find is not a function'')"

definition null_property :: "string \<Rightarrow> string" where
  "null_property k = ''Cannot read properties of null (reading '' @ [CHR 0x27] @ k @ [CHR 0x27] @ '')''"

fun find_live :: "json list \<Rightarrow> string + json option" where
  "find_live [] = Inr None"
| "find_live (i # r) = (if i = JNull then Inl (null_property ''stale'')
     else if member i ''stale'' \<noteq> Some (JBool True) then Inr (Some i) else find_live r)"

definition no_live :: "json list \<Rightarrow> string" where
  "no_live instances = (let ids = join_with '', '' (map (\<lambda>i. String_of (member i ''instanceId'')) instances) in
     ''no live Rack instance among '' @ nat_str (length instances) @ '' discovered ('' @ (if ids = [] then ''none'' else ids) @ '')'')"

definition selectLiveInstance :: "'w sdk \<Rightarrow> ('w, json) client_prog" where
  "selectLiveInstance d = bind (client_call d ''list_rack_instances'' (JObj [])) (\<lambda>listed.
     bind (lift_error (instances_of listed)) (\<lambda>instances.
     bind (lift_error (find_live instances)) (\<lambda>live. case live of
       None \<Rightarrow> throw (no_live instances)
     | Some i \<Rightarrow> andthen (client_call d ''select_rack_instance'' (JObj (opt_member ''instanceId'' (member i ''instanceId'')))) (ret i))))"

definition rack_close :: "'w sdk \<Rightarrow> ('w, unit) client_prog" where
  "rack_close d = bind (gets rc_closed) (\<lambda>closed. if closed then ret () else
     andthen (modify (rc_closed_update (\<lambda>_. True))) (catching (on_world (sdk_close d)) (\<lambda>_. ret ())))"

section \<open>Selecting, tallying, closing\<close>

lemma find_live_first:
  "find_live xs = Inr (Some i) \<Longrightarrow> \<exists>pre post. xs = pre @ i # post \<and> member i ''stale'' \<noteq> Some (JBool True) \<and>
     list_all (\<lambda>x. member x ''stale'' = Some (JBool True)) pre"
proof (induction xs)
  case (Cons x xs)
  show ?case
  proof (cases "member x ''stale'' = Some (JBool True)")
    case True
    then obtain pre post where "xs = pre @ i # post" "member i ''stale'' \<noteq> Some (JBool True)"
        "list_all (\<lambda>x. member x ''stale'' = Some (JBool True)) pre"
      using Cons by (auto split: if_splits)
    then show ?thesis using True by (intro exI [of _ "x # pre"] exI [of _ post]) simp
  next
    case False
    then show ?thesis using Cons.prems by (intro exI [of _ "[]"] exI [of _ xs]) (auto split: if_splits)
  qed
qed simp

lemma close_once: "rack_close k c = (r, c') \<Longrightarrow> r = Inr () \<and> rc_closed c' \<and> rack_close k c' = (Inr (), c')"
  by (auto simp: rack_close_def bind_def gets_def andthen_def modify_def catching_def on_world_def ret_def
      split: if_splits prod.splits sum.splits)

text \<open>One line for each assertion.\<close>

definition tallied :: "checks \<Rightarrow> bool" where
  "tallied c = (length (ck_sink c) = ck_passes c + ck_failures c)"

lemma tallied_steps: "tallied (new_checks l)" "tallied c \<Longrightarrow> tallied (check_fail nm t c)" "tallied c \<Longrightarrow> tallied (snd (check_ok nm b t c))"
  by (simp_all add: tallied_def new_checks_def check_fail_def check_ok_def sink_line_def)

lemma finish_verdict: "ck_exitCode (snd (check_finish c)) = Some (if ck_failures c = 0 then 0 else 1) \<and> fst (check_finish c) = ck_failures c"
  by (simp add: check_finish_def)

section \<open>What the client reads of the replies of the server\<close>

text \<open>A reply as the server builds it.\<close>

definition reply_content :: "call_reply \<Rightarrow> json" where
  "reply_content r = JArr [JObj [(''type'', JStr ''text''), (''text'', JStr (map (\<lambda>u. char_of (unat u)) (cl_text r)))]]"

definition wire_result :: "call_reply \<Rightarrow> json" where
  "wire_result r = JObj ((if cl_isError r then [(''isError'', JBool True)] else []) @
     [(''content'', reply_content r), (''structuredContent'', cl_structured r)])"

text \<open>An object schema with distinct keys and no member of that name.\<close>

fun never_has :: "string \<Rightarrow> schema \<Rightarrow> bool" where
  "never_has k (ZObject fs) = list_all (\<lambda>f. fst f \<noteq> k) fs"
| "never_has k (ZUnion ss) = list_all (never_has k) ss"
| "never_has k (ZRefine p s) = never_has k s"
| "never_has k s = False"

lemma never_has_sound: "never_has k s \<Longrightarrow> conforms fmt s j \<Longrightarrow> member j k = None \<and> js_object (Some j)"
proof (induction k s rule: never_has.induct)
  case (1 k fs)
  then obtain ms where ms: "j = JObj ms" "list_all (\<lambda>m. list_ex (\<lambda>f. fst f = fst m) fs) ms"
    by (auto split: json.splits)
  have "k \<notin> fst ` set ms" using ms(2) 1(1) by (fastforce simp: list_all_iff list_ex_iff)
  then show ?case by (simp add: ms(1) member_def map_get_def map_of_eq_None_iff js_object_def)
qed (auto simp: list_ex_iff list_all_iff)

lemmas tool_outputs = ListRackInstancesOutput_def SelectRackInstanceOutput_def GetRackStatusOutput_def AcquireWriterLeaseOutput_def ReleaseWriterLeaseOutput_def ListInstalledModelsOutput_def InspectModelOutput_def GetPatchSnapshotOutput_def InspectModuleOutput_def InspectParameterOutput_def DescribePatchOutput_def ValidatePatchOutput_def PreviewPatchTransactionOutput_def CommitPatchTransactionOutput_def UndoLastMcpTransactionOutput_def BuildPatchOutput_def BuildRecipeOutput_def ListPatchFilesOutput_def CreateCheckpointOutput_def SavePatchOutput_def PreviewLoadPatchOutput_def CommitLoadPatchOutput_def PreviewClearPatchOutput_def CommitClearPatchOutput_def RestoreCheckpointOutput_def ListProbesOutput_def PreviewAttachProbeOutput_def CommitAttachProbeOutput_def ReadProbeOutput_def ReadUserNotesOutput_def PostChatMessageOutput_def DetachProbeOutput_def CatalogListResult_def InspectModelResult_def PatchSnapshot_def ValidationReport_def TxnCommitResult_def PatchFileCommitOutput_def ProbeListResult_def ProbeReading_def ChatPollResult_def ChatPostResult_def

lemma outputs_without_error: "list_all (\<lambda>e. never_has ''error'' (snd e)) OUTPUTS"
  by (simp add: OUTPUTS_def tool_outputs req_def opt_def dflt_def)

lemma output_without_error:
  assumes "spec \<in> set TOOLS" and "conforms fmt (ts_output spec) j"
  shows "member j ''error'' = None" and "js_object (Some j)"
proof -
  have "(ts_name spec, ts_output spec) \<in> set OUTPUTS" using assms(1) unfolding output_table [symmetric] by auto
  then have "never_has ''error'' (ts_output spec)" using outputs_without_error by (auto simp: list_all_iff)
  from never_has_sound [OF this assms(2)] show "member j ''error'' = None" and "js_object (Some j)" by simp_all
qed

lemma error_read:
  "toolError_of (Some (wire_result (error_reply p))) = Some \<lparr>re_code = code_str (ep_code p), re_message = ep_message p\<rparr>"
  by (simp add: toolError_of_def wire_result_def error_reply_def get_prop_def member_def map_get_Cons error_json_def js_object_def
      string_or_empty_def)

lemma ok_read:
  assumes "member j ''error'' = None" and "js_object (Some j)"
  shows "toolError_of (Some (wire_result (ok_reply j))) = None" and "structured (Some (wire_result (ok_reply j))) nm = Inr j"
  using assms
  by (simp_all add: toolError_of_def wire_result_def ok_reply_def get_prop_def member_JObj map_get_Cons structured_def Let_def
      js_object_def [of None])

lemma reply_cases:
  "call_tool d spec args h = (Some r, h') \<Longrightarrow> (\<exists>j. r = ok_reply j) \<or> (\<exists>e. r = error_reply (toErrorPayload e))"
  by (auto simp: call_tool_def Let_def split: prod.splits sum.splits option.splits)

text \<open>A transport that carries calls and replies unchanged.\<close>

definition carries :: "'a sdk \<Rightarrow> ('a \<Rightarrow> 'w host) \<Rightarrow> 'w host_deps \<Rightarrow> bool" where
  "carries k view d \<longleftrightarrow> (\<forall>name args w spec r h'. getTool name = Some spec \<and> call_tool d spec args (view w) = (Some r, h') \<longrightarrow>
     (\<exists>w'. sdk_callTool k name args w = (Inr (Some (wire_result r)), w') \<and> view w' = h'))"

text \<open>C40: the client of the smokes reads the replies of this server as they were meant: over a
  transport that carries them, a call returns the validated result of the handler whenever the
  reply is no error and its result keeps the published schema, and otherwise throws an error
  that names the tool, the published code and the message; \<open>expectError\<close> returns exactly that
  code and message, and \<open>attempt\<close> is true exactly for a reply that is no error.\<close>

theorem client_reads_replies:
  assumes "carries k view d" and "getTool name = Some spec" and "call_tool d spec args (view (rc_world c)) = (Some r, h')"
    and "cl_isError r \<or> conforms fmt (ts_output spec) (cl_structured r)"
  shows "\<exists>w'. view w' = h' \<and> (let c' = c\<lparr>rc_world := w'\<rparr> in
    (if cl_isError r
     then (\<exists>p. cl_structured r = JObj [(''error'', error_json p)] \<and>
       client_call k name args c = (Inl (name @ '' failed: '' @ code_str (ep_code p) @ '' '' @ ep_message p), c') \<and>
       expectError k name args c = (Inr \<lparr>re_code = code_str (ep_code p), re_message = ep_message p\<rparr>, c'))
     else client_call k name args c = (Inr (cl_structured r), c') \<and> (\<exists>e. expectError k name args c = (Inl e, c'))) \<and>
    client_attempt k name args c = (Inr (\<not> cl_isError r), c'))"
proof -
  obtain w' where w: "sdk_callTool k name args (rc_world c) = (Inr (Some (wire_result r)), w')" "view w' = h'"
    using assms(1-3) unfolding carries_def by blast
  have raw: "callRaw k name args c = (Inr (Some (wire_result r)), c\<lparr>rc_world := w'\<rparr>)"
    by (simp add: callRaw_def on_world_def w(1))
  have spec: "spec \<in> set TOOLS" using assms(2) by (auto simp: getTool_def find_Some_iff)
  have code: "code_str x \<noteq> []" for x by (cases x) simp_all
  show ?thesis
  proof (cases "cl_isError r")
    case True
    then obtain p where p: "r = error_reply p" using reply_cases [OF assms(3)] by (auto simp: ok_reply_def)
    show ?thesis using w(2) raw code
      by (auto simp: Let_def client_call_def expectError_def client_attempt_def succeeded_def bind_def p error_read throw_def ret_def
          intro!: exI [of _ w'] exI [of _ p]) (simp_all add: error_reply_def)
  next
    case False
    then obtain j where j: "r = ok_reply j" using reply_cases [OF assms(3)] by (auto simp: error_reply_def)
    have "conforms fmt (ts_output spec) j" using assms(4) False by (simp add: j ok_reply_def)
    note read = ok_read [OF output_without_error [OF spec this]]
    show ?thesis using w(2) raw False
      by (auto simp: Let_def client_call_def expectError_def client_attempt_def succeeded_def bind_def j read lift_error_def throw_def ret_def
          intro!: exI [of _ w']) (simp_all add: ok_reply_def)
  qed
qed

text \<open>The server in the same process.\<close>

definition local_sdk :: "'w host_deps \<Rightarrow> 'w host sdk" where
  "local_sdk d = \<lparr>sdk_callTool = (\<lambda>name args h. case getTool name of None \<Rightarrow> (Inl ''unknown tool'', h)
     | Some spec \<Rightarrow> (case call_tool d spec args h of (None, h') \<Rightarrow> (Inl ''no reply'', h') | (Some r, h') \<Rightarrow> (Inr (Some (wire_result r)), h'))),
     sdk_close = ret ()\<rparr>"

lemma local_carries: "carries (local_sdk d) id d"
  by (auto simp: carries_def local_sdk_def)

lemma error_json_code: "error_json a = error_json b \<Longrightarrow> code_str (ep_code b) = code_str (ep_code a)"
  by (simp add: error_json_def)

lemma client_reads_replies_witness:
  "\<forall>(d :: int host_deps) (h :: int host). \<exists>m c'. expectError (local_sdk d) ''list_rack_instances'' (JBool True) \<lparr>rc_world = h, rc_closed = False\<rparr> =
     (Inr \<lparr>re_code = ''INTERNAL'', re_message = m\<rparr>, c')"
proof (intro allI)
  fix d :: "int host_deps" and h :: "int host"
  let ?c = "\<lparr>rc_world = h, rc_closed = False\<rparr> :: int host rack_client"
  have g: "getTool ''list_rack_instances'' = Some T_list_rack_instances"
    by (simp add: getTool_def TOOLS_def T_list_rack_instances_def)
  obtain e h' where e: "call_tool d T_list_rack_instances (JBool True) (id (rc_world ?c)) = (Some (error_reply (toErrorPayload (PlainErr e))), h')"
    by (simp add: call_tool_def Let_def invoke_def T_list_rack_instances_def ListRackInstancesInput_def guard_def andthen_def bind_def
        throw_def)
  show "\<exists>m c'. expectError (local_sdk d) ''list_rack_instances'' (JBool True) ?c = (Inr \<lparr>re_code = ''INTERNAL'', re_message = m\<rparr>, c')"
    using client_reads_replies [OF local_carries g e] by (auto simp: error_reply_def Let_def dest!: error_json_code)
qed

end
