(* ===== verification/JsonSchema.thy ===== *)
theory JsonSchema
  imports ToolReplies
begin

text \<open>
  What a JSON Schema document (draft 2020-12) accepts: the meaning of the artifacts that
  \<open>scripts/gen-schemas.ts\<close> writes and \<open>scripts/gen-cpp.ts\<close> reads.  It covers the keywords that
  occur in \<open>packages/schemas/json\<close>; the others (\<open>$id\<close>, \<open>description\<close>, \<open>default\<close>, \<open>format\<close>)
  are annotations.  Matching a regular expression is an argument.  Constants are scalars, so
  equality of values is that of the model.
\<close>

section \<open>Keywords that look at the value alone\<close>

definition is_integral :: "json \<Rightarrow> bool" where
  "is_integral j = (case j of JNum r \<Rightarrow> snd (quotient_of r) = 1 | _ \<Rightarrow> False)"

definition has_type :: "string \<Rightarrow> json \<Rightarrow> bool" where
  "has_type t j = (case j of
     JNull \<Rightarrow> t = ''null'' | JBool _ \<Rightarrow> t = ''boolean'' | JStr _ \<Rightarrow> t = ''string'' | JArr _ \<Rightarrow> t = ''array''
   | JObj _ \<Rightarrow> t = ''object'' | JNum _ \<Rightarrow> t = ''number'' \<or> t = ''integer'' \<and> is_integral j)"

definition type_accepts :: "json \<Rightarrow> json \<Rightarrow> bool" where
  "type_accepts t j = (case t of JStr n \<Rightarrow> has_type n j
     | JArr ts \<Rightarrow> list_ex (\<lambda>x. case x of JStr n \<Rightarrow> has_type n j | _ \<Rightarrow> False) ts | _ \<Rightarrow> False)"

definition has_key :: "json \<Rightarrow> json \<Rightarrow> bool" where
  "has_key j r = (case r of JStr k \<Rightarrow> member j k \<noteq> None | _ \<Rightarrow> False)"

definition bounded_by :: "(rat \<Rightarrow> rat \<Rightarrow> bool) \<Rightarrow> json \<Rightarrow> rat \<Rightarrow> bool" where
  "bounded_by le b r = (case b of JNum n \<Rightarrow> le r n | _ \<Rightarrow> False)"

definition plain_keyword :: "(string \<Rightarrow> string \<Rightarrow> bool) \<Rightarrow> string \<Rightarrow> json \<Rightarrow> json \<Rightarrow> bool" where
  "plain_keyword rx k s j =
     (if k = ''type'' then type_accepts s j
      else if k = ''const'' then j = s
      else if k = ''enum'' then (case s of JArr vs \<Rightarrow> list_ex ((=) j) vs | _ \<Rightarrow> False)
      else case j of
        JNum r \<Rightarrow> (k = ''minimum'' \<longrightarrow> bounded_by (\<ge>) s r) \<and> (k = ''maximum'' \<longrightarrow> bounded_by (\<le>) s r) \<and>
          (k = ''exclusiveMinimum'' \<longrightarrow> bounded_by (>) s r)
      | JStr t \<Rightarrow> (k = ''minLength'' \<longrightarrow> bounded_by (\<ge>) s (of_nat (length t))) \<and>
          (k = ''maxLength'' \<longrightarrow> bounded_by (\<le>) s (of_nat (length t))) \<and>
          (k = ''pattern'' \<longrightarrow> (case s of JStr p \<Rightarrow> rx p t | _ \<Rightarrow> False))
      | JArr vs \<Rightarrow> (k = ''minItems'' \<longrightarrow> bounded_by (\<ge>) s (of_nat (length vs))) \<and>
          (k = ''maxItems'' \<longrightarrow> bounded_by (\<le>) s (of_nat (length vs)))
      | JObj ms \<Rightarrow> (k = ''required'' \<longrightarrow> (case s of JArr rs \<Rightarrow> list_all (has_key j) rs | _ \<Rightarrow> False))
      | _ \<Rightarrow> True)"

section \<open>Keywords that hold schemas\<close>

definition pairs :: "json \<Rightarrow> (string \<times> json) list" where
  "pairs j = (case j of JObj ms \<Rightarrow> ms | _ \<Rightarrow> [])"

definition elems :: "json \<Rightarrow> json list" where
  "elems j = (case j of JArr vs \<Rightarrow> vs | _ \<Rightarrow> [])"

definition declared_keys :: "(string \<times> json) list \<Rightarrow> string list" where
  "declared_keys ks = (case map_get ks ''properties'' of None \<Rightarrow> [] | Some p \<Rightarrow> map fst (pairs p))"

definition tuple_length :: "(string \<times> json) list \<Rightarrow> nat" where
  "tuple_length ks = (case map_get ks ''prefixItems'' of None \<Rightarrow> 0 | Some p \<Rightarrow> length (elems p))"

text \<open>The number of schemas of a list that accept.\<close>

definition count_true :: "bool list \<Rightarrow> nat" where
  "count_true bs = length (filter id bs)"

lemma size_pairs [termination_simp]: "(k, s) \<in> set ks \<Longrightarrow> size s < Suc (size_list (size_prod (\<lambda>_. 0) size) ks)"
  by (induction ks) auto

lemma size_below: "(k, s) \<in> set ks \<Longrightarrow> n < size s \<Longrightarrow> n < Suc (size_list (size_prod (\<lambda>_. 0) size) ks)"
  using size_pairs by fastforce

lemma size_in_pairs: "(k, s) \<in> set (pairs j) \<Longrightarrow> size s < size j"
  by (cases j) (auto simp: pairs_def size_pairs)

lemma size_in_elems: "s \<in> set (elems j) \<Longrightarrow> size s < size j"
proof (cases j)
  case (JArr vs)
  assume "s \<in> set (elems j)"
  then have "s \<in> set vs" using JArr by (simp add: elems_def)
  then have "size s < Suc (size_list size vs)" by (induction vs) auto
  then show ?thesis using JArr by simp
qed (simp_all add: elems_def)

lemma size_map_get: "map_get ks k = Some s \<Longrightarrow> size s < Suc (size_list (size_prod (\<lambda>_. 0) size) ks)"
  by (auto dest!: map_get_in_set simp: size_pairs)

function js_valid :: "(string \<Rightarrow> string \<Rightarrow> bool) \<Rightarrow> json \<Rightarrow> json \<Rightarrow> bool" where
  "js_valid rx (JObj ks) j = list_all (\<lambda>(k, s).
     if k = ''properties'' then list_all (\<lambda>(p, q). case member j p of None \<Rightarrow> True | Some v \<Rightarrow> js_valid rx q v) (pairs s)
     else if k = ''additionalProperties'' then
       list_all (\<lambda>(p, v). p \<in> set (declared_keys ks) \<or> js_valid rx s v) (pairs j)
     else if k = ''propertyNames'' then list_all (\<lambda>(p, v). js_valid rx s (JStr p)) (pairs j)
     else if k = ''prefixItems'' then list_all (\<lambda>(q, v). js_valid rx q v) (zip (elems s) (elems j))
     else if k = ''items'' then list_all (js_valid rx s) (drop (tuple_length ks) (elems j))
     else if k = ''anyOf'' then list_ex (\<lambda>q. js_valid rx q j) (elems s)
     else if k = ''oneOf'' then count_true (map (\<lambda>q. js_valid rx q j) (elems s)) = 1
     else if k = ''allOf'' then list_all (\<lambda>q. js_valid rx q j) (elems s)
     else if k = ''not'' then \<not> js_valid rx s j
     else if k = ''if'' then js_valid rx s j \<longrightarrow> (case map_get ks ''then'' of None \<Rightarrow> True | Some t \<Rightarrow> js_valid rx t j)
     else plain_keyword rx k s j) ks"
| "js_valid rx (JBool b) j = b"
| "js_valid rx JNull j = False"
| "js_valid rx (JNum r) j = False"
| "js_valid rx (JStr t) j = False"
| "js_valid rx (JArr vs) j = False"
  by pat_completeness auto
termination
  by (relation "measure (\<lambda>(rx, s, j). size s)")
    (auto simp: size_pairs size_map_get intro: size_below dest!: size_in_pairs size_in_elems set_zip_leftD)

section \<open>Keywords one at a time\<close>

definition keyword :: "(string \<Rightarrow> string \<Rightarrow> bool) \<Rightarrow> (string \<times> json) list \<Rightarrow> json \<Rightarrow> string \<times> json \<Rightarrow> bool" where
  "keyword rx ks j = (\<lambda>(k, s).
     if k = ''properties'' then list_all (\<lambda>(p, q). case member j p of None \<Rightarrow> True | Some v \<Rightarrow> js_valid rx q v) (pairs s)
     else if k = ''additionalProperties'' then
       list_all (\<lambda>(p, v). p \<in> set (declared_keys ks) \<or> js_valid rx s v) (pairs j)
     else if k = ''propertyNames'' then list_all (\<lambda>(p, v). js_valid rx s (JStr p)) (pairs j)
     else if k = ''prefixItems'' then list_all (\<lambda>(q, v). js_valid rx q v) (zip (elems s) (elems j))
     else if k = ''items'' then list_all (js_valid rx s) (drop (tuple_length ks) (elems j))
     else if k = ''anyOf'' then list_ex (\<lambda>q. js_valid rx q j) (elems s)
     else if k = ''oneOf'' then count_true (map (\<lambda>q. js_valid rx q j) (elems s)) = 1
     else if k = ''allOf'' then list_all (\<lambda>q. js_valid rx q j) (elems s)
     else if k = ''not'' then \<not> js_valid rx s j
     else if k = ''if'' then js_valid rx s j \<longrightarrow> (case map_get ks ''then'' of None \<Rightarrow> True | Some t \<Rightarrow> js_valid rx t j)
     else plain_keyword rx k s j)"

lemma js_valid_keywords: "js_valid rx (JObj ks) j = list_all (keyword rx ks j) ks"
  by (simp add: keyword_def)

lemma js_validD: "js_valid rx (JObj ks) j \<Longrightarrow> map_get ks k = Some s \<Longrightarrow> keyword rx ks j (k, s)"
  by (auto simp: js_valid_keywords list_all_iff simp del: js_valid.simps dest: map_get_in_set)

text \<open>A keyword looks at three of its siblings only.\<close>

lemma keyword_cong:
  assumes "map_get ks ''properties'' = map_get ks' ''properties''" and "map_get ks ''prefixItems'' = map_get ks' ''prefixItems''"
    and "map_get ks ''then'' = map_get ks' ''then''"
  shows "keyword rx ks j = keyword rx ks' j"
  using assms by (auto simp: fun_eq_iff keyword_def declared_keys_def tuple_length_def)

lemma map_delete_absent: "map_get m k = None \<Longrightarrow> map_delete k m = m"
  by (force simp: map_get_def map_of_eq_None_iff map_delete_def filter_id_conv)

lemma map_delete_tail: "map_ok (e # m) \<Longrightarrow> map_delete (fst e) m = m"
  by (rule map_delete_absent) (auto simp: map_ok_def map_get_def map_of_eq_None_iff)

lemma list_all_map_set:
  "map_ok m \<Longrightarrow> list_all P (map_set k v m) \<longleftrightarrow> list_all P (map_delete k m) \<and> P (k, v)"
proof (induction m)
  case Nil
  then show ?case by (simp add: map_delete_def)
next
  case (Cons e m)
  show ?case using Cons map_delete_tail [OF Cons.prems]
    by (cases e) (auto simp: map_ok_def map_delete_def)
qed

lemma list_all_map_delete:
  "map_ok m \<Longrightarrow> map_get m k = Some v \<Longrightarrow> list_all P m \<longleftrightarrow> list_all P (map_delete k m) \<and> P (k, v)"
proof (induction m)
  case (Cons e m)
  show ?case using Cons map_delete_tail [OF Cons.prems(1)] by (cases e) (auto simp: map_ok_def map_delete_def map_get_Cons split: if_splits)
qed simp

lemma js_valid_set:
  assumes "map_ok ks" and "k \<notin> {''properties'', ''prefixItems'', ''then''}"
  shows "js_valid rx (JObj (map_set k s ks)) j \<longleftrightarrow> js_valid rx (JObj (map_delete k ks)) j \<and> keyword rx ks j (k, s)"
proof -
  have "keyword rx (map_set k s ks) j = keyword rx ks j" "keyword rx (map_delete k ks) j = keyword rx ks j"
    using assms(2) by (auto intro!: keyword_cong)
  then show ?thesis by (simp add: js_valid_keywords list_all_map_set [OF assms(1)] del: js_valid.simps)
qed

lemma js_valid_split:
  assumes "map_ok ks" and "map_get ks k = Some s" and "k \<notin> {''properties'', ''prefixItems'', ''then''}"
  shows "js_valid rx (JObj ks) j \<longleftrightarrow> js_valid rx (JObj (map_delete k ks)) j \<and> keyword rx ks j (k, s)"
proof -
  have "keyword rx (map_delete k ks) j = keyword rx ks j"
    using assms(3) by (auto intro!: keyword_cong)
  then show ?thesis by (simp add: js_valid_keywords list_all_map_delete [OF assms(1,2)] del: js_valid.simps)
qed

section \<open>JavaScript helpers of the scripts\<close>

definition falsy :: "json option \<Rightarrow> bool" where
  "falsy v = (case v of None \<Rightarrow> True | Some JNull \<Rightarrow> True | Some (JBool b) \<Rightarrow> \<not> b | Some (JNum r) \<Rightarrow> r = 0
     | Some (JStr s) \<Rightarrow> s = [] | _ \<Rightarrow> False)"

text \<open>\<open>Array.prototype.sort\<close> is stable; without a comparator it orders by code units.\<close>

fun insert_by :: "('a \<Rightarrow> 'a \<Rightarrow> bool) \<Rightarrow> 'a \<Rightarrow> 'a list \<Rightarrow> 'a list" where
  "insert_by le x [] = [x]"
| "insert_by le x (y # ys) = (if le x y then x # y # ys else y # insert_by le x ys)"

definition sort_by :: "('a \<Rightarrow> 'a \<Rightarrow> bool) \<Rightarrow> 'a list \<Rightarrow> 'a list" where
  "sort_by le xs = foldr (insert_by le) xs []"

fun unit_le :: "string \<Rightarrow> string \<Rightarrow> bool" where
  "unit_le [] _ = True"
| "unit_le (x # xs) [] = False"
| "unit_le (x # xs) (y # ys) = ((of_char x :: nat) < of_char y \<or> x = y \<and> unit_le xs ys)"

lemma set_insert_by [simp]: "set (insert_by le x xs) = insert x (set xs)"
  by (induction xs) auto

lemma set_sort_by [simp]: "set (sort_by le xs) = set xs"
  by (induction xs) (simp_all add: sort_by_def)

lemma distinct_insert_by [simp]: "distinct (insert_by le x xs) \<longleftrightarrow> x \<notin> set xs \<and> distinct xs"
  by (induction xs) auto

lemma distinct_sort_by [simp]: "distinct (sort_by le xs) \<longleftrightarrow> distinct xs"
  by (induction xs) (simp_all add: sort_by_def set_sort_by [unfolded sort_by_def])

lemma length_insert_by [simp]: "length (insert_by le x xs) = Suc (length xs)"
  by (induction xs) auto

lemma length_sort_by [simp]: "length (sort_by le xs) = length xs"
  by (induction xs) (simp_all add: sort_by_def)

end
