(* ===== verification/GenSchemas.thy ===== *)
theory GenSchemas
  imports JsonSchema
begin

text \<open>
  The generator of the JSON Schema artifacts (\<open>scripts/gen-schemas.ts\<close>).  \<open>z.toJSONSchema\<close>
  belongs to zod and is an argument; what the script adds, the cross-field rules that zod
  cannot represent, is modelled on the documents and related to the refinements of the zod
  schemas.  Writing the files is left out: a document comes with its file name.
\<close>

section \<open>The rules added to the operations\<close>

definition js_names :: "string list \<Rightarrow> json" where
  "js_names xs = JArr (map JStr xs)"

definition requires_only :: "string \<Rightarrow> string \<Rightarrow> string \<Rightarrow> json" where
  "requires_only k a b = JObj [(''required'', js_names [k]),
     (''not'', JObj [(''anyOf'', JArr [JObj [(''required'', js_names [a])], JObj [(''required'', js_names [b])]])])]"

definition exactlyOne :: json where
  "exactlyOne = JObj [(''oneOf'', JArr [requires_only ''value'' ''normalized'' ''display'',
     requires_only ''normalized'' ''value'' ''display'', requires_only ''display'' ''value'' ''normalized''])]"

definition positionWhenAt :: json where
  "positionWhenAt = JObj [
     (''if'', JObj [(''properties'', JObj [(''placement'', JObj [(''const'', JStr ''at'')])]), (''required'', js_names [''placement''])]),
     (''then'', JObj [(''required'', js_names [''position''])])]"

text \<open>\<open>a ?? b\<close>.\<close>

definition nullish :: "json option \<Rightarrow> json option \<Rightarrow> json option" where
  "nullish a b = (case a of None \<Rightarrow> b | Some JNull \<Rightarrow> b | Some j \<Rightarrow> Some j)"

definition omember :: "json option \<Rightarrow> string \<Rightarrow> json option" where
  "omember v k = (case v of None \<Rightarrow> None | Some j \<Rightarrow> member j k)"

text \<open>\<open>v.properties?.op?.const\<close>.\<close>

definition variant_op :: "json \<Rightarrow> json option" where
  "variant_op v = omember (omember (member v ''properties'') ''op'') ''const''"

text \<open>\<open>v.allOf = [...(v.allOf ?? []), c]\<close>.\<close>

definition add_clause :: "json \<Rightarrow> json \<Rightarrow> json" where
  "add_clause c v = (case v of
     JObj ks \<Rightarrow> JObj (map_set ''allOf'' (JArr ((case map_get ks ''allOf'' of None \<Rightarrow> [] | Some a \<Rightarrow> elems a) @ [c])) ks)
   | _ \<Rightarrow> v)"

text \<open>One round of the loop: the variant and the count of additions.\<close>

definition augment_variant :: "json \<Rightarrow> json \<times> nat" where
  "augment_variant v = (let op = variant_op v;
     (v1, n1) = (if op = Some (JStr ''set_parameter'') then (add_clause exactlyOne v, 1) else (v, 0));
     (v2, n2) = (if op = Some (JStr ''add_module'') \<or> op = Some (JStr ''duplicate_module'')
       then (add_clause positionWhenAt v1, n1 + 1) else (v1, n1))
     in (v2, n2))"

definition union_key :: "json \<Rightarrow> string" where
  "union_key js = (if member js ''anyOf'' \<noteq> None \<and> member js ''anyOf'' \<noteq> Some JNull then ''anyOf'' else ''oneOf'')"

text \<open>The script changes the document in place; the variants stay under the key they are read from.\<close>

definition augmentOperationInvariants :: "json \<Rightarrow> string + json" where
  "augmentOperationInvariants js = (case nullish (member js ''anyOf'') (member js ''oneOf'') of
     None \<Rightarrow> Inl ''patch-operation schema has no union variants''
   | Some JNull \<Rightarrow> Inl ''patch-operation schema has no union variants''
   | Some vs \<Rightarrow> (let rs = map augment_variant (elems vs); augmented = sum_list (map snd rs) in
       if augmented \<noteq> 3 then Inl (''expected to augment 3 operation variants, got '' @ nat_str augmented)
       else Inr (JObj (map_set (union_key js) (JArr (map fst rs)) (pairs js)))))"

section \<open>The documents\<close>

datatype io_mode = Input | Output

definition draft :: string where
  "draft = ''https://json-schema.org/draft/2020-12/schema''"

definition schema_id :: "string \<Rightarrow> string" where
  "schema_id name = ''https://rackmcp.local/schemas/'' @ name @ ''.schema.json''"

text \<open>\<open>{ $schema, $id, description, ...js }\<close>.\<close>

definition envelope :: "string \<Rightarrow> string \<Rightarrow> (string \<times> json) list \<Rightarrow> json" where
  "envelope name description js = JObj (foldl (\<lambda>m (k, v). map_set k v m)
     [(''$schema'', JStr draft), (''$id'', JStr (schema_id name)), (''description'', JStr description)] js)"

definition emit :: "(io_mode \<Rightarrow> schema \<Rightarrow> json) \<Rightarrow> string \<Rightarrow> schema \<Rightarrow> string \<Rightarrow> io_mode \<Rightarrow> string + (string \<times> json)" where
  "emit toSchema name s description io = (let js = toSchema io s in
     case (if name = ''patch-operation'' then augmentOperationInvariants js else Inr js) of
       Inl e \<Rightarrow> Inl e
     | Inr d \<Rightarrow> Inr (name @ ''.schema.json'', envelope name description (pairs d)))"

definition ARTIFACTS :: "(string \<times> schema \<times> string \<times> io_mode) list" where
  "ARTIFACTS = [
     (''bridge-frame'', BridgeFrame, ''Rack MCP bridge protocol frame (length-prefixed JSON over loopback TCP)'', Input),
     (''patch-operation'', PatchOperation, ''Rack MCP patch operation (discriminated union)'', Input),
     (''instance-manifest'', InstanceManifest, ''Rack MCP instance discovery manifest'', Output),
     (''patch-snapshot'', PatchSnapshot, ''Rack MCP patch snapshot'', Output),
     (''probe-reading'', ProbeReading, ''Rack MCP probe telemetry reading'', Output),
     (''module-adapter'', ModuleAdapter, ''Rack MCP module adapter document'', Input),
     (''recipe'', Recipe, ''Rack MCP recipe document'', Input),
     (''error'', RackMcpError, ''Rack MCP structured error'', Output),
     (''validation-finding'', ValidationFinding, ''Rack MCP validation finding'', Output)]"

definition methods_document :: "(io_mode \<Rightarrow> schema \<Rightarrow> json) \<Rightarrow> json" where
  "methods_document toSchema = JObj [(''$schema'', JStr draft), (''$id'', JStr (schema_id ''bridge-methods'')),
     (''description'', JStr ''Request/result schema per bridge method''),
     (''methods'', JObj (map (\<lambda>m. case map_of BRIDGE_METHODS m of
        None \<Rightarrow> (m, JNull)
      | Some spec \<Rightarrow> (m, JObj [(''mutating'', JBool (bm_mutating spec)), (''request'', toSchema Input (bm_request spec)),
          (''result'', toSchema Output (bm_result spec))])) BRIDGE_METHOD_NAMES))]"

definition annotations_json :: "tool_annotations \<Rightarrow> json" where
  "annotations_json a = JObj [(''readOnlyHint'', JBool (ta_readOnlyHint a)), (''destructiveHint'', JBool (ta_destructiveHint a)),
     (''idempotentHint'', JBool (ta_idempotentHint a)), (''openWorldHint'', JBool (ta_openWorldHint a))]"

definition tools_document :: "(io_mode \<Rightarrow> schema \<Rightarrow> json) \<Rightarrow> json" where
  "tools_document toSchema = JObj [(''$schema'', JStr draft), (''$id'', JStr (schema_id ''tools'')),
     (''description'', JStr ''Rack MCP tool contracts''),
     (''tools'', JObj (foldl (\<lambda>m t. map_set (ts_name t) (JObj [(''title'', JStr (ts_title t)), (''description'', JStr (ts_description t)),
        (''annotations'', annotations_json (ts_annotations t)), (''input'', toSchema Input (ts_input t)),
        (''output'', toSchema Output (ts_output t))]) m) [] TOOLS))]"

definition resources_document :: "(io_mode \<Rightarrow> schema \<Rightarrow> json) \<Rightarrow> json" where
  "resources_document toSchema = JObj [(''$schema'', JStr draft), (''$id'', JStr (schema_id ''resources'')),
     (''description'', JStr ''Rack MCP resource contracts''),
     (''resources'', JObj (foldl (\<lambda>m r. map_set (rs_uri r) (JObj [(''name'', JStr (rs_name r)), (''title'', JStr (rs_title r)),
        (''description'', JStr (rs_description r)), (''mimeType'', JStr ''application/json''),
        (''output'', toSchema Output (rs_output r))]) m) [] RESOURCES))]"

definition gen_schemas :: "(io_mode \<Rightarrow> schema \<Rightarrow> json) \<Rightarrow> string + (string \<times> json) list" where
  "gen_schemas toSchema = (case register_all (\<lambda>(name, s, description, io). emit toSchema name s description io) ARTIFACTS of
     Inl e \<Rightarrow> Inl e
   | Inr docs \<Rightarrow> Inr (docs @ [(''bridge-methods.schema.json'', methods_document toSchema),
       (''tools.schema.json'', tools_document toSchema), (''resources.schema.json'', resources_document toSchema)]))"

section \<open>The added rules are the refinements\<close>

text \<open>What the refinements of the zod schemas demand of an operation, by the name of its variant.\<close>

definition cross_field_ok :: "json option \<Rightarrow> json \<Rightarrow> bool" where
  "cross_field_ok op j = ((op = Some (JStr ''set_parameter'') \<longrightarrow> exactly_one_target j) \<and>
     (op = Some (JStr ''add_module'') \<or> op = Some (JStr ''duplicate_module'') \<longrightarrow> placed j))"

lemma exactlyOne_valid: "js_valid rx exactlyOne (JObj ms) = exactly_one_target (JObj ms)"
  by (auto simp: exactlyOne_def requires_only_def js_names_def count_true_def elems_def plain_keyword_def has_key_def
      exactly_one_target_def member_def)

lemma positionWhenAt_valid: "js_valid rx positionWhenAt (JObj ms) = placed (JObj ms)"
  by (auto simp: positionWhenAt_def js_names_def elems_def pairs_def plain_keyword_def has_key_def map_get_Cons
      placed_def member_def split: option.splits)

lemma add_clause_valid:
  assumes "map_ok ks"
  shows "js_valid rx (add_clause c (JObj ks)) j \<longleftrightarrow> js_valid rx (JObj ks) j \<and> js_valid rx c j"
proof (cases "map_get ks ''allOf''")
  case None
  then show ?thesis
    by (simp add: add_clause_def js_valid_set [OF assms] map_delete_absent keyword_def elems_def del: js_valid.simps)
next
  case (Some a)
  then show ?thesis
    by (simp add: add_clause_def js_valid_set [OF assms] js_valid_split [OF assms Some] keyword_def elems_def conj_assoc
        del: js_valid.simps)
qed

text \<open>A variant as zod writes it: an object with distinct keywords.\<close>

definition object_schema :: "json \<Rightarrow> bool" where
  "object_schema v = (case v of JObj ks \<Rightarrow> map_ok ks | _ \<Rightarrow> False)"

lemma augment_variant_valid:
  assumes "object_schema v"
  shows "js_valid rx (fst (augment_variant v)) (JObj ms) \<longleftrightarrow> js_valid rx v (JObj ms) \<and> cross_field_ok (variant_op v) (JObj ms)"
proof -
  obtain ks where v: "v = JObj ks" "map_ok ks" using assms by (auto simp: object_schema_def split: json.splits)
  show ?thesis
    by (auto simp: augment_variant_def Let_def v(1) add_clause_valid [OF v(2)] exactlyOne_valid positionWhenAt_valid cross_field_ok_def
        simp del: js_valid.simps)
qed

lemma list_all_lookups: "map_ok m \<Longrightarrow> list_all P m \<longleftrightarrow> (\<forall>k v. map_get m k = Some v \<longrightarrow> P (k, v))"
  by (auto simp: list_all_iff map_get_def map_ok_def map_of_eq_Some_iff)

lemma spread_lookup:
  "map_ok js \<Longrightarrow> map_get (foldl (\<lambda>m (k, v). map_set k v m) base js) k = (case map_get js k of None \<Rightarrow> map_get base k | Some v \<Rightarrow> Some v)"
proof (induction js arbitrary: base)
  case (Cons e js)
  obtain k' v where e: "e = (k', v)" by (cases e)
  have "map_get js k' = None" using Cons.prems e by (auto simp: map_ok_def map_get_def map_of_eq_None_iff)
  moreover have "map_ok js" using Cons.prems by (simp add: map_ok_def)
  ultimately show ?case using Cons.IH by (auto simp: e map_get_Cons split: option.split)
qed simp

lemma spread_ok: "map_ok base \<Longrightarrow> map_ok (foldl (\<lambda>m (k, v). map_set k v m) base js)"
  by (induction js arbitrary: base) (simp_all add: case_prod_beta)

text \<open>The envelope adds annotations only.\<close>

lemma annotation_keyword: "k \<in> {''$schema'', ''$id'', ''description''} \<Longrightarrow> keyword rx ks j (k, v)"
  by (elim insertE emptyE) (simp_all add: keyword_def plain_keyword_def split: json.split)

lemma envelope_base_keys:
  "map_get [(''$schema'', a), (''$id'', b), (''description'', c)] k = Some v \<Longrightarrow> k \<in> {''$schema'', ''$id'', ''description''}"
  by (auto simp: map_get_def split: if_splits)

lemma envelope_valid:
  assumes "map_ok js"
  shows "js_valid rx (envelope name description js) j \<longleftrightarrow> js_valid rx (JObj js) j"
proof -
  let ?base = "[(''$schema'', JStr draft), (''$id'', JStr (schema_id name)), (''description'', JStr description)]"
  let ?r = "foldl (\<lambda>m (k, v). map_set k v m) ?base js"
  have ok: "map_ok ?r" by (rule spread_ok) (simp add: map_ok_def)
  have look: "map_get ?r k = (case map_get js k of None \<Rightarrow> map_get ?base k | Some v \<Rightarrow> Some v)" for k
    by (rule spread_lookup [OF assms])
  have kw: "keyword rx ?r j = keyword rx js j"
    by (intro keyword_cong) (simp_all add: look map_get_Cons split: option.split)
  have annot: "keyword rx js j (k, v)" if "map_get ?base k = Some v" for k v
    using envelope_base_keys [OF that] by (rule annotation_keyword)
  have "js_valid rx (JObj ?r) j \<longleftrightarrow> (\<forall>k v. map_get ?r k = Some v \<longrightarrow> keyword rx js j (k, v))"
    by (simp add: js_valid_keywords kw list_all_lookups [OF ok] del: js_valid.simps)
  also have "\<dots> \<longleftrightarrow> (\<forall>k v. map_get js k = Some v \<longrightarrow> keyword rx js j (k, v))"
  proof (rule iff_allI)
    fix k
    show "(\<forall>v. map_get ?r k = Some v \<longrightarrow> keyword rx js j (k, v)) \<longleftrightarrow> (\<forall>v. map_get js k = Some v \<longrightarrow> keyword rx js j (k, v))"
      unfolding look using annot [of k] by (cases "map_get js k") simp_all
  qed
  also have "\<dots> \<longleftrightarrow> js_valid rx (JObj js) j"
    by (simp add: js_valid_keywords list_all_lookups [OF assms] del: js_valid.simps)
  finally show ?thesis by (simp add: envelope_def del: js_valid.simps)
qed

lemma union_keyword:
  "u = ''anyOf'' \<or> u = ''oneOf'' \<Longrightarrow> keyword rx ks j (u, JArr vs) \<longleftrightarrow>
     (let n = count_true (map (\<lambda>v. js_valid rx v j) vs) in if u = ''anyOf'' then n \<noteq> 0 else n = 1)"
  by (auto simp: keyword_def elems_def count_true_def list_ex_iff filter_empty_conv)

lemma union_variants:
  assumes "member js (union_key js) = Some (JArr vs)"
  shows "nullish (member js ''anyOf'') (member js ''oneOf'') = Some (JArr vs)"
  using assms by (auto simp: union_key_def nullish_def split: if_splits option.splits json.splits)

lemma augmented_union:
  assumes "augmentOperationInvariants js = Inr d" and "object_schema js"
    and "member js (union_key js) = Some (JArr vs)" and "list_all object_schema vs"
  shows "\<exists>ks. d = JObj ks \<and> map_ok ks" and "sum_list (map (\<lambda>v. snd (augment_variant v)) vs) = 3"
    and "js_valid rx d (JObj ms) \<longleftrightarrow> js_valid rx (JObj (map_delete (union_key js) (pairs js))) (JObj ms) \<and>
      (let n = count_true (map (\<lambda>v. js_valid rx v (JObj ms) \<and> cross_field_ok (variant_op v) (JObj ms)) vs)
       in if union_key js = ''anyOf'' then n \<noteq> 0 else n = 1)"
proof -
  obtain ks where js: "js = JObj ks" "map_ok ks" using assms(2) by (auto simp: object_schema_def split: json.splits)
  have d: "d = JObj (map_set (union_key js) (JArr (map fst (map augment_variant vs))) ks)"
      "sum_list (map snd (map augment_variant vs)) = 3"
    using assms(1) union_variants [OF assms(3)]
    by (simp_all add: augmentOperationInvariants_def Let_def elems_def js(1) pairs_def split: if_splits)
  show "\<exists>ks. d = JObj ks \<and> map_ok ks" using d(1) js(2) by auto
  show "sum_list (map (\<lambda>v. snd (augment_variant v)) vs) = 3" using d(2) by (simp add: comp_def)
  have u: "union_key js = ''anyOf'' \<or> union_key js = ''oneOf''" by (simp add: union_key_def)
  then have k: "union_key js \<notin> {''properties'', ''prefixItems'', ''then''}" by auto
  have m: "map (\<lambda>v. js_valid rx v (JObj ms)) (map fst (map augment_variant vs)) =
      map (\<lambda>v. js_valid rx v (JObj ms) \<and> cross_field_ok (variant_op v) (JObj ms)) vs"
    using assms(4) by (simp add: list_all_iff augment_variant_valid del: js_valid.simps)
  have p: "pairs js = ks" by (simp add: js(1) pairs_def)
  show "js_valid rx d (JObj ms) \<longleftrightarrow> js_valid rx (JObj (map_delete (union_key js) (pairs js))) (JObj ms) \<and>
      (let n = count_true (map (\<lambda>v. js_valid rx v (JObj ms) \<and> cross_field_ok (variant_op v) (JObj ms)) vs)
       in if union_key js = ''anyOf'' then n \<noteq> 0 else n = 1)"
    unfolding d(1) js_valid_set [OF js(2) k] union_keyword [OF u] m p ..
qed

text \<open>The shape of a document that zod writes for a union of objects.\<close>

definition union_of :: "json \<Rightarrow> json list \<Rightarrow> bool" where
  "union_of js vs \<longleftrightarrow> object_schema js \<and> member js (union_key js) = Some (JArr vs) \<and> list_all object_schema vs"

text \<open>C39: the published \<open>patch-operation\<close> document demands of an operation what zod's document demands
  and, of each variant, the refinement of its zod schema: exactly one target for
  \<open>set_parameter\<close>, a position wherever the placement is \<open>at\<close> for \<open>add_module\<close> and
  \<open>duplicate_module\<close>, and nothing of the others; it is written only when exactly three
  additions were made.\<close>

theorem published_operations_exact:
  assumes "emit toSchema ''patch-operation'' s description io = Inr (out, d)" and "union_of (toSchema io s) vs"
  shows "out = ''patch-operation.schema.json'' \<and> sum_list (map (\<lambda>v. snd (augment_variant v)) vs) = 3 \<and>
    (js_valid rx d (JObj ms) \<longleftrightarrow>
      js_valid rx (JObj (map_delete (union_key (toSchema io s)) (pairs (toSchema io s)))) (JObj ms) \<and>
      (let n = count_true (map (\<lambda>v. js_valid rx v (JObj ms) \<and> cross_field_ok (variant_op v) (JObj ms)) vs)
       in if union_key (toSchema io s) = ''anyOf'' then n \<noteq> 0 else n = 1))"
proof -
  obtain d' where a: "augmentOperationInvariants (toSchema io s) = Inr d'"
      and d: "out = ''patch-operation'' @ ''.schema.json''" "d = envelope ''patch-operation'' description (pairs d')"
    using assms(1) by (auto simp: emit_def Let_def split: sum.splits)
  have v: "object_schema (toSchema io s)" "member (toSchema io s) (union_key (toSchema io s)) = Some (JArr vs)" "list_all object_schema vs"
    using assms(2) by (simp_all add: union_of_def)
  obtain ks where ks: "d' = JObj ks" "map_ok ks" using augmented_union(1) [OF a v] by blast
  have "js_valid rx d (JObj ms) \<longleftrightarrow> js_valid rx d' (JObj ms)"
    by (simp add: d(2) ks(1) pairs_def envelope_valid [OF ks(2)] del: js_valid.simps)
  then show ?thesis using d(1) augmented_union(2,3) [OF a v] by simp
qed

definition demo_schema :: "io_mode \<Rightarrow> schema \<Rightarrow> json" where
  "demo_schema io s = JObj [(''oneOf'', JArr (map (\<lambda>n. JObj [(''properties'', JObj [(''op'', JObj [(''const'', JStr n)])])])
     [''set_parameter'', ''add_module'', ''duplicate_module'', ''disconnect'']))]"

lemma published_operations_exact_witness:
  "\<exists>d. emit demo_schema ''patch-operation'' PatchOperation [] Input = Inr (''patch-operation.schema.json'', d) \<and>
    js_valid (\<lambda>p t. True) d (JObj [(''op'', JStr ''set_parameter''), (''value'', JNum 1)]) \<and>
    \<not> js_valid (\<lambda>p t. True) d (JObj [(''op'', JStr ''set_parameter'')])"
proof -
  let ?vs = "elems (the (member (demo_schema Input PatchOperation) ''oneOf''))"
  obtain out d where e: "emit demo_schema ''patch-operation'' PatchOperation [] Input = Inr (out, d)"
    by (simp add: emit_def Let_def augmentOperationInvariants_def demo_schema_def nullish_def member_def map_get_Cons elems_def
        augment_variant_def variant_op_def omember_def add_clause_def)
  have u: "union_of (demo_schema Input PatchOperation) ?vs"
    by (simp add: union_of_def object_schema_def demo_schema_def union_key_def member_def map_get_Cons elems_def map_ok_def)
  note p = published_operations_exact [OF e u, of "\<lambda>p t. True"]
  show ?thesis
    using e p [of "[(''op'', JStr ''set_parameter''), (''value'', JNum 1)]"] p [of "[(''op'', JStr ''set_parameter'')]"]
    by (simp add: demo_schema_def union_key_def member_def map_get_Cons pairs_def elems_def map_delete_def count_true_def
        variant_op_def omember_def plain_keyword_def cross_field_ok_def exactly_one_target_def)
qed

text \<open>The refinement of an initial parameter is not among the rules added: an operation that names
  no target for it passes them all and is refused by zod.\<close>

lemma initial_target_unpublished:
  defines "j \<equiv> \<lambda>target. JObj [(''op'', JStr ''add_module''), (''pluginSlug'', JStr ''Fundamental''), (''modelSlug'', JStr ''VCO''),
     (''alias'', JStr ''osc''), (''initialParams'', JArr [JObj ((''paramId'', JNum 0) # target)])]"
  shows "cross_field_ok (Some (JStr ''add_module'')) (j [])" and "\<not> conforms fmt PatchOperation (j [])"
    and "conforms fmt PatchOperation (j [(''value'', JNum 1)])"
proof -
  have op: "PatchOperation = ZUnion (AddModuleOp # tl (case PatchOperation of ZUnion ss \<Rightarrow> ss | _ \<Rightarrow> []))"
    by (simp add: PatchOperation_def)
  show "cross_field_ok (Some (JStr ''add_module'')) (j [])"
    by (simp add: j_def cross_field_ok_def placed_def member_def map_get_Cons)
  show "conforms fmt PatchOperation (j [(''value'', JNum 1)])"
    by (subst op) (simp add: j_def AddModuleOp_def schema_defs Slug_def InitialParamValue_def paramTarget_def SmallIndex_def
        within_opt_def exactly_one_target_def placed_def member_def)
  show "\<not> conforms fmt PatchOperation (j [])"
    by (simp add: j_def PatchOperation_def AddModuleOp_def RemoveModuleOp_def MoveModuleOp_def DuplicateModuleOp_def
        SetParameterOp_def SetBypassOp_def ConnectOp_def DisconnectOp_def DisconnectPortOp_def ResetModuleOp_def RandomizeModuleOp_def
        schema_defs InitialParamValue_def exactly_one_target_def member_def)
qed

end
