(* ===== verification/GenCpp.thy ===== *)
theory GenCpp
  imports GenSchemas
begin

text \<open>
  The generator of the C++ protocol header (\<open>scripts/gen-cpp.ts\<close>): the required-field tables it
  derives from the JSON Schema artifacts, the grid domain it harvests, the limits, codes and
  flags, and the lines of \<open>rackmcp_protocol_gen.hpp\<close>; and the consumer of the tables in the
  plugin, \<open>checkDeclaredFields\<close> of \<open>core/plan.cpp\<close>.  The documents are the parsed artifacts; the
  order of \<open>localeCompare\<close>, which depends on the host, is an argument.  Names and enum values in
  a document are strings.
\<close>

section \<open>JSON types of a schema\<close>

definition js_branches :: "json \<Rightarrow> json list" where
  "js_branches s = (case nullish (member s ''anyOf'') (member s ''oneOf'') of None \<Rightarrow> [] | Some bs \<Rightarrow> elems bs)"

definition is_string :: "json \<Rightarrow> bool" where
  "is_string j = (case j of JStr _ \<Rightarrow> True | _ \<Rightarrow> False)"

text \<open>\<open>kinds.size === 1 && kinds.has("string")\<close>.\<close>

definition all_string_kinds :: "json option \<Rightarrow> bool" where
  "all_string_kinds e = (case e of Some (JArr vs) \<Rightarrow> vs \<noteq> [] \<and> list_all is_string vs | _ \<Rightarrow> False)"

definition plain_type :: "json option \<Rightarrow> string" where
  "plain_type t = (case t of Some (JStr n) \<Rightarrow>
       if n \<in> {''string'', ''boolean'', ''object'', ''array'', ''integer'', ''number''} then n else ''any''
     | _ \<Rightarrow> ''any'')"

lemma size_branches [termination_simp]: "b \<in> set (js_branches s) \<Longrightarrow> size b < size s"
proof -
  assume "b \<in> set (js_branches s)"
  then obtain u where u: "nullish (member s ''anyOf'') (member s ''oneOf'') = Some u" "b \<in> set (elems u)"
    by (cases "nullish (member s ''anyOf'') (member s ''oneOf'')") (auto simp: js_branches_def)
  then have "member s ''anyOf'' = Some u \<or> member s ''oneOf'' = Some u"
    by (auto simp: nullish_def split: option.splits json.splits)
  then have "size u < size s" by (cases s) (auto simp: member_def size_map_get)
  then show "size b < size s" using size_in_elems [OF u(2)] by simp
qed

fun jsonTypeOf :: "json \<Rightarrow> string" where
  "jsonTypeOf s = (case member s ''const'' of
     Some (JStr _) \<Rightarrow> ''string'' | Some (JNum _) \<Rightarrow> ''number'' | Some (JBool _) \<Rightarrow> ''boolean''
   | _ \<Rightarrow> if all_string_kinds (member s ''enum'') then ''string''
       else if js_branches s \<noteq> [] then
         (case remdups (map jsonTypeOf (js_branches s)) of [k] \<Rightarrow> k | _ \<Rightarrow> ''any'')
       else plain_type (member s ''type''))"

declare jsonTypeOf.simps [simp del]

definition type_of :: "json option \<Rightarrow> string" where
  "type_of s = (case s of None \<Rightarrow> ''any'' | Some q \<Rightarrow> jsonTypeOf q)"

definition string_values :: "json list \<Rightarrow> string list" where
  "string_values vs = List.map_filter (\<lambda>v. case v of JStr s \<Rightarrow> Some s | _ \<Rightarrow> None) vs"

definition const_string :: "json option \<Rightarrow> string list option" where
  "const_string c = (case c of Some (JStr s) \<Rightarrow> Some [s] | _ \<Rightarrow> None)"

definition stringEnumOf :: "json option \<Rightarrow> string list option" where
  "stringEnumOf s = (case s of None \<Rightarrow> None | Some q \<Rightarrow>
     (case member q ''enum'' of
       Some (JArr vs) \<Rightarrow> if list_all is_string vs then Some (string_values vs) else const_string (member q ''const'')
     | _ \<Rightarrow> const_string (member q ''const'')))"

section \<open>Required fields\<close>

record field_row =
  fr_name :: string
  fr_type :: string
  fr_allowed :: "string list option"

definition required_names :: "json \<Rightarrow> string list" where
  "required_names schema = (case member schema ''required'' of Some (JArr rs) \<Rightarrow> string_values rs | _ \<Rightarrow> [])"

definition field_rows :: "string \<Rightarrow> json \<Rightarrow> field_row list" where
  "field_rows discriminator schema = map (\<lambda>r. let q = omember (member schema ''properties'') r in
       \<lparr>fr_name = r, fr_type = type_of q, fr_allowed = stringEnumOf q\<rparr>)
     (sort_by unit_le (filter (\<lambda>r. r \<noteq> discriminator) (required_names schema)))"

definition requiredFields :: "json \<Rightarrow> field_row list" where
  "requiredFields schema = field_rows ''kind'' schema"

section \<open>The tables\<close>

text \<open>\<open>p?.const ?? p?.enum?.[0]\<close> of the discriminator of a variant.\<close>

definition first_enum :: "json option \<Rightarrow> json option" where
  "first_enum e = (case e of Some (JArr (v # _)) \<Rightarrow> Some v | _ \<Rightarrow> None)"

definition discriminator_of :: "string \<Rightarrow> json \<Rightarrow> string option" where
  "discriminator_of k v = (let p = omember (member v ''properties'') k in
     case nullish (omember p ''const'') (first_enum (omember p ''enum'')) of
       Some (JStr s) \<Rightarrow> if s = [] then None else Some s | _ \<Rightarrow> None)"

definition variant_rows :: "string \<Rightarrow> string \<Rightarrow> json \<Rightarrow> string + (string \<times> field_row list) list" where
  "variant_rows k err doc = register_all (\<lambda>v. case discriminator_of k v of None \<Rightarrow> Inl err
     | Some name \<Rightarrow> Inr (name, field_rows k v)) (js_branches doc)"

definition frameRows :: "json \<Rightarrow> string + (string \<times> field_row list) list" where
  "frameRows frameSchema = variant_rows ''kind'' ''bridge frame variant without kind const'' frameSchema"

definition opRows :: "json \<Rightarrow> string + (string \<times> field_row list) list" where
  "opRows opSchema = variant_rows ''op'' ''operation variant without op const'' opSchema"

definition by_name :: "(string \<Rightarrow> string \<Rightarrow> bool) \<Rightarrow> (string \<times> 'a) list \<Rightarrow> (string \<times> 'a) list" where
  "by_name le = sort_by (\<lambda>a b. le (fst a) (fst b))"

definition mutates :: "string \<Rightarrow> bool" where
  "mutates m = (case map_of BRIDGE_METHODS m of None \<Rightarrow> False | Some spec \<Rightarrow> bm_mutating spec)"

definition methodRows :: "json \<Rightarrow> string + (string \<times> bool \<times> field_row list) list" where
  "methodRows methodsDoc = register_all (\<lambda>m. let entry = omember (member methodsDoc ''methods'') m in
     if falsy entry then Inl (''bridge-methods.schema.json missing '' @ m)
     else Inr (m, mutates m, case omember entry ''request'' of None \<Rightarrow> [] | Some r \<Rightarrow> requiredFields r)) BRIDGE_METHOD_NAMES"

section \<open>The grid domain\<close>

fun collect :: "('e + 'a list) list \<Rightarrow> 'e + 'a list" where
  "collect [] = Inr []"
| "collect (Inl e # r) = Inl e"
| "collect (Inr xs # r) = (case collect r of Inl e \<Rightarrow> Inl e | Inr ys \<Rightarrow> Inr (xs @ ys))"

definition no_bounds :: "string \<Rightarrow> string" where
  "no_bounds axis = ''GridPosition.'' @ axis @ '' carries no numeric bounds in patch-operation.schema.json; the C++ domain check '' @
     ''would be generated from nothing.''"

definition domain_of :: "string \<Rightarrow> json \<Rightarrow> string + (rat \<times> rat) list" where
  "domain_of axis s = (let pos = omember (member s ''properties'') ''position''; along = omember (omember pos ''properties'') in
     if falsy (along ''x'') \<or> falsy (along ''y'') then Inr []
     else (case (omember (along axis) ''minimum'', omember (along axis) ''maximum'') of
         (Some (JNum lo), Some (JNum hi)) \<Rightarrow> Inr [(lo, hi)]
       | _ \<Rightarrow> Inl (no_bounds axis)))"

fun grid_walk :: "string \<Rightarrow> json \<Rightarrow> string + (rat \<times> rat) list" where
  "grid_walk axis (JArr vs) = collect (map (grid_walk axis) vs)"
| "grid_walk axis (JObj ks) = collect (domain_of axis (JObj ks) # map (\<lambda>(k, v). grid_walk axis v) ks)"
| "grid_walk axis _ = Inr []"

definition two_domains :: "string \<Rightarrow> rat \<times> rat \<Rightarrow> rat \<times> rat \<Rightarrow> string" where
  "two_domains axis a b = ''GridPosition.'' @ axis @ '' is declared with more than one domain (['' @ num_json (fst a) @ '', '' @
     num_json (snd a) @ ''] and ['' @ num_json (fst b) @ '', '' @ num_json (snd b) @ '']). One pair of constants cannot describe both.''"

definition gridDomain :: "string \<Rightarrow> json \<Rightarrow> string + rat \<times> rat" where
  "gridDomain axis opSchema = (case grid_walk axis opSchema of
     Inl e \<Rightarrow> Inl e
   | Inr [] \<Rightarrow> Inl (''no `position` property found in patch-operation.schema.json; the grid domain constants would be '' @
       ''generated from nothing.'')
   | Inr (d # ds) \<Rightarrow> (case find (\<lambda>c. c \<noteq> d) (d # ds) of None \<Rightarrow> Inr d | Some c \<Rightarrow> Inl (two_domains axis d c)))"

section \<open>The limits\<close>

definition char_upper :: "char \<Rightarrow> char" where
  "char_upper c = (if 97 \<le> (of_char c :: nat) \<and> (of_char c :: nat) \<le> 122 then char_of ((of_char c :: nat) - 32) else c)"

definition is_upper :: "char \<Rightarrow> bool" where
  "is_upper c = (65 \<le> (of_char c :: nat) \<and> (of_char c :: nat) \<le> 90)"

definition constant_name :: "string \<Rightarrow> string" where
  "constant_name k = map char_upper (concat (map (\<lambda>c. if is_upper c then CHR ''_'' # [c] else [c]) k))"

text \<open>\<open>Object.entries(LIMITS)\<close>.\<close>

definition LIMIT_ENTRIES :: "(string \<times> int) list" where
  "LIMIT_ENTRIES = [(''bridgeFrameBytes'', int (bridgeFrameBytes LIMITS)), (''mcpResultBytes'', int (mcpResultBytes LIMITS)),
     (''txnMaxOperations'', int (txnMaxOperations LIMITS)), (''txnMaxAddedModules'', int (txnMaxAddedModules LIMITS)),
     (''maxActiveProbes'', int (maxActiveProbes LIMITS)), (''probeMaxHz'', int (probeMaxHz LIMITS)),
     (''paramChangesPerSecond'', paramChangesPerSecond LIMITS), (''confirmationLifetimeMs'', confirmationLifetimeMs LIMITS),
     (''commandTimeoutMs'', commandTimeoutMs LIMITS), (''patchIoTimeoutMs'', patchIoTimeoutMs LIMITS),
     (''txnCommitTimeoutMs'', txnCommitTimeoutMs LIMITS), (''idempotencyCacheMs'', idempotencyCacheMs LIMITS),
     (''jsonMaxDepth'', int (jsonMaxDepth LIMITS)), (''jsonMaxStringBytes'', int (jsonMaxStringBytes LIMITS)),
     (''jsonMaxTotalNodes'', int (jsonMaxTotalNodes LIMITS)), (''bridgeHeartbeatIntervalMs'', bridgeHeartbeatIntervalMs LIMITS),
     (''instanceStaleAfterMs'', instanceStaleAfterMs LIMITS), (''pumpCommandsPerFrame'', int (pumpCommandsPerFrame LIMITS)),
     (''pumpFrameBudgetMs'', pumpFrameBudgetMs LIMITS), (''probeWindowMs'', int (probeWindowMs LIMITS)),
     (''probeInputsPerModule'', int (probeInputsPerModule LIMITS))]"

definition bad_limit :: "string \<Rightarrow> int \<Rightarrow> string" where
  "bad_limit k v = ''LIMITS.'' @ k @ '' is '' @ int_str v @ '', which is not a safe non-negative integer. Limits are generated into '' @
     ''int64_t constants and a fractional or out-of-range value would silently truncate in C++ while TypeScript kept the original.''"

definition limit_line :: "string \<times> int \<Rightarrow> string + string" where
  "limit_line kv = (case kv of (k, v) \<Rightarrow>
     if \<bar>v\<bar> > 9007199254740991 \<or> v < 0 then Inl (bad_limit k v)
     else Inr (''static const int64_t LIMIT_'' @ constant_name k @ '' = '' @ int_str v @ '';''))"

section \<open>The header\<close>

definition tab :: string where
  "tab = [CHR 0x09]"

definition quoted :: "string \<Rightarrow> string" where
  "quoted s = [CHR 0x22] @ s @ [CHR 0x22]"

text \<open>\<open>replace(/[^a-zA-Z0-9]/g, "_")\<close>.\<close>

definition sanitized :: "string \<Rightarrow> string" where
  "sanitized s = map (\<lambda>c. if digit c \<or> is_upper c \<or> is_upper (char_upper c) then c else CHR ''_'') s"

text \<open>No array is written for an empty enum.\<close>

definition allowed_values :: "field_row \<Rightarrow> string list option" where
  "allowed_values f = (case fr_allowed f of None \<Rightarrow> None | Some vs \<Rightarrow> if vs = [] then None else Some vs)"

text \<open>The lines of the array of admitted values, and its name.\<close>

definition emitAllowed :: "string \<Rightarrow> field_row \<Rightarrow> string list \<times> string" where
  "emitAllowed owner f = (case allowed_values f of
     None \<Rightarrow> ([], ''nullptr'')
   | Some vs \<Rightarrow> (let i = ''ALLOWED_'' @ owner @ ''_'' @ sanitized (fr_name f) in
       ([''static const char* const '' @ i @ ''[] = {''] @ map (\<lambda>v. tab @ quoted v @ '','') vs @ [tab @ ''nullptr'', ''};''], i)))"

definition field_table :: "string \<Rightarrow> string \<Rightarrow> field_row list \<Rightarrow> string list" where
  "field_table owner table fs = (let rs = map (emitAllowed owner) fs in
     concat (map fst rs) @ [''static const FieldSpec '' @ table @ ''[] = {''] @
     map (\<lambda>(f, r). tab @ ''{'' @ quoted (fr_name f) @ '', '' @ quoted (fr_type f) @ '', '' @ snd r @ ''},'') (zip fs rs) @
     [tab @ ''{nullptr, nullptr, nullptr}'', ''};''])"

definition js_bool :: "bool \<Rightarrow> string" where
  "js_bool b = (if b then ''true'' else ''false'')"

definition numbered :: "'a list \<Rightarrow> (nat \<times> 'a) list" where
  "numbered xs = zip [0..<length xs] xs"

definition enum_lines :: "string \<Rightarrow> string \<Rightarrow> string \<Rightarrow> string list \<Rightarrow> string \<Rightarrow> string list" where
  "enum_lines enum fn var names dflt_text = [''enum class '' @ enum @ '' {''] @ map (\<lambda>c. tab @ c @ '','') names @ [tab @ ''COUNT_'', ''};'', [],
     ''inline const char* '' @ fn @ ''('' @ enum @ '' '' @ var @ '') {'', tab @ ''switch ('' @ var @ '') {''] @
     map (\<lambda>c. tab @ tab @ ''case '' @ enum @ ''::'' @ c @ '': return '' @ quoted c @ '';'') names @
     [tab @ tab @ ''default: return '' @ quoted dflt_text @ '';'', tab @ ''}'', ''}'', []]"

definition RiskFlag_options :: "string list" where
  "RiskFlag_options = (case RiskFlag of ZEnum xs \<Rightarrow> xs | _ \<Rightarrow> [])"

definition op_name_mismatch :: "string list \<Rightarrow> string" where
  "op_name_mismatch fromSchema = ''operation name sets disagree: schema=['' @ join_with '','' fromSchema @ ''] declared=['' @
     join_with '','' (sort_by unit_le OPERATION_TYPES) @ '']''"

section \<open>Composing the header\<close>

definition preamble :: "string list" where
  "preamble = [''// GENERATED FILE - DO NOT EDIT.'',
     ''// Source of truth: packages/schemas (Zod). Regenerate with `pnpm run gen`.'',
     ''#pragma once'', ''#include <cstddef>'', ''#include <cstdint>'', [], ''namespace rackmcp {'', ''namespace gen {'', [],
     ''static const int BRIDGE_PROTOCOL_VERSION = '' @ int_str BRIDGE_PROTOCOL_VERSION @ '';'',
     ''static const int BRIDGE_PROTOCOL_MIN_SUPPORTED = '' @ int_str BRIDGE_PROTOCOL_MIN_SUPPORTED @ '';'', [],
     ''// Limits (spec section 13)'']"

definition grid_lines :: "rat \<times> rat \<Rightarrow> rat \<times> rat \<Rightarrow> string list" where
  "grid_lines gx gy = [[], ''// Grid position domain (packages/schemas/src/refs.ts GridPosition).'', ''//'',
     ''// Rack'' @ [CHR 0x27] @ ''s own origin is added to a grid column before it becomes a pixel'',
     ''// coordinate, so an unbounded column is a signed overflow rather than a'',
     ''// module in a strange place. These are the bounds the schema declares.'',
     ''static const int GRID_POSITION_X_MIN = '' @ num_json (fst gx) @ '';'',
     ''static const int GRID_POSITION_X_MAX = '' @ num_json (snd gx) @ '';'',
     ''static const int GRID_POSITION_Y_MIN = '' @ num_json (fst gy) @ '';'',
     ''static const int GRID_POSITION_Y_MAX = '' @ num_json (snd gy) @ '';'', []]"

definition vocabulary_lines :: "string list" where
  "vocabulary_lines = [''// Stable error codes (spec section 12)''] @
     enum_lines ''ErrorCode'' ''errorCodeToString'' ''c'' (map code_str ERROR_CODES) ''INTERNAL'' @
     [''// Risk flags (packages/schemas/src/operations.ts RiskFlag).'', ''//'',
      ''// The plugin spelled these as string literals, so a flag renamed in the'',
      ''// schema stayed compilable and simply stopped matching the vocabulary the'',
      ''// client branches on. As an enum, the rename is a build error at the site'', ''// that emits it.''] @
     enum_lines ''RiskFlag'' ''riskFlagToString'' ''f'' RiskFlag_options []"

definition frame_lines :: "(string \<times> field_row list) list \<Rightarrow> string list" where
  "frame_lines rows = [''// Frame kinds and their required non-discriminator fields'',
      ''// `allowed` is a NULL-terminated list of the exact strings a string-enum'',
      ''// field admits, or NULL when the field is not an enum.'',
      ''struct FieldSpec { const char* name; const char* jsonType; const char* const* allowed; };'',
      ''struct FrameSpec { const char* kind; const FieldSpec* fields; size_t fieldCount; };'', []] @
     concat (map (\<lambda>(kind, fs). field_table (''FRAME_'' @ sanitized kind) (''FRAME_FIELDS_'' @ sanitized kind) fs) rows) @
     [''static const FrameSpec FRAME_SPECS[] = {''] @
     map (\<lambda>(kind, fs). tab @ ''{'' @ quoted kind @ '', FRAME_FIELDS_'' @ sanitized kind @ '', '' @ nat_str (length fs) @ ''},'') rows @
     [''};'', ''static const size_t FRAME_SPEC_COUNT = '' @ nat_str (length rows) @ '';'', []]"

definition method_lines :: "(string \<times> bool \<times> field_row list) list \<Rightarrow> string list" where
  "method_lines rows = [''// Bridge methods, whether they mutate, and required request fields'',
      ''struct MethodSpec { const char* method; bool mutating; const FieldSpec* fields; size_t fieldCount; };'', []] @
     concat (map (\<lambda>(i, _, _, fs). field_table (''METHOD_'' @ nat_str i) (''METHOD_FIELDS_'' @ nat_str i) fs) (numbered rows)) @
     [''static const MethodSpec METHOD_SPECS[] = {''] @
     map (\<lambda>(i, m, mut, fs). tab @ ''{'' @ quoted m @ '', '' @ js_bool mut @ '', METHOD_FIELDS_'' @ nat_str i @ '', '' @
       nat_str (length fs) @ ''},'') (numbered rows) @
     [''};'', ''static const size_t METHOD_SPEC_COUNT = '' @ nat_str (length rows) @ '';'', []]"

definition op_lines :: "(string \<times> field_row list) list \<Rightarrow> string list" where
  "op_lines rows = [''// Patch operations and required fields'',
      ''struct OperationSpec { const char* op; const FieldSpec* fields; size_t fieldCount; };'', []] @
     concat (map (\<lambda>(i, _, fs). field_table (''OP_'' @ nat_str i) (''OP_FIELDS_'' @ nat_str i) fs) (numbered rows)) @
     [''static const OperationSpec OPERATION_SPECS[] = {''] @
     map (\<lambda>(i, nm, fs). tab @ ''{'' @ quoted nm @ '', OP_FIELDS_'' @ nat_str i @ '', '' @ nat_str (length fs) @ ''},'') (numbered rows) @
     [''};'', ''static const size_t OPERATION_SPEC_COUNT = '' @ nat_str (length rows) @ '';'', []]"

record cpp_documents =
  doc_frame :: json
  doc_methods :: json
  doc_operation :: json

text \<open>What the header is written from.\<close>

record cpp_tables =
  ct_frames :: "(string \<times> field_row list) list"
  ct_methods :: "(string \<times> bool \<times> field_row list) list"
  ct_ops :: "(string \<times> field_row list) list"
  ct_gridX :: "rat \<times> rat"
  ct_gridY :: "rat \<times> rat"
  ct_limits :: "string list"

definition seq :: "'e + 'a \<Rightarrow> ('a \<Rightarrow> 'e + 'b) \<Rightarrow> 'e + 'b" where
  "seq r f = (case r of Inl e \<Rightarrow> Inl e | Inr x \<Rightarrow> f x)"

definition cpp_tables_of :: "(string \<Rightarrow> string \<Rightarrow> bool) \<Rightarrow> cpp_documents \<Rightarrow> string + cpp_tables" where
  "cpp_tables_of le d = seq (frameRows (doc_frame d)) (\<lambda>frames. seq (methodRows (doc_methods d)) (\<lambda>ms. seq (opRows (doc_operation d)) (\<lambda>ops.
     seq (gridDomain ''x'' (doc_operation d)) (\<lambda>gx. seq (gridDomain ''y'' (doc_operation d)) (\<lambda>gy.
     if sort_by unit_le (map fst (by_name le ops)) \<noteq> sort_by unit_le OPERATION_TYPES
     then Inl (op_name_mismatch (sort_by unit_le (map fst (by_name le ops))))
     else seq (register_all limit_line LIMIT_ENTRIES) (\<lambda>limit_text.
     Inr \<lparr>ct_frames = by_name le frames, ct_methods = ms, ct_ops = by_name le ops, ct_gridX = gx, ct_gridY = gy, ct_limits = limit_text\<rparr>))))))"

definition header_lines :: "cpp_tables \<Rightarrow> string list" where
  "header_lines t = preamble @ ct_limits t @ grid_lines (ct_gridX t) (ct_gridY t) @ vocabulary_lines @ frame_lines (ct_frames t) @
     method_lines (ct_methods t) @ op_lines (ct_ops t) @ [''} // namespace gen'', ''} // namespace rackmcp'']"

definition gen_cpp :: "(string \<Rightarrow> string \<Rightarrow> bool) \<Rightarrow> cpp_documents \<Rightarrow> string + string" where
  "gen_cpp le d = seq (cpp_tables_of le d) (\<lambda>t. Inr (join_with [CHR 0x0A] (header_lines t) @ [CHR 0x0A]))"

section \<open>The plugin's check of a payload\<close>

text \<open>A payload as the plugin holds it (jansson): integers and reals are different kinds of value.\<close>

datatype cjson = CNull | CBool bool | CInt int | CReal rat | CStr string | CArr "cjson list" | CObj "(string \<times> cjson) list"

text \<open>What it reads from the text \<open>JSON.stringify\<close> writes.  A number without a fraction is written in
  digits below \<open>10^21\<close> and with an exponent from there; digits make an integer, which has to fit
  into 64 bits or the whole text is refused (\<open>None\<close>), anything else a real.\<close>

definition received_number :: "rat \<Rightarrow> cjson option" where
  "received_number r = (case quotient_of r of (n, k) \<Rightarrow>
     if k \<noteq> 1 \<or> \<bar>n\<bar> \<ge> 10 ^ 21 then Some (CReal r)
     else if - (2 ^ 63) \<le> n \<and> n < 2 ^ 63 then Some (CInt n) else None)"

fun received :: "json \<Rightarrow> cjson option" where
  "received JNull = Some CNull"
| "received (JBool b) = Some (CBool b)"
| "received (JNum r) = received_number r"
| "received (JStr s) = Some (CStr s)"
| "received (JArr vs) = map_option CArr (those (map received vs))"
| "received (JObj ks) = map_option CObj (those (map (\<lambda>(k, v). map_option (Pair k) (received v)) ks))"

definition c_is_string :: "cjson \<Rightarrow> bool" where
  "c_is_string v = (case v of CStr _ \<Rightarrow> True | _ \<Rightarrow> False)"

definition typeMatches :: "string \<Rightarrow> cjson \<Rightarrow> bool" where
  "typeMatches t v =
     (if t = ''any'' then True
      else if t = ''string'' then c_is_string v
      else if t = ''boolean'' then (case v of CBool _ \<Rightarrow> True | _ \<Rightarrow> False)
      else if t = ''integer'' then (case v of CInt _ \<Rightarrow> True | _ \<Rightarrow> False)
      else if t = ''number'' then (case v of CInt _ \<Rightarrow> True | CReal _ \<Rightarrow> True | _ \<Rightarrow> False)
      else if t = ''object'' then (case v of CObj _ \<Rightarrow> True | _ \<Rightarrow> False)
      else if t = ''array'' then (case v of CArr _ \<Rightarrow> True | _ \<Rightarrow> False)
      else True)"

definition actualTypeName :: "cjson \<Rightarrow> string" where
  "actualTypeName v = (case v of CObj _ \<Rightarrow> ''object'' | CArr _ \<Rightarrow> ''array'' | CStr _ \<Rightarrow> ''string''
     | CInt _ \<Rightarrow> ''integer'' | CReal _ \<Rightarrow> ''number'' | CBool _ \<Rightarrow> ''boolean'' | CNull \<Rightarrow> ''null'')"

definition json_object_get :: "cjson \<Rightarrow> string \<Rightarrow> cjson option" where
  "json_object_get obj k = (case obj of CObj ks \<Rightarrow> map_of ks k | _ \<Rightarrow> None)"

definition field_complaint :: "string \<Rightarrow> field_row \<Rightarrow> cjson \<Rightarrow> string option" where
  "field_complaint nm f obj = (case json_object_get obj (fr_name f) of
     None \<Rightarrow> Some (nm @ '': missing required field '' @ quoted (fr_name f) @ '' (declared '' @ fr_type f @ '')'')
   | Some value \<Rightarrow>
       if \<not> typeMatches (fr_type f) value
       then Some (nm @ '': field '' @ quoted (fr_name f) @ '' must be '' @ fr_type f @ '', not '' @ actualTypeName value)
       else (case (allowed_values f, value) of
           (Some vs, CStr actual) \<Rightarrow>
             if actual \<in> set vs then None
             else Some (nm @ '': field '' @ quoted (fr_name f) @ '' must be one of '' @ join_with '', '' vs @ '', not '' @ quoted actual)
         | _ \<Rightarrow> None))"

text \<open>The first complaint, or the empty string.\<close>

definition checkDeclaredFields :: "string \<Rightarrow> field_row list \<Rightarrow> cjson \<Rightarrow> string" where
  "checkDeclaredFields nm fs obj = (case obj of
     CObj _ \<Rightarrow> (case List.map_filter (\<lambda>f. field_complaint nm f obj) fs of [] \<Rightarrow> [] | c # _ \<Rightarrow> c)
   | _ \<Rightarrow> nm @ '': payload is not a JSON object'')"

text \<open>The check is stricter than the documents: \<open>1.0\<close> is an integer to a JSON Schema and a real to it.\<close>

lemma real_refused: "\<not> typeMatches ''integer'' (CReal r) \<and> has_type ''integer'' (JNum 1)"
  by (simp add: typeMatches_def has_type_def is_integral_def)

section \<open>Reading a payload\<close>

text \<open>The whole numbers of a value lie in the range of exact doubles, the range of zod's integers.\<close>

fun safe_numbers :: "json \<Rightarrow> bool" where
  "safe_numbers (JNum r) = (snd (quotient_of r) = 1 \<longrightarrow> \<bar>fst (quotient_of r)\<bar> \<le> 9007199254740991)"
| "safe_numbers (JArr vs) = list_all safe_numbers vs"
| "safe_numbers (JObj ks) = list_all (\<lambda>(k, v). safe_numbers v) ks"
| "safe_numbers _ = True"

lemma received_safe:
  assumes "snd (quotient_of r) = 1 \<longrightarrow> \<bar>fst (quotient_of r)\<bar> \<le> 9007199254740991"
  shows "received_number r = Some (if snd (quotient_of r) = 1 then CInt (fst (quotient_of r)) else CReal r)"
  using assms by (auto simp: received_number_def split: prod.split)

lemma those_Some: "list_all (\<lambda>x. \<exists>y. f x = Some y) xs \<Longrightarrow> \<exists>ys. those (map f xs) = Some ys"
  by (induction xs) auto

lemma safe_received: "safe_numbers v \<Longrightarrow> \<exists>c. received v = Some c"
proof (induction v rule: received.induct)
  case (3 r)
  then show ?case using received_safe [of r] by simp
next
  case (5 vs)
  then have "\<exists>ys. those (map received vs) = Some ys" by (intro those_Some) (auto simp: list_all_iff)
  then show ?case by auto
next
  case (6 ks)
  then have "\<exists>ys. those (map (\<lambda>(k, v). map_option (Pair k) (received v)) ks) = Some ys"
    by (intro those_Some) (fastforce simp: list_all_iff)
  then show ?case by auto
qed simp_all

lemma those_pairs_get:
  "those (map (\<lambda>(k, v). map_option (Pair k) (received v)) ms) = Some cs \<Longrightarrow> map_get ms k = Some v \<Longrightarrow>
   \<exists>c. received v = Some c \<and> map_of cs k = Some c"
  by (induction ms arbitrary: cs) (auto simp: map_get_Cons split: if_splits option.splits)

lemma received_member:
  assumes "received (JObj ms) = Some c" and "map_get ms k = Some v"
  shows "\<exists>w. received v = Some w \<and> json_object_get c k = Some w"
  using assms those_pairs_get by (auto simp: json_object_get_def)

text \<open>A type the document admits for a value, and what it becomes.\<close>

definition admits :: "string \<Rightarrow> json \<Rightarrow> bool" where
  "admits t v =
     (if t = ''any'' then True
      else if t = ''string'' then is_string v
      else if t = ''boolean'' then (case v of JBool _ \<Rightarrow> True | _ \<Rightarrow> False)
      else if t = ''integer'' then is_integral v
      else if t = ''number'' then (case v of JNum _ \<Rightarrow> True | _ \<Rightarrow> False)
      else if t = ''object'' then (case v of JObj _ \<Rightarrow> True | _ \<Rightarrow> False)
      else if t = ''array'' then (case v of JArr _ \<Rightarrow> True | _ \<Rightarrow> False)
      else True)"

lemma admits_received:
  assumes "admits t v" and "safe_numbers v" and "received v = Some c"
  shows "typeMatches t c"
  using assms
  by (cases v) (auto simp: admits_def typeMatches_def is_string_def c_is_string_def is_integral_def received_safe split: if_splits)

section \<open>What a schema accepts passes the check\<close>

lemma js_valid_member:
  assumes "js_valid rx s v" and "member s k = Some q"
  obtains ks where "s = JObj ks" and "keyword rx ks v (k, q)"
proof -
  obtain ks where "s = JObj ks" using assms(2) by (auto simp: member_def split: json.splits)
  then show ?thesis using assms that js_validD by (auto simp: member_def)
qed

lemma const_valid: "js_valid rx s v \<Longrightarrow> member s ''const'' = Some c \<Longrightarrow> v = c"
  by (erule (1) js_valid_member) (simp add: keyword_def plain_keyword_def)

lemma enum_valid: "js_valid rx s v \<Longrightarrow> member s ''enum'' = Some (JArr vs) \<Longrightarrow> v \<in> set vs"
  by (erule (1) js_valid_member) (auto simp: keyword_def plain_keyword_def list_ex_iff)

lemma type_valid: "js_valid rx s v \<Longrightarrow> member s ''type'' = Some t \<Longrightarrow> type_accepts t v"
  by (erule (1) js_valid_member) (simp add: keyword_def plain_keyword_def)

lemma count_true_pos: "count_true bs = 1 \<Longrightarrow> list_ex id bs"
  by (cases "filter id bs") (auto simp: count_true_def list_ex_iff filter_eq_Cons_iff)

lemma branch_valid:
  assumes "js_valid rx s v" and "js_branches s \<noteq> []"
  shows "\<exists>q \<in> set (js_branches s). js_valid rx q v"
proof -
  obtain u where u: "nullish (member s ''anyOf'') (member s ''oneOf'') = Some u" "js_branches s = elems u"
    using assms(2) by (cases "nullish (member s ''anyOf'') (member s ''oneOf'')") (auto simp: js_branches_def)
  then consider "member s ''anyOf'' = Some u" | "member s ''oneOf'' = Some u"
    by (auto simp: nullish_def split: option.splits json.splits)
  then show ?thesis
  proof cases
    case 1
    from js_valid_member [OF assms(1) 1] show ?thesis by (auto simp: u(2) keyword_def list_ex_iff)
  next
    case 2
    from js_valid_member [OF assms(1) 2] have "count_true (map (\<lambda>q. js_valid rx q v) (elems u)) = 1"
      by (auto simp: keyword_def)
    from count_true_pos [OF this] show ?thesis by (auto simp: u(2) list_ex_iff)
  qed
qed

lemma plain_type_sound: "type_accepts (JStr n) v \<Longrightarrow> admits (plain_type (Some (JStr n))) v"
  by (cases v) (auto simp: type_accepts_def has_type_def plain_type_def admits_def is_string_def)

lemma union_type_sound:
  assumes "js_valid rx s v" and "js_branches s \<noteq> []"
    and "\<And>q. q \<in> set (js_branches s) \<Longrightarrow> js_valid rx q v \<Longrightarrow> admits (jsonTypeOf q) v"
  shows "admits (case remdups (map jsonTypeOf (js_branches s)) of [k] \<Rightarrow> k | _ \<Rightarrow> ''any'') v"
proof -
  obtain q where q: "q \<in> set (js_branches s)" "js_valid rx q v" using branch_valid [OF assms(1,2)] by blast
  have k: "jsonTypeOf q = k" if "remdups (map jsonTypeOf (js_branches s)) = [k]" for k
    using q(1) arg_cong [OF that, of set] by auto
  have any: "admits ''any'' v" by (simp add: admits_def)
  show ?thesis using any k assms(3) [OF q] by (auto split: list.split)
qed

lemma jsonTypeOf_sound: "js_valid rx s v \<Longrightarrow> admits (jsonTypeOf s) v"
proof (induction "size s" arbitrary: s rule: less_induct)
  case less
  have str: "admits ''string'' v" if "all_string_kinds (member s ''enum'')"
  proof -
    from that obtain vs where vs: "member s ''enum'' = Some (JArr vs)" "list_all is_string vs"
      by (auto simp: all_string_kinds_def split: option.splits json.splits)
    show ?thesis using enum_valid [OF less.prems vs(1)] vs(2) by (auto simp: admits_def list_all_iff)
  qed
  have un: "admits (case remdups (map jsonTypeOf (js_branches s)) of [k] \<Rightarrow> k | _ \<Rightarrow> ''any'') v" if "js_branches s \<noteq> []"
    by (rule union_type_sound [OF less.prems that]) (use less.hyps size_branches in blast)
  have pl: "admits (plain_type (member s ''type'')) v"
  proof (cases "member s ''type''")
    case None
    then show ?thesis by (simp add: plain_type_def admits_def)
  next
    case (Some t)
    have "admits ''any'' v" by (simp add: admits_def)
    then show ?thesis using plain_type_sound type_valid [OF less.prems Some] Some
      by (cases t) (auto simp: plain_type_def)
  qed
  have rest: "admits (if all_string_kinds (member s ''enum'') then ''string''
      else if js_branches s \<noteq> [] then (case remdups (map jsonTypeOf (js_branches s)) of [k] \<Rightarrow> k | _ \<Rightarrow> ''any'')
      else plain_type (member s ''type'')) v"
    using str un pl by auto
  have c: "member s ''const'' = Some x \<Longrightarrow> v = x" for x by (rule const_valid [OF less.prems])
  show ?case
  proof (cases "member s ''const''")
    case None
    then show ?thesis using rest by (subst jsonTypeOf.simps) simp
  next
    case (Some x)
    then show ?thesis using rest c [OF Some]
      by (subst jsonTypeOf.simps) (cases x; simp add: admits_def is_string_def)
  qed
qed

lemma string_values_strings: "JStr t \<in> set vs \<Longrightarrow> t \<in> set (string_values vs)"
  by (induction vs) (auto simp: string_values_def List.map_filter_simps split: json.split)

lemma stringEnumOf_sound:
  assumes "js_valid rx q (JStr t)" and "stringEnumOf (Some q) = Some vs"
  shows "t \<in> set vs"
proof -
  have c: "const_string (member q ''const'') = Some vs \<Longrightarrow> t \<in> set vs"
    using const_valid [OF assms(1)] by (auto simp: const_string_def split: option.splits json.splits)
  have e: "member q ''enum'' = Some (JArr xs) \<Longrightarrow> string_values xs = vs \<Longrightarrow> t \<in> set vs" for xs
    using enum_valid [OF assms(1)] string_values_strings by blast
  show ?thesis using assms(2) c e by (auto simp: stringEnumOf_def split: option.splits json.splits if_splits)
qed

lemma required_present:
  assumes "js_valid rx s (JObj ms)" and "r \<in> set (required_names s)"
  obtains v where "map_get ms r = Some v"
proof -
  obtain rs where rs: "member s ''required'' = Some (JArr rs)" "r \<in> set (string_values rs)"
    using assms(2) by (cases "member s ''required''") (auto simp: required_names_def split: json.splits)
  have k: "list_all (has_key (JObj ms)) rs"
    by (rule js_valid_member [OF assms(1) rs(1)]) (auto simp: keyword_def plain_keyword_def)
  have "JStr r \<in> set rs" using rs(2)
    by (induction rs) (auto simp: string_values_def List.map_filter_simps split: json.splits)
  then have "has_key (JObj ms) (JStr r)" using k by (simp add: list_all_iff)
  then show ?thesis using that by (auto simp: has_key_def member_def)
qed

lemma property_valid:
  assumes "js_valid rx s (JObj ms)" and "omember (member s ''properties'') r = Some q" and "map_get ms r = Some v"
  shows "js_valid rx q v"
proof -
  obtain ps where ps: "member s ''properties'' = Some (JObj ps)" "map_get ps r = Some q"
    using assms(2) by (auto simp: omember_def member_def split: option.splits json.splits)
  obtain ks where "keyword rx ks (JObj ms) (''properties'', JObj ps)"
    using js_valid_member [OF assms(1) ps(1)] by blast
  then show ?thesis using map_get_in_set [OF ps(2)] assms(3)
    by (fastforce simp: keyword_def pairs_def list_all_iff member_def)
qed

lemma field_row_passes:
  assumes "js_valid rx s (JObj ms)" and "f \<in> set (field_rows k s)" and "received (JObj ms) = Some c" and "safe_numbers (JObj ms)"
  shows "field_complaint nm f c = None"
proof -
  define q where "q = omember (member s ''properties'') (fr_name f)"
  have f: "fr_type f = type_of q" "fr_allowed f = stringEnumOf q" "fr_name f \<in> set (required_names s)"
    using assms(2) by (auto simp: field_rows_def Let_def q_def)
  obtain v where v: "map_get ms (fr_name f) = Some v" using required_present [OF assms(1) f(3)] .
  obtain w where w: "received v = Some w" "json_object_get c (fr_name f) = Some w"
    using received_member [OF assms(3) v] by blast
  have safe: "safe_numbers v" using map_get_in_set [OF v] assms(4) by (auto simp: list_all_iff)
  have valid: "js_valid rx p v" if "q = Some p" for p
    using property_valid [OF assms(1) _ v] that by (simp add: q_def)
  have "admits (fr_type f) v"
    using valid jsonTypeOf_sound by (cases q) (simp_all add: f(1) type_of_def admits_def)
  then have t: "typeMatches (fr_type f) w" using admits_received safe w(1) by blast
  have a: "t \<in> set vs" if "allowed_values f = Some vs" "w = CStr t" for vs t
  proof -
    have e: "stringEnumOf q = Some vs" using that(1) by (auto simp: allowed_values_def f(2) split: option.splits if_splits)
    then obtain p where "q = Some p" by (cases q) (auto simp: stringEnumOf_def)
    moreover have "v = JStr t" using w(1) that(2)
      by (cases v) (auto simp: received_number_def split: prod.splits if_splits)
    ultimately show ?thesis using e stringEnumOf_sound valid by blast
  qed
  show ?thesis using t a
    by (auto simp: field_complaint_def w split: option.split cjson.split)
qed

text \<open>The payload is read, and passes.\<close>

definition passes_check :: "string \<Rightarrow> field_row list \<Rightarrow> json \<Rightarrow> bool" where
  "passes_check nm fs j \<longleftrightarrow> (\<exists>c. received j = Some c \<and> checkDeclaredFields nm fs c = [])"

lemma field_rows_pass:
  assumes "js_valid rx s (JObj ms)" and "safe_numbers (JObj ms)"
  shows "passes_check nm (field_rows k s) (JObj ms)"
proof -
  obtain c where c: "received (JObj ms) = Some c" using safe_received [OF assms(2)] by blast
  then obtain cs where o': "c = CObj cs" by auto
  have "\<forall>f \<in> set (field_rows k s). field_complaint nm f c = None"
    using field_row_passes [OF assms(1) _ c assms(2)] by blast
  then have "List.map_filter (\<lambda>f. field_complaint nm f c) (field_rows k s) = []"
    by (simp add: List.map_filter_def)
  then show ?thesis using c by (simp add: passes_check_def checkDeclaredFields_def o')
qed

section \<open>The generated tables\<close>

lemma register_all_rows: "register_all f xs = Inr ys \<Longrightarrow> list_all2 (\<lambda>x y. f x = Inr y) xs ys"
  by (induction xs arbitrary: ys) (auto split: sum.splits)

lemma seq_Inr: "seq r f = Inr y \<longleftrightarrow> (\<exists>x. r = Inr x \<and> f x = Inr y)"
  by (simp add: seq_def split: sum.split)

lemma tables_from:
  assumes "cpp_tables_of le d = Inr t"
  obtains ops where "methodRows (doc_methods d) = Inr (ct_methods t)" and "opRows (doc_operation d) = Inr ops"
    and "ct_ops t = by_name le ops" and "distinct (map fst (ct_ops t))"
    and "set (map fst (ct_ops t)) = set OPERATION_TYPES" and "js_branches (doc_operation d) \<noteq> []"
    and "gridDomain ''x'' (doc_operation d) = Inr (ct_gridX t)" and "gridDomain ''y'' (doc_operation d) = Inr (ct_gridY t)"
proof -
  obtain ops where o: "methodRows (doc_methods d) = Inr (ct_methods t)" "opRows (doc_operation d) = Inr ops" "ct_ops t = by_name le ops"
      "sort_by unit_le (map fst (by_name le ops)) = sort_by unit_le OPERATION_TYPES"
      "gridDomain ''x'' (doc_operation d) = Inr (ct_gridX t)" "gridDomain ''y'' (doc_operation d) = Inr (ct_gridY t)"
    using assms by (auto simp: cpp_tables_of_def seq_Inr split: if_splits)
  have "distinct (sort_by unit_le OPERATION_TYPES)" by (simp add: OPERATION_TYPES_def)
  then have "distinct (map fst (by_name le ops))" using arg_cong [OF o(4), of distinct] by simp
  moreover have "set (map fst (ct_ops t)) = set OPERATION_TYPES"
    using arg_cong [OF o(4), of set] by (simp only: set_sort_by o(3))
  moreover have "js_branches (doc_operation d) \<noteq> []"
    using o(2,4) by (auto simp: opRows_def variant_rows_def by_name_def sort_by_def OPERATION_TYPES_def)
  ultimately show ?thesis using that o by simp
qed

lemma grid_agrees: "gridDomain axis doc = Inr c \<Longrightarrow> \<exists>cs. grid_walk axis doc = Inr cs \<and> set cs = {c}"
  by (auto simp: gridDomain_def find_None_iff find_Some_iff split: sum.splits list.splits option.splits if_splits)

definition request_schema :: "cpp_documents \<Rightarrow> string \<Rightarrow> json option" where
  "request_schema d m = omember (omember (member (doc_methods d) ''methods'') m) ''request''"

text \<open>Every variant names its operation by a constant, as zod writes a discriminated union.\<close>

definition const_discriminated :: "json \<Rightarrow> bool" where
  "const_discriminated doc = list_all (\<lambda>v. case variant_op v of Some (JStr s) \<Rightarrow> True | _ \<Rightarrow> False) (js_branches doc)"

lemma method_rows_from:
  assumes "methodRows doc = Inr rows"
  shows "map (\<lambda>(m, mut, fs). (m, mut)) rows = map (\<lambda>m. (m, mutates m)) BRIDGE_METHOD_NAMES"
    and "map_of rows m = Some (mut, fs) \<Longrightarrow> mut = mutates m \<and>
      fs = (case omember (omember (member doc ''methods'') m) ''request'' of None \<Rightarrow> [] | Some r \<Rightarrow> requiredFields r)"
proof -
  have a: "list_all2 (\<lambda>m row. fst row = m \<and> fst (snd row) = mutates m \<and>
      snd (snd row) = (case omember (omember (member doc ''methods'') m) ''request'' of None \<Rightarrow> [] | Some r \<Rightarrow> requiredFields r))
      BRIDGE_METHOD_NAMES rows"
    by (rule list_all2_mono [OF register_all_rows [OF assms [unfolded methodRows_def]]])
      (auto simp: Let_def split: if_splits)
  show "map (\<lambda>(m, mut, fs). (m, mut)) rows = map (\<lambda>m. (m, mutates m)) BRIDGE_METHOD_NAMES"
    using a by (simp add: list_all2_conv_all_nth list_eq_iff_nth_eq split_beta)
  show "mut = mutates m \<and> fs = (case omember (omember (member doc ''methods'') m) ''request'' of None \<Rightarrow> [] | Some r \<Rightarrow> requiredFields r)"
    if "map_of rows m = Some (mut, fs)"
    using a map_of_SomeD [OF that] by (fastforce simp: list_all2_conv_all_nth in_set_conv_nth)
qed

lemma op_rows_from:
  assumes "opRows doc = Inr rows" and "v \<in> set (js_branches doc)" and "variant_op v = Some (JStr nm)"
  shows "nm \<noteq> [] \<and> (nm, field_rows ''op'' v) \<in> set rows"
proof -
  have "list_all2 (\<lambda>v row. case discriminator_of ''op'' v of None \<Rightarrow> False | Some nm \<Rightarrow> row = (nm, field_rows ''op'' v)) (js_branches doc) rows"
    by (rule list_all2_mono [OF register_all_rows [OF assms(1) [unfolded opRows_def variant_rows_def]]])
      (auto split: option.splits)
  then have "case discriminator_of ''op'' v of None \<Rightarrow> False | Some nm \<Rightarrow> (nm, field_rows ''op'' v) \<in> set rows"
    using assms(2) by (fastforce simp: list_all2_conv_all_nth in_set_conv_nth split: option.splits)
  then show ?thesis
    using assms(3) by (auto simp: discriminator_of_def variant_op_def nullish_def Let_def split: if_splits)
qed

lemma variant_names_op:
  assumes "js_valid rx v (JObj ms)" and "variant_op v = Some c" and "map_get ms ''op'' = Some x"
  shows "x = c"
proof -
  obtain p where p: "omember (member v ''properties'') ''op'' = Some p" "member p ''const'' = Some c"
    using assms(2) by (auto simp: variant_op_def omember_def split: option.splits)
  from const_valid [OF property_valid [OF assms(1) p(1) assms(3)] p(2)] show ?thesis .
qed


text \<open>Documents with one position, no required fields but the label of a preview, and the eleven operations.\<close>

definition demo_documents :: cpp_documents where
  "demo_documents = (let axis = (\<lambda>n. JObj [(''minimum'', JNum (- n)), (''maximum'', JNum n)]);
     position = JObj [(''properties'', JObj [(''x'', axis 4096), (''y'', axis 256)])]
   in \<lparr>doc_frame = JObj [],
     doc_methods = JObj [(''methods'', JObj (map (\<lambda>m. (m, JObj [(''request'', JObj (if m = ''txn.preview''
       then [(''properties'', JObj [(''label'', JObj [(''type'', JStr ''string'')])]), (''required'', js_names [''label''])] else []))]))
       BRIDGE_METHOD_NAMES))],
     doc_operation = JObj [(''oneOf'', JArr (map (\<lambda>n. JObj [(''properties'', JObj ([(''op'', JObj [(''const'', JStr n)])] @
       (if n = ''move_module'' then [(''position'', position)] else []))), (''required'', js_names [''op''])]) OPERATION_TYPES))]\<rparr>)"

lemma demo_limits: "\<exists>ls. register_all limit_line LIMIT_ENTRIES = Inr ls"
  by (simp add: LIMIT_ENTRIES_def LIMITS_def PROBE_WINDOW_MS_def limit_line_def)

lemma demo_frames: "frameRows (doc_frame demo_documents) = Inr []"
  by (simp add: demo_documents_def Let_def frameRows_def variant_rows_def js_branches_def nullish_def member_def)

lemma demo_grid: "gridDomain ''x'' (doc_operation demo_documents) = Inr (- 4096, 4096)"
    "gridDomain ''y'' (doc_operation demo_documents) = Inr (- 256, 256)"
  by (simp_all add: demo_documents_def Let_def gridDomain_def OPERATION_TYPES_def js_names_def domain_of_def omember_def member_def
      map_get_Cons falsy_def)

lemma demo_methods: "\<exists>ms. methodRows (doc_methods demo_documents) = Inr ms"
proof -
  let ?f = "\<lambda>m. JObj [(''request'', JObj (if m = ''txn.preview''
       then [(''properties'', JObj [(''label'', JObj [(''type'', JStr ''string'')])]), (''required'', js_names [''label''])] else []))]"
  have e: "omember (member (doc_methods demo_documents) ''methods'') m = Some (?f m)" if "m \<in> set BRIDGE_METHOD_NAMES" for m
    using that by (simp add: demo_documents_def Let_def omember_def member_def map_get_def map_of_map_restrict)
  let ?g = "\<lambda>m. (m, mutates m, case omember (Some (?f m)) ''request'' of None \<Rightarrow> [] | Some r \<Rightarrow> requiredFields r)"
  have "methodRows (doc_methods demo_documents) = Inr (map ?g BRIDGE_METHOD_NAMES)"
    unfolding methodRows_def by (rule register_all_Inr) (simp add: list_all_iff e Let_def falsy_def)
  then show ?thesis by blast
qed

lemma demo_ops: "\<exists>ops. opRows (doc_operation demo_documents) = Inr ops \<and> map fst ops = OPERATION_TYPES"
  by (simp add: demo_documents_def Let_def opRows_def variant_rows_def OPERATION_TYPES_def js_branches_def nullish_def elems_def
     omember_def member_def map_get_Cons discriminator_of_def)

lemma map_sort_by: "map fst (sort_by (\<lambda>a b. le (fst a) (fst b)) xs) = sort_by le (map fst xs)"
proof (induction xs)
  case (Cons x xs)
  have "map fst (insert_by (\<lambda>a b. le (fst a) (fst b)) x ys) = insert_by le (fst x) (map fst ys)" for ys
    by (induction ys) auto
  then show ?case using Cons by (simp add: sort_by_def)
qed (simp add: sort_by_def)

lemma sorted_names: "sort_by unit_le (sort_by unit_le OPERATION_TYPES) = sort_by unit_le OPERATION_TYPES"
  by code_simp

lemma demo_tables: "\<exists>t. cpp_tables_of unit_le demo_documents = Inr t"
proof -
  obtain ls ms ops where "register_all limit_line LIMIT_ENTRIES = Inr ls" "methodRows (doc_methods demo_documents) = Inr ms"
    "opRows (doc_operation demo_documents) = Inr ops" "map fst ops = OPERATION_TYPES"
    using demo_limits demo_methods demo_ops by metis
  then show ?thesis by (simp add: cpp_tables_of_def seq_Inr demo_frames demo_grid by_name_def map_sort_by sorted_names)
qed


end
