(* ===== verification/ToolReference.thy ===== *)
theory ToolReference
  imports JsonSchema
begin

text \<open>
  The generator of the tool reference (\<open>scripts/gen-tool-reference.ts\<close>): a type and its
  constraints as text, the parameters of a tool, its hints, and the document, in which the
  tools come in curated groups and what is in no group at the end.  A string is the list of its
  UTF-8 bytes.
\<close>

section \<open>Types and constraints\<close>

text \<open>\<open>s.split("/").pop()\<close>.\<close>

definition last_segment :: "string \<Rightarrow> string" where
  "last_segment s = rev (takeWhile (\<lambda>c. c \<noteq> CHR 0x2F) (rev s))"

definition text_of :: "json option \<Rightarrow> string" where
  "text_of v = (case v of Some (JStr s) \<Rightarrow> s | _ \<Rightarrow> [])"

definition bar :: string where
  "bar = '' | ''"

text \<open>\<open>s.anyOf ?? s.oneOf\<close>, when one of them is truthy.\<close>

definition union_members :: "json \<Rightarrow> json list option" where
  "union_members s = (if falsy (member s ''anyOf'') \<and> falsy (member s ''oneOf'') then None
     else Some (case member s ''anyOf'' of Some a \<Rightarrow> if a = JNull then (case member s ''oneOf'' of None \<Rightarrow> [] | Some b \<Rightarrow> elems b) else elems a
       | None \<Rightarrow> (case member s ''oneOf'' of None \<Rightarrow> [] | Some b \<Rightarrow> elems b)))"

definition base_type :: "json \<Rightarrow> string" where
  "base_type s = (case member s ''type'' of Some (JArr ts) \<Rightarrow> join_with bar (map (\<lambda>t. text_of (Some t)) ts)
     | Some (JStr t) \<Rightarrow> t | _ \<Rightarrow> ''object'')"

lemma size_member [termination_simp]: "member s k = Some v \<Longrightarrow> size v < size s"
  by (cases s) (auto simp: member_def size_map_get)

lemma size_union_members [termination_simp]: "union_members s = Some vs \<Longrightarrow> v \<in> set vs \<Longrightarrow> size v < size s"
  by (auto simp: union_members_def split: if_splits option.splits dest!: size_in_elems size_member)

definition all_of :: "json \<Rightarrow> json list" where
  "all_of s = (case member s ''allOf'' of None \<Rightarrow> [] | Some a \<Rightarrow> elems a)"

lemma size_all_of [termination_simp]: "all_of s = v # r \<Longrightarrow> size v < size s"
proof -
  assume a: "all_of s = v # r"
  then obtain u where u: "member s ''allOf'' = Some u" "v \<in> set (elems u)" by (auto simp: all_of_def split: option.splits)
  show "size v < size s" using size_member [OF u(1)] size_in_elems [OF u(2)] by simp
qed

fun typeStr :: "json \<Rightarrow> string" where
  "typeStr s = (if falsy (Some s) then ''any''
     else if \<not> falsy (member s ''$ref'') then last_segment (text_of (member s ''$ref''))
     else (case member s ''const'' of Some c \<Rightarrow> stringify c | None \<Rightarrow>
     if \<not> falsy (member s ''enum'') then join_with bar (map stringify (elems (the (member s ''enum''))))
     else (case union_members s of Some us \<Rightarrow> join_with bar (map typeStr us) | None \<Rightarrow>
     (case all_of s of v # r \<Rightarrow> typeStr v | [] \<Rightarrow>
     if base_type s = ''array'' then (case member s ''items'' of None \<Rightarrow> ''any'' | Some i \<Rightarrow> typeStr i) @ ''[]''
     else if \<not> falsy (member s ''format'') then base_type s @ '' ('' @ text_of (member s ''format'') @ '')''
     else base_type s))))"

declare typeStr.simps [simp del]

definition ge_sign :: string where
  "ge_sign = [CHR 0xE2, CHR 0x89, CHR 0xA5, CHR '' '']"

definition le_sign :: string where
  "le_sign = [CHR 0xE2, CHR 0x89, CHR 0xA4, CHR '' '']"

definition bound_text :: "string \<Rightarrow> json option \<Rightarrow> string list" where
  "bound_text sign v = (case v of None \<Rightarrow> [] | Some (JNum r) \<Rightarrow> [sign @ num_json r] | Some j \<Rightarrow> [sign @ stringify j])"

definition constraints :: "json \<Rightarrow> string" where
  "constraints s = (let c = bound_text ge_sign (member s ''minimum'') @ bound_text le_sign (member s ''maximum'') @
     bound_text ''min length '' (member s ''minLength'') @ bound_text ''max length '' (member s ''maxLength'')
     in if c \<noteq> [] then '' _('' @ join_with '', '' c @ '')_'' else [])"

section \<open>Parameters and hints\<close>

datatype render_kind = RenderInput | RenderOutput

definition newline_text :: string where
  "newline_text = [CHR 0x0A]"

definition code_span :: "string \<Rightarrow> string" where
  "code_span s = ''`'' @ s @ ''`''"

definition prop_line :: "render_kind \<Rightarrow> string list \<Rightarrow> string \<times> json \<Rightarrow> string" where
  "prop_line kind required np = (case np of (n, p) \<Rightarrow>
     ''- '' @ code_span n @ '': '' @ typeStr p @ constraints p @
     (if kind = RenderInput then '' _('' @ (if n \<in> set required then ''required'' else ''optional'') @ '')_'' else []) @
     (if falsy (member p ''description'') then [] else '' '' @ em_dash @ '' '' @ text_of (member p ''description'')))"

definition renderProps :: "json \<Rightarrow> render_kind \<Rightarrow> string" where
  "renderProps s kind = (let props = (case member s ''properties'' of None \<Rightarrow> [] | Some p \<Rightarrow> pairs p);
     required = (case member s ''required'' of None \<Rightarrow> [] | Some r \<Rightarrow> map (\<lambda>x. text_of (Some x)) (elems r))
   in if props = [] then (if kind = RenderInput then ''_No parameters._'' else ''_See the patch schema for the full shape._'') @ newline_text
      else join_with newline_text (map (prop_line kind required) props) @ newline_text)"

definition hintBadges :: "tool_annotations \<Rightarrow> string" where
  "hintBadges a = join_with [CHR '' '', CHR 0xC2, CHR 0xB7, CHR '' '']
     ([if ta_readOnlyHint a then ''read-only'' else ''**mutating**''] @
      (if ta_destructiveHint a then [''**destructive** (needs confirmation)''] else []) @
      (if ta_idempotentHint a then [''idempotent''] else []) @ (if ta_openWorldHint a then [''open-world''] else []))"

section \<open>The document\<close>

record tool_schema =
  tc_title :: string
  tc_description :: string
  tc_annotations :: tool_annotations
  tc_input :: json
  tc_output :: json

definition GROUPS :: "(string \<times> string list) list" where
  "GROUPS = [
     (''Instances, status, and writer lease'', [''list_rack_instances'', ''select_rack_instance'', ''get_rack_status'',
        ''acquire_writer_lease'', ''release_writer_lease'']),
     (''Catalog and inspection (read-only)'', [''list_installed_models'', ''inspect_model'', ''get_patch_snapshot'',
        ''inspect_module'', ''inspect_parameter'']),
     (''Analysis (read-only)'', [''describe_patch'', ''validate_patch'']),
     (''Transactions'', [''preview_patch_transaction'', ''commit_patch_transaction'', ''build_patch'', ''undo_last_mcp_transaction'']),
     (''Patch files and recovery'', [''list_patch_files'', ''create_checkpoint'', ''save_patch'', ''preview_load_patch'',
        ''commit_load_patch'', ''preview_clear_patch'', ''commit_clear_patch'', ''restore_checkpoint'']),
     (''Probe telemetry'', [''list_probes'', ''preview_attach_probe'', ''commit_attach_probe'', ''read_probe'', ''detach_probe''])]"

definition tool_section :: "string \<Rightarrow> tool_schema \<Rightarrow> string list" where
  "tool_section name t = [''### '' @ code_span name, [], ''*'' @ tc_title t @ ''* '' @ em_dash @ '' '' @ hintBadges (tc_annotations t), [],
     tc_description t, [], ''**Input**'', [], renderProps (tc_input t) RenderInput,
     ''**Output**'', [], renderProps (tc_output t) RenderOutput]"

fun group_tools :: "(string, tool_schema) jsmap \<Rightarrow> string list \<Rightarrow> string + string list" where
  "group_tools tools [] = Inr []"
| "group_tools tools (n # ns) = (case map_get tools n of
     None \<Rightarrow> Inl (''tool-reference: unknown tool in grouping: '' @ n)
   | Some t \<Rightarrow> (case group_tools tools ns of Inl e \<Rightarrow> Inl e | Inr ls \<Rightarrow> Inr (tool_section n t @ ls)))"

fun group_lines :: "(string, tool_schema) jsmap \<Rightarrow> (string \<times> string list) list \<Rightarrow> string + string list" where
  "group_lines tools [] = Inr []"
| "group_lines tools ((title, ns) # gs) = (case group_tools tools ns of
     Inl e \<Rightarrow> Inl e
   | Inr ls \<Rightarrow> (case group_lines tools gs of Inl e \<Rightarrow> Inl e | Inr r \<Rightarrow> Inr ([''## '' @ title, []] @ ls @ r)))"

definition intro_lines :: "nat \<Rightarrow> string list" where
  "intro_lines n = [''# MCP tool reference'', [],
     ''> Generated from the canonical tool schemas (`packages/schemas/json/tools.schema.json`) by'',
     ''> `scripts/gen-tool-reference.ts`. Do not edit by hand '' @ em_dash @ '' re-run the generator.'', [],
     ''Rack MCP exposes **'' @ nat_str n @ '' tools**. Every tool has a strict input'',
     ''schema and structured output. Destructive tools mutate the patch and require a valid,'',
     ''preview-bound confirmation (see the transaction model). Read-only tools never mutate Rack'',
     ''state. All 64-bit Rack ids cross the boundary as decimal strings.'', []]"

definition grouped :: "string list" where
  "grouped = concat (map snd GROUPS)"

definition leftover :: "(string, tool_schema) jsmap \<Rightarrow> (string, tool_schema) jsmap" where
  "leftover tools = filter (\<lambda>e. fst e \<notin> set grouped) tools"

definition reference_lines :: "(string, tool_schema) jsmap \<Rightarrow> string + string list" where
  "reference_lines tools = (case group_lines tools GROUPS of
     Inl e \<Rightarrow> Inl e
   | Inr ls \<Rightarrow> Inr (intro_lines (length tools) @ ls @
       (if leftover tools \<noteq> [] then [''## Other'', []] @ concat (map (\<lambda>(n, t). tool_section n t) (leftover tools)) else [])))"

text \<open>\<open>replace(/\n{3,}/g, "\n\n")\<close> and \<open>trimEnd\<close>.\<close>

fun squeeze :: "nat \<Rightarrow> string \<Rightarrow> string" where
  "squeeze k [] = []"
| "squeeze k (c # r) = (if c = CHR 0x0A then (if k < 2 then c # squeeze (k + 1) r else squeeze k r) else c # squeeze 0 r)"

definition trimEnd :: "string \<Rightarrow> string" where
  "trimEnd s = rev (dropWhile (\<lambda>c. c \<in> {CHR '' '', CHR 0x09, CHR 0x0A, CHR 0x0B, CHR 0x0C, CHR 0x0D}) (rev s))"

definition tool_reference :: "(string, tool_schema) jsmap \<Rightarrow> string + string" where
  "tool_reference tools = (case reference_lines tools of Inl e \<Rightarrow> Inl e
     | Inr ls \<Rightarrow> Inr (trimEnd (squeeze 0 (join_with newline_text ls)) @ newline_text))"

section \<open>Every tool is documented once\<close>

text \<open>The blocks occur in the list in their order, with other lines between them.\<close>

inductive woven :: "'a list list \<Rightarrow> 'a list \<Rightarrow> bool" where
  woven_end: "woven [] gap"
| woven_block: "woven bs r \<Longrightarrow> woven (b # bs) (gap @ b @ r)"

lemma woven_before: "woven bs x \<Longrightarrow> woven bs (gap @ x)"
proof (induction rule: woven.induct)
  case (woven_end x)
  show ?case by (rule woven.woven_end)
next
  case (woven_block bs r b x)
  from woven.woven_block [OF woven_block(1), of b "gap @ x"] show ?case by simp
qed

lemma woven_append: "woven as x \<Longrightarrow> woven bs y \<Longrightarrow> woven (as @ bs) (x @ y)"
proof (induction rule: woven.induct)
  case (woven_end gap)
  then show ?case using woven_before [of bs y gap] by simp
next
  case (woven_block cs r b gap)
  from woven.woven_block [OF woven_block.IH [OF woven_block.prems], of b gap] show ?case by simp
qed

lemma woven_concat: "woven bs (concat bs)"
proof (induction bs)
  case Nil
  show ?case by (simp add: woven.woven_end)
next
  case (Cons b bs)
  from woven.woven_block [OF Cons, of b "[]"] show ?case by simp
qed

definition section_of :: "(string, tool_schema) jsmap \<Rightarrow> string \<Rightarrow> string list" where
  "section_of tools n = (case map_get tools n of None \<Rightarrow> [] | Some t \<Rightarrow> tool_section n t)"

lemma group_tools_exact:
  "group_tools tools ns = (if list_all (\<lambda>n. map_get tools n \<noteq> None) ns then Inr (concat (map (section_of tools) ns))
     else Inl (''tool-reference: unknown tool in grouping: '' @ hd (filter (\<lambda>n. map_get tools n = None) ns)))"
proof (induction ns)
  case (Cons n ns)
  have "map_get tools n = Some t \<Longrightarrow> section_of tools n = tool_section n t" for t by (simp add: section_of_def)
  then show ?case using Cons by (cases "map_get tools n") auto
qed simp

lemma group_lines_woven:
  "group_lines tools gs = Inr ls \<Longrightarrow> woven (map (section_of tools) (concat (map snd gs))) ls"
proof (induction gs arbitrary: ls)
  case Nil
  then show ?case by (simp add: woven.woven_end)
next
  case (Cons g gs)
  obtain title ns where g: "g = (title, ns)" by (cases g)
  obtain r where r: "group_lines tools gs = Inr r" "ls = [''## '' @ title, []] @ concat (map (section_of tools) ns) @ r"
    using Cons.prems by (auto simp: g group_tools_exact split: sum.splits if_splits)
  show ?case
    unfolding r(2) g using woven_before [OF woven_append [OF woven_concat Cons.IH [OF r(1)], of "map (section_of tools) ns"],
      of "[''## '' @ title, []]"] by simp
qed

lemma group_lines_ok:
  "(\<exists>ls. group_lines tools gs = Inr ls) \<longleftrightarrow> list_all (\<lambda>n. map_get tools n \<noteq> None) (concat (map snd gs))"
  by (induction tools gs rule: group_lines.induct) (auto simp: group_tools_exact split: sum.splits if_splits)

lemma grouped_distinct: "distinct grouped"
  by (simp add: grouped_def GROUPS_def)

definition documented :: "(string, tool_schema) jsmap \<Rightarrow> string list" where
  "documented tools = grouped @ map fst (leftover tools)"

lemma leftover_sections:
  assumes "map_ok tools"
  shows "map (\<lambda>(n, t). tool_section n t) (leftover tools) = map (section_of tools) (map fst (leftover tools))"
  using assms by (auto simp: leftover_def section_of_def map_get_def map_ok_def)

text \<open>The tool reference is written exactly when every grouped tool exists, and then every
  published tool has exactly one section: the tools documented are distinct and are those of
  the schema document, and their sections occur in the document in that order.\<close>

theorem reference_complete:
  assumes "map_ok tools"
  shows "case reference_lines tools of
     Inl e \<Rightarrow> \<not> set grouped \<subseteq> fst ` set tools
   | Inr ls \<Rightarrow> set grouped \<subseteq> fst ` set tools \<and> distinct (documented tools) \<and> set (documented tools) = fst ` set tools \<and>
       woven (map (section_of tools) (documented tools)) ls"
proof -
  have keys: "map_get tools n \<noteq> None \<longleftrightarrow> n \<in> fst ` set tools" for n
    by (simp add: map_get_def map_of_eq_None_iff)
  have ok: "(\<exists>ls. group_lines tools GROUPS = Inr ls) \<longleftrightarrow> set grouped \<subseteq> fst ` set tools"
    unfolding group_lines_ok by (simp only: grouped_def [symmetric] list_all_iff keys subset_eq)
  show ?thesis
  proof (cases "group_lines tools GROUPS")
    case (Inl e)
    then show ?thesis using ok by (simp add: reference_lines_def)
  next
    case (Inr ls)
    have sub: "set grouped \<subseteq> fst ` set tools" using ok Inr by blast
    have "distinct (map fst (leftover tools))" using assms by (simp add: leftover_def map_ok_def distinct_map_filter)
    then have d: "distinct (documented tools)" using grouped_distinct by (auto simp: documented_def leftover_def)
    have k: "set (documented tools) = fst ` set tools" using sub by (auto simp: documented_def leftover_def image_iff)
    have g: "woven (map (section_of tools) grouped) ls" unfolding grouped_def by (rule group_lines_woven [OF Inr])
    let ?o = "if leftover tools \<noteq> [] then [''## Other'', []] @ concat (map (\<lambda>(n, t). tool_section n t) (leftover tools)) else []"
    have "woven (map (section_of tools) (map fst (leftover tools))) ?o"
      using woven_before [OF woven_concat [of "map (section_of tools) (map fst (leftover tools))"], of "[''## Other'', []]"] by (simp add: leftover_sections [OF assms] woven.woven_end)
    from woven_before [OF woven_append [OF g this], of "intro_lines (length tools)"]
    have "woven (map (section_of tools) (documented tools)) (intro_lines (length tools) @ ls @ ?o)" by (simp add: documented_def)
    then show ?thesis using sub d k Inr by (simp add: reference_lines_def)
  qed
qed

text \<open>The published tools, with their schemas rendered in any way.\<close>

definition published_tools :: "(schema \<Rightarrow> json) \<Rightarrow> (string, tool_schema) jsmap" where
  "published_tools js = map (\<lambda>t. (ts_name t, \<lparr>tc_title = ts_title t, tc_description = ts_description t,
     tc_annotations = ts_annotations t, tc_input = js (ts_input t), tc_output = js (ts_output t)\<rparr>)) TOOLS"

lemma published_names: "map fst (published_tools js) = HANDLERS"
  unfolding handlers_complete [symmetric] by (simp add: published_tools_def)

lemma published_leftover: "map fst (leftover (published_tools js)) = [''build_recipe'', ''read_user_notes'', ''post_chat_message'']"
proof -
  have "map fst (leftover (published_tools js)) = filter (\<lambda>n. n \<notin> set grouped) (map fst (published_tools js))"
    by (simp add: leftover_def filter_map comp_def)
  then show ?thesis unfolding published_names by (simp add: HANDLERS_def grouped_def GROUPS_def)
qed

lemma reference_complete_witness:
  "\<forall>js. \<exists>ls. reference_lines (published_tools js) = Inr ls \<and>
     woven (map (section_of (published_tools js)) (grouped @ [''build_recipe'', ''read_user_notes'', ''post_chat_message''])) ls"
proof
  fix js
  have ok: "map_ok (published_tools js)" using handlers_distinct by (simp add: map_ok_def published_names)
  have sub: "set grouped \<subseteq> fst ` set (published_tools js)"
    unfolding set_map [symmetric] published_names by (simp add: HANDLERS_def grouped_def GROUPS_def)
  show "\<exists>ls. reference_lines (published_tools js) = Inr ls \<and>
     woven (map (section_of (published_tools js)) (grouped @ [''build_recipe'', ''read_user_notes'', ''post_chat_message''])) ls"
    using reference_complete [OF ok] sub by (auto simp: documented_def published_leftover split: sum.splits)
qed

end
