(* ===== verification/GenDocs.thy ===== *)
theory GenDocs
  imports ToolReference TestClient
begin

text \<open>
  The remaining generators under \<open>scripts/\<close>: the contract census (\<open>gen-census.ts\<close>, over the
  dispositions of \<open>packages/schemas/src/census.ts\<close>), the server version (\<open>gen-version.ts\<close>) and
  the transcript card of the README (\<open>gen-demo-svg.ts\<close>).  What the census measures on the source
  tree is an argument.  A string is the list of its UTF-8 bytes; white space is that of ASCII.
\<close>

section \<open>Dispositions of the census\<close>

datatype disposition = StructurallyFixed | ClientConsumed | Reserved

fun disposition_str :: "disposition \<Rightarrow> string" where
  "disposition_str StructurallyFixed = ''structurally-fixed''"
| "disposition_str ClientConsumed = ''client-consumed''"
| "disposition_str Reserved = ''reserved''"

record census_entry =
  ce_symbol :: string
  ce_kind :: string
  ce_disposition :: disposition
  ce_reason :: string

definition census_exception :: "string \<Rightarrow> string \<Rightarrow> disposition \<Rightarrow> string \<Rightarrow> census_entry" where
  "census_exception s k d r = \<lparr>ce_symbol = s, ce_kind = k, ce_disposition = d, ce_reason = r\<rparr>"

definition CENSUS_EXCEPTIONS :: "census_entry list" where
  "CENSUS_EXCEPTIONS = [
     census_exception (''OPAQUE_STATE_UNSUPPORTED'') (''error_code'') StructurallyFixed
       (''No operation writes opaque module state, so nothing can reach the condition this code '' @
        ''reports. It stays published because its absence is the guarantee: a client that sees the '' @
        ''code defined and never returned knows the boundary is enforced by there being no such '' @
        ''operation at all, not by a runtime check that might be missed.''),
     census_exception (''smoothMs'') (''schema_property'') Reserved
       (''TODO: phase 4 '' @ [CHR 0xE2, CHR 0x80, CHR 0x94] @ '' implement parameter ramping. This is the worst kind of dead field: it is '' @
        ''accepted by the schema and silently ignored, so a client asking for a smooth change gets '' @
        ''a jump and no error.''),
     census_exception (''tests/fuzz'') (''doc_referent'') Reserved
       (''TODO: phase 8 '' @ [CHR 0xE2, CHR 0x80, CHR 0x94] @ '' populate it. It is listed in pnpm-workspace.yaml and in the spec'' @ [CHR 0x27] @ ''s '' @
        ''monorepo layout, but is an empty untracked directory: the fast-check properties live in '' @
        ''packages/schemas/test and the libFuzzer targets in tests/cpp.''),
     census_exception (''opaqueStateDisclosed'') (''constant_field'') StructurallyFixed
       (''Emitted only inside the includeOpaqueState branch, so its false case is unreachable. Kept '' @
        ''as an explicit label because a client deciding whether state was disclosed should read a '' @
        ''field that says so, not infer it from whether a sibling key happens to be present.''),
     census_exception (''undoable'') (''constant_field'') StructurallyFixed
       (''A transaction is applied as a single history::ComplexAction, so a committed plan is always '' @
        ''undoable. The field is published because the guarantee is worth stating to a client that '' @
        ''would otherwise have to assume the weaker case.''),
     census_exception (''undone'') (''constant_field'') StructurallyFixed
       (''The undo handler emits a payload only on success and returns an error otherwise, so a '' @
        ''false value can never be constructed. Present so the success result is self-describing.''),
     census_exception (''undoEligible'') (''constant_field'') Reserved
       (''TODO: phase 6 '' @ [CHR 0xE2, CHR 0x80, CHR 0x94] @ '' delete. It is a second copy of the same always-true claim as undoable, on '' @
        ''the commit result rather than the preview result.''),
     census_exception (''requiredTemporaryInstantiation'') (''constant_field'') Reserved
       (''TODO: phase 6 '' @ [CHR 0xE2, CHR 0x80, CHR 0x94] @ '' delete. Metadata can only be produced by instantiating the model once, so '' @
        ''this is true in every response, including cache hits which replay the stored payload '' @
        ''verbatim. The field that actually varies, and that a client should read, is cached.''),
     census_exception (''copyCables'') (''schema_property'') Reserved
       (''TODO: phase 4 '' @ [CHR 0xE2, CHR 0x80, CHR 0x94] @ '' implement duplicate_module, whose operation this field belongs to. The '' @
        ''operation is currently refused outright, so the field cannot be reached.'')]"

section \<open>The census document\<close>

text \<open>What the gates of the contract tests report.\<close>

record constant_key =
  ck_key :: string
  ck_sites :: "(string \<times> nat \<times> string option) list"

record census_result =
  cr_implemented :: bool
  cr_exception :: bool
  cr_text :: string

record census_inputs =
  ci_results :: "census_result list"
  ci_kinds :: "string list"
  ci_roots :: nat
  ci_sources :: nat
  ci_docs :: nat
  ci_keys :: nat
  ci_constants :: "constant_key list"
  ci_generated :: nat
  ci_exempt :: "(string \<times> string) list"
  ci_emitted :: nat
  ci_unemitted :: "string list"

fun replace_char :: "char \<Rightarrow> string \<Rightarrow> string \<Rightarrow> string" where
  "replace_char c by [] = []"
| "replace_char c by (x # xs) = (if x = c then by @ replace_char c by xs else x # replace_char c by xs)"

definition todo :: string where
  "todo = ''TODO:''"

definition drop_todo :: "string \<Rightarrow> string" where
  "drop_todo s = (if starts_with s (todo @ '' '') then drop (length (todo @ '' '')) s else s)"

definition escape_bars :: "string \<Rightarrow> string" where
  "escape_bars s = replace_char (CHR ''|'') [CHR 0x5C, CHR ''|''] s"

definition debts :: "census_entry list" where
  "debts = filter (\<lambda>e. starts_with (ce_reason e) todo) CENSUS_EXCEPTIONS"

definition settled_entries :: "census_entry list" where
  "settled_entries = filter (\<lambda>e. \<not> starts_with (ce_reason e) todo) CENSUS_EXCEPTIONS"

text \<open>\<open>byKind\<close>: the number of declarations of each kind, in the order of first occurrence.\<close>

definition by_kind :: "string list \<Rightarrow> (string, nat) jsmap" where
  "by_kind = foldl (\<lambda>m k. map_set k (Suc (case map_get m k of None \<Rightarrow> 0 | Some n \<Rightarrow> n)) m) []"

definition pair_text :: "string \<times> nat \<Rightarrow> string" where
  "pair_text kn = fst kn @ '','' @ nat_str (snd kn)"

definition cell :: "string list \<Rightarrow> string" where
  "cell cs = ''| '' @ join_with '' | '' cs @ '' |''"

definition surface_lines :: "census_inputs \<Rightarrow> string list" where
  "surface_lines c = [''# Contract census'',
     [],
     ''> Generated by `scripts/gen-census.ts` from the gates in `tests/contract`.'',
     ''> Do not edit by hand '' @ [CHR 0xE2, CHR 0x80, CHR 0x94] @ '' re-run `pnpm run gen`.'',
     [],
     ''Every symbol this codebase publishes to a client '' @ [CHR 0xE2, CHR 0x80, CHR 0x94] @ '' an error code, a risk flag, a'',
     ''limit, a schema property '' @ [CHR 0xE2, CHR 0x80, CHR 0x94] @ '' is a promise. This census fails the build when a promise'',
     ''has no implementation behind it and no stated reason for standing alone.'',
     [],
     ''## Surface'',
     [],
     ''| Declared kind | Count |'',
     ''| --- | ---: |''] @
     map (\<lambda>(k, n). cell [k, nat_str n]) (sort_by (\<lambda>a b. unit_le (pair_text a) (pair_text b)) (by_kind (ci_kinds c))) @
     [''| **total** | **'' @ nat_str (length (ci_kinds c)) @ ''** |'', [],
      ''Scanned across '' @ nat_str (ci_roots c) @ '' source roots and '' @ nat_str (ci_sources c) @ '' files,'',
      ''plus '' @ nat_str (ci_docs c) @ '' documentation files and '' @ nat_str (ci_keys c) @ '' distinct JSON keys'',
      ''emitted by the plugin.'', [], ''## Outstanding debts'', []]"

definition by_symbol :: "(string \<Rightarrow> string \<Rightarrow> bool) \<Rightarrow> census_entry list \<Rightarrow> census_entry list" where
  "by_symbol le = sort_by (\<lambda>a b. le (ce_symbol a) (ce_symbol b))"

definition debt_line :: "census_entry \<Rightarrow> string" where
  "debt_line e = cell [code_span (ce_symbol e), ce_kind e, escape_bars (drop_todo (ce_reason e))]"

definition settled_line :: "census_entry \<Rightarrow> string" where
  "settled_line e = cell [code_span (ce_symbol e), ce_kind e, disposition_str (ce_disposition e), escape_bars (ce_reason e)]"

definition debt_lines :: "(string \<Rightarrow> string \<Rightarrow> bool) \<Rightarrow> string list" where
  "debt_lines le = (if debts = [] then [''None. Every published symbol has an implementation or a settled disposition.'', []]
     else [nat_str (length debts) @ '' published symbols are declared ahead of their implementation.'', [],
        ''| Symbol | Kind | Owed |'', ''| --- | --- | --- |''] @ map debt_line (by_symbol le debts) @ [[]])"

definition settled_lines :: "(string \<Rightarrow> string \<Rightarrow> bool) \<Rightarrow> string list" where
  "settled_lines le = [''## Settled dispositions'', []] @ (if settled_entries = [] then [''None.'', []]
     else [''These have no implementation reference and are not going to get one. Each states why'', ''it is published anyway.'', [],
        ''| Symbol | Kind | Disposition | Reason |'', ''| --- | --- | --- | --- |''] @ map settled_line (by_symbol le settled_entries) @ [[]])"

definition constant_line :: "constant_key \<Rightarrow> string" where
  "constant_line p = cell [code_span (ck_key p),
     code_span (case ck_sites p of (_, _, Some v) # _ \<Rightarrow> v | _ \<Rightarrow> ''?''),
     join_with '', '' (map (\<lambda>(f, l, _). code_span (f @ '':'' @ nat_str l)) (ck_sites p))]"

definition constant_lines :: "census_inputs \<Rightarrow> string list" where
  "constant_lines c = [''## Always-constant fields'', [],
      nat_str (length (ci_constants c)) @ '' of the '' @ nat_str (ci_keys c) @ '' JSON keys the plugin emits can'',
      ''only ever carry one value. A token scan cannot see this, because the key literal is'',
      ''present either way; the gate matches the jansson call shape instead.'', [],
      ''| Field | Value | Emitted at |'', ''| --- | --- | --- |''] @ map constant_line (ci_constants c)"

definition header_census_lines :: "(string \<Rightarrow> string \<Rightarrow> bool) \<Rightarrow> census_inputs \<Rightarrow> string list" where
  "header_census_lines le c = [[], ''## The generated C++ header'', [],
      ''`scripts/gen-cpp.ts` emits '' @ nat_str (ci_generated c) @ '' top-level symbols, and every one must be read by'',
      ''the plugin'' @ [CHR 0x27] @ ''s own hand-written C++. Tests do not count: a symbol that lives only in its own'',
      ''round-trip test is still dead in production. Two of these tables shipped with no reader at'',
      ''all while the plugin read payloads with accessors that default silently, so everything needed'',
      ''to refuse a malformed frame was present and unused.'', [],
      nat_str (length (ci_exempt c)) @ '' symbols are exempt, with reasons:'', [],
      ''| Symbol | Why it has no reader |'', ''| --- | --- |''] @
     map (\<lambda>(s, r). cell [code_span s, r]) (sort_by (\<lambda>a b. le (fst a) (fst b)) (ci_exempt c)) @
     [[], ''The plugin emits '' @ nat_str (ci_emitted c) @ '' error-code string literals, each checked against `ERROR_CODES`.'',
      ''The generated `ErrorCode` enum has no C++ caller, so a typo would otherwise compile and reach'',
      ''a client that branches on the code.'', [],
      ''Declared codes the plugin never raises (the server'' @ [CHR 0x27] @ ''s to emit): '' @
        (let t = join_with '', '' (map code_span (ci_unemitted c)) in if t = [] then ''none'' else t) @ ''.'']"

definition limits_of_gates :: "string list" where
  "limits_of_gates = [[],
     ''## What these gates do not cover'',
     [],
     ''Stated so the census is not read as a stronger claim than it is.'',
     [],
     ''- **Reachability.** A symbol named inside an unreachable branch counts as implemented.'',
     ''  Most sharply: a value named only in the code that *refuses* it passes. `duplicate_module`'',
     ''  satisfies the census today entirely on the strength of the error message rejecting it.'',
     ''- **Constancy beyond one syntactic form.** The constant-field gate reads single-line'',
     ''  `json_object_set_new(obj, '' @ [CHR 0x22] @ ''key'' @ [CHR 0x22] @ '', json_true())` calls. A field built across lines, through'',
     ''  a helper, or with `json_object_set`, is invisible to it.'',
     ''- **Semantic truth.** The gates check that a symbol is named somewhere, never that what is'',
     ''  said about it is true. A description can be confidently wrong and pass everything here.'',
     ''- **Client-side consumption.** The consumer of an error code or a risk flag is the LLM'',
     ''  client, outside this repo. The census cannot require a consumer for these, only a producer '' @ [CHR 0xE2, CHR 0x80, CHR 0x94],
     ''  so a flag that is emitted and universally ignored still passes.'',
     ''- **Producer drift.** Whether the plugin still emits what the frozen fixtures record is'',
     ''  mostly a different gate (`tests/integration` capture `--verify`), and mostly needs a live'',
     ''  Rack. The exception is a producer extracted into Rack-free `core/`, which `tests/cpp` can'',
     ''  compare against the captured bytes directly -- `buildChatPollPayload` against'',
     ''  `tests/fixtures/bridge/chat.poll.json` is the one that does. Extraction is what buys the'',
     ''  static check; the census itself still cannot make it.'',
     ''- **Non-macOS runtime behaviour.** Everything here is static analysis. It says nothing about'',
     ''  what the plugin does when it runs, on any platform.'',
     [],
     ''Comment stripping is applied before every scan so that a comment naming a symbol cannot'',
     ''stand in for an implementation. On the current tree it changes no verdict '' @ [CHR 0xE2, CHR 0x80, CHR 0x94] @ '' it is there to'',
     ''keep a future comment from silently satisfying the gate, not because it is load-bearing today.'',
     []]"

definition census_lines :: "(string \<Rightarrow> string \<Rightarrow> bool) \<Rightarrow> census_inputs \<Rightarrow> string list" where
  "census_lines le c = surface_lines c @ debt_lines le @ settled_lines le @ constant_lines c @ header_census_lines le c @ limits_of_gates"

text \<open>A symbol with neither an implementation nor a stated reason stops the document.\<close>

definition orphans :: "census_inputs \<Rightarrow> census_result list" where
  "orphans c = filter (\<lambda>r. \<not> cr_implemented r \<and> \<not> cr_exception r) (ci_results c)"

definition gen_census :: "(string \<Rightarrow> string \<Rightarrow> bool) \<Rightarrow> census_inputs \<Rightarrow> string + string" where
  "gen_census le c = (if orphans c \<noteq> []
     then Inl (''census is red; refusing to write a document claiming otherwise.'' @ newline_text @
       join_with newline_text (map (\<lambda>r. ''  '' @ cr_text r) (orphans c)))
     else Inr (trimEnd (squeeze 0 (join_with newline_text (census_lines le c))) @ newline_text))"

section \<open>The version\<close>

text \<open>\<open>/^\d+\.\d+\.\d+(?:-[0-9A-Za-z.-]+)?$/\<close>.\<close>

definition digits :: "string \<Rightarrow> string \<times> string" where
  "digits s = (takeWhile digit s, dropWhile digit s)"

definition after_number :: "string \<Rightarrow> string option" where
  "after_number s = (case digits s of (d, r) \<Rightarrow> if d = [] then None else Some r)"

definition after_dot :: "string \<Rightarrow> string option" where
  "after_dot s = (case s of [] \<Rightarrow> None | c # r \<Rightarrow> if c = CHR ''.'' then Some r else None)"

definition suffix_char :: "char \<Rightarrow> bool" where
  "suffix_char c = (digit c \<or> c = CHR ''.'' \<or> c = CHR ''-'' \<or> (65 \<le> (of_char c :: nat) \<and> (of_char c :: nat) \<le> 90) \<or>
     (97 \<le> (of_char c :: nat) \<and> (of_char c :: nat) \<le> 122))"

definition obind :: "'a option \<Rightarrow> ('a \<Rightarrow> 'b option) \<Rightarrow> 'b option" where
  "obind x f = (case x of None \<Rightarrow> None | Some a \<Rightarrow> f a)"

definition semver :: "string \<Rightarrow> bool" where
  "semver s = (case obind (after_number s) (\<lambda>a. obind (after_dot a) (\<lambda>b. obind (after_number b) (\<lambda>c. obind (after_dot c) after_number))) of
     None \<Rightarrow> False
   | Some r \<Rightarrow> r = [] \<or> (hd r = CHR ''-'' \<and> tl r \<noteq> [] \<and> list_all suffix_char (tl r)))"

definition version_module :: "json option \<Rightarrow> string + string" where
  "version_module v = (case v of
     Some (JStr s) \<Rightarrow> if semver s then Inr (
       ''// Generated by scripts/gen-version.ts from apps/mcp-server/package.json.'' @ newline_text @
     ''// Do not edit by hand '' @ [CHR 0xE2, CHR 0x80, CHR 0x94] @ '' run `pnpm run gen`. Verified in CI by `pnpm run check:gen`.'' @ newline_text @
     newline_text @
     ''/** The server'' @ [CHR 0x27] @ ''s own version, reported by get_rack_status and in the MCP handshake. */'' @ newline_text @
     ''export const SERVER_VERSION = '' @ str_json s @ '';'' @ newline_text @
     [])
       else Inl (''apps/mcp-server/package.json has no usable semver version: '' @ s)
   | _ \<Rightarrow> Inl (''apps/mcp-server/package.json has no usable semver version: '' @ (case v of None \<Rightarrow> ''undefined'' | Some j \<Rightarrow> stringify j)))"

section \<open>The transcript card\<close>

text \<open>Lengths in tenths of a pixel: PAD 22, HEADER 44, LH 21, FS 13.5, CHAR_W 8.1.\<close>

definition esc :: "string \<Rightarrow> string" where
  "esc s = replace_char (CHR ''>'') ''&gt;'' (replace_char (CHR ''<'') ''&lt;'' (replace_char (CHR ''&'') ''&amp;'' s))"

definition space :: "char \<Rightarrow> bool" where
  "space c = (c \<in> {CHR '' '', CHR 0x09, CHR 0x0A, CHR 0x0B, CHR 0x0C, CHR 0x0D})"

definition trimStart :: "string \<Rightarrow> string" where
  "trimStart s = dropWhile space s"

fun contains :: "string \<Rightarrow> string \<Rightarrow> bool" where
  "contains p [] = (p = [])"
| "contains p (c # r) = (starts_with (c # r) p \<or> contains p r)"

definition good_words :: "string list" where
  "good_words = [''valid '' @ [CHR 0xE2, CHR 0x9C, CHR 0x93], ''committed'', ''resolved'', ''connected'']"

definition line_color :: "string \<Rightarrow> string" where
  "line_color l = (if starts_with l ''$'' then ''#7ee787''
     else if starts_with l [CHR 0xE2, CHR 0x86, CHR 0x92] then ''#58a6ff''
     else if starts_with l ''#'' then ''#768390''
     else if starts_with (trimStart l) [CHR 0xE2, CHR 0x86, CHR 0x90] then
       (if list_ex (\<lambda>p. contains p l) good_words then ''#56d364'' else ''#adbac7'')
     else ''#adbac7'')"

definition dq :: "string \<Rightarrow> string" where
  "dq s = [CHR 0x22] @ s @ [CHR 0x22]"

definition italic :: "string \<Rightarrow> string" where
  "italic l = (if starts_with l ''#'' then '' font-style='' @ dq ''italic'' else [])"

definition fixed1 :: "nat \<Rightarrow> string" where
  "fixed1 t = nat_str (t div 10) @ ''.'' @ nat_str (t mod 10)"

fun split_lines :: "string \<Rightarrow> string list" where
  "split_lines [] = [[]]"
| "split_lines (c # r) = (if c = CHR 0x0A then [] # split_lines r
     else (case split_lines r of [] \<Rightarrow> [[c]] | l # ls \<Rightarrow> (c # l) # ls))"

definition demo_row :: "nat \<times> string \<Rightarrow> string" where
  "demo_row il = (case il of (i, l) \<Rightarrow> if trimStart l = [] then [] else
     (let indent = length l - length (trimStart l) in
      ''<text x='' @ dq (fixed1 (220 + 81 * indent)) @ '' y='' @ dq (fixed1 (795 + 210 * i)) @ '' fill='' @ dq (line_color l) @ italic l @
      ''>'' @ esc (trimStart l) @ ''</text>''))"

definition demo_rows :: "string \<Rightarrow> string list" where
  "demo_rows raw = (let ls = split_lines (trimEnd raw) in filter (\<lambda>r. r \<noteq> []) (map demo_row (zip [0..<length ls] ls)))"

definition renderDemoSvg :: "string \<Rightarrow> string" where
  "renderDemoSvg raw = (let hh = 84 + 21 * length (split_lines (trimEnd raw));
     rows = join_with (newline_text @ ''    '') (demo_rows raw)
   in join_with newline_text [
     ''<svg xmlns='' @ [CHR 0x22] @ ''http://www.w3.org/2000/svg'' @ [CHR 0x22] @ '' width='' @ [CHR 0x22] @ nat_str 820 @ [CHR 0x22] @ '' height='' @ [CHR 0x22] @ nat_str hh @ [CHR 0x22] @ '' viewBox='' @ [CHR 0x22] @ ''0 0 '' @ nat_str 820 @ '' '' @ nat_str hh @ [CHR 0x22] @ '' role='' @ [CHR 0x22] @ ''img'' @ [CHR 0x22] @ '' aria-label='' @ [CHR 0x22] @ ''Rack MCP live session transcript'' @ [CHR 0x22] @ ''>'',
     ''  <rect x='' @ [CHR 0x22] @ ''0.5'' @ [CHR 0x22] @ '' y='' @ [CHR 0x22] @ ''0.5'' @ [CHR 0x22] @ '' width='' @ [CHR 0x22] @ nat_str 819 @ [CHR 0x22] @ '' height='' @ [CHR 0x22] @ nat_str (hh - 1) @ [CHR 0x22] @ '' rx='' @ [CHR 0x22] @ ''11'' @ [CHR 0x22] @ '' fill='' @ [CHR 0x22] @ ''#0d1117'' @ [CHR 0x22] @ '' stroke='' @ [CHR 0x22] @ ''#30363d'' @ [CHR 0x22] @ ''/>'',
     ''  <rect x='' @ [CHR 0x22] @ ''0.5'' @ [CHR 0x22] @ '' y='' @ [CHR 0x22] @ ''0.5'' @ [CHR 0x22] @ '' width='' @ [CHR 0x22] @ nat_str 819 @ [CHR 0x22] @ '' height='' @ [CHR 0x22] @ nat_str 44 @ [CHR 0x22] @ '' rx='' @ [CHR 0x22] @ ''11'' @ [CHR 0x22] @ '' fill='' @ [CHR 0x22] @ ''#161b22'' @ [CHR 0x22] @ ''/>'',
     ''  <rect x='' @ [CHR 0x22] @ ''0.5'' @ [CHR 0x22] @ '' y='' @ [CHR 0x22] @ nat_str 33 @ [CHR 0x22] @ '' width='' @ [CHR 0x22] @ nat_str 819 @ [CHR 0x22] @ '' height='' @ [CHR 0x22] @ ''12'' @ [CHR 0x22] @ '' fill='' @ [CHR 0x22] @ ''#161b22'' @ [CHR 0x22] @ ''/>'',
     ''  <circle cx='' @ [CHR 0x22] @ ''24'' @ [CHR 0x22] @ '' cy='' @ [CHR 0x22] @ ''22'' @ [CHR 0x22] @ '' r='' @ [CHR 0x22] @ ''6'' @ [CHR 0x22] @ '' fill='' @ [CHR 0x22] @ ''#ff5f56'' @ [CHR 0x22] @ ''/>'',
     ''  <circle cx='' @ [CHR 0x22] @ ''44'' @ [CHR 0x22] @ '' cy='' @ [CHR 0x22] @ ''22'' @ [CHR 0x22] @ '' r='' @ [CHR 0x22] @ ''6'' @ [CHR 0x22] @ '' fill='' @ [CHR 0x22] @ ''#febc2e'' @ [CHR 0x22] @ ''/>'',
     ''  <circle cx='' @ [CHR 0x22] @ ''64'' @ [CHR 0x22] @ '' cy='' @ [CHR 0x22] @ ''22'' @ [CHR 0x22] @ '' r='' @ [CHR 0x22] @ ''6'' @ [CHR 0x22] @ '' fill='' @ [CHR 0x22] @ ''#27c93f'' @ [CHR 0x22] @ ''/>'',
     ''  <text x='' @ [CHR 0x22] @ nat_str 410 @ [CHR 0x22] @ '' y='' @ [CHR 0x22] @ ''27'' @ [CHR 0x22] @ '' text-anchor='' @ [CHR 0x22] @ ''middle'' @ [CHR 0x22] @ '' fill='' @ [CHR 0x22] @ ''#768390'' @ [CHR 0x22] @ '' font-family='' @ [CHR 0x22] @ ''ui-monospace,SFMono-Regular,Menlo,monospace'' @ [CHR 0x22] @ '' font-size='' @ [CHR 0x22] @ ''12.5'' @ [CHR 0x22] @ ''>rack-mcp '' @ [CHR 0xE2, CHR 0x80, CHR 0x94] @ '' live MCP session (real output)</text>'',
     ''  <g font-family='' @ [CHR 0x22] @ ''ui-monospace,SFMono-Regular,Menlo,Consolas,monospace'' @ [CHR 0x22] @ '' font-size='' @ [CHR 0x22] @ fixed1 135 @ [CHR 0x22] @ '' xml:space='' @ [CHR 0x22] @ ''preserve'' @ [CHR 0x22] @ ''>'',
     ''    '' @ rows,
     ''  </g>'',
     ''</svg>''] @ newline_text)"

lemma replace_char_keeps: "c \<notin> set by \<Longrightarrow> c \<notin> set (replace_char d by s) \<longleftrightarrow> c = d \<or> c \<notin> set s"
  by (induction s) auto

text \<open>The transcript cannot close the element it is written into.\<close>

lemma esc_no_markup: "CHR ''<'' \<notin> set (esc s)" "CHR ''>'' \<notin> set (esc s)"
  by (simp_all add: esc_def replace_char_keeps)

section \<open>Facts of the census\<close>

text \<open>Every \<open>reserved\<close> entry is a debt, and nothing else is.\<close>

lemma reserved_are_debts: "list_all (\<lambda>e. starts_with (ce_reason e) todo = (ce_disposition e = Reserved)) CENSUS_EXCEPTIONS"
  by (simp add: CENSUS_EXCEPTIONS_def census_exception_def starts_with_def todo_def)

lemma census_partition: "length debts + length settled_entries = length CENSUS_EXCEPTIONS"
  by (simp add: debts_def settled_entries_def sum_length_filter_compl)

lemma census_refuses_orphans: "(\<exists>t. gen_census le c = Inr t) \<longleftrightarrow> list_all (\<lambda>r. cr_implemented r \<or> cr_exception r) (ci_results c)"
  by (auto simp: gen_census_def orphans_def filter_empty_conv list_all_iff)

end

