(* ===== verification/Spec2Isabelle.thy ===== *)
theory Spec2Isabelle
  imports Prelude Errors RateLimit Framing Registry RecipeDocs TxnSystem Findings PatchFiles Client AuditLog Connection
    Server ToolReplies TestClient GenCpp GenDocs
begin

text \<open>
  Verification development for \<open>rack-mcp\<close>, the TypeScript MCP server of the RackMCP plugin for
  VCV Rack.  A client calls tools and reads \<open>rack://\<close> resources; the server
  (\<open>apps/mcp-server\<close>) talks to one Rack instance over a framed, authenticated socket
  (\<open>packages/protocol\<close>), knows the semantics of the stock modules (\<open>packages/adapters\<close>), a
  library of recipes (\<open>packages/recipes\<close>) and the contracts of every surface
  (\<open>packages/schemas\<close>).  A change of the patch is previewed by the plugin, cached under its
  hash, confirmed with a signed token when it is risky, and committed once.

  Parts, in the order in which they build on one another:

  Prelude: JSON values, the JavaScript Map, strings, the state-and-exception monad and its
  weakest preconditions, the locales of keyed and expiring stores.
  Errors: \<open>schemas/errors.ts\<close>, \<open>limits.ts\<close>, \<open>mcp-server/errors.ts\<close>; every throw becomes a payload of
  the published error schema.
  RateLimit: \<open>ratelimit.ts\<close>; the sliding window.
  Utf8, Framing: \<open>protocol/framing.ts\<close>; the incremental decoder refines a parser of the whole
  stream and inverts the encoder for every chunking.
  Adapters, AdapterDocsCore, AdapterDocsVoice, AdapterDocsUtil, Registry: the adapter documents
  as data, their schema, and the registry with its exact lookup.
  Operations, Recipes, RecipeDocs: the patch operations, the resolution and expansion of
  recipes, and the shipped recipes with the plans they build.
  Json: \<open>JSON.stringify\<close>, \<open>JSON.parse\<close> and base64url, for the tokens.
  Transactions, TxnSystem: \<open>transactions.ts\<close>.  Each handler is cut at its awaits into segments;
  Transactions has the segments, the handlers and the tokens, TxnSystem the interleavings of
  any number of calls as a step relation, with the invariants of the reachable states.
  Flow, Cycles, Analysis, Validation, Findings: \<open>analysis.ts\<close>; reachability and longest paths,
  Tarjan's algorithm with its explicit stack and its \<open>do\<close> loop, \<open>describePatch\<close> with the text it
  shows, and \<open>validatePatch\<close>.
  Paths, PatchFiles: \<open>paths.ts\<close> and \<open>patchfiles.ts\<close>; a file system with links, the containment
  policy, and the handlers that save, load, clear and restore.
  Client: \<open>protocol/client.ts\<close>; the session with its pending calls, timers and teardown.
  Connection: \<open>protocol/discovery.ts\<close> and \<open>connection.ts\<close>; discovery, selection, writer lease,
  reconnection.
  AuditLog: \<open>audit.ts\<close>; the log stays bounded within a process, and the recent view is compared
  with the lines of the whole files, each with the offset at which it begins.
  Schema, WireSchemas, ToolSchemas, ResourceSchemas: the zod language as a datatype with its
  acceptance predicate, and every schema and registry of \<open>packages/schemas\<close> as data.
  Encoding: the typed models as JSON; the schemas accept exactly the valid ones.
  ToolContext, Telemetry, Resources, Tools: the state of the server and the handlers of
  \<open>telemetry.ts\<close>, \<open>chat.ts\<close>, \<open>resources.ts\<close>, \<open>projections.ts\<close> and \<open>tools.ts\<close>, with their dispatch.
  ToolSafety, ToolReplies: what holds of all tools together: the read-only annotations, and
  the output schemas.
  Config, Server: \<open>config.ts\<close>, \<open>transport-compat.ts\<close>, \<open>prompts/index.ts\<close> and the wrapper of
  \<open>server.ts\<close> around a tool call.
  TestClient: \<open>packages/test-client\<close>, and how it reads the replies of the server.
  JsonSchema, GenSchemas, GenCpp: what a JSON Schema document accepts; \<open>scripts/gen-schemas.ts\<close>
  and \<open>gen-cpp.ts\<close>, which carry the contracts to the plugin, with the plugin's field check over
  the values it reads from the text the server writes.
  ToolReference, GenDocs: the generators of the documents, \<open>gen-tool-reference.ts\<close>,
  \<open>gen-census.ts\<close> with \<open>schemas/census.ts\<close>, \<open>gen-version.ts\<close> and \<open>gen-demo-svg.ts\<close>.

  Conventions.  A class is a record and its methods are functions on it; a thrown value is the
  left of a sum; a JavaScript number is an exact rational (or \<open>js_number\<close> where infinities and
  NaN matter), a string a list of characters, except where UTF-16 code units or bytes matter.
  What the server only calls (the socket, the clock, the file system's refusals, the random
  source, the MAC, the parsers of third-party formats) is an argument.  A JavaScript string is
  held as the bytes of its UTF-8 encoding; \<open>text_units\<close> reads its UTF-16 code units.

  Awaits.  What may happen during an await differs from layer to layer.  In TxnSystem any number
  of calls interleave at every await, so its invariants hold whatever runs meanwhile.  In
  Connection an await is an arbitrary change of the manager's own state, in PatchFiles an
  arbitrary change of everything the handler shares with others.  The handlers of Transactions
  (\<open>preview\<close>, \<open>commit\<close>, \<open>previewAndMaybeCommit\<close>) and the lifted calls of ToolContext are narrower:
  during an await of \<open>on_txn\<close> the transaction manager, and during one of \<open>on_conn\<close> everything but
  the connection manager, is as it was before.  The properties about whole handlers are
  statements about one call with no other tool call between its segments.

  Bounds and fuel.  Tarjan's loops are partial functions (\<open>None\<close> is not returning), proved to
  return on every snapshot; the longest-path and reachability loops are functions with a
  termination proof.  The calls of the connection manager and the wait for the
  command pump call each other, so they take fuel; its end is an error of its own that no
  handler catches, and \<open>wait_for_ready_returns\<close> says how much a wait needs.  \<open>SYMLOOP_MAX\<close> and
  \<open>MAX_LINK_HOPS\<close> are those of the system and of the code.

  Not modelled: the registration calls of the MCP SDK, the process entry point (\<open>index.ts\<close>),
  logging (\<open>logger.ts\<close>) and the generated version constant; what the generators read and write
  (their documents are arguments and results), \<open>z.toJSONSchema\<close>, which belongs to zod, and the
  gates of \<open>tests/contract\<close>; the C++ plugin, but for its field check.  Windows paths (the \<open>win32\<close> branches of \<open>paths.ts\<close>) are left out:
  the model is the POSIX build.  Decimal numbers are not rounded to doubles.
\<close>

end
